(* ===== verification/CLib.thy ===== *)
theory CLib
  imports Main "HOL-Library.Monad_Syntax"
begin

text \<open>
  The prelude: C strings in fixed-size buffers, the stdio and string.h calls the program
  makes on them, and the generic lemmas the components share.

  A C string is the list of its characters before the terminating NUL. Every operation that
  writes into a buffer of \<open>n\<close> bytes is told \<open>n\<close>; a write that does not fit (the string
  and its NUL) has no defined behaviour in C and is the value \<open>None\<close>. Throughout the
  development \<open>None\<close> of an \<open>option\<close> result stands for undefined behaviour of the C
  code, never for an error the code reports: reported errors are return values.
\<close>

named_theorems cstr \<open>rewriting of the C string operations\<close>

abbreviation nl :: char where "nl \<equiv> CHR 0x0A"

subsection \<open>Buffers\<close>

text \<open>\<open>snprintf(buf, n, ...)\<close>: the formatted text, cut to the \<open>n - 1\<close> characters that fit.\<close>

definition snprintf :: "nat \<Rightarrow> string \<Rightarrow> string" where
  "snprintf n s = take (n - 1) s"

text \<open>\<open>strcat(buf, s)\<close> for a buffer of \<open>n\<close> bytes that holds \<open>b\<close>.\<close>

definition strcat :: "nat \<Rightarrow> string \<Rightarrow> string \<Rightarrow> string option" where
  "strcat n b s = (if length b + length s < n then Some (b @ s) else None)"

text \<open>\<open>strcpy(buf, s)\<close>, and any other unbounded store of a string, into \<open>n\<close> bytes.\<close>

definition strcpy :: "nat \<Rightarrow> string \<Rightarrow> string option" where
  "strcpy n s = (if length s < n then Some s else None)"

text \<open>\<open>strncmp(a, b, n) == 0\<close>.\<close>

definition strncmp_eq :: "string \<Rightarrow> string \<Rightarrow> nat \<Rightarrow> bool" where
  "strncmp_eq a b n \<longleftrightarrow> take n a = take n b"

lemma snprintf_fits [cstr]: "length s < n \<Longrightarrow> snprintf n s = s"
  by (simp add: snprintf_def)

lemma length_snprintf [simp]: "0 < n \<Longrightarrow> length (snprintf n s) < n"
  by (simp add: snprintf_def)

lemma strcat_Some [cstr]: "length b + length s < n \<Longrightarrow> strcat n b s = Some (b @ s)"
  by (simp add: strcat_def)

lemma strcat_eq_Some: "strcat n b s = Some c \<longleftrightarrow> c = b @ s \<and> length c < n"
  by (auto simp: strcat_def)

lemma strcpy_Some [cstr]: "length s < n \<Longrightarrow> strcpy n s = Some s"
  by (simp add: strcpy_def)

lemma strcpy_eq_Some: "strcpy n s = Some c \<longleftrightarrow> c = s \<and> length s < n"
  by (auto simp: strcpy_def)

text \<open>
  A run of \<open>strcat\<close> calls that appends the pieces \<open>ss\<close> one after the other. The
  components write their runs call by call, as the code does, and \<open>strcats_bind\<close> and
  its kin bring such a run to this form.
\<close>

fun strcats :: "nat \<Rightarrow> string \<Rightarrow> string list \<Rightarrow> string option" where
  "strcats n b [] = Some b"
| "strcats n b (s # ss) = Option.bind (strcat n b s) (\<lambda>b'. strcats n b' ss)"

lemma strcats_eq:
  "length b < n \<Longrightarrow>
   strcats n b ss = (if length (b @ concat ss) < n then Some (b @ concat ss) else None)"
  by (induction ss arbitrary: b) (auto simp: strcat_def)

lemma strcat_as_strcats: "strcat n b s = strcats n b [s]"
  by (cases "strcat n b s") simp_all

lemma strcats_append:
  "Option.bind (strcats n b ss) (\<lambda>b'. strcats n b' ts) = strcats n b (ss @ ts)"
proof (induction ss arbitrary: b)
  case Nil
  then show ?case by simp
next
  case (Cons s ss)
  then show ?case by (cases "strcat n b s") simp_all
qed

declare strcats.simps(2) [simp del]

lemma strcats_if:
  "(if c then strcats n b ss else strcats n b ts) = strcats n b (if c then ss else ts)"
  by simp

subsection \<open>Decimal conversions\<close>

text \<open>\<open>%d\<close> of a non-negative number, and the way back.\<close>

definition digit :: "nat \<Rightarrow> char" where
  "digit k = char_of (48 + k)"

fun dec :: "nat \<Rightarrow> string" where
  "dec n = (if n < 10 then [digit n] else dec (n div 10) @ [digit (n mod 10)])"

declare dec.simps [simp del]

text \<open>\<open>%d\<close> of any number, and the padding of \<open>%<n>s\<close>.\<close>

definition dec_int :: "int \<Rightarrow> string" where
  "dec_int i = (if i < 0 then CHR ''-'' # dec (nat (- i)) else dec (nat i))"

definition pad_left :: "nat \<Rightarrow> string \<Rightarrow> string" where
  "pad_left n s = replicate (n - length s) CHR '' '' @ s"

definition isdigit :: "char \<Rightarrow> bool" where
  "isdigit c \<longleftrightarrow> 48 \<le> (of_char c :: nat) \<and> (of_char c :: nat) \<le> 57"

definition isspace :: "char \<Rightarrow> bool" where
  "isspace c \<longleftrightarrow> c = CHR '' '' \<or> (9 \<le> (of_char c :: nat) \<and> (of_char c :: nat) \<le> 13)"

definition digits_value :: "string \<Rightarrow> int" where
  "digits_value s = foldl (\<lambda>v c. 10 * v + (of_char c - 48)) 0 (takeWhile isdigit s)"

text \<open>
  The number a string begins with, and \<open>atoi\<close>, which is \<open>(int) strtol(s, NULL, 10)\<close>: a \<open>long\<close> has 32 bits, and a
  number that does not fit becomes the nearest one that does.
\<close>

definition number_value :: "string \<Rightarrow> int" where
  "number_value s =
     (let t = dropWhile isspace s in
      case t of
        [] \<Rightarrow> 0
      | c # cs \<Rightarrow> if c = CHR ''-'' then - digits_value cs
                  else if c = CHR ''+'' then digits_value cs
                  else digits_value t)"

definition atoi :: "string \<Rightarrow> int" where
  "atoi s = max (- (2 ^ 31)) (min (2 ^ 31 - 1) (number_value s))"

lemma of_char_digit [simp]: "k < 10 \<Longrightarrow> (of_char (digit k) :: nat) = 48 + k"
  by (simp add: digit_def)

lemma of_char_digit_int [simp]: "k < 10 \<Longrightarrow> (of_char (digit k) :: int) = 48 + int k"
proof -
  assume "k < 10"
  then have "int (of_char (digit k)) = 48 + int k" by simp
  then show ?thesis by (simp only: of_nat_of_char)
qed

lemma isdigit_digit [simp]: "k < 10 \<Longrightarrow> isdigit (digit k)"
  by (simp add: isdigit_def)

lemma digit_0: "digit 0 = CHR ''0''"
  by (rule of_char_eqI [where ?'a = nat]) simp

lemma dec_nonempty [simp]: "dec n \<noteq> []"
  by (subst dec.simps) simp

lemma dec_digits: "c \<in> set (dec n) \<Longrightarrow> isdigit c"
proof (induction n rule: dec.induct)
  case (1 n)
  then show ?case
    by (cases "n < 10") (auto simp: dec.simps [of n])
qed

lemma takeWhile_dec [simp]: "takeWhile isdigit (dec n) = dec n"
  by (simp add: takeWhile_eq_all_conv dec_digits)

lemma digits_value_dec [simp]: "digits_value (dec n) = int n"
proof (induction n rule: dec.induct)
  case (1 n)
  show ?case
  proof (cases "n < 10")
    case True
    then show ?thesis
      by (simp add: digits_value_def dec.simps [of n])
  next
    case False
    with 1 have "foldl (\<lambda>v c. 10 * v + (of_char c - 48)) 0 (dec (n div 10)) = int (n div 10)"
      by (simp add: digits_value_def)
    then have "foldl (\<lambda>v c. 10 * v + (of_char c - 48)) 0 (dec n) =
        10 * int (n div 10) + int (n mod 10)"
      using False by (subst dec.simps) simp
    also have "\<dots> = int n" by presburger
    finally show ?thesis by (simp add: digits_value_def)
  qed
qed

lemma digit_not_space: "isdigit c \<Longrightarrow> \<not> isspace c \<and> c \<noteq> CHR ''-'' \<and> c \<noteq> CHR ''+''"
  by (auto simp: isdigit_def isspace_def)

text \<open>The round trip of \<open>%d\<close> and \<open>0%d\<close> through \<open>atoi\<close>.\<close>

lemma number_value_digits:
  assumes "s \<noteq> []" and "\<And>c. c \<in> set s \<Longrightarrow> isdigit c"
  shows "number_value s = digits_value s"
proof (cases s)
  case (Cons c cs)
  then have "isdigit c" using assms(2) by simp
  then have "dropWhile isspace s = s" and "c \<noteq> CHR ''-''" and "c \<noteq> CHR ''+''"
    using Cons digit_not_space by auto
  then show ?thesis using Cons by (simp add: number_value_def)
qed (use assms in simp)

lemma number_value_dec [simp]: "number_value (dec n) = int n"
  by (simp add: number_value_digits dec_digits)

lemma number_value_0_dec [simp]: "number_value (CHR ''0'' # dec n) = int n"
proof -
  have d: "isdigit (CHR ''0'')" by (simp add: isdigit_def)
  then have "number_value (CHR ''0'' # dec n) = digits_value (CHR ''0'' # dec n)"
    by (intro number_value_digits) (auto dest: dec_digits)
  also have "\<dots> = digits_value (dec n)"
    using d by (simp add: digits_value_def)
  finally show ?thesis by simp
qed

lemma atoi_small: "number_value s = int n \<Longrightarrow> n < 2 ^ 31 \<Longrightarrow> atoi s = int n"
  by (simp add: atoi_def)

lemma atoi_word: "\<not> isdigit c \<Longrightarrow> \<not> isspace c \<Longrightarrow> c \<noteq> CHR ''-'' \<Longrightarrow> c \<noteq> CHR ''+'' \<Longrightarrow> atoi (c # s) = 0"
  by (simp add: atoi_def number_value_def digits_value_def)

lemma atoi_dec [simp]: "n < 2 ^ 31 \<Longrightarrow> atoi (dec n) = int n"
  by (simp add: atoi_small)

lemma atoi_0_dec [simp]: "n < 2 ^ 31 \<Longrightarrow> atoi (CHR ''0'' # dec n) = int n"
  by (simp add: atoi_small)

lemma length_dec_1: "n < 10 \<Longrightarrow> length (dec n) = 1"
  by (simp add: dec.simps)

lemma length_dec_2: "10 \<le> n \<Longrightarrow> n < 100 \<Longrightarrow> length (dec n) = 2"
  by (subst dec.simps) (simp add: length_dec_1)

subsection \<open>Reading a file line by line\<close>

text \<open>
  One \<open>fgets(buf, k + 1, stream)\<close>: at most \<open>k\<close> characters, up to and including the
  first newline. The result is what lands in the buffer and what the stream still holds.
\<close>

fun fgets :: "nat \<Rightarrow> string \<Rightarrow> string \<times> string" where
  "fgets 0 s = ([], s)"
| "fgets (Suc k) [] = ([], [])"
| "fgets (Suc k) (c # cs) =
     (if c = nl then ([c], cs) else (case fgets k cs of (l, r) \<Rightarrow> (c # l, r)))"

lemma fgets_split: "fgets k s = (l, r) \<Longrightarrow> s = l @ r"
  by (induction k s arbitrary: l rule: fgets.induct) (auto split: if_splits prod.splits)

lemma fgets_length: "fgets k s = (l, r) \<Longrightarrow> length l \<le> k"
  by (induction k s arbitrary: l rule: fgets.induct) (auto split: if_splits prod.splits)

lemma fgets_empty: "fgets k s = ([], r) \<Longrightarrow> k = 0 \<or> s = []"
  by (cases "(k, s)" rule: fgets.cases) (auto split: if_splits prod.splits)

text \<open>The loop \<open>while (fgets(buf, k + 1, stream) != NULL)\<close>: the successive buffers.\<close>

function fgets_all :: "nat \<Rightarrow> string \<Rightarrow> string list" where
  "fgets_all k s =
     (case fgets k s of (l, r) \<Rightarrow> if l = [] then [] else l # fgets_all k r)"
  by pat_completeness auto
termination
  by (relation "measure (\<lambda>(k, s). length s)") (auto dest!: fgets_split [OF sym])

declare fgets_all.simps [simp del]

lemma fgets_all_concat: "0 < k \<Longrightarrow> concat (fgets_all k s) = s"
proof (induction k s rule: fgets_all.induct)
  case (1 k s)
  obtain l r where lr: "fgets k s = (l, r)" by fastforce
  show ?case
  proof (cases "l = []")
    case True
    with lr 1 show ?thesis by (auto simp: fgets_all.simps [of k s] dest: fgets_empty)
  next
    case False
    with lr 1 have "concat (fgets_all k r) = r" by simp
    with lr False show ?thesis
      using fgets_split [OF lr] by (subst fgets_all.simps) simp
  qed
qed

lemma fgets_all_Nil [simp]: "fgets_all k [] = []"
  by (cases k) (simp_all add: fgets_all.simps)

lemma fgets_all_bounds: "l \<in> set (fgets_all k s) \<Longrightarrow> l \<noteq> [] \<and> length l \<le> k"
proof (induction k s rule: fgets_all.induct)
  case (1 k s)
  obtain l' r where lr: "fgets k s = (l', r)" by fastforce
  with 1 show ?case
    using fgets_length [OF lr] by (auto simp: fgets_all.simps [of k s] split: if_splits)
qed

text \<open>A text line: no newline but the last character.\<close>

definition is_line :: "string \<Rightarrow> bool" where
  "is_line l \<longleftrightarrow> l \<noteq> [] \<and> last l = nl \<and> nl \<notin> set (butlast l)"

lemma is_line_body: "nl \<notin> set t \<Longrightarrow> is_line (t @ [nl])"
  by (simp add: is_line_def)

lemma is_lineE:
  assumes "is_line l"
  obtains t where "l = t @ [nl]" and "nl \<notin> set t"
  using assms by (metis append_butlast_last_id is_line_def)

lemma fgets_line: "nl \<notin> set t \<Longrightarrow> length t < k \<Longrightarrow> fgets k (t @ nl # s) = (t @ [nl], s)"
proof (induction t arbitrary: k)
  case Nil
  then show ?case by (cases k) auto
next
  case (Cons c t)
  then show ?case by (cases k) auto
qed

lemma fgets_all_line:
  assumes "is_line l" and "length l \<le> k"
  shows "fgets_all k (l @ s) = l # fgets_all k s"
proof -
  obtain t where t: "l = t @ [nl]" "nl \<notin> set t"
    using assms(1) by (rule is_lineE)
  then have "fgets k (l @ s) = (l, s)"
    using assms(2) fgets_line [of t k s] by simp
  moreover have "l \<noteq> []" using t by simp
  ultimately show ?thesis by (subst fgets_all.simps) simp
qed

text \<open>A file of lines that fit the buffer is read back as these lines.\<close>

lemma fgets_all_lines:
  "\<forall>l \<in> set ls. is_line l \<and> length l \<le> k \<Longrightarrow> fgets_all k (concat ls) = ls"
  by (induction ls) (simp_all add: fgets_all_line)

subsection \<open>strtok\<close>

text \<open>
  One call of \<open>strtok\<close> on what is left of the string: skip the delimiters, cut the token
  before the next one. The result is the token and the rest after the delimiter; \<open>None\<close>
  as a token is the \<open>NULL\<close> that \<open>strtok\<close> returns, after which every further call
  returns \<open>NULL\<close> as well.
\<close>

definition strtok :: "string \<Rightarrow> string \<Rightarrow> string option \<times> string" where
  "strtok d s =
     (let t = dropWhile (\<lambda>c. c \<in> set d) s in
      if t = [] then (None, [])
      else (Some (takeWhile (\<lambda>c. c \<notin> set d) t), tl (dropWhile (\<lambda>c. c \<notin> set d) t)))"

lemma strtok_token:
  assumes "t \<noteq> []" and "\<forall>c \<in> set t. c \<notin> set d" and "e \<in> set d"
  shows "strtok d (t @ e # s) = (Some t, s)" and "strtok d t = (Some t, [])"
proof -
  have "dropWhile (\<lambda>c. c \<in> set d) t = t" "dropWhile (\<lambda>c. c \<in> set d) (t @ e # s) = t @ e # s"
    using assms(1,2) by (cases t; simp)+
  moreover have "takeWhile (\<lambda>c. c \<notin> set d) t = t"
    using assms(2) by simp
  moreover have "dropWhile (\<lambda>c. c \<notin> set d) t = []"
    using assms(2) by (simp add: dropWhile_eq_Nil_conv)
  ultimately show "strtok d (t @ e # s) = (Some t, s)" and "strtok d t = (Some t, [])"
    using assms by (simp_all only: strtok_def Let_def) (simp_all add: takeWhile_append dropWhile_append)
qed

end
