(* ===== verification/BTree.thy ===== *)
theory BTree
  imports CLib "HOL-Library.List_Lexorder"
begin

text \<open>
  The Berkeley DB file of \<open>closedbsd/config/db.c\<close>: a \<open>DB_BTREE\<close> opened by \<open>dbopen\<close>,
  written by \<open>put\<close> and scanned by \<open>seq(..., R_NEXT)\<close>. The C library keeps the records in the
  order of their keys, compared byte by byte, and \<open>put\<close> without flags replaces the record of
  an equal key. The keys are the four bytes of an \<open>int\<close>, the low byte first (i386).

  The locale \<open>record_store\<close> is what the device database relies on; the b-tree provides it.
\<close>

locale record_store =
  fixes empty :: 's
    and put :: "'k \<Rightarrow> 'v \<Rightarrow> 's \<Rightarrow> 's"
    and entries :: "'s \<Rightarrow> ('k \<times> 'v) list"
    and ok :: "'s \<Rightarrow> bool"
  assumes ok_empty: "ok empty"
    and ok_put: "ok s \<Longrightarrow> ok (put k v s)"
    and entries_empty: "entries empty = []"
    and distinct_entries: "ok s \<Longrightarrow> distinct (map fst (entries s))"
    and map_of_put: "ok s \<Longrightarrow> map_of (entries (put k v s)) = (map_of (entries s))(k \<mapsto> v)"
begin

lemma set_put:
  assumes "ok s"
  shows "set (entries (put k v s)) = insert (k, v) {e \<in> set (entries s). fst e \<noteq> k}"
proof -
  have d: "distinct (map fst (entries s))" "distinct (map fst (entries (put k v s)))"
    using assms distinct_entries ok_put by auto
  have "(a, b) \<in> set (entries (put k v s)) \<longleftrightarrow>
      (a, b) \<in> insert (k, v) {e \<in> set (entries s). fst e \<noteq> k}" for a b
  proof -
    have "(a, b) \<in> set (entries (put k v s)) \<longleftrightarrow> map_of (entries (put k v s)) a = Some b"
      using d(2) by simp
    also have "\<dots> \<longleftrightarrow> a = k \<and> b = v \<or> a \<noteq> k \<and> map_of (entries s) a = Some b"
      using map_of_put [OF assms] by auto
    also have "\<dots> \<longleftrightarrow> (a, b) \<in> insert (k, v) {e \<in> set (entries s). fst e \<noteq> k}"
      using d(1) by auto
    finally show ?thesis .
  qed
  then show ?thesis by auto
qed

lemma keys_put: "ok s \<Longrightarrow> fst ` set (entries (put k v s)) = insert k (fst ` set (entries s))"
  by (force simp: set_put)

lemma length_put_new:
  assumes "ok s" and "k \<notin> fst ` set (entries s)"
  shows "length (entries (put k v s)) = Suc (length (entries s))"
proof -
  have "length (entries (put k v s)) = card (fst ` set (entries (put k v s)))"
    using distinct_card [OF distinct_entries [OF ok_put [OF assms(1)]]] by simp
  also have "\<dots> = Suc (card (fst ` set (entries s)))"
    using assms by (simp add: keys_put)
  also have "card (fst ` set (entries s)) = length (entries s)"
    using distinct_card [OF distinct_entries [OF assms(1)]] by simp
  finally show ?thesis by simp
qed

lemma length_put_old:
  assumes "ok s" and "k \<in> fst ` set (entries s)"
  shows "length (entries (put k v s)) = length (entries s)"
proof -
  have "length (entries (put k v s)) = card (fst ` set (entries (put k v s)))"
    using distinct_card [OF distinct_entries [OF ok_put [OF assms(1)]]] by simp
  also have "\<dots> = card (fst ` set (entries s))"
    using assms by (simp add: keys_put insert_absorb)
  also have "\<dots> = length (entries s)"
    using distinct_card [OF distinct_entries [OF assms(1)]] by simp
  finally show ?thesis .
qed

end

subsection \<open>The b-tree\<close>

type_synonym dbkey = "nat list"
type_synonym 'v btree = "(dbkey \<times> 'v) list"

text \<open>The four bytes of an \<open>int\<close> as they lie in memory.\<close>

definition id_key :: "int \<Rightarrow> dbkey" where
  "id_key i = map (\<lambda>k. nat (i div 2 ^ (8 * k) mod 256)) [0, 1, 2, 3]"

lemma id_key_value:
  assumes "0 \<le> i" and "i < 2 ^ 32"
  shows "i = int (id_key i ! 0) + 256 * (int (id_key i ! 1) + 256 * (int (id_key i ! 2) +
    256 * int (id_key i ! 3)))"
proof -
  define a where "a = i div 256"
  define b where "b = a div 256"
  define c where "c = b div 256"
  have "i div 65536 = b" "i div 16777216 = c"
    by (simp_all add: a_def b_def c_def flip: zdiv_zmult2_eq)
  then have "id_key i = [nat (i mod 256), nat (a mod 256), nat (b mod 256), nat (c mod 256)]"
    by (simp add: id_key_def a_def)
  moreover have "i = i mod 256 + 256 * a" "a = a mod 256 + 256 * b" "b = b mod 256 + 256 * c"
    by (simp_all add: a_def b_def c_def)
  moreover have "c mod 256 = c"
    using assms \<open>i div 16777216 = c\<close> by (intro mod_pos_pos_trivial) auto
  moreover have "0 \<le> c"
    using assms by (simp add: a_def b_def c_def pos_imp_zdiv_nonneg_iff)
  ultimately show ?thesis by simp
qed

lemma id_key_inject:
  "0 \<le> i \<Longrightarrow> i < 2 ^ 32 \<Longrightarrow> 0 \<le> j \<Longrightarrow> j < 2 ^ 32 \<Longrightarrow> id_key i = id_key j \<longleftrightarrow> i = j"
  by (rule iffI, subst id_key_value [of i], simp, simp, subst id_key_value [of j]) simp_all

fun btput :: "dbkey \<Rightarrow> 'v \<Rightarrow> 'v btree \<Rightarrow> 'v btree" where
  "btput k v [] = [(k, v)]"
| "btput k v ((k', v') # t) =
     (if k < k' then (k, v) # (k', v') # t
      else if k = k' then (k, v) # t
      else (k', v') # btput k v t)"

text \<open>The records in the order in which \<open>seq\<close> with \<open>R_NEXT\<close> delivers them.\<close>

definition btseq :: "'v btree \<Rightarrow> 'v list" where
  "btseq t = map snd t"

definition bt_ok :: "'v btree \<Rightarrow> bool" where
  "bt_ok t \<longleftrightarrow> sorted_wrt (<) (map fst t)"

lemma keys_btput: "fst ` set (btput k v t) = insert k (fst ` set t)"
  by (induction k v t rule: btput.induct) auto

lemma bt_ok_btput: "bt_ok t \<Longrightarrow> bt_ok (btput k v t)"
proof (induction k v t rule: btput.induct)
  case (2 k v k' v' t)
  have "fst ` set (btput k v t) = insert k (fst ` set t)" by (rule keys_btput)
  with 2 show ?case
    by (fastforce simp: bt_ok_def)
qed (simp add: bt_ok_def)

lemma map_of_btput: "bt_ok t \<Longrightarrow> map_of (btput k v t) = (map_of t)(k \<mapsto> v)"
proof (induction k v t rule: btput.induct)
  case (2 k v k' v' t)
  then show ?case by (auto simp: bt_ok_def fun_eq_iff)
qed simp

lemma bt_ok_distinct: "bt_ok t \<Longrightarrow> distinct (map fst t)"
  by (simp add: bt_ok_def strict_sorted_iff)

interpretation bt: record_store "[]" btput "\<lambda>t. t" bt_ok
  by unfold_locales (auto simp: bt_ok_btput map_of_btput bt_ok_distinct bt_ok_def [of "[]"])

end
