(* ===== verification/World.thy ===== *)
theory World
  imports BTree
begin

text \<open>
  The data types of \<open>closedbsd/config/fw.h\<close> and \<open>db.h\<close>, and the machine state the config
  shell works on: the files under \<open>/etc\<close> and \<open>/tmp\<close>, the device database, and the trace of
  what the program did (drawing calls, dialogs, shell commands), in order.
\<close>

named_theorems world \<open>reading the state after a state operation\<close>

subsection \<open>Rules\<close>

datatype ipfw_cmd = ADD | FLUSH | RAW
datatype action = ALLOW | DENY | DIVERT | FWD | RESET
datatype proto = IP | TCP | UDP | ICMP
datatype ifs = ANY | INCOMING | OUTGOING

text \<open>
  The \<open>option\<close> member is one \<open>int\<close> that three enumerations share; which one applies depends
  on the protocol.
\<close>

abbreviation (input) NONE :: int where "NONE \<equiv> 0"
abbreviation (input) SETUP :: int where "SETUP \<equiv> 1"
abbreviation (input) ESTABLISHED :: int where "ESTABLISHED \<equiv> 2"
abbreviation (input) FRAG :: int where "FRAG \<equiv> 3"
abbreviation (input) IP_NONE :: int where "IP_NONE \<equiv> 0"
abbreviation (input) SSRR :: int where "SSRR \<equiv> 1"
abbreviation (input) LSRR :: int where "LSRR \<equiv> 2"
abbreviation (input) TS :: int where "TS \<equiv> 3"
abbreviation (input) ICMP_NONE :: int where "ICMP_NONE \<equiv> 0"
abbreviation (input) ECHO_REPLY :: int where "ECHO_REPLY \<equiv> 1"
abbreviation (input) DEST_UNREACH :: int where "DEST_UNREACH \<equiv> 2"
abbreviation (input) ECHO_REQUEST :: int where "ECHO_REQUEST \<equiv> 3"

record ruleset =
  r_id :: int
  r_cmd :: ipfw_cmd
  r_action :: action
  r_proto :: proto
  r_ifs :: ifs
  r_option :: int
  r_src :: string
  r_dst :: string
  r_src_port :: string
  r_dst_port :: string
  r_other_a :: string
  r_other_b :: string

text \<open>\<open>bzero(&r, sizeof(r))\<close>: every enumeration at its first constant, every string empty.\<close>

definition zero_rule :: ruleset where
  "zero_rule = \<lparr>r_id = 0, r_cmd = ADD, r_action = ALLOW, r_proto = IP, r_ifs = ANY, r_option = 0,
     r_src = [], r_dst = [], r_src_port = [], r_dst_port = [], r_other_a = [], r_other_b = []\<rparr>"

subsection \<open>Devices\<close>

datatype dhcp = DHCP_DISABLED | DHCP_ENABLED

record device =
  d_id :: int
  d_device :: string
  d_ip :: string
  d_netmask :: string
  d_gateway :: string
  d_ext :: int
  d_dhcp :: dhcp

subsection \<open>Curses and dialogs\<close>

text \<open>
  The calls into curses and libdialog, as values. Neither library is part of the repository:
  the program's side of a call is recorded, and what the user enters is an input of the model.
\<close>

datatype attr = dialog_attr | border_attr | title_attr | check_selected_attr | inputbox_attr

datatype curses =
    Wattrset attr
  | Mvwprintw int int string
  | Draw_box int int int int attr attr
  | Draw_shadow int int int int
  | Wmove int int
  | Waddstr string
  | Waddch char
  | Print_button string int int bool
  | Wrefresh

datatype key = KEY_DOWN | KEY_UP | KEY_LEFT | KEY_RIGHT | Ch int

datatype ditem = DITEM_SUCCESS | DITEM_RESTORE | DITEM_CONTINUE | DITEM_REDRAW

text \<open>What a menu action returns: a number, or an OR of the \<open>DITEM_\<close> flags.\<close>

datatype rc = Rc int | Flags "ditem list"

abbreviation ditem_continue :: rc where
  "ditem_continue \<equiv> Flags [DITEM_SUCCESS, DITEM_RESTORE, DITEM_CONTINUE]"

text \<open>The actions of the trace, the drawing functions of \<open>misc.c\<close> with their arguments.\<close>

datatype act =
    System string
  | Curses curses
  | Std_window string
  | Ip_list string int int
  | Help int ruleset
  | Buttons int
  | Action_box int int int ruleset
  | Protocol_box int int int ruleset
  | Protocol_forward_box int int int ruleset
  | Iface int int int ruleset
  | Options int int int ruleset
  | Host_inputbox int int
  | Port_inputbox int int
  | Line_edit int int int int
  | Newwin int int int int
  | Initscr
  | Init_dialog
  | Dialog_clear
  | End_dialog
  | Endwin
  | Curs_set int
  | Msgbox string string
  | Yesno string string
  | Inputbox string string
  | Prgbox string string
  | Textbox string string
  | Gauge string string int
  | Menu string string "(string \<times> string) list"
  | Print string

subsection \<open>The state and its environment\<close>

record world =
  files :: "string \<Rightarrow> string option"
  devdb :: "device btree option"
  trace :: "act list"

text \<open>
  What the model does not define: whether the file system lets a file be opened for
  writing, and what the shell does with a command line (its exit status and its effect on
  the files).
\<close>

record env =
  writable :: "string \<Rightarrow> bool"
  shell :: "string \<Rightarrow> (string \<Rightarrow> string option) \<Rightarrow> int \<times> (string \<Rightarrow> string option)"

definition emit :: "act list \<Rightarrow> world \<Rightarrow> world" where
  "emit as w = w\<lparr>trace := trace w @ as\<rparr>"

definition system :: "env \<Rightarrow> string \<Rightarrow> world \<Rightarrow> int \<times> world" where
  "system env c w =
     (case shell env c (files w) of
        (rc, fs) \<Rightarrow> (rc, emit [System c] (w\<lparr>files := fs\<rparr>)))"

text \<open>\<open>system(c)\<close> where the code drops the exit status.\<close>

definition run :: "env \<Rightarrow> string \<Rightarrow> world \<Rightarrow> world" where
  "run env c w = snd (system env c w)"

definition unlink :: "string \<Rightarrow> world \<Rightarrow> world" where
  "unlink p w = w\<lparr>files := (files w)(p := None)\<rparr>"

text \<open>
  \<open>fopen(p, "a+")\<close> creates a missing file; \<open>fprintf\<close> to such a stream appends. The streams
  are closed before anything else reads the file, so the buffering does not show.
\<close>

definition fopen_append :: "string \<Rightarrow> world \<Rightarrow> world" where
  "fopen_append p w = (if files w p = None then w\<lparr>files := (files w)(p \<mapsto> [])\<rparr> else w)"

definition fprintf :: "string \<Rightarrow> string \<Rightarrow> world \<Rightarrow> world" where
  "fprintf p s w = w\<lparr>files := (files w)(p \<mapsto> (case files w p of None \<Rightarrow> s | Some t \<Rightarrow> t @ s))\<rparr>"

text \<open>The shell commands of a trace.\<close>

definition commands :: "act list \<Rightarrow> string list" where
  "commands as = List.map_filter (\<lambda>a. case a of System c \<Rightarrow> Some c | _ \<Rightarrow> None) as"

subsection \<open>How the operations act on the parts of the state\<close>

lemma emit_sel [simp, world]:
  "files (emit as w) = files w"
  "devdb (emit as w) = devdb w"
  "trace (emit as w) = trace w @ as"
  by (simp_all add: emit_def)

lemma emit_emit [simp]: "emit bs (emit as w) = emit (as @ bs) w"
  by (simp add: emit_def)

lemma emit_Nil [simp]: "emit [] w = w"
  by (simp add: emit_def)

lemma run_sel [world]:
  "files (run env c w) = snd (shell env c (files w))"
  "devdb (run env c w) = devdb w"
  "trace (run env c w) = trace w @ [System c]"
  by (simp_all add: run_def system_def split: prod.split)

lemma system_split: "system env c w = (fst (shell env c (files w)), run env c w)"
  by (simp add: run_def system_def split: prod.split)

lemma unlink_sel [world]:
  "files (unlink p w) = (files w)(p := None)"
  "devdb (unlink p w) = devdb w"
  "trace (unlink p w) = trace w"
  by (simp_all add: unlink_def)

lemma fopen_append_sel [world]:
  "files (fopen_append p w) q =
     (if q = p \<and> files w p = None then Some [] else files w q)"
  "devdb (fopen_append p w) = devdb w"
  "trace (fopen_append p w) = trace w"
  by (simp_all add: fopen_append_def)

lemma fprintf_sel [world]:
  "files (fprintf p s w) q =
     (if q = p then Some (case files w p of None \<Rightarrow> s | Some t \<Rightarrow> t @ s) else files w q)"
  "devdb (fprintf p s w) = devdb w"
  "trace (fprintf p s w) = trace w"
  by (simp_all add: fprintf_def)

lemma commands_simps [simp]:
  "commands [] = []"
  "commands (a # as) = (case a of System c \<Rightarrow> c # commands as | _ \<Rightarrow> commands as)"
  "commands (as @ bs) = commands as @ commands bs"
  by (simp_all add: commands_def List.map_filter_def split: act.split)

text \<open>The commands \<open>cs\<close> leave the file \<open>p\<close> alone.\<close>

definition spares :: "env \<Rightarrow> string set \<Rightarrow> string \<Rightarrow> bool" where
  "spares env cs p \<longleftrightarrow> (\<forall>c \<in> cs. \<forall>fs. snd (shell env c fs) p = fs p)"

lemma sparesD [dest]: "spares env cs p \<Longrightarrow> c \<in> cs \<Longrightarrow> snd (shell env c fs) p = fs p"
  by (simp add: spares_def)

lemma run_spares: "spares env cs p \<Longrightarrow> c \<in> cs \<Longrightarrow> files (run env c w) p = files w p"
  by (auto simp: world)

subsection \<open>The files the program names\<close>

definition RULESCRIPT :: string where "RULESCRIPT = ''/etc/rules''"
definition NATSCRIPT :: string where "NATSCRIPT = ''/etc/nat''"
definition TMPRULES :: string where "TMPRULES = ''/tmp/rules''"
definition TMPDEVICES :: string where "TMPDEVICES = ''/tmp/devices.tmp''"
definition DHCLIENT_CONF :: string where "DHCLIENT_CONF = ''/etc/dhclient.conf''"

lemmas path_defs = RULESCRIPT_def NATSCRIPT_def TMPRULES_def TMPDEVICES_def DHCLIENT_CONF_def

lemma paths_distinct [simp]:
  "RULESCRIPT \<noteq> NATSCRIPT" "NATSCRIPT \<noteq> RULESCRIPT"
  "RULESCRIPT \<noteq> TMPRULES" "TMPRULES \<noteq> RULESCRIPT"
  "RULESCRIPT \<noteq> TMPDEVICES" "TMPDEVICES \<noteq> RULESCRIPT"
  "RULESCRIPT \<noteq> DHCLIENT_CONF" "DHCLIENT_CONF \<noteq> RULESCRIPT"
  by (simp_all add: path_defs)

text \<open>What a file holds, an absent one read as empty.\<close>

definition contents :: "string \<Rightarrow> world \<Rightarrow> string" where
  "contents p w = (case files w p of None \<Rightarrow> [] | Some s \<Rightarrow> s)"

lemma contents_sel [world]:
  "contents p (fopen_append q w) = contents p w"
  "contents p (fprintf q s w) = (if p = q then contents p w @ s else contents p w)"
  "contents p (unlink q w) = (if p = q then [] else contents p w)"
  "contents p (emit as w) = contents p w"
  by (auto simp: contents_def world split: option.splits)

subsection \<open>An environment to try the program in\<close>

text \<open>
  Every file can be written, every command succeeds and changes no file; at first there are no files
  and no devices.
\<close>

definition calm :: env where
  "calm = \<lparr>writable = (\<lambda>_. True), shell = (\<lambda>_ fs. (0, fs))\<rparr>"

definition blank_world :: world where
  "blank_world = \<lparr>files = (\<lambda>_. None), devdb = None, trace = []\<rparr>"

lemma calm_spares [simp]: "spares calm cs p"
  by (simp add: spares_def calm_def)

lemma calm_writable [simp]: "writable calm p"
  by (simp add: calm_def)

end
