(* ===== verification/Rules.thy ===== *)
theory Rules
  imports World
begin

text \<open>
  \<open>closedbsd/config/rules.c\<close>: turning a \<open>struct ruleset\<close> into an ipfw command line, running and
  recording it in \<open>/etc/rules\<close> (\<open>__insert_rule\<close>, here \<open>insert_rule_text\<close>). The closed form of
  the text, when it fits the 256-byte buffer, and the words the shell makes of it.
\<close>

subsection \<open>Building the command line\<close>

text \<open>The block that \<open>__insert_rule\<close> repeats for each port of a forwarding rule.\<close>

definition fwd_port :: "string \<Rightarrow> string \<Rightarrow> string option" where
  "fwd_port cmd port =
     (if 0 < length port then
        (if strncmp_eq port ''any'' 3 then strcat 256 cmd '' ''
         else do { cmd \<leftarrow> strcat 256 cmd '' ''; strcat 256 cmd port })
      else Some cmd)"

text \<open>
  Forwarding rules, \<open>case TCP\<close> and \<open>case UDP\<close>. For another protocol \<open>cmd\<close> is never
  written, and the \<open>snprintf(cmd, sizeof(cmd), "%s", cmd)\<close> after the switch reads it; after a
  written \<open>cmd\<close> that call copies the buffer onto itself.
\<close>

definition fwd_command :: "ruleset \<Rightarrow> string option" where
  "fwd_command r =
     (case r_proto r of
        TCP \<Rightarrow> do {
          let cmd = snprintf 256 (''/sbin/ipfw -q add fwd '' @ r_other_a r @ '','' @ r_other_b r @ '' tcp '');
          cmd \<leftarrow> strcat 256 cmd ''from '';
          cmd \<leftarrow> strcat 256 cmd (r_src r);
          cmd \<leftarrow> fwd_port cmd (r_src_port r);
          cmd \<leftarrow> strcat 256 cmd ''to '';
          cmd \<leftarrow> strcat 256 cmd (r_dst r);
          fwd_port cmd (r_dst_port r)
        }
      | UDP \<Rightarrow> do {
          let cmd = snprintf 256 (''/sbin/ipfw -q add fwd '' @ r_other_a r @ '','' @ r_other_b r @ '' udp '');
          cmd \<leftarrow> strcat 256 cmd ''from '';
          cmd \<leftarrow> strcat 256 cmd (r_src r);
          cmd \<leftarrow> fwd_port cmd (r_src_port r);
          cmd \<leftarrow> strcat 256 cmd ''to '';
          cmd \<leftarrow> strcat 256 cmd (r_dst r);
          fwd_port cmd (r_dst_port r)
        }
      | _ \<Rightarrow> None)"

text \<open>Appending \<open>s\<close> under a condition, as the \<open>if\<close> and \<open>switch\<close> statements below do.\<close>

definition strcat_when :: "bool \<Rightarrow> string \<Rightarrow> string \<Rightarrow> string option" where
  "strcat_when c cmd s = (if c then strcat 256 cmd s else Some cmd)"

text \<open>
  The filter rules, one definition per protocol. An action the inner switch does not list
  leaves \<open>cmd\<close> unwritten, and the \<open>strcat\<close> that follows reads it.
\<close>

definition ip_command :: "ruleset \<Rightarrow> string option" where
  "ip_command r = do {
     cmd \<leftarrow> (case r_action r of
              ALLOW \<Rightarrow> Some ''/sbin/ipfw -q add allow ip ''
            | DENY \<Rightarrow> Some ''/sbin/ipfw -q add deny ip ''
            | DIVERT \<Rightarrow> Some ''/sbin/ipfw -q add divert 8668 ip ''
            | _ \<Rightarrow> None);
     cmd \<leftarrow> strcat 256 cmd ''from '';
     cmd \<leftarrow> strcat 256 cmd (r_src r);
     cmd \<leftarrow> strcat 256 cmd '' to '';
     cmd \<leftarrow> strcat 256 cmd (r_dst r);
     cmd \<leftarrow> strcat_when (r_ifs r = INCOMING) cmd '' in'';
     cmd \<leftarrow> strcat_when (r_ifs r = OUTGOING) cmd '' out'';
     cmd \<leftarrow> (if r_option r = SSRR then strcat 256 cmd '' ipoptions ssrr''
            else if r_option r = LSRR then strcat 256 cmd '' ipoptions lsrr''
            else if r_option r = TS then strcat 256 cmd '' ipoptions ts''
            else Some cmd);
     if 0 < length (r_other_a r)
     then do { cmd \<leftarrow> strcat 256 cmd '' ''; strcat 256 cmd (r_other_a r) }
     else Some cmd
   }"

definition tcp_command :: "ruleset \<Rightarrow> string option" where
  "tcp_command r = do {
     cmd \<leftarrow> (case r_action r of
              ALLOW \<Rightarrow> Some ''/sbin/ipfw -q add allow tcp ''
            | RESET \<Rightarrow> Some ''/sbin/ipfw -q add reset tcp ''
            | DENY \<Rightarrow> Some ''/sbin/ipfw -q add deny tcp ''
            | _ \<Rightarrow> None);
     cmd \<leftarrow> strcat 256 cmd ''from '';
     cmd \<leftarrow> strcat 256 cmd (r_src r);
     cmd \<leftarrow> (if 0 < length (r_src_port r)
            then do { cmd \<leftarrow> strcat 256 cmd '' ''; strcat 256 cmd (r_src_port r) } else Some cmd);
     cmd \<leftarrow> strcat 256 cmd '' to '';
     cmd \<leftarrow> strcat 256 cmd (r_dst r);
     cmd \<leftarrow> (if 0 < length (r_dst_port r)
            then do { cmd \<leftarrow> strcat 256 cmd '' ''; strcat 256 cmd (r_dst_port r) } else Some cmd);
     cmd \<leftarrow> strcat_when (r_ifs r = INCOMING) cmd '' in'';
     cmd \<leftarrow> strcat_when (r_ifs r = OUTGOING) cmd '' out'';
     (if r_option r = SETUP then strcat 256 cmd '' setup''
      else if r_option r = ESTABLISHED then strcat 256 cmd '' established''
      else if r_option r = FRAG then strcat 256 cmd '' frag''
      else Some cmd)
   }"

definition udp_command :: "ruleset \<Rightarrow> string option" where
  "udp_command r = do {
     cmd \<leftarrow> (case r_action r of
              ALLOW \<Rightarrow> Some ''/sbin/ipfw -q add allow udp ''
            | DENY \<Rightarrow> Some ''/sbin/ipfw -q add deny udp ''
            | _ \<Rightarrow> None);
     cmd \<leftarrow> strcat 256 cmd ''from '';
     cmd \<leftarrow> strcat 256 cmd (r_src r);
     cmd \<leftarrow> (if 0 < length (r_src_port r)
            then do { cmd \<leftarrow> strcat 256 cmd '' ''; strcat 256 cmd (r_src_port r) } else Some cmd);
     cmd \<leftarrow> strcat 256 cmd '' to '';
     cmd \<leftarrow> strcat 256 cmd (r_dst r);
     cmd \<leftarrow> (if 0 < length (r_dst_port r)
            then do { cmd \<leftarrow> strcat 256 cmd '' ''; strcat 256 cmd (r_dst_port r) } else Some cmd);
     cmd \<leftarrow> strcat_when (r_ifs r = INCOMING) cmd '' in '';
     strcat_when (r_ifs r = OUTGOING) cmd '' out ''
   }"

definition icmp_command :: "ruleset \<Rightarrow> string option" where
  "icmp_command r = do {
     cmd \<leftarrow> (case r_action r of
              ALLOW \<Rightarrow> Some ''/sbin/ipfw -q add allow icmp ''
            | DENY \<Rightarrow> Some ''/sbin/ipfw -q add deny icmp ''
            | _ \<Rightarrow> None);
     cmd \<leftarrow> strcat 256 cmd ''from '';
     cmd \<leftarrow> strcat 256 cmd (r_src r);
     cmd \<leftarrow> strcat 256 cmd '' to '';
     cmd \<leftarrow> strcat 256 cmd (r_dst r);
     cmd \<leftarrow> strcat_when (r_ifs r = INCOMING) cmd '' in'';
     cmd \<leftarrow> strcat_when (r_ifs r = OUTGOING) cmd '' out'';
     (if r_option r = ECHO_REQUEST then strcat 256 cmd '' icmptypes 5''
      else if r_option r = DEST_UNREACH then strcat 256 cmd '' icmptypes 3''
      else if r_option r = ECHO_REPLY then strcat 256 cmd '' icmptypes 0''
      else Some cmd)
   }"

definition filter_command :: "ruleset \<Rightarrow> string option" where
  "filter_command r =
     (case r_proto r of
        IP \<Rightarrow> ip_command r
      | TCP \<Rightarrow> tcp_command r
      | UDP \<Rightarrow> udp_command r
      | ICMP \<Rightarrow> icmp_command r)"

subsection \<open>Running and recording a rule\<close>

text \<open>
  \<open>__insert_rule\<close>. The forwarding branch writes the file before it runs the command, the
  filter branch after; the result is the C return value and the new state.
\<close>

definition insert_rule_text :: "env \<Rightarrow> ruleset \<Rightarrow> world \<Rightarrow> (int \<times> world) option" where
  "insert_rule_text env r w =
     (if \<not> writable env RULESCRIPT then Some (- 1, w)
      else let w = fopen_append RULESCRIPT w in
      if r_action r = RESET \<and> r_proto r \<noteq> TCP then Some (- 1, w)
      else if r_action r = FWD then do {
        cmd \<leftarrow> fwd_command r;
        let w = fprintf RULESCRIPT (cmd @ [nl]) w;
        let w = run env cmd w;
        Some (0, w)
      }
      else do {
        cmd \<leftarrow> filter_command r;
        let buf = snprintf 256 cmd;
        let w = run env buf w;
        let w = fprintf RULESCRIPT (cmd @ [nl]) w;
        let w = run env ''/sbin/chmod 744 /etc/rules'' w;
        Some (0, w)
      })"

subsection \<open>What the command line is\<close>

text \<open>
  The text of a filter rule in closed form, and the actions that each protocol's switch
  lists.
\<close>

definition action_text :: "action \<Rightarrow> string" where
  "action_text a = (case a of ALLOW \<Rightarrow> ''allow'' | DENY \<Rightarrow> ''deny'' | DIVERT \<Rightarrow> ''divert 8668''
     | FWD \<Rightarrow> ''fwd'' | RESET \<Rightarrow> ''reset'')"

definition proto_text :: "proto \<Rightarrow> string" where
  "proto_text p = (case p of IP \<Rightarrow> ''ip'' | TCP \<Rightarrow> ''tcp'' | UDP \<Rightarrow> ''udp'' | ICMP \<Rightarrow> ''icmp'')"

definition action_listed :: "ruleset \<Rightarrow> bool" where
  "action_listed r \<longleftrightarrow>
     (case r_proto r of
        IP \<Rightarrow> r_action r \<in> {ALLOW, DENY, DIVERT}
      | TCP \<Rightarrow> r_action r \<in> {ALLOW, RESET, DENY}
      | _ \<Rightarrow> r_action r \<in> {ALLOW, DENY})"

definition port_pieces :: "ruleset \<Rightarrow> string \<Rightarrow> string list" where
  "port_pieces r p = (if r_proto r \<in> {TCP, UDP} \<and> p \<noteq> [] then ['' '', p] else [])"

definition dir_text :: "ruleset \<Rightarrow> string" where
  "dir_text r =
     (case r_ifs r of
        ANY \<Rightarrow> []
      | INCOMING \<Rightarrow> (if r_proto r = UDP then '' in '' else '' in'')
      | OUTGOING \<Rightarrow> (if r_proto r = UDP then '' out '' else '' out''))"

definition option_text :: "ruleset \<Rightarrow> string" where
  "option_text r =
     (case r_proto r of
        IP \<Rightarrow> if r_option r = SSRR then '' ipoptions ssrr''
              else if r_option r = LSRR then '' ipoptions lsrr''
              else if r_option r = TS then '' ipoptions ts'' else []
      | TCP \<Rightarrow> if r_option r = SETUP then '' setup''
              else if r_option r = ESTABLISHED then '' established''
              else if r_option r = FRAG then '' frag'' else []
      | UDP \<Rightarrow> []
      | ICMP \<Rightarrow> if r_option r = ECHO_REQUEST then '' icmptypes 5''
              else if r_option r = DEST_UNREACH then '' icmptypes 3''
              else if r_option r = ECHO_REPLY then '' icmptypes 0'' else [])"

definition other_pieces :: "ruleset \<Rightarrow> string list" where
  "other_pieces r = (if r_proto r = IP \<and> r_other_a r \<noteq> [] then ['' '', r_other_a r] else [])"

definition filter_text :: "ruleset \<Rightarrow> string" where
  "filter_text r =
     ''/sbin/ipfw -q add '' @ action_text (r_action r) @ '' '' @ proto_text (r_proto r) @ '' from '' @
     r_src r @ concat (port_pieces r (r_src_port r)) @ '' to '' @ r_dst r @
     concat (port_pieces r (r_dst_port r)) @ dir_text r @ option_text r @ concat (other_pieces r)"

text \<open>Bringing a run of appends to the form \<open>strcats\<close>.\<close>

lemma if_strcats:
  "(if c then strcats n b ss else Some b) = strcats n b (if c then ss else [])"
  by simp

lemma bind_strcats:
  "Option.bind (strcats n b [s]) (\<lambda>b'. strcats n b' ts) = strcats n b (s # ts)"
  by (simp add: strcats_append)

lemmas strcat_run = strcat_as_strcats strcat_when_def if_strcats strcats_if strcats_append

lemmas filter_text_parts =
  filter_text_def action_text_def proto_text_def port_pieces_def dir_text_def option_text_def
  other_pieces_def action_listed_def

lemma ip_command_eq:
  assumes "r_proto r = IP"
  shows "ip_command r =
    (if action_listed r \<and> length (filter_text r) < 256 then Some (filter_text r) else None)"
  by (cases "r_action r"; cases "r_ifs r"; simp only: ip_command_def strcat_run)
    (simp_all add: assms strcats_eq filter_text_parts)

lemma tcp_command_eq:
  assumes "r_proto r = TCP"
  shows "tcp_command r =
    (if action_listed r \<and> length (filter_text r) < 256 then Some (filter_text r) else None)"
  by (cases "r_action r"; cases "r_ifs r"; simp only: tcp_command_def strcat_run)
    (simp_all add: assms strcats_eq filter_text_parts)

lemma udp_command_eq:
  assumes "r_proto r = UDP"
  shows "udp_command r =
    (if action_listed r \<and> length (filter_text r) < 256 then Some (filter_text r) else None)"
  by (cases "r_action r"; cases "r_ifs r"; simp only: udp_command_def strcat_run)
    (simp_all add: assms strcats_eq filter_text_parts)

lemma icmp_command_eq:
  assumes "r_proto r = ICMP"
  shows "icmp_command r =
    (if action_listed r \<and> length (filter_text r) < 256 then Some (filter_text r) else None)"
  by (cases "r_action r"; cases "r_ifs r"; simp only: icmp_command_def strcat_run)
    (simp_all add: assms strcats_eq filter_text_parts)

lemma filter_command_eq:
  "filter_command r =
     (if action_listed r \<and> length (filter_text r) < 256 then Some (filter_text r) else None)"
  by (cases "r_proto r")
    (simp_all add: filter_command_def ip_command_eq tcp_command_eq udp_command_eq icmp_command_eq)

subsection \<open>The words the shell makes of it\<close>

text \<open>Splitting a command line at blanks; \<open>acc\<close> is the current word, reversed.\<close>

fun words_from :: "string \<Rightarrow> string \<Rightarrow> string list" where
  "words_from acc [] = (if acc = [] then [] else [rev acc])"
| "words_from acc (c # cs) =
     (if c = CHR '' '' then (if acc = [] then words_from [] cs else rev acc # words_from [] cs)
      else words_from (c # acc) cs)"

abbreviation words :: "string \<Rightarrow> string list" where "words \<equiv> words_from []"

definition blank_free :: "string \<Rightarrow> bool" where
  "blank_free s \<longleftrightarrow> CHR '' '' \<notin> set s"

lemma words_from_word: "blank_free s \<Longrightarrow> words_from acc (s @ t) = words_from (rev s @ acc) t"
  by (induction s arbitrary: acc) (auto simp: blank_free_def)

lemma words_from_end: "blank_free s \<Longrightarrow> words_from acc s = words_from (rev s @ acc) []"
  using words_from_word [of s acc "[]"] by simp

lemma words_blank: "words_from acc (CHR '' '' # t) = (if acc = [] then [] else [rev acc]) @ words t"
  by simp

lemma words_append_blank:
  "t = [] \<or> hd t = CHR '' '' \<Longrightarrow> words_from acc (s @ t) = words_from acc s @ words t"
  by (induction acc s rule: words_from.induct) (cases t; auto)+

text \<open>The ipfw arguments that a filter rule stands for.\<close>

definition action_words :: "action \<Rightarrow> string list" where
  "action_words a = (case a of ALLOW \<Rightarrow> [''allow''] | DENY \<Rightarrow> [''deny'']
     | DIVERT \<Rightarrow> [''divert'', ''8668''] | FWD \<Rightarrow> [''fwd''] | RESET \<Rightarrow> [''reset''])"

definition port_words :: "ruleset \<Rightarrow> string \<Rightarrow> string list" where
  "port_words r p = (if r_proto r \<in> {TCP, UDP} \<and> p \<noteq> [] then [p] else [])"

definition dir_words :: "ifs \<Rightarrow> string list" where
  "dir_words i = (case i of ANY \<Rightarrow> [] | INCOMING \<Rightarrow> [''in''] | OUTGOING \<Rightarrow> [''out''])"

definition option_words :: "ruleset \<Rightarrow> string list" where
  "option_words r =
     (case r_proto r of
        IP \<Rightarrow> if r_option r = SSRR then [''ipoptions'', ''ssrr'']
              else if r_option r = LSRR then [''ipoptions'', ''lsrr'']
              else if r_option r = TS then [''ipoptions'', ''ts''] else []
      | TCP \<Rightarrow> if r_option r = SETUP then [''setup'']
              else if r_option r = ESTABLISHED then [''established'']
              else if r_option r = FRAG then [''frag''] else []
      | UDP \<Rightarrow> []
      | ICMP \<Rightarrow> if r_option r = ECHO_REQUEST then [''icmptypes'', ''5'']
              else if r_option r = DEST_UNREACH then [''icmptypes'', ''3'']
              else if r_option r = ECHO_REPLY then [''icmptypes'', ''0''] else [])"

definition rule_words :: "ruleset \<Rightarrow> string list" where
  "rule_words r =
     [''/sbin/ipfw'', ''-q'', ''add''] @ action_words (r_action r) @
     [proto_text (r_proto r), ''from'', r_src r] @ port_words r (r_src_port r) @
     [''to'', r_dst r] @ port_words r (r_dst_port r) @ dir_words (r_ifs r) @ option_words r @
     (if r_proto r = IP then words (r_other_a r) else [])"

text \<open>A rule whose addresses are single words and whose ports are at most one word.\<close>

definition plain_fields :: "ruleset \<Rightarrow> bool" where
  "plain_fields r \<longleftrightarrow> r_src r \<noteq> [] \<and> r_dst r \<noteq> [] \<and>
     blank_free (r_src r) \<and> blank_free (r_dst r) \<and>
     blank_free (r_src_port r) \<and> blank_free (r_dst_port r)"

lemma words_action: "words (action_text a @ CHR '' '' # t) = action_words a @ words t"
  by (cases a) (simp_all add: action_text_def action_words_def)

lemma words_proto: "words (proto_text p @ CHR '' '' # t) = proto_text p # words t"
  by (cases p) (simp_all add: proto_text_def)

lemma words_field:
  "s \<noteq> [] \<Longrightarrow> blank_free s \<Longrightarrow> t = [] \<or> hd t = CHR '' '' \<Longrightarrow> words (s @ t) = s # words t"
  by (simp add: words_append_blank words_from_end)

lemma words_ports:
  assumes "blank_free p" and "t = [] \<or> hd t = CHR '' ''"
  shows "words (concat (port_pieces r p) @ t) = port_words r p @ words t"
proof (cases "r_proto r \<in> {TCP, UDP} \<and> p \<noteq> []")
  case True
  then have "words (concat (port_pieces r p) @ t) = words (p @ t)"
    by (simp add: port_pieces_def)
  also have "\<dots> = p # words t"
    using True assms by (simp add: words_field)
  finally show ?thesis using True by (simp add: port_words_def)
qed (auto simp: port_pieces_def port_words_def)

lemma words_dir:
  "t = [] \<or> hd t = CHR '' '' \<Longrightarrow> words (dir_text r @ t) = dir_words (r_ifs r) @ words t"
  by (cases "r_ifs r"; cases "t")
    (simp_all add: dir_text_def dir_words_def words_append_blank)

lemma words_option:
  "t = [] \<or> hd t = CHR '' '' \<Longrightarrow> words (option_text r @ t) = option_words r @ words t"
  by (subst words_append_blank)
    (simp_all add: option_text_def option_words_def split: proto.split)

lemma words_other:
  "words (concat (other_pieces r)) = (if r_proto r = IP then words (r_other_a r) else [])"
  by (simp add: other_pieces_def)

lemma hd_pieces:
  "concat (other_pieces r) = [] \<or> hd (concat (other_pieces r)) = CHR '' ''"
  "concat (port_pieces r p) = [] \<or> hd (concat (port_pieces r p)) = CHR '' ''"
  "option_text r = [] \<or> hd (option_text r) = CHR '' ''"
  "dir_text r = [] \<or> hd (dir_text r) = CHR '' ''"
  by (auto simp: other_pieces_def port_pieces_def option_text_def dir_text_def split: proto.split ifs.split)

lemma hd_append_blank:
  "s = [] \<or> hd s = CHR '' '' \<Longrightarrow> t = [] \<or> hd t = CHR '' '' \<Longrightarrow> s @ t = [] \<or> hd (s @ t) = CHR '' ''"
  by (cases s) auto

lemma filter_text_words:
  assumes "plain_fields r"
  shows "words (filter_text r) = rule_words r"
proof -
  note tail = hd_append_blank [OF hd_pieces(3) hd_pieces(1)]
  note dtail = hd_append_blank [OF hd_pieces(4) tail]
  note ptail = hd_append_blank [OF hd_pieces(2) dtail]
  have "words (concat (port_pieces r (r_dst_port r)) @ dir_text r @ option_text r @
      concat (other_pieces r)) =
    port_words r (r_dst_port r) @ dir_words (r_ifs r) @ option_words r @
      (if r_proto r = IP then words (r_other_a r) else [])"
    using assms dtail tail hd_pieces(1)
    by (simp add: plain_fields_def words_ports words_dir words_option words_other)
  then have d: "words (r_dst r @ concat (port_pieces r (r_dst_port r)) @ dir_text r @ option_text r @
      concat (other_pieces r)) =
    r_dst r # port_words r (r_dst_port r) @ dir_words (r_ifs r) @ option_words r @
      (if r_proto r = IP then words (r_other_a r) else [])"
    using assms ptail by (simp add: plain_fields_def words_field)
  have "'' to '' @ t = [] \<or> hd ('' to '' @ t) = CHR '' ''" for t by simp
  note stail = hd_append_blank [OF hd_pieces(2) this]
  have "words (r_src r @ concat (port_pieces r (r_src_port r)) @ '' to '' @ t) =
      r_src r # port_words r (r_src_port r) @ ''to'' # words t" for t
  proof -
    have "words (r_src r @ concat (port_pieces r (r_src_port r)) @ '' to '' @ t) =
        r_src r # words (concat (port_pieces r (r_src_port r)) @ '' to '' @ t)"
      using assms by (intro words_field stail) (simp_all add: plain_fields_def)
    also have "words (concat (port_pieces r (r_src_port r)) @ '' to '' @ t) =
        port_words r (r_src_port r) @ words ('' to '' @ t)"
      using assms by (intro words_ports) (simp_all add: plain_fields_def)
    finally show ?thesis by simp
  qed
  with d show ?thesis
    by (simp add: filter_text_def rule_words_def words_action words_proto)
qed

end
