(* ===== verification/RuleFile.thy ===== *)
theory RuleFile
  imports Rules
begin

text \<open>
  The rest of \<open>closedbsd/config/rules.c\<close>: editing the rule file \<open>/etc/rules\<close> with
  \<open>raw_add_rule\<close>, \<open>delete_rule\<close> with its menu action \<open>drop_rule\<close>, and \<open>raw_drop_rule\<close>. The
  file is seen as the list of lines that the \<open>fgets\<close> loops of the program read from it; the
  locale \<open>line_file\<close> states what appending a line means for such a view.
\<close>

subsection \<open>Editing the rule file\<close>

definition raw_add_rule :: "env \<Rightarrow> string \<Rightarrow> world \<Rightarrow> int \<times> world" where
  "raw_add_rule env rule w =
     (if \<not> writable env RULESCRIPT then (- 1, w)
      else let w = fopen_append RULESCRIPT w;
               w = fprintf RULESCRIPT (''/sbin/ipfw -q '' @ rule @ [nl]) w;
               w = run env ''/sbin/ipfw -q flush'' w;
               w = run env ''/bin/sh /etc/rules'' w
           in (0, w))"

text \<open>
  The menu items of \<open>rlist[32]\<close>: the prompt and the title, which is \<open>NULL\<close> in an unused
  item and when \<open>strtok\<close> finds no second token.
\<close>

record ritem =
  prompt :: string
  title :: "string option"

definition empty_item :: ritem where
  "empty_item = \<lparr>prompt = [], title = None\<rparr>"

definition RLIST_SIZE :: nat where "RLIST_SIZE = 32"

text \<open>
  The item for the line in \<open>buf\<close>: the last character (the newline) is cut, the number is
  printed into \<open>pr[3]\<close>, and the title is the second token of the line split at \<open>q\<close>.
\<close>

definition rule_item :: "nat \<Rightarrow> string \<Rightarrow> ritem" where
  "rule_item i buf =
     (let buf = butlast buf;
          pr = (if i < 9 then snprintf 3 (''0'' @ dec (i + 1)) else snprintf 3 (dec (i + 1)));
          rest = snd (strtok ''q'' buf);
          s = fst (strtok ''q'' rest)
      in \<lparr>prompt = pr, title = s\<rparr>)"

fun fill_rlist :: "nat \<Rightarrow> string list \<Rightarrow> ritem list \<Rightarrow> (nat \<times> ritem list) option" where
  "fill_rlist i [] rl = Some (i, rl)"
| "fill_rlist i (buf # bufs) rl =
     (if 1 < length buf then
        (if i < RLIST_SIZE then fill_rlist (i + 1) bufs (rl[i := rule_item i buf]) else None)
      else fill_rlist i bufs rl)"

text \<open>
  \<open>drop_rule\<close>, the action of the menu that \<open>delete_rule\<close> opens. Its loop runs \<open>i\<close> from 0 to
  50, past the 32 items of \<open>rlist\<close>: \<open>beyond i\<close> is what the memory at slot \<open>i\<close> past the end
  happens to hold.
\<close>

definition rlist_at :: "(nat \<Rightarrow> ritem) \<Rightarrow> ritem list \<Rightarrow> nat \<Rightarrow> ritem" where
  "rlist_at beyond rl i = (if i < RLIST_SIZE then rl ! i else beyond i)"

definition kept_line :: "int \<Rightarrow> ritem \<Rightarrow> string" where
  "kept_line d it =
     (case title it of
        None \<Rightarrow> []
      | Some t \<Rightarrow> if atoi (prompt it) \<noteq> d then ''/sbin/ipfw -q'' @ t @ [nl] else [])"

definition drop_rule ::
  "env \<Rightarrow> (nat \<Rightarrow> ritem) \<Rightarrow> ritem list \<Rightarrow> ritem \<Rightarrow> world \<Rightarrow> int \<times> world" where
  "drop_rule env beyond rl self w =
     (let d = atoi (prompt self);
          w = unlink RULESCRIPT w
      in if \<not> writable env RULESCRIPT then (- 1, w)
         else let w = fopen_append RULESCRIPT w;
                  w = fold (\<lambda>i. fprintf RULESCRIPT (kept_line d (rlist_at beyond rl i))) [0..<51] w;
                  w = run env ''/sbin/ipfw -q flush'' w;
                  w = run env ''/sbin/chmod 755 /etc/rules'' w;
                  w = run env ''/bin/sh /etc/rules'' w
              in (0, emit [Dialog_clear, Msgbox ''ClosedBSD'' ''Rule deleted     ''] w))"

text \<open>
  \<open>delete_rule\<close>: list the rules in a menu; \<open>pick\<close> is the item the user chooses, if any. More
  than 32 rules overrun \<open>rlist\<close>.
\<close>

definition delete_rule ::
  "env \<Rightarrow> (nat \<Rightarrow> ritem) \<Rightarrow> nat option \<Rightarrow> world \<Rightarrow> (rc \<times> world) option" where
  "delete_rule env beyond pick w =
     (let w = emit [Dialog_clear] w in
      case files w RULESCRIPT of
        None \<Rightarrow> Some (Rc (- 1), emit [End_dialog] w)
      | Some text \<Rightarrow> do {
          let w = emit [Dialog_clear] w;
          (i, rl) \<leftarrow> fill_rlist 0 (fgets_all 255 text) (replicate RLIST_SIZE empty_item);
          if i = 0 then
            Some (ditem_continue,
                  emit [Msgbox ''ClosedBSD'' ''There are no rules to delete    ''] w)
          else
            let items = map (\<lambda>it. (prompt it, case title it of None \<Rightarrow> [] | Some t \<Rightarrow> t)) (take i rl);
                w = emit [Menu ''ClosedBSD'' ''Please select a rule to remove'' items] w
            in (case pick of
                  None \<Rightarrow> Some (Rc 0, w)
                | Some k \<Rightarrow> Some (Rc 0, snd (drop_rule env beyond rl (rl ! k) w)))
        })"

text \<open>
  \<open>raw_drop_rule\<close>: delete a line by its number, through a copy in \<open>/tmp/rules\<close>. An unopenable
  \<open>/tmp/rules\<close> is a \<open>NULL\<close> stream, which \<open>fclose\<close> is called on. \<open>fopen(..., "r+")\<close> wants
  the file to exist and to be writable.
\<close>

definition kept_lines :: "int \<Rightarrow> string list \<Rightarrow> string" where
  "kept_lines line bufs =
     concat (map (\<lambda>(i, buf). if int i \<noteq> line then buf else []) (zip [1..<length bufs + 1] bufs))"

definition raw_drop_rule :: "env \<Rightarrow> int \<Rightarrow> world \<Rightarrow> (int \<times> world) option" where
  "raw_drop_rule env line w =
     (let w = unlink TMPRULES w in
      if \<not> writable env TMPRULES then
        (if files w RULESCRIPT = None \<or> \<not> writable env RULESCRIPT then Some (- 1, w) else None)
      else let w = fopen_append TMPRULES w in
      case files w RULESCRIPT of
        None \<Rightarrow> Some (- 1, w)
      | Some text \<Rightarrow> if \<not> writable env RULESCRIPT then Some (- 1, w) else
          let w = fprintf TMPRULES (kept_lines line (fgets_all 255 text)) w;
              w = unlink RULESCRIPT w
          in if \<not> writable env RULESCRIPT then Some (- 1, unlink TMPRULES w)
             else let w = fopen_append RULESCRIPT w;
                      w = fprintf RULESCRIPT (concat (fgets_all 255 (contents TMPRULES w))) w
                  in Some (0, unlink TMPRULES w))"

subsection \<open>A file as the list of its lines\<close>

text \<open>
  The interface between the writers of a line-structured file and its readers: a write of
  one line adds that line at the end of what the \<open>fgets\<close> loop sees.
\<close>

locale line_file =
  fixes append_line :: "string \<Rightarrow> 's \<Rightarrow> 's"
    and lines :: "'s \<Rightarrow> string list"
    and wf :: "'s \<Rightarrow> bool"
    and fits :: "string \<Rightarrow> bool"
  assumes wf_append: "wf s \<Longrightarrow> fits l \<Longrightarrow> wf (append_line l s)"
    and lines_append: "wf s \<Longrightarrow> fits l \<Longrightarrow> lines (append_line l s) = lines s @ [l]"
begin

lemma append_all:
  "wf s \<Longrightarrow> \<forall>l \<in> set ls. fits l \<Longrightarrow>
   wf (fold append_line ls s) \<and> lines (fold append_line ls s) = lines s @ ls"
  by (induction ls arbitrary: s) (simp_all add: wf_append lines_append)

end

text \<open>A line that one \<open>fgets\<close> into a 256-byte buffer reads whole.\<close>

definition short_line :: "string \<Rightarrow> bool" where
  "short_line l \<longleftrightarrow> is_line l \<and> length l \<le> 255"

definition file_lines :: "string \<Rightarrow> world \<Rightarrow> string list" where
  "file_lines p w = fgets_all 255 (contents p w)"

definition line_wf :: "string \<Rightarrow> world \<Rightarrow> bool" where
  "line_wf p w \<longleftrightarrow> (\<forall>l \<in> set (file_lines p w). is_line l)"

lemma concat_file_lines [simp]: "concat (file_lines p w) = contents p w"
  by (simp add: file_lines_def fgets_all_concat)

lemma file_lines_short: "line_wf p w \<Longrightarrow> l \<in> set (file_lines p w) \<Longrightarrow> short_line l"
  by (auto simp: line_wf_def short_line_def file_lines_def dest: fgets_all_bounds)

lemma file_lines_concat:
  "contents p w = concat ls \<Longrightarrow> \<forall>l \<in> set ls. short_line l \<Longrightarrow> file_lines p w = ls"
  by (simp add: file_lines_def fgets_all_lines short_line_def)

lemma line_wf_concat: "contents p w = concat ls \<Longrightarrow> \<forall>l \<in> set ls. short_line l \<Longrightarrow> line_wf p w"
  by (simp add: line_wf_def file_lines_concat short_line_def)

lemma file_lines_fprintf:
  assumes "line_wf p w" and "short_line l"
  shows "file_lines p (fprintf p l w) = file_lines p w @ [l]" and "line_wf p (fprintf p l w)"
proof -
  have c: "contents p (fprintf p l w) = concat (file_lines p w @ [l])"
    by (simp add: world)
  have s: "\<forall>l \<in> set (file_lines p w @ [l]). short_line l"
    using assms file_lines_short by auto
  show "file_lines p (fprintf p l w) = file_lines p w @ [l]"
    using c s by (rule file_lines_concat)
  show "line_wf p (fprintf p l w)"
    using c s by (rule line_wf_concat)
qed

interpretation rf: line_file "fprintf RULESCRIPT" "file_lines RULESCRIPT" "line_wf RULESCRIPT" short_line
  by unfold_locales (simp_all add: file_lines_fprintf)

text \<open>Two states with the same text have the same lines.\<close>

lemma same_contents:
  "contents p w = contents p w' \<Longrightarrow> file_lines p w = file_lines p w' \<and> line_wf p w = line_wf p w'"
  by (simp add: file_lines_def line_wf_def)

lemma contents_run: "spares env cs p \<Longrightarrow> c \<in> cs \<Longrightarrow> contents p (run env c w) = contents p w"
  by (simp add: contents_def run_spares)

lemma contents_fold_fprintf:
  "contents p (fold (\<lambda>x. fprintf p (f x)) xs w) = contents p w @ concat (map f xs)"
  by (induction xs arbitrary: w) (simp_all add: world)

lemma trace_fold_fprintf: "trace (fold (\<lambda>x. fprintf p (f x)) xs w) = trace w"
  by (induction xs arbitrary: w) (simp_all add: world)

lemma files_fold_fprintf:
  "files w p \<noteq> None \<Longrightarrow> files (fold (\<lambda>x. fprintf p (f x)) xs w) p =
     Some (contents p w @ concat (map f xs))"
  by (induction xs arbitrary: w) (auto simp: world contents_def)

subsection \<open>Inserting\<close>

definition CHMOD744 :: string where "CHMOD744 = ''/sbin/chmod 744 /etc/rules''"

lemma insert_rule_text_filter:
  assumes "writable env RULESCRIPT" and "r_action r \<noteq> FWD" and "action_listed r"
    and "length (filter_text r) < 256"
    and "spares env {filter_text r, CHMOD744} RULESCRIPT"
  shows "\<exists>w'. insert_rule_text env r w = Some (0, w') \<and>
    contents RULESCRIPT w' = contents RULESCRIPT w @ filter_text r @ [nl] \<and>
    commands (trace w') = commands (trace w) @ [filter_text r, CHMOD744] \<and> devdb w' = devdb w"
proof -
  let ?w1 = "fopen_append RULESCRIPT w"
  let ?w2 = "fprintf RULESCRIPT (filter_text r @ [nl]) (run env (filter_text r) ?w1)"
  have "\<not> (r_action r = RESET \<and> r_proto r \<noteq> TCP)"
    using assms(3) by (auto simp: action_listed_def split: proto.splits)
  then have "insert_rule_text env r w = Some (0, run env CHMOD744 ?w2)"
    using assms(1-4) by (simp add: insert_rule_text_def filter_command_eq cstr CHMOD744_def Let_def)
  moreover have "contents RULESCRIPT (run env CHMOD744 ?w2) =
      contents RULESCRIPT w @ filter_text r @ [nl]"
    using assms(5) by (simp add: contents_run [OF assms(5)] world)
  ultimately show ?thesis by (simp add: world)
qed

lemma insert_rule_text_reject:
  assumes "writable env RULESCRIPT" and "r_action r = RESET" and "r_proto r \<noteq> TCP"
  shows "\<exists>w'. insert_rule_text env r w = Some (- 1, w') \<and>
    contents RULESCRIPT w' = contents RULESCRIPT w \<and> trace w' = trace w"
  using assms by (simp add: insert_rule_text_def world Let_def)

subsection \<open>Adding a line by hand\<close>

definition FLUSH_CMD :: string where "FLUSH_CMD = ''/sbin/ipfw -q flush''"
definition SH_RULES :: string where "SH_RULES = ''/bin/sh /etc/rules''"
definition CHMOD755 :: string where "CHMOD755 = ''/sbin/chmod 755 /etc/rules''"

lemma raw_add_rule_effect:
  assumes "writable env RULESCRIPT" and "spares env {FLUSH_CMD, SH_RULES} RULESCRIPT"
  shows "fst (raw_add_rule env rule w) = 0 \<and>
    contents RULESCRIPT (snd (raw_add_rule env rule w)) =
      contents RULESCRIPT w @ ''/sbin/ipfw -q '' @ rule @ [nl] \<and>
    commands (trace (snd (raw_add_rule env rule w))) = commands (trace w) @ [FLUSH_CMD, SH_RULES]"
  using assms
  by (simp add: raw_add_rule_def Let_def contents_run [OF assms(2)] world
      flip: FLUSH_CMD_def SH_RULES_def)

subsection \<open>Deleting a line from the menu\<close>

text \<open>
  A recorded rule: the ipfw call, then a text without a newline that does not start with the
  letter at which the menu splits the line. All the writers of \<open>/etc/rules\<close> record such lines.
\<close>

definition IPFW_Q :: string where "IPFW_Q = ''/sbin/ipfw -q''"

definition rule_line :: "string \<Rightarrow> string" where
  "rule_line t = IPFW_Q @ t @ [nl]"

definition rule_body :: "string \<Rightarrow> bool" where
  "rule_body t \<longleftrightarrow> t \<noteq> [] \<and> hd t \<noteq> CHR ''q'' \<and> nl \<notin> set t \<and> length t \<le> 241"

text \<open>What the menu keeps of a rule: its text up to the next \<open>q\<close>.\<close>

definition menu_title :: "string \<Rightarrow> string" where
  "menu_title t = takeWhile (\<lambda>c. c \<noteq> CHR ''q'') t"

lemma short_rule_line: "rule_body t \<Longrightarrow> short_line (rule_line t)"
  by (auto simp: rule_line_def rule_body_def short_line_def is_line_def IPFW_Q_def butlast_append)

lemma butlast_rule_line: "butlast (rule_line t) = ''/sbin/ipfw -'' @ CHR ''q'' # t"
  by (simp add: rule_line_def IPFW_Q_def butlast_append)

lemma rule_item_line:
  assumes "rule_body t" and "i < 99"
  shows "atoi (prompt (rule_item i (rule_line t))) = int (i + 1)"
    and "title (rule_item i (rule_line t)) = Some (menu_title t)"
proof -
  have one: "snd (strtok ''q'' (butlast (rule_line t))) = t"
    unfolding butlast_rule_line by (subst strtok_token) auto
  have "dropWhile (\<lambda>c. c = CHR ''q'') t = t"
    using assms(1) by (cases t) (auto simp: rule_body_def)
  then have two: "fst (strtok ''q'' t) = Some (menu_title t)"
    using assms(1) by (simp add: strtok_def rule_body_def menu_title_def)
  show "title (rule_item i (rule_line t)) = Some (menu_title t)"
    using one two by (simp add: rule_item_def Let_def)
  show "atoi (prompt (rule_item i (rule_line t))) = int (i + 1)"
  proof (cases "i < 9")
    case True
    then show ?thesis
      by (simp add: rule_item_def Let_def snprintf_fits length_dec_1)
  next
    case False
    then show ?thesis
      using assms(2) by (simp add: rule_item_def Let_def snprintf_fits length_dec_2)
  qed
qed

text \<open>The filled table: item \<open>j\<close> comes from line \<open>j\<close>, the others stay as they were.\<close>

lemma fill_rlist_lines:
  "\<forall>l \<in> set ls. 1 < length l \<Longrightarrow> i + length ls \<le> RLIST_SIZE \<Longrightarrow> length rl = RLIST_SIZE \<Longrightarrow>
   \<exists>rl'. fill_rlist i ls rl = Some (i + length ls, rl') \<and> length rl' = RLIST_SIZE \<and>
     (\<forall>j < RLIST_SIZE. rl' ! j =
        (if i \<le> j \<and> j < i + length ls then rule_item j (ls ! (j - i)) else rl ! j))"
proof (induction ls arbitrary: i rl)
  case Nil
  then show ?case by auto
next
  case (Cons l ls)
  then obtain rl' where
    f: "fill_rlist (i + 1) ls (rl[i := rule_item i l]) = Some (i + 1 + length ls, rl')" and
    len: "length rl' = RLIST_SIZE" and
    nth: "\<forall>j < RLIST_SIZE. rl' ! j =
      (if i + 1 \<le> j \<and> j < i + 1 + length ls then rule_item j (ls ! (j - (i + 1)))
       else rl[i := rule_item i l] ! j)"
    using Cons.IH [of "i + 1" "rl[i := rule_item i l]"] by auto
  have "rl' ! j = (if i \<le> j \<and> j < i + length (l # ls) then rule_item j ((l # ls) ! (j - i))
      else rl ! j)" if "j < RLIST_SIZE" for j
    using nth that Cons.prems by (auto simp: nth_list_update nth_Cons' not_le less_Suc_eq_le)
  with f len Cons.prems show ?case by (intro exI [of _ rl']) simp
qed

lemma upt_append: "i \<le> j \<Longrightarrow> j \<le> k \<Longrightarrow> [i..<j] @ [j..<k] = [i..<k]"
  by (metis le_add_diff_inverse upt_add_eq_append)

lemma map_upt_nth:
  "k \<le> n \<Longrightarrow> n \<le> length ts \<Longrightarrow> map (\<lambda>j. f (ts ! j)) [k..<n] = map f (drop k (take n ts))"
  by (rule nth_equalityI) (auto simp: min_def)

lemma concat_skip_nth:
  assumes "k < length ts"
  shows "concat (map (\<lambda>j. if j \<noteq> k then f (ts ! j) else []) [0..<length ts]) =
    concat (map f (take k ts @ drop (Suc k) ts))"
proof -
  have "[0..<length ts] = [0..<k] @ k # [Suc k..<length ts]"
    using assms by (metis le0 less_imp_le upt_conv_Cons upt_add_eq_append le_add_diff_inverse)
  moreover have "map (\<lambda>j. if j \<noteq> k then f (ts ! j) else []) [0..<k] = map (\<lambda>j. f (ts ! j)) [0..<k]"
    by simp
  then have "map (\<lambda>j. if j \<noteq> k then f (ts ! j) else []) [0..<k] = map f (take k ts)"
    using assms map_upt_nth [of 0 k ts f] by simp
  moreover have "map (\<lambda>j. if j \<noteq> k then f (ts ! j) else []) [Suc k..<length ts] =
      map (\<lambda>j. f (ts ! j)) [Suc k..<length ts]"
    by simp
  then have "map (\<lambda>j. if j \<noteq> k then f (ts ! j) else []) [Suc k..<length ts] =
      map f (drop (Suc k) ts)"
    using assms map_upt_nth [of "Suc k" "length ts" ts f] by simp
  ultimately show ?thesis by simp
qed

text \<open>What \<open>drop_rule\<close> writes when the table holds the rules \<open>ts\<close>.\<close>

lemma kept_table:
  assumes n: "length ts \<le> RLIST_SIZE" and k: "k < length ts"
    and ts: "\<forall>t \<in> set ts. rule_body t"
    and rl: "\<forall>j < RLIST_SIZE. rl ! j =
      (if j < length ts then rule_item j (rule_line (ts ! j)) else empty_item)"
    and beyond: "\<forall>j. title (beyond j) = None"
  shows "concat (map (\<lambda>i. kept_line (int (k + 1)) (rlist_at beyond rl i)) [0..<51]) =
    concat (map (\<lambda>t. rule_line (menu_title t)) (take k ts @ drop (Suc k) ts))"
proof -
  let ?kept = "\<lambda>i. kept_line (int (k + 1)) (rlist_at beyond rl i)"
  have split: "[0..<51] = [0..<length ts] @ [length ts..<51]"
    using n by (intro upt_append [symmetric]) (simp_all add: RLIST_SIZE_def)
  have "?kept i = (if i \<noteq> k then rule_line (menu_title (ts ! i)) else [])"
    if "i < length ts" for i
  proof -
    have "i < RLIST_SIZE" and "i < 99" and "rule_body (ts ! i)"
      using that n ts by (simp_all add: RLIST_SIZE_def)
    then have "rlist_at beyond rl i = rule_item i (rule_line (ts ! i))"
      using that rl by (simp add: rlist_at_def)
    then show ?thesis
      using rule_item_line [OF \<open>rule_body (ts ! i)\<close> \<open>i < 99\<close>]
      by (auto simp: kept_line_def rule_line_def IPFW_Q_def)
  qed
  then have first: "map ?kept [0..<length ts] =
      map (\<lambda>i. if i \<noteq> k then rule_line (menu_title (ts ! i)) else []) [0..<length ts]"
    by simp
  have "?kept i = []" if "length ts \<le> i" for i
    using that rl beyond by (auto simp: rlist_at_def kept_line_def empty_item_def)
  then have rest: "concat (map ?kept [length ts..<51]) = []" by simp
  show ?thesis
    using concat_skip_nth [OF k, of "\<lambda>t. rule_line (menu_title t)"]
    by (simp only: split map_append concat_append rest first append_Nil2)
qed

text \<open>
  Deleting rule number \<open>k + 1\<close> of a file of at most 32 recorded rules: the other rules remain,
  in order, each cut at its first \<open>q\<close>, and the rule set is reloaded from the file.
\<close>

lemma delete_rule_effect:
  assumes w: "files w RULESCRIPT = Some (concat (map rule_line ts))"
    and n: "length ts \<le> RLIST_SIZE" and k: "k < length ts"
    and ts: "\<forall>t \<in> set ts. rule_body t"
    and beyond: "\<forall>j. title (beyond j) = None"
    and env: "writable env RULESCRIPT"
      "spares env {FLUSH_CMD, CHMOD755, SH_RULES} RULESCRIPT"
  shows "\<exists>w'. delete_rule env beyond (Some k) w = Some (Rc 0, w') \<and>
    files w' RULESCRIPT =
      Some (concat (map (\<lambda>t. rule_line (menu_title t)) (take k ts @ drop (Suc k) ts))) \<and>
    commands (trace w') = commands (trace w) @ [FLUSH_CMD, CHMOD755, SH_RULES]"
proof -
  let ?ls = "map rule_line ts"
  have lines: "fgets_all 255 (concat ?ls) = ?ls"
    using ts short_rule_line by (intro fgets_all_lines) (auto simp: short_line_def)
  have "\<forall>l \<in> set ?ls. 1 < length l"
    by (auto simp: rule_line_def IPFW_Q_def)
  then obtain rl where
    fill: "fill_rlist 0 ?ls (replicate RLIST_SIZE empty_item) = Some (length ts, rl)" and
    nth: "\<forall>j < RLIST_SIZE. rl ! j =
      (if j < length ts then rule_item j (rule_line (ts ! j)) else empty_item)"
    using fill_rlist_lines [of ?ls 0 "replicate RLIST_SIZE empty_item"] n by auto
  have self: "atoi (prompt (rl ! k)) = int (k + 1)"
    using nth k n ts rule_item_line(1) [of "ts ! k" k] by (simp add: RLIST_SIZE_def)
  have len_pos: "ts \<noteq> []" using k by auto
  define w1 where "w1 = emit [Dialog_clear, Dialog_clear, Menu ''ClosedBSD'' ''Please select a rule to remove''
    (map (\<lambda>it. (prompt it, case title it of None \<Rightarrow> [] | Some t \<Rightarrow> t)) (take (length ts) rl))] w"
  have del: "delete_rule env beyond (Some k) w = Some (Rc 0, snd (drop_rule env beyond rl (rl ! k) w1))"
    using k len_pos by (simp add: delete_rule_def w lines fill Let_def w1_def)
  define w2 where "w2 = fold (\<lambda>i. fprintf RULESCRIPT (kept_line (int (k + 1)) (rlist_at beyond rl i)))
    [0..<51] (fopen_append RULESCRIPT (unlink RULESCRIPT w1))"
  have drop: "snd (drop_rule env beyond rl (rl ! k) w1) =
      emit [Dialog_clear, Msgbox ''ClosedBSD'' ''Rule deleted     '']
        (run env SH_RULES (run env CHMOD755 (run env FLUSH_CMD w2)))"
    using env(1) by (simp add: drop_rule_def self Let_def w2_def FLUSH_CMD_def CHMOD755_def SH_RULES_def)
  have "files w2 RULESCRIPT =
      Some (concat (map (\<lambda>t. rule_line (menu_title t)) (take k ts @ drop (Suc k) ts)))"
    unfolding w2_def kept_table [OF n k ts nth beyond, symmetric]
    by (subst files_fold_fprintf) (simp_all add: world)
  moreover have "trace w2 = trace w1"
    by (simp add: w2_def trace_fold_fprintf world)
  ultimately show ?thesis
    unfolding del drop
    by (simp add: sparesD [OF env(2)] world) (simp add: w1_def)
qed

lemma menu_title_id: "CHR ''q'' \<notin> set t \<Longrightarrow> menu_title t = t"
  by (auto simp: menu_title_def takeWhile_eq_all_conv)

subsection \<open>Deleting a line by its number\<close>

lemma kept_lines_upt:
  "kept_lines line bufs = concat (map (\<lambda>j. if int (Suc j) \<noteq> line then bufs ! j else []) [0..<length bufs])"
proof -
  have "zip [1..<length bufs + 1] bufs = map (\<lambda>j. (Suc j, bufs ! j)) [0..<length bufs]"
    by (rule nth_equalityI) (auto simp del: upt_Suc)
  then show ?thesis by (simp add: kept_lines_def comp_def del: upt_Suc)
qed

lemma kept_lines_drop:
  assumes "k < length bufs"
  shows "kept_lines (int (Suc k)) bufs = concat (take k bufs @ drop (Suc k) bufs)"
proof -
  have "kept_lines (int (Suc k)) bufs =
      concat (map (\<lambda>j. if j \<noteq> k then (\<lambda>x. x) (bufs ! j) else []) [0..<length bufs])"
    by (simp only: kept_lines_upt) (simp add: of_nat_eq_iff cong: if_cong)
  also have "\<dots> = concat (map (\<lambda>x. x) (take k bufs @ drop (Suc k) bufs))"
    by (rule concat_skip_nth [OF assms])
  finally show ?thesis by simp
qed

lemma kept_lines_other:
  assumes "line \<le> 0 \<or> int (length bufs) < line"
  shows "kept_lines line bufs = concat bufs"
proof -
  have "kept_lines line bufs = concat (map (\<lambda>j. bufs ! j) [0..<length bufs])"
    using assms by (auto simp: kept_lines_upt intro!: arg_cong [where f = concat])
  then show ?thesis by (simp add: map_nth)
qed

lemma raw_drop_rule_effect:
  assumes w: "files w RULESCRIPT = Some s"
    and env: "writable env RULESCRIPT" "writable env TMPRULES"
  shows "\<exists>w'. raw_drop_rule env line w = Some (0, w') \<and>
    files w' = (files w)(RULESCRIPT \<mapsto> kept_lines line (fgets_all 255 s), TMPRULES := None) \<and>
    trace w' = trace w"
proof -
  define w1 where "w1 = fprintf TMPRULES (kept_lines line (fgets_all 255 s))
    (fopen_append TMPRULES (unlink TMPRULES w))"
  define w2 where "w2 = fopen_append RULESCRIPT (unlink RULESCRIPT w1)"
  define w3 where "w3 = fprintf RULESCRIPT (concat (fgets_all 255 (contents TMPRULES w2))) w2"
  have "raw_drop_rule env line w = Some (0, unlink TMPRULES w3)"
    using w env by (simp add: raw_drop_rule_def Let_def w1_def w2_def w3_def world)
  moreover have "files (unlink TMPRULES w3) =
      (files w)(RULESCRIPT \<mapsto> kept_lines line (fgets_all 255 s), TMPRULES := None)"
    by (rule ext) (simp add: w3_def w2_def w1_def world fgets_all_concat)
  moreover have "trace (unlink TMPRULES w3) = trace w"
    by (simp add: w3_def w2_def w1_def world)
  ultimately show ?thesis by blast
qed

end
