(* ===== verification/RuleProps.thy ===== *)
theory RuleProps
  imports RuleFile
begin

text \<open>
  What the rule manager guarantees: the command lines of filter and of forwarding rules, word
  by word; recording a rule; deleting one, by its number and from the menu.
\<close>

subsection \<open>Forwarding rules\<close>

definition fwd_tail :: "string \<Rightarrow> string list" where
  "fwd_tail port = (if port = [] then [] else if take 3 port = ''any'' then ['' ''] else ['' '', port])"

definition fwd_text :: "ruleset \<Rightarrow> string" where
  "fwd_text r =
     ''/sbin/ipfw -q add fwd '' @ r_other_a r @ '','' @ r_other_b r @ '' '' @ proto_text (r_proto r) @
     '' from '' @ r_src r @ concat (fwd_tail (r_src_port r)) @ ''to '' @ r_dst r @
     concat (fwd_tail (r_dst_port r))"

lemma fwd_port_strcats: "fwd_port cmd port = strcats 256 cmd (fwd_tail port)"
  by (cases "port = []"; cases "take 3 port = ''any''")
    (simp_all add: fwd_port_def fwd_tail_def strncmp_eq_def strcat_as_strcats strcats_append)

lemma fwd_pieces_eq:
  "strcats 256 (snprintf 256 h) (''from '' # ss) =
    (if length (h @ ''from '' @ concat ss) < 256 then Some (h @ ''from '' @ concat ss) else None)"
proof (cases "length h < 256")
  case True
  then show ?thesis by (simp add: snprintf_fits strcats_eq)
next
  case False
  then have "length (snprintf 256 h) = 255" by (simp add: snprintf_def)
  then show ?thesis using False by (simp add: strcats_eq)
qed

lemma fwd_command_eq:
  assumes "r_proto r = TCP \<or> r_proto r = UDP"
  shows "fwd_command r = (if length (fwd_text r) < 256 then Some (fwd_text r) else None)"
  using assms
  by (elim disjE; simp only: fwd_command_def proto.case Let_def strcat_as_strcats fwd_port_strcats strcats_append)
    (simp_all add: fwd_pieces_eq fwd_text_def proto_text_def)

lemma insert_forward:
  assumes "writable env RULESCRIPT" "r_action r = FWD" "r_proto r = TCP \<or> r_proto r = UDP"
    and "length (fwd_text r) < 256" "spares env {fwd_text r} RULESCRIPT"
  shows "\<exists>w'. insert_rule_text env r w = Some (0, w') \<and>
    contents RULESCRIPT w' = contents RULESCRIPT w @ fwd_text r @ [nl] \<and>
    commands (trace w') = commands (trace w) @ [fwd_text r] \<and> devdb w' = devdb w"
  using assms contents_run [OF assms(5), of "fwd_text r"]
  by (simp add: insert_rule_text_def fwd_command_eq Let_def world)

text \<open>The words of a forwarding rule; \<open>fwd_join\<close> is what stands before the destination.\<close>

definition fwd_join :: "string \<Rightarrow> string \<Rightarrow> string list" where
  "fwd_join src port =
     (if port = [] then [src @ ''to'']
      else if take 3 port = ''any'' then [src, ''to''] else [src, port @ ''to''])"

definition fwd_words :: "ruleset \<Rightarrow> string list" where
  "fwd_words r =
     [''/sbin/ipfw'', ''-q'', ''add'', ''fwd'', r_other_a r @ '','' @ r_other_b r,
      proto_text (r_proto r), ''from''] @ fwd_join (r_src r) (r_src_port r) @ [r_dst r] @
     (if r_dst_port r = [] \<or> take 3 (r_dst_port r) = ''any'' then [] else [r_dst_port r])"

lemma words_word: "blank_free s \<Longrightarrow> s \<noteq> [] \<Longrightarrow> words (s @ CHR '' '' # t) = s # words t"
  by (simp add: words_from_word)

lemma words_last: "blank_free s \<Longrightarrow> s \<noteq> [] \<Longrightarrow> words s = [s]"
  using words_from_end [of s "[]"] by simp

lemma words_dst:
  assumes "blank_free d" "d \<noteq> []" "blank_free p"
  shows "words (d @ concat (fwd_tail p)) =
    d # (if p = [] \<or> take 3 p = ''any'' then [] else [p])"
  using assms words_word [of d "[]"] words_word [of d p] words_last [of p] words_last [of d]
  by (auto simp: fwd_tail_def)

lemma words_src:
  assumes "blank_free s" "s \<noteq> []" "blank_free p"
  shows "words (s @ concat (fwd_tail p) @ ''to '' @ t) = fwd_join s p @ words t"
proof -
  have b: "blank_free (s @ ''to'')" "blank_free (p @ ''to'')"
    using assms by (auto simp: blank_free_def)
  have "words (s @ ''to '' @ t) = (s @ ''to'') # words t"
    using words_word [OF b(1), of t] by simp
  moreover have "words (s @ CHR '' '' # ''to '' @ t) = s # ''to'' # words t"
    using words_word [OF assms(1,2), of "''to '' @ t"] by simp
  moreover have "words (s @ CHR '' '' # p @ ''to '' @ t) = s # (p @ ''to'') # words t"
    using words_word [OF assms(1,2), of "p @ ''to '' @ t"] words_word [OF b(2), of t] by simp
  ultimately show ?thesis by (simp add: fwd_tail_def fwd_join_def)
qed

lemma fwd_text_words:
  assumes "blank_free (r_src r)" "r_src r \<noteq> []" "blank_free (r_src_port r)"
    and "blank_free (r_dst r)" "r_dst r \<noteq> []" "blank_free (r_dst_port r)"
    and "blank_free (r_other_a r)" "blank_free (r_other_b r)"
  shows "words (fwd_text r) = fwd_words r"
proof -
  have to: "blank_free (r_other_a r @ '','' @ r_other_b r)"
    using assms(7,8) by (auto simp: blank_free_def)
  have "words (r_other_a r @ '','' @ r_other_b r @ '' '' @ t) =
      (r_other_a r @ '','' @ r_other_b r) # words t" for t
    using words_word [OF to, of t] by simp
  then show ?thesis
    using words_src [OF assms(1-3)] words_dst [OF assms(4-6)]
    by (simp add: fwd_text_def fwd_words_def words_proto)
qed

subsection \<open>How long a filter rule can be\<close>

lemma option_text_length: "length (option_text r) \<le> 16"
  by (auto simp: option_text_def split: proto.split)

lemma text_parts_length:
  "length (action_text a) \<le> 11" "length (proto_text p) \<le> 4" "length (dir_text r) \<le> 5"
  by (auto simp: action_text_def proto_text_def dir_text_def split: action.split proto.split ifs.split)

lemma pieces_length:
  "length (concat (port_pieces r p)) \<le> 1 + length p"
  "length (concat (other_pieces r)) \<le> (if r_proto r = IP then 1 + length (r_other_a r) else 0)"
  by (auto simp: port_pieces_def other_pieces_def)

lemma filter_text_length:
  assumes "length (r_src r) \<le> 33" "length (r_dst r) \<le> 33"
    and "length (r_src_port r) \<le> 4" "length (r_dst_port r) \<le> 4"
    and "r_proto r = IP \<Longrightarrow> length (r_other_a r) \<le> 100"
  shows "length (filter_text r) < 255" "length (filter_text r) < 256"
proof -
  have "length (concat (other_pieces r)) \<le> 101"
    using assms(5) by (auto simp: other_pieces_def)
  then show "length (filter_text r) < 255"
    using option_text_length [of r] text_parts_length(1) [of "r_action r"]
      text_parts_length(2) [of "r_proto r"] text_parts_length(3) [of r]
      pieces_length(1) [of r "r_src_port r"] pieces_length(1) [of r "r_dst_port r"] assms(1-4)
    by (simp add: filter_text_def)
  then show "length (filter_text r) < 256" by simp
qed

subsection \<open>Properties\<close>

text \<open>
  C22. What \<open>__insert_rule\<close> builds for a filter rule. The \<open>strcat\<close> calls give a command exactly
  when the switch of the protocol lists the action and the text fits the 256 bytes; it is then the
  closed form \<open>filter_text\<close>.
\<close>

theorem filter_command_text:
  "filter_command r =
     (if action_listed r \<and> length (filter_text r) < 256 then Some (filter_text r) else None)"
  by (rule filter_command_eq)

text \<open>
  The command of a filter rule says what the rule says: the shell splits it into the words of
  the ipfw rule with this action, protocol, source, ports, destination, direction and options.
\<close>

theorem filter_command_words:
  assumes "filter_command r = Some cmd" and "plain_fields r"
  shows "words cmd = rule_words r"
  using assms filter_text_words by (auto simp: filter_command_eq split: if_splits)

theorem filter_command_words_witness:
  "words ''/sbin/ipfw -q add deny udp from any to 10.0.0.1 53 in '' =
     [''/sbin/ipfw'', ''-q'', ''add'', ''deny'', ''udp'', ''from'', ''any'', ''to'', ''10.0.0.1'', ''53'', ''in'']"
proof -
  let ?r = "zero_rule\<lparr>r_action := DENY, r_proto := UDP, r_ifs := INCOMING, r_src := ''any'',
    r_dst := ''10.0.0.1'', r_dst_port := ''53''\<rparr>"
  have "filter_command ?r = Some ''/sbin/ipfw -q add deny udp from any to 10.0.0.1 53 in ''"
    "plain_fields ?r"
    "rule_words ?r = [''/sbin/ipfw'', ''-q'', ''add'', ''deny'', ''udp'', ''from'', ''any'', ''to'',
       ''10.0.0.1'', ''53'', ''in'']"
    by code_simp+
  from filter_command_words [OF this(1,2)] this(3) show ?thesis by (simp only:)
qed

text \<open>
  A forwarding rule is not what it should be: there is no blank before \<open>to\<close>, so that the word
  \<open>to\<close> is only there when the source port starts with \<open>any\<close>; otherwise it is glued to the source
  address or to the source port.
\<close>

theorem forward_command_words:
  assumes "fwd_command r = Some cmd"
    and "blank_free (r_src r)" "r_src r \<noteq> []" "blank_free (r_src_port r)"
    and "blank_free (r_dst r)" "r_dst r \<noteq> []" "blank_free (r_dst_port r)"
    and "blank_free (r_other_a r)" "blank_free (r_other_b r)"
  shows "words cmd = fwd_words r"
proof -
  have "r_proto r = TCP \<or> r_proto r = UDP"
    using assms(1) by (cases "r_proto r") (auto simp: fwd_command_def)
  then have "cmd = fwd_text r"
    using assms(1) by (auto simp: fwd_command_eq split: if_splits)
  then show ?thesis using fwd_text_words assms(2-9) by simp
qed

theorem forward_command_words_witness:
  "\<exists>cmd. fwd_command (zero_rule\<lparr>r_action := FWD, r_proto := TCP, r_src := ''any'', r_src_port := ''80'',
     r_dst := ''me'', r_dst_port := ''80'', r_other_a := ''10.0.0.9'', r_other_b := ''8080''\<rparr>) = Some cmd \<and>
     words cmd = [''/sbin/ipfw'', ''-q'', ''add'', ''fwd'', ''10.0.0.9,8080'', ''tcp'', ''from'',
       ''any'', ''80to'', ''me'', ''80'']"
proof -
  let ?r = "zero_rule\<lparr>r_action := FWD, r_proto := TCP, r_src := ''any'', r_src_port := ''80'',
     r_dst := ''me'', r_dst_port := ''80'', r_other_a := ''10.0.0.9'', r_other_b := ''8080''\<rparr>"
  have cmd: "fwd_command ?r = Some (the (fwd_command ?r))" and
    w: "fwd_words ?r = [''/sbin/ipfw'', ''-q'', ''add'', ''fwd'', ''10.0.0.9,8080'', ''tcp'', ''from'',
       ''any'', ''80to'', ''me'', ''80'']"
    by code_simp+
  have "words (the (fwd_command ?r)) = fwd_words ?r"
    by (rule forward_command_words [OF cmd]) code_simp+
  then show ?thesis using cmd w by metis
qed

text \<open>
  Recording a filter rule appends its line to \<open>/etc/rules\<close>: what the \<open>fgets\<close> loops read there
  afterwards are the old lines and the new one, and ipfw has run with the same text.
\<close>

theorem insert_rule_appends:
  assumes "line_wf RULESCRIPT w" and "writable env RULESCRIPT" and "r_action r \<noteq> FWD"
    and "action_listed r" and "length (filter_text r) < 255" and "nl \<notin> set (filter_text r)"
    and "spares env {filter_text r, CHMOD744} RULESCRIPT"
  shows "\<exists>w'. insert_rule_text env r w = Some (0, w') \<and>
    file_lines RULESCRIPT w' = file_lines RULESCRIPT w @ [filter_text r @ [nl]] \<and>
    line_wf RULESCRIPT w' \<and>
    commands (trace w') = commands (trace w) @ [filter_text r, CHMOD744]"
proof -
  obtain w' where w': "insert_rule_text env r w = Some (0, w')"
    "contents RULESCRIPT w' = contents RULESCRIPT w @ filter_text r @ [nl]"
    "commands (trace w') = commands (trace w) @ [filter_text r, CHMOD744]"
    using insert_rule_text_filter [OF assms(2,3,4) _ assms(7), of w] assms(5) by auto
  have "short_line (filter_text r @ [nl])"
    using assms(5,6) by (simp add: short_line_def is_line_def)
  moreover have "contents RULESCRIPT w' = contents RULESCRIPT (fprintf RULESCRIPT (filter_text r @ [nl]) w)"
    using w'(2) by (simp add: world)
  ultimately show ?thesis
    using w' rf.lines_append [OF assms(1)] rf.wf_append [OF assms(1)] same_contents by metis
qed

theorem insert_rule_appends_witness:
  "\<exists>w'. insert_rule_text calm (zero_rule\<lparr>r_src := ''any'', r_dst := ''me''\<rparr>) blank_world = Some (0, w') \<and>
     file_lines RULESCRIPT w' = [''/sbin/ipfw -q add allow ip from any to me'' @ [nl]]"
proof -
  let ?r = "zero_rule\<lparr>r_src := ''any'', r_dst := ''me''\<rparr>"
  have t: "filter_text ?r = ''/sbin/ipfw -q add allow ip from any to me''" "action_listed ?r"
    "r_action ?r = ALLOW" "file_lines RULESCRIPT blank_world = []"
    by code_simp+
  have "line_wf RULESCRIPT blank_world"
    using t(4) by (simp add: line_wf_def)
  from insert_rule_appends [OF this, of calm ?r] show ?thesis
    by (auto simp: t)
qed

text \<open>
  C23. Deleting a rule from the menu keeps the others, in their order, each cut at the first letter
  \<open>q\<close> of its text, and loads the kernel from the file again. A rule with a \<open>q\<close> in it is damaged by
  the deletion of another one.
\<close>

theorem menu_delete_keeps_others:
  assumes "files w RULESCRIPT = Some (concat (map rule_line ts))"
    and "length ts \<le> RLIST_SIZE" and "k < length ts" and "\<forall>t \<in> set ts. rule_body t"
    and "\<forall>j. title (beyond j) = None" and "writable env RULESCRIPT"
    and "spares env {FLUSH_CMD, CHMOD755, SH_RULES} RULESCRIPT"
  shows "\<exists>w'. delete_rule env beyond (Some k) w = Some (Rc 0, w') \<and>
    files w' RULESCRIPT =
      Some (concat (map (\<lambda>t. rule_line (menu_title t)) (take k ts @ drop (Suc k) ts))) \<and>
    commands (trace w') = commands (trace w) @ [FLUSH_CMD, CHMOD755, SH_RULES] \<and>
    ((\<forall>t \<in> set ts. CHR ''q'' \<notin> set t) \<longrightarrow>
      files w' RULESCRIPT = Some (concat (map rule_line (take k ts @ drop (Suc k) ts))))"
proof -
  have "map (\<lambda>t. rule_line (menu_title t)) (take k ts @ drop (Suc k) ts) =
      map rule_line (take k ts @ drop (Suc k) ts)" if "\<forall>t \<in> set ts. CHR ''q'' \<notin> set t"
    using that by (auto simp: menu_title_id dest: in_set_takeD in_set_dropD)
  then show ?thesis using delete_rule_effect [OF assms] by metis
qed

theorem menu_delete_keeps_others_witness:
  "\<exists>w'. delete_rule calm (\<lambda>_. empty_item) (Some 0)
      (blank_world\<lparr>files := [RULESCRIPT \<mapsto> rule_line '' add 1 deny ip from any to any'' @
         rule_line '' add 2 allow ip from squid to me'']\<rparr>) = Some (Rc 0, w') \<and>
     files w' RULESCRIPT = Some (''/sbin/ipfw -q add 2 allow ip from s'' @ [nl])"
proof -
  let ?ts = "['' add 1 deny ip from any to any'', '' add 2 allow ip from squid to me'']"
  let ?w = "blank_world\<lparr>files := [RULESCRIPT \<mapsto> rule_line '' add 1 deny ip from any to any'' @
         rule_line '' add 2 allow ip from squid to me'']\<rparr>"
  have f: "files ?w RULESCRIPT = Some (concat (map rule_line ?ts))" by simp
  have "\<forall>t \<in> set ?ts. rule_body t" by (simp add: rule_body_def)
  moreover have "concat (map (\<lambda>t. rule_line (menu_title t)) (take 0 ?ts @ drop (Suc 0) ?ts)) =
      ''/sbin/ipfw -q add 2 allow ip from s'' @ [nl]"
    by code_simp
  ultimately show ?thesis
    using menu_delete_keeps_others [OF f, of 0 "\<lambda>_. empty_item" calm]
    by (auto simp: RLIST_SIZE_def empty_item_def)
qed

text \<open>
  Deleting a line by its number, through \<open>/tmp/rules\<close>: exactly that line goes, the others and
  every other file stay as they are, and a number out of range changes nothing.
\<close>

theorem raw_drop_deletes_line:
  assumes "files w RULESCRIPT = Some s" and "writable env RULESCRIPT" and "writable env TMPRULES"
  shows "\<exists>w'. raw_drop_rule env line w = Some (0, w') \<and>
    files w' RULESCRIPT = Some (
      if 1 \<le> line \<and> line \<le> int (length (fgets_all 255 s))
      then concat (take (nat line - 1) (fgets_all 255 s) @ drop (nat line) (fgets_all 255 s)) else s) \<and>
    files w' TMPRULES = None \<and> (\<forall>p. p \<noteq> RULESCRIPT \<longrightarrow> p \<noteq> TMPRULES \<longrightarrow> files w' p = files w p) \<and>
    trace w' = trace w"
proof -
  have "kept_lines line (fgets_all 255 s) =
      (if 1 \<le> line \<and> line \<le> int (length (fgets_all 255 s))
       then concat (take (nat line - 1) (fgets_all 255 s) @ drop (nat line) (fgets_all 255 s)) else s)"
    using kept_lines_drop [of "nat line - 1" "fgets_all 255 s"] kept_lines_other [of line "fgets_all 255 s"]
    by (auto simp: fgets_all_concat Suc_pred' nat_less_iff)
  then show ?thesis
    using raw_drop_rule_effect [OF assms, of line] by auto
qed

theorem raw_drop_deletes_line_witness:
  "\<exists>w'. raw_drop_rule calm 2
      (blank_world\<lparr>files := [RULESCRIPT \<mapsto> ''one'' @ [nl] @ ''two'' @ [nl] @ ''three'' @ [nl]]\<rparr>) = Some (0, w') \<and>
     files w' RULESCRIPT = Some (''one'' @ [nl] @ ''three'' @ [nl])"
proof -
  let ?s = "''one'' @ [nl] @ ''two'' @ [nl] @ ''three'' @ [nl]"
  have l: "fgets_all 255 ?s = [''one'' @ [nl], ''two'' @ [nl], ''three'' @ [nl]]"
    by code_simp
  have f: "files (blank_world\<lparr>files := [RULESCRIPT \<mapsto> ?s]\<rparr>) RULESCRIPT = Some ?s" by simp
  show ?thesis
    using raw_drop_deletes_line [OF f, of calm 2] unfolding l by auto
qed

text \<open>
  Adding a rule by hand and deleting the last line again gives back the file, when every line in it
  ends with a newline and fits the 256-byte buffer of the \<open>fgets\<close> loop.
\<close>

theorem raw_add_drop:
  assumes "files w RULESCRIPT = Some s" and "line_wf RULESCRIPT w"
    and "nl \<notin> set rule" and "length rule \<le> 240"
    and "writable env RULESCRIPT" and "writable env TMPRULES"
    and "spares env {FLUSH_CMD, SH_RULES} RULESCRIPT"
  shows "\<exists>w'. raw_drop_rule env (int (length (file_lines RULESCRIPT w)) + 1) (snd (raw_add_rule env rule w)) =
      Some (0, w') \<and> files w' RULESCRIPT = Some s"
proof -
  define u where "u = snd (raw_add_rule env rule w)"
  let ?l = "''/sbin/ipfw -q '' @ rule @ [nl]"
  have c: "contents RULESCRIPT u = contents RULESCRIPT w @ ?l"
    using raw_add_rule_effect [OF assms(5,7), of rule w] by (simp add: u_def)
  have l: "file_lines RULESCRIPT u = file_lines RULESCRIPT w @ [?l]"
    using same_contents [of RULESCRIPT u "fprintf RULESCRIPT ?l w"] rf.lines_append [OF assms(2), of ?l]
      c assms(3,4)
    by (simp add: world short_line_def is_line_def butlast_append)
  have "files u RULESCRIPT \<noteq> None"
    using c by (auto simp: contents_def split: option.splits)
  then have f: "files u RULESCRIPT = Some (contents RULESCRIPT u)"
    by (auto simp: contents_def)
  have "kept_lines (int (Suc (length (file_lines RULESCRIPT w)))) (file_lines RULESCRIPT u) = s"
    using assms(1) concat_file_lines [of RULESCRIPT w]
    by (subst kept_lines_drop) (simp_all add: l contents_def)
  then show ?thesis
    using raw_drop_rule_effect [OF f assms(5,6), of "int (length (file_lines RULESCRIPT w)) + 1"]
    by (auto simp: u_def [symmetric] file_lines_def add.commute)
qed

theorem raw_add_drop_witness:
  "\<exists>w'. raw_drop_rule calm 2 (snd (raw_add_rule calm ''add 2 allow ip from any to me''
      (blank_world\<lparr>files := [RULESCRIPT \<mapsto> ''one'' @ [nl]]\<rparr>))) = Some (0, w') \<and>
    files w' RULESCRIPT = Some (''one'' @ [nl])"
proof -
  let ?w = "blank_world\<lparr>files := [RULESCRIPT \<mapsto> ''one'' @ [nl]]\<rparr>"
  have l: "file_lines RULESCRIPT ?w = [''one'' @ [nl]]"
    by (rule file_lines_concat) (auto simp: contents_def short_line_def is_line_def)
  then have "line_wf RULESCRIPT ?w" by (simp add: line_wf_def is_line_def)
  then show ?thesis
    using raw_add_drop [of ?w "''one'' @ [nl]" "''add 2 allow ip from any to me''" calm] l by auto
qed

end
