(* ===== verification/Paint.thy ===== *)
theory Paint
  imports World
begin

text \<open>
  A small terminal that reads a list of curses calls (the attribute in force, and the text
  painted at each place), what a box of choices should look like on it, and the contract of a
  function that draws one, as a locale: one line per choice, the mark on the chosen one, the
  highlight on the one the cursor is at.
\<close>

subsection \<open>What a list of curses calls paints\<close>

text \<open>
  A painted line: its row, its column, the attribute in force and the text. \<open>wattrset\<close> sets
  the attribute of the calls after it.
\<close>

type_synonym paint = "int \<times> int \<times> attr \<times> string"

fun painted :: "attr \<Rightarrow> curses list \<Rightarrow> paint list" where
  "painted a [] = []"
| "painted a (Wattrset b # cs) = painted b cs"
| "painted a (Mvwprintw y x s # cs) = (y, x, a, s) # painted a cs"
| "painted a (_ # cs) = painted a cs"

fun attr_after :: "attr \<Rightarrow> curses list \<Rightarrow> attr" where
  "attr_after a [] = a"
| "attr_after a (Wattrset b # cs) = attr_after b cs"
| "attr_after a (_ # cs) = attr_after a cs"

lemma painted_append [simp]:
  "painted a (cs @ ds) = painted a cs @ painted (attr_after a cs) ds"
  by (induction a cs rule: painted.induct) auto

text \<open>
  What the user is to see in a box of choices: for each choice a line with its label, \<open>(*)\<close>
  on the chosen one and \<open>( )\<close> on the others; the line the cursor is at is in brackets and in
  the attribute of the selection. The lines are at \<open>y + 1, y + 2, ...\<close> in column \<open>x + 1\<close>.
\<close>

definition radio_line :: "string \<Rightarrow> bool \<Rightarrow> bool \<Rightarrow> string" where
  "radio_line label chosen at =
     (if at then ''['' else '' '') @ (if chosen then ''(*)'' else ''( )'') @ label @
     (if at then '']'' else '' '')"

definition radio_rows :: "int \<Rightarrow> int \<Rightarrow> (string \<times> 'v) list \<Rightarrow> 'v \<Rightarrow> int \<Rightarrow> paint list" where
  "radio_rows y x rows v selected =
     map (\<lambda>(i, label, u).
            (y + i, x + 1, if i = selected then check_selected_attr else dialog_attr,
             radio_line label (u = v) (i = selected)))
       (zip [1..int (length rows)] rows)"

text \<open>What an eye can tell from a painted line: that its choice is marked, that it is highlighted.\<close>

definition marked :: "paint \<Rightarrow> bool" where
  "marked p = (case p of (_, _, _, s) \<Rightarrow> take 3 (drop 1 s) = ''(*)'')"

definition highlighted :: "paint \<Rightarrow> bool" where
  "highlighted p = (case p of (_, _, a, s) \<Rightarrow> a = check_selected_attr \<and> take 1 s = ''['')"

definition row_of :: "paint \<Rightarrow> int" where
  "row_of p = fst p"

lemma filter_upt_single: "k < n \<Longrightarrow> [j \<leftarrow> [0..<n]. j = k] = [k :: nat]"
  by (induction n) (auto simp: less_Suc_eq)

subsection \<open>The contract of a box of choices\<close>

text \<open>
  A box draws a title and then one line for each of its choices; \<open>val\<close> reads the chosen value
  from the rule, and \<open>shown\<close> says for which rules and cursor positions it does so.
\<close>

locale radio_box =
  fixes draw :: "int \<Rightarrow> int \<Rightarrow> int \<Rightarrow> ruleset \<Rightarrow> curses list"
    and title :: "int \<Rightarrow> int \<Rightarrow> ruleset \<Rightarrow> paint"
    and rows :: "ruleset \<Rightarrow> int \<Rightarrow> (string \<times> 'v) list"
    and val :: "ruleset \<Rightarrow> 'v"
    and shown :: "ruleset \<Rightarrow> int \<Rightarrow> bool"
  assumes painted_box:
      "shown r sel \<Longrightarrow> painted a (draw y x sel r) = title y x r # radio_rows y x (rows r sel) (val r) sel"
    and sel_range: "shown r sel \<Longrightarrow> 0 \<le> sel \<and> sel \<le> int (length (rows r sel))"
    and val_listed: "shown r sel \<Longrightarrow> val r \<in> snd ` set (rows r sel)"
    and rows_distinct: "shown r sel \<Longrightarrow> distinct (map snd (rows r sel))"
    and title_plain: "\<not> marked (title y x r) \<and> \<not> highlighted (title y x r)"
begin

lemma length_painted: "shown r sel \<Longrightarrow> length (painted a (draw y x sel r)) = length (rows r sel) + 1"
  by (simp add: painted_box radio_rows_def)

lemma painted_nth:
  assumes "shown r sel" and "i < length (rows r sel)"
  shows "painted a (draw y x sel r) ! Suc i =
     (y + 1 + int i, x + 1, if int i + 1 = sel then check_selected_attr else dialog_attr,
      radio_line (fst (rows r sel ! i)) (snd (rows r sel ! i) = val r) (int i + 1 = sel))"
  using assms by (simp add: painted_box radio_rows_def split_beta algebra_simps)

lemma marked_nth:
  "shown r sel \<Longrightarrow> i < length (rows r sel) \<Longrightarrow>
     marked (painted a (draw y x sel r) ! Suc i) \<longleftrightarrow> snd (rows r sel ! i) = val r"
  by (simp add: painted_nth marked_def radio_line_def)

lemma highlighted_nth:
  "shown r sel \<Longrightarrow> i < length (rows r sel) \<Longrightarrow>
     highlighted (painted a (draw y x sel r) ! Suc i) \<longleftrightarrow> int i + 1 = sel"
  by (simp add: painted_nth highlighted_def radio_line_def)

text \<open>Exactly one line is marked, that of the value the rule holds.\<close>

lemma one_marked:
  assumes "shown r sel"
  shows "\<exists>i < length (rows r sel). snd (rows r sel ! i) = val r \<and>
     [j \<leftarrow> [0..<Suc (length (rows r sel))]. marked (painted a (draw y x sel r) ! j)] = [Suc i]"
proof -
  obtain i where i: "i < length (rows r sel)" "snd (rows r sel ! i) = val r"
    using val_listed [OF assms] by (auto simp: in_set_conv_nth)
  have "marked (painted a (draw y x sel r) ! j) \<longleftrightarrow> j = Suc i"
    if "j < Suc (length (rows r sel))" for j
  proof (cases j)
    case 0
    then show ?thesis using assms title_plain by (simp add: painted_box)
  next
    case (Suc k)
    then have "k < length (rows r sel)" using that by simp
    then show ?thesis
      using Suc i nth_eq_iff_index_eq [OF rows_distinct [OF assms], of k i]
      by (simp add: marked_nth [OF assms])
  qed
  then have "[j \<leftarrow> [0..<Suc (length (rows r sel))]. marked (painted a (draw y x sel r) ! j)] =
      [j \<leftarrow> [0..<Suc (length (rows r sel))]. j = Suc i]"
    by (intro filter_cong) auto
  also have "\<dots> = [Suc i]"
    using i(1) by (simp add: filter_upt_single)
  finally show ?thesis using i by blast
qed

text \<open>The highlight is on the line of the cursor, and nowhere when the cursor is outside.\<close>

lemma one_highlighted:
  assumes "shown r sel"
  shows "[j \<leftarrow> [0..<Suc (length (rows r sel))]. highlighted (painted a (draw y x sel r) ! j)] =
     (if sel = 0 then [] else [nat sel])"
proof -
  have eq: "highlighted (painted a (draw y x sel r) ! j) \<longleftrightarrow> sel \<noteq> 0 \<and> j = nat sel"
    if "j < Suc (length (rows r sel))" for j
  proof (cases j)
    case 0
    then show ?thesis using assms title_plain sel_range [OF assms] by (auto simp: painted_box)
  next
    case (Suc k)
    then show ?thesis
      using that sel_range [OF assms] by (auto simp: highlighted_nth [OF assms])
  qed
  then have "[j \<leftarrow> [0..<Suc (length (rows r sel))]. highlighted (painted a (draw y x sel r) ! j)] =
      [j \<leftarrow> [0..<Suc (length (rows r sel))]. sel \<noteq> 0 \<and> j = nat sel]"
    by (intro filter_cong) auto
  also have "\<dots> = (if sel = 0 then [] else [nat sel])"
    using sel_range [OF assms] by (auto simp: filter_upt_single)
  finally show ?thesis .
qed

end

end
