(* ===== verification/Widgets.thy ===== *)
theory Widgets
  imports Paint
begin

text \<open>
  The drawing functions of \<open>closedbsd/config/misc.c\<close>: each returns the curses calls it makes,
  in order. Every box of choices of the rule dialogs is shown to meet the contract of
  \<open>Paint\<close>: the interpretations of \<open>radio_box\<close> at the end.
\<close>

named_theorems widget_defs \<open>the definitions of the drawing functions\<close>

subsection \<open>The drawing functions\<close>

text \<open>
  The window frame, the address list and the buttons. The label of the second button has a
  tab in the source when the first one is selected.
\<close>

definition std_window :: "string \<Rightarrow> curses list" where
  "std_window title =
    [Draw_box 0 0 22 76 dialog_attr border_attr,
     Wattrset title_attr,
     Mvwprintw 0 (76 div 2 - int (length title) div 2) title,
     Draw_shadow 1 1 22 76,
     Wmove 0 0,
     Wrefresh]"

definition ip_list :: "string \<Rightarrow> int \<Rightarrow> int \<Rightarrow> curses list" where
  "ip_list title y x =
    [Draw_box y x 10 30 dialog_attr border_attr,
     Wattrset title_attr,
     Mvwprintw 0 (y div 2 - int (length title) div 2) title,
     Wrefresh]"

definition buttons :: "int \<Rightarrow> curses list" where
  "buttons selected =
    (if selected = 0 then
         [Print_button ''   OK   '' 20 20 False,
          Print_button '' Cancel '' 20 46 False]
     else if selected = 1 then
         [Print_button ''   OK   '' 20 20 True,
          Print_button (CHR 0x09 # ''Cancel '') 20 46 False]
     else if selected = 2 then
         [Print_button ''   OK   '' 20 20 False,
          Print_button '' Cancel '' 20 46 True]
     else []) @
    [Wmove 0 0,
     Wrefresh]"

definition options_udp :: "int \<Rightarrow> int \<Rightarrow> int \<Rightarrow> curses list" where
  "options_udp y x selected =
    [Mvwprintw y ((x + 12) - 6) ''UDP options:'',
     Wrefresh] @
    (if selected = 0 then
         [Wattrset dialog_attr,
          Mvwprintw (y + 1) (x + 1) '' No UDP options       '',
          Mvwprintw (y + 2) (x + 1) '' No UDP options       '',
          Mvwprintw (y + 3) (x + 1) '' No UDP options       '',
          Mvwprintw (y + 4) (x + 1) '' No UDP options       '']
     else if selected = 1 then
         [Wattrset check_selected_attr,
          Mvwprintw (y + 1) (x + 1) ''[No UDP options      ]'',
          Wattrset dialog_attr,
          Mvwprintw (y + 2) (x + 1) '' No UDP options       '',
          Mvwprintw (y + 3) (x + 1) '' No UDP options       '',
          Mvwprintw (y + 4) (x + 1) '' No UDP options       '']
     else if selected = 2 then
         [Wattrset dialog_attr,
          Mvwprintw (y + 1) (x + 1) '' No UDP options       '',
          Wattrset check_selected_attr,
          Mvwprintw (y + 2) (x + 1) ''[No UDP options      ]'',
          Wattrset dialog_attr,
          Mvwprintw (y + 3) (x + 1) '' No UDP options       '',
          Mvwprintw (y + 4) (x + 1) '' No UDP options       '']
     else if selected = 3 then
         [Wattrset dialog_attr,
          Mvwprintw (y + 1) (x + 1) '' No UDP options       '',
          Mvwprintw (y + 2) (x + 1) '' No UDP options       '',
          Wattrset check_selected_attr,
          Mvwprintw (y + 3) (x + 1) ''[No UDP options      ]'',
          Wattrset dialog_attr,
          Mvwprintw (y + 4) (x + 1) '' No UDP options       '']
     else if selected = 4 then
         [Wattrset dialog_attr,
          Mvwprintw (y + 1) (x + 1) '' No UDP options       '',
          Mvwprintw (y + 2) (x + 1) '' No UDP options       '',
          Mvwprintw (y + 3) (x + 1) '' No UDP options       '',
          Wattrset check_selected_attr,
          Mvwprintw (y + 4) (x + 1) ''[No UDP options      ]'']
     else [])"

text \<open>The ICMP options, one definition for each \<open>selected\<close>.\<close>

definition options_icmp_0 :: "int \<Rightarrow> int \<Rightarrow> int \<Rightarrow> curses list" where
  "options_icmp_0 y x opt =
    (if opt = ICMP_NONE then
         [Wattrset dialog_attr,
          Mvwprintw (y + 1) (x + 1) '' ( )   Echo Request   '',
          Mvwprintw (y + 2) (x + 1) '' ( )   Dest. Unreach  '',
          Mvwprintw (y + 3) (x + 1) '' ( )   Echo Reply     '',
          Mvwprintw (y + 4) (x + 1) '' (*)   None           '']
     else if opt = ECHO_REQUEST then
         [Wattrset dialog_attr,
          Mvwprintw (y + 1) (x + 1) '' (*)   Echo Request   '',
          Mvwprintw (y + 2) (x + 1) '' ( )   Dest. Unreach  '',
          Mvwprintw (y + 3) (x + 1) '' ( )   Echo Reply     '',
          Mvwprintw (y + 4) (x + 1) '' ( )   None           '']
     else if opt = DEST_UNREACH then
         [Wattrset dialog_attr,
          Mvwprintw (y + 1) (x + 1) '' ( )   Echo Request   '',
          Mvwprintw (y + 2) (x + 1) '' (*)   Dest. Unreach  '',
          Mvwprintw (y + 3) (x + 1) '' ( )   Echo Reply     '',
          Mvwprintw (y + 4) (x + 1) '' ( )   None           '']
     else if opt = ECHO_REPLY then
         [Wattrset dialog_attr,
          Mvwprintw (y + 1) (x + 1) '' ( )   Echo Request   '',
          Mvwprintw (y + 2) (x + 1) '' ( )   Dest. Unreach  '',
          Mvwprintw (y + 3) (x + 1) '' (*)   Echo Reply     '',
          Mvwprintw (y + 4) (x + 1) '' ( )   None           '']
     else [])"

definition options_icmp_1 :: "int \<Rightarrow> int \<Rightarrow> int \<Rightarrow> curses list" where
  "options_icmp_1 y x opt =
    (if opt = ICMP_NONE then
         [Wattrset check_selected_attr,
          Mvwprintw (y + 1) (x + 1) ''[( )   Echo Request  ]'',
          Wattrset dialog_attr,
          Mvwprintw (y + 2) (x + 1) '' ( )   Dest. Unreach  '',
          Mvwprintw (y + 3) (x + 1) '' ( )   Echo Reply     '',
          Mvwprintw (y + 4) (x + 1) '' (*)   None           '']
     else if opt = ECHO_REQUEST then
         [Wattrset check_selected_attr,
          Mvwprintw (y + 1) (x + 1) ''[(*)   Echo Request  ]'',
          Wattrset dialog_attr,
          Mvwprintw (y + 2) (x + 1) '' ( )   Dest. Unreach  '',
          Mvwprintw (y + 3) (x + 1) '' ( )   Echo Reply     '',
          Mvwprintw (y + 4) (x + 1) '' ( )   None           '']
     else if opt = DEST_UNREACH then
         [Wattrset check_selected_attr,
          Mvwprintw (y + 1) (x + 1) ''[( )   Echo Request  ]'',
          Wattrset dialog_attr,
          Mvwprintw (y + 2) (x + 1) '' (*)   Dest. Unreach  '',
          Mvwprintw (y + 3) (x + 1) '' ( )   Echo Reply     '',
          Mvwprintw (y + 4) (x + 1) '' ( )   None           '']
     else if opt = ECHO_REPLY then
         [Wattrset check_selected_attr,
          Mvwprintw (y + 1) (x + 1) ''[( )   Echo Request  ]'',
          Wattrset dialog_attr,
          Mvwprintw (y + 2) (x + 1) '' ( )   Dest. Unreach  '',
          Mvwprintw (y + 3) (x + 1) '' (*)   Echo Reply     '',
          Mvwprintw (y + 4) (x + 1) '' ( )   None           '']
     else [])"

definition options_icmp_2 :: "int \<Rightarrow> int \<Rightarrow> int \<Rightarrow> curses list" where
  "options_icmp_2 y x opt =
    (if opt = ICMP_NONE then
         [Wattrset dialog_attr,
          Mvwprintw (y + 1) (x + 1) '' ( )   Echo Request   '',
          Wattrset check_selected_attr,
          Mvwprintw (y + 2) (x + 1) ''[( )   Dest. Unreach ]'',
          Wattrset dialog_attr,
          Mvwprintw (y + 3) (x + 1) '' ( )   Echo Reply     '',
          Mvwprintw (y + 4) (x + 1) '' (*)   None           '']
     else if opt = ECHO_REQUEST then
         [Wattrset dialog_attr,
          Mvwprintw (y + 1) (x + 1) '' (*)   Echo Request   '',
          Wattrset check_selected_attr,
          Mvwprintw (y + 2) (x + 1) ''[( )   Dest. Unreach ]'',
          Wattrset dialog_attr,
          Mvwprintw (y + 3) (x + 1) '' ( )   Echo Reply     '',
          Mvwprintw (y + 4) (x + 1) '' ( )   None           '']
     else if opt = DEST_UNREACH then
         [Wattrset dialog_attr,
          Mvwprintw (y + 1) (x + 1) '' ( )   Echo Request   '',
          Wattrset check_selected_attr,
          Mvwprintw (y + 2) (x + 1) ''[(*)   Dest. Unreach ]'',
          Wattrset dialog_attr,
          Mvwprintw (y + 3) (x + 1) '' ( )   Echo Reply     '',
          Mvwprintw (y + 4) (x + 1) '' ( )   None           '']
     else if opt = ECHO_REPLY then
         [Wattrset dialog_attr,
          Mvwprintw (y + 1) (x + 1) '' ( )   Echo Request   '',
          Wattrset check_selected_attr,
          Mvwprintw (y + 2) (x + 1) ''[( )   Dest. Unreach ]'',
          Wattrset dialog_attr,
          Mvwprintw (y + 3) (x + 1) '' (*)   Echo Reply     '',
          Mvwprintw (y + 4) (x + 1) '' ( )   None           '']
     else [])"

definition options_icmp_3 :: "int \<Rightarrow> int \<Rightarrow> int \<Rightarrow> curses list" where
  "options_icmp_3 y x opt =
    (if opt = ICMP_NONE then
         [Wattrset dialog_attr,
          Mvwprintw (y + 1) (x + 1) '' ( )   Echo Request   '',
          Mvwprintw (y + 2) (x + 1) '' ( )   Dest. Unreach  '',
          Wattrset check_selected_attr,
          Mvwprintw (y + 3) (x + 1) ''[( )   Echo Reply    ]'',
          Wattrset dialog_attr,
          Mvwprintw (y + 4) (x + 1) '' (*)   None           '']
     else if opt = ECHO_REQUEST then
         [Wattrset dialog_attr,
          Mvwprintw (y + 1) (x + 1) '' (*)   Echo Request   '',
          Mvwprintw (y + 2) (x + 1) '' ( )   Dest. Unreach  '',
          Wattrset check_selected_attr,
          Mvwprintw (y + 3) (x + 1) ''[( )   Echo Reply    ]'',
          Wattrset dialog_attr,
          Mvwprintw (y + 4) (x + 1) '' ( )   None           '']
     else if opt = DEST_UNREACH then
         [Wattrset dialog_attr,
          Mvwprintw (y + 1) (x + 1) '' ( )   Echo Request   '',
          Mvwprintw (y + 2) (x + 1) '' (*)   Dest. Unreach  '',
          Wattrset check_selected_attr,
          Mvwprintw (y + 3) (x + 1) ''[( )   Echo Reply    ]'',
          Wattrset dialog_attr,
          Mvwprintw (y + 4) (x + 1) '' ( )   None           '']
     else if opt = ECHO_REPLY then
         [Wattrset dialog_attr,
          Mvwprintw (y + 1) (x + 1) '' ( )   Echo Request   '',
          Mvwprintw (y + 2) (x + 1) '' ( )   Dest. Unreach  '',
          Wattrset check_selected_attr,
          Mvwprintw (y + 3) (x + 1) ''[(*)   Echo Reply    ]'',
          Wattrset dialog_attr,
          Mvwprintw (y + 4) (x + 1) '' ( )   None           '']
     else [])"

definition options_icmp_4 :: "int \<Rightarrow> int \<Rightarrow> int \<Rightarrow> curses list" where
  "options_icmp_4 y x opt =
    (if opt = ICMP_NONE then
         [Wattrset dialog_attr,
          Mvwprintw (y + 1) (x + 1) '' ( )   Echo Request   '',
          Mvwprintw (y + 2) (x + 1) '' ( )   Dest. Unreach  '',
          Mvwprintw (y + 3) (x + 1) '' ( )   Echo Reply     '',
          Wattrset check_selected_attr,
          Mvwprintw (y + 4) (x + 1) ''[(*)   None          ]'']
     else if opt = ECHO_REQUEST then
         [Wattrset dialog_attr,
          Mvwprintw (y + 1) (x + 1) '' (*)   Echo Request   '',
          Mvwprintw (y + 2) (x + 1) '' ( )   Dest. Unreach  '',
          Mvwprintw (y + 3) (x + 1) '' ( )   Echo Reply     '',
          Wattrset check_selected_attr,
          Mvwprintw (y + 4) (x + 1) ''[( )   None          ]'']
     else if opt = DEST_UNREACH then
         [Wattrset dialog_attr,
          Mvwprintw (y + 1) (x + 1) '' ( )   Echo Request   '',
          Mvwprintw (y + 2) (x + 1) '' (*)   Dest. Unreach  '',
          Mvwprintw (y + 3) (x + 1) '' ( )   Echo Reply     '',
          Wattrset check_selected_attr,
          Mvwprintw (y + 4) (x + 1) ''[( )   None          ]'']
     else if opt = ECHO_REPLY then
         [Wattrset dialog_attr,
          Mvwprintw (y + 1) (x + 1) '' ( )   Echo Request   '',
          Mvwprintw (y + 2) (x + 1) '' ( )   Dest. Unreach  '',
          Mvwprintw (y + 3) (x + 1) '' (*)   Echo Reply     '',
          Wattrset check_selected_attr,
          Mvwprintw (y + 4) (x + 1) ''[( )   None          ]'']
     else [])"

definition options_icmp :: "int \<Rightarrow> int \<Rightarrow> int \<Rightarrow> int \<Rightarrow> curses list" where
  "options_icmp y x selected opt =
    [Mvwprintw y ((x + 12) - 6) ''ICMP options:'',
     Wrefresh] @
    (if selected = 0 then
         options_icmp_0 y x opt
     else if selected = 1 then
         options_icmp_1 y x opt
     else if selected = 2 then
         options_icmp_2 y x opt
     else if selected = 3 then
         options_icmp_3 y x opt
     else if selected = 4 then
         options_icmp_4 y x opt
     else [])"

text \<open>The IP options, one definition for each \<open>selected\<close>.\<close>

definition options_ip_0 :: "int \<Rightarrow> int \<Rightarrow> int \<Rightarrow> curses list" where
  "options_ip_0 y x opt =
    (if opt = IP_NONE then
         [Wattrset dialog_attr,
          Mvwprintw (y + 1) (x + 1) '' ( )   SSRR           '',
          Mvwprintw (y + 2) (x + 1) '' ( )   LSRR           '',
          Mvwprintw (y + 3) (x + 1) '' ( )   TS             '',
          Mvwprintw (y + 4) (x + 1) '' (*)   None           '']
     else if opt = SSRR then
         [Wattrset dialog_attr,
          Mvwprintw (y + 1) (x + 1) '' (*)   SSRR           '',
          Mvwprintw (y + 2) (x + 1) '' ( )   LSRR           '',
          Mvwprintw (y + 3) (x + 1) '' ( )   TS             '',
          Mvwprintw (y + 4) (x + 1) '' ( )   None           '']
     else if opt = LSRR then
         [Wattrset dialog_attr,
          Mvwprintw (y + 1) (x + 1) '' ( )   SSRR           '',
          Mvwprintw (y + 2) (x + 1) '' (*)   LSRR           '',
          Mvwprintw (y + 3) (x + 1) '' ( )   TS             '',
          Mvwprintw (y + 4) (x + 1) '' ( )   None           '']
     else if opt = TS then
         [Wattrset dialog_attr,
          Mvwprintw (y + 1) (x + 1) '' ( )   SSRR           '',
          Mvwprintw (y + 2) (x + 1) '' ( )   LSRR           '',
          Mvwprintw (y + 3) (x + 1) '' (*)   TS             '',
          Mvwprintw (y + 4) (x + 1) '' ( )   None           '']
     else [])"

definition options_ip_1 :: "int \<Rightarrow> int \<Rightarrow> int \<Rightarrow> curses list" where
  "options_ip_1 y x opt =
    (if opt = IP_NONE then
         [Wattrset check_selected_attr,
          Mvwprintw (y + 1) (x + 1) ''[( )   SSRR          ]'',
          Wattrset dialog_attr,
          Mvwprintw (y + 2) (x + 1) '' ( )   LSRR           '',
          Mvwprintw (y + 3) (x + 1) '' ( )   TS             '',
          Mvwprintw (y + 4) (x + 1) '' (*)   None           '']
     else if opt = SSRR then
         [Wattrset check_selected_attr,
          Mvwprintw (y + 1) (x + 1) ''[(*)   SSRR          ]'',
          Wattrset dialog_attr,
          Mvwprintw (y + 2) (x + 1) '' ( )   LSRR           '',
          Mvwprintw (y + 3) (x + 1) '' ( )   TS             '',
          Mvwprintw (y + 4) (x + 1) '' ( )   None           '']
     else if opt = LSRR then
         [Wattrset check_selected_attr,
          Mvwprintw (y + 1) (x + 1) ''[( )   SSRR          ]'',
          Wattrset dialog_attr,
          Mvwprintw (y + 2) (x + 1) '' (*)   LSRR           '',
          Mvwprintw (y + 3) (x + 1) '' ( )   TS             '',
          Mvwprintw (y + 4) (x + 1) '' ( )   None           '']
     else if opt = TS then
         [Wattrset check_selected_attr,
          Mvwprintw (y + 1) (x + 1) ''[( )   SSRR          ]'',
          Wattrset dialog_attr,
          Mvwprintw (y + 2) (x + 1) '' ( )   LSRR           '',
          Mvwprintw (y + 3) (x + 1) '' (*)   TS             '',
          Mvwprintw (y + 4) (x + 1) '' ( )   None           '']
     else [])"

definition options_ip_2 :: "int \<Rightarrow> int \<Rightarrow> int \<Rightarrow> curses list" where
  "options_ip_2 y x opt =
    (if opt = IP_NONE then
         [Wattrset dialog_attr,
          Mvwprintw (y + 1) (x + 1) '' ( )   SSRR           '',
          Wattrset check_selected_attr,
          Mvwprintw (y + 2) (x + 1) ''[( )   LSRR          ]'',
          Wattrset dialog_attr,
          Mvwprintw (y + 3) (x + 1) '' ( )   TS             '',
          Mvwprintw (y + 4) (x + 1) '' (*)   None           '']
     else if opt = SSRR then
         [Wattrset dialog_attr,
          Mvwprintw (y + 1) (x + 1) '' (*)   SSRR           '',
          Wattrset check_selected_attr,
          Mvwprintw (y + 2) (x + 1) ''[( )   LSRR          ]'',
          Wattrset dialog_attr,
          Mvwprintw (y + 3) (x + 1) '' ( )   TS             '',
          Mvwprintw (y + 4) (x + 1) '' ( )   None           '']
     else if opt = LSRR then
         [Wattrset dialog_attr,
          Mvwprintw (y + 1) (x + 1) '' ( )   SSRR           '',
          Wattrset check_selected_attr,
          Mvwprintw (y + 2) (x + 1) ''[(*)   LSRR          ]'',
          Wattrset dialog_attr,
          Mvwprintw (y + 3) (x + 1) '' ( )   TS             '',
          Mvwprintw (y + 4) (x + 1) '' ( )   None           '']
     else if opt = TS then
         [Wattrset dialog_attr,
          Mvwprintw (y + 1) (x + 1) '' ( )   SSRR           '',
          Wattrset check_selected_attr,
          Mvwprintw (y + 2) (x + 1) ''[( )   LSRR          ]'',
          Wattrset dialog_attr,
          Mvwprintw (y + 3) (x + 1) '' (*)   TS             '',
          Mvwprintw (y + 4) (x + 1) '' ( )   None           '']
     else [])"

definition options_ip_3 :: "int \<Rightarrow> int \<Rightarrow> int \<Rightarrow> curses list" where
  "options_ip_3 y x opt =
    (if opt = IP_NONE then
         [Wattrset dialog_attr,
          Mvwprintw (y + 1) (x + 1) '' ( )   SSRR           '',
          Mvwprintw (y + 2) (x + 1) '' ( )   LSRR           '',
          Wattrset check_selected_attr,
          Mvwprintw (y + 3) (x + 1) ''[( )   TS            ]'',
          Wattrset dialog_attr,
          Mvwprintw (y + 4) (x + 1) '' (*)   None           '']
     else if opt = SSRR then
         [Wattrset dialog_attr,
          Mvwprintw (y + 1) (x + 1) '' (*)   SSRR           '',
          Mvwprintw (y + 2) (x + 1) '' ( )   LSRR           '',
          Wattrset check_selected_attr,
          Mvwprintw (y + 3) (x + 1) ''[( )   TS            ]'',
          Wattrset dialog_attr,
          Mvwprintw (y + 4) (x + 1) '' ( )   None           '']
     else if opt = LSRR then
         [Wattrset dialog_attr,
          Mvwprintw (y + 1) (x + 1) '' ( )   SSRR           '',
          Mvwprintw (y + 2) (x + 1) '' (*)   LSRR           '',
          Wattrset check_selected_attr,
          Mvwprintw (y + 3) (x + 1) ''[( )   TS            ]'',
          Wattrset dialog_attr,
          Mvwprintw (y + 4) (x + 1) '' ( )   None           '']
     else if opt = TS then
         [Wattrset dialog_attr,
          Mvwprintw (y + 1) (x + 1) '' ( )   SSRR           '',
          Mvwprintw (y + 2) (x + 1) '' ( )   LSRR           '',
          Wattrset check_selected_attr,
          Mvwprintw (y + 3) (x + 1) ''[(*)   TS            ]'',
          Wattrset dialog_attr,
          Mvwprintw (y + 4) (x + 1) '' ( )   None           '']
     else [])"

definition options_ip_4 :: "int \<Rightarrow> int \<Rightarrow> int \<Rightarrow> curses list" where
  "options_ip_4 y x opt =
    (if opt = IP_NONE then
         [Wattrset dialog_attr,
          Mvwprintw (y + 1) (x + 1) '' ( )   SSRR           '',
          Mvwprintw (y + 2) (x + 1) '' ( )   LSRR           '',
          Mvwprintw (y + 3) (x + 1) '' ( )   TS             '',
          Wattrset check_selected_attr,
          Mvwprintw (y + 4) (x + 1) ''[(*)   None          ]'']
     else if opt = SSRR then
         [Wattrset dialog_attr,
          Mvwprintw (y + 1) (x + 1) '' (*)   SSRR           '',
          Mvwprintw (y + 2) (x + 1) '' ( )   LSRR           '',
          Mvwprintw (y + 3) (x + 1) '' ( )   TS             '',
          Wattrset check_selected_attr,
          Mvwprintw (y + 4) (x + 1) ''[( )   None          ]'']
     else if opt = LSRR then
         [Wattrset dialog_attr,
          Mvwprintw (y + 1) (x + 1) '' ( )   SSRR           '',
          Mvwprintw (y + 2) (x + 1) '' (*)   LSRR           '',
          Mvwprintw (y + 3) (x + 1) '' ( )   TS             '',
          Wattrset check_selected_attr,
          Mvwprintw (y + 4) (x + 1) ''[( )   None          ]'']
     else if opt = TS then
         [Wattrset dialog_attr,
          Mvwprintw (y + 1) (x + 1) '' ( )   SSRR           '',
          Mvwprintw (y + 2) (x + 1) '' ( )   LSRR           '',
          Mvwprintw (y + 3) (x + 1) '' (*)   TS             '',
          Wattrset check_selected_attr,
          Mvwprintw (y + 4) (x + 1) ''[( )   None          ]'']
     else [])"

definition options_ip :: "int \<Rightarrow> int \<Rightarrow> int \<Rightarrow> int \<Rightarrow> curses list" where
  "options_ip y x selected opt =
    [Mvwprintw y ((x + 12) - 6) ''IP options:'',
     Wrefresh] @
    (if selected = 0 then
         options_ip_0 y x opt
     else if selected = 1 then
         options_ip_1 y x opt
     else if selected = 2 then
         options_ip_2 y x opt
     else if selected = 3 then
         options_ip_3 y x opt
     else if selected = 4 then
         options_ip_4 y x opt
     else [])"

text \<open>The TCP options, one definition for each \<open>selected\<close>.\<close>

definition options_tcp_0 :: "int \<Rightarrow> int \<Rightarrow> int \<Rightarrow> curses list" where
  "options_tcp_0 y x opt =
    (if opt = NONE then
         [Wattrset dialog_attr,
          Mvwprintw (y + 1) (x + 1) '' ( )   Established    '',
          Mvwprintw (y + 2) (x + 1) '' ( )   Setup (SYN)    '',
          Mvwprintw (y + 3) (x + 1) '' ( )   Fragmented     '',
          Mvwprintw (y + 4) (x + 1) '' (*)   None           '']
     else if opt = SETUP then
         [Wattrset dialog_attr,
          Mvwprintw (y + 1) (x + 1) '' ( )   Established    '',
          Mvwprintw (y + 2) (x + 1) '' (*)   Setup (SYN)    '',
          Mvwprintw (y + 3) (x + 1) '' ( )   Fragmented     '',
          Mvwprintw (y + 4) (x + 1) '' ( )   None           '']
     else if opt = ESTABLISHED then
         [Wattrset dialog_attr,
          Mvwprintw (y + 1) (x + 1) '' (*)   Established    '',
          Mvwprintw (y + 2) (x + 1) '' ( )   Setup (SYN)    '',
          Mvwprintw (y + 3) (x + 1) '' ( )   Fragmented     '',
          Mvwprintw (y + 4) (x + 1) '' ( )   None           '']
     else if opt = FRAG then
         [Wattrset dialog_attr,
          Mvwprintw (y + 1) (x + 1) '' ( )   Established    '',
          Mvwprintw (y + 2) (x + 1) '' ( )   Setup (SYN)    '',
          Mvwprintw (y + 3) (x + 1) '' (*)   Fragmented     '',
          Mvwprintw (y + 4) (x + 1) '' ( )   None           '']
     else [])"

definition options_tcp_1 :: "int \<Rightarrow> int \<Rightarrow> int \<Rightarrow> curses list" where
  "options_tcp_1 y x opt =
    (if opt = NONE then
         [Wattrset check_selected_attr,
          Mvwprintw (y + 1) (x + 1) ''[( )   Established   ]'',
          Wattrset dialog_attr,
          Mvwprintw (y + 2) (x + 1) '' ( )   Setup (SYN)    '',
          Mvwprintw (y + 3) (x + 1) '' ( )   Fragmented     '',
          Mvwprintw (y + 4) (x + 1) '' (*)   None           '']
     else if opt = SETUP then
         [Wattrset check_selected_attr,
          Mvwprintw (y + 1) (x + 1) ''[( )   Established   ]'',
          Wattrset dialog_attr,
          Mvwprintw (y + 2) (x + 1) '' (*)   Setup (SYN)    '',
          Mvwprintw (y + 3) (x + 1) '' ( )   Fragmented     '',
          Mvwprintw (y + 4) (x + 1) '' ( )   None           '']
     else if opt = ESTABLISHED then
         [Wattrset check_selected_attr,
          Mvwprintw (y + 1) (x + 1) ''[(*)   Established   ]'',
          Wattrset dialog_attr,
          Mvwprintw (y + 2) (x + 1) '' ( )   Setup (SYN)    '',
          Mvwprintw (y + 3) (x + 1) '' ( )   Fragmented     '',
          Mvwprintw (y + 4) (x + 1) '' ( )   None           '']
     else if opt = FRAG then
         [Wattrset check_selected_attr,
          Mvwprintw (y + 1) (x + 1) ''[( )   Established   ]'',
          Wattrset dialog_attr,
          Mvwprintw (y + 2) (x + 1) '' ( )   Setup (SYN)    '',
          Mvwprintw (y + 3) (x + 1) '' (*)   Fragmented     '',
          Mvwprintw (y + 4) (x + 1) '' ( )   None           '']
     else [])"

definition options_tcp_2 :: "int \<Rightarrow> int \<Rightarrow> int \<Rightarrow> curses list" where
  "options_tcp_2 y x opt =
    (if opt = NONE then
         [Wattrset dialog_attr,
          Mvwprintw (y + 1) (x + 1) '' ( )   Established    '',
          Wattrset check_selected_attr,
          Mvwprintw (y + 2) (x + 1) ''[( )   Setup (SYN)   ]'',
          Wattrset dialog_attr,
          Mvwprintw (y + 3) (x + 1) '' ( )   Fragmented     '',
          Mvwprintw (y + 4) (x + 1) '' (*)   None           '']
     else if opt = SETUP then
         [Wattrset dialog_attr,
          Mvwprintw (y + 1) (x + 1) '' ( )   Established    '',
          Wattrset check_selected_attr,
          Mvwprintw (y + 2) (x + 1) ''[(*)   Setup (SYN)   ]'',
          Wattrset dialog_attr,
          Mvwprintw (y + 3) (x + 1) '' ( )   Fragmented     '',
          Mvwprintw (y + 4) (x + 1) '' ( )   None           '']
     else if opt = ESTABLISHED then
         [Wattrset dialog_attr,
          Mvwprintw (y + 1) (x + 1) '' (*)   Established    '',
          Wattrset check_selected_attr,
          Mvwprintw (y + 2) (x + 1) ''[( )   Setup (SYN)   ]'',
          Wattrset dialog_attr,
          Mvwprintw (y + 3) (x + 1) '' ( )   Fragmented     '',
          Mvwprintw (y + 4) (x + 1) '' ( )   None           '']
     else if opt = FRAG then
         [Wattrset dialog_attr,
          Mvwprintw (y + 1) (x + 1) '' ( )   Established    '',
          Wattrset check_selected_attr,
          Mvwprintw (y + 2) (x + 1) ''[( )   Setup (SYN)   ]'',
          Wattrset dialog_attr,
          Mvwprintw (y + 3) (x + 1) '' (*)   Fragmented     '',
          Mvwprintw (y + 4) (x + 1) '' ( )   None           '']
     else [])"

definition options_tcp_3 :: "int \<Rightarrow> int \<Rightarrow> int \<Rightarrow> curses list" where
  "options_tcp_3 y x opt =
    (if opt = NONE then
         [Wattrset dialog_attr,
          Mvwprintw (y + 1) (x + 1) '' ( )   Established    '',
          Mvwprintw (y + 2) (x + 1) '' ( )   Setup (SYN)    '',
          Wattrset check_selected_attr,
          Mvwprintw (y + 3) (x + 1) ''[( )   Fragmented    ]'',
          Wattrset dialog_attr,
          Mvwprintw (y + 4) (x + 1) '' (*)   None           '']
     else if opt = SETUP then
         [Wattrset dialog_attr,
          Mvwprintw (y + 1) (x + 1) '' ( )   Established    '',
          Mvwprintw (y + 2) (x + 1) '' (*)   Setup (SYN)    '',
          Wattrset check_selected_attr,
          Mvwprintw (y + 3) (x + 1) ''[( )   Fragmented    ]'',
          Wattrset dialog_attr,
          Mvwprintw (y + 4) (x + 1) '' ( )   None           '']
     else if opt = ESTABLISHED then
         [Wattrset dialog_attr,
          Mvwprintw (y + 1) (x + 1) '' (*)   Established    '',
          Mvwprintw (y + 2) (x + 1) '' ( )   Setup (SYN)    '',
          Wattrset check_selected_attr,
          Mvwprintw (y + 3) (x + 1) ''[( )   Fragmented    ]'',
          Wattrset dialog_attr,
          Mvwprintw (y + 4) (x + 1) '' ( )   None           '']
     else if opt = FRAG then
         [Wattrset dialog_attr,
          Mvwprintw (y + 1) (x + 1) '' ( )   Established    '',
          Mvwprintw (y + 2) (x + 1) '' ( )   Setup (SYN)    '',
          Wattrset check_selected_attr,
          Mvwprintw (y + 3) (x + 1) ''[(*)   Fragmented    ]'',
          Wattrset dialog_attr,
          Mvwprintw (y + 4) (x + 1) '' ( )   None           '']
     else [])"

definition options_tcp_4 :: "int \<Rightarrow> int \<Rightarrow> int \<Rightarrow> curses list" where
  "options_tcp_4 y x opt =
    (if opt = NONE then
         [Wattrset dialog_attr,
          Mvwprintw (y + 1) (x + 1) '' ( )   Established    '',
          Mvwprintw (y + 2) (x + 1) '' ( )   Setup (SYN)    '',
          Mvwprintw (y + 3) (x + 1) '' ( )   Fragmented     '',
          Wattrset check_selected_attr,
          Mvwprintw (y + 4) (x + 1) ''[(*)   None          ]'']
     else if opt = SETUP then
         [Wattrset dialog_attr,
          Mvwprintw (y + 1) (x + 1) '' ( )   Established    '',
          Mvwprintw (y + 2) (x + 1) '' (*)   Setup (SYN)    '',
          Mvwprintw (y + 3) (x + 1) '' ( )   Fragmented     '',
          Wattrset check_selected_attr,
          Mvwprintw (y + 4) (x + 1) ''[( )   None          ]'']
     else if opt = ESTABLISHED then
         [Wattrset dialog_attr,
          Mvwprintw (y + 1) (x + 1) '' (*)   Established    '',
          Mvwprintw (y + 2) (x + 1) '' ( )   Setup (SYN)    '',
          Mvwprintw (y + 3) (x + 1) '' ( )   Fragmented     '',
          Wattrset check_selected_attr,
          Mvwprintw (y + 4) (x + 1) ''[( )   None          ]'']
     else if opt = FRAG then
         [Wattrset dialog_attr,
          Mvwprintw (y + 1) (x + 1) '' ( )   Established    '',
          Mvwprintw (y + 2) (x + 1) '' ( )   Setup (SYN)    '',
          Mvwprintw (y + 3) (x + 1) '' (*)   Fragmented     '',
          Wattrset check_selected_attr,
          Mvwprintw (y + 4) (x + 1) ''[( )   None          ]'']
     else [])"

definition options_tcp :: "int \<Rightarrow> int \<Rightarrow> int \<Rightarrow> int \<Rightarrow> curses list" where
  "options_tcp y x selected opt =
    [Mvwprintw y ((x + 12) - 6) ''TCP options:'',
     Wrefresh] @
    (if selected = 0 then
         options_tcp_0 y x opt
     else if selected = 1 then
         options_tcp_1 y x opt
     else if selected = 2 then
         options_tcp_2 y x opt
     else if selected = 3 then
         options_tcp_3 y x opt
     else if selected = 4 then
         options_tcp_4 y x opt
     else [])"

definition draw_options :: "int \<Rightarrow> int \<Rightarrow> int \<Rightarrow> ruleset \<Rightarrow> curses list" where
  "draw_options y x selected r =
    [Draw_box y x 6 24 dialog_attr border_attr,
     Wattrset title_attr] @
    (case r_proto r of
        UDP \<Rightarrow>
         options_udp y x selected
      | ICMP \<Rightarrow>
         options_icmp y x selected (r_option r)
      | IP \<Rightarrow>
         options_ip y x selected (r_option r)
      | TCP \<Rightarrow>
         options_tcp y x selected (r_option r)) @
    [Wmove 0 0,
     Wrefresh]"

text \<open>The interface box.\<close>

definition iface_0 :: "int \<Rightarrow> int \<Rightarrow> ruleset \<Rightarrow> curses list" where
  "iface_0 y x r =
    (case r_ifs r of
        INCOMING \<Rightarrow>
         [Mvwprintw (y + 1) (x + 1) '' (*)   Incoming     '',
          Mvwprintw (y + 2) (x + 1) '' ( )   Outgoing     '',
          Mvwprintw (y + 3) (x + 1) '' ( )   Any          '']
      | OUTGOING \<Rightarrow>
         [Mvwprintw (y + 1) (x + 1) '' ( )   Incoming     '',
          Mvwprintw (y + 2) (x + 1) '' (*)   Outgoing     '',
          Mvwprintw (y + 3) (x + 1) '' ( )   Any          '']
      | ANY \<Rightarrow>
         [Mvwprintw (y + 1) (x + 1) '' ( )   Incoming     '',
          Mvwprintw (y + 2) (x + 1) '' ( )   Outgoing     '',
          Mvwprintw (y + 3) (x + 1) '' (*)   Any          ''])"

definition iface_1 :: "int \<Rightarrow> int \<Rightarrow> ruleset \<Rightarrow> curses list" where
  "iface_1 y x r =
    (case r_ifs r of
        INCOMING \<Rightarrow>
         [Wattrset check_selected_attr,
          Mvwprintw (y + 1) (x + 1) ''[(*)   Incoming      ]'',
          Wattrset dialog_attr,
          Mvwprintw (y + 2) (x + 1) '' ( )   Outgoing       '',
          Mvwprintw (y + 3) (x + 1) '' ( )   Any            '']
      | OUTGOING \<Rightarrow>
         [Wattrset check_selected_attr,
          Mvwprintw (y + 1) (x + 1) ''[( )   Incoming      ]'',
          Wattrset dialog_attr,
          Mvwprintw (y + 2) (x + 1) '' (*)   Outgoing       '',
          Mvwprintw (y + 3) (x + 1) '' ( )   Any            '']
      | ANY \<Rightarrow>
         [Wattrset check_selected_attr,
          Mvwprintw (y + 1) (x + 1) ''[( )   Incoming      ]'',
          Wattrset dialog_attr,
          Mvwprintw (y + 2) (x + 1) '' ( )   Outgoing       '',
          Mvwprintw (y + 3) (x + 1) '' (*)   Any            ''])"

definition iface_2 :: "int \<Rightarrow> int \<Rightarrow> ruleset \<Rightarrow> curses list" where
  "iface_2 y x r =
    (case r_ifs r of
        INCOMING \<Rightarrow>
         [Wattrset dialog_attr,
          Mvwprintw (y + 1) (x + 1) '' (*)   Incoming       '',
          Wattrset check_selected_attr,
          Mvwprintw (y + 2) (x + 1) ''[( )   Outgoing      ]'',
          Wattrset dialog_attr,
          Mvwprintw (y + 3) (x + 1) '' ( )   Any            '']
      | OUTGOING \<Rightarrow>
         [Wattrset dialog_attr,
          Mvwprintw (y + 1) (x + 1) '' ( )   Incoming       '',
          Wattrset check_selected_attr,
          Mvwprintw (y + 2) (x + 1) ''[(*)   Outgoing      ]'',
          Wattrset dialog_attr,
          Mvwprintw (y + 3) (x + 1) '' ( )   Any            '']
      | ANY \<Rightarrow>
         [Wattrset dialog_attr,
          Mvwprintw (y + 1) (x + 1) '' ( )   Incoming       '',
          Wattrset check_selected_attr,
          Mvwprintw (y + 2) (x + 1) ''[( )   Outgoing      ]'',
          Wattrset dialog_attr,
          Mvwprintw (y + 3) (x + 1) '' (*)   Any            ''])"

definition iface_3 :: "int \<Rightarrow> int \<Rightarrow> ruleset \<Rightarrow> curses list" where
  "iface_3 y x r =
    (case r_ifs r of
        INCOMING \<Rightarrow>
         [Wattrset dialog_attr,
          Mvwprintw (y + 1) (x + 1) '' (*)   Incoming       '',
          Mvwprintw (y + 2) (x + 1) '' ( )   Outgoing       '',
          Wattrset check_selected_attr,
          Mvwprintw (y + 3) (x + 1) ''[( )   Any           ]'']
      | OUTGOING \<Rightarrow>
         [Wattrset dialog_attr,
          Mvwprintw (y + 1) (x + 1) '' ( )   Incoming       '',
          Mvwprintw (y + 2) (x + 1) '' (*)   Outgoing       '',
          Wattrset check_selected_attr,
          Mvwprintw (y + 3) (x + 1) ''[( )   Any           ]'']
      | ANY \<Rightarrow>
         [Wattrset dialog_attr,
          Mvwprintw (y + 1) (x + 1) '' ( )   Incoming       '',
          Mvwprintw (y + 2) (x + 1) '' ( )   Outgoing       '',
          Wattrset check_selected_attr,
          Mvwprintw (y + 3) (x + 1) ''[(*)   Any           ]''])"

definition draw_iface :: "int \<Rightarrow> int \<Rightarrow> int \<Rightarrow> ruleset \<Rightarrow> curses list" where
  "draw_iface y x selected r =
    [Draw_box y x 5 24 dialog_attr border_attr,
     Wattrset title_attr,
     Mvwprintw y ((x + 12) - 5) ''Interface:'',
     Wattrset dialog_attr] @
    (if selected = 0 then
         iface_0 y x r
     else if selected = 1 then
         iface_1 y x r
     else if selected = 2 then
         iface_2 y x r
     else if selected = 3 then
         iface_3 y x r
     else []) @
    [Wmove 0 0,
     Wrefresh]"

text \<open>The two input boxes.\<close>

definition draw_host_inputbox :: "int \<Rightarrow> int \<Rightarrow> curses list" where
  "draw_host_inputbox y x =
    [Draw_box y x 3 35 dialog_attr border_attr,
     Wattrset title_attr,
     Mvwprintw y ((x + 15) - 6) ''address/mask'',
     Wrefresh]"

definition draw_port_inputbox :: "int \<Rightarrow> int \<Rightarrow> curses list" where
  "draw_port_inputbox y x =
    [Draw_box y x 3 8 dialog_attr border_attr,
     Wattrset title_attr,
     Mvwprintw y ((x + 3) - 1) ''port'',
     Wrefresh]"

text \<open>The address translation box.\<close>

definition draw_nat_option :: "int \<Rightarrow> int \<Rightarrow> int \<Rightarrow> int \<Rightarrow> curses list" where
  "draw_nat_option y x selected enabled =
    [Draw_box y x 4 50 dialog_attr border_attr,
     Wattrset title_attr] @
    (if selected = 0 then
         (if enabled = 0 then
              [Wattrset dialog_attr,
               Mvwprintw (y + 1) (x + 1) ''[ ]  Enable network address translation         '',
               Mvwprintw (y + 2) (x + 1) ''[*]  Disable network address translation        '']
          else if enabled = 1 then
              [Wattrset dialog_attr,
               Mvwprintw (y + 1) (x + 1) ''[*]  Enable network address translation         '',
               Mvwprintw (y + 2) (x + 1) ''[ ]  Disable network address translation        '']
          else [])
     else if selected = 1 then
         (if enabled = 0 then
              [Wattrset check_selected_attr,
               Mvwprintw (y + 1) (x + 1) ''[ ]  Enable network address translation         '',
               Wattrset dialog_attr,
               Mvwprintw (y + 2) (x + 1) ''[*]  Disable network address translation        '']
          else if enabled = 1 then
              [Wattrset check_selected_attr,
               Mvwprintw (y + 1) (x + 1) ''[*]  Enable network address translation         '',
               Wattrset dialog_attr,
               Mvwprintw (y + 2) (x + 1) ''[ ]  Disable network address translation        '']
          else [])
     else if selected = 2 then
         (if enabled = 0 then
              [Wattrset dialog_attr,
               Mvwprintw (y + 1) (x + 1) ''[ ]  Enable network address translation         '',
               Wattrset check_selected_attr,
               Mvwprintw (y + 2) (x + 1) ''[*]  Disable network address translation        '']
          else if enabled = 1 then
              [Wattrset dialog_attr,
               Mvwprintw (y + 1) (x + 1) ''[*]  Enable network address translation         '',
               Wattrset check_selected_attr,
               Mvwprintw (y + 2) (x + 1) ''[ ]  Disable network address translation        '']
          else [])
     else []) @
    [Wmove 0 0,
     Wrefresh]"

text \<open>The action box.\<close>

definition action_box_other :: "int \<Rightarrow> int \<Rightarrow> ruleset \<Rightarrow> curses list" where
  "action_box_other y x r =
    (case r_action r of
        ALLOW \<Rightarrow>
         [Wattrset dialog_attr,
          Mvwprintw (y + 1) (x + 1) '' (*) Allow   Allow packets matching this rule   '',
          Mvwprintw (y + 2) (x + 1) '' ( ) Deny    Deny packets matching this rule    '',
          Mvwprintw (y + 3) (x + 1) '' ( ) Reset   Discard packet and send RST (TCP)  '']
      | DENY \<Rightarrow>
         [Wattrset dialog_attr,
          Mvwprintw (y + 1) (x + 1) '' ( ) Allow   Allow packets matching this rule   '',
          Mvwprintw (y + 2) (x + 1) '' (*) Deny    Deny packets matching this rule    '',
          Mvwprintw (y + 3) (x + 1) '' ( ) Reset   Discard packet and send RST (TCP)  '']
      | RESET \<Rightarrow>
         [Wattrset dialog_attr,
          Mvwprintw (y + 1) (x + 1) '' ( ) Allow   Allow packets matching this rule   '',
          Mvwprintw (y + 2) (x + 1) '' ( ) Deny    Deny packets matching this rule    '',
          Mvwprintw (y + 3) (x + 1) '' (*) Reset   Discard packet and send RST (TCP)  '']
      | _ \<Rightarrow> [])"

definition action_box_1 :: "int \<Rightarrow> int \<Rightarrow> ruleset \<Rightarrow> curses list" where
  "action_box_1 y x r =
    (case r_action r of
        ALLOW \<Rightarrow>
         [Wattrset check_selected_attr,
          Mvwprintw (y + 1) (x + 1) ''[(*) Allow   Allow packets matching this rule  ]'',
          Wattrset dialog_attr,
          Mvwprintw (y + 2) (x + 1) '' ( ) Deny    Deny packets matching this rule    '',
          Mvwprintw (y + 3) (x + 1) '' ( ) Reset   Discard packet and send RST (TCP)  '']
      | DENY \<Rightarrow>
         [Wattrset check_selected_attr,
          Mvwprintw (y + 1) (x + 1) ''[( ) Allow   Allow packets matching this rule  ]'',
          Wattrset dialog_attr,
          Mvwprintw (y + 2) (x + 1) '' (*) Deny    Deny packets matching this rule    '',
          Mvwprintw (y + 3) (x + 1) '' ( ) Reset   Discard packet and send RST (TCP)  '']
      | RESET \<Rightarrow>
         [Wattrset check_selected_attr,
          Mvwprintw (y + 1) (x + 1) ''[( ) Allow   Allow packets matching this rule  ]'',
          Wattrset dialog_attr,
          Mvwprintw (y + 2) (x + 1) '' ( ) Deny    Deny packets matching this rule    '',
          Mvwprintw (y + 3) (x + 1) '' (*) Reset   Discard packet and send RST (TCP)  '']
      | _ \<Rightarrow> [])"

definition action_box_2 :: "int \<Rightarrow> int \<Rightarrow> ruleset \<Rightarrow> curses list" where
  "action_box_2 y x r =
    (case r_action r of
        ALLOW \<Rightarrow>
         [Wattrset dialog_attr,
          Mvwprintw (y + 1) (x + 1) '' (*) Allow   Allow packets matching this rule   '',
          Wattrset check_selected_attr,
          Mvwprintw (y + 2) (x + 1) ''[( ) Deny    Deny packets matching this rule   ]'',
          Wattrset dialog_attr,
          Mvwprintw (y + 3) (x + 1) '' ( ) Reset   Discard packet and send RST (TCP)  '']
      | DENY \<Rightarrow>
         [Wattrset dialog_attr,
          Mvwprintw (y + 1) (x + 1) '' ( ) Allow   Allow packets matching this rule   '',
          Wattrset check_selected_attr,
          Mvwprintw (y + 2) (x + 1) ''[(*) Deny    Deny packets matching this rule   ]'',
          Wattrset dialog_attr,
          Mvwprintw (y + 3) (x + 1) '' ( ) Reset   Discard packet and send RST (TCP)  '']
      | RESET \<Rightarrow>
         [Wattrset dialog_attr,
          Mvwprintw (y + 1) (x + 1) '' ( ) Allow   Allow packets matching this rule   '',
          Wattrset check_selected_attr,
          Mvwprintw (y + 2) (x + 1) ''[( ) Deny    Deny packets matching this rule   ]'',
          Wattrset dialog_attr,
          Mvwprintw (y + 3) (x + 1) '' (*) Reset   Discard packet and send RST (TCP)  '']
      | _ \<Rightarrow> [])"

definition action_box_3 :: "int \<Rightarrow> int \<Rightarrow> ruleset \<Rightarrow> curses list" where
  "action_box_3 y x r =
    (case r_action r of
        ALLOW \<Rightarrow>
         [Wattrset dialog_attr,
          Mvwprintw (y + 1) (x + 1) '' (*) Allow   Allow packets matching this rule   '',
          Mvwprintw (y + 2) (x + 1) '' ( ) Deny    Deny packets matching this rule    '',
          Wattrset check_selected_attr,
          Mvwprintw (y + 3) (x + 1) ''[( ) Reset   Discard packet and send RST (TCP) ]'']
      | DENY \<Rightarrow>
         [Wattrset dialog_attr,
          Mvwprintw (y + 1) (x + 1) '' ( ) Allow   Allow packets matching this rule   '',
          Mvwprintw (y + 2) (x + 1) '' (*) Deny    Deny packets matching this rule    '',
          Wattrset check_selected_attr,
          Mvwprintw (y + 3) (x + 1) ''[( ) Reset   Discard packet and send RST (TCP) ]'']
      | RESET \<Rightarrow>
         [Wattrset dialog_attr,
          Mvwprintw (y + 1) (x + 1) '' ( ) Allow   Allow packets matching this rule   '',
          Mvwprintw (y + 2) (x + 1) '' ( ) Deny    Deny packets matching this rule    '',
          Wattrset check_selected_attr,
          Mvwprintw (y + 3) (x + 1) ''[(*) Reset   Discard packet and send RST (TCP) ]'']
      | _ \<Rightarrow> [])"

definition draw_action_box :: "int \<Rightarrow> int \<Rightarrow> int \<Rightarrow> ruleset \<Rightarrow> curses list" where
  "draw_action_box y x selected r =
    [Draw_box y x 5 50 dialog_attr border_attr,
     Wattrset title_attr,
     Mvwprintw y (x + 25 - 5) '' Action: ''] @
    (if selected = 1 then
         action_box_1 y x r
     else if selected = 2 then
         action_box_2 y x r
     else if selected = 3 then
         action_box_3 y x r
     else action_box_other y x r) @
    [Wmove 0 0,
     Wrefresh]"

text \<open>The protocol box of the forwarding dialog, and that of the filter dialog.\<close>

definition draw_protocol_forward_box :: "int \<Rightarrow> int \<Rightarrow> int \<Rightarrow> ruleset \<Rightarrow> curses list" where
  "draw_protocol_forward_box y x selected r =
    [Draw_box y x 4 50 dialog_attr border_attr,
     Wattrset title_attr,
     Mvwprintw y (x + 25 - 6) '' Protocol: ''] @
    (if selected = 1 then
         (case r_proto r of
             TCP \<Rightarrow>
              [Wattrset check_selected_attr,
               Mvwprintw (y + 1) (x + 1) ''[(*) TCP     Transmission Control Protocol     ]'',
               Wattrset dialog_attr,
               Mvwprintw (y + 2) (x + 1) '' ( ) UDP     User Datagram Protocol             '']
           | UDP \<Rightarrow>
              [Wattrset check_selected_attr,
               Mvwprintw (y + 1) (x + 1) ''[( ) TCP     Transmission Control Protocol     ]'',
               Wattrset dialog_attr,
               Mvwprintw (y + 2) (x + 1) '' (*) UDP     User Datagram Protocol             '']
           | _ \<Rightarrow> [])
     else if selected = 2 then
         (case r_proto r of
             TCP \<Rightarrow>
              [Wattrset dialog_attr,
               Mvwprintw (y + 1) (x + 1) '' (*) TCP     Transmission Control Protocol      '',
               Wattrset check_selected_attr,
               Mvwprintw (y + 2) (x + 1) ''[( ) UDP     User Datagram Protocol            ]'']
           | UDP \<Rightarrow>
              [Wattrset dialog_attr,
               Mvwprintw (y + 1) (x + 1) '' ( ) TCP     Transmission Control Protocol      '',
               Wattrset check_selected_attr,
               Mvwprintw (y + 2) (x + 1) ''[(*) UDP     User Datagram Protocol            ]'']
           | _ \<Rightarrow> [])
     else (case r_proto r of
             TCP \<Rightarrow>
              [Wattrset dialog_attr,
               Mvwprintw (y + 1) (x + 1) '' (*) TCP     Transmission Control Protocol      '',
               Mvwprintw (y + 2) (x + 1) '' ( ) UDP     User Datagram Protocol             '']
           | UDP \<Rightarrow>
              [Wattrset dialog_attr,
               Mvwprintw (y + 1) (x + 1) '' ( ) TCP     Transmission Control Protocol      '',
               Mvwprintw (y + 2) (x + 1) '' (*) UDP     User Datagram Protocol             '']
           | _ \<Rightarrow> [])) @
    [Wattrset dialog_attr,
     Wmove 0 0,
     Wrefresh]"

definition protocol_box_other :: "int \<Rightarrow> int \<Rightarrow> ruleset \<Rightarrow> curses list" where
  "protocol_box_other y x r =
    (case r_proto r of
        IP \<Rightarrow>
         [Wattrset dialog_attr,
          Mvwprintw (y + 1) (x + 1) '' ( ) TCP     Transmission Control Protocol      '',
          Mvwprintw (y + 2) (x + 1) '' (*) IP      Internet Protocol                  '',
          Mvwprintw (y + 3) (x + 1) '' ( ) UDP     User Datagram Protocol             '',
          Mvwprintw (y + 4) (x + 1) '' ( ) ICMP    Internet Control Message Protocol  '']
      | TCP \<Rightarrow>
         [Wattrset dialog_attr,
          Mvwprintw (y + 1) (x + 1) '' (*) TCP     Transmission Control Protocol      '',
          Mvwprintw (y + 2) (x + 1) '' ( ) IP      Internet Protocol                  '',
          Mvwprintw (y + 3) (x + 1) '' ( ) UDP     User Datagram Protocol             '',
          Mvwprintw (y + 4) (x + 1) '' ( ) ICMP    Internet Control Message Protocol  '']
      | UDP \<Rightarrow>
         [Wattrset dialog_attr,
          Mvwprintw (y + 1) (x + 1) '' ( ) TCP     Transmission Control Protocol      '',
          Mvwprintw (y + 2) (x + 1) '' ( ) IP      Internet Protocol                  '',
          Mvwprintw (y + 3) (x + 1) '' (*) UDP     User Datagram Protocol             '',
          Mvwprintw (y + 4) (x + 1) '' ( ) ICMP    Internet Control Message Protocol  '']
      | ICMP \<Rightarrow>
         [Wattrset dialog_attr,
          Mvwprintw (y + 1) (x + 1) '' ( ) TCP     Transmission Control Protocol      '',
          Mvwprintw (y + 2) (x + 1) '' ( ) IP      Internet Protocol                  '',
          Mvwprintw (y + 3) (x + 1) '' ( ) UDP     User Datagram Protocol             '',
          Mvwprintw (y + 4) (x + 1) '' (*) ICMP    Internet Control Message Protocol  ''])"

definition protocol_box_1 :: "int \<Rightarrow> int \<Rightarrow> ruleset \<Rightarrow> curses list" where
  "protocol_box_1 y x r =
    (case r_proto r of
        IP \<Rightarrow>
         [Wattrset check_selected_attr,
          Mvwprintw (y + 1) (x + 1) ''[( ) TCP     Transmission Control Protocol     ]'',
          Wattrset dialog_attr,
          Mvwprintw (y + 2) (x + 1) '' (*) IP      Internet Protocol                  '',
          Mvwprintw (y + 3) (x + 1) '' ( ) UDP     User Datagram Protocol             '',
          Mvwprintw (y + 4) (x + 1) '' ( ) ICMP    Internet Control Message Protocol  '']
      | TCP \<Rightarrow>
         [Wattrset check_selected_attr,
          Mvwprintw (y + 1) (x + 1) ''[(*) TCP     Transmission Control Protocol     ]'',
          Wattrset dialog_attr,
          Mvwprintw (y + 2) (x + 1) '' ( ) IP      Internet Protocol                  '',
          Mvwprintw (y + 3) (x + 1) '' ( ) UDP     User Datagram Protocol             '',
          Mvwprintw (y + 4) (x + 1) '' ( ) ICMP    Internet Control Message Protocol  '']
      | UDP \<Rightarrow>
         [Wattrset check_selected_attr,
          Mvwprintw (y + 1) (x + 1) ''[( ) TCP     Transmission Control Protocol     ]'',
          Wattrset dialog_attr,
          Mvwprintw (y + 2) (x + 1) '' ( ) IP      Internet Protocol                  '',
          Mvwprintw (y + 3) (x + 1) '' (*) UDP     User Datagram Protocol             '',
          Mvwprintw (y + 4) (x + 1) '' ( ) ICMP    Internet Control Message Protocol  '']
      | ICMP \<Rightarrow>
         [Wattrset check_selected_attr,
          Mvwprintw (y + 1) (x + 1) ''[( ) TCP     Transmission Control Protocol     ]'',
          Wattrset dialog_attr,
          Mvwprintw (y + 2) (x + 1) '' ( ) IP      Internet Protocol                  '',
          Mvwprintw (y + 3) (x + 1) '' ( ) UDP     User Datagram Protocol             '',
          Mvwprintw (y + 4) (x + 1) '' (*) ICMP    Internet Control Message Protocol  ''])"

definition protocol_box_2 :: "int \<Rightarrow> int \<Rightarrow> ruleset \<Rightarrow> curses list" where
  "protocol_box_2 y x r =
    (case r_proto r of
        IP \<Rightarrow>
         [Wattrset dialog_attr,
          Mvwprintw (y + 1) (x + 1) '' ( ) TCP     Transmission Control Protocol      '',
          Wattrset check_selected_attr,
          Mvwprintw (y + 2) (x + 1) ''[(*) IP      Internet Protocol                 ]'',
          Wattrset dialog_attr,
          Mvwprintw (y + 3) (x + 1) '' ( ) UDP     User Datagram Protocol             '',
          Mvwprintw (y + 4) (x + 1) '' ( ) ICMP    Internet Control Message Protocol  '']
      | TCP \<Rightarrow>
         [Wattrset dialog_attr,
          Mvwprintw (y + 1) (x + 1) '' (*) TCP     Transmission Control Protocol      '',
          Wattrset check_selected_attr,
          Mvwprintw (y + 2) (x + 1) ''[( ) IP      Internet Protocol                 ]'',
          Wattrset dialog_attr,
          Mvwprintw (y + 3) (x + 1) '' ( ) UDP     User Datagram Protocol             '',
          Mvwprintw (y + 4) (x + 1) '' ( ) ICMP    Internet Control Message Protocol  '']
      | UDP \<Rightarrow>
         [Wattrset dialog_attr,
          Mvwprintw (y + 1) (x + 1) '' ( ) TCP     Transmission Control Protocol      '',
          Wattrset check_selected_attr,
          Mvwprintw (y + 2) (x + 1) ''[( ) IP      Internet Protocol                 ]'',
          Wattrset dialog_attr,
          Mvwprintw (y + 3) (x + 1) '' (*) UDP     User Datagram Protocol             '',
          Mvwprintw (y + 4) (x + 1) '' ( ) ICMP    Internet Control Message Protocol  '']
      | ICMP \<Rightarrow>
         [Wattrset dialog_attr,
          Mvwprintw (y + 1) (x + 1) '' ( ) TCP     Transmission Control Protocol      '',
          Wattrset check_selected_attr,
          Mvwprintw (y + 2) (x + 1) ''[( ) IP      Internet Protocol                 ]'',
          Wattrset dialog_attr,
          Mvwprintw (y + 3) (x + 1) '' ( ) UDP     User Datagram Protocol             '',
          Mvwprintw (y + 4) (x + 1) '' (*) ICMP    Internet Control Message Protocol  ''])"

definition protocol_box_3 :: "int \<Rightarrow> int \<Rightarrow> ruleset \<Rightarrow> curses list" where
  "protocol_box_3 y x r =
    (case r_proto r of
        IP \<Rightarrow>
         [Wattrset dialog_attr,
          Mvwprintw (y + 1) (x + 1) '' ( ) TCP     Transmission Control Protocol      '',
          Mvwprintw (y + 2) (x + 1) '' (*) IP      Internet Protocol                  '',
          Wattrset check_selected_attr,
          Mvwprintw (y + 3) (x + 1) ''[( ) UDP     User Datagram Protocol            ]'',
          Wattrset dialog_attr,
          Mvwprintw (y + 4) (x + 1) '' ( ) ICMP    Internet Control Message Protocol  '']
      | TCP \<Rightarrow>
         [Wattrset dialog_attr,
          Mvwprintw (y + 1) (x + 1) '' (*) TCP     Transmission Control Protocol      '',
          Mvwprintw (y + 2) (x + 1) '' ( ) IP      Internet Protocol                  '',
          Wattrset check_selected_attr,
          Mvwprintw (y + 3) (x + 1) ''[( ) UDP     User Datagram Protocol            ]'',
          Wattrset dialog_attr,
          Mvwprintw (y + 4) (x + 1) '' ( ) ICMP    Internet Control Message Protocol  '']
      | UDP \<Rightarrow>
         [Wattrset dialog_attr,
          Mvwprintw (y + 1) (x + 1) '' ( ) TCP     Transmission Control Protocol      '',
          Mvwprintw (y + 2) (x + 1) '' ( ) IP      Internet Protocol                  '',
          Wattrset check_selected_attr,
          Mvwprintw (y + 3) (x + 1) ''[(*) UDP     User Datagram Protocol            ]'',
          Wattrset dialog_attr,
          Mvwprintw (y + 4) (x + 1) '' ( ) ICMP    Internet Control Message Protocol  '']
      | ICMP \<Rightarrow>
         [Wattrset dialog_attr,
          Mvwprintw (y + 1) (x + 1) '' ( ) TCP     Transmission Control Protocol      '',
          Mvwprintw (y + 2) (x + 1) '' ( ) IP      Internet Protocol                  '',
          Wattrset check_selected_attr,
          Mvwprintw (y + 3) (x + 1) ''[( ) UDP     User Datagram Protocol            ]'',
          Wattrset dialog_attr,
          Mvwprintw (y + 4) (x + 1) '' (*) ICMP    Internet Control Message Protocol  ''])"

definition protocol_box_4 :: "int \<Rightarrow> int \<Rightarrow> ruleset \<Rightarrow> curses list" where
  "protocol_box_4 y x r =
    (case r_proto r of
        IP \<Rightarrow>
         [Wattrset dialog_attr,
          Mvwprintw (y + 1) (x + 1) '' ( ) TCP     Transmission Control Protocol      '',
          Mvwprintw (y + 2) (x + 1) '' (*) IP      Internet Protocol                  '',
          Mvwprintw (y + 3) (x + 1) '' ( ) UDP     User Datagram Protocol             '',
          Wattrset check_selected_attr,
          Mvwprintw (y + 4) (x + 1) ''[( ) ICMP    Internet Control Message Protocol ]'']
      | TCP \<Rightarrow>
         [Wattrset dialog_attr,
          Mvwprintw (y + 1) (x + 1) '' (*) TCP     Transmission Control Protocol      '',
          Mvwprintw (y + 2) (x + 1) '' ( ) IP      Internet Protocol                  '',
          Mvwprintw (y + 3) (x + 1) '' ( ) UDP     User Datagram Protocol             '',
          Wattrset check_selected_attr,
          Mvwprintw (y + 4) (x + 1) ''[( ) ICMP    Internet Control Message Protocol ]'']
      | UDP \<Rightarrow>
         [Wattrset dialog_attr,
          Mvwprintw (y + 1) (x + 1) '' ( ) TCP     Transmission Control Protocol      '',
          Mvwprintw (y + 2) (x + 1) '' ( ) IP      Internet Protocol                  '',
          Mvwprintw (y + 3) (x + 1) '' (*) UDP     User Datagram Protocol             '',
          Wattrset check_selected_attr,
          Mvwprintw (y + 4) (x + 1) ''[( ) ICMP    Internet Control Message Protocol ]'']
      | ICMP \<Rightarrow>
         [Wattrset dialog_attr,
          Mvwprintw (y + 1) (x + 1) '' ( ) TCP     Transmission Control Protocol      '',
          Mvwprintw (y + 2) (x + 1) '' ( ) IP      Internet Protocol                  '',
          Mvwprintw (y + 3) (x + 1) '' ( ) UDP     User Datagram Protocol             '',
          Wattrset check_selected_attr,
          Mvwprintw (y + 4) (x + 1) ''[(*) ICMP    Internet Control Message Protocol ]''])"

definition draw_protocol_box :: "int \<Rightarrow> int \<Rightarrow> int \<Rightarrow> ruleset \<Rightarrow> curses list" where
  "draw_protocol_box y x selected r =
    [Draw_box y x 6 50 dialog_attr border_attr,
     Wattrset title_attr,
     Mvwprintw y (x + 25 - 6) '' Protocol: ''] @
    (if selected = 1 then
         protocol_box_1 y x r
     else if selected = 2 then
         protocol_box_2 y x r
     else if selected = 3 then
         protocol_box_3 y x r
     else if selected = 4 then
         protocol_box_4 y x r
     else protocol_box_other y x r) @
    [Wmove 0 0,
     Wrefresh]"

text \<open>The help line. \<open>help_text\<close> is the switch of \<open>help\<close>.\<close>

definition help_text :: "int \<Rightarrow> ruleset \<Rightarrow> curses list" where
  "help_text selected r =
    (if selected = 1 then
         [Mvwprintw 1 1 ''Allow all matching packets'']
     else if selected = 2 then
         [Mvwprintw 1 1 ''Deny all matching packets'']
     else if selected = 3 then
         [Mvwprintw 1 1 ''Discard packet and send RST (TCP OPTION ONLY)'']
     else if selected = 4 then
         [Mvwprintw 1 1 ''Match TCP Packets'']
     else if selected = 5 then
         [Mvwprintw 1 1 ''Match IP Packets'']
     else if selected = 6 then
         [Mvwprintw 1 1 ''Match UDP Packets'']
     else if selected = 7 then
         [Mvwprintw 1 1 ''Match ICMP Packets'']
     else if selected = 8 then
         [Mvwprintw 1 1 ''Enter the source (address, address:netmask, address/CIDR, me, or any)'']
     else if selected = 9 then
         [Mvwprintw 1 1 ''Enter the port (the number, or \"any\")'']
     else if selected = 10 then
         [Mvwprintw 1 1 ''Enter the dest (address, address:netmask, address/CIDR, me, or any)'']
     else if selected = 11 then
         [Mvwprintw 1 1 ''Enter the port (the number, or \"any\")'']
     else if selected = 12 then
         [Mvwprintw 1 1 ''Enter the address to forward to (addr, addr:mask, addr/CIDR, me, or any)'']
     else if selected = 24 then
         (case r_proto r of
             UDP \<Rightarrow>
              [Mvwprintw 1 1 ''There are no UDP header options'']
           | ICMP \<Rightarrow>
              [Mvwprintw 1 1 ''Select the ICMP header option for ICMP echo requests'']
           | TCP \<Rightarrow>
              [Mvwprintw 1 1 ''Select the TCP header option for established TCP connections'']
           | IP \<Rightarrow>
              [Mvwprintw 1 1 ''Select the IP header option for strict source routes''])
     else if selected = 25 then
         (case r_proto r of
             UDP \<Rightarrow>
              [Mvwprintw 1 1 ''There are no UDP header options'']
           | ICMP \<Rightarrow>
              [Mvwprintw 1 1 ''Select the ICMP header option for ICMP destination unreachable'']
           | TCP \<Rightarrow>
              [Mvwprintw 1 1 ''Select the TCP header option for SYN flags set'']
           | IP \<Rightarrow>
              [Mvwprintw 1 1 ''Select the IP header option for loose source routes''])
     else if selected = 26 then
         (case r_proto r of
             UDP \<Rightarrow>
              [Mvwprintw 1 1 ''There are no UDP header options'']
           | ICMP \<Rightarrow>
              [Mvwprintw 1 1 ''Select the ICMP header option for ICMP echo replys'']
           | TCP \<Rightarrow>
              [Mvwprintw 1 1 ''Select the TCP header option for fragmented packets'']
           | IP \<Rightarrow>
              [Mvwprintw 1 1 ''Select the IP header option for packets with timestamps''])
     else if selected = 31 then
         [Mvwprintw 1 1 ''Forward matching TCP packets'']
     else if selected = 32 then
         [Mvwprintw 1 1 ''Forward matching UDP packets'']
     else if selected = 33 then
         [Mvwprintw 1 1 ''Insert forwarding rule'']
     else if selected = 34 then
         [Mvwprintw 1 1 ''Cancel rule'']
     else if selected = 27 then
         (case r_proto r of
             UDP \<Rightarrow>
              [Mvwprintw 1 1 ''There are no UDP header options'']
           | ICMP \<Rightarrow>
              [Mvwprintw 1 1 ''Select no additional ICMP header options'']
           | TCP \<Rightarrow>
              [Mvwprintw 1 1 ''Select no additional TCP header options'']
           | IP \<Rightarrow>
              [Mvwprintw 1 1 ''Select no additional IP header options''])
     else if selected = 40 then
         [Mvwprintw 1 1 ''Rule will only apply towards incoming packets'']
     else if selected = 41 then
         [Mvwprintw 1 1 ''Rule will only apply towards outgoing packets'']
     else if selected = 42 then
         [Mvwprintw 1 1 ''Rule will apply to all packets (incoming and outgoing)'']
     else [])"

definition draw_help :: "int \<Rightarrow> ruleset \<Rightarrow> curses list" where
  "draw_help selected r =
    [Wattrset dialog_attr,
     Mvwprintw 1 1 ''                                                                         '',
     Wrefresh] @
    help_text selected r @ [Wmove 0 0, Wrefresh]"

subsection \<open>The boxes of the program\<close>

text \<open>The lines of each box, top to bottom, with the value each stands for.\<close>

definition action_rows :: "(string \<times> action) list" where
  "action_rows =
    [('' Allow   Allow packets matching this rule  '', ALLOW),
     ('' Deny    Deny packets matching this rule   '', DENY),
     ('' Reset   Discard packet and send RST (TCP) '', RESET)]"

definition protocol_rows :: "(string \<times> proto) list" where
  "protocol_rows =
    [('' TCP     Transmission Control Protocol     '', TCP),
     ('' IP      Internet Protocol                 '', IP),
     ('' UDP     User Datagram Protocol            '', UDP),
     ('' ICMP    Internet Control Message Protocol '', ICMP)]"

definition forward_rows :: "(string \<times> proto) list" where
  "forward_rows =
    [('' TCP     Transmission Control Protocol     '', TCP),
     ('' UDP     User Datagram Protocol            '', UDP)]"

definition iface_rows :: "int \<Rightarrow> (string \<times> ifs) list" where
  "iface_rows sel =
    (if sel = 0 then
       [(''   Incoming    '', INCOMING), (''   Outgoing    '', OUTGOING), (''   Any         '', ANY)]
     else
       [(''   Incoming      '', INCOMING), (''   Outgoing      '', OUTGOING), (''   Any           '', ANY)])"

definition option_rows :: "proto \<Rightarrow> (string \<times> int) list" where
  "option_rows p =
    (case p of
       TCP \<Rightarrow> [(''   Established   '', ESTABLISHED), (''   Setup (SYN)   '', SETUP),
               (''   Fragmented    '', FRAG), (''   None          '', NONE)]
     | IP \<Rightarrow> [(''   SSRR          '', SSRR), (''   LSRR          '', LSRR),
              (''   TS            '', TS), (''   None          '', IP_NONE)]
     | ICMP \<Rightarrow> [(''   Echo Request  '', ECHO_REQUEST), (''   Dest. Unreach '', DEST_UNREACH),
                (''   Echo Reply    '', ECHO_REPLY), (''   None          '', ICMP_NONE)]
     | UDP \<Rightarrow> [])"

definition option_title :: "int \<Rightarrow> int \<Rightarrow> ruleset \<Rightarrow> paint" where
  "option_title y x r =
    (y, x + 6, title_attr,
     (case r_proto r of TCP \<Rightarrow> ''TCP'' | IP \<Rightarrow> ''IP'' | UDP \<Rightarrow> ''UDP'' | ICMP \<Rightarrow> ''ICMP'') @ '' options:'')"

lemma to_3: "0 \<le> sel \<Longrightarrow> sel \<le> 3 \<Longrightarrow> sel = 0 \<or> sel = 1 \<or> sel = 2 \<or> sel = 3" for sel :: int
  by auto

lemma to_4: "0 \<le> sel \<Longrightarrow> sel \<le> 4 \<Longrightarrow> sel = 0 \<or> sel = 1 \<or> sel = 2 \<or> sel = 3 \<or> sel = 4" for sel :: int
  by auto

lemma row_numbers: "[1..2] = [1, 2 :: int]" "[1..3] = [1, 2, 3 :: int]" "[1..4] = [1, 2, 3, 4 :: int]"
  by (simp_all add: upto.simps)

lemmas radio_defs = radio_rows_def radio_line_def row_numbers

lemmas action_box_defs =
  draw_action_box_def action_box_other_def action_box_1_def action_box_2_def action_box_3_def

lemma painted_action_box:
  assumes "0 \<le> sel" "sel \<le> 3" "r_action r = ALLOW \<or> r_action r = DENY \<or> r_action r = RESET"
  shows "painted a (draw_action_box y x sel r) =
     (y, x + 20, title_attr, '' Action: '') # radio_rows y x action_rows (r_action r) sel"
  using to_3 [OF assms(1,2)] assms(3)
  by (elim disjE) (simp_all add: action_box_defs action_rows_def radio_defs)

interpretation action_box: radio_box draw_action_box "\<lambda>y x r. (y, x + 20, title_attr, '' Action: '')"
  "\<lambda>r sel. action_rows" r_action
  "\<lambda>r sel. 0 \<le> sel \<and> sel \<le> 3 \<and> (r_action r = ALLOW \<or> r_action r = DENY \<or> r_action r = RESET)"
  by unfold_locales
    (auto simp: painted_action_box, auto simp: action_rows_def marked_def highlighted_def)

lemmas protocol_box_defs =
  draw_protocol_box_def protocol_box_other_def protocol_box_1_def protocol_box_2_def
  protocol_box_3_def protocol_box_4_def

lemma painted_protocol_box:
  assumes "0 \<le> sel" "sel \<le> 4"
  shows "painted a (draw_protocol_box y x sel r) =
     (y, x + 19, title_attr, '' Protocol: '') # radio_rows y x protocol_rows (r_proto r) sel"
  using to_4 [OF assms]
  by (elim disjE; cases "r_proto r") (simp_all add: protocol_box_defs protocol_rows_def radio_defs)

interpretation protocol_box: radio_box draw_protocol_box
  "\<lambda>y x r. (y, x + 19, title_attr, '' Protocol: '')" "\<lambda>r sel. protocol_rows" r_proto
  "\<lambda>r sel. 0 \<le> sel \<and> sel \<le> 4"
proof unfold_locales
  show "r_proto r \<in> snd ` set protocol_rows" for r
    by (cases "r_proto r") (auto simp: protocol_rows_def)
qed (auto simp: painted_protocol_box, auto simp: protocol_rows_def marked_def highlighted_def)

lemma painted_protocol_forward_box:
  assumes "0 \<le> sel" "sel \<le> 2" "r_proto r = TCP \<or> r_proto r = UDP"
  shows "painted a (draw_protocol_forward_box y x sel r) =
     (y, x + 19, title_attr, '' Protocol: '') # radio_rows y x forward_rows (r_proto r) sel"
proof -
  have "sel = 0 \<or> sel = 1 \<or> sel = 2" using assms by auto
  then show ?thesis using assms(3)
    by (elim disjE) (simp_all add: draw_protocol_forward_box_def forward_rows_def radio_defs)
qed

interpretation forward_box: radio_box draw_protocol_forward_box
  "\<lambda>y x r. (y, x + 19, title_attr, '' Protocol: '')" "\<lambda>r sel. forward_rows" r_proto
  "\<lambda>r sel. 0 \<le> sel \<and> sel \<le> 2 \<and> (r_proto r = TCP \<or> r_proto r = UDP)"
  by unfold_locales
    (auto simp: painted_protocol_forward_box, auto simp: forward_rows_def marked_def highlighted_def)

lemmas iface_box_defs =
  draw_iface_def iface_0_def iface_1_def iface_2_def iface_3_def

lemma painted_iface:
  assumes "0 \<le> sel" "sel \<le> 3"
  shows "painted a (draw_iface y x sel r) =
     (y, x + 7, title_attr, ''Interface:'') # radio_rows y x (iface_rows sel) (r_ifs r) sel"
  using to_3 [OF assms]
  by (elim disjE; cases "r_ifs r") (simp_all add: iface_box_defs iface_rows_def radio_defs)

interpretation iface_box: radio_box draw_iface "\<lambda>y x r. (y, x + 7, title_attr, ''Interface:'')"
  "\<lambda>r. iface_rows" r_ifs "\<lambda>r sel. 0 \<le> sel \<and> sel \<le> 3"
proof unfold_locales
  show "r_ifs r \<in> snd ` set (iface_rows sel)" for r sel
    by (cases "r_ifs r") (auto simp: iface_rows_def)
qed (auto simp: painted_iface, auto simp: iface_rows_def marked_def highlighted_def)

lemmas options_tcp_defs = options_tcp_def
  options_tcp_0_def options_tcp_1_def options_tcp_2_def options_tcp_3_def options_tcp_4_def
lemmas options_ip_defs = options_ip_def
  options_ip_0_def options_ip_1_def options_ip_2_def options_ip_3_def options_ip_4_def
lemmas options_icmp_defs = options_icmp_def
  options_icmp_0_def options_icmp_1_def options_icmp_2_def options_icmp_3_def options_icmp_4_def

lemma painted_options_tcp:
  assumes "0 \<le> sel" "sel \<le> 4" "0 \<le> opt" "opt \<le> 3"
  shows "painted title_attr (options_tcp y x sel opt) =
     (y, x + 6, title_attr, ''TCP options:'') # radio_rows y x (option_rows TCP) opt sel"
  using to_4 [OF assms(1,2)] to_3 [OF assms(3,4)]
  by (elim disjE) (simp_all add: options_tcp_defs option_rows_def radio_defs)

lemma painted_options_ip:
  assumes "0 \<le> sel" "sel \<le> 4" "0 \<le> opt" "opt \<le> 3"
  shows "painted title_attr (options_ip y x sel opt) =
     (y, x + 6, title_attr, ''IP options:'') # radio_rows y x (option_rows IP) opt sel"
  using to_4 [OF assms(1,2)] to_3 [OF assms(3,4)]
  by (elim disjE) (simp_all add: options_ip_defs option_rows_def radio_defs)

lemma painted_options_icmp:
  assumes "0 \<le> sel" "sel \<le> 4" "0 \<le> opt" "opt \<le> 3"
  shows "painted title_attr (options_icmp y x sel opt) =
     (y, x + 6, title_attr, ''ICMP options:'') # radio_rows y x (option_rows ICMP) opt sel"
  using to_4 [OF assms(1,2)] to_3 [OF assms(3,4)]
  by (elim disjE) (simp_all add: options_icmp_defs option_rows_def radio_defs)

lemma painted_options:
  assumes "0 \<le> sel" "sel \<le> 4" "0 \<le> r_option r" "r_option r \<le> 3" "r_proto r \<noteq> UDP"
  shows "painted a (draw_options y x sel r) =
     option_title y x r # radio_rows y x (option_rows (r_proto r)) (r_option r) sel"
  using assms
  by (cases "r_proto r")
    (simp_all add: draw_options_def option_title_def painted_options_tcp painted_options_ip
       painted_options_icmp)

lemma option_title_plain: "\<not> marked (option_title y x r) \<and> \<not> highlighted (option_title y x r)"
  by (cases "r_proto r") (simp_all add: option_title_def marked_def highlighted_def)

interpretation option_box: radio_box draw_options option_title "\<lambda>r sel. option_rows (r_proto r)"
  r_option
  "\<lambda>r sel. 0 \<le> sel \<and> sel \<le> 4 \<and> 0 \<le> r_option r \<and> r_option r \<le> 3 \<and> r_proto r \<noteq> UDP"
proof unfold_locales
  fix r :: ruleset and sel :: int
  assume a: "0 \<le> sel \<and> sel \<le> 4 \<and> 0 \<le> r_option r \<and> r_option r \<le> 3 \<and> r_proto r \<noteq> UDP"
  then show "r_option r \<in> snd ` set (option_rows (r_proto r))"
    using to_3 [of "r_option r"] by (cases "r_proto r") (auto simp: option_rows_def)
  show "distinct (map snd (option_rows (r_proto r)))"
    by (cases "r_proto r") (auto simp: option_rows_def)
  show "0 \<le> sel \<and> sel \<le> int (length (option_rows (r_proto r)))"
    using a by (cases "r_proto r") (auto simp: option_rows_def)
qed (auto simp: painted_options option_title_plain)

subsection \<open>The boxes and the frame\<close>

text \<open>
  The first call of a drawing function draws its frame, of height \<open>h\<close> and width \<open>w\<close> at
  \<open>(y, x)\<close>. What it paints stays inside: a line never reaches the right border, and only the
  title is on the top one.
\<close>

fun in_frame :: "curses list \<Rightarrow> bool" where
  "in_frame (Draw_box y x h w a b # cs) =
     (case painted a cs of
        [] \<Rightarrow> True
      | t # ps \<Rightarrow>
          fst t = y \<and>
          list_all (\<lambda>(r, c, _, s). x < c \<and> c + int (length s) \<le> x + w - 1) (t # ps) \<and>
          list_all (\<lambda>(r, c, _, s). y < r \<and> r < y + h - 1) ps)"
| "in_frame _ = False"

lemma action_box_in_frame:
  assumes "0 \<le> sel" "sel \<le> 3" "r_action r = ALLOW \<or> r_action r = DENY \<or> r_action r = RESET"
  shows "in_frame (draw_action_box y x sel r)"
  using painted_action_box [OF assms, of dialog_attr y x]
  by (simp add: draw_action_box_def radio_defs action_rows_def)

lemma protocol_box_in_frame:
  assumes "0 \<le> sel" "sel \<le> 4"
  shows "in_frame (draw_protocol_box y x sel r)"
  using painted_protocol_box [OF assms, of dialog_attr y x]
  by (simp add: draw_protocol_box_def radio_defs protocol_rows_def)

lemma iface_in_frame:
  assumes "0 \<le> sel" "sel \<le> 3"
  shows "in_frame (draw_iface y x sel r)"
  using painted_iface [OF assms, of dialog_attr y x]
  by (simp add: draw_iface_def radio_defs iface_rows_def split: if_splits)

lemma protocol_forward_box_in_frame:
  assumes "0 \<le> sel" "sel \<le> 2" "r_proto r = TCP \<or> r_proto r = UDP"
  shows "in_frame (draw_protocol_forward_box y x sel r)"
  using painted_protocol_forward_box [OF assms, of dialog_attr y x]
  by (simp add: draw_protocol_forward_box_def radio_defs forward_rows_def)

lemma options_in_frame:
  assumes "0 \<le> sel" "sel \<le> 4" "0 \<le> r_option r" "r_option r \<le> 3"
  shows "in_frame (draw_options y x sel r)"
proof (cases "r_proto r = UDP")
  case True
  then show ?thesis
    using to_4 [OF assms(1,2)]
    by (elim disjE) (simp_all add: draw_options_def options_udp_def)
next
  case False
  then show ?thesis
    using painted_options [OF assms False, of dialog_attr y x]
    by (cases "r_proto r")
      (simp_all add: draw_options_def radio_defs option_rows_def option_title_def)
qed

lemma nat_option_painted:
  assumes "sel = 0 \<or> sel = 1 \<or> sel = 2" and "on = 0 \<or> on = 1"
  shows "painted a (draw_nat_option y x sel on) =
    [(y + 1, x + 1, if sel = 1 then check_selected_attr else dialog_attr,
      (if on = 1 then ''[*]'' else ''[ ]'') @ ''  Enable network address translation         ''),
     (y + 2, x + 1, if sel = 2 then check_selected_attr else dialog_attr,
      (if on = 1 then ''[ ]'' else ''[*]'') @ ''  Disable network address translation        '')]"
  using assms by (elim disjE) (simp_all add: draw_nat_option_def)

end
