(* ===== verification/Dialog.thy ===== *)
theory Dialog
  imports RuleFile Widgets
begin

text \<open>
  What the interactive dialogs of the config shell have in common. Each is a loop around
  \<open>wgetch\<close> and \<open>line_edit\<close>: between two inputs the program is at one of three kinds of prompt.
  Here are the prompts, the inputs, the input routines \<open>inputs\<close> and \<open>forw_input\<close> of
  \<open>closedbsd/config/misc.c\<close>, and the contract
  of a dialog as a locale: its runs, and what an invariant of its steps gives.
\<close>

named_theorems dialog_defs \<open>the definitions of the dialogs\<close>

subsection \<open>Prompts and inputs\<close>

text \<open>
  \<open>Wgetch\<close>: waiting for a key; \<open>Editing sel flen\<close>: inside \<open>line_edit\<close>, on the input \<open>sel\<close> of
  \<open>flen\<close> characters; \<open>Returned v\<close>: the dialog is over, its value is \<open>v\<close>. An input is a key, or a finished
  \<open>line_edit\<close> with the string it left in the buffer and the key that ended it. \<open>line_edit\<close> is
  a function of libdialog: it lets the user enter at most \<open>flen\<close> printing characters.
\<close>

datatype prompt = Wgetch | Editing int nat | Returned rc

datatype event = Key key | Line string key

definition printing :: "string \<Rightarrow> bool" where
  "printing s \<longleftrightarrow> list_all (\<lambda>c. 32 \<le> (of_char c :: nat)) s"

definition accepts :: "prompt \<Rightarrow> event \<Rightarrow> bool" where
  "accepts p e =
     (case (p, e) of
        (Wgetch, Key _) \<Rightarrow> True
      | (Editing _ flen, Line s _) \<Rightarrow> length s \<le> flen \<and> printing s
      | _ \<Rightarrow> False)"

lemma accepts_simps [simp]:
  "accepts (Returned v) e = False"
  "accepts Wgetch (Key k) = True"
  "accepts Wgetch (Line s k) = False"
  "accepts (Editing sel n) (Key k) = False"
  "accepts (Editing sel n) (Line s k) = (length s \<le> n \<and> printing s)"
  by (cases e; simp add: accepts_def)+

lemma printing_nl: "printing s \<Longrightarrow> nl \<notin> set s"
  by (auto simp: printing_def list_all_iff)

abbreviation (input) SPACE :: key where "SPACE \<equiv> Ch 32"
abbreviation (input) ENTER :: key where "ENTER \<equiv> Ch 10"
abbreviation (input) TAB :: key where "TAB \<equiv> Ch 9"

text \<open>
  \<open>line_edit\<close> leaves a string of at most \<open>flen\<close> characters in the caller's buffer of \<open>n\<close>
  bytes: undefined when string and terminator do not fit.
\<close>

definition edit_into :: "nat \<Rightarrow> string \<Rightarrow> string option" where
  "edit_into n s = (if length s < n then Some s else None)"

text \<open>
  The result of \<open>inputs\<close>, once \<open>line_edit\<close> is over: the number of the field the cursor goes to.
  After anything but \<open>KEY_UP\<close> that is the next one; \<open>forw_input\<close> moves on \<open>KEY_DOWN\<close> only and
  returns \<open>selected\<close> for the other keys. The places of the fields on the screen.
\<close>

definition inputs :: "int \<Rightarrow> key \<Rightarrow> int" where
  "inputs selected key =
     (if selected = 8 \<or> selected = 9 \<or> selected = 10 \<or> selected = 11 then
        (case key of
           KEY_DOWN \<Rightarrow> selected + 1
         | KEY_UP \<Rightarrow> selected - 1
         | _ \<Rightarrow> selected + 1)
      else selected + 1)"

definition inputs_act :: "int \<Rightarrow> act list" where
  "inputs_act selected =
     (if selected = 8 then [Line_edit 14 17 33 33]
      else if selected = 9 then [Line_edit 14 52 5 5]
      else if selected = 10 then [Line_edit 17 17 33 33]
      else if selected = 11 then [Line_edit 17 52 5 5]
      else [])"

definition forw_input :: "int \<Rightarrow> key \<Rightarrow> int" where
  "forw_input selected key =
     (if selected = 3 \<or> selected = 4 \<or> selected = 5 \<or> selected = 6 \<or> selected = 7 \<or> selected = 8 then
        (case key of
           KEY_DOWN \<Rightarrow> selected + 1
         | KEY_UP \<Rightarrow> selected - 1
         | _ \<Rightarrow> selected)
      else selected)"

definition forw_input_act :: "int \<Rightarrow> act list" where
  "forw_input_act selected =
     (if selected = 3 then [Line_edit 8 20 33 33]
      else if selected = 4 then [Line_edit 8 56 5 5]
      else if selected = 5 then [Line_edit 11 20 33 33]
      else if selected = 6 then [Line_edit 11 56 5 5]
      else if selected = 7 then [Line_edit 14 20 33 33]
      else if selected = 8 then [Line_edit 14 56 5 5]
      else [])"

lemma inputs_key: "inputs selected key = (if selected \<in> {8..11} \<and> key = KEY_UP then selected - 1 else selected + 1)"
  by (auto simp: inputs_def split: key.split)

lemma inputs_cases: "inputs selected key = selected - 1 \<or> inputs selected key = selected + 1"
  by (simp add: inputs_key)

lemma forw_input_cases:
  "forw_input selected key \<in> {selected - 1, selected, selected + 1}"
  by (auto simp: forw_input_def split: key.split)

subsection \<open>What is on the screen\<close>

text \<open>
  The last call of a kind in a trace: \<open>f\<close> picks the calls, \<open>d\<close> is the value before the trace.
\<close>

fun latest :: "(act \<Rightarrow> 'a option) \<Rightarrow> 'a option \<Rightarrow> act list \<Rightarrow> 'a option" where
  "latest f d [] = d"
| "latest f d (a # as) = latest f (case f a of None \<Rightarrow> d | Some x \<Rightarrow> Some x) as"

lemma latest_append [simp]: "latest f d (as @ bs) = latest f (latest f d as) bs"
  by (induction as arbitrary: d) auto

definition the_action :: "act \<Rightarrow> (int \<times> action) option" where
  "the_action a = (case a of Action_box y x sel r \<Rightarrow> Some (sel, r_action r) | _ \<Rightarrow> None)"

definition the_protocol :: "act \<Rightarrow> (int \<times> proto) option" where
  "the_protocol a = (case a of Protocol_box y x sel r \<Rightarrow> Some (sel, r_proto r)
     | Protocol_forward_box y x sel r \<Rightarrow> Some (sel, r_proto r) | _ \<Rightarrow> None)"

definition the_iface :: "act \<Rightarrow> (int \<times> ifs) option" where
  "the_iface a = (case a of Iface y x sel r \<Rightarrow> Some (sel, r_ifs r) | _ \<Rightarrow> None)"

definition the_options :: "act \<Rightarrow> (int \<times> proto \<times> int) option" where
  "the_options a = (case a of Options y x sel r \<Rightarrow> Some (sel, r_proto r, r_option r) | _ \<Rightarrow> None)"

definition the_button :: "act \<Rightarrow> int option" where
  "the_button a = (case a of Buttons sel \<Rightarrow> Some sel | _ \<Rightarrow> None)"

text \<open>The place of the input that is edited.\<close>

definition the_line :: "act \<Rightarrow> (int \<times> int) option" where
  "the_line a = (case a of Line_edit y x flen n \<Rightarrow> Some (y, x) | _ \<Rightarrow> None)"

lemmas the_defs = the_action_def the_protocol_def the_iface_def the_options_def the_button_def

text \<open>Nothing but the screen has changed since \<open>w0\<close>.\<close>

definition untouched :: "world \<Rightarrow> world \<Rightarrow> bool" where
  "untouched w0 w \<longleftrightarrow> files w = files w0 \<and> devdb w = devdb w0 \<and>
     commands (trace w) = commands (trace w0)"

lemma untouched_contents: "untouched w0 w \<Longrightarrow> contents p w = contents p w0"
  by (simp add: untouched_def contents_def)

subsection \<open>The contract of a dialog\<close>

text \<open>
  A dialog steps from state to state, one input at a time; a step that is \<open>None\<close> has no
  defined behaviour in C. The runs, and the states they reach.
\<close>

fun run_events :: "('s \<Rightarrow> prompt) \<Rightarrow> (event \<Rightarrow> 's \<Rightarrow> 's option) \<Rightarrow> event list \<Rightarrow> 's \<Rightarrow> 's option" where
  "run_events at step [] s = Some s"
| "run_events at step (e # es) s =
     (if accepts (at s) e then
        (case step e s of None \<Rightarrow> None | Some s' \<Rightarrow> run_events at step es s')
      else None)"

inductive reachable ::
  "('s \<Rightarrow> bool) \<Rightarrow> ('s \<Rightarrow> prompt) \<Rightarrow> (event \<Rightarrow> 's \<Rightarrow> 's option) \<Rightarrow> 's \<Rightarrow> bool"
  for start at step where
  reach_start: "start s \<Longrightarrow> reachable start at step s"
| reach_step: "reachable start at step s \<Longrightarrow> accepts (at s) e \<Longrightarrow> step e s = Some s' \<Longrightarrow>
    reachable start at step s'"

lemma run_events_append:
  "run_events at step (es @ fs) s = Option.bind (run_events at step es s) (run_events at step fs)"
  by (induction es arbitrary: s) (auto split: option.split)

lemma reachable_run:
  "reachable start at step s \<longleftrightarrow> (\<exists>s0 es. start s0 \<and> run_events at step es s0 = Some s)"
proof
  assume "reachable start at step s"
  then show "\<exists>s0 es. start s0 \<and> run_events at step es s0 = Some s"
  proof (induction rule: reachable.induct)
    case (reach_start s)
    then have "run_events at step [] s = Some s" by simp
    with reach_start show ?case by blast
  next
    case (reach_step s e s')
    then obtain s0 es where "start s0" "run_events at step es s0 = Some s" by blast
    then have "run_events at step (es @ [e]) s0 = Some s'"
      using reach_step.hyps by (simp add: run_events_append)
    then show ?case using \<open>start s0\<close> by blast
  qed
next
  have "reachable start at step s0 \<Longrightarrow> run_events at step es s0 = Some s \<Longrightarrow> reachable start at step s" for s0 es
    by (induction es arbitrary: s0) (auto split: if_splits option.splits intro: reach_step)
  then show "\<exists>s0 es. start s0 \<and> run_events at step es s0 = Some s \<Longrightarrow> reachable start at step s"
    by (auto intro: reach_start)
qed

text \<open>
  What was typed: the line last entered in a run while \<open>line_edit\<close> was at the place \<open>pos\<close> of the screen,
  \<open>old\<close> if none was. \<open>wd\<close> is the world of a state.
\<close>

definition entry_at :: "('s \<Rightarrow> world) \<Rightarrow> int \<times> int \<Rightarrow> event \<Rightarrow> 's \<Rightarrow> string \<Rightarrow> string" where
  "entry_at wd pos e s old =
     (case e of
        Line str _ \<Rightarrow> if latest the_line None (trace (wd s)) = Some pos then str else old
      | Key _ \<Rightarrow> old)"

fun typed :: "('s \<Rightarrow> world) \<Rightarrow> (event \<Rightarrow> 's \<Rightarrow> 's option) \<Rightarrow> int \<times> int \<Rightarrow> string \<Rightarrow> event list \<Rightarrow> 's \<Rightarrow> string" where
  "typed wd step pos old [] s = old"
| "typed wd step pos old (e # es) s =
     (case step e s of None \<Rightarrow> old | Some s' \<Rightarrow> typed wd step pos (entry_at wd pos e s old) es s')"

text \<open>
  The invariant \<open>inv\<close> holds of the initial states and is kept by the steps; the inputs \<open>ok\<close> of a
  state that satisfies it are defined. \<open>guarded\<close>: a run all of whose inputs are accepted and \<open>ok\<close>.
\<close>

fun guarded :: "('s \<Rightarrow> prompt) \<Rightarrow> (event \<Rightarrow> 's \<Rightarrow> 's option) \<Rightarrow> ('s \<Rightarrow> event \<Rightarrow> bool) \<Rightarrow>
    event list \<Rightarrow> 's \<Rightarrow> bool" where
  "guarded at step ok [] s = True"
| "guarded at step ok (e # es) s \<longleftrightarrow> accepts (at s) e \<and> ok s e \<and>
     (case step e s of None \<Rightarrow> True | Some s' \<Rightarrow> guarded at step ok es s')"

locale dialog =
  fixes start :: "'s \<Rightarrow> bool"
    and at :: "'s \<Rightarrow> prompt"
    and step :: "event \<Rightarrow> 's \<Rightarrow> 's option"
    and ok :: "'s \<Rightarrow> event \<Rightarrow> bool"
    and inv :: "'s \<Rightarrow> bool"
  assumes start_inv: "start s \<Longrightarrow> inv s"
    and step_inv: "inv s \<Longrightarrow> accepts (at s) e \<Longrightarrow> step e s = Some s' \<Longrightarrow> inv s'"
    and step_defined: "inv s \<Longrightarrow> accepts (at s) e \<Longrightarrow> ok s e \<Longrightarrow> step e s \<noteq> None"
begin

lemma reachable_inv: "reachable start at step s \<Longrightarrow> inv s"
  by (induction rule: reachable.induct) (auto intro: start_inv step_inv)

lemma run_inv: "inv s \<Longrightarrow> run_events at step es s = Some s' \<Longrightarrow> inv s'"
  by (induction es arbitrary: s) (auto split: if_splits option.splits intro: step_inv)

lemma guarded_defined: "inv s \<Longrightarrow> guarded at step ok es s \<Longrightarrow> \<exists>s'. run_events at step es s = Some s' \<and> inv s'"
proof (induction es arbitrary: s)
  case Nil
  then show ?case by simp
next
  case (Cons e es)
  then obtain s' where s': "step e s = Some s'"
    using step_defined [of s e] by auto
  moreover have "inv s'"
    using Cons.prems s' by (auto intro: step_inv)
  ultimately show ?case using Cons by simp
qed

text \<open>A member that each step sets to the line entered at \<open>pos\<close> is what was typed there.\<close>

lemma typed_field:
  assumes "\<And>s e s'. inv s \<Longrightarrow> accepts (at s) e \<Longrightarrow> step e s = Some s' \<Longrightarrow> f s' = entry_at wd pos e s (f s)"
  shows "inv s \<Longrightarrow> run_events at step es s = Some s' \<Longrightarrow> f s' = typed wd step pos (f s) es s"
proof (induction es arbitrary: s)
  case (Cons e es)
  then obtain t where t: "accepts (at s) e" "step e s = Some t" "run_events at step es t = Some s'"
    by (auto split: if_splits option.splits)
  then show ?case
    using Cons.IH [of t] Cons.prems(1) step_inv assms [OF Cons.prems(1) t(1,2)] by simp
qed simp

lemma returned_final: "at s = Returned v \<Longrightarrow> run_events at step es s = Some s' \<Longrightarrow> s' = s \<and> es = []"
  by (cases es) auto

end

end
