(* ===== verification/FilterDlg.thy ===== *)
theory FilterDlg
  imports Dialog
begin

text \<open>
  \<open>closedbsd/config/filter.c\<close>: the dialog that builds a packet filter rule. Its state is the
  cursor \<open>p\<close>, the rule, the four input buffers and the world; one definition per key, each with the
  whole case of the source, and the rest of a case after its \<open>line_edit\<close> in \<open>filter_line\<close>.
  What holds of it is in \<open>FilterInv\<close> and \<open>FilterRuns\<close>.
\<close>

subsection \<open>State\<close>

record filter_st =
  f_p :: int
  f_rule :: ruleset
  f_src :: string
  f_dst :: string
  f_src_port :: string
  f_dst_port :: string
  f_prompt :: prompt
  f_world :: world

definition filter_do :: "act list \<Rightarrow> filter_st \<Rightarrow> filter_st" where
  "filter_do as s = s\<lparr>f_world := emit as (f_world s)\<rparr>"

text \<open>\<open>p\<close> set and some drawing done; a new rule and some drawing done.\<close>

definition filter_go :: "int \<Rightarrow> act list \<Rightarrow> filter_st \<Rightarrow> filter_st" where
  "filter_go p as s = s\<lparr>f_p := p, f_world := emit as (f_world s)\<rparr>"

definition filter_set :: "ruleset \<Rightarrow> act list \<Rightarrow> filter_st \<Rightarrow> filter_st" where
  "filter_set r as s = s\<lparr>f_rule := r, f_world := emit as (f_world s)\<rparr>"

text \<open>The top of the loop, \<open>help(w, p, rule); wgetch(w)\<close>.\<close>

definition filter_loop :: "filter_st \<Rightarrow> filter_st" where
  "filter_loop s = (filter_do [Help (f_p s) (f_rule s)] s)\<lparr>f_prompt := Wgetch\<rparr>"

text \<open>\<open>p = sel; help(w, p, rule); ch = inputs(w, p, ...)\<close>, up to the input.\<close>

definition filter_flen :: "int \<Rightarrow> nat" where
  "filter_flen sel = (if sel = 8 \<or> sel = 10 then 33 else 5)"

definition filter_edit :: "int \<Rightarrow> filter_st \<Rightarrow> filter_st" where
  "filter_edit sel s =
     (filter_go sel (Help sel (f_rule s) # inputs_act sel) s)\<lparr>f_prompt := Editing sel (filter_flen sel)\<rparr>"

text \<open>
  The declarations and the first drawing. \<open>junk\<close> is what the stack holds where \<open>rule\<close> is: the
  members that are not assigned here keep it.
\<close>

definition filter_init :: "ruleset \<Rightarrow> world \<Rightarrow> filter_st" where
  "filter_init junk w =
     (let rule = junk\<lparr>r_action := ALLOW, r_proto := TCP, r_ifs := ANY, r_option := NONE,
            r_src_port := [], r_dst_port := [], r_src := [], r_dst := []\<rparr>
      in filter_loop
           \<lparr>f_p = 1, f_rule = rule, f_src = [], f_dst = [], f_src_port = [], f_dst_port = [],
            f_prompt = Wgetch,
            f_world = emit
              [Initscr, Init_dialog, Dialog_clear, Newwin 22 76 1 1,
               Std_window ''ClosedBSD: Insert Protocol Filter'',
               Action_box 2 1 1 rule, Protocol_box 7 1 0 rule, Iface 2 51 0 rule,
               Options 7 51 0 rule, Buttons 0,
               Host_inputbox 13 16, Curses (Wattrset dialog_attr),
               Curses (Mvwprintw 14 9 ''Source:''), Port_inputbox 13 51,
               Host_inputbox 16 16, Curses (Wattrset dialog_attr),
               Curses (Mvwprintw 17 4 ''Destination:''), Port_inputbox 16 51,
               Curses (Wmove 0 0), Curses Wrefresh] w\<rparr>)"

subsection \<open>The keys\<close>

text \<open>
  \<open>case KEY_DOWN\<close>, from the label \<open>down\<close>. The last case of its switch sets \<open>p = 7\<close> and jumps
  to the label again: it is added by \<open>filter_down\<close>.
\<close>

definition filter_down_once :: "filter_st \<Rightarrow> filter_st" where
  "filter_down_once s =
     (let p = f_p s; rule = f_rule s in
      if p = 1 then filter_loop (filter_go 2 [Action_box 2 1 2 rule] s)
      else if p = 2 then filter_loop (filter_go 3 [Action_box 2 1 3 rule] s)
      else if p = 3 then
        filter_loop (filter_go 4 [Action_box 2 1 0 rule, Protocol_box 7 1 1 rule] s)
      else if p = 4 then filter_loop (filter_go 5 [Protocol_box 7 1 2 rule] s)
      else if p = 5 then filter_loop (filter_go 6 [Protocol_box 7 1 3 rule] s)
      else if p = 6 then filter_loop (filter_go 7 [Protocol_box 7 1 4 rule] s)
      else if p = 7 then filter_edit 8 (filter_do [Protocol_box 7 1 0 rule] s)
      else if p = 8 then filter_edit 9 s
      else if p = 9 then filter_edit 10 s
      else if p = 10 then filter_edit 11 (filter_do [Buttons 0] s)
      else if p = 11 then filter_loop (filter_go 12 [Buttons 1] s)
      else if p = 12 then filter_loop (filter_go 13 [Buttons 2] s)
      else if p = 21 then filter_loop (filter_go 22 [Help 41 rule, Iface 2 51 2 rule] s)
      else if p = 22 then filter_loop (filter_go 23 [Help 42 rule, Iface 2 51 3 rule] s)
      else if p = 23 then
        filter_loop (filter_go 24 [Iface 2 51 0 rule, Options 7 51 1 rule] s)
      else if p = 24 then filter_loop (filter_go 25 [Options 7 51 2 rule] s)
      else if p = 25 then filter_loop (filter_go 26 [Options 7 51 3 rule] s)
      else if p = 26 then filter_loop (filter_go 27 [Options 7 51 4 rule] s)
      else filter_loop s)"

definition filter_down :: "filter_st \<Rightarrow> filter_st" where
  "filter_down s =
     (if f_p s = 27 then filter_down_once (filter_go 7 [Options 7 51 0 (f_rule s)] s)
      else filter_down_once s)"

text \<open>What follows \<open>inputs\<close> in the cases 7 to 10 of \<open>KEY_DOWN\<close>, the buffer filled.\<close>

definition filter_goto_down :: "int \<Rightarrow> filter_st \<Rightarrow> filter_st" where
  "filter_goto_down p s = filter_down (s\<lparr>f_p := p\<rparr>)"

definition filter_line :: "string \<Rightarrow> key \<Rightarrow> filter_st \<Rightarrow> filter_st option" where
  "filter_line str key s =
     (let ch = inputs (f_p s) key in
      if f_p s = 8 then do {
        buf \<leftarrow> edit_into 128 str;
        let s = s\<lparr>f_src := buf\<rparr>;
        Some (if ch < 8 then filter_goto_down 6 s
              else if ch > 8 then filter_goto_down 8 s
              else filter_loop s)
      }
      else if f_p s = 9 then do {
        buf \<leftarrow> edit_into 5 str;
        let s = s\<lparr>f_src_port := buf\<rparr>;
        Some (if ch < 9 then filter_goto_down 7 s
              else if ch > 8 then filter_goto_down 9 s
              else filter_loop s)
      }
      else if f_p s = 10 then do {
        buf \<leftarrow> edit_into 128 str;
        let s = s\<lparr>f_dst := buf\<rparr>;
        Some (if ch < 10 then filter_goto_down 8 s
              else if ch > 10 then filter_goto_down 10 s
              else filter_loop s)
      }
      else if f_p s = 11 then do {
        buf \<leftarrow> edit_into 5 str;
        let s = s\<lparr>f_dst_port := buf\<rparr>;
        Some (if ch < 11 then filter_goto_down 9 s
              else if ch > 11 then filter_goto_down 11 s
              else filter_loop s)
      }
      else None)"

definition filter_left :: "filter_st \<Rightarrow> filter_st" where
  "filter_left s =
     (let p = f_p s; rule = f_rule s in
      filter_loop
       (if p = 21 then filter_go 1 [Action_box 2 1 1 rule, Iface 2 51 0 rule] s
        else if p = 22 then filter_go 2 [Action_box 2 1 2 rule, Iface 2 51 0 rule] s
        else if p = 23 then filter_go 3 [Action_box 2 1 3 rule, Iface 2 51 0 rule] s
        else if p = 24 then filter_go 4 [Protocol_box 7 1 1 rule, Options 7 51 0 rule] s
        else if p = 25 then filter_go 5 [Protocol_box 7 1 2 rule, Options 7 51 0 rule] s
        else if p = 26 then filter_go 6 [Protocol_box 7 1 3 rule, Options 7 51 0 rule] s
        else if p = 27 then filter_go 7 [Protocol_box 7 1 4 rule, Options 7 51 0 rule] s
        else s))"

definition filter_right :: "filter_st \<Rightarrow> filter_st" where
  "filter_right s =
     (let p = f_p s; rule = f_rule s in
      filter_loop
       (if p = 1 then filter_go 21 [Action_box 2 1 0 rule, Help 40 rule, Iface 2 51 1 rule] s
        else if p = 2 then filter_go 22 [Action_box 2 1 0 rule, Help 41 rule, Iface 2 51 2 rule] s
        else if p = 3 then filter_go 23 [Action_box 2 1 0 rule, Help 42 rule, Iface 2 51 3 rule] s
        else if p = 4 then filter_go 24 [Protocol_box 7 1 0 rule, Options 7 51 1 rule] s
        else if p = 5 then filter_go 25 [Protocol_box 7 1 0 rule, Options 7 51 2 rule] s
        else if p = 6 then filter_go 26 [Protocol_box 7 1 0 rule, Options 7 51 3 rule] s
        else if p = 7 then filter_go 27 [Protocol_box 7 1 0 rule, Options 7 51 4 rule] s
        else s))"

text \<open>\<open>case KEY_UP\<close>. From the buttons it jumps into \<open>KEY_DOWN\<close>.\<close>

definition filter_up :: "filter_st \<Rightarrow> filter_st" where
  "filter_up s =
     (let p = f_p s; rule = f_rule s in
      if p = 12 then filter_goto_down 10 s
      else if p = 13 then filter_goto_down 11 s
      else filter_loop
       (if p = 1 then filter_go 1 [Action_box 2 1 1 rule] s
        else if p = 2 then filter_go 1 [Action_box 2 1 1 rule] s
        else if p = 3 then filter_go 2 [Action_box 2 1 2 rule] s
        else if p = 4 then filter_go 3 [Protocol_box 7 1 0 rule, Action_box 2 1 3 rule] s
        else if p = 5 then filter_go 4 [Protocol_box 7 1 1 rule] s
        else if p = 6 then filter_go 5 [Protocol_box 7 1 2 rule] s
        else if p = 7 then filter_go 6 [Protocol_box 7 1 3 rule] s
        else if p = 8 then filter_go 7 [Buttons 0, Protocol_box 7 1 4 rule] s
        else if p = 21 then filter_go 7 [Iface 2 51 0 rule, Protocol_box 7 1 4 rule] s
        else if p = 22 then filter_go 21 [Help 40 rule, Iface 2 51 1 rule] s
        else if p = 23 then filter_go 22 [Help 41 rule, Iface 2 51 2 rule] s
        else if p = 24 then filter_go 23 [Options 7 51 0 rule, Help 42 rule, Iface 2 51 3 rule] s
        else if p = 25 then filter_go 24 [Options 7 51 1 rule] s
        else if p = 26 then filter_go 25 [Options 7 51 2 rule] s
        else if p = 27 then filter_go 26 [Options 7 51 3 rule] s
        else s))"

text \<open>The space bar. \<open>filter_option\<close> is the switch on the protocol in its cases 24 to 27.\<close>

definition filter_option :: "int \<Rightarrow> int \<Rightarrow> int \<Rightarrow> int \<Rightarrow> filter_st \<Rightarrow> filter_st" where
  "filter_option tcp ip icmp row s =
     (let rule = f_rule s in
      case r_proto rule of
        TCP \<Rightarrow> let rule = rule\<lparr>r_option := tcp\<rparr> in filter_set rule [Options 7 51 row rule] s
      | IP \<Rightarrow> let rule = rule\<lparr>r_option := ip\<rparr> in filter_set rule [Options 7 51 row rule] s
      | UDP \<Rightarrow> s
      | ICMP \<Rightarrow> let rule = rule\<lparr>r_option := icmp\<rparr> in filter_set rule [Options 7 51 row rule] s)"

definition filter_space :: "filter_st \<Rightarrow> filter_st" where
  "filter_space s =
     (let p = f_p s; rule = f_rule s in
      filter_loop
       (if p = 1 then
          let rule = rule\<lparr>r_action := ALLOW\<rparr> in filter_set rule [Action_box 2 1 1 rule] s
        else if p = 2 then
          let rule = rule\<lparr>r_action := DENY\<rparr> in filter_set rule [Action_box 2 1 2 rule] s
        else if p = 3 then
          let rule = rule\<lparr>r_action := RESET\<rparr> in filter_set rule [Action_box 2 1 3 rule] s
        else if p = 4 then
          let rule = rule\<lparr>r_proto := TCP, r_option := NONE\<rparr>
          in filter_set rule [Protocol_box 7 1 1 rule, Options 7 51 0 rule] s
        else if p = 5 then
          let rule = rule\<lparr>r_proto := IP, r_option := IP_NONE\<rparr>
          in filter_set rule [Protocol_box 7 1 2 rule, Options 7 51 0 rule] s
        else if p = 6 then
          let rule = rule\<lparr>r_proto := UDP\<rparr>
          in filter_set rule [Protocol_box 7 1 3 rule, Options 7 51 0 rule] s
        else if p = 7 then
          let rule = rule\<lparr>r_proto := ICMP, r_option := ICMP_NONE\<rparr>
          in filter_set rule [Protocol_box 7 1 4 rule, Options 7 51 0 rule] s
        else if p = 21 then
          let rule = rule\<lparr>r_ifs := INCOMING\<rparr> in filter_set rule [Iface 2 51 1 rule] s
        else if p = 22 then
          let rule = rule\<lparr>r_ifs := OUTGOING\<rparr> in filter_set rule [Iface 2 51 2 rule] s
        else if p = 23 then
          let rule = rule\<lparr>r_ifs := ANY\<rparr> in filter_set rule [Iface 2 51 3 rule] s
        else if p = 24 then filter_option ESTABLISHED SSRR ECHO_REQUEST 1 s
        else if p = 25 then filter_option SETUP LSRR DEST_UNREACH 2 s
        else if p = 26 then filter_option FRAG TS ECHO_REPLY 3 s
        else if p = 27 then filter_option NONE IP_NONE ICMP_NONE 4 s
        else s))"

text \<open>
  The return key. OK copies the buffers into the rule and inserts it, whatever
  \<open>__insert_rule\<close> answers; Cancel clears it.
\<close>

definition filter_fields :: "filter_st \<Rightarrow> ruleset" where
  "filter_fields s =
     (let src = snprintf 128 (f_src s);
          dst = snprintf 128 (f_dst s);
          src = (if length src < 1 then snprintf 128 ''any'' else src);
          dst = (if length dst < 1 then snprintf 128 ''any'' else dst);
          sport = (if strncmp_eq (f_src_port s) ''any'' 3 then [] else snprintf 5 (f_src_port s));
          dport = (if strncmp_eq (f_dst_port s) ''any'' 3 then [] else snprintf 5 (f_dst_port s))
      in (f_rule s)\<lparr>r_src := src, r_dst := dst, r_src_port := sport, r_dst_port := dport\<rparr>)"

definition filter_enter :: "env \<Rightarrow> filter_st \<Rightarrow> filter_st option" where
  "filter_enter env s =
     (if f_p s = 12 then do {
        let rule = filter_fields s;
        (_, w) \<leftarrow> insert_rule_text env rule (f_world s);
        Some (s\<lparr>f_rule := rule,
                f_world := emit [Dialog_clear, Msgbox ''ClosedBSD: Notice'' ''Rule has been added.''] w,
                f_prompt := Returned ditem_continue\<rparr>)
      }
      else if f_p s = 13 then
        Some (s\<lparr>f_rule := zero_rule, f_prompt := Returned ditem_continue\<rparr>)
      else Some (filter_loop s))"

definition filter_tab :: "filter_st \<Rightarrow> filter_st" where
  "filter_tab s =
     (let p = f_p s; rule = f_rule s in
      filter_loop
       (if p = 1 \<or> p = 2 \<or> p = 3 then filter_go 21 [Action_box 2 1 0 rule, Iface 2 51 1 rule] s
        else if p = 4 \<or> p = 5 \<or> p = 6 \<or> p = 7 then
          filter_go 24 [Protocol_box 7 1 0 rule, Options 7 51 1 rule] s
        else if p = 21 \<or> p = 22 \<or> p = 23 then
          filter_go 5 [Iface 2 51 0 rule, Protocol_box 7 1 1 rule] s
        else s))"

text \<open>\<open>proto_filter\<close>: the loop, one input at a time.\<close>

definition filter_next :: "env \<Rightarrow> event \<Rightarrow> filter_st \<Rightarrow> filter_st option" where
  "filter_next env e s =
     (case e of
        Line str key \<Rightarrow> filter_line str key s
      | Key key \<Rightarrow>
         (case key of
            KEY_DOWN \<Rightarrow> Some (filter_down s)
          | KEY_LEFT \<Rightarrow> Some (filter_left s)
          | KEY_RIGHT \<Rightarrow> Some (filter_right s)
          | KEY_UP \<Rightarrow> Some (filter_up s)
          | Ch c \<Rightarrow>
              if c = 32 then Some (filter_space s)
              else if c = 10 then filter_enter env s
              else if c = 9 then Some (filter_tab s)
              else Some (filter_loop s)))"

end
