(* ===== verification/FilterInv.thy ===== *)
theory FilterInv
  imports FilterDlg
begin

text \<open>
  The filter dialog, what holds between two inputs: where the cursor can be, that the rule is
  always one the dialog can record, that nothing outside is touched before OK, and that the
  screen shows the rule and the cursor.
\<close>

subsection \<open>Where the cursor is and what the dialog shows\<close>

text \<open>
  The positions: 1 to 3 the actions, 4 to 7 the protocols, 8 to 11 the inputs, 12 and 13 the
  buttons, 21 to 23 the interfaces, 24 to 27 the options.
\<close>

definition key_position :: "int \<Rightarrow> bool" where
  "key_position p \<longleftrightarrow> (1 \<le> p \<and> p \<le> 7) \<or> p = 12 \<or> p = 13 \<or> (21 \<le> p \<and> p \<le> 27)"

definition input_position :: "int \<Rightarrow> bool" where
  "input_position p \<longleftrightarrow> 8 \<le> p \<and> p \<le> 11"

lemma key_positionE:
  assumes "key_position p"
  obtains "p = 1" | "p = 2" | "p = 3" | "p = 4" | "p = 5" | "p = 6" | "p = 7" | "p = 12" | "p = 13"
    | "p = 21" | "p = 22" | "p = 23" | "p = 24" | "p = 25" | "p = 26" | "p = 27"
proof -
  have "p = 1 \<or> p = 2 \<or> p = 3 \<or> p = 4 \<or> p = 5 \<or> p = 6 \<or> p = 7 \<or> p = 12 \<or> p = 13 \<or>
      p = 21 \<or> p = 22 \<or> p = 23 \<or> p = 24 \<or> p = 25 \<or> p = 26 \<or> p = 27"
    using assms unfolding key_position_def by presburger
  then show thesis using that by blast
qed

lemma input_positionE:
  assumes "input_position p"
  obtains "p = 8" | "p = 9" | "p = 10" | "p = 11"
proof -
  have "p = 8 \<or> p = 9 \<or> p = 10 \<or> p = 11"
    using assms unfolding input_position_def by presburger
  then show thesis using that by blast
qed

text \<open>
  The line highlighted in the box of the positions \<open>lo\<close> to \<open>hi\<close> when the cursor is at \<open>p\<close>,
  0 for none; \<open>filter_shows q\<close>: the boxes last drawn show the rule, with the cursor at \<open>q\<close>.
\<close>

definition hl :: "int \<Rightarrow> int \<Rightarrow> int \<Rightarrow> int" where
  "hl lo hi p = (if lo \<le> p \<and> p \<le> hi then p - lo + 1 else 0)"

definition filter_shows :: "int \<Rightarrow> filter_st \<Rightarrow> bool" where
  "filter_shows q s \<longleftrightarrow>
     latest the_action None (trace (f_world s)) = Some (hl 1 3 q, r_action (f_rule s)) \<and>
     latest the_protocol None (trace (f_world s)) = Some (hl 4 7 q, r_proto (f_rule s)) \<and>
     latest the_iface None (trace (f_world s)) = Some (hl 21 23 q, r_ifs (f_rule s)) \<and>
     latest the_options None (trace (f_world s)) =
       Some (hl 24 27 q, r_proto (f_rule s), r_option (f_rule s)) \<and>
     latest the_button None (trace (f_world s)) = Some (hl 12 13 q)"

text \<open>
  The cursor and the highlight agree, but for one case: TAB from an interface sets \<open>p = 5\<close>
  and highlights the protocol of position 4. \<open>sharp\<close> leaves that case out.
\<close>

definition seen_at :: "bool \<Rightarrow> int \<Rightarrow> int \<Rightarrow> bool" where
  "seen_at sharp p q \<longleftrightarrow> q = p \<or> \<not> sharp \<and> p = 5 \<and> q = 4"

text \<open>A rule the dialog can have built so far, and buffers \<open>line_edit\<close> can have left.\<close>

definition filter_rule_ok :: "ruleset \<Rightarrow> bool" where
  "filter_rule_ok r \<longleftrightarrow> (r_action r = ALLOW \<or> r_action r = DENY \<or> r_action r = RESET) \<and>
     0 \<le> r_option r \<and> r_option r \<le> 3"

definition filter_inputs_ok :: "filter_st \<Rightarrow> bool" where
  "filter_inputs_ok s \<longleftrightarrow>
     length (f_src s) \<le> 33 \<and> length (f_dst s) \<le> 33 \<and>
     length (f_src_port s) \<le> 4 \<and> length (f_dst_port s) \<le> 4 \<and>
     printing (f_src s) \<and> printing (f_dst s) \<and> printing (f_src_port s) \<and> printing (f_dst_port s)"

definition filter_good :: "ruleset \<Rightarrow> world \<Rightarrow> filter_st \<Rightarrow> bool" where
  "filter_good junk w0 s \<longleftrightarrow> filter_rule_ok (f_rule s) \<and> filter_inputs_ok s \<and> untouched w0 (f_world s) \<and>
     r_other_a (f_rule s) = r_other_a junk"

definition filter_placed :: "bool \<Rightarrow> filter_st \<Rightarrow> bool" where
  "filter_placed sharp s \<longleftrightarrow>
     (case f_prompt s of
        Wgetch \<Rightarrow> key_position (f_p s) \<and> (\<exists>q. filter_shows q s \<and> seen_at sharp (f_p s) q)
      | Editing sel n \<Rightarrow> sel = f_p s \<and> input_position sel \<and> n = filter_flen sel \<and>
          filter_shows sel s
      | Returned v \<Rightarrow> (f_p s = 12 \<or> f_p s = 13) \<and> v = ditem_continue)"

definition filter_inv :: "bool \<Rightarrow> ruleset \<Rightarrow> world \<Rightarrow> filter_st \<Rightarrow> bool" where
  "filter_inv sharp junk w0 s \<longleftrightarrow> filter_placed sharp s \<and> ((\<exists>v. f_prompt s = Returned v) \<or> filter_good junk w0 s)"

subsection \<open>The invariant\<close>

lemmas filter_ops = filter_loop_def filter_edit_def filter_go_def filter_do_def filter_set_def

lemmas filter_screen_defs = filter_shows_def hl_def the_defs seen_at_def

text \<open>A move leaves the rule and the buffers alone and only draws.\<close>

definition only_draws :: "filter_st \<Rightarrow> filter_st \<Rightarrow> bool" where
  "only_draws s s' \<longleftrightarrow> f_rule s' = f_rule s \<and> f_src s' = f_src s \<and> f_dst s' = f_dst s \<and>
     f_src_port s' = f_src_port s \<and> f_dst_port s' = f_dst_port s \<and> untouched (f_world s) (f_world s')"

lemma only_draws_good: "only_draws s s' \<Longrightarrow> filter_good junk w0 s \<Longrightarrow> filter_good junk w0 s'"
  by (simp add: only_draws_def filter_good_def filter_inputs_ok_def untouched_def)

lemma down_draws: "only_draws s (filter_down s)"
  by (simp add: filter_down_def filter_down_once_def Let_def)
    (simp add: only_draws_def untouched_def filter_ops inputs_act_def)

lemma goto_down_draws: "only_draws s (filter_goto_down p s)"
  using down_draws [of "s\<lparr>f_p := p\<rparr>"] by (simp add: filter_goto_down_def only_draws_def)

lemma left_draws: "only_draws s (filter_left s)"
  by (simp add: filter_left_def Let_def) (simp add: only_draws_def untouched_def filter_ops)

lemma right_draws: "only_draws s (filter_right s)"
  by (simp add: filter_right_def Let_def) (simp add: only_draws_def untouched_def filter_ops)

lemma up_draws: "only_draws s (filter_up s)"
  using goto_down_draws [of s 10] goto_down_draws [of s 11]
  by (simp add: filter_up_def Let_def) (simp add: only_draws_def untouched_def filter_ops)

lemma tab_draws: "only_draws s (filter_tab s)"
  by (simp add: filter_tab_def Let_def) (simp add: only_draws_def untouched_def filter_ops)

lemma loop_draws: "only_draws s (filter_loop s)"
  by (simp add: only_draws_def untouched_def filter_ops)

lemma wget_placed:
  "key_position (f_p s) \<Longrightarrow> filter_shows q s \<Longrightarrow> seen_at sharp (f_p s) q \<Longrightarrow> f_prompt s = Wgetch \<Longrightarrow>
   filter_placed sharp s"
  by (auto simp: filter_placed_def)

lemma key_position_nums [simp]:
  "key_position 1" "key_position 2" "key_position 3" "key_position 4" "key_position 5"
  "key_position 6" "key_position 7" "key_position 12" "key_position 13" "key_position 21"
  "key_position 22" "key_position 23" "key_position 24" "key_position 25" "key_position 26"
  "key_position 27"
  by (simp_all add: key_position_def)

lemma input_position_nums [simp]:
  "input_position 8" "input_position 9" "input_position 10" "input_position 11"
  by (simp_all add: input_position_def)

text \<open>After \<open>filter_loop\<close> and \<open>filter_edit\<close>, what was drawn decides.\<close>

lemma placed_loop:
  assumes "key_position (f_p s)" "filter_shows q s" "seen_at sharp (f_p s) q"
  shows "filter_placed sharp (filter_loop s)"
proof (rule wget_placed [where q = q])
  show "filter_shows q (filter_loop s)"
    using assms(2) by (simp add: filter_screen_defs filter_ops)
qed (use assms in \<open>simp_all add: filter_ops\<close>)

lemma placed_edit:
  assumes "input_position sel" "filter_shows sel (filter_edit sel s)"
  shows "filter_placed sharp (filter_edit sel s)"
  using assms by (simp add: filter_placed_def) (simp add: filter_ops)

text \<open>
  What is drawn turns the screen of \<open>r\<close> with the cursor at \<open>q\<close> into that of \<open>r'\<close> with the cursor
  at \<open>p\<close>.
\<close>

definition redraws :: "int \<Rightarrow> int \<Rightarrow> ruleset \<Rightarrow> ruleset \<Rightarrow> act list \<Rightarrow> bool" where
  "redraws q p r r' as \<longleftrightarrow>
     latest the_action (Some (hl 1 3 q, r_action r)) as = Some (hl 1 3 p, r_action r') \<and>
     latest the_protocol (Some (hl 4 7 q, r_proto r)) as = Some (hl 4 7 p, r_proto r') \<and>
     latest the_iface (Some (hl 21 23 q, r_ifs r)) as = Some (hl 21 23 p, r_ifs r') \<and>
     latest the_options (Some (hl 24 27 q, r_proto r, r_option r)) as =
       Some (hl 24 27 p, r_proto r', r_option r') \<and>
     latest the_button (Some (hl 12 13 q)) as = Some (hl 12 13 p)"

lemmas redraw_defs = redraws_def hl_def the_defs

lemma shows_redraws:
  assumes "filter_shows q s" and "redraws q p (f_rule s) (f_rule s') as"
    and "trace (f_world s') = trace (f_world s) @ as"
  shows "filter_shows p s'"
  using assms by (simp add: filter_shows_def redraws_def)

lemma placed_go:
  assumes "filter_shows q s" "redraws q p (f_rule s) (f_rule s) as" "key_position p"
  shows "filter_placed sharp (filter_loop (filter_go p as s))"
proof (rule placed_loop [where q = p])
  show "filter_shows p (filter_go p as s)"
    by (rule shows_redraws [OF assms(1)]) (use assms(2) in \<open>simp_all add: filter_go_def\<close>)
qed (use assms(3) in \<open>simp_all add: filter_go_def seen_at_def\<close>)

lemma placed_set:
  assumes "filter_shows q s" "redraws q (f_p s) (f_rule s) r as" "key_position (f_p s)"
  shows "filter_placed sharp (filter_loop (filter_set r as s))"
proof (rule placed_loop [where q = "f_p s"])
  show "filter_shows (f_p s) (filter_set r as s)"
    by (rule shows_redraws [OF assms(1)]) (use assms(2) in \<open>simp_all add: filter_set_def\<close>)
qed (use assms(3) in \<open>simp_all add: filter_set_def seen_at_def\<close>)

lemma placed_go_edit:
  assumes "filter_shows q s" "redraws q sel (f_rule s) (f_rule s) as" "input_position sel"
  shows "filter_placed sharp (filter_edit sel (filter_do as s))"
proof (rule placed_edit [OF assms(3)])
  have "redraws q sel (f_rule s) (f_rule s) (as @ Help sel (f_rule s) # inputs_act sel)"
    using assms(2) by (simp add: redraws_def inputs_act_def the_defs)
  then show "filter_shows sel (filter_edit sel (filter_do as s))"
    by (intro shows_redraws [OF assms(1)]) (simp_all add: filter_ops)
qed

lemma placed_edit_quiet:
  "filter_shows q s \<Longrightarrow> redraws q sel (f_rule s) (f_rule s) [] \<Longrightarrow> input_position sel \<Longrightarrow>
   filter_placed sharp (filter_edit sel s)"
  using placed_go_edit [of q s sel "[]"] by (simp add: filter_do_def)

lemma placed_stay: "filter_shows q s \<Longrightarrow> seen_at sharp (f_p s) q \<Longrightarrow> key_position (f_p s) \<Longrightarrow> filter_placed sharp (filter_loop s)"
  by (rule placed_loop)

lemmas placed_rules = placed_go placed_set placed_go_edit placed_edit_quiet placed_stay

text \<open>
  The positions \<open>p\<close> and screens \<open>q\<close> with which the code reaches the label \<open>down\<close>: from a key
  position, after an input (\<open>p = q - 2\<close> to go up, \<open>p = q\<close> to go down), from the buttons, and
  from the last option.
\<close>

definition may_down :: "(int \<times> int) set" where
  "may_down =
   {(1, 1), (2, 2), (3, 3), (4, 4), (5, 5), (5, 4), (6, 6), (7, 7), (12, 12), (13, 13),
    (21, 21), (22, 22), (23, 23), (24, 24), (25, 25), (26, 26), (27, 27),
    (6, 8), (7, 9), (8, 10), (9, 11), (8, 8), (9, 9), (10, 10), (11, 11), (10, 12), (11, 13), (7, 8)}"

lemma may_downE:
  assumes "(p, q) \<in> may_down"
  obtains "p = 1" "q = 1" | "p = 2" "q = 2" | "p = 3" "q = 3" | "p = 4" "q = 4"
    | "p = 5" "q = 5" | "p = 5" "q = 4" | "p = 6" "q = 6" | "p = 7" "q = 7"
    | "p = 12" "q = 12" | "p = 13" "q = 13" | "p = 21" "q = 21" | "p = 22" "q = 22"
    | "p = 23" "q = 23" | "p = 24" "q = 24" | "p = 25" "q = 25" | "p = 26" "q = 26"
    | "p = 27" "q = 27" | "p = 6" "q = 8" | "p = 7" "q = 9" | "p = 8" "q = 10"
    | "p = 9" "q = 11" | "p = 8" "q = 8" | "p = 9" "q = 9" | "p = 10" "q = 10"
    | "p = 11" "q = 11" | "p = 10" "q = 12" | "p = 11" "q = 13" | "p = 7" "q = 8"
  using assms unfolding may_down_def by (elim insertE emptyE Pair_inject) (erule that; assumption)+

lemma filter_shows_cursor [simp]: "filter_shows q (s\<lparr>f_p := p\<rparr>) = filter_shows q s"
  by (simp add: filter_shows_def)

lemma key_may_down:
  assumes "key_position p" "seen_at sharp p q"
  shows "(p, q) \<in> may_down"
  using assms(1)
proof (rule key_positionE)
qed (use assms(2) in \<open>auto simp: seen_at_def may_down_def\<close>)

lemma placed_down_once:
  assumes "filter_shows q s" and "(f_p s, q) \<in> may_down" and "f_p s \<noteq> 27"
  shows "filter_placed sharp (filter_down_once s)"
  using assms(2)
proof (rule may_downE)
qed (insert assms(1,3), simp_all add: filter_down_once_def Let_def,
  (erule placed_rules; simp add: redraw_defs seen_at_def)+)

lemma placed_down:
  assumes "filter_shows q s" and "(f_p s, q) \<in> may_down"
  shows "filter_placed sharp (filter_down s)"
proof (cases "f_p s = 27")
  case True
  let ?s = "filter_go 7 [Options 7 51 0 (f_rule s)] s"
  have "q = 27" by (rule may_downE [OF assms(2)]) (use True in auto)
  have "filter_shows 8 ?s"
    by (rule shows_redraws [OF assms(1)]) (simp_all add: \<open>q = 27\<close> redraw_defs filter_go_def)
  moreover have "(f_p ?s, 8) \<in> may_down" "f_p ?s \<noteq> 27"
    by (simp_all add: filter_go_def may_down_def)
  ultimately have "filter_placed sharp (filter_down_once ?s)"
    by (rule placed_down_once)
  with True show ?thesis by (simp add: filter_down_def)
next
  case False
  then show ?thesis
    using placed_down_once [OF assms] by (simp add: filter_down_def)
qed

lemma placed_goto_down:
  "filter_shows q s \<Longrightarrow> (p, q) \<in> may_down \<Longrightarrow> filter_placed sharp (filter_goto_down p s)"
  unfolding filter_goto_down_def by (rule placed_down [where q = q]) simp_all

text \<open>The other keys, whose switches are on the key positions only.\<close>

lemma key_seenE:
  assumes "key_position p" "seen_at sharp p q"
  obtains "p = 1" "q = 1" | "p = 2" "q = 2" | "p = 3" "q = 3" | "p = 4" "q = 4"
    | "p = 5" "q = 5" | "p = 5" "q = 4" "\<not> sharp" | "p = 6" "q = 6" | "p = 7" "q = 7"
    | "p = 12" "q = 12" | "p = 13" "q = 13" | "p = 21" "q = 21" | "p = 22" "q = 22"
    | "p = 23" "q = 23" | "p = 24" "q = 24" | "p = 25" "q = 25" | "p = 26" "q = 26"
    | "p = 27" "q = 27"
  using assms(1)
  by (rule key_positionE) (use assms(2) in \<open>auto simp: seen_at_def intro: that\<close>)

lemma placed_left:
  assumes "filter_shows q s" "key_position (f_p s)" "seen_at sharp (f_p s) q"
  shows "filter_placed sharp (filter_left s)"
  using assms(2,3)
proof (rule key_seenE)
qed (insert assms(1), simp_all add: filter_left_def Let_def,
  (erule placed_rules; simp add: redraw_defs seen_at_def)+)

lemma placed_right:
  assumes "filter_shows q s" "key_position (f_p s)" "seen_at sharp (f_p s) q"
  shows "filter_placed sharp (filter_right s)"
  using assms(2,3)
proof (rule key_seenE)
qed (insert assms(1), simp_all add: filter_right_def Let_def,
  (erule placed_rules; simp add: redraw_defs seen_at_def)+)

lemma placed_up:
  assumes "filter_shows q s" "key_position (f_p s)" "seen_at sharp (f_p s) q"
  shows "filter_placed sharp (filter_up s)"
  using assms(2,3)
proof (rule key_seenE)
qed (insert assms(1), simp_all add: filter_up_def Let_def,
  ((erule placed_rules placed_goto_down; simp add: redraw_defs seen_at_def may_down_def)+))

lemma placed_off:
  assumes "filter_shows q s" "redraws q 4 (f_rule s) (f_rule s) as" "\<not> sharp"
  shows "filter_placed sharp (filter_loop (filter_go 5 as s))"
proof (rule placed_loop [where q = 4])
  show "filter_shows 4 (filter_go 5 as s)"
    by (rule shows_redraws [OF assms(1)]) (use assms(2) in \<open>simp_all add: filter_go_def\<close>)
qed (use assms(3) in \<open>simp_all add: filter_go_def seen_at_def\<close>)

text \<open>From an interface, TAB goes off the line it highlights.\<close>

lemma placed_tab:
  assumes "filter_shows q s" "key_position (f_p s)" "seen_at sharp (f_p s) q"
    and "\<not> sharp \<or> \<not> (21 \<le> f_p s \<and> f_p s \<le> 23)"
  shows "filter_placed sharp (filter_tab s)"
  using assms(2,3)
proof (rule key_seenE)
qed (insert assms(1,4), simp_all add: filter_tab_def Let_def,
  (erule placed_rules placed_off; simp add: redraw_defs seen_at_def)+)

lemma placed_space:
  assumes "filter_shows q s" "key_position (f_p s)" "seen_at sharp (f_p s) q"
  shows "filter_placed sharp (filter_space s)"
  using assms(2,3)
proof (rule key_seenE)
qed (insert assms(1), simp_all add: filter_space_def filter_option_def Let_def split: proto.split,
  ((intro conjI impI)?, (erule placed_rules; simp add: redraw_defs seen_at_def))+)

end
