(* ===== verification/FilterRuns.thy ===== *)
theory FilterRuns
  imports FilterInv RuleProps
begin

text \<open>
  The filter dialog as an instance of the contract of \<open>Dialog\<close>, and what its runs do: every
  run stays defined while ports have at most four digits; OK records exactly the rule on the
  screen, with the lines that were typed; Cancel records nothing; OK and Cancel can be reached from everywhere.
\<close>

subsection \<open>Every step keeps the invariant\<close>

lemma placed_wget:
  "filter_placed sharp s \<Longrightarrow> f_prompt s = Wgetch \<Longrightarrow>
   \<exists>q. filter_shows q s \<and> key_position (f_p s) \<and> seen_at sharp (f_p s) q"
  by (auto simp: filter_placed_def)

lemma filter_init_inv: "filter_inv sharp junk w (filter_init junk w)"
  by (simp add: filter_init_def filter_inv_def Let_def)
    (simp add: filter_placed_def filter_good_def filter_rule_ok_def filter_inputs_ok_def
      untouched_def filter_ops seen_at_def filter_screen_defs printing_def exI [of _ 1])

lemma filter_line_inv:
  assumes "filter_inv sharp junk w0 s" "f_prompt s = Editing sel n" "length str \<le> n" "printing str"
    and "filter_line str key s = Some s'"
  shows "filter_inv sharp junk w0 s'"
proof -
  have at: "sel = f_p s" "input_position (f_p s)" "filter_shows (f_p s) s" "n = filter_flen (f_p s)"
    and good: "filter_good junk w0 s"
    using assms(1,2) by (auto simp: filter_inv_def filter_placed_def)
  have step: "filter_inv sharp junk w0 (filter_goto_down p t)"
    if "filter_good junk w0 t" "filter_shows q t" "(p, q) \<in> may_down" for p q t
    using that only_draws_good [OF goto_down_draws] placed_goto_down
    by (auto simp: filter_inv_def)
  show ?thesis
    using at(2)
  proof (rule input_positionE)
  qed (use assms(3-5) at(3,4) good inputs_cases [of "f_p s" key] in
    \<open>auto simp: filter_line_def Let_def edit_into_def filter_flen_def filter_good_def
       filter_inputs_ok_def filter_shows_def may_down_def split: if_splits intro!: step\<close>)
qed

lemma space_good:
  "filter_good junk w0 s \<Longrightarrow> filter_good junk w0 (filter_space s)"
  by (simp add: filter_space_def filter_option_def Let_def filter_good_def split: proto.split)
    (simp add: filter_ops filter_rule_ok_def filter_inputs_ok_def untouched_def)

lemma enter_inv:
  assumes "filter_inv sharp junk w0 s" "f_prompt s = Wgetch" "filter_enter env s = Some s'"
  shows "filter_inv sharp junk w0 s'"
proof (cases "f_p s = 12 \<or> f_p s = 13")
  case True
  then show ?thesis
    using assms(3)
    by (auto simp: filter_enter_def Let_def filter_inv_def filter_placed_def bind_eq_Some_conv
        split: if_splits)
next
  case False
  then have "s' = filter_loop s"
    using assms(3) by (simp add: filter_enter_def)
  then show ?thesis
    using assms(1,2) only_draws_good [OF loop_draws] placed_stay
    by (auto simp: filter_inv_def dest!: placed_wget)
qed

text \<open>\<open>off_line e s\<close>: the one input after which the highlight is not where the cursor is.\<close>

definition off_line :: "event \<Rightarrow> filter_st \<Rightarrow> bool" where
  "off_line e s \<longleftrightarrow> e = Key TAB \<and> 21 \<le> f_p s \<and> f_p s \<le> 23"

lemma filter_next_inv:
  assumes "filter_inv sharp junk w0 s" "accepts (f_prompt s) e" "filter_next env e s = Some s'"
    and "\<not> sharp \<or> \<not> off_line e s"
  shows "filter_inv sharp junk w0 s'"
proof (cases "f_prompt s")
  case Wgetch
  then obtain k where k: "e = Key k"
    using assms(2) by (cases e) auto
  have pl: "filter_placed sharp s" and good: "filter_good junk w0 s"
    using assms(1) Wgetch by (auto simp: filter_inv_def)
  obtain q where q: "filter_shows q s" "key_position (f_p s)" "seen_at sharp (f_p s) q"
    using placed_wget [OF pl Wgetch] by blast
  have move: "filter_inv sharp junk w0 t" if "only_draws s t" "filter_placed sharp t" for t
    using that only_draws_good good by (auto simp: filter_inv_def)
  note moves =
    move [OF down_draws placed_down [OF q(1) key_may_down [OF q(2,3)]]]
    move [OF left_draws placed_left [OF q]]
    move [OF right_draws placed_right [OF q]]
    move [OF up_draws placed_up [OF q]]
    move [OF loop_draws placed_stay [OF q(1,3,2)]]
  have space: "filter_inv sharp junk w0 (filter_space s)"
    using space_good [OF good] placed_space [OF q] by (auto simp: filter_inv_def)
  have tab: "filter_inv sharp junk w0 (filter_tab s)" if "k = TAB"
    using that assms(4) k by (intro move [OF tab_draws placed_tab [OF q]]) (auto simp: off_line_def)
  show ?thesis
    using assms(3) moves space tab enter_inv [OF assms(1) Wgetch, of env]
    by (auto simp: k filter_next_def split: key.splits if_splits)
next
  case (Editing sel n)
  then obtain str key where e: "e = Line str key" "length str \<le> n" "printing str"
    using assms(2) by (cases e) auto
  then show ?thesis
    using filter_line_inv [OF assms(1) Editing] assms(3) by (simp add: filter_next_def)
next
  case (Returned v)
  then show ?thesis using assms(2) by simp
qed

subsection \<open>When a step is defined\<close>

text \<open>
  The inputs with a defined effect: a port of at most four characters, and, before OK on an IP
  rule, not too much garbage in \<open>rule.other_a\<close>, which \<open>__insert_rule\<close> appends to the command.
\<close>

definition filter_ok :: "filter_st \<Rightarrow> event \<Rightarrow> bool" where
  "filter_ok s e \<longleftrightarrow>
     (case e of
        Line str _ \<Rightarrow> f_p s = 9 \<or> f_p s = 11 \<longrightarrow> length str < 5
      | Key k \<Rightarrow> k = ENTER \<and> f_p s = 12 \<and> r_proto (f_rule s) = IP \<longrightarrow> length (r_other_a (f_rule s)) \<le> 100)"

lemma filter_fields_sel [simp]:
  "r_action (filter_fields s) = r_action (f_rule s)"
  "r_proto (filter_fields s) = r_proto (f_rule s)"
  "r_ifs (filter_fields s) = r_ifs (f_rule s)"
  "r_option (filter_fields s) = r_option (f_rule s)"
  "r_other_a (filter_fields s) = r_other_a (f_rule s)"
  by (simp_all add: filter_fields_def Let_def)

text \<open>For buffers \<open>line_edit\<close> can have left, the copies are exact.\<close>

definition or_any :: "string \<Rightarrow> string" where
  "or_any s = (if s = [] then ''any'' else s)"

definition port_or_none :: "string \<Rightarrow> string" where
  "port_or_none s = (if take 3 s = ''any'' then [] else s)"

lemma filter_fields_eq:
  assumes "filter_inputs_ok s"
  shows "r_src (filter_fields s) = or_any (f_src s)" "r_dst (filter_fields s) = or_any (f_dst s)"
    "r_src_port (filter_fields s) = port_or_none (f_src_port s)"
    "r_dst_port (filter_fields s) = port_or_none (f_dst_port s)"
  using assms
  by (auto simp: filter_fields_def Let_def filter_inputs_ok_def snprintf_def or_any_def
      port_or_none_def strncmp_eq_def)

lemma field_lengths:
  assumes "filter_inputs_ok s"
  shows "length (r_src (filter_fields s)) \<le> 33" "length (r_dst (filter_fields s)) \<le> 33"
    "length (r_src_port (filter_fields s)) \<le> 4" "length (r_dst_port (filter_fields s)) \<le> 4"
  using assms by (simp_all add: filter_fields_eq or_any_def port_or_none_def filter_inputs_ok_def)

lemma rule_ok_action:
  "filter_rule_ok r \<Longrightarrow> action_listed r \<longleftrightarrow> \<not> (r_action r = RESET \<and> r_proto r \<noteq> TCP)"
  by (cases "r_proto r") (auto simp: filter_rule_ok_def action_listed_def)

lemma filter_rule_ok_fields: "filter_rule_ok (f_rule s) \<Longrightarrow> filter_rule_ok (filter_fields s)"
  by (simp add: filter_rule_ok_def)

lemma insert_filter_defined:
  assumes "filter_rule_ok r" "length (filter_text r) < 256"
  shows "insert_rule_text env r w \<noteq> None"
proof (cases "r_action r = RESET \<and> r_proto r \<noteq> TCP")
  case True
  then show ?thesis by (simp add: insert_rule_text_def Let_def)
next
  case False
  then have "filter_command r = Some (filter_text r)" "r_action r \<noteq> FWD"
    using assms rule_ok_action [of r] by (auto simp: filter_command_eq filter_rule_ok_def)
  then show ?thesis by (simp add: insert_rule_text_def Let_def)
qed

lemma filter_next_defined:
  assumes "filter_inv sharp junk w0 s" "accepts (f_prompt s) e" "filter_ok s e"
  shows "filter_next env e s \<noteq> None"
proof (cases e)
  case (Line str key)
  then obtain sel n where ed: "f_prompt s = Editing sel n"
    using assms(2) by (cases "f_prompt s") auto
  then have at: "input_position (f_p s)" "n = filter_flen (f_p s)" "length str \<le> n"
    using assms(1,2) Line by (auto simp: filter_inv_def filter_placed_def)
  show ?thesis
    using at(1)
  proof (rule input_positionE)
  qed (use Line at(2,3) assms(3) in
    \<open>auto simp: filter_next_def filter_line_def Let_def edit_into_def filter_flen_def filter_ok_def\<close>)
next
  case (Key k)
  then have w: "f_prompt s = Wgetch"
    using assms(2) by (cases "f_prompt s") auto
  then have g: "filter_good junk w0 s"
    using assms(1) by (auto simp: filter_inv_def)
  have "insert_rule_text env (filter_fields s) (f_world s) \<noteq> None" if "k = ENTER" "f_p s = 12"
    using g that assms(3) Key
    by (intro insert_filter_defined filter_rule_ok_fields filter_text_length(2) field_lengths)
      (auto simp: filter_good_def filter_ok_def)
  then show ?thesis
    by (auto simp: Key filter_next_def filter_enter_def Let_def split: key.splits)
qed

subsection \<open>The dialog as an instance of the contract\<close>

interpretation filter_dlg: dialog "\<lambda>s. s = filter_init junk w0" f_prompt "filter_next env" filter_ok
  "filter_inv False junk w0"
  for junk w0 env
  by unfold_locales (auto simp: filter_init_inv intro: filter_next_inv dest: filter_next_defined)

text \<open>The runs without the input that goes off the line.\<close>

definition filter_next_on :: "env \<Rightarrow> event \<Rightarrow> filter_st \<Rightarrow> filter_st option" where
  "filter_next_on env e s = (if off_line e s then None else filter_next env e s)"

interpretation filter_on: dialog "\<lambda>s. s = filter_init junk w0" f_prompt "filter_next_on env"
  "\<lambda>s e. filter_ok s e \<and> \<not> off_line e s" "filter_inv True junk w0"
  for junk w0 env
  by unfold_locales
    (auto simp: filter_init_inv filter_next_on_def intro: filter_next_inv
      dest: filter_next_defined split: if_splits)

subsection \<open>How a run ends\<close>

lemma down_prompt: "f_prompt (filter_down s) \<noteq> Returned v"
  by (simp add: filter_down_def filter_down_once_def Let_def filter_ops)

lemma goto_down_prompt: "f_prompt (filter_goto_down p s) \<noteq> Returned v"
  by (simp add: filter_goto_down_def down_prompt)

lemma loop_prompt: "f_prompt (filter_loop s) \<noteq> Returned v"
  by (simp add: filter_ops)

lemma line_prompt: "filter_line str key s = Some s' \<Longrightarrow> f_prompt s' \<noteq> Returned v"
  by (auto simp: filter_line_def Let_def bind_eq_Some_conv goto_down_prompt loop_prompt split: if_splits)

lemma returned_by_enter:
  assumes "filter_next env e s = Some s'" "f_prompt s' = Returned v"
  shows "e = Key ENTER \<and> (f_p s = 12 \<or> f_p s = 13) \<and> f_p s' = f_p s \<and> filter_enter env s = Some s'"
proof (cases e)
  case (Line str key)
  then show ?thesis using assms line_prompt by (auto simp: filter_next_def)
next
  case (Key k)
  have "f_prompt (filter_left s) \<noteq> Returned v" "f_prompt (filter_right s) \<noteq> Returned v"
    "f_prompt (filter_up s) \<noteq> Returned v" "f_prompt (filter_space s) \<noteq> Returned v"
    "f_prompt (filter_tab s) \<noteq> Returned v"
    by (auto simp: filter_left_def filter_right_def filter_up_def filter_space_def filter_tab_def
        Let_def goto_down_prompt loop_prompt)
  then show ?thesis
    using assms down_prompt [of s v] loop_prompt [of s v]
    by (auto simp: Key filter_next_def filter_enter_def Let_def bind_eq_Some_conv
        split: key.splits if_splits)
qed

text \<open>The last input of a run that is over, and the state it found.\<close>

lemma returned_run:
  assumes "run_events f_prompt (filter_next env) es (filter_init junk w0) = Some s'"
    and "f_prompt s' = Returned v"
  obtains s where "filter_inv False junk w0 s" "f_prompt s = Wgetch" "filter_enter env s = Some s'"
    "f_p s' = f_p s" "f_p s = 12 \<or> f_p s = 13"
proof -
  have "es \<noteq> []"
    using assms by (auto simp: filter_init_def Let_def filter_ops)
  then obtain fs e where es: "es = fs @ [e]"
    by (cases es rule: rev_cases) auto
  then obtain s where s: "run_events f_prompt (filter_next env) fs (filter_init junk w0) = Some s"
    and e: "accepts (f_prompt s) e" "filter_next env e s = Some s'"
    using assms(1) by (auto simp: run_events_append bind_eq_Some_conv split: if_splits option.splits)
  note enter = returned_by_enter [OF e(2) assms(2)]
  then have "f_prompt s = Wgetch"
    using e(1) by (cases "f_prompt s") auto
  then show thesis
    using that filter_dlg.run_inv [OF filter_init_inv s] enter by auto
qed

text \<open>OK: the rule goes to the file and to the kernel, once.\<close>

lemma enter_ok:
  assumes "filter_inv sharp junk w0 s" "f_prompt s = Wgetch" "f_p s = 12"
    and "filter_enter env s = Some s'" "action_listed (f_rule s')" "writable env RULESCRIPT"
    and "spares env {filter_text (f_rule s'), CHMOD744} RULESCRIPT"
  shows "contents RULESCRIPT (f_world s') = contents RULESCRIPT w0 @ filter_text (f_rule s') @ [nl] \<and>
    commands (trace (f_world s')) = commands (trace w0) @ [filter_text (f_rule s'), CHMOD744] \<and>
    devdb (f_world s') = devdb w0"
proof -
  let ?r = "filter_fields s"
  have g: "filter_good junk w0 s"
    using assms(1,2) by (auto simp: filter_inv_def)
  obtain c w where w: "insert_rule_text env ?r (f_world s) = Some (c, w)"
    and s': "s' = s\<lparr>f_rule := ?r,
        f_world := emit [Dialog_clear, Msgbox ''ClosedBSD: Notice'' ''Rule has been added.''] w,
        f_prompt := Returned ditem_continue\<rparr>"
    using assms(3,4) by (auto simp: filter_enter_def Let_def bind_eq_Some_conv)
  then have r: "action_listed ?r" "r_action ?r \<noteq> FWD"
    using assms(5) g by (auto simp: filter_good_def filter_rule_ok_def)
  have "length (filter_text ?r) < 256"
    using w r assms(6)
    by (auto simp: insert_rule_text_def Let_def filter_command_eq action_listed_def
        split: if_splits proto.splits)
  then show ?thesis
    using insert_rule_text_filter [OF assms(6) r(2,1), of "f_world s"] assms(7) w g s'
      untouched_contents [of w0 "f_world s" RULESCRIPT]
    by (auto simp: filter_good_def untouched_def world)
qed

text \<open>What is on the screen when OK is pressed is the rule that is recorded.\<close>

lemma insert_trace:
  "insert_rule_text env r v = Some (c, w) \<Longrightarrow>
   trace w = trace v \<or> (\<exists>a. trace w = trace v @ [System a]) \<or>
   (\<exists>a b. trace w = trace v @ [System a, System b])"
  by (auto simp: insert_rule_text_def Let_def bind_eq_Some_conv world split: if_splits)

lemma enter_shows:
  assumes "filter_inv sharp junk w0 s" "f_prompt s = Wgetch" "f_p s = 12"
    and "filter_enter env s = Some s'"
  shows "filter_shows 12 s'"
proof -
  obtain q where "filter_shows q s" "seen_at sharp 12 q"
    using assms(1-3) by (auto simp: filter_inv_def filter_placed_def)
  then have sh: "filter_shows 12 s" by (simp add: seen_at_def)
  obtain c w where w: "insert_rule_text env (filter_fields s) (f_world s) = Some (c, w)"
    and s': "s' = s\<lparr>f_rule := filter_fields s,
        f_world := emit [Dialog_clear, Msgbox ''ClosedBSD: Notice'' ''Rule has been added.''] w,
        f_prompt := Returned ditem_continue\<rparr>"
    using assms(3,4) by (auto simp: filter_enter_def Let_def bind_eq_Some_conv)
  then show ?thesis
    using sh insert_trace [OF w] by (auto simp: filter_shows_def the_defs)
qed

text \<open>Cancel, and a rule that \<open>__insert_rule\<close> refuses.\<close>

lemma enter_cancel:
  assumes "filter_inv sharp junk w0 s" "f_prompt s = Wgetch" "f_p s = 13"
    and "filter_enter env s = Some s'"
  shows "untouched w0 (f_world s')"
  using assms by (auto simp: filter_enter_def filter_inv_def filter_good_def)

lemma enter_refused:
  assumes "filter_inv sharp junk w0 s" "f_prompt s = Wgetch" "f_p s = 12"
    and "filter_enter env s = Some s'" "r_action (f_rule s') = RESET" "r_proto (f_rule s') \<noteq> TCP"
  shows "contents p (f_world s') = contents p w0 \<and>
    commands (trace (f_world s')) = commands (trace w0) \<and>
    last (trace (f_world s')) = Msgbox ''ClosedBSD: Notice'' ''Rule has been added.''"
proof -
  have g: "untouched w0 (f_world s)"
    using assms(1,2) by (auto simp: filter_inv_def filter_good_def)
  obtain c w where w: "insert_rule_text env (filter_fields s) (f_world s) = Some (c, w)"
    and s': "s' = s\<lparr>f_rule := filter_fields s,
        f_world := emit [Dialog_clear, Msgbox ''ClosedBSD: Notice'' ''Rule has been added.''] w,
        f_prompt := Returned ditem_continue\<rparr>"
    using assms(3,4) by (auto simp: filter_enter_def Let_def bind_eq_Some_conv)
  have "contents p w = contents p (f_world s)" "trace w = trace (f_world s)"
    using w s' assms(5,6) by (auto simp: insert_rule_text_def Let_def world split: if_splits)
  then show ?thesis
    using g s' untouched_contents [OF g] by (simp add: untouched_def world)
qed

subsection \<open>The buttons can be reached\<close>

text \<open>
  From every state one can go down to OK, leaving the inputs as they are: the next input, and
  how many are left.
\<close>

definition field_at :: "filter_st \<Rightarrow> string" where
  "field_at s = (if f_p s = 8 then f_src s else if f_p s = 9 then f_src_port s
     else if f_p s = 10 then f_dst s else f_dst_port s)"

definition to_ok :: "filter_st \<Rightarrow> event" where
  "to_ok s = (case f_prompt s of
      Editing _ _ \<Rightarrow> Line (field_at s) KEY_DOWN
    | _ \<Rightarrow> Key (if f_p s = 13 then KEY_UP else KEY_DOWN))"

definition ok_distance :: "int \<Rightarrow> nat" where
  "ok_distance p = nat (if p \<le> 12 then 12 - p else if p = 13 then 1 else 32 - p)"

lemma to_ok_step:
  assumes "filter_inv sharp junk w0 s" "\<forall>v. f_prompt s \<noteq> Returned v" "f_p s \<noteq> 12"
  shows "accepts (f_prompt s) (to_ok s) \<and>
    (\<exists>s'. filter_next env (to_ok s) s = Some s' \<and> only_draws s s' \<and>
       (\<forall>v. f_prompt s' \<noteq> Returned v) \<and> Suc (ok_distance (f_p s')) = ok_distance (f_p s))"
proof (cases "f_prompt s")
  case Wgetch
  then have "key_position (f_p s)"
    using assms(1) by (auto simp: filter_inv_def filter_placed_def)
  then have "Suc (ok_distance (f_p (if f_p s = 13 then filter_up s else filter_down s))) = ok_distance (f_p s)"
    by (rule key_positionE)
      (use assms(3) in \<open>simp_all add: filter_up_def filter_goto_down_def filter_down_def
        filter_down_once_def Let_def filter_ops ok_distance_def\<close>)
  moreover have "f_prompt (filter_up s) \<noteq> Returned v" for v
    by (simp add: filter_up_def Let_def goto_down_prompt loop_prompt)
  ultimately show ?thesis
    using Wgetch up_draws [of s] down_draws [of s] down_prompt [of s]
    by (auto simp: to_ok_def filter_next_def)
next
  case (Editing sel n)
  then have at: "input_position (f_p s)" "n = filter_flen (f_p s)" and g: "filter_good junk w0 s"
    using assms(1) by (auto simp: filter_inv_def filter_placed_def)
  have acc: "accepts (f_prompt s) (to_ok s)"
    using at g Editing
    by (auto simp: to_ok_def field_at_def filter_flen_def filter_good_def filter_inputs_ok_def
        elim!: input_positionE)
  have "\<exists>s'. filter_line (field_at s) KEY_DOWN s = Some s' \<and> s' = filter_goto_down (f_p s) s"
    using at(1)
  proof (rule input_positionE)
  qed (use g in \<open>simp_all add: filter_line_def Let_def edit_into_def field_at_def inputs_def
      filter_good_def filter_inputs_ok_def\<close>)
  moreover have "Suc (ok_distance (f_p (filter_goto_down (f_p s) s))) = ok_distance (f_p s)"
    using at(1)
    by (rule input_positionE)
      (simp_all add: filter_goto_down_def filter_down_def filter_down_once_def Let_def filter_ops
        ok_distance_def)
  ultimately show ?thesis
    using acc Editing goto_down_draws [of s] goto_down_prompt [of _ s]
    by (auto simp: to_ok_def filter_next_def)
qed (use assms(2) in simp)

lemma only_draws_trans: "only_draws s t \<Longrightarrow> only_draws t u \<Longrightarrow> only_draws s u"
  by (simp add: only_draws_def untouched_def)

lemma only_draws_refl: "only_draws s s"
  by (simp add: only_draws_def untouched_def)

lemma down_to_ok:
  assumes "filter_inv False junk w0 s" "\<forall>v. f_prompt s \<noteq> Returned v" "ok_distance (f_p s) = n"
  shows "\<exists>es s'. length es = n \<and> run_events f_prompt (filter_next env) es s = Some s' \<and>
    f_p s' = 12 \<and> f_prompt s' = Wgetch \<and> only_draws s s'"
  using assms
proof (induction n arbitrary: s)
  case 0
  have "f_p s = 12 \<and> f_prompt s = Wgetch"
  proof (cases "f_prompt s")
    case Wgetch
    then have "key_position (f_p s)"
      using 0 by (auto simp: filter_inv_def filter_placed_def)
    then show ?thesis
      by (rule key_positionE) (use 0 Wgetch in \<open>simp_all add: ok_distance_def\<close>)
  next
    case (Editing sel k)
    then have "input_position (f_p s)"
      using 0 by (auto simp: filter_inv_def filter_placed_def)
    then show ?thesis
      by (rule input_positionE) (use 0 in \<open>simp_all add: ok_distance_def\<close>)
  qed (use 0 in simp)
  then show ?case
    by (intro exI [of _ "[]"]) (simp add: only_draws_refl)
next
  case (Suc n)
  have "f_p s \<noteq> 12"
    using Suc.prems(3) by (auto simp: ok_distance_def)
  then obtain t where t: "accepts (f_prompt s) (to_ok s)" "filter_next env (to_ok s) s = Some t"
    "only_draws s t" "\<forall>v. f_prompt t \<noteq> Returned v" "ok_distance (f_p t) = n"
    using to_ok_step [OF Suc.prems(1,2)] Suc.prems(3) by (metis Suc_inject)
  have "filter_inv False junk w0 t"
    using filter_next_inv [OF Suc.prems(1) t(1,2)] by simp
  from Suc.IH [OF this t(4,5)] obtain es s' where
    "length es = n" "run_events f_prompt (filter_next env) es t = Some s'"
    "f_p s' = 12" "f_prompt s' = Wgetch" "only_draws t s'"
    by blast
  then show ?case
    using t(1-3) only_draws_trans by (intro exI [of _ "to_ok s # es"] exI [of _ s']) auto
qed

lemma ok_distance_bound: "filter_placed sharp s \<Longrightarrow> f_prompt s \<noteq> Returned v \<Longrightarrow> ok_distance (f_p s) \<le> 11"
  by (auto simp: filter_placed_def ok_distance_def key_position_def input_position_def split: prompt.splits)

subsection \<open>The rule on the screen\<close>

text \<open>The place of each input, which is where \<open>inputs\<close> calls \<open>line_edit\<close>.\<close>

definition filter_place :: "int \<Rightarrow> int \<times> int" where
  "filter_place p = (if p = 8 then (14, 17) else if p = 9 then (14, 52) else if p = 10 then (17, 17) else (17, 52))"

definition line_at :: "filter_st \<Rightarrow> bool" where
  "line_at s \<longleftrightarrow> (\<forall>sel n. f_prompt s = Editing sel n \<longrightarrow> latest the_line None (trace (f_world s)) = Some (filter_place sel))"

lemma line_at_loop: "line_at (filter_loop s)"
  by (simp add: line_at_def filter_ops)

lemma line_at_edit: "input_position sel \<Longrightarrow> line_at (filter_edit sel s)"
  by (auto simp: line_at_def filter_ops inputs_act_def the_line_def filter_place_def input_position_def)

lemma line_at_down: "line_at (filter_down s)"
  unfolding filter_down_def filter_down_once_def Let_def
  by (simp only: if_split line_at_loop line_at_edit input_position_nums simp_thms)

lemma line_at_goto_down: "line_at (filter_goto_down p s)"
  by (simp add: filter_goto_down_def line_at_down)

lemma line_at_next:
  assumes "filter_next env e s = Some s'"
  shows "line_at s'"
proof -
  have "line_at (filter_left s)" "line_at (filter_right s)" "line_at (filter_up s)" "line_at (filter_space s)" "line_at (filter_tab s)"
    by (auto simp: filter_left_def filter_right_def filter_up_def filter_space_def filter_tab_def Let_def
        line_at_goto_down line_at_loop)
  then show ?thesis
    using assms line_at_down line_at_loop line_at_goto_down
    by (auto simp: filter_next_def filter_line_def filter_enter_def Let_def bind_eq_Some_conv line_at_def
        split: event.splits key.splits if_splits)
qed

lemma filter_key_keeps:
  assumes "filter_next env (Key k) s = Some s'"
  shows "f_src s' = f_src s \<and> f_dst s' = f_dst s \<and> f_src_port s' = f_src_port s \<and> f_dst_port s' = f_dst_port s"
proof -
  have "f_src (filter_space s) = f_src s \<and> f_dst (filter_space s) = f_dst s \<and> f_src_port (filter_space s) = f_src_port s \<and>
      f_dst_port (filter_space s) = f_dst_port s"
    by (simp add: filter_space_def filter_option_def Let_def split: proto.split) (simp add: filter_ops)
  moreover note down_draws [of s] left_draws [of s] right_draws [of s] up_draws [of s] tab_draws [of s] loop_draws [of s]
  ultimately show ?thesis
    using assms
    by (auto simp: only_draws_def filter_next_def filter_enter_def Let_def bind_eq_Some_conv split: key.splits if_splits)
qed

lemma filter_line_keeps:
  assumes "filter_line str key s = Some s'" and "input_position (f_p s)"
  shows "f_src s' = (if f_p s = 8 then str else f_src s)" "f_src_port s' = (if f_p s = 9 then str else f_src_port s)"
    "f_dst s' = (if f_p s = 10 then str else f_dst s)" "f_dst_port s' = (if f_p s = 11 then str else f_dst_port s)"
  using assms goto_down_draws loop_draws
  by (auto simp: filter_line_def Let_def edit_into_def only_draws_def elim!: input_positionE split: if_splits)

lemma filter_field_step:
  assumes "filter_inv False junk w0 s \<and> line_at s" and "accepts (f_prompt s) e" and "filter_next env e s = Some s'"
  shows "f_src s' = entry_at f_world (14, 17) e s (f_src s)" "f_src_port s' = entry_at f_world (14, 52) e s (f_src_port s)"
    "f_dst s' = entry_at f_world (17, 17) e s (f_dst s)" "f_dst_port s' = entry_at f_world (17, 52) e s (f_dst_port s)"
proof -
  have "f_src s' = entry_at f_world (14, 17) e s (f_src s) \<and> f_src_port s' = entry_at f_world (14, 52) e s (f_src_port s) \<and>
    f_dst s' = entry_at f_world (17, 17) e s (f_dst s) \<and> f_dst_port s' = entry_at f_world (17, 52) e s (f_dst_port s)"
  proof (cases e)
    case (Key k)
    then show ?thesis using filter_key_keeps [of env k s s'] assms(3) by (simp add: entry_at_def)
  next
    case (Line str key)
    then obtain n where ed: "f_prompt s = Editing (f_p s) n" "input_position (f_p s)"
      using assms(1,2) by (cases "f_prompt s") (auto simp: filter_inv_def filter_placed_def)
    then have "latest the_line None (trace (f_world s)) = Some (filter_place (f_p s))"
      using assms(1) by (auto simp: line_at_def)
    then show ?thesis
      using filter_line_keeps [of str key s s'] assms(3) ed(2) Line
      by (auto simp: filter_next_def entry_at_def filter_place_def elim!: input_positionE)
  qed
  then show "f_src s' = entry_at f_world (14, 17) e s (f_src s)" "f_src_port s' = entry_at f_world (14, 52) e s (f_src_port s)"
    "f_dst s' = entry_at f_world (17, 17) e s (f_dst s)" "f_dst_port s' = entry_at f_world (17, 52) e s (f_dst_port s)"
    by auto
qed

lemma line_at_init: "line_at (filter_init junk w0)"
  by (simp add: filter_init_def Let_def line_at_loop)

interpretation filter_lines: dialog "\<lambda>s. s = filter_init junk w0" f_prompt "filter_next env" filter_ok
  "\<lambda>s. filter_inv False junk w0 s \<and> line_at s"
  for junk w0 env
  by unfold_locales
    (auto simp: filter_init_inv line_at_init intro: filter_next_inv line_at_next dest: filter_next_defined)

text \<open>
  The rule on the screen: the choices marked in the boxes last drawn, and the lines last typed at the places of the inputs,
  the source in row 14, where \<open>Source:\<close> is written, and the destination in row 17; an empty address is \<open>any\<close>.
\<close>

definition rule_on_screen :: "env \<Rightarrow> ruleset \<Rightarrow> world \<Rightarrow> event list \<Rightarrow> act list \<Rightarrow> ruleset" where
  "rule_on_screen env junk w0 es acts =
     (let line = (\<lambda>y x. typed f_world (filter_next env) (y, x) [] es (filter_init junk w0))
      in zero_rule
        \<lparr>r_action := snd (the (latest the_action None acts)), r_proto := snd (the (latest the_protocol None acts)),
         r_ifs := snd (the (latest the_iface None acts)), r_option := snd (snd (the (latest the_options None acts))),
         r_src := or_any (line 14 17), r_src_port := port_or_none (line 14 52),
         r_dst := or_any (line 17 17), r_dst_port := port_or_none (line 17 52), r_other_a := r_other_a junk\<rparr>)"

text \<open>The members that the dialog sets.\<close>

definition same_rule :: "ruleset \<Rightarrow> ruleset \<Rightarrow> bool" where
  "same_rule r r' \<longleftrightarrow> r_action r' = r_action r \<and> r_proto r' = r_proto r \<and> r_ifs r' = r_ifs r \<and> r_option r' = r_option r \<and>
     r_src r' = r_src r \<and> r_src_port r' = r_src_port r \<and> r_dst r' = r_dst r \<and> r_dst_port r' = r_dst_port r \<and>
     r_other_a r' = r_other_a r"

lemma same_rule_text: "same_rule r r' \<Longrightarrow> filter_text r' = filter_text r"
  by (simp only: same_rule_def filter_text_def port_pieces_def dir_text_def option_text_def other_pieces_def)

lemma rule_on_screen_is:
  assumes "run_events f_prompt (filter_next env) es (filter_init junk w0) = Some s"
    and "f_prompt s = Returned v" and "f_p s = 12"
  shows "same_rule (rule_on_screen env junk w0 es (trace (f_world s))) (f_rule s)"
proof -
  obtain t where t: "filter_inv False junk w0 t" "f_prompt t = Wgetch" "filter_enter env t = Some s" "f_p t = 12"
    using returned_run [OF assms(1,2)] assms(3) by metis
  have g: "filter_good junk w0 t" using t(1,2) by (auto simp: filter_inv_def)
  then have r: "f_rule s = filter_fields t" and k: "f_src s = f_src t" "f_dst s = f_dst t" "f_src_port s = f_src_port t" "f_dst_port s = f_dst_port t"
    using t(3,4) by (auto simp: filter_enter_def Let_def bind_eq_Some_conv)
  have i: "filter_inv False junk w0 (filter_init junk w0) \<and> line_at (filter_init junk w0)"
    by (simp add: filter_init_inv line_at_init)
  have z: "f_src (filter_init junk w0) = []" "f_dst (filter_init junk w0) = []" "f_src_port (filter_init junk w0) = []"
    "f_dst_port (filter_init junk w0) = []"
    by (simp_all add: filter_init_def Let_def filter_ops)
  let ?line = "\<lambda>y x. typed f_world (filter_next env) (y, x) [] es (filter_init junk w0)"
  have "f_src s = typed f_world (filter_next env) (14, 17) (f_src (filter_init junk w0)) es (filter_init junk w0)"
    by (rule filter_lines.typed_field [OF _ i assms(1)]) (rule filter_field_step(1))
  moreover have "f_src_port s = typed f_world (filter_next env) (14, 52) (f_src_port (filter_init junk w0)) es (filter_init junk w0)"
    by (rule filter_lines.typed_field [OF _ i assms(1)]) (rule filter_field_step(2))
  moreover have "f_dst s = typed f_world (filter_next env) (17, 17) (f_dst (filter_init junk w0)) es (filter_init junk w0)"
    by (rule filter_lines.typed_field [OF _ i assms(1)]) (rule filter_field_step(3))
  moreover have "f_dst_port s = typed f_world (filter_next env) (17, 52) (f_dst_port (filter_init junk w0)) es (filter_init junk w0)"
    by (rule filter_lines.typed_field [OF _ i assms(1)]) (rule filter_field_step(4))
  ultimately have line: "f_src s = ?line 14 17" "f_src_port s = ?line 14 52" "f_dst s = ?line 17 17" "f_dst_port s = ?line 17 52"
    by (simp_all only: z)
  have "filter_shows 12 s" by (rule enter_shows [OF t(1,2,4,3)])
  then show ?thesis
    unfolding same_rule_def rule_on_screen_def Let_def r
    using g filter_fields_eq [of t] line [symmetric] by (simp add: filter_shows_def filter_good_def r k)
qed

subsection \<open>What the dialog does\<close>


text \<open>
  Cancel records nothing: when a run is over at the Cancel button, the files and the device
  database are as they were and no command has been run.
\<close>

theorem filter_cancel_keeps:
  assumes "run_events f_prompt (filter_next env) es (filter_init junk w0) = Some s"
    and "f_prompt s = Returned v" and "f_p s = 13"
  shows "files (f_world s) = files w0 \<and> devdb (f_world s) = devdb w0 \<and>
    commands (trace (f_world s)) = commands (trace w0)"
proof -
  obtain t where "filter_inv False junk w0 t" "f_prompt t = Wgetch" "filter_enter env t = Some s"
    "f_p t = 13"
    using returned_run [OF assms(1,2)] assms(3) by metis
  from enter_cancel [OF this(1,2,4,3)] show ?thesis by (simp add: untouched_def)
qed

text \<open>
  A RESET rule for another protocol than TCP is refused by \<open>__insert_rule\<close>, but the dialog
  does not look at its answer: nothing is recorded, and the last thing the user sees is the
  notice that the rule has been added.
\<close>

theorem filter_reset_lost:
  assumes "run_events f_prompt (filter_next env) es (filter_init junk w0) = Some s"
    and "f_prompt s = Returned v" and "f_p s = 12"
    and "r_action (f_rule s) = RESET" and "r_proto (f_rule s) \<noteq> TCP"
  shows "contents RULESCRIPT (f_world s) = contents RULESCRIPT w0 \<and>
    commands (trace (f_world s)) = commands (trace w0) \<and>
    last (trace (f_world s)) = Msgbox ''ClosedBSD: Notice'' ''Rule has been added.''"
proof -
  obtain t where "filter_inv False junk w0 t" "f_prompt t = Wgetch" "filter_enter env t = Some s"
    "f_p t = 12"
    using returned_run [OF assms(1,2)] assms(3) by metis
  from enter_refused [OF this(1,2,4,3) assms(4,5)] show ?thesis by blast
qed

text \<open>
  C12. The invariant of the dialog. In every state it can reach and that waits for a key, the
  cursor is on an action, a protocol, a button, an interface or an option; in one that edits a line,
  on the input edited. The rule holds an action, an interface and an option that
  \<open>__insert_rule\<close> knows, the ports fit their buffers, and nothing outside has been touched.
\<close>

theorem filter_invariant:
  assumes "reachable (\<lambda>s. s = filter_init junk w0) f_prompt (filter_next env) s"
  shows "(case f_prompt s of
      Wgetch \<Rightarrow> f_p s \<in> {1..7} \<union> {12, 13} \<union> {21..27}
    | Editing sel n \<Rightarrow> f_p s = sel \<and> sel \<in> {8..11} \<and> n = (if sel = 8 \<or> sel = 10 then 33 else 5)
    | Returned v \<Rightarrow> f_p s \<in> {12, 13} \<and> v = ditem_continue) \<and>
    ((\<exists>v. f_prompt s = Returned v) \<or>
     r_action (f_rule s) \<in> {ALLOW, DENY, RESET} \<and> r_option (f_rule s) \<in> {0..3} \<and>
     length (f_src_port s) < 5 \<and> length (f_dst_port s) < 5 \<and>
     files (f_world s) = files w0 \<and> devdb (f_world s) = devdb w0 \<and>
     commands (trace (f_world s)) = commands (trace w0))"
proof -
  have inv: "filter_inv False junk w0 s"
    by (rule filter_dlg.reachable_inv [OF assms])
  then show ?thesis
    by (cases "f_prompt s")
      (auto simp: filter_inv_def filter_placed_def filter_good_def filter_rule_ok_def filter_flen_def
        filter_inputs_ok_def untouched_def key_position_def input_position_def)
qed

text \<open>
  C21. The highlight is where the cursor is. In every state the dialog can reach without TAB in the
  interface column, the boxes last drawn show the action, the protocol, the interface and the
  options of the rule, and highlight the line of the cursor, in the box it is in and in no other.
\<close>

theorem filter_screen:
  assumes "reachable (\<lambda>s. s = filter_init junk w0) f_prompt (filter_next_on env) s"
    and "\<forall>v. f_prompt s \<noteq> Returned v"
  shows "filter_shows (f_p s) s"
  using filter_on.reachable_inv [OF assms(1)] assms(2)
  by (cases "f_prompt s") (auto simp: filter_inv_def filter_placed_def seen_at_def)

text \<open>
  After TAB in the interface column the two differ: the highlight is on TCP, and the space
  bar selects IP.
\<close>

theorem filter_tab_off_line:
  assumes "filter_inv True junk w0 s" and "f_prompt s = Wgetch" and "21 \<le> f_p s" and "f_p s \<le> 23"
  shows "\<exists>t. run_events f_prompt (filter_next env) [Key TAB] s = Some t \<and> filter_shows 4 t \<and>
    (\<exists>u. run_events f_prompt (filter_next env) [Key TAB, Key SPACE] s = Some u \<and>
       r_proto (f_rule u) = IP)"
proof -
  have "f_p s = 21 \<or> f_p s = 22 \<or> f_p s = 23" using assms(3,4) by auto
  moreover have "filter_shows (f_p s) s"
    using assms(1,2) by (auto simp: filter_inv_def filter_placed_def seen_at_def)
  ultimately show ?thesis
    using assms(2)
    by (elim disjE) (simp_all add: filter_next_def filter_tab_def filter_space_def filter_ops
        filter_screen_defs Let_def)
qed

text \<open>
  The dialog has a defined behaviour: a run of inputs that \<open>line_edit\<close> and \<open>wgetch\<close> can
  give, in which a port has at most four characters, and with little enough garbage in the
  member \<open>other_a\<close> that the dialog leaves uninitialised, is never undefined.
\<close>

theorem filter_defined:
  assumes "guarded f_prompt (filter_next env) filter_ok es (filter_init junk w0)"
  shows "\<exists>s. run_events f_prompt (filter_next env) es (filter_init junk w0) = Some s"
  using filter_dlg.guarded_defined [OF filter_init_inv assms] by blast

text \<open>
  C24. OK can always be reached: from every reachable state that is not the end, at most 11
  inputs lead to the OK button with the rule and the inputs unchanged.
\<close>

theorem filter_ok_reachable:
  assumes "reachable (\<lambda>s. s = filter_init junk w0) f_prompt (filter_next env) s"
    and "\<forall>v. f_prompt s \<noteq> Returned v"
  shows "\<exists>es t. length es \<le> 11 \<and> run_events f_prompt (filter_next env) es s = Some t \<and>
    f_p t = 12 \<and> f_prompt t = Wgetch \<and> only_draws s t"
proof -
  have inv: "filter_inv False junk w0 s"
    by (rule filter_dlg.reachable_inv [OF assms(1)])
  then have "ok_distance (f_p s) \<le> 11"
    using ok_distance_bound assms(2) by (auto simp: filter_inv_def)
  with down_to_ok [OF inv assms(2) refl, of env] show ?thesis by metis
qed

subsection \<open>Trying it\<close>

text \<open>
  Down to OK with the source \<open>me\<close> and the destination port 80; the keys after it: return, or
  one line further, to Cancel.
\<close>

definition down_keys :: "event list" where
  "down_keys = replicate 7 (Key KEY_DOWN) @
     [Line ''me'' KEY_DOWN, Line ''any'' KEY_DOWN, Line [] KEY_DOWN, Line ''80'' KEY_DOWN]"

definition filter_example :: "event list \<Rightarrow> filter_st" where
  "filter_example es =
     the (run_events f_prompt (filter_next calm) es (filter_init zero_rule blank_world))"

definition reset_keys :: "event list" where
  "reset_keys = [Key KEY_DOWN, Key KEY_DOWN, Key SPACE, Key KEY_DOWN, Key KEY_DOWN, Key SPACE] @
     drop 4 down_keys @ [Key ENTER]"

lemma some_example:
  "run_events f_prompt (filter_next calm) es (filter_init zero_rule blank_world) \<noteq> None \<Longrightarrow>
   run_events f_prompt (filter_next calm) es (filter_init zero_rule blank_world) =
     Some (filter_example es)"
  by (auto simp: filter_example_def)

lemma ok_example:
  "run_events f_prompt (filter_next calm) (down_keys @ [Key ENTER]) (filter_init zero_rule blank_world) =
     Some (filter_example (down_keys @ [Key ENTER]))"
  by (rule some_example) code_simp

lemma cancel_example:
  "run_events f_prompt (filter_next calm) (down_keys @ [Key KEY_DOWN, Key ENTER])
     (filter_init zero_rule blank_world) =
     Some (filter_example (down_keys @ [Key KEY_DOWN, Key ENTER]))"
  by (rule some_example) code_simp

lemma reset_example:
  "run_events f_prompt (filter_next calm) reset_keys (filter_init zero_rule blank_world) =
     Some (filter_example reset_keys)"
  by (rule some_example) code_simp


theorem filter_cancel_keeps_witness:
  "files (f_world (filter_example (down_keys @ [Key KEY_DOWN, Key ENTER]))) = (\<lambda>_. None)"
proof -
  have "f_prompt (filter_example (down_keys @ [Key KEY_DOWN, Key ENTER])) = Returned ditem_continue"
    "f_p (filter_example (down_keys @ [Key KEY_DOWN, Key ENTER])) = 13"
    by code_simp+
  then show ?thesis
    using filter_cancel_keeps [OF cancel_example] by (simp add: blank_world_def)
qed

theorem filter_reset_lost_witness:
  "commands (trace (f_world (filter_example reset_keys))) = [] \<and>
   r_proto (f_rule (filter_example reset_keys)) = IP"
proof -
  have "f_prompt (filter_example reset_keys) = Returned ditem_continue"
    "f_p (filter_example reset_keys) = 12"
    "r_action (f_rule (filter_example reset_keys)) = RESET"
    "r_proto (f_rule (filter_example reset_keys)) = IP"
    by code_simp+
  then show ?thesis
    using filter_reset_lost [OF reset_example] by (simp add: blank_world_def)
qed

theorem filter_invariant_witness:
  "f_p (filter_example down_keys) = 12 \<and>
   r_option (f_rule (filter_example down_keys)) \<in> {0..3}"
proof -
  have run: "run_events f_prompt (filter_next calm) down_keys (filter_init zero_rule blank_world) =
      Some (filter_example down_keys)"
    by (rule some_example) code_simp
  have "f_prompt (filter_example down_keys) = Wgetch" "f_p (filter_example down_keys) = 12"
    by code_simp+
  then show ?thesis
    using filter_invariant [of zero_rule blank_world calm "filter_example down_keys"] run
    by (auto simp: reachable_run)
qed

theorem filter_screen_witness:
  "filter_shows 1 (filter_init zero_rule blank_world)"
proof -
  have "f_prompt (filter_init zero_rule blank_world) = Wgetch" "f_p (filter_init zero_rule blank_world) = 1"
    by code_simp+
  then show ?thesis
    using filter_screen [OF reach_start, of "filter_init zero_rule blank_world" zero_rule blank_world]
    by simp
qed

theorem filter_tab_off_line_witness:
  "\<exists>s u. filter_inv True zero_rule blank_world s \<and> f_p s = 21 \<and>
     run_events f_prompt (filter_next calm) [Key TAB, Key SPACE] s = Some u \<and> r_proto (f_rule u) = IP"
proof -
  let ?s = "filter_example [Key KEY_RIGHT]"
  have "run_events f_prompt (filter_next_on calm) [Key KEY_RIGHT] (filter_init zero_rule blank_world) =
      run_events f_prompt (filter_next calm) [Key KEY_RIGHT] (filter_init zero_rule blank_world)"
    by (simp add: filter_next_on_def off_line_def split: option.split)
  moreover have "run_events f_prompt (filter_next calm) [Key KEY_RIGHT]
      (filter_init zero_rule blank_world) = Some ?s"
    by (rule some_example) code_simp
  ultimately have inv: "filter_inv True zero_rule blank_world ?s"
    using filter_on.run_inv [OF filter_init_inv] by metis
  have "f_prompt ?s = Wgetch" "f_p ?s = 21"
    by code_simp+
  then show ?thesis
    using filter_tab_off_line [OF inv, of calm] inv by fastforce
qed

theorem filter_defined_witness:
  "\<exists>s. run_events f_prompt (filter_next calm) (down_keys @ [Key ENTER])
     (filter_init zero_rule blank_world) = Some s"
proof (rule filter_defined)
  show "guarded f_prompt (filter_next calm) filter_ok (down_keys @ [Key ENTER])
    (filter_init zero_rule blank_world)"
    by code_simp
qed

theorem filter_ok_reachable_witness:
  "\<exists>es t. length es \<le> 11 \<and>
     run_events f_prompt (filter_next calm) es (filter_init zero_rule blank_world) = Some t \<and>
     f_p t = 12"
proof -
  have "f_prompt (filter_init zero_rule blank_world) = Wgetch"
    by code_simp
  then show ?thesis
    using filter_ok_reachable [OF reach_start, of "filter_init zero_rule blank_world" zero_rule blank_world calm]
    by auto
qed

end
