(* ===== verification/Forward.thy ===== *)
theory Forward
  imports FilterRuns
begin

text \<open>
  \<open>closedbsd/config/forward.c\<close>: the dialog that builds a port forwarding rule, modelled and verified
  like the filter dialog: a state, one definition per key, the rest of a case after its
  \<open>line_edit\<close> in \<open>forward_line\<close>; the invariant; what OK and Cancel do.
\<close>

subsection \<open>State\<close>

record forward_st =
  g_p :: int
  g_rule :: ruleset
  g_src :: string
  g_dst :: string
  g_forw :: string
  g_src_port :: string
  g_dst_port :: string
  g_forw_port :: string
  g_prompt :: prompt
  g_world :: world

definition forward_go :: "int \<Rightarrow> act list \<Rightarrow> forward_st \<Rightarrow> forward_st" where
  "forward_go p as s = s\<lparr>g_p := p, g_world := emit as (g_world s), g_prompt := Wgetch\<rparr>"

definition forward_set :: "ruleset \<Rightarrow> act list \<Rightarrow> forward_st \<Rightarrow> forward_st" where
  "forward_set r as s = s\<lparr>g_rule := r, g_world := emit as (g_world s), g_prompt := Wgetch\<rparr>"

text \<open>Some drawing, then \<open>forw_input\<close> on the input \<open>sel\<close>, up to the input.\<close>

definition forward_flen :: "int \<Rightarrow> nat" where
  "forward_flen sel = (if sel = 3 \<or> sel = 5 \<or> sel = 7 then 33 else 5)"

definition forward_edit :: "int \<Rightarrow> act list \<Rightarrow> forward_st \<Rightarrow> forward_st" where
  "forward_edit sel as s =
     s\<lparr>g_p := sel, g_world := emit (as @ forw_input_act sel) (g_world s),
       g_prompt := Editing sel (forward_flen sel)\<rparr>"

definition forward_init :: "ruleset \<Rightarrow> world \<Rightarrow> forward_st" where
  "forward_init junk w =
     (let r = junk\<lparr>r_action := FWD, r_proto := TCP, r_src := [], r_src_port := [], r_dst := [],
            r_dst_port := []\<rparr>
      in \<lparr>g_p = 1, g_rule = r, g_src = [], g_dst = [], g_forw = [], g_src_port = [],
          g_dst_port = [], g_forw_port = [], g_prompt = Wgetch,
          g_world = emit
            [Dialog_clear, Newwin 22 76 1 1,
             Std_window ''ClosedBSD: Insert a TCP/UDP port forward'', Curses Wrefresh,
             Protocol_forward_box 2 13 1 r,
             Host_inputbox 7 19, Curses (Wattrset dialog_attr), Curses (Mvwprintw 8 54 '':''),
             Port_inputbox 7 55,
             Host_inputbox 10 19, Curses (Wattrset dialog_attr), Curses (Mvwprintw 11 54 '':''),
             Port_inputbox 10 55,
             Host_inputbox 13 19, Curses (Wattrset dialog_attr), Curses (Mvwprintw 14 54 '':''),
             Port_inputbox 13 55, Buttons 0,
             Curses (Mvwprintw 8 7 ''packet src''), Curses (Mvwprintw 11 7 ''packet dst''),
             Curses (Mvwprintw 14 7 ''forward to''), Curses (Wmove 0 0), Help 31 r,
             Curses Wrefresh] w\<rparr>)"

subsection \<open>The keys\<close>

definition forward_down :: "forward_st \<Rightarrow> forward_st" where
  "forward_down s =
     (let p = g_p s; r = g_rule s in
      if p = 1 then forward_go 2 [Help 32 r, Protocol_forward_box 2 13 2 r] s
      else if p = 2 then forward_edit 3 [Help 8 r, Protocol_forward_box 2 13 0 r] s
      else if p = 3 then forward_edit 4 [Help 9 r] s
      else if p = 4 then forward_edit 5 [Help 10 r] s
      else if p = 5 then forward_edit 6 [Help 9 r] s
      else if p = 6 then forward_edit 7 [Help 12 r] s
      else if p = 7 then forward_edit 8 [Buttons 0, Help 9 r] s
      else if p = 8 then forward_go 9 [Help 33 r, Buttons 1] s
      else if p = 9 then forward_go 10 [Help 34 r, Buttons 2] s
      else s\<lparr>g_prompt := Wgetch\<rparr>)"

definition forward_goto_down :: "int \<Rightarrow> forward_st \<Rightarrow> forward_st" where
  "forward_goto_down p s = forward_down (s\<lparr>g_p := p\<rparr>)"

definition forward_line :: "string \<Rightarrow> key \<Rightarrow> forward_st \<Rightarrow> forward_st option" where
  "forward_line str key s =
     (let p = g_p s; ret = forw_input p key in
      if p = 3 then do {
        buf \<leftarrow> edit_into 128 str;
        let s = s\<lparr>g_src := buf\<rparr>;
        Some (if ret < p then forward_goto_down 1 s else forward_goto_down 3 s)
      }
      else if p = 4 then do {
        buf \<leftarrow> edit_into 5 str;
        let s = s\<lparr>g_src_port := buf\<rparr>;
        Some (if ret < p then forward_goto_down 2 s else forward_goto_down 4 s)
      }
      else if p = 5 then do {
        buf \<leftarrow> edit_into 128 str;
        let s = s\<lparr>g_dst := buf\<rparr>;
        Some (if ret < p then forward_goto_down 3 s else forward_goto_down 5 s)
      }
      else if p = 6 then do {
        buf \<leftarrow> edit_into 5 str;
        let s = s\<lparr>g_dst_port := buf\<rparr>;
        Some (if ret < p then forward_goto_down 4 s else forward_goto_down 6 s)
      }
      else if p = 7 then do {
        buf \<leftarrow> edit_into 128 str;
        let s = s\<lparr>g_forw := buf\<rparr>;
        Some (if ret < p then forward_goto_down 5 s else forward_goto_down 7 s)
      }
      else if p = 8 then do {
        buf \<leftarrow> edit_into 5 str;
        let s = s\<lparr>g_forw_port := buf\<rparr>;
        Some (if ret < p then forward_goto_down 6 s else forward_goto_down 8 s)
      }
      else None)"

definition forward_right :: "forward_st \<Rightarrow> forward_st" where
  "forward_right s = (if g_p s = 9 then forward_go 10 [Buttons 2] s else s)"

definition forward_left :: "forward_st \<Rightarrow> forward_st" where
  "forward_left s = (if g_p s = 10 then forward_go 9 [Buttons 1] s else s)"

definition forward_up :: "forward_st \<Rightarrow> forward_st" where
  "forward_up s =
     (let p = g_p s; r = g_rule s in
      if p = 1 then forward_go 1 [Help 31 r, Protocol_forward_box 2 13 1 r] s
      else if p = 2 then forward_go 1 [Help 31 r, Protocol_forward_box 2 13 1 r] s
      else if p = 9 then forward_goto_down 7 (s\<lparr>g_world := emit [Buttons 0] (g_world s)\<rparr>)
      else if p = 10 then forward_goto_down 8 (s\<lparr>g_world := emit [Buttons 1] (g_world s)\<rparr>)
      else s)"

definition forward_fields :: "forward_st \<Rightarrow> ruleset" where
  "forward_fields s = (g_rule s)
     \<lparr>r_src := snprintf 128 (g_src s), r_src_port := snprintf 5 (g_src_port s),
      r_dst := snprintf 128 (g_dst s), r_dst_port := snprintf 5 (g_dst_port s),
      r_other_a := snprintf 256 (g_forw s), r_other_b := snprintf 256 (g_forw_port s)\<rparr>"

definition forward_enter :: "env \<Rightarrow> forward_st \<Rightarrow> forward_st option" where
  "forward_enter env s =
     (if g_p s = 9 then do {
        let r = forward_fields s;
        (ret, w) \<leftarrow> insert_rule_text env r (g_world s);
        if ret = 0 then
          Some (s\<lparr>g_rule := r,
                  g_world := emit [Msgbox ''ClosedBSD: Notice'' ''Rule has been added''] w,
                  g_prompt := Returned ditem_continue\<rparr>)
        else
          Some (s\<lparr>g_rule := r,
                  g_world := emit [Msgbox ''ClosedBSD: Notice''
                    ''There was an error adding the rule. Verify proper information!''] w\<rparr>)
      }
      else if g_p s = 10 then Some (s\<lparr>g_prompt := Returned ditem_continue\<rparr>)
      else Some s)"

definition forward_space :: "forward_st \<Rightarrow> forward_st" where
  "forward_space s =
     (let p = g_p s; r = g_rule s in
      if p = 1 then let r = r\<lparr>r_proto := TCP\<rparr> in forward_set r [Protocol_forward_box 2 13 p r] s
      else if p = 2 then let r = r\<lparr>r_proto := UDP\<rparr> in forward_set r [Protocol_forward_box 2 13 p r] s
      else s)"

definition forward_next :: "env \<Rightarrow> event \<Rightarrow> forward_st \<Rightarrow> forward_st option" where
  "forward_next env e s =
     (case e of
        Line str key \<Rightarrow> forward_line str key s
      | Key key \<Rightarrow>
         (case key of
            KEY_DOWN \<Rightarrow> Some (forward_down s)
          | KEY_RIGHT \<Rightarrow> Some (forward_right s)
          | KEY_LEFT \<Rightarrow> Some (forward_left s)
          | KEY_UP \<Rightarrow> Some (forward_up s)
          | Ch c \<Rightarrow>
              if c = 10 then forward_enter env s
              else if c = 32 then Some (forward_space s)
              else Some s))"

subsection \<open>The invariant\<close>

text \<open>
  The positions: 1 and 2 the protocols, 3 to 8 the inputs, 9 and 10 the buttons. The screen shows the
  protocol of the rule and the cursor.
\<close>

definition forward_shows :: "int \<Rightarrow> forward_st \<Rightarrow> bool" where
  "forward_shows q s \<longleftrightarrow>
     latest the_protocol None (trace (g_world s)) = Some (hl 1 2 q, r_proto (g_rule s)) \<and>
     latest the_button None (trace (g_world s)) = Some (hl 9 10 q)"

definition forward_inputs_ok :: "forward_st \<Rightarrow> bool" where
  "forward_inputs_ok s \<longleftrightarrow>
     length (g_src s) \<le> 33 \<and> length (g_dst s) \<le> 33 \<and> length (g_forw s) \<le> 33 \<and>
     length (g_src_port s) \<le> 4 \<and> length (g_dst_port s) \<le> 4 \<and> length (g_forw_port s) \<le> 4"

definition forward_good :: "world \<Rightarrow> forward_st \<Rightarrow> bool" where
  "forward_good w0 s \<longleftrightarrow> r_action (g_rule s) = FWD \<and> (r_proto (g_rule s) = TCP \<or> r_proto (g_rule s) = UDP) \<and>
     forward_inputs_ok s \<and> untouched w0 (g_world s)"

definition forward_placed :: "forward_st \<Rightarrow> bool" where
  "forward_placed s \<longleftrightarrow>
     (case g_prompt s of
        Wgetch \<Rightarrow> (g_p s = 1 \<or> g_p s = 2 \<or> g_p s = 9 \<or> g_p s = 10) \<and> forward_shows (g_p s) s
      | Editing sel n \<Rightarrow> sel = g_p s \<and> 3 \<le> sel \<and> sel \<le> 8 \<and> n = forward_flen sel \<and>
          forward_shows sel s
      | Returned v \<Rightarrow> (g_p s = 9 \<or> g_p s = 10) \<and> v = ditem_continue)"

definition forward_inv :: "world \<Rightarrow> forward_st \<Rightarrow> bool" where
  "forward_inv w0 s \<longleftrightarrow> forward_placed s \<and> ((\<exists>v. g_prompt s = Returned v) \<or> forward_good w0 s)"

lemma forward_inputE:
  assumes "3 \<le> p" "p \<le> (8 :: int)"
  obtains "p = 3" | "p = 4" | "p = 5" | "p = 6" | "p = 7" | "p = 8"
proof -
  have "p = 3 \<or> p = 4 \<or> p = 5 \<or> p = 6 \<or> p = 7 \<or> p = 8" using assms by presburger
  then show thesis using that by blast
qed

lemmas forward_ops = forward_go_def forward_set_def forward_edit_def

lemmas forward_screen_defs = forward_shows_def hl_def the_defs forw_input_act_def

lemma forward_init_inv: "forward_inv w (forward_init junk w)"
  by (simp add: forward_init_def forward_inv_def forward_placed_def forward_good_def
      forward_inputs_ok_def untouched_def forward_screen_defs Let_def)

text \<open>The positions \<open>p\<close> and screens \<open>q\<close> with which the code reaches the label \<open>down\<close>.\<close>

definition forward_may_down :: "(int \<times> int) set" where
  "forward_may_down =
   {(1, 1), (2, 2), (9, 9), (10, 10), (8, 9), (1, 3), (2, 4), (3, 5), (4, 6), (5, 7),
    (6, 8), (3, 3), (4, 4), (5, 5), (6, 6), (7, 7), (8, 8), (7, 8)}"

lemma forward_may_downE:
  assumes "(p, q) \<in> forward_may_down"
  obtains "p = 1" "q = 1" | "p = 2" "q = 2" | "p = 9" "q = 9" | "p = 10" "q = 10"
    | "p = 8" "q = 9" | "p = 1" "q = 3" | "p = 2" "q = 4" | "p = 3" "q = 5"
    | "p = 4" "q = 6" | "p = 5" "q = 7" | "p = 6" "q = 8" | "p = 3" "q = 3"
    | "p = 4" "q = 4" | "p = 5" "q = 5" | "p = 6" "q = 6" | "p = 7" "q = 7"
    | "p = 8" "q = 8" | "p = 7" "q = 8"
  using assms unfolding forward_may_down_def
  by (elim insertE emptyE Pair_inject) (erule that; assumption)+

lemma forward_down_placed:
  assumes "forward_shows q s" "(g_p s, q) \<in> forward_may_down"
  shows "forward_placed (forward_down s)"
  using assms(2)
  by (rule forward_may_downE)
    (use assms(1) in \<open>simp_all add: forward_down_def Let_def forward_ops forward_placed_def
      forward_screen_defs forward_flen_def\<close>)

lemma forward_down_good: "forward_good w0 s \<Longrightarrow> forward_good w0 (forward_down s)"
  by (simp add: forward_down_def Let_def)
    (simp add: forward_ops forward_good_def forward_inputs_ok_def untouched_def forw_input_act_def)

lemma forward_shows_cursor [simp]: "forward_shows q (s\<lparr>g_p := p\<rparr>) = forward_shows q s"
  by (simp add: forward_shows_def)

lemma forward_goto_down_inv:
  "forward_good w0 s \<Longrightarrow> forward_shows q s \<Longrightarrow> (p, q) \<in> forward_may_down \<Longrightarrow>
   forward_inv w0 (forward_goto_down p s)"
  unfolding forward_goto_down_def forward_inv_def
  by (intro conjI disjI2 forward_down_placed [where q = q] forward_down_good)
    (simp_all add: forward_good_def forward_inputs_ok_def)

lemma forward_line_inv:
  assumes "forward_inv w0 s" "g_prompt s = Editing sel n" "length str \<le> n"
    and "forward_line str key s = Some s'"
  shows "forward_inv w0 s'"
proof -
  have at: "3 \<le> g_p s" "g_p s \<le> 8" "forward_shows (g_p s) s" "n = forward_flen (g_p s)"
    and good: "forward_good w0 s"
    using assms(1,2) by (auto simp: forward_inv_def forward_placed_def)
  show ?thesis
    using at(1,2)
  proof (rule forward_inputE)
  qed (use assms(3,4) at(3,4) good in
    \<open>auto simp: forward_line_def Let_def edit_into_def forward_flen_def forward_good_def
       forward_inputs_ok_def forward_shows_def forward_may_down_def split: if_splits
       intro!: forward_goto_down_inv\<close>)
qed

lemma forward_positionE:
  assumes "forward_placed s" "g_prompt s = Wgetch"
  obtains "g_p s = 1" "forward_shows 1 s" | "g_p s = 2" "forward_shows 2 s"
    | "g_p s = 9" "forward_shows 9 s" | "g_p s = 10" "forward_shows 10 s"
  using assms that by (auto simp: forward_placed_def)

lemmas forward_inv_defs = forward_inv_def forward_placed_def forward_good_def forward_inputs_ok_def
  untouched_def forward_screen_defs

lemma forward_move_inv:
  assumes "forward_placed s" "g_prompt s = Wgetch" "forward_good w0 s"
  shows "forward_inv w0 (forward_right s)" "forward_inv w0 (forward_left s)"
    "forward_inv w0 (forward_space s)" "forward_inv w0 (forward_down s)"
proof -
  show "forward_inv w0 (forward_right s)"
    using assms(1,2) by (rule forward_positionE)
      (use assms(2,3) in \<open>simp_all add: forward_right_def forward_ops forward_inv_defs\<close>)
  show "forward_inv w0 (forward_left s)"
    using assms(1,2) by (rule forward_positionE)
      (use assms(2,3) in \<open>simp_all add: forward_left_def forward_ops forward_inv_defs\<close>)
  show "forward_inv w0 (forward_space s)"
    using assms(1,2) by (rule forward_positionE)
      (use assms(2,3) in \<open>simp_all add: forward_space_def forward_ops forward_inv_defs Let_def\<close>)
  show "forward_inv w0 (forward_down s)"
    using assms(1,2)
  proof (rule forward_positionE)
  qed (use assms(3) in \<open>auto simp: forward_inv_def forward_may_down_def forward_down_good
      intro!: forward_down_placed\<close>)
qed

lemma forward_up_inv:
  assumes "forward_placed s" "g_prompt s = Wgetch" "forward_good w0 s"
  shows "forward_inv w0 (forward_up s)"
proof -
  have sh: "forward_shows 8 (s\<lparr>g_world := emit [Buttons 0] (g_world s)\<rparr>)" if "forward_shows 9 s"
    using that by (simp add: forward_screen_defs)
  have sh': "forward_shows 9 (s\<lparr>g_world := emit [Buttons 1] (g_world s)\<rparr>)" if "forward_shows 10 s"
    using that by (simp add: forward_screen_defs)
  have g: "forward_good w0 (s\<lparr>g_world := emit [Buttons k] (g_world s)\<rparr>)" for k
    using assms(3) by (simp add: forward_good_def forward_inputs_ok_def untouched_def)
  show ?thesis
    using assms(1,2)
  proof (rule forward_positionE)
    assume "g_p s = 9" "forward_shows 9 s"
    then show ?thesis
      using forward_goto_down_inv [OF g sh, of 7] by (simp add: forward_up_def forward_may_down_def)
  next
    assume "g_p s = 10" "forward_shows 10 s"
    then show ?thesis
      using forward_goto_down_inv [OF g sh', of 8] by (simp add: forward_up_def forward_may_down_def)
  qed (use assms(2,3) in \<open>simp_all add: forward_up_def forward_ops forward_inv_defs Let_def\<close>)
qed

lemma forward_fields_sel [simp]:
  "r_action (forward_fields s) = r_action (g_rule s)" "r_proto (forward_fields s) = r_proto (g_rule s)"
  by (simp_all add: forward_fields_def)

lemma forward_insert_fails:
  assumes "insert_rule_text env r w = Some (c, w')" "c \<noteq> 0" "r_action r = FWD"
  shows "\<not> writable env RULESCRIPT \<and> w' = w"
  using assms by (auto simp: insert_rule_text_def Let_def bind_eq_Some_conv split: if_splits)

lemma forward_enter_inv:
  assumes "forward_placed s" "g_prompt s = Wgetch" "forward_good w0 s" "forward_enter env s = Some s'"
  shows "forward_inv w0 s'"
proof (cases "g_p s = 9")
  case True
  then obtain c w where w: "insert_rule_text env (forward_fields s) (g_world s) = Some (c, w)"
    using assms(4) by (auto simp: forward_enter_def Let_def bind_eq_Some_conv)
  have fwd: "r_action (forward_fields s) = FWD"
    using assms(3) by (simp add: forward_good_def)
  have sh: "forward_shows 9 s"
    using assms(1,2) True by (auto simp: forward_placed_def)
  show ?thesis
  proof (cases "c = 0")
    case True
    then show ?thesis
      using w assms(4) \<open>g_p s = 9\<close>
      by (auto simp: forward_enter_def Let_def forward_inv_def forward_placed_def)
  next
    case False
    then have "s' = s\<lparr>g_rule := forward_fields s, g_world := emit [Msgbox ''ClosedBSD: Notice''
        ''There was an error adding the rule. Verify proper information!''] (g_world s)\<rparr>"
      using w forward_insert_fails [OF w _ fwd] assms(4) \<open>g_p s = 9\<close>
      by (auto simp: forward_enter_def Let_def)
    then show ?thesis
      using sh assms(2,3) True by (simp add: forward_inv_defs)
  qed
next
  case False
  then show ?thesis
    using assms by (auto simp: forward_enter_def forward_inv_def forward_placed_def split: if_splits)
qed

lemma forward_next_inv:
  assumes "forward_inv w0 s" "accepts (g_prompt s) e" "forward_next env e s = Some s'"
  shows "forward_inv w0 s'"
proof (cases "g_prompt s")
  case Wgetch
  then obtain k where k: "e = Key k"
    using assms(2) by (cases e) auto
  have s: "forward_placed s" "forward_good w0 s"
    using assms(1) Wgetch by (auto simp: forward_inv_def)
  show ?thesis
    using assms(1,3) forward_move_inv [OF s(1) Wgetch s(2)] forward_up_inv [OF s(1) Wgetch s(2)]
      forward_enter_inv [OF s(1) Wgetch s(2), of env]
    by (auto simp: k forward_next_def split: key.splits if_splits)
next
  case (Editing sel n)
  then obtain str key where e: "e = Line str key" "length str \<le> n"
    using assms(2) by (cases e) auto
  then show ?thesis
    using forward_line_inv [OF assms(1) Editing e(2)] assms(3) by (simp add: forward_next_def)
next
  case (Returned v)
  then show ?thesis using assms(2) by simp
qed

subsection \<open>When a step is defined\<close>

definition forward_ok :: "forward_st \<Rightarrow> event \<Rightarrow> bool" where
  "forward_ok s e \<longleftrightarrow>
     (case e of
        Line str _ \<Rightarrow> g_p s = 4 \<or> g_p s = 6 \<or> g_p s = 8 \<longrightarrow> length str < 5
      | Key k \<Rightarrow> True)"

lemma forward_fields_eq:
  assumes "forward_inputs_ok s"
  shows "forward_fields s = (g_rule s)\<lparr>r_src := g_src s, r_src_port := g_src_port s, r_dst := g_dst s,
    r_dst_port := g_dst_port s, r_other_a := g_forw s, r_other_b := g_forw_port s\<rparr>"
  using assms by (simp add: forward_fields_def forward_inputs_ok_def snprintf_def)

lemma fwd_tail_length: "length (concat (fwd_tail p)) \<le> 1 + length p"
  by (simp add: fwd_tail_def)

lemma forward_text_fits:
  assumes "forward_inputs_ok s"
  shows "length (fwd_text (forward_fields s)) < 256"
  unfolding forward_fields_eq [OF assms]
  using assms fwd_tail_length [of "g_src_port s"] fwd_tail_length [of "g_dst_port s"]
    text_parts_length(2) [of "r_proto (g_rule s)"]
  by (simp add: fwd_text_def forward_inputs_ok_def)

lemma forward_insert_defined:
  assumes "forward_good w0 s"
  shows "insert_rule_text env (forward_fields s) w \<noteq> None"
  using assms forward_text_fits [of s]
  by (auto simp: forward_good_def insert_rule_text_def fwd_command_eq Let_def)

lemma forward_next_defined:
  assumes "forward_inv w0 s" "accepts (g_prompt s) e" "forward_ok s e"
  shows "forward_next env e s \<noteq> None"
proof (cases e)
  case (Line str key)
  then obtain sel n where "g_prompt s = Editing sel n"
    using assms(2) by (cases "g_prompt s") auto
  then have at: "3 \<le> g_p s" "g_p s \<le> 8" "n = forward_flen (g_p s)" "length str \<le> n"
    using assms(1,2) Line by (auto simp: forward_inv_def forward_placed_def)
  show ?thesis
    using at(1,2)
  proof (rule forward_inputE)
  qed (use Line at(3,4) assms(3) in
    \<open>auto simp: forward_next_def forward_line_def Let_def edit_into_def forward_flen_def forward_ok_def\<close>)
next
  case (Key k)
  then have "forward_good w0 s"
    using assms(1,2) by (auto simp: forward_inv_def)
  from forward_insert_defined [OF this, of env "g_world s"] show ?thesis
    by (auto simp: Key forward_next_def forward_enter_def Let_def split: key.splits)
qed

interpretation forward_dlg: dialog "\<lambda>s. s = forward_init junk w0" g_prompt "forward_next env" forward_ok
  "forward_inv w0"
  for junk w0 env
  by unfold_locales
    (auto simp: forward_init_inv intro: forward_next_inv dest: forward_next_defined)

subsection \<open>How a run ends\<close>

lemma forward_down_prompt: "g_prompt (forward_down s) \<noteq> Returned v"
  by (simp add: forward_down_def Let_def forward_ops)

lemma forward_goto_down_prompt: "g_prompt (forward_goto_down p s) \<noteq> Returned v"
  by (simp add: forward_goto_down_def forward_down_prompt)

lemma forward_returned_by_enter:
  assumes "forward_next env e s = Some s'" "g_prompt s' = Returned v" "accepts (g_prompt s) e"
  shows "forward_enter env s = Some s' \<and> (g_p s = 9 \<or> g_p s = 10) \<and> g_p s' = g_p s \<and> g_prompt s = Wgetch"
proof (cases e)
  case (Line str key)
  then show ?thesis
    using assms(1,2)
    by (auto simp: forward_next_def forward_line_def Let_def bind_eq_Some_conv forward_goto_down_prompt
        split: if_splits)
next
  case (Key k)
  then have w: "g_prompt s = Wgetch"
    using assms(3) by (cases "g_prompt s") auto
  have "g_prompt (forward_left s) \<noteq> Returned v" "g_prompt (forward_right s) \<noteq> Returned v"
    "g_prompt (forward_up s) \<noteq> Returned v" "g_prompt (forward_space s) \<noteq> Returned v"
    using w by (auto simp: forward_left_def forward_right_def forward_up_def forward_space_def Let_def
        forward_ops forward_goto_down_prompt)
  then show ?thesis
    using assms(1,2) forward_down_prompt [of s v] w
    by (auto simp: Key forward_next_def forward_enter_def Let_def bind_eq_Some_conv
        split: key.splits if_splits)
qed

lemma forward_returned_run:
  assumes "run_events g_prompt (forward_next env) es (forward_init junk w0) = Some s'"
    and "g_prompt s' = Returned v"
  obtains s where "forward_inv w0 s" "g_prompt s = Wgetch" "forward_enter env s = Some s'"
    "g_p s' = g_p s"
proof -
  have "es \<noteq> []"
    using assms by (auto simp: forward_init_def Let_def)
  then obtain fs e where es: "es = fs @ [e]"
    by (cases es rule: rev_cases) auto
  then obtain s where s: "run_events g_prompt (forward_next env) fs (forward_init junk w0) = Some s"
    and e: "accepts (g_prompt s) e" "forward_next env e s = Some s'"
    using assms(1) by (auto simp: run_events_append bind_eq_Some_conv split: if_splits option.splits)
  then show thesis
    using that forward_dlg.run_inv [OF forward_init_inv s] forward_returned_by_enter [OF e(2) assms(2) e(1)]
    by auto
qed

lemma forward_enter_ok:
  assumes "forward_inv w0 s" "g_prompt s = Wgetch" "forward_enter env s = Some s'" "g_p s = 9"
    and "g_prompt s' = Returned v" "spares env {fwd_text (g_rule s')} RULESCRIPT"
  shows "contents RULESCRIPT (g_world s') = contents RULESCRIPT w0 @ fwd_text (g_rule s') @ [nl] \<and>
    commands (trace (g_world s')) = commands (trace w0) @ [fwd_text (g_rule s')] \<and>
    devdb (g_world s') = devdb w0"
proof -
  let ?r = "forward_fields s"
  have good: "forward_good w0 s"
    using assms(1,2) by (auto simp: forward_inv_def)
  obtain c w where w: "insert_rule_text env ?r (g_world s) = Some (c, w)"
    using assms(3,4) by (auto simp: forward_enter_def Let_def bind_eq_Some_conv)
  then have s': "c = 0" "s' = s\<lparr>g_rule := ?r,
      g_world := emit [Msgbox ''ClosedBSD: Notice'' ''Rule has been added''] w,
      g_prompt := Returned ditem_continue\<rparr>"
    using assms(2-5) by (auto simp: forward_enter_def Let_def split: if_splits)
  have r: "r_action ?r = FWD" "r_proto ?r = TCP \<or> r_proto ?r = UDP" "length (fwd_text ?r) < 256"
    using good forward_text_fits by (auto simp: forward_good_def)
  have "writable env RULESCRIPT"
    using w s'(1) by (auto simp: insert_rule_text_def split: if_splits)
  then show ?thesis
    using insert_forward [OF _ r, of env "g_world s"] assms(6) w s' good
      untouched_contents [of w0 "g_world s" RULESCRIPT]
    by (auto simp: forward_good_def untouched_def world)
qed

subsection \<open>The rule on the screen\<close>

text \<open>The place of each input, which is where \<open>forw_input\<close> calls \<open>line_edit\<close>.\<close>

definition forward_place :: "int \<Rightarrow> int \<times> int" where
  "forward_place p = (if p = 3 then (8, 20) else if p = 4 then (8, 56) else if p = 5 then (11, 20) else if p = 6 then (11, 56)
     else if p = 7 then (14, 20) else (14, 56))"

definition forward_line_at :: "forward_st \<Rightarrow> bool" where
  "forward_line_at s \<longleftrightarrow> (\<forall>sel n. g_prompt s = Editing sel n \<longrightarrow> latest the_line None (trace (g_world s)) = Some (forward_place sel))"

lemma forward_line_at_wgetch: "g_prompt s = Wgetch \<Longrightarrow> forward_line_at s"
  by (simp add: forward_line_at_def)

lemma forward_line_at_down: "forward_line_at (forward_down s)"
  by (simp add: forward_down_def Let_def forward_line_at_def forward_ops forw_input_act_def the_line_def forward_place_def)

lemma forward_line_at_next:
  assumes "forward_next env e s = Some s'" and "accepts (g_prompt s) e"
  shows "forward_line_at s'"
proof (cases e)
  case (Line str key)
  then show ?thesis
    using assms(1) forward_line_at_down
    by (auto simp: forward_next_def forward_line_def Let_def bind_eq_Some_conv forward_goto_down_def split: if_splits)
next
  case (Key k)
  then have w: "g_prompt s = Wgetch" using assms(2) by (cases "g_prompt s") auto
  have "forward_line_at (forward_left s)" "forward_line_at (forward_right s)" "forward_line_at (forward_up s)" "forward_line_at (forward_space s)"
    using w by (auto simp: forward_left_def forward_right_def forward_up_def forward_space_def Let_def forward_ops
        forward_goto_down_def forward_line_at_down intro: forward_line_at_wgetch)
  moreover have "forward_line_at s'" if "forward_enter env s = Some s'"
    using that w by (auto simp: forward_enter_def Let_def bind_eq_Some_conv forward_line_at_def split: if_splits)
  ultimately show ?thesis
    using assms(1) forward_line_at_down forward_line_at_wgetch [OF w]
    by (auto simp: Key forward_next_def split: key.splits if_splits)
qed

lemma forward_line_at_init: "forward_line_at (forward_init junk w0)"
  by (simp add: forward_init_def Let_def forward_line_at_def)

text \<open>The six inputs.\<close>

definition forward_inputs :: "forward_st \<Rightarrow> string list" where
  "forward_inputs s = [g_src s, g_src_port s, g_dst s, g_dst_port s, g_forw s, g_forw_port s]"

lemma forward_down_inputs: "forward_inputs (forward_down s) = forward_inputs s"
  by (simp add: forward_down_def Let_def forward_inputs_def forward_ops)

lemma forward_goto_down_inputs: "forward_inputs (forward_goto_down p s) = forward_inputs s"
  by (simp add: forward_goto_down_def forward_down_inputs) (simp add: forward_inputs_def)

lemma forward_key_keeps:
  assumes "forward_next env (Key k) s = Some s'"
  shows "forward_inputs s' = forward_inputs s"
proof -
  have "forward_inputs (forward_left s) = forward_inputs s" "forward_inputs (forward_right s) = forward_inputs s"
    "forward_inputs (forward_space s) = forward_inputs s" "forward_inputs (forward_up s) = forward_inputs s"
    by (simp_all add: forward_left_def forward_right_def forward_space_def forward_up_def Let_def forward_goto_down_inputs)
      (simp_all add: forward_inputs_def forward_ops)
  then show ?thesis
    using assms forward_down_inputs [of s]
    by (auto simp: forward_next_def forward_enter_def Let_def bind_eq_Some_conv split: key.splits if_splits)
      (simp_all add: forward_inputs_def)
qed

lemma forward_line_keeps:
  assumes "forward_line str key s = Some s'" and "3 \<le> g_p s" "g_p s \<le> 8"
  shows "forward_inputs s' = (forward_inputs s)[nat (g_p s - 3) := str]"
  using assms(2,3)
proof (rule forward_inputE)
qed (use assms(1) in \<open>auto simp: forward_line_def Let_def edit_into_def forward_goto_down_inputs split: if_splits\<close>,
  (simp_all add: forward_inputs_def)?)

lemma forward_field_step:
  assumes "forward_inv w0 s \<and> forward_line_at s" and "accepts (g_prompt s) e" and "forward_next env e s = Some s'" and "i < 6"
  shows "forward_inputs s' ! i = entry_at g_world (forward_place (int i + 3)) e s (forward_inputs s ! i)"
proof (cases e)
  case (Key k)
  then show ?thesis using forward_key_keeps [of env k s s'] assms(3) by (simp add: entry_at_def)
next
  case (Line str key)
  then obtain n where ed: "g_prompt s = Editing (g_p s) n" "3 \<le> g_p s" "g_p s \<le> 8"
    using assms(1,2) by (cases "g_prompt s") (auto simp: forward_inv_def forward_placed_def)
  then have "latest the_line None (trace (g_world s)) = Some (forward_place (g_p s))"
    using assms(1) by (auto simp: forward_line_at_def)
  moreover have "forward_place (g_p s) = forward_place (int i + 3) \<longleftrightarrow> i = nat (g_p s - 3)"
  proof -
    have "i = 0 \<or> i = 1 \<or> i = 2 \<or> i = 3 \<or> i = 4 \<or> i = 5" using assms(4) by auto
    then show ?thesis
      by (cases rule: forward_inputE [OF ed(2,3), case_names a b c d e f]) (auto simp: forward_place_def)
  qed
  moreover have "length (forward_inputs s) = 6" by (simp add: forward_inputs_def)
  ultimately show ?thesis
    using forward_line_keeps [of str key s s'] assms(3,4) ed(2,3) Line
    by (auto simp: forward_next_def entry_at_def nth_list_update)
qed

interpretation forward_lines: dialog "\<lambda>s. s = forward_init junk w0" g_prompt "forward_next env" forward_ok
  "\<lambda>s. forward_inv w0 s \<and> forward_line_at s"
  for junk w0 env
  by unfold_locales
    (auto simp: forward_init_inv forward_line_at_init intro: forward_next_inv forward_line_at_next dest: forward_next_defined)

text \<open>
  The rule on the screen: the protocol marked in the box last drawn, and the lines last typed at the six inputs, in the
  rows of \<open>packet src\<close>, \<open>packet dst\<close> and \<open>forward to\<close>.
\<close>

definition forward_on_screen :: "env \<Rightarrow> ruleset \<Rightarrow> world \<Rightarrow> event list \<Rightarrow> act list \<Rightarrow> ruleset" where
  "forward_on_screen env junk w0 es acts =
     (let line = (\<lambda>y x. typed g_world (forward_next env) (y, x) [] es (forward_init junk w0))
      in zero_rule
        \<lparr>r_action := FWD, r_proto := snd (the (latest the_protocol None acts)), r_src := line 8 20, r_src_port := line 8 56,
         r_dst := line 11 20, r_dst_port := line 11 56, r_other_a := line 14 20, r_other_b := line 14 56\<rparr>)"

lemma forward_inputs_nth:
  "forward_inputs s ! 0 = g_src s" "forward_inputs s ! 1 = g_src_port s" "forward_inputs s ! 2 = g_dst s"
  "forward_inputs s ! 3 = g_dst_port s" "forward_inputs s ! 4 = g_forw s" "forward_inputs s ! 5 = g_forw_port s"
  by (simp_all add: forward_inputs_def)

lemma forward_typed:
  assumes "run_events g_prompt (forward_next env) es (forward_init junk w0) = Some s" and "i < 6"
  shows "forward_inputs s ! i = typed g_world (forward_next env) (forward_place (int i + 3)) [] es (forward_init junk w0)"
proof -
  have i: "forward_inv w0 (forward_init junk w0) \<and> forward_line_at (forward_init junk w0)"
    by (simp add: forward_init_inv forward_line_at_init)
  have "forward_inputs (forward_init junk w0) = replicate 6 []"
    by (simp add: forward_init_def Let_def forward_inputs_def eval_nat_numeral)
  moreover have "forward_inputs s ! i =
      typed g_world (forward_next env) (forward_place (int i + 3)) (forward_inputs (forward_init junk w0) ! i) es (forward_init junk w0)"
    by (rule forward_lines.typed_field [where f = "\<lambda>s. forward_inputs s ! i", OF _ i assms(1)]) (rule forward_field_step [OF _ _ _ assms(2)])
  ultimately show ?thesis using assms(2) by simp
qed

lemma forward_on_screen_is:
  assumes "run_events g_prompt (forward_next env) es (forward_init junk w0) = Some s"
    and "g_prompt s = Returned v" and "g_p s = 9"
  shows "fwd_text (forward_on_screen env junk w0 es (trace (g_world s))) = fwd_text (g_rule s)"
proof -
  obtain t where t: "forward_inv w0 t" "g_prompt t = Wgetch" "forward_enter env t = Some s" "g_p t = 9"
    using forward_returned_run [OF assms(1,2)] assms(3) by metis
  have g: "forward_good w0 t" and sh: "forward_shows 9 t"
    using t(1,2,4) by (auto simp: forward_inv_def forward_placed_def)
  obtain c w where w: "insert_rule_text env (forward_fields t) (g_world t) = Some (c, w)"
    using t(3,4) by (auto simp: forward_enter_def Let_def bind_eq_Some_conv)
  then have s: "s = t\<lparr>g_rule := forward_fields t,
      g_world := emit [Msgbox ''ClosedBSD: Notice'' ''Rule has been added''] w, g_prompt := Returned ditem_continue\<rparr>"
    using t(2-4) assms(2) by (auto simp: forward_enter_def Let_def split: if_splits)
  have p: "latest the_protocol None (trace (g_world s)) = Some (hl 1 2 9, r_proto (g_rule t))"
    using sh insert_trace [OF w] by (auto simp: s forward_shows_def the_defs)
  have f: "g_rule s = (g_rule t)\<lparr>r_src := g_src s, r_src_port := g_src_port s, r_dst := g_dst s,
      r_dst_port := g_dst_port s, r_other_a := g_forw s, r_other_b := g_forw_port s\<rparr>"
    using forward_fields_eq [of t] g by (simp add: s forward_good_def)
  note line = forward_typed [OF assms(1), of 0] forward_typed [OF assms(1), of 1] forward_typed [OF assms(1), of 2]
    forward_typed [OF assms(1), of 3] forward_typed [OF assms(1), of 4] forward_typed [OF assms(1), of 5]
  show ?thesis
    using line unfolding forward_inputs_nth
    by (simp add: f p forward_on_screen_def Let_def fwd_text_def forward_place_def)
qed

subsection \<open>What the dialog does\<close>

text \<open>
  C15. OK in the forwarding dialog: a run that ends there has appended to \<open>/etc/rules\<close>, and run, exactly
  the command line of the rule on the screen, the protocol marked in the box and the lines typed at the six inputs,
  once; a run that ends at Cancel has changed nothing.
\<close>

theorem forward_ends:
  assumes "run_events g_prompt (forward_next env) es (forward_init junk w0) = Some s" and "g_prompt s = Returned v"
  defines "line \<equiv> fwd_text (forward_on_screen env junk w0 es (trace (g_world s)))"
  assumes "spares env {line} RULESCRIPT"
  shows "(g_p s = 9 \<and>
      contents RULESCRIPT (g_world s) = contents RULESCRIPT w0 @ line @ [nl] \<and>
      commands (trace (g_world s)) = commands (trace w0) @ [line] \<and>
      devdb (g_world s) = devdb w0) \<or>
    (g_p s = 10 \<and> files (g_world s) = files w0 \<and> devdb (g_world s) = devdb w0 \<and>
      commands (trace (g_world s)) = commands (trace w0))"
proof -
  obtain t where t: "forward_inv w0 t" "g_prompt t = Wgetch" "forward_enter env t = Some s"
    "g_p s = g_p t"
    using forward_returned_run [OF assms(1,2)] by metis
  show ?thesis
  proof (cases "g_p t = 9")
    case True
    then have "line = fwd_text (g_rule s)"
      using forward_on_screen_is [OF assms(1,2)] t(4) by (simp add: line_def)
    then show ?thesis
      using forward_enter_ok [OF t(1-3) True assms(2)] assms(4) t(4) True by simp
  next
    case False
    then have "g_p t = 10" "g_world s = g_world t"
      using t assms(2) by (auto simp: forward_enter_def forward_inv_def forward_placed_def split: if_splits)
    then show ?thesis
      using t by (auto simp: forward_inv_def forward_good_def untouched_def)
  qed
qed

text \<open>
  The invariant of the forwarding dialog: the cursor is on a protocol, an input or a button,
  and is highlighted there and nowhere else; the protocol box shows the protocol of the rule, which is
  TCP or UDP; the ports fit their buffers; before OK nothing outside has been touched.
\<close>

theorem forward_invariant:
  assumes "reachable (\<lambda>s. s = forward_init junk w0) g_prompt (forward_next env) s"
    and "\<forall>v. g_prompt s \<noteq> Returned v"
  shows "(case g_prompt s of
      Wgetch \<Rightarrow> g_p s \<in> {1, 2, 9, 10} | Editing sel n \<Rightarrow> g_p s = sel \<and> sel \<in> {3..8}) \<and>
    forward_shows (g_p s) s \<and> r_action (g_rule s) = FWD \<and> r_proto (g_rule s) \<in> {TCP, UDP} \<and>
    length (g_src_port s) < 5 \<and> length (g_dst_port s) < 5 \<and> length (g_forw_port s) < 5 \<and>
    files (g_world s) = files w0 \<and> commands (trace (g_world s)) = commands (trace w0)"
proof -
  have "forward_inv w0 s"
    by (rule forward_dlg.reachable_inv [OF assms(1)])
  then show ?thesis
    using assms(2)
    by (cases "g_prompt s")
      (auto simp: forward_inv_def forward_placed_def forward_good_def forward_inputs_ok_def untouched_def)
qed

subsection \<open>Trying it\<close>

definition forward_keys :: "event list" where
  "forward_keys = [Key KEY_DOWN, Key KEY_DOWN, Line ''any'' KEY_DOWN, Line ''any'' KEY_DOWN,
     Line ''me'' KEY_DOWN, Line ''80'' KEY_DOWN, Line ''10.0.0.9'' KEY_DOWN, Line ''8080'' KEY_DOWN]"

definition forward_example :: "event list \<Rightarrow> forward_st" where
  "forward_example es =
     the (run_events g_prompt (forward_next calm) es (forward_init zero_rule blank_world))"

lemma some_forward:
  "run_events g_prompt (forward_next calm) es (forward_init zero_rule blank_world) \<noteq> None \<Longrightarrow>
   run_events g_prompt (forward_next calm) es (forward_init zero_rule blank_world) =
     Some (forward_example es)"
  by (auto simp: forward_example_def)

theorem forward_ends_witness:
  "contents RULESCRIPT (g_world (forward_example (forward_keys @ [Key ENTER]))) =
     ''/sbin/ipfw -q add fwd 10.0.0.9,8080 tcp from any to me 80'' @ [nl]"
proof -
  let ?s = "forward_example (forward_keys @ [Key ENTER])"
  have run: "run_events g_prompt (forward_next calm) (forward_keys @ [Key ENTER])
      (forward_init zero_rule blank_world) = Some ?s"
    by (rule some_forward) code_simp
  have "g_prompt ?s = Returned ditem_continue" "g_p ?s = 9"
    "fwd_text (forward_on_screen calm zero_rule blank_world (forward_keys @ [Key ENTER]) (trace (g_world ?s))) = ''/sbin/ipfw -q add fwd 10.0.0.9,8080 tcp from any to me 80''"
    by code_simp+
  then show ?thesis
    using forward_ends [OF run] by (simp add: contents_def blank_world_def)
qed

theorem forward_invariant_witness:
  "forward_shows 9 (forward_example forward_keys)"
proof -
  let ?s = "forward_example forward_keys"
  have run: "run_events g_prompt (forward_next calm) forward_keys
      (forward_init zero_rule blank_world) = Some ?s"
    by (rule some_forward) code_simp
  have "g_prompt ?s = Wgetch" "g_p ?s = 9"
    by code_simp+
  moreover have "reachable (\<lambda>s. s = forward_init zero_rule blank_world) g_prompt (forward_next calm) ?s"
    using run by (auto simp: reachable_run)
  ultimately show ?thesis
    using forward_invariant [of zero_rule blank_world calm ?s] by simp
qed

end
