(* ===== verification/Devices.thy ===== *)
theory Devices
  imports World
begin

text \<open>
  \<open>closedbsd/config/db.c\<close>: the database of configured devices, a b-tree of \<open>struct device\<close> under
  their ids. The queries return \<open>None\<close> where the code has no defined behaviour: without
  \<open>O_CREAT\<close>, \<open>dbopen\<close> of a missing file is \<open>NULL\<close>, and the code calls through it. \<open>put\<close> and
  \<open>close\<close> are taken to succeed.
\<close>

subsection \<open>Writing\<close>

definition DEVICES :: string where "DEVICES = ''/etc/devices.db''"

definition configure_device :: "env \<Rightarrow> device \<Rightarrow> world \<Rightarrow> world" where
  "configure_device env d w =
     (let w = (if d_dhcp d = DHCP_DISABLED then
                 (if d_ext d = 1 then
                    let w = run env (snprintf 256
                          (''/sbin/ifconfig '' @ d_device d @ '' '' @ d_ip d @ '' '' @ d_netmask d)) w;
                        w = run env (snprintf 256 ''/sbin/route delete default >>/dev/null'') w
                    in run env (snprintf 256
                          (''/sbin/route add default '' @ d_gateway d @ '' >>/dev/null'')) w
                  else run env (snprintf 256
                          (''/sbin/ifconfig '' @ d_device d @ '' '' @ d_ip d @ '' '' @ d_netmask d)) w)
               else w)
      in if d_dhcp d = DHCP_ENABLED then
           run env (snprintf 256 (''/sbin/dhclient '' @ d_device d @ [nl])) w
         else w)"

definition insert_device :: "env \<Rightarrow> device \<Rightarrow> world \<Rightarrow> (int \<times> world) option" where
  "insert_device env d w =
     (if \<not> writable env DEVICES then None
      else let t = (case devdb w of None \<Rightarrow> [] | Some t \<Rightarrow> t);
               w = w\<lparr>devdb := Some (btput (id_key (d_id d)) d t)\<rparr>
           in Some (0, configure_device env d w))"

subsection \<open>Reading\<close>

text \<open>The loop \<open>while (db->seq(db, &key, &dbt, R_NEXT) == 0)\<close> up to the record it returns at.\<close>

fun seq_find :: "(device \<Rightarrow> bool) \<Rightarrow> device list \<Rightarrow> device option" where
  "seq_find f [] = None"
| "seq_find f (d # ds) = (if f d then Some d else seq_find f ds)"

definition unset_ext :: "env \<Rightarrow> int \<Rightarrow> world \<Rightarrow> (int \<times> world) option" where
  "unset_ext env device_id w = do {
     t \<leftarrow> devdb w;
     case seq_find (\<lambda>d. d_id d = device_id) (btseq t) of
       Some d \<Rightarrow> do { (_, w) \<leftarrow> insert_device env (d\<lparr>d_ext := 0\<rparr>) w; Some (0, w) }
     | None \<Rightarrow> Some (- 1, w)
   }"

definition dev_ext :: "world \<Rightarrow> string option option" where
  "dev_ext w = do {
     t \<leftarrow> devdb w;
     Some (map_option d_device (seq_find (\<lambda>d. d_ext d = 1) (btseq t)))
   }"

definition ext_exist :: "world \<Rightarrow> int option" where
  "ext_exist w = do {
     t \<leftarrow> devdb w;
     case seq_find (\<lambda>d. d_ext d = 1) (btseq t) of Some d \<Rightarrow> Some (d_id d) | None \<Rightarrow> Some (- 1)
   }"

definition next_device_id :: "world \<Rightarrow> int option" where
  "next_device_id w = do { t \<leftarrow> devdb w; Some (fold (\<lambda>_ i. i + 1) (btseq t) 0) }"

definition dtoi :: "string \<Rightarrow> world \<Rightarrow> string option option" where
  "dtoi device w = do {
     t \<leftarrow> devdb w;
     Some (map_option d_ip (seq_find (\<lambda>d. d_device d = device) (btseq t)))
   }"

definition dev_ip :: "string \<Rightarrow> world \<Rightarrow> string option option" where
  "dev_ip device w = do {
     t \<leftarrow> devdb w;
     Some (map_option d_ip (seq_find (\<lambda>d. d_device d = device \<and> length (d_ip d) > 1) (btseq t)))
   }"

definition dev_netmask :: "string \<Rightarrow> world \<Rightarrow> string option option" where
  "dev_netmask device w = do {
     t \<leftarrow> devdb w;
     Some (map_option d_netmask
       (seq_find (\<lambda>d. d_device d = device \<and> length (d_netmask d) > 1) (btseq t)))
   }"

definition dev_gateway :: "string \<Rightarrow> world \<Rightarrow> string option option" where
  "dev_gateway device w = do {
     t \<leftarrow> devdb w;
     Some (map_option d_gateway
       (seq_find (\<lambda>d. d_device d = device \<and> length (d_gateway d) > 1) (btseq t)))
   }"

definition device_exist :: "string \<Rightarrow> world \<Rightarrow> int option" where
  "device_exist device w = do {
     t \<leftarrow> devdb w;
     case seq_find (\<lambda>d. d_device d = device) (btseq t) of Some d \<Rightarrow> Some (d_id d) | None \<Rightarrow> Some (- 1)
   }"

subsection \<open>The table of devices\<close>

text \<open>No two records have the same name; at most one is external.\<close>

definition named_apart :: "device set \<Rightarrow> bool" where
  "named_apart ds \<longleftrightarrow> inj_on d_device ds"

definition one_external :: "device set \<Rightarrow> bool" where
  "one_external ds \<longleftrightarrow> (\<forall>d \<in> ds. \<forall>e \<in> ds. d_ext d = 1 \<longrightarrow> d_ext e = 1 \<longrightarrow> d = e)"

text \<open>
  What the callers rely on, as an interface: a table of records with the ids from 0 up to the
  number \<open>fresh\<close>, in which \<open>put\<close> adds a record or replaces the one of the same id.
\<close>

locale device_table =
  fixes recs :: "'s \<Rightarrow> device set"
    and fresh :: "'s \<Rightarrow> int"
    and put :: "device \<Rightarrow> 's \<Rightarrow> 's"
    and ok :: "'s \<Rightarrow> bool"
    and limit :: int
  assumes ids: "ok s \<Longrightarrow> d_id ` recs s = {0..<fresh s}"
    and ids_inj: "ok s \<Longrightarrow> inj_on d_id (recs s)"
    and recs_put: "ok s \<Longrightarrow> 0 \<le> d_id d \<Longrightarrow> d_id d \<le> fresh s \<Longrightarrow> d_id d < limit \<Longrightarrow>
      recs (put d s) = insert d {e \<in> recs s. d_id e \<noteq> d_id d}"
    and ok_put: "ok s \<Longrightarrow> 0 \<le> d_id d \<Longrightarrow> d_id d \<le> fresh s \<Longrightarrow> d_id d < limit \<Longrightarrow> ok (put d s)"
    and fresh_nonneg: "ok s \<Longrightarrow> 0 \<le> fresh s"
begin

lemma fresh_put:
  assumes "ok s" "0 \<le> d_id d" "d_id d \<le> fresh s" "d_id d < limit"
  shows "fresh (put d s) = (if d_id d = fresh s then fresh s + 1 else fresh s)"
proof -
  have "{0..<fresh (put d s)} = insert (d_id d) {0..<fresh s}"
  proof -
    have "d_id ` recs (put d s) = insert (d_id d) (d_id ` recs s)"
      using recs_put [OF assms] by auto
    then show ?thesis
      using ids [OF assms(1)] ids [OF ok_put [OF assms]] by simp
  qed
  also have "\<dots> = {0..<(if d_id d = fresh s then fresh s + 1 else fresh s)}"
    using assms fresh_nonneg [OF assms(1)] by auto
  finally have "card {0..<fresh (put d s)} = card {0..<(if d_id d = fresh s then fresh s + 1 else fresh s)}"
    by (rule arg_cong)
  then show ?thesis
    using fresh_nonneg [OF assms(1)] fresh_nonneg [OF ok_put [OF assms]] by (simp split: if_splits)
qed

text \<open>A record is replaced by one of the same name, or added under a new name: names stay apart.\<close>

lemma named_apart_put:
  assumes "ok s" "named_apart (recs s)" "0 \<le> d_id d" "d_id d \<le> fresh s" "d_id d < limit"
    and "\<forall>e \<in> recs s. d_device e = d_device d \<longrightarrow> d_id e = d_id d"
  shows "named_apart (recs (put d s))"
  using assms recs_put [OF assms(1,3-5)]
  by (auto simp: named_apart_def inj_on_def)

lemma put_internal:
  assumes "ok s" "one_external (recs s)" "d \<in> recs s" "d_ext d = 1" "d_id d < limit"
  shows "\<forall>e \<in> recs (put (d\<lparr>d_ext := 0\<rparr>) s). d_ext e \<noteq> 1"
proof -
  have "d_id d \<in> {0..<fresh s}" using assms(1,3) ids by blast
  then have "recs (put (d\<lparr>d_ext := 0\<rparr>) s) = insert (d\<lparr>d_ext := 0\<rparr>) {e \<in> recs s. d_id e \<noteq> d_id d}"
    using assms(1,5) recs_put [of s "d\<lparr>d_ext := 0\<rparr>"] by simp
  then show ?thesis
    using assms(2-4) by (auto simp: one_external_def)
qed

lemma one_external_put:
  assumes "ok s" "0 \<le> d_id d" "d_id d \<le> fresh s" "d_id d < limit"
    and "d_ext d = 1 \<longrightarrow> (\<forall>e \<in> recs s. d_ext e \<noteq> 1)" "one_external (recs s)"
  shows "one_external (recs (put d s))"
  using assms recs_put [OF assms(1-4)] by (auto simp: one_external_def)

end

text \<open>
  The b-tree provides it: each record lies under the key of its id, and the ids are those from 0
  up to the number of records.
\<close>

definition table_recs :: "device btree \<Rightarrow> device set" where
  "table_recs t = set (btseq t)"

definition table_ok :: "device btree \<Rightarrow> bool" where
  "table_ok t \<longleftrightarrow> bt_ok t \<and> (\<forall>(k, d) \<in> set t. k = id_key (d_id d)) \<and>
     d_id ` table_recs t = {0..<int (length t)} \<and> int (length t) \<le> 2 ^ 31"

definition table_put :: "device \<Rightarrow> device btree \<Rightarrow> device btree" where
  "table_put d t = btput (id_key (d_id d)) d t"

lemma table_key: "table_ok t \<Longrightarrow> (k, d) \<in> set t \<Longrightarrow> k = id_key (d_id d)"
  by (auto simp: table_ok_def)

lemma table_ids:
  assumes "table_ok t" "d \<in> table_recs t"
  shows "0 \<le> d_id d" "d_id d < 2 ^ 31"
proof -
  have "d_id d \<in> {0..<int (length t)}" using assms by (auto simp: table_ok_def)
  then show "0 \<le> d_id d" "d_id d < 2 ^ 31" using assms(1) by (auto simp: table_ok_def)
qed

lemma table_recs_put:
  assumes "table_ok t" "0 \<le> d_id d" "d_id d < 2 ^ 31"
  shows "table_recs (table_put d t) = insert d {e \<in> table_recs t. d_id e \<noteq> d_id d}"
proof -
  have b: "bt_ok t" using assms(1) by (simp add: table_ok_def)
  have eq: "id_key (d_id e) = id_key (d_id d) \<longleftrightarrow> d_id e = d_id d" if "e \<in> table_recs t" for e
    using that assms table_ids [OF assms(1) that] by (intro id_key_inject) auto
  have "table_recs (table_put d t) = snd ` insert (id_key (d_id d), d) {e \<in> set t. fst e \<noteq> id_key (d_id d)}"
    using bt.set_put [OF b, of "id_key (d_id d)" d] by (simp add: table_recs_def table_put_def btseq_def)
  also have "\<dots> = insert d {e \<in> table_recs t. id_key (d_id e) \<noteq> id_key (d_id d)}"
    using table_key [OF assms(1)] by (force simp: table_recs_def btseq_def)
  also have "\<dots> = insert d {e \<in> table_recs t. d_id e \<noteq> d_id d}"
    using eq by auto
  finally show ?thesis .
qed

lemma table_ids_inj: "table_ok t \<Longrightarrow> inj_on d_id (table_recs t)"
proof -
  assume t: "table_ok t"
  then have "distinct (map fst t)" using bt_ok_distinct by (auto simp: table_ok_def)
  moreover have "map fst t = map id_key (map d_id (btseq t))"
    using table_key [OF t] by (auto simp: btseq_def)
  ultimately have "distinct (map d_id (btseq t))" by (metis distinct_map)
  then show ?thesis by (simp add: table_recs_def distinct_map)
qed

lemma table_key_in:
  assumes "table_ok t" "0 \<le> i" "i < 2 ^ 31"
  shows "id_key i \<in> fst ` set t \<longleftrightarrow> i \<in> d_id ` table_recs t"
proof
  assume "id_key i \<in> fst ` set t"
  then obtain d where d: "(id_key i, d) \<in> set t" by auto
  then have r: "d \<in> table_recs t" by (force simp: table_recs_def btseq_def)
  have "id_key i = id_key (d_id d)" using table_key [OF assms(1) d] .
  then have "i = d_id d"
    using assms(2,3) table_ids [OF assms(1) r] by (subst (asm) id_key_inject) auto
  then show "i \<in> d_id ` table_recs t" using r by blast
next
  assume "i \<in> d_id ` table_recs t"
  then obtain k d where "(k, d) \<in> set t" "i = d_id d"
    by (auto simp: table_recs_def btseq_def)
  then show "id_key i \<in> fst ` set t"
    using table_key [OF assms(1)] by force
qed

lemma table_length_put:
  assumes "table_ok t" "0 \<le> d_id d" "d_id d < 2 ^ 31"
  shows "length (table_put d t) =
    (if d_id d \<in> d_id ` table_recs t then length t else Suc (length t))"
  using bt.length_put_new [of t "id_key (d_id d)" d] bt.length_put_old [of t "id_key (d_id d)" d]
    table_key_in [OF assms] assms(1)
  by (auto simp: table_put_def table_ok_def)

lemma table_ok_put:
  assumes "table_ok t" "0 \<le> d_id d" "d_id d \<le> int (length t)" "d_id d < 2 ^ 31"
  shows "table_ok (table_put d t)"
proof -
  have ids: "d_id ` table_recs t = {0..<int (length t)}"
    using assms(1) by (simp add: table_ok_def)
  have "d_id ` table_recs (table_put d t) = insert (d_id d) {0..<int (length t)}"
    unfolding table_recs_put [OF assms(1,2,4)] ids [symmetric] by auto
  also have "\<dots> = {0..<int (length (table_put d t))}"
    unfolding table_length_put [OF assms(1,2,4)] ids using assms(2,3) by auto
  finally have 1: "d_id ` table_recs (table_put d t) = {0..<int (length (table_put d t))}" .
  have 2: "int (length (table_put d t)) \<le> 2 ^ 31"
    unfolding table_length_put [OF assms(1,2,4)] ids using assms by (auto simp: table_ok_def)
  have "set (table_put d t) = insert (id_key (d_id d), d) {e \<in> set t. fst e \<noteq> id_key (d_id d)}"
    using bt.set_put [of t "id_key (d_id d)" d] assms(1) by (simp add: table_put_def table_ok_def)
  then have 3: "\<forall>(k, e) \<in> set (table_put d t). k = id_key (d_id e)"
    using table_key [OF assms(1)] by auto
  have "bt_ok (table_put d t)"
    using assms(1) by (simp add: table_put_def table_ok_def bt_ok_btput)
  then show ?thesis using 1 2 3 by (simp add: table_ok_def)
qed

lemma table_id_range: "table_ok t \<Longrightarrow> d_id ` table_recs t = {0..<int (length t)}"
  by (simp add: table_ok_def)

interpretation dt: device_table table_recs "\<lambda>t. int (length t)" table_put table_ok "2 ^ 31"
proof unfold_locales
  show "table_recs (table_put d t) = insert d {e \<in> table_recs t. d_id e \<noteq> d_id d}"
    if "table_ok t" "0 \<le> d_id d" "d_id d \<le> int (length t)" "d_id d < 2 ^ 31" for t d
    using that(1,2,4) by (rule table_recs_put)
qed (rule table_id_range table_ids_inj table_ok_put of_nat_0_le_iff; assumption?)+

subsection \<open>What the queries answer\<close>

lemma seq_find_Some: "seq_find f ds = Some d \<Longrightarrow> d \<in> set ds \<and> f d"
  by (induction ds) (auto split: if_splits)

lemma seq_find_None [simp]: "seq_find f ds = None \<longleftrightarrow> (\<forall>d \<in> set ds. \<not> f d)"
  by (induction ds) auto

lemma seq_find_only:
  assumes "d \<in> set ds" "f d" "\<And>e. e \<in> set ds \<Longrightarrow> f e \<Longrightarrow> e = d"
  shows "seq_find f ds = Some d"
proof (cases "seq_find f ds")
  case None
  then show ?thesis using assms(1,2) by auto
next
  case (Some e)
  then show ?thesis using assms(3) seq_find_Some by fastforce
qed

lemma fold_count: "fold (\<lambda>_ i. i + 1) xs (n :: int) = n + int (length xs)"
  by (induction xs arbitrary: n) auto

lemma next_device_id_eq: "devdb w = Some t \<Longrightarrow> next_device_id w = Some (int (length t))"
  by (simp add: next_device_id_def fold_count btseq_def)

lemma configure_device_devdb [simp]: "devdb (configure_device env d w) = devdb w"
  by (simp add: configure_device_def Let_def world)

text \<open>The commands that configure a device.\<close>

definition device_wf :: "device \<Rightarrow> bool" where
  "device_wf d \<longleftrightarrow> length (d_device d) < 6 \<and> length (d_ip d) < 16 \<and> length (d_netmask d) < 16 \<and>
     length (d_gateway d) < 16"

definition device_commands :: "device \<Rightarrow> string list" where
  "device_commands d =
     (case d_dhcp d of
        DHCP_ENABLED \<Rightarrow> [''/sbin/dhclient '' @ d_device d @ [nl]]
      | DHCP_DISABLED \<Rightarrow>
          (''/sbin/ifconfig '' @ d_device d @ '' '' @ d_ip d @ '' '' @ d_netmask d) #
          (if d_ext d = 1 then [''/sbin/route delete default >>/dev/null'',
             ''/sbin/route add default '' @ d_gateway d @ '' >>/dev/null''] else []))"

lemma configure_device_commands:
  "device_wf d \<Longrightarrow>
   commands (trace (configure_device env d w)) = commands (trace w) @ device_commands d"
  by (cases "d_dhcp d")
    (simp_all add: configure_device_def device_commands_def device_wf_def Let_def world snprintf_fits)

lemma insert_device_eq:
  assumes "devdb w = Some t" "writable env DEVICES"
  shows "\<exists>w'. insert_device env d w = Some (0, w') \<and> devdb w' = Some (table_put d t) \<and>
    (device_wf d \<longrightarrow> commands (trace w') = commands (trace w) @ device_commands d)"
  using assms by (simp add: insert_device_def table_put_def Let_def configure_device_commands)

lemma device_exist_eq:
  assumes "devdb w = Some t" "named_apart (table_recs t)" "d \<in> table_recs t"
  shows "device_exist (d_device d) w = Some (d_id d)"
proof -
  have "seq_find (\<lambda>e. d_device e = d_device d) (btseq t) = Some d"
    using assms(2,3) by (intro seq_find_only) (auto simp: named_apart_def table_recs_def inj_on_def)
  then show ?thesis using assms(1) by (simp add: device_exist_def)
qed

lemma ext_exist_eq:
  assumes "devdb w = Some t" "one_external (table_recs t)" "d \<in> table_recs t" "d_ext d = 1"
  shows "ext_exist w = Some (d_id d)"
proof -
  have "seq_find (\<lambda>e. d_ext e = 1) (btseq t) = Some d"
    using assms(2-4) by (intro seq_find_only) (auto simp: one_external_def table_recs_def)
  then show ?thesis using assms(1) by (simp add: ext_exist_def)
qed

lemma unset_ext_eq:
  assumes "devdb w = Some t" "table_ok t" "d \<in> table_recs t" "writable env DEVICES"
  shows "\<exists>w'. unset_ext env (d_id d) w = Some (0, w') \<and> devdb w' = Some (table_put (d\<lparr>d_ext := 0\<rparr>) t)"
proof -
  have "seq_find (\<lambda>e. d_id e = d_id d) (btseq t) = Some d"
    using assms(3) table_ids_inj [OF assms(2)]
    by (intro seq_find_only) (auto simp: table_recs_def inj_on_def)
  then show ?thesis
    using assms(1) insert_device_eq [OF assms(1,4), of "d\<lparr>d_ext := 0\<rparr>"]
    by (auto simp: unset_ext_def)
qed

subsection \<open>Properties\<close>

text \<open>
  Inserting a device keeps the table well formed: under the next free id it adds a record, under
  an id in use it replaces that record and no other; the next free id counts the records.
\<close>

theorem insert_device_table:
  assumes "devdb w = Some t" and "table_ok t" and "next_device_id w = Some n"
    and "0 \<le> d_id d" and "d_id d \<le> n" and "d_id d < 2 ^ 31" and "writable env DEVICES"
  shows "\<exists>w' t'. insert_device env d w = Some (0, w') \<and> devdb w' = Some t' \<and> table_ok t' \<and>
    table_recs t' = insert d {e \<in> table_recs t. d_id e \<noteq> d_id d} \<and>
    next_device_id w' = Some (if d_id d = n then n + 1 else n)"
proof -
  have n: "n = int (length t)"
    using assms(1,3) next_device_id_eq by simp
  obtain w' where w': "insert_device env d w = Some (0, w')" "devdb w' = Some (table_put d t)"
    using insert_device_eq [OF assms(1,7)] by blast
  then show ?thesis
    using dt.ok_put [OF assms(2,4) _ assms(6)] dt.recs_put [OF assms(2,4) _ assms(6)]
      dt.fresh_put [OF assms(2,4) _ assms(6)] assms(5) next_device_id_eq [OF w'(2)]
    by (simp add: n)
qed

text \<open>
  C25. A device that is inserted is found: under its name its id, its address when it has one; and its
  address, netmask and route are set by exactly the commands its record asks for.
\<close>

theorem insert_device_found:
  assumes "devdb w = Some t" and "table_ok t" and "named_apart (table_recs t)"
    and "0 \<le> d_id d" and "d_id d \<le> int (length t)" and "d_id d < 2 ^ 31" and "device_wf d"
    and "\<forall>e \<in> table_recs t. d_device e = d_device d \<longrightarrow> d_id e = d_id d" and "writable env DEVICES"
  shows "\<exists>w'. insert_device env d w = Some (0, w') \<and>
    device_exist (d_device d) w' = Some (d_id d) \<and>
    dtoi (d_device d) w' = Some (Some (d_ip d)) \<and>
    dev_ip (d_device d) w' = Some (if 1 < length (d_ip d) then Some (d_ip d) else None) \<and>
    commands (trace w') = commands (trace w) @ device_commands d"
proof -
  obtain w' where w': "insert_device env d w = Some (0, w')" "devdb w' = Some (table_put d t)"
    "commands (trace w') = commands (trace w) @ device_commands d"
    using insert_device_eq [OF assms(1,9)] assms(7) by blast
  have ap: "named_apart (table_recs (table_put d t))"
    by (rule dt.named_apart_put [OF assms(2,3,4,5,6,8)])
  have in': "d \<in> table_recs (table_put d t)"
    using dt.recs_put [OF assms(2,4,5,6)] by simp
  have only: "e = d" if "e \<in> set (btseq (table_put d t))" "d_device e = d_device d" for e
    using ap that in' by (auto simp: named_apart_def inj_on_def table_recs_def)
  have "seq_find (\<lambda>e. d_device e = d_device d) (btseq (table_put d t)) = Some d"
    using in' only by (intro seq_find_only) (auto simp: table_recs_def)
  moreover have "seq_find (\<lambda>e. d_device e = d_device d \<and> 1 < length (d_ip e)) (btseq (table_put d t)) =
      (if 1 < length (d_ip d) then Some d else None)"
    using in' only by (auto intro!: seq_find_only simp: table_recs_def)
  ultimately show ?thesis
    using w' device_exist_eq [OF w'(2) ap in'] by (simp add: dtoi_def dev_ip_def)
qed

text \<open>
  C14. Taking the external role away: when at most one device is external, \<open>unset_ext\<close> on what
  \<open>ext_exist\<close> answers leaves no external device, and every other record as it was.
\<close>

theorem unset_ext_clears:
  assumes "devdb w = Some t" and "table_ok t" and "one_external (table_recs t)"
    and "ext_exist w = Some i" and "i \<noteq> - 1" and "writable env DEVICES"
  shows "\<exists>w' t'. unset_ext env i w = Some (0, w') \<and> devdb w' = Some t' \<and> table_ok t' \<and>
    dev_ext w' = Some None \<and> ext_exist w' = Some (- 1) \<and>
    {e \<in> table_recs t'. d_id e \<noteq> i} = {e \<in> table_recs t. d_id e \<noteq> i}"
proof -
  obtain d where d: "d \<in> table_recs t" "d_ext d = 1" "i = d_id d"
    using assms(1,4,5)
    by (auto simp: ext_exist_def table_recs_def split: option.splits dest: seq_find_Some)
  obtain w' where w': "unset_ext env i w = Some (0, w')" "devdb w' = Some (table_put (d\<lparr>d_ext := 0\<rparr>) t)"
    using unset_ext_eq [OF assms(1,2) d(1) assms(6)] d(3) by blast
  have id: "0 \<le> d_id d" "d_id d < 2 ^ 31" "d_id d \<le> int (length t)"
    using table_ids [OF assms(2) d(1)] table_id_range [OF assms(2)] imageI [OF d(1), of d_id] by auto
  have none: "\<forall>e \<in> table_recs (table_put (d\<lparr>d_ext := 0\<rparr>) t). d_ext e \<noteq> 1"
    by (rule dt.put_internal [OF assms(2,3) d(1,2) id(2)])
  then have f: "seq_find (\<lambda>e. d_ext e = 1) (btseq (table_put (d\<lparr>d_ext := 0\<rparr>) t)) = None"
    by (simp add: table_recs_def)
  have "table_recs (table_put (d\<lparr>d_ext := 0\<rparr>) t) =
      insert (d\<lparr>d_ext := 0\<rparr>) {e \<in> table_recs t. d_id e \<noteq> d_id d}"
    using table_recs_put [OF assms(2), of "d\<lparr>d_ext := 0\<rparr>"] id by simp
  then have "{e \<in> table_recs (table_put (d\<lparr>d_ext := 0\<rparr>) t). d_id e \<noteq> i} = {e \<in> table_recs t. d_id e \<noteq> i}"
    by (auto simp: d(3))
  moreover have "table_ok (table_put (d\<lparr>d_ext := 0\<rparr>) t)"
    using table_ok_put [OF assms(2), of "d\<lparr>d_ext := 0\<rparr>"] id by simp
  moreover have "dev_ext w' = Some None" "ext_exist w' = Some (- 1)"
    unfolding dev_ext_def ext_exist_def w'(2) bind.bind_lunit f by simp_all
  ultimately show ?thesis
    using w' by blast
qed

subsection \<open>Trying it\<close>

definition eth :: "int \<Rightarrow> string \<Rightarrow> int \<Rightarrow> device" where
  "eth i n x = \<lparr>d_id = i, d_device = n, d_ip = ''10.0.0.1'', d_netmask = ''255.0.0.0'',
     d_gateway = ''10.0.0.254'', d_ext = x, d_dhcp = DHCP_DISABLED\<rparr>"

definition two_cards :: "device btree" where
  "two_cards = table_put (eth 1 ''xl0'' 1) (table_put (eth 0 ''fxp0'' 0) [])"

lemma two_cards_eq: "two_cards = [([0, 0, 0, 0], eth 0 ''fxp0'' 0), ([1, 0, 0, 0], eth 1 ''xl0'' 1)]"
  by code_simp

lemma two_cards_ok: "table_ok two_cards"
proof -
  have "table_ok []" by (auto simp: table_ok_def bt_ok_def table_recs_def btseq_def)
  then have "table_ok (table_put (eth 0 ''fxp0'' 0) [])"
    by (rule table_ok_put) (simp_all add: eth_def)
  then show ?thesis
    unfolding two_cards_def by (rule table_ok_put) (simp_all add: eth_def table_put_def)
qed

lemma two_cards_recs: "table_recs two_cards = {eth 0 ''fxp0'' 0, eth 1 ''xl0'' 1}"
  by (simp add: two_cards_eq table_recs_def btseq_def)

definition two_cards_world :: world where
  "two_cards_world = blank_world\<lparr>devdb := Some two_cards\<rparr>"

lemma two_cards_world_db: "devdb two_cards_world = Some two_cards" "length two_cards = 2"
  by code_simp+

theorem insert_device_table_witness:
  "\<exists>w'. insert_device calm (eth 2 ''dc0'' 0) two_cards_world = Some (0, w') \<and>
     next_device_id w' = Some 3"
proof -
  have "next_device_id two_cards_world = Some 2"
    using next_device_id_eq [OF two_cards_world_db(1)] two_cards_world_db(2) by simp
  from insert_device_table [OF two_cards_world_db(1) two_cards_ok this, of "eth 2 ''dc0'' 0" calm]
  show ?thesis by (auto simp: eth_def)
qed

theorem insert_device_found_witness:
  "\<exists>w'. insert_device calm (eth 2 ''dc0'' 0) two_cards_world = Some (0, w') \<and>
     device_exist ''dc0'' w' = Some 2 \<and>
     commands (trace w') = [''/sbin/ifconfig dc0 10.0.0.1 255.0.0.0'']"
proof -
  have "named_apart (table_recs two_cards)"
    by (simp add: two_cards_recs named_apart_def eth_def)
  moreover have "device_wf (eth 2 ''dc0'' 0)"
    "device_commands (eth 2 ''dc0'' 0) = [''/sbin/ifconfig dc0 10.0.0.1 255.0.0.0'']"
    "commands (trace two_cards_world) = []" "d_id (eth 2 ''dc0'' 0) = 2" "d_device (eth 2 ''dc0'' 0) = ''dc0''"
    by code_simp+
  moreover have "\<forall>e \<in> table_recs two_cards. d_device e \<noteq> ''dc0''"
    by (simp add: two_cards_recs eth_def)
  ultimately show ?thesis
    using insert_device_found [OF two_cards_world_db(1) two_cards_ok, of "eth 2 ''dc0'' 0" calm]
      two_cards_world_db(2)
    by auto
qed

theorem unset_ext_clears_witness:
  "\<exists>w'. unset_ext calm 1 two_cards_world = Some (0, w') \<and> dev_ext w' = Some None"
proof -
  have "ext_exist two_cards_world = Some 1" "devdb two_cards_world = Some two_cards"
    by code_simp+
  moreover have "one_external (table_recs two_cards)"
    by (simp add: two_cards_recs one_external_def eth_def)
  ultimately show ?thesis
    using unset_ext_clears [of two_cards_world two_cards 1 calm] two_cards_ok by auto
qed

end
