(* ===== verification/IfCfg.thy ===== *)
theory IfCfg
  imports Dialog Devices
begin

text \<open>
  \<open>closedbsd/config/ifcon.c\<close>: \<open>ifs_cfg\<close>, the dialog that configures a network interface. Its loop
  is a state machine over \<open>j\<close>: three \<open>line_edit\<close> inputs and two buttons. What follows the loop,
  with its questions, is \<open>ifs_finish\<close>: the answers are inputs, 0 for yes.
\<close>

subsection \<open>State\<close>

record ifs_st =
  i_dev :: string
  i_j :: int
  i_ip :: string
  i_netmask :: string
  i_gateway :: string
  i_set :: int
  i_prompt :: prompt
  i_world :: world

text \<open>
  The head of the loop body for each \<open>j\<close>, up to its input. The window is 16 lines by 50 columns. A
  value of \<open>j\<close> the switch does not list would loop without reading anything.
\<close>

definition ok_button :: "bool \<Rightarrow> act" where
  "ok_button on = Curses (Print_button ''  OK  '' 14 14 on)"

definition cancel_button :: "bool \<Rightarrow> act" where
  "cancel_button on = Curses (Print_button ''Cancel'' 14 28 on)"

definition ifs_acts :: "int \<Rightarrow> act list" where
  "ifs_acts j =
     (if j = 1 then [Curses (Wattrset inputbox_attr), Curses Wrefresh, ok_button False,
        cancel_button False, Line_edit 4 19 23 23]
      else if j = 2 then [Curses (Wattrset inputbox_attr), Curses Wrefresh, Line_edit 7 19 23 23]
      else if j = 3 then [Curses (Wattrset inputbox_attr), Curses Wrefresh, ok_button False,
        Line_edit 10 19 23 23]
      else if j = 4 then [Curses (Wattrset title_attr), Curses Wrefresh, Curs_set 0, ok_button True,
        cancel_button False, Curses Wrefresh]
      else if j = 5 then [Curses (Wattrset title_attr), Curses Wrefresh, Curs_set 0, ok_button False,
        cancel_button True, Curses Wrefresh]
      else [])"

definition ifs_loop :: "int \<Rightarrow> ifs_st \<Rightarrow> ifs_st" where
  "ifs_loop j s =
     s\<lparr>i_j := j, i_world := emit (Curses Wrefresh # ifs_acts j) (i_world s),
       i_prompt := (if j = 4 \<or> j = 5 then Wgetch else Editing j 23)\<rparr>"

text \<open>
  The drawing before the loop. A value of a device that is configured already is shown when it has
  more than 6 characters; \<open>printf\<close> of the C library of FreeBSD prints \<open>NULL\<close> as \<open>(null)\<close>.
\<close>

definition ifs_prefill :: "string option \<Rightarrow> string" where
  "ifs_prefill v =
     (let s = snprintf 16 (case v of None \<Rightarrow> ''(null)'' | Some s \<Rightarrow> s) in if length s > 6 then s else [])"

definition ifs_value_acts :: "int \<Rightarrow> string \<Rightarrow> act list" where
  "ifs_value_acts y s = (if length s > 6 then [Curses (Mvwprintw y 19 s)] else [])"

definition ifs_window :: "string \<Rightarrow> act list" where
  "ifs_window name =
     [Init_dialog, Dialog_clear, Curses (Draw_shadow 1 13 16 50), Newwin 16 50 1 13,
      Curses (Draw_box 0 0 16 50 dialog_attr border_attr), Curses (Wattrset border_attr),
      Curses Wrefresh,
      Curses (Wmove 0 (25 - int (length name))), Curses (Wattrset title_attr),
      Curses (Waddstr (snprintf 80 ('' [ '' @ name @ '' ] ''))), Curses (Wattrset border_attr)] @
     concat (map (\<lambda>i. concat (map (\<lambda>n. [Curses (Wmove i n), Curses (Waddch CHR '' '')]) [1..48])) [1..14]) @
     [Curses (Draw_box 2 3 12 44 dialog_attr border_attr), Curses (Wattrset title_attr),
      Curses (Wmove 4 4), Curses (Waddstr ''        IP ->''),
      Curses (Draw_box 3 18 3 25 dialog_attr border_attr), Curses (Wattrset title_attr),
      Curses (Wmove 7 4), Curses (Waddstr ''   Netmask ->''),
      Curses (Draw_box 6 18 3 25 dialog_attr border_attr), Curses (Wattrset title_attr),
      Curses (Wmove 10 4), Curses (Waddstr ''   Gateway ->''),
      Curses (Draw_box 9 18 3 25 dialog_attr border_attr),
      cancel_button False, ok_button False]"

definition ifs_init :: "string \<Rightarrow> string \<Rightarrow> world \<Rightarrow> ifs_st option" where
  "ifs_init name dev w = do {
     let w = emit (ifs_window name) w;
     ret \<leftarrow> device_exist dev w;
     if ret \<ge> 0 then do {
       let w = emit [Curses (Wattrset dialog_attr), Curses Wrefresh] w;
       ip \<leftarrow> map_option ifs_prefill (dev_ip dev w);
       netmask \<leftarrow> map_option ifs_prefill (dev_netmask dev w);
       gateway \<leftarrow> map_option ifs_prefill (dev_gateway dev w);
       let devz = snprintf 80 (''Editing device '' @ dev);
       let w = emit (ifs_value_acts 4 ip @ ifs_value_acts 7 netmask @ ifs_value_acts 10 gateway @
         [Curses (Wmove 1 (25 - int (length devz div 2))), Curses (Wattrset dialog_attr),
          Curses (Waddstr devz), Curses Wrefresh]) w;
       Some (ifs_loop 1 \<lparr>i_dev = dev, i_j = 1, i_ip = ip, i_netmask = netmask, i_gateway = gateway,
         i_set = 0, i_prompt = Wgetch, i_world = w\<rparr>)
     }
     else do {
       let devz = snprintf 80 (''Configuring device '' @ dev);
       let w = emit [Curses (Wmove 1 (25 - int (length devz div 2))), Curses (Wattrset dialog_attr),
         Curses (Waddstr devz)] w;
       Some (ifs_loop 1 \<lparr>i_dev = dev, i_j = 1, i_ip = [], i_netmask = [], i_gateway = [],
         i_set = 0, i_prompt = Wgetch, i_world = w\<rparr>)
     }
   }"

subsection \<open>The loop\<close>

text \<open>\<open>line_edit\<close> may enter 23 characters; the buffers of \<open>struct device\<close> have 16 bytes.\<close>

definition ifs_line :: "string \<Rightarrow> key \<Rightarrow> ifs_st \<Rightarrow> ifs_st option" where
  "ifs_line str k s =
     (let j = i_j s in
      if j = 1 then do {
        buf \<leftarrow> edit_into 16 str;
        let s = s\<lparr>i_ip := buf\<rparr>;
        Some (if k = KEY_DOWN then ifs_loop 2 s
              else if k = Ch 9 then ifs_loop 2 s
              else if k = KEY_UP then ifs_loop 1 s
              else if k = Ch 10 then ifs_loop 2 s
              else ifs_loop 1 s)
      }
      else if j = 2 then do {
        buf \<leftarrow> edit_into 16 str;
        let s = s\<lparr>i_netmask := buf\<rparr>;
        Some (if k = KEY_DOWN then ifs_loop 3 s
              else if k = Ch 10 then ifs_loop 3 s
              else if k = Ch 9 then ifs_loop 3 s
              else if k = KEY_UP then ifs_loop 1 s
              else ifs_loop 2 s)
      }
      else if j = 3 then do {
        buf \<leftarrow> edit_into 16 str;
        let s = s\<lparr>i_gateway := buf\<rparr>;
        Some (if k = KEY_DOWN then ifs_loop 4 s
              else if k = Ch 10 then ifs_loop 4 s
              else if k = Ch 9 then ifs_loop 4 s
              else if k = KEY_UP then ifs_loop 2 s
              else ifs_loop 3 s)
      }
      else None)"

text \<open>
  The buttons. OK leaves the loop with \<open>set\<close>; Cancel returns. \<open>Returned (Rc 0)\<close> stands for the loop
  being left, \<open>Returned (Rc (-1))\<close> for the return.
\<close>

definition ifs_key :: "key \<Rightarrow> ifs_st \<Rightarrow> ifs_st" where
  "ifs_key key s =
     (if i_j s = 4 then
        (if key = KEY_UP then ifs_loop 3 s
         else if key = Ch 9 then ifs_loop 5 s
         else if key = KEY_DOWN then ifs_loop 5 s
         else if key = Ch 10 then s\<lparr>i_set := 1, i_prompt := Returned (Rc 0)\<rparr>
         else ifs_loop 4 s)
      else
        (if key = KEY_UP then ifs_loop 4 s
         else if key = KEY_DOWN then ifs_loop 4 s
         else if key = Ch 9 then ifs_loop 1 s
         else if key = Ch 10 then
           s\<lparr>i_world := emit [Dialog_clear] (i_world s), i_prompt := Returned (Rc (- 1))\<rparr>
         else ifs_loop 5 s))"

definition ifs_next :: "event \<Rightarrow> ifs_st \<Rightarrow> ifs_st option" where
  "ifs_next e s = (case e of Line str k \<Rightarrow> ifs_line str k s | Key key \<Rightarrow> Some (ifs_key key s))"

subsection \<open>After the loop\<close>

text \<open>
  The questions about the default gateway. The members \<open>id\<close> and \<open>ext\<close> of \<open>d\<close> have not been
  assigned before: \<open>d\<close> comes in with what the stack held there.
\<close>

definition ifs_gateway :: "env \<Rightarrow> int \<Rightarrow> int \<Rightarrow> device \<Rightarrow> world \<Rightarrow> (device \<times> world) option" where
  "ifs_gateway env dflt overwrite d w =
     (if length (d_gateway d) > 1 then do {
        let w = emit [Yesno ''ClosedBSD'' ''Would you like this device to be the default gateway?''] w;
        if dflt = 0 then do {
          e \<leftarrow> ext_exist w;
          if e = - 1 then Some (d\<lparr>d_ext := 1\<rparr>, w)
          else do {
            let w = emit [Dialog_clear,
              Yesno ''ClosedBSD'' ''You already have a default gateway set.  Overwrite?''] w;
            if overwrite = 0 then do { (_, w) \<leftarrow> unset_ext env (d_id d) w; Some (d, w) }
            else Some (d\<lparr>d_ext := 0\<rparr>, w)
          }
        }
        else Some (d\<lparr>d_ext := 0\<rparr>, w)
      }
      else Some (d\<lparr>d_ext := 0\<rparr>, w))"

definition ifs_store :: "env \<Rightarrow> int \<Rightarrow> device \<Rightarrow> world \<Rightarrow> world option" where
  "ifs_store env again d w = do {
     let w = emit [Dialog_clear] w;
     dev_id \<leftarrow> device_exist (d_device d) w;
     if dev_id = - 1 then do {
       id \<leftarrow> next_device_id w;
       (_, w) \<leftarrow> insert_device env (d\<lparr>d_id := id\<rparr>) w;
       Some w
     }
     else do {
       let w = emit [Yesno ''ClosedBSD'' ''This device is already configured. Overwrite?''] w;
       if again = 0 then do { (_, w) \<leftarrow> insert_device env (d\<lparr>d_id := dev_id\<rparr>) w; Some w }
       else Some w
     }
   }"

definition ifs_device :: "device \<Rightarrow> ifs_st \<Rightarrow> device" where
  "ifs_device junk s = junk\<lparr>d_ip := i_ip s, d_netmask := i_netmask s, d_gateway := i_gateway s,
     d_dhcp := DHCP_DISABLED\<rparr>"

definition ifs_finish :: "env \<Rightarrow> device \<Rightarrow> int \<Rightarrow> int \<Rightarrow> int \<Rightarrow> ifs_st \<Rightarrow> (rc \<times> world) option" where
  "ifs_finish env junk dflt overwrite again s = do {
     (d, w) \<leftarrow> ifs_gateway env dflt overwrite (ifs_device junk s) (i_world s);
     dev \<leftarrow> strcpy 6 (i_dev s);
     let d = d\<lparr>d_device := dev\<rparr>;
     w \<leftarrow> (if i_set s = 1 then ifs_store env again d w else Some w);
     Some (ditem_continue, emit [Dialog_clear, Curses Wrefresh, End_dialog] w)
   }"

text \<open>
  The whole function: \<open>es\<close> are the inputs up to the end of the loop, \<open>None\<close> when they do not end
  it or have no defined effect.
\<close>

definition ifs_cfg ::
  "env \<Rightarrow> device \<Rightarrow> string \<Rightarrow> string \<Rightarrow> event list \<Rightarrow> int \<Rightarrow> int \<Rightarrow> int \<Rightarrow> world \<Rightarrow> (rc \<times> world) option" where
  "ifs_cfg env junk name dev es dflt overwrite again w = do {
     s \<leftarrow> ifs_init name dev w;
     s \<leftarrow> run_events i_prompt ifs_next es s;
     (case i_prompt s of
        Returned v \<Rightarrow>
          if v = Rc (- 1) then Some (Rc (- 1), i_world s)
          else ifs_finish env junk dflt overwrite again s
      | _ \<Rightarrow> None)
   }"

subsection \<open>The invariant of the loop\<close>

definition ifs_inv :: "string \<Rightarrow> world \<Rightarrow> ifs_st \<Rightarrow> bool" where
  "ifs_inv dev w0 s \<longleftrightarrow>
     (case i_prompt s of
        Wgetch \<Rightarrow> (i_j s = 4 \<or> i_j s = 5) \<and> i_set s = 0
      | Editing sel n \<Rightarrow> sel = i_j s \<and> (sel = 1 \<or> sel = 2 \<or> sel = 3) \<and> n = 23 \<and> i_set s = 0
      | Returned v \<Rightarrow> v = Rc 0 \<and> i_set s = 1 \<or> v = Rc (- 1) \<and> i_set s = 0) \<and>
     i_dev s = dev \<and> length (i_ip s) < 16 \<and> length (i_netmask s) < 16 \<and> length (i_gateway s) < 16 \<and>
     untouched w0 (i_world s)"

lemma ifs_loop_inv:
  "i_dev s = dev \<Longrightarrow> length (i_ip s) < 16 \<Longrightarrow> length (i_netmask s) < 16 \<Longrightarrow> length (i_gateway s) < 16 \<Longrightarrow>
   untouched w0 (i_world s) \<Longrightarrow> i_set s = 0 \<Longrightarrow> j \<in> {1, 2, 3, 4, 5} \<Longrightarrow> ifs_inv dev w0 (ifs_loop j s)"
  by (auto simp: ifs_inv_def ifs_loop_def untouched_def ifs_acts_def ok_button_def cancel_button_def)

lemma prefill_length: "length (ifs_prefill v) < 16"
  using length_snprintf [of 16] by (auto simp: ifs_prefill_def Let_def)

lemma untouched_emit: "commands as = [] \<Longrightarrow> untouched w0 w \<Longrightarrow> untouched w0 (emit as w)"
  by (simp add: untouched_def)

lemma commands_concat: "commands (concat ass) = concat (map commands ass)"
  by (induction ass) simp_all

lemma window_commands: "commands (ifs_window name) = []"
  by (simp add: ifs_window_def commands_concat comp_def ok_button_def cancel_button_def)

lemma value_commands: "commands (ifs_value_acts y s) = []"
  by (simp add: ifs_value_acts_def)

lemma ifs_init_inv:
  assumes "ifs_init name dev w0 = Some s"
  shows "ifs_inv dev w0 s"
proof -
  have u: "untouched w0 (emit (ifs_window name) w0)"
    by (rule untouched_emit [OF window_commands]) (simp add: untouched_def)
  show ?thesis
    using assms u
    by (auto simp: ifs_init_def Let_def bind_eq_Some_conv map_option_case prefill_length value_commands
        split: if_splits option.splits intro!: ifs_loop_inv untouched_emit simp del: emit_emit)
qed

lemma ifs_next_inv:
  assumes "ifs_inv dev w0 s" "accepts (i_prompt s) e" "ifs_next e s = Some s'"
  shows "ifs_inv dev w0 s'"
proof (cases e)
  case (Line str k)
  then show ?thesis
    using assms
    by (cases "i_prompt s")
      (auto simp: ifs_next_def ifs_line_def edit_into_def Let_def ifs_inv_def [of dev w0 s]
        split: if_splits intro!: ifs_loop_inv)
next
  case (Key k)
  then have w: "i_prompt s = Wgetch" using assms(2) by (cases "i_prompt s") auto
  show ?thesis
    using assms(1,3) w
    by (auto simp: Key ifs_next_def ifs_key_def ifs_inv_def [of dev w0 s] intro!: ifs_loop_inv)
      (auto simp: ifs_inv_def untouched_def)
qed

definition ifs_ok :: "ifs_st \<Rightarrow> event \<Rightarrow> bool" where
  "ifs_ok s e \<longleftrightarrow> (case e of Line str _ \<Rightarrow> length str < 16 | Key _ \<Rightarrow> True)"

lemma ifs_next_defined:
  assumes "ifs_inv dev w0 s" "accepts (i_prompt s) e" "ifs_ok s e"
  shows "ifs_next e s \<noteq> None"
  using assms
  by (cases e; cases "i_prompt s")
    (auto simp: ifs_next_def ifs_line_def ifs_ok_def edit_into_def Let_def ifs_inv_def)

interpretation ifs_dlg: dialog "\<lambda>s. ifs_init name dev w0 = Some s" i_prompt ifs_next ifs_ok "ifs_inv dev w0"
  for name dev w0
  by unfold_locales (auto simp: ifs_init_inv intro: ifs_next_inv dest: ifs_next_defined)

subsection \<open>Storing the device\<close>

text \<open>The tables the program writes: well formed, no two devices of one name, room for one more.\<close>

definition table_good :: "device btree \<Rightarrow> bool" where
  "table_good t \<longleftrightarrow> table_ok t \<and> named_apart (table_recs t) \<and> int (length t) < 2 ^ 31"

definition others :: "string \<Rightarrow> device btree \<Rightarrow> device set" where
  "others n t = {e \<in> table_recs t. d_device e \<noteq> n}"

lemma store_put:
  assumes "table_good t" "0 \<le> i" "i \<le> int (length t)" "i < 2 ^ 31"
    and "\<forall>e \<in> table_recs t. d_device e = d_device d \<longleftrightarrow> d_id e = i"
  shows "table_ok (table_put (d\<lparr>d_id := i\<rparr>) t) \<and> named_apart (table_recs (table_put (d\<lparr>d_id := i\<rparr>) t)) \<and>
    d\<lparr>d_id := i\<rparr> \<in> table_recs (table_put (d\<lparr>d_id := i\<rparr>) t) \<and>
    others (d_device d) (table_put (d\<lparr>d_id := i\<rparr>) t) = others (d_device d) t"
proof -
  have t: "table_ok t" "named_apart (table_recs t)"
    using assms(1) by (auto simp: table_good_def)
  have r: "table_recs (table_put (d\<lparr>d_id := i\<rparr>) t) = insert (d\<lparr>d_id := i\<rparr>) {e \<in> table_recs t. d_id e \<noteq> i}"
    using dt.recs_put [OF t(1), of "d\<lparr>d_id := i\<rparr>"] assms(2-4) by simp
  have "named_apart (table_recs (table_put (d\<lparr>d_id := i\<rparr>) t))"
    by (rule dt.named_apart_put [OF t]) (use assms in auto)
  moreover have "table_ok (table_put (d\<lparr>d_id := i\<rparr>) t)"
    using dt.ok_put [OF t(1), of "d\<lparr>d_id := i\<rparr>"] assms(2-4) by simp
  ultimately show ?thesis
    using assms(5) by (auto simp: r others_def)
qed

lemma device_exist_cases:
  assumes "devdb w = Some t" "table_good t"
  obtains i d where "device_exist n w = Some i" "d \<in> table_recs t" "d_device d = n" "d_id d = i" "0 \<le> i"
      "i < int (length t)" "\<forall>e \<in> table_recs t. d_device e = n \<longleftrightarrow> d_id e = i"
    | "device_exist n w = Some (- 1)" "\<forall>e \<in> table_recs t. d_device e \<noteq> n"
proof (cases "\<exists>d \<in> table_recs t. d_device d = n")
  case True
  then obtain d where d: "d \<in> table_recs t" "d_device d = n" by blast
  have t: "table_ok t" "named_apart (table_recs t)"
    using assms(2) by (auto simp: table_good_def)
  have "d_id d \<in> {0..<int (length t)}"
    using table_id_range [OF t(1)] d(1) by blast
  moreover have "\<forall>e \<in> table_recs t. d_device e = n \<longleftrightarrow> d_id e = d_id d"
    using d t(2) table_ids_inj [OF t(1)] by (auto simp: named_apart_def inj_on_def)
  ultimately show thesis
    using that(1) [OF _ d refl] device_exist_eq [OF assms(1) t(2) d(1)] d(2) by auto
next
  case False
  then have "seq_find (\<lambda>d. d_device d = n) (btseq t) = None"
    by (simp add: table_recs_def)
  then have "device_exist n w = Some (- 1)"
    using assms(1) by (simp add: device_exist_def del: seq_find_None)
  then show thesis
    using that(2) False by blast
qed

lemma ifs_store_effect:
  assumes "devdb w = Some t" "table_good t" "writable env DEVICES"
  shows "\<exists>w' t'. ifs_store env again d w = Some w' \<and> devdb w' = Some t' \<and> table_ok t' \<and>
    named_apart (table_recs t') \<and> others (d_device d) t' = others (d_device d) t \<and>
    (if (\<exists>e \<in> table_recs t. d_device e = d_device d) \<and> again \<noteq> 0 then t' = t
     else \<exists>i. d\<lparr>d_id := i\<rparr> \<in> table_recs t')"
proof -
  let ?w = "emit [Dialog_clear] w"
  have w: "devdb ?w = Some t" using assms(1) by simp
  show ?thesis
  proof (rule device_exist_cases [OF w assms(2), of "d_device d"])
    fix i e
    assume e: "device_exist (d_device d) ?w = Some i" "e \<in> table_recs t" "d_device e = d_device d"
      "d_id e = i" "0 \<le> i" "i < int (length t)"
      "\<forall>e \<in> table_recs t. d_device e = d_device d \<longleftrightarrow> d_id e = i"
    let ?v = "emit [Yesno ''ClosedBSD'' ''This device is already configured. Overwrite?''] ?w"
    obtain w' where w': "insert_device env (d\<lparr>d_id := i\<rparr>) ?v = Some (0, w')"
        "devdb w' = Some (table_put (d\<lparr>d_id := i\<rparr>) t)"
      using insert_device_eq [of ?v t env "d\<lparr>d_id := i\<rparr>"] assms by auto
    have p: "table_ok (table_put (d\<lparr>d_id := i\<rparr>) t) \<and> named_apart (table_recs (table_put (d\<lparr>d_id := i\<rparr>) t)) \<and>
      d\<lparr>d_id := i\<rparr> \<in> table_recs (table_put (d\<lparr>d_id := i\<rparr>) t) \<and>
      others (d_device d) (table_put (d\<lparr>d_id := i\<rparr>) t) = others (d_device d) t"
      using e assms(2) by (intro store_put) (auto simp: table_good_def)
    show ?thesis
    proof (cases "again = 0")
      case True
      have "ifs_store env again d w = Some w'"
        using e(1,5) w'(1) True by (simp add: ifs_store_def)
      then show ?thesis using w'(2) p True by auto
    next
      case False
      have "ifs_store env again d w = Some ?v"
        using e(1,5) False by (simp add: ifs_store_def)
      then show ?thesis
        using assms e(2,3) False by (auto simp: table_good_def)
    qed
  next
    assume none: "device_exist (d_device d) ?w = Some (- 1)" "\<forall>e \<in> table_recs t. d_device e \<noteq> d_device d"
    let ?i = "int (length t)"
    obtain w' where w': "insert_device env (d\<lparr>d_id := ?i\<rparr>) ?w = Some (0, w')"
        "devdb w' = Some (table_put (d\<lparr>d_id := ?i\<rparr>) t)"
      using insert_device_eq [OF w assms(3)] by blast
    have "d_id e \<noteq> ?i" if "e \<in> table_recs t" for e
      using table_id_range [of t] that assms(2) by (force simp: table_good_def)
    then have p: "table_ok (table_put (d\<lparr>d_id := ?i\<rparr>) t) \<and> named_apart (table_recs (table_put (d\<lparr>d_id := ?i\<rparr>) t)) \<and>
      d\<lparr>d_id := ?i\<rparr> \<in> table_recs (table_put (d\<lparr>d_id := ?i\<rparr>) t) \<and>
      others (d_device d) (table_put (d\<lparr>d_id := ?i\<rparr>) t) = others (d_device d) t"
      using none(2) assms(2) by (intro store_put) (auto simp: table_good_def)
    have "ifs_store env again d w = Some w'"
      using none(1) w'(1) next_device_id_eq [OF w] by (simp add: ifs_store_def)
    then show ?thesis using w'(2) p none(2) by auto
  qed
qed

subsection \<open>Properties\<close>


text \<open>
  Overwriting the default gateway does not work: \<open>unset_ext\<close> is called with an id that has never
  been assigned. Unless the stack happens to hold the id of a device there, no device is changed, so
  that the old one remains external.
\<close>

theorem ifs_overwrite_lost:
  assumes "devdb w = Some t" and "table_ok t" and "ext_exist w = Some e" and "e \<noteq> - 1"
    and "1 < length (d_gateway d)" and "d_id d \<notin> d_id ` table_recs t"
  shows "\<exists>w'. ifs_gateway env 0 0 d w = Some (d, w') \<and> devdb w' = Some t \<and> ext_exist w' = Some e"
proof -
  let ?u = "emit [Yesno ''ClosedBSD'' ''Would you like this device to be the default gateway?''] w"
  let ?v = "emit [Dialog_clear, Yesno ''ClosedBSD'' ''You already have a default gateway set.  Overwrite?''] ?u"
  have "ext_exist ?u = Some e" "ext_exist ?v = Some e" "devdb ?v = Some t"
    using assms(1,3) by (simp_all add: ext_exist_def)
  moreover have "seq_find (\<lambda>x. d_id x = d_id d) (btseq t) = None"
    unfolding seq_find_None using assms(6) by (metis imageI table_recs_def)
  then have "unset_ext env (d_id d) ?v = Some (- 1, ?v)"
    using assms(1) by (simp add: unset_ext_def del: seq_find_None)
  ultimately show ?thesis
    using assms(4,5) by (simp add: ifs_gateway_def del: emit_emit)
qed

text \<open>
  The loop of \<open>ifs_cfg\<close>: \<open>j\<close> is always one of its five cases, the addresses fit the members of
  the record, and nothing is touched; a run whose inputs have at most 15 characters is defined.
\<close>

theorem ifs_loop_safe:
  assumes "ifs_init name dev w = Some s0" and "guarded i_prompt ifs_next ifs_ok es s0"
  shows "\<exists>s. run_events i_prompt ifs_next es s0 = Some s \<and>
    ((\<exists>v. i_prompt s = Returned v) \<or> i_j s \<in> {1..5}) \<and>
    length (i_ip s) \<le> 15 \<and> length (i_netmask s) \<le> 15 \<and> length (i_gateway s) \<le> 15 \<and>
    files (i_world s) = files w \<and> devdb (i_world s) = devdb w \<and>
    commands (trace (i_world s)) = commands (trace w)"
proof -
  obtain s where s: "run_events i_prompt ifs_next es s0 = Some s" "ifs_inv dev w s"
    using ifs_dlg.guarded_defined [OF ifs_init_inv [OF assms(1)] assms(2)] by blast
  then show ?thesis
    by (intro exI [of _ s], cases "i_prompt s") (auto simp: ifs_inv_def untouched_def)
qed

subsection \<open>Trying it\<close>

definition ifs_keys :: "event list" where
  "ifs_keys = [Line ''10.0.0.7'' KEY_DOWN, Line ''255.0.0.0'' TAB, Line [] ENTER, Key ENTER]"

definition ifs_start :: ifs_st where
  "ifs_start = the (ifs_init ''ClosedBSD'' ''dc0'' two_cards_world)"

definition ifs_end :: ifs_st where
  "ifs_end = the (run_events i_prompt ifs_next ifs_keys ifs_start)"

lemma dc0_new: "device_exist ''dc0'' (emit as two_cards_world) = Some (- 1)"
proof -
  have "device_exist ''dc0'' two_cards_world = Some (- 1)" by code_simp
  then show ?thesis by (simp add: device_exist_def)
qed

lemma ifs_start_eq: "ifs_init ''ClosedBSD'' ''dc0'' two_cards_world = Some ifs_start"
  by (simp add: ifs_start_def ifs_init_def dc0_new Let_def)

lemma ifs_start_fields:
  "i_prompt ifs_start = Editing 1 23" "i_j ifs_start = 1" "i_set ifs_start = 0" "i_ip ifs_start = []"
  by (simp_all add: ifs_start_def ifs_init_def dc0_new Let_def ifs_loop_def)

lemma ifs_end_eq:
  "run_events i_prompt ifs_next ifs_keys ifs_start = Some ifs_end"
  "i_prompt ifs_end = Returned (Rc 0)" "i_ip ifs_end = ''10.0.0.7''"
  by (simp_all add: ifs_end_def ifs_keys_def ifs_start_fields ifs_next_def ifs_line_def ifs_key_def
      edit_into_def ifs_loop_def printing_def Let_def)

lemma two_cards_good: "table_good two_cards"
  using two_cards_ok two_cards_world_db(2)
  by (simp add: table_good_def two_cards_recs named_apart_def eth_def)


theorem ifs_overwrite_lost_witness:
  "\<exists>w'. ifs_gateway calm 0 0 (eth 77 ''dc0'' 0) two_cards_world = Some (eth 77 ''dc0'' 0, w') \<and>
     ext_exist w' = Some 1"
proof -
  have "ext_exist two_cards_world = Some 1" by code_simp
  moreover have "d_id (eth 77 ''dc0'' 0) \<notin> d_id ` table_recs two_cards"
    by (simp add: two_cards_recs eth_def)
  ultimately show ?thesis
    using ifs_overwrite_lost [OF two_cards_world_db(1) two_cards_ok, of 1 "eth 77 ''dc0'' 0" calm]
    by (auto simp: eth_def)
qed

theorem ifs_loop_safe_witness:
  "\<exists>s. run_events i_prompt ifs_next ifs_keys ifs_start = Some s \<and> length (i_gateway s) \<le> 15"
proof -
  have "guarded i_prompt ifs_next ifs_ok ifs_keys ifs_start"
    by (simp add: ifs_keys_def ifs_start_fields ifs_next_def ifs_line_def ifs_key_def ifs_ok_def
        edit_into_def ifs_loop_def printing_def Let_def)
  from ifs_loop_safe [OF ifs_start_eq this] show ?thesis by blast
qed

end
