(* ===== verification/NatCtl.thy ===== *)
theory NatCtl
  imports RuleFile Devices
begin

text \<open>
  \<open>closedbsd/config/nat.c\<close>: turning network address translation on and off, and \<open>ruleset\<close>, which
  loads the kernel from \<open>/etc/nat\<close> and \<open>/etc/rules\<close>. A stream is read as the text the file
  had when it was opened.
\<close>

subsection \<open>Loading the rules\<close>

text \<open>
  Every line of \<open>/etc/nat\<close> overwrites the buffer \<open>nat\<close>; without a line it is not initialised, and
  \<open>system(nat)\<close> is undefined.
\<close>

definition nat_rule :: "string \<Rightarrow> string" where
  "nat_rule buf =
     snprintf 256 (''/sbin/ipfw -q add 85 divert 8668 ip from any to any via '' @ buf)"

definition nat_buffer :: "string \<Rightarrow> string option" where
  "nat_buffer text = fold (\<lambda>buf nat. Some (nat_rule buf)) (fgets_all 255 text) None"

definition run_lines :: "env \<Rightarrow> string \<Rightarrow> world \<Rightarrow> world" where
  "run_lines env text w = fold (run env) (fgets_all 255 text) w"

definition ruleset_load :: "env \<Rightarrow> world \<Rightarrow> (int \<times> world) option" where
  "ruleset_load env w = do {
     let w = run env ''/sbin/ipfw -q flush'' w;
     w \<leftarrow> (case files w NATSCRIPT of
            None \<Rightarrow> Some w
          | Some text \<Rightarrow> do { nat \<leftarrow> nat_buffer text; Some (run env nat w) });
     Some (case files w RULESCRIPT of
             None \<Rightarrow> (- 1, w)
           | Some text \<Rightarrow> (0, run_lines env text w))
   }"

subsection \<open>On and off\<close>

text \<open>The name of a device, \<open>NULL\<close> printed as \<open>(null)\<close>.\<close>

definition c_str :: "string option \<Rightarrow> string" where
  "c_str s = (case s of None \<Rightarrow> ''(null)'' | Some s \<Rightarrow> s)"

definition disable_nat :: "env \<Rightarrow> world \<Rightarrow> (int \<times> world) option" where
  "disable_nat env w = do {
     let w = unlink NATSCRIPT w;
     (_, w) \<leftarrow> ruleset_load env w;
     Some (0, w)
   }"

definition enable_nat :: "env \<Rightarrow> string option \<Rightarrow> world \<Rightarrow> (int \<times> world) option" where
  "enable_nat env device w = do {
     let w = emit [Dialog_clear] w;
     let w = unlink NATSCRIPT w;
     if \<not> writable env NATSCRIPT then Some (- 1, w)
     else do {
       let w = fopen_append NATSCRIPT w;
       let w = fprintf NATSCRIPT (c_str device @ [nl]) w;
       let w = run env (snprintf 256 (''/sbin/natd -n '' @ c_str device @ [nl])) w;
       (_, w) \<leftarrow> ruleset_load env w;
       Some (0, w)
     }
   }"

subsection \<open>The menu\<close>

text \<open>
  The radio menu: \<open>check\<close> and \<open>spend\<close>, the hooks of its items, over the static \<open>nat\<close>.
\<close>

definition nat_check :: "int \<Rightarrow> int \<Rightarrow> bool" where
  "nat_check item_data sel = (item_data = sel)"

definition nat_spend :: "int \<Rightarrow> int \<Rightarrow> int \<times> rc" where
  "nat_spend item_data sel = (item_data, Flags [DITEM_SUCCESS, DITEM_REDRAW])"

definition menu5 :: "(string \<times> string \<times> int) list" where
  "menu5 = [(''Enable'', ''Enable network address translation'', 1),
            (''Disable'', ''Disable network address translation'', 2)]"

definition nat_window :: "env \<Rightarrow> int \<Rightarrow> int \<Rightarrow> world \<Rightarrow> (rc \<times> world) option" where
  "nat_window env retval sel w = do {
     let w = emit [Dialog_clear,
       Menu ''ClosedBSD: Network Address Translation'' ''Please select an option: ''
         (map (\<lambda>(p, t, _). (p, t)) menu5)] w;
     if retval = 0 then
       (if sel = 1 then do {
          e \<leftarrow> ext_exist w;
          if e \<ge> 0 then do {
            let w = emit [Dialog_clear] w;
            dev \<leftarrow> dev_ext w;
            (_, w) \<leftarrow> enable_nat env dev w;
            Some (ditem_continue,
              emit [Msgbox ''ClosedBSD: Notification'' ''Network Address Translation is now enabled''] w)
          }
          else
            Some (Rc (- 1), emit [Dialog_clear,
              Msgbox ''ClosedBSD: Notification'' ''You don't have an external device defined!''] w)
        }
        else if sel = 2 then do {
          (_, w) \<leftarrow> disable_nat env w;
          Some (ditem_continue, emit [Dialog_clear,
            Msgbox ''ClosedBSD: Notification'' ''Network Address Translation is now disabled''] w)
        }
        else Some (ditem_continue, w))
     else Some (ditem_continue, w)
   }"

subsection \<open>What the commands are\<close>

lemma fgets_all_empty: "fgets_all 255 text = [] \<longleftrightarrow> text = []"
  using fgets_all_concat [of 255 "text"] by force

lemma nat_buffer_eq:
  "nat_buffer text = (if text = [] then None else Some (nat_rule (last (fgets_all 255 text))))"
proof -
  have "fold (\<lambda>buf nat. Some (nat_rule buf)) bs v = (if bs = [] then v else Some (nat_rule (last bs)))" for bs v
    by (induction bs arbitrary: v) auto
  then show ?thesis by (simp add: nat_buffer_def fgets_all_empty)
qed

lemma run_lines_sel:
  "commands (trace (run_lines env text w)) = commands (trace w) @ fgets_all 255 text"
  "devdb (run_lines env text w) = devdb w"
proof -
  have "commands (trace (fold (run env) cs w)) = commands (trace w) @ cs" for cs w
    by (induction cs arbitrary: w) (simp_all add: world)
  then show "commands (trace (run_lines env text w)) = commands (trace w) @ fgets_all 255 text"
    by (simp add: run_lines_def)
  have "devdb (fold (run env) cs w) = devdb w" for cs w
    by (induction cs arbitrary: w) (simp_all add: world)
  then show "devdb (run_lines env text w) = devdb w"
    by (simp add: run_lines_def)
qed

text \<open>An environment in which no command changes the file.\<close>

abbreviation stable :: "env \<Rightarrow> string \<Rightarrow> bool" where
  "stable env p \<equiv> spares env UNIV p"

lemma stable_run [simp]: "stable env p \<Longrightarrow> files (run env c w) p = files w p"
  by (rule run_spares) auto

lemma stable_run_lines [simp]: "stable env p \<Longrightarrow> files (run_lines env text w) p = files w p"
proof -
  assume "stable env p"
  then have "files (fold (run env) cs w) p = files w p" for cs
    by (induction cs arbitrary: w) simp_all
  then show ?thesis by (simp add: run_lines_def)
qed

text \<open>The commands \<open>ruleset\<close> runs after the flush: the divert rule, then the rules.\<close>

definition load_commands :: "string option \<Rightarrow> string option \<Rightarrow> string list" where
  "load_commands natfile rules =
     (case natfile of None \<Rightarrow> [] | Some t \<Rightarrow> [nat_rule (last (fgets_all 255 t))]) @
     (case rules of None \<Rightarrow> [] | Some t \<Rightarrow> fgets_all 255 t)"

lemma ruleset_load_eq:
  assumes "stable env NATSCRIPT" "stable env RULESCRIPT" "files w NATSCRIPT \<noteq> Some []"
  shows "\<exists>w'. ruleset_load env w = Some (if files w RULESCRIPT = None then - 1 else 0, w') \<and>
    commands (trace w') = commands (trace w) @ FLUSH_CMD #
      load_commands (files w NATSCRIPT) (files w RULESCRIPT) \<and>
    files w' NATSCRIPT = files w NATSCRIPT \<and> files w' RULESCRIPT = files w RULESCRIPT \<and>
    devdb w' = devdb w"
proof (cases "files w NATSCRIPT")
  case None
  then show ?thesis
    using assms by (cases "files w RULESCRIPT")
      (simp_all add: ruleset_load_def load_commands_def run_lines_sel FLUSH_CMD_def run_sel(2,3))
next
  case (Some t)
  then show ?thesis
    using assms by (cases "files w RULESCRIPT")
      (simp_all add: ruleset_load_def load_commands_def run_lines_sel nat_buffer_eq FLUSH_CMD_def run_sel(2,3))
qed

lemma enable_nat_eq:
  assumes "writable env NATSCRIPT" "stable env NATSCRIPT" "stable env RULESCRIPT"
    and "length (c_str dev) < 256 - 16" "nl \<notin> set (c_str dev)"
  shows "\<exists>w'. enable_nat env dev w = Some (0, w') \<and>
    files w' NATSCRIPT = Some (c_str dev @ [nl]) \<and> files w' RULESCRIPT = files w RULESCRIPT \<and>
    commands (trace w') = commands (trace w) @ (''/sbin/natd -n '' @ c_str dev @ [nl]) # FLUSH_CMD #
      nat_rule (c_str dev @ [nl]) #
      (case files w RULESCRIPT of None \<Rightarrow> [] | Some t \<Rightarrow> fgets_all 255 t) \<and>
    devdb w' = devdb w"
proof -
  define u where "u = run env (snprintf 256 (''/sbin/natd -n '' @ c_str dev @ [nl]))
    (fprintf NATSCRIPT (c_str dev @ [nl]) (fopen_append NATSCRIPT (unlink NATSCRIPT (emit [Dialog_clear] w))))"
  have u: "files u NATSCRIPT = Some (c_str dev @ [nl])" "files u RULESCRIPT = files w RULESCRIPT"
    "commands (trace u) = commands (trace w) @ [''/sbin/natd -n '' @ c_str dev @ [nl]]" "devdb u = devdb w"
    using assms by (simp_all add: u_def, simp_all add: unlink_sel fopen_append_sel fprintf_sel run_sel(2,3) snprintf_fits)
  have one: "fgets_all 255 (c_str dev @ [nl]) = [c_str dev @ [nl]]"
    using fgets_all_lines [of "[c_str dev @ [nl]]" 255] assms(4,5) by (simp add: is_line_def)
  obtain w' where w': "ruleset_load env u = Some (if files u RULESCRIPT = None then - 1 else 0, w')"
    "commands (trace w') = commands (trace u) @ FLUSH_CMD # load_commands (files u NATSCRIPT) (files u RULESCRIPT)"
    "files w' NATSCRIPT = files u NATSCRIPT" "files w' RULESCRIPT = files u RULESCRIPT" "devdb w' = devdb u"
    using ruleset_load_eq [OF assms(2,3), of u] u(1) by auto
  have "enable_nat env dev w = Some (0, w')"
    using w'(1) assms(1) by (simp add: enable_nat_def u_def)
  then show ?thesis
    using w'(2-5) u one by (simp add: load_commands_def)
qed

subsection \<open>Properties\<close>

text \<open>
  C11. Turning translation on, from the menu: with an external device, \<open>/etc/nat\<close> holds its name,
  natd is started on it, and the kernel is loaded in order: flush, the divert rule of that device,
  then every line of \<open>/etc/rules\<close>. The device table and the rules are left alone.
\<close>

theorem nat_enable_loads:
  assumes "devdb w = Some t" and "one_external (table_recs t)" and "d \<in> table_recs t" and "d_ext d = 1"
    and "0 \<le> d_id d" and "length (d_device d) < 6" and "nl \<notin> set (d_device d)"
    and "writable env NATSCRIPT" and "stable env NATSCRIPT" and "stable env RULESCRIPT"
  shows "\<exists>w'. nat_window env 0 1 w = Some (ditem_continue, w') \<and>
    files w' NATSCRIPT = Some (d_device d @ [nl]) \<and> files w' RULESCRIPT = files w RULESCRIPT \<and>
    commands (trace w') = commands (trace w) @
      [''/sbin/natd -n '' @ d_device d @ [nl], FLUSH_CMD, nat_rule (d_device d @ [nl])] @
      (case files w RULESCRIPT of None \<Rightarrow> [] | Some t \<Rightarrow> fgets_all 255 t) \<and>
    devdb w' = devdb w"
proof -
  let ?u = "emit [Dialog_clear, Menu ''ClosedBSD: Network Address Translation'' ''Please select an option: ''
         (map (\<lambda>(p, t, _). (p, t)) menu5), Dialog_clear] w"
  have find: "seq_find (\<lambda>e. d_ext e = 1) (btseq t) = Some d"
    using assms(2-4) by (intro seq_find_only) (auto simp: one_external_def table_recs_def)
  obtain w' where w': "enable_nat env (Some (d_device d)) ?u = Some (0, w')"
    "files w' NATSCRIPT = Some (d_device d @ [nl])" "files w' RULESCRIPT = files w RULESCRIPT"
    "commands (trace w') = commands (trace w) @ (''/sbin/natd -n '' @ d_device d @ [nl]) # FLUSH_CMD #
      nat_rule (d_device d @ [nl]) # (case files w RULESCRIPT of None \<Rightarrow> [] | Some t \<Rightarrow> fgets_all 255 t)"
    "devdb w' = devdb w"
    using enable_nat_eq [OF assms(8-10), of "Some (d_device d)" ?u] assms(6,7) by (auto simp: c_str_def)
  have "nat_window env 0 1 w = Some (ditem_continue,
      emit [Msgbox ''ClosedBSD: Notification'' ''Network Address Translation is now enabled''] w')"
    using assms(1,5) find w'(1) by (simp add: nat_window_def ext_exist_def dev_ext_def)
  then show ?thesis using w'(2-5) by simp
qed

text \<open>
  Without an external device nothing is turned on: the menu says so and returns -1, and no file and no
  command is touched.
\<close>

theorem nat_needs_external:
  assumes "devdb w = Some t" and "\<forall>d \<in> table_recs t. d_ext d \<noteq> 1"
  shows "\<exists>w'. nat_window env 0 1 w = Some (Rc (- 1), w') \<and> files w' = files w \<and> devdb w' = devdb w \<and>
    commands (trace w') = commands (trace w)"
proof -
  have "seq_find (\<lambda>e. d_ext e = 1) (btseq t) = None"
    using assms(2) by (simp add: table_recs_def)
  then show ?thesis
    using assms(1) by (simp add: nat_window_def ext_exist_def del: seq_find_None)
qed

text \<open>
  Turning translation off removes \<open>/etc/nat\<close>, so that the kernel is loaded with the rules and without
  the divert rule; but the only commands run are these: natd is never killed.
\<close>

theorem nat_disable_loads:
  assumes "stable env NATSCRIPT" and "stable env RULESCRIPT"
  shows "\<exists>w'. nat_window env 0 2 w = Some (ditem_continue, w') \<and> files w' NATSCRIPT = None \<and>
    files w' RULESCRIPT = files w RULESCRIPT \<and>
    commands (trace w') = commands (trace w) @
      FLUSH_CMD # (case files w RULESCRIPT of None \<Rightarrow> [] | Some t \<Rightarrow> fgets_all 255 t)"
proof -
  let ?u = "unlink NATSCRIPT (emit [Dialog_clear, Menu ''ClosedBSD: Network Address Translation''
     ''Please select an option: '' (map (\<lambda>(p, t, _). (p, t)) menu5)] w)"
  have u: "files ?u NATSCRIPT = None" "files ?u RULESCRIPT = files w RULESCRIPT"
    "commands (trace ?u) = commands (trace w)"
    by (simp_all add: unlink_sel)
  obtain w' where w': "ruleset_load env ?u = Some (if files ?u RULESCRIPT = None then - 1 else 0, w')"
    "commands (trace w') = commands (trace ?u) @ FLUSH_CMD # load_commands (files ?u NATSCRIPT) (files ?u RULESCRIPT)"
    "files w' NATSCRIPT = files ?u NATSCRIPT" "files w' RULESCRIPT = files ?u RULESCRIPT"
    using ruleset_load_eq [OF assms, of ?u] u(1) by auto
  have "nat_window env 0 2 w = Some (ditem_continue, emit [Dialog_clear,
      Msgbox ''ClosedBSD: Notification'' ''Network Address Translation is now disabled''] w')"
    using w'(1) by (simp add: nat_window_def disable_nat_def)
  then show ?thesis using w'(2-4) u by (simp add: load_commands_def)
qed

text \<open>
  An empty \<open>/etc/nat\<close> is fatal: \<open>ruleset\<close> then runs a buffer that nothing has been written to. With no
  such file, or one that has a line, it is defined and answers whether there are rules.
\<close>

theorem ruleset_defined:
  assumes "stable env NATSCRIPT" and "stable env RULESCRIPT"
  shows "map_option fst (ruleset_load env w) =
    (if files w NATSCRIPT = Some [] then None
     else Some (if files w RULESCRIPT = None then - 1 else 0))"
proof (cases "files w NATSCRIPT = Some []")
  case True
  then show ?thesis
    using assms(1) by (simp add: ruleset_load_def nat_buffer_eq)
next
  case False
  then show ?thesis using ruleset_load_eq [OF assms False] by auto
qed

subsection \<open>Trying it\<close>

lemma two_cards_external:
  "one_external (table_recs two_cards)" "eth 1 ''xl0'' 1 \<in> table_recs two_cards"
  by (simp_all add: two_cards_recs one_external_def eth_def)

definition rules_world :: world where
  "rules_world = two_cards_world\<lparr>files := [RULESCRIPT \<mapsto> ''one'' @ [nl] @ ''two'' @ [nl]]\<rparr>"

lemma rules_world_sel:
  "devdb rules_world = Some two_cards" "files rules_world RULESCRIPT = Some (''one'' @ [nl] @ ''two'' @ [nl])"
  "files rules_world NATSCRIPT = None" "trace rules_world = []"
  by (simp_all add: rules_world_def two_cards_world_def blank_world_def)

lemma rules_world_lines: "fgets_all 255 (''one'' @ [nl] @ ''two'' @ [nl]) = [''one'' @ [nl], ''two'' @ [nl]]"
  by code_simp

theorem nat_enable_loads_witness:
  "\<exists>w'. nat_window calm 0 1 rules_world = Some (ditem_continue, w') \<and>
     files w' NATSCRIPT = Some (''xl0'' @ [nl]) \<and>
     commands (trace w') = [''/sbin/natd -n xl0'' @ [nl], ''/sbin/ipfw -q flush'',
       ''/sbin/ipfw -q add 85 divert 8668 ip from any to any via xl0'' @ [nl], ''one'' @ [nl], ''two'' @ [nl]]"
proof -
  have "nat_rule (''xl0'' @ [nl]) = ''/sbin/ipfw -q add 85 divert 8668 ip from any to any via xl0'' @ [nl]"
    by code_simp
  then show ?thesis
    using nat_enable_loads [OF rules_world_sel(1) two_cards_external, of calm] rules_world_sel rules_world_lines
    by (auto simp: eth_def FLUSH_CMD_def)
qed

theorem nat_needs_external_witness:
  "\<exists>w'. nat_window calm 0 1 (blank_world\<lparr>devdb := Some []\<rparr>) = Some (Rc (- 1), w')"
  using nat_needs_external [of "blank_world\<lparr>devdb := Some []\<rparr>" "[]" calm]
  by (auto simp: table_recs_def btseq_def)

theorem nat_disable_loads_witness:
  "\<exists>w'. nat_window calm 0 2 rules_world = Some (ditem_continue, w') \<and>
     commands (trace w') = [''/sbin/ipfw -q flush'', ''one'' @ [nl], ''two'' @ [nl]]"
  using nat_disable_loads [of calm rules_world] rules_world_sel rules_world_lines
  by (auto simp: FLUSH_CMD_def)

theorem ruleset_defined_witness:
  "ruleset_load calm (rules_world\<lparr>files := [NATSCRIPT \<mapsto> []]\<rparr>) = None \<and>
   map_option fst (ruleset_load calm rules_world) = Some 0"
  using ruleset_defined [of calm "rules_world\<lparr>files := [NATSCRIPT \<mapsto> []]\<rparr>"]
    ruleset_defined [of calm rules_world] rules_world_sel
  by simp

end
