(* ===== verification/BootInit.thy ===== *)
theory BootInit
  imports NatCtl
begin

text \<open>
  \<open>closedbsd/init\<close>: what the boot does with the saved configuration. \<open>config_devices\<close> sets up the
  devices of the database, \<open>ruleset\<close> and \<open>natset\<close> load the kernel from \<open>/etc/rules\<close> and
  \<open>/etc/nat\<close>; before that \<open>do_rc\<close> fills \<open>/etc\<close>; after it \<open>do_single\<close> asks for a login.
\<close>

subsection \<open>Devices\<close>

definition tab :: char where "tab = CHR 0x09"

definition print_device :: "device \<Rightarrow> act list" where
  "print_device u =
     [Print (tab # ''device: '' @ d_device u @ [nl]),
      Print (tab # tab # ''[ip addr] '' @ d_ip u @ [nl]),
      Print (tab # tab # ''[netmask] '' @ d_netmask u @ [nl])]"

definition boot_ifconfig :: "device \<Rightarrow> string" where
  "boot_ifconfig u =
     snprintf 256 (''/sbin/ifconfig '' @ d_device u @ '' '' @ d_ip u @ '' netmask '' @ d_netmask u)"

definition boot_route :: "device \<Rightarrow> string" where
  "boot_route u = snprintf 256 (''/sbin/route add default '' @ d_gateway u @ '' >>/dev/null'')"

definition config_device :: "env \<Rightarrow> device \<Rightarrow> world \<Rightarrow> world" where
  "config_device env u w =
     (if d_id u = 0 then
        let w = emit (Print [nl] # print_device u) w;
            w = (if 0 < length (d_gateway u) \<and> d_ext u = 1
                 then emit [Print (tab # tab # ''[gateway] '' @ d_gateway u @ [nl])] w else w);
            w = run env (boot_ifconfig u) w
        in if 0 < length (d_gateway u) \<and> d_ext u = 1 then run env (boot_route u) w else w
      else
        let w = emit [Print [nl]] w in
        (case d_dhcp u of
           DHCP_ENABLED \<Rightarrow>
             let w = emit [Print (tab # ''device: '' @ d_device u @ [nl])] w;
                 cmd = (if files w DHCLIENT_CONF \<noteq> None
                        then snprintf 256 ''/sbin/dhclient -cf /etc/dhclient.conf''
                        else snprintf 256 (''/sbin/dhclient '' @ d_device u))
             in run env cmd w
         | _ \<Rightarrow>
             let w = emit (print_device u) w;
                 w = (if 0 < length (d_gateway u)
                      then emit [Print (tab # tab # ''[gateway] '' @ d_gateway u @ [nl])] w else w);
                 w = run env (boot_ifconfig u) w
             in if 0 < length (d_gateway u) \<and> d_ext u = 1 then run env (boot_route u) w else w))"

definition config_devices :: "env \<Rightarrow> world \<Rightarrow> (int \<times> world) option" where
  "config_devices env w = do {
     let w = emit [Print [nl], Print ''reading device database...'', Print ('' done'' @ [nl]),
       Print (''configuring devices: '' @ [nl])] w;
     t \<leftarrow> devdb w;
     let w = fold (config_device env) (btseq t) w;
     Some (0, emit [Print [nl]] w)
   }"

subsection \<open>Rules and translation\<close>

definition boot_ruleset :: "env \<Rightarrow> world \<Rightarrow> (int \<times> world) option" where
  "boot_ruleset env w = do {
     w \<leftarrow> (case files w NATSCRIPT of
            None \<Rightarrow> Some w
          | Some text \<Rightarrow> do { nat \<leftarrow> nat_buffer text; Some (run env nat w) });
     Some (case files w RULESCRIPT of
             None \<Rightarrow> (- 1, w)
           | Some text \<Rightarrow> (0, run_lines env text w))
   }"

text \<open>The loop of \<open>natset\<close> stops at the first line of three characters; without one \<open>nat\<close> is not
  initialised.\<close>

fun natset_buffer :: "string list \<Rightarrow> string option" where
  "natset_buffer [] = None"
| "natset_buffer (buf # bufs) =
     (if 3 \<le> length buf then Some (snprintf 256 (''/sbin/natd -n '' @ buf @ [nl]))
      else natset_buffer bufs)"

definition natset :: "env \<Rightarrow> world \<Rightarrow> (int \<times> world) option" where
  "natset env w =
     (case files w NATSCRIPT of
        None \<Rightarrow> Some (- 1, w)
      | Some text \<Rightarrow> do { nat \<leftarrow> natset_buffer (fgets_all 255 text); Some (0, run env nat w) })"

subsection \<open>The boot\<close>

text \<open>
  \<open>do_rc\<close>: the file systems, then the boot menu. \<open>pick\<close> is the item that was selected, if any, and
  \<open>ret\<close> what \<open>dialog_menu\<close> answers. Its value is the argument vector of the last \<open>execv\<close>.
\<close>

datatype boot_params = IMPORT_BOOT | CD_BOOT

definition menu1_im :: "env \<Rightarrow> world \<Rightarrow> boot_params \<times> world" where
  "menu1_im env w =
     (let w = emit [Dialog_clear, Msgbox ''ClosedBSD'' ''Please insert the floppy diskette with saved settings''] w
      in case system env ''/sbin/mount /dev/fd0 /mnt'' w of
           (ret, w) \<Rightarrow>
             if ret = 0 then (IMPORT_BOOT, run env ''/sbin/restoretc'' w)
             else (IMPORT_BOOT, emit [Msgbox ''ClosedBSD''
                (''Unable to restore settings. '' @ [nl, nl] @ ''Contact bugs@closedbsd.org!'')] w))"

definition menu1_bo :: "world \<Rightarrow> boot_params \<times> world" where
  "menu1_bo w = (CD_BOOT, w)"

definition copy_defaults :: "env \<Rightarrow> world \<Rightarrow> world" where
  "copy_defaults env w = run env ''/bin/cp -R /defaults/var/* /var/'' (run env ''/bin/cp /defaults/etc/* /etc/'' w)"

definition do_rc :: "env \<Rightarrow> nat option \<Rightarrow> int \<Rightarrow> world \<Rightarrow> string list \<times> world" where
  "do_rc env pick ret w =
     (let w = emit [Print (''mounting /etc filesystem... done'' @ [nl])] w;
          w = run env ''/sbin/mount_mfs -s 8192 swap /etc'' w;
          w = emit [Print (''mounting /var filesystem... done'' @ [nl])] w;
          w = run env ''/sbin/mount_mfs -s 8192 swap /var'' w;
          w = emit [Print (''mounting /tmp filesystem... done'' @ [nl])] w;
          w = run env ''/sbin/mount_mfs -s 8192 swap /tmp'' w;
          w = copy_defaults env w;
          w = emit [Init_dialog, Dialog_clear, Menu ''ClosedBSD Boot Menu''
            ''Please select the appropriate option:''
            [(''Boot'', ''Boot the CD without loading saved settings''),
             (''Import'', ''Import settings from floppy and boot the CD'')]] w;
          (params, w) = (case pick of
             Some 0 \<Rightarrow> menu1_bo w
           | Some (Suc 0) \<Rightarrow> menu1_im env w
           | _ \<Rightarrow> (CD_BOOT, w));
          w = emit [Endwin] w;
          w = (if ret = 0 then
                 (case params of
                    CD_BOOT \<Rightarrow> copy_defaults env w
                  | IMPORT_BOOT \<Rightarrow> emit [Print ''loading /etc contents... done''] w)
               else w)
      in ([''-sh'', ''/etc/rc''], w))"

text \<open>The head of \<open>do_single\<close>: devices, firewall, translation.\<close>

definition boot_services :: "env \<Rightarrow> world \<Rightarrow> world option" where
  "boot_services env w = do {
     (_, w) \<leftarrow> config_devices env w;
     (_, w) \<leftarrow> boot_ruleset env w;
     (_, w) \<leftarrow> natset env w;
     Some w
   }"

subsection \<open>The login\<close>

text \<open>
  One round of the login loop, in the child. \<open>pwdb\<close> is \<open>getpwnam\<close>, the stored password of a user,
  and \<open>crypt\<close> the C library's; \<open>scanf("%s", user)\<close> stores into 128 bytes.
\<close>

datatype login_result = Exit int | Exec_shell

definition login ::
  "(string \<Rightarrow> string option) \<Rightarrow> (string \<Rightarrow> string \<Rightarrow> string) \<Rightarrow> env \<Rightarrow> string \<Rightarrow> string \<Rightarrow> world \<Rightarrow>
   (login_result \<times> world) option" where
  "login pwdb crypt env user_in pass w = do {
     let w = emit [Print (''ClosedBSD 1.0-RC1 [ttyv0]'' @ [nl, nl]), Print ''login: ''] w;
     user \<leftarrow> strcpy 128 user_in;
     let w = emit [Print ''password: '', Print [nl, nl]] w;
     if length user \<le> 0 then Some (Exit 10, w)
     else
       (case pwdb user of
          Some salt \<Rightarrow>
            let ep = crypt pass salt in
            if length salt = 0 then
              Some (Exec_shell, emit [Print (''please set the root password with '' @ CHR 0x27 # ''passwd'' @ [CHR 0x27, nl, nl])]
                (run env ''/sbin/cat /etc/motd'' w))
            else if ep = salt then Some (Exec_shell, run env ''/sbin/cat /etc/motd'' w)
            else Some (Exit 10, emit [Print (''invalid login'' @ [nl, nl])] w)
        | None \<Rightarrow> Some (Exit 10, emit [Print (''invalid login'' @ [nl, nl])] w))
   }"

subsection \<open>What the boot runs\<close>

definition route_commands :: "device \<Rightarrow> string list" where
  "route_commands u = (if d_gateway u \<noteq> [] \<and> d_ext u = 1 then [boot_route u] else [])"

definition boot_commands :: "bool \<Rightarrow> device \<Rightarrow> string list" where
  "boot_commands conf u =
     (if d_id u \<noteq> 0 \<and> d_dhcp u = DHCP_ENABLED then
        [if conf then ''/sbin/dhclient -cf /etc/dhclient.conf''
         else snprintf 256 (''/sbin/dhclient '' @ d_device u)]
      else boot_ifconfig u # route_commands u)"

lemma print_device_commands [simp]: "commands (print_device u) = []"
  by (simp add: print_device_def)

lemma config_device_sel:
  "commands (trace (config_device env u w)) =
     commands (trace w) @ boot_commands (files w DHCLIENT_CONF \<noteq> None) u"
  "devdb (config_device env u w) = devdb w"
  "stable env p \<Longrightarrow> files (config_device env u w) p = files w p"
  by (cases "d_dhcp u"; simp add: config_device_def boot_commands_def route_commands_def Let_def
      run_sel(2,3) snprintf_fits)+

lemma config_devices_fold:
  assumes "stable env DHCLIENT_CONF"
  shows "commands (trace (fold (config_device env) us w)) =
      commands (trace w) @ concat (map (boot_commands (files w DHCLIENT_CONF \<noteq> None)) us)"
    and "devdb (fold (config_device env) us w) = devdb w"
    and "stable env p \<Longrightarrow> files (fold (config_device env) us w) p = files w p"
  using assms by (induction us arbitrary: w) (simp_all add: config_device_sel)

lemma boot_ruleset_eq:
  assumes "stable env NATSCRIPT" "stable env RULESCRIPT" "files w NATSCRIPT \<noteq> Some []"
  shows "\<exists>w'. boot_ruleset env w = Some (if files w RULESCRIPT = None then - 1 else 0, w') \<and>
    commands (trace w') = commands (trace w) @ load_commands (files w NATSCRIPT) (files w RULESCRIPT) \<and>
    files w' NATSCRIPT = files w NATSCRIPT"
  using assms
  by (cases "files w NATSCRIPT"; cases "files w RULESCRIPT")
    (simp_all add: boot_ruleset_def load_commands_def run_lines_sel nat_buffer_eq run_sel(2,3))

lemma natset_buffer_eq:
  "natset_buffer bufs = map_option (\<lambda>buf. snprintf 256 (''/sbin/natd -n '' @ buf @ [nl]))
     (List.find (\<lambda>buf. 3 \<le> length buf) bufs)"
  by (induction bufs) auto

definition natd_commands :: "string option \<Rightarrow> string list" where
  "natd_commands natfile =
     (case natfile of None \<Rightarrow> []
      | Some t \<Rightarrow> (case natset_buffer (fgets_all 255 t) of None \<Rightarrow> [] | Some c \<Rightarrow> [c]))"

lemma natset_eq:
  assumes "\<forall>t. files w NATSCRIPT = Some t \<longrightarrow> natset_buffer (fgets_all 255 t) \<noteq> None"
  shows "\<exists>r w'. natset env w = Some (r, w') \<and>
    commands (trace w') = commands (trace w) @ natd_commands (files w NATSCRIPT)"
  using assms by (auto simp: natset_def natd_commands_def run_sel split: option.splits)

subsection \<open>Properties\<close>

text \<open>
  The boot restores the configuration: every device of the database is configured, in the order
  of the b-tree, by the commands of its record; then come the divert rule of \<open>/etc/nat\<close>, every line
  of \<open>/etc/rules\<close> in order, and natd on the device of \<open>/etc/nat\<close>.
\<close>

theorem boot_restores:
  assumes "devdb w = Some t" and "stable env DHCLIENT_CONF" and "stable env NATSCRIPT"
    and "stable env RULESCRIPT" and "files w NATSCRIPT \<noteq> Some []"
    and "\<forall>s. files w NATSCRIPT = Some s \<longrightarrow> natset_buffer (fgets_all 255 s) \<noteq> None"
  shows "\<exists>w'. boot_services env w = Some w' \<and>
    commands (trace w') = commands (trace w) @
      concat (map (boot_commands (files w DHCLIENT_CONF \<noteq> None)) (btseq t)) @
      load_commands (files w NATSCRIPT) (files w RULESCRIPT) @ natd_commands (files w NATSCRIPT)"
proof -
  let ?u = "emit [Print [nl], Print ''reading device database...'', Print ('' done'' @ [nl]),
       Print (''configuring devices: '' @ [nl])] w"
  define w1 where "w1 = emit [Print [nl]] (fold (config_device env) (btseq t) ?u)"
  have "config_devices env w = Some (0, w1)"
    using assms(1) by (simp add: config_devices_def w1_def)
  moreover have "commands (trace w1) = commands (trace w) @
      concat (map (boot_commands (files w DHCLIENT_CONF \<noteq> None)) (btseq t))"
    using config_devices_fold(1) [OF assms(2), of "btseq t" ?u] by (simp add: w1_def)
  moreover have f: "files w1 NATSCRIPT = files w NATSCRIPT" "files w1 RULESCRIPT = files w RULESCRIPT"
    using config_devices_fold(3) [OF assms(2,3), of "btseq t" ?u]
      config_devices_fold(3) [OF assms(2,4), of "btseq t" ?u] by (simp_all add: w1_def)
  moreover obtain w2 r where "boot_ruleset env w1 = Some (r, w2)"
    "commands (trace w2) = commands (trace w1) @ load_commands (files w NATSCRIPT) (files w RULESCRIPT)"
    "files w2 NATSCRIPT = files w NATSCRIPT"
    using boot_ruleset_eq [OF assms(3,4), of w1] assms(5) f by auto
  moreover from this(3) obtain w3 r' where "natset env w2 = Some (r', w3)"
    "commands (trace w3) = commands (trace w2) @ natd_commands (files w NATSCRIPT)"
    using natset_eq [of w2 env] assms(6) by auto
  ultimately show ?thesis by (simp add: boot_services_def)
qed

text \<open>
  The two \<open>ruleset\<close> functions, of the boot and of the config shell, agree: the one of the
  shell flushes first.
\<close>

theorem ruleset_boot_config:
  "ruleset_load env w = boot_ruleset env (run env ''/sbin/ipfw -q flush'' w)"
  by (simp add: ruleset_load_def boot_ruleset_def Let_def)

text \<open>
  The first device of the database cannot use DHCP after a reboot: whatever its record says, it is
  configured by \<open>ifconfig\<close> with the recorded address, which a DHCP record leaves empty.
\<close>

theorem boot_first_dhcp:
  assumes "d_id u = 0" and "d_dhcp u = DHCP_ENABLED" and "d_ip u = []" and "d_netmask u = []"
    and "d_gateway u = []" and "length (d_device u) < 6"
  shows "commands (trace (config_device env u w)) =
    commands (trace w) @ [''/sbin/ifconfig '' @ d_device u @ ''  netmask '']"
  using assms
  by (simp add: config_device_sel boot_commands_def boot_ifconfig_def route_commands_def snprintf_fits)

text \<open>
  C26. The login: a shell is given exactly when the user exists and either has no password or has
  entered the one that is stored; otherwise the child exits, and nothing has been run.
\<close>

theorem login_shell:
  assumes "login pwdb crypt env user pass w = Some (r, w')"
  shows "(r = Exec_shell \<longleftrightarrow>
      user \<noteq> [] \<and> (\<exists>stored. pwdb user = Some stored \<and> (stored = [] \<or> crypt pass stored = stored))) \<and>
    (r \<noteq> Exec_shell \<longrightarrow> r = Exit 10 \<and> commands (trace w') = commands (trace w) \<and> files w' = files w)"
  using assms
  by (auto simp: login_def Let_def bind_eq_Some_conv strcpy_eq_Some split: if_splits option.splits)

subsection \<open>Trying it\<close>

theorem boot_restores_witness:
  "\<exists>w'. boot_services calm (rules_world\<lparr>files := (files rules_world)(NATSCRIPT \<mapsto> ''xl0'' @ [nl])\<rparr>) = Some w' \<and>
     commands (trace w') =
       [''/sbin/ifconfig fxp0 10.0.0.1 netmask 255.0.0.0'', ''/sbin/ifconfig xl0 10.0.0.1 netmask 255.0.0.0'',
        ''/sbin/route add default 10.0.0.254 >>/dev/null'',
        ''/sbin/ipfw -q add 85 divert 8668 ip from any to any via xl0'' @ [nl], ''one'' @ [nl], ''two'' @ [nl],
        ''/sbin/natd -n xl0'' @ [nl, nl]]"
proof -
  let ?w = "rules_world\<lparr>files := (files rules_world)(NATSCRIPT \<mapsto> ''xl0'' @ [nl])\<rparr>"
  have d: "concat (map (boot_commands False) (btseq two_cards)) =
      [''/sbin/ifconfig fxp0 10.0.0.1 netmask 255.0.0.0'', ''/sbin/ifconfig xl0 10.0.0.1 netmask 255.0.0.0'',
        ''/sbin/route add default 10.0.0.254 >>/dev/null'']"
    "load_commands (Some (''xl0'' @ [nl])) (Some (''one'' @ [nl] @ ''two'' @ [nl])) =
      [''/sbin/ipfw -q add 85 divert 8668 ip from any to any via xl0'' @ [nl], ''one'' @ [nl], ''two'' @ [nl]]"
    "natd_commands (Some (''xl0'' @ [nl])) = [''/sbin/natd -n xl0'' @ [nl, nl]]"
    "natset_buffer (fgets_all 255 (''xl0'' @ [nl])) \<noteq> None"
    by code_simp+
  have w: "devdb ?w = Some two_cards" "files ?w NATSCRIPT = Some (''xl0'' @ [nl])"
    "files ?w RULESCRIPT = Some (''one'' @ [nl] @ ''two'' @ [nl])" "files ?w DHCLIENT_CONF = None"
    "trace ?w = []"
    using rules_world_sel by (simp_all add: rules_world_def two_cards_world_def blank_world_def path_defs)
  from boot_restores [OF w(1), of calm] show ?thesis
    using d by (simp only: w) (simp add: calm_spares)
qed

definition zero_dhcp :: "string \<Rightarrow> device" where
  "zero_dhcp n = \<lparr>d_id = 0, d_device = n, d_ip = [], d_netmask = [], d_gateway = [], d_ext = 1,
     d_dhcp = DHCP_ENABLED\<rparr>"

theorem boot_first_dhcp_witness:
  "commands (trace (config_device calm (zero_dhcp ''xl0'') blank_world)) = [''/sbin/ifconfig xl0  netmask '']"
  using boot_first_dhcp [of "zero_dhcp ''xl0''" calm blank_world]
  by (simp add: zero_dhcp_def blank_world_def)

theorem login_shell_witness:
  "\<exists>w'. login [''root'' \<mapsto> ''ab12''] (\<lambda>p s. s) calm ''root'' ''pw'' blank_world = Some (Exec_shell, w')"
proof -
  obtain r w' where l: "login [''root'' \<mapsto> ''ab12''] (\<lambda>p s. s) calm ''root'' ''pw'' blank_world = Some (r, w')"
    by (simp add: login_def Let_def strcpy_Some)
  then show ?thesis using login_shell [OF l] by auto
qed

end
