(* ===== verification/Menus.thy ===== *)
theory Menus
  imports IfCfg NatCtl RuleProps
begin

text \<open>
  The menus of the config shell: \<open>fwmenu.c\<close> (firewall), \<open>devices.c\<close> (interfaces), the saving
  action of \<open>menu.c\<close> and the summary of \<open>sum.c\<close>. What the user picks is a parameter; the nested
  dialogs are the machines of \<open>FilterDlg\<close>, \<open>Forward\<close> and \<open>IfCfg\<close>.
\<close>

subsection \<open>The firewall menu\<close>

definition afm_list :: "world \<Rightarrow> rc \<times> world" where
  "afm_list w =
     (ditem_continue, emit [Dialog_clear, Prgbox ''ClosedBSD: Listing IPFW rules'' ''/sbin/ipfw list'',
        Dialog_clear] w)"

definition afm_flush :: "env \<Rightarrow> world \<Rightarrow> rc \<times> world" where
  "afm_flush env w =
     (let w = emit [Dialog_clear] w;
          w = run env ''/sbin/ipfw -q flush'' w;
          w = unlink RULESCRIPT w
      in (ditem_continue, emit [Msgbox ''ClosedBSD'' ''Ruleset has been cleared.''] w))"

definition afm_save :: "world \<Rightarrow> rc \<times> world" where
  "afm_save w = (ditem_continue, w)"

definition afm_delete ::
  "env \<Rightarrow> (nat \<Rightarrow> ritem) \<Rightarrow> nat option \<Rightarrow> world \<Rightarrow> (rc \<times> world) option" where
  "afm_delete env beyond pick w = do {
     (_, w) \<leftarrow> delete_rule env beyond pick w;
     Some (ditem_continue, w)
   }"

text \<open>\<open>dialog_inputbox\<close> answers \<open>ret\<close> and leaves \<open>result\<close> in the 256-byte buffer.\<close>

definition afi_manual :: "env \<Rightarrow> int \<Rightarrow> string \<Rightarrow> world \<Rightarrow> (rc \<times> world) option" where
  "afi_manual env ret result w = do {
     result \<leftarrow> strcpy 256 result;
     let w = emit [Dialog_clear, Inputbox ''ClosedBSD: Manual IPFW rule addition'' result] w;
     Some (ditem_continue, if ret = 0 then snd (raw_add_rule env result w) else w)
   }"

text \<open>
  One of the four rules of the \<open>Basic\<close> firewall: a zeroed structure with the action, the
  protocol and both addresses assigned.
\<close>

definition basic_rule :: "proto \<Rightarrow> ruleset" where
  "basic_rule p =
     zero_rule\<lparr>r_cmd := ADD, r_action := ALLOW, r_proto := p,
       r_src := snprintf 128 ''any'', r_dst := snprintf 128 ''any''\<rparr>"

definition basic_firewall :: "env \<Rightarrow> string option \<Rightarrow> int \<Rightarrow> world \<Rightarrow> (rc \<times> world) option" where
  "basic_firewall env tmp save w = do {
     ret \<leftarrow> ext_exist w;
     if ret < 0 then
       Some (ditem_continue, emit [Dialog_clear,
         Msgbox ''ClosedBSD'' ''You must first configure an external device''] w)
     else do {
       let w = unlink RULESCRIPT w;
       let w = run env ''/sbin/ipfw -q flush'' w;
       (_, w) \<leftarrow> enable_nat env tmp w;
       (_, w) \<leftarrow> insert_rule_text env (basic_rule IP) w;
       (_, w) \<leftarrow> insert_rule_text env (basic_rule TCP) w;
       (_, w) \<leftarrow> insert_rule_text env (basic_rule UDP) w;
       (_, w) \<leftarrow> insert_rule_text env (basic_rule ICMP) w;
       let w = emit [Dialog_clear] w;
       let w = run env (snprintf 256 (''/sbin/natd -n '' @ c_str tmp)) w;
       let w = unlink NATSCRIPT w;
       if \<not> writable env NATSCRIPT then Some (Rc (- 1), w)
       else do {
         let w = fopen_append NATSCRIPT w;
         let w = fprintf NATSCRIPT (c_str tmp) w;
         let w = emit [Yesno ''ClosedBSD: 'Basic' Firewall Type Enabled'' ''Save Configuration?''] w;
         Some (ditem_continue, if save = 0 then run env ''/sbin/writetcnp'' w else w)
       }
     }
   }"

definition main_fw_menu :: "env \<Rightarrow> int \<Rightarrow> int \<Rightarrow> int \<Rightarrow> world \<Rightarrow> (rc \<times> world) option" where
  "main_fw_menu env retval sel save w = do {
     tmp \<leftarrow> dev_ext w;
     let w = emit [Init_dialog, Menu ''ClosedBSD'' ''Select Your Firewall Configuration''
       [(''Basic'', ''Basic configuration; pass all packets in and out.''),
        (''Advanced'', ''Create / Manage a custom ruleset'')], Dialog_clear, Init_dialog] w;
     if retval = 0 then
       (if sel = 1 then basic_firewall env tmp save w
        else if sel = 2 then
          Some (ditem_continue, emit [Dialog_clear,
            Menu ''ClosedBSD: Firewall Configuration'' ''Please select the appropriate option:''
              [(''Insert'', ''insert a rule''), (''Delete'', ''delete a rule''),
               (''List'', ''list current rules''), (''Flush'', ''flush all rules''),
               (''Save'', ''save all settings'')]] w)
        else Some (ditem_continue, w))
     else Some (ditem_continue, w)
   }"

subsection \<open>The interface menu\<close>

text \<open>
  \<open>dev_list\<close>: the names that \<open>/sbin/ifs.sh\<close> writes to \<open>/tmp/devices.tmp\<close>, one per line, become
  the items of a menu. \<open>menu2\<close> has 50 of them.
\<close>

definition device_title :: "string \<Rightarrow> world \<Rightarrow> string option" where
  "device_title buf w =
     (if strncmp_eq buf ''ppp'' 3 then Some ''PPP Device''
      else if strncmp_eq buf ''sl'' 2 then Some ''Slip Device''
      else if strncmp_eq buf ''gif'' 3 then Some ''IPv6 Device''
      else if strncmp_eq buf ''lo'' 2 then Some ''Loopback Device: [configured]''
      else do {
        i \<leftarrow> device_exist buf w;
        Some (if i \<ge> 0 then ''Ethernet Device: [configured]'' else ''Ethernet Device'')
      })"

definition MAX_ITEMS :: nat where "MAX_ITEMS = 50"

fun fill_menu2 :: "string list \<Rightarrow> (string \<times> string) list \<Rightarrow> world \<Rightarrow> (string \<times> string) list option" where
  "fill_menu2 [] items w = Some items"
| "fill_menu2 (buf # bufs) items w =
     (if length items < MAX_ITEMS then do {
        let buf = butlast buf;
        t \<leftarrow> device_title buf w;
        fill_menu2 bufs (items @ [(buf, t)]) w
      }
      else None)"

definition dev_list :: "env \<Rightarrow> world \<Rightarrow> (int \<times> (string \<times> string) list \<times> world) option" where
  "dev_list env w = do {
     let w = unlink TMPDEVICES w;
     let w = run env ''/sbin/ifs.sh'' w;
     case files w TMPDEVICES of
       None \<Rightarrow> Some (- 1, [], w)
     | Some text \<Rightarrow> do {
         let w = emit [Dialog_clear] w;
         items \<leftarrow> fill_menu2 (fgets_all 255 text) [] w;
         let w = unlink TMPDEVICES w;
         Some (0, items, emit [Menu ''ClosedBSD'' ''Please select the device to configure'' items,
           Dialog_clear] w)
       }
   }"

text \<open>\<open>write_dhcp_conf\<close> closes the stream even when it is \<open>NULL\<close>.\<close>

definition write_dhcp_conf :: "env \<Rightarrow> string \<Rightarrow> string \<Rightarrow> world \<Rightarrow> (int \<times> world) option" where
  "write_dhcp_conf env hostname device w =
     (let w = unlink DHCLIENT_CONF w in
      if \<not> writable env DHCLIENT_CONF then None
      else let w = fopen_append DHCLIENT_CONF w;
               w = fprintf DHCLIENT_CONF (''interface '' @ CHR 0x22 # device @ [CHR 0x22] @ '' {'' @ [nl, CHR 0x09] @
                 ''send host-name '' @ CHR 0x22 # hostname @ [CHR 0x22] @ '';'' @ [nl] @ ''}'' @ [nl]) w
           in Some (0, w))"

text \<open>
  \<open>dev_config\<close>: \<open>dhcp\<close> is the answer to its question, \<open>host\<close> and \<open>hostname\<close> those of the
  input box; the other parameters are the inputs of \<open>ifs_cfg\<close>.
\<close>

definition dhcp_device :: "int \<Rightarrow> string \<Rightarrow> device" where
  "dhcp_device i dev = \<lparr>d_id = i, d_device = dev, d_ip = [], d_netmask = [], d_gateway = [],
     d_ext = 1, d_dhcp = DHCP_ENABLED\<rparr>"

definition dev_config ::
  "env \<Rightarrow> device \<Rightarrow> string \<Rightarrow> int \<Rightarrow> int \<Rightarrow> string \<Rightarrow> event list \<Rightarrow> int \<Rightarrow> int \<Rightarrow> int \<Rightarrow> world \<Rightarrow>
   (rc \<times> world) option" where
  "dev_config env junk device dhcp host hostname es dflt overwrite again w = do {
     let w = emit [Dialog_clear, Yesno ''ClosedBSD'' ''Should this device use DHCP?''] w;
     w \<leftarrow>
       (if dhcp = 0 then do {
          i \<leftarrow> next_device_id w;
          dev \<leftarrow> strcpy 6 device;
          let d = dhcp_device i dev;
          hostname \<leftarrow> strcpy 212 hostname;
          let w = emit [Dialog_clear, Dialog_clear, Inputbox ''ClosedBSD'' hostname] w;
          w \<leftarrow> (if host = 0 \<and> length hostname > 1
                 then map_option snd (write_dhcp_conf env hostname dev w) else Some w);
          (_, w) \<leftarrow> insert_device env d w;
          Some (emit [Dialog_clear] w)
        }
        else if dhcp = 1 then do {
          (_, w) \<leftarrow> ifs_cfg env junk ''ClosedBSD'' device es dflt overwrite again w;
          Some w
        }
        else Some w);
     Some (ditem_continue, emit [Dialog_clear] w)
   }"

subsection \<open>Saving\<close>

text \<open>
  \<open>_menu1_sa_action\<close>: mount the floppy disk, or format it step by step, and write the settings.
\<close>

definition sa_fail :: "string \<Rightarrow> world \<Rightarrow> world" where
  "sa_fail prog w = emit [Dialog_clear, Msgbox ''ClosedBSD''
     (''Some error occured during '' @ prog @ ''.  Contact bugs@closedbsd.org.'')] w"

definition sa_gauge :: "int \<Rightarrow> act" where
  "sa_gauge percent = Gauge ''ClosedBSD'' ''Formatting /dev/fd0'' percent"

definition menu1_save :: "env \<Rightarrow> world \<Rightarrow> world" where
  "menu1_save env w =
     (let w = emit [Dialog_clear, Msgbox ''ClosedBSD'' ''Please insert a floppy diskette and press a key.'',
                Dialog_clear] w;
          (ret, w) = system env ''/sbin/mount /dev/fd0 /mnt'' w
      in if ret \<noteq> 0 then
           let w = emit [Dialog_clear, Msgbox ''ClosedBSD'' ''This floppy is not formatted.  Press a key to format. (This may take a few minutes)'',
                     Dialog_clear, sa_gauge 10] w;
               (ret, w) = system env ''/sbin/fdformat -y /dev/fd0 >/dev/null'' w
           in if ret \<noteq> 0 then sa_fail (CHR 0x27 # ''fdformat'' @ [CHR 0x27]) w
           else let (ret, w) = system env ''/sbin/disklabel -w -r /dev/fd0 fd1440 >/dev/null'' (emit [sa_gauge 30] w)
           in if ret \<noteq> 0 then sa_fail (CHR 0x27 # ''disklabel'' @ [CHR 0x27]) w
           else let (ret, w) = system env ''/sbin/newfs -T fd1440 /dev/fd0 fd1440 >/dev/null'' (emit [sa_gauge 60] w)
           in if ret \<noteq> 0 then sa_fail (CHR 0x27 # ''newfs'' @ [CHR 0x27]) w
           else let (ret, w) = system env ''/sbin/mount /dev/fd0 /mnt >/dev/null'' (emit [sa_gauge 100] w)
           in if ret \<noteq> 0 then emit [Dialog_clear, Msgbox ''ClosedBSD'' ''Unable to mount floppy.  Contact bugs@closedbsd.org.''] w
           else run env ''/sbin/writetcnp'' (run env ''/sbin/writetcnp'' w)
         else run env ''/sbin/writetcnp'' (run env ''/sbin/umount /dev/fd0'' w))"


subsection \<open>The configuration summary\<close>

text \<open>
  \<open>sum.c\<close>. A line of \<open>/etc/rules\<close> is shown from behind its first \<open>q\<close> to the next one, less the
  last character; \<open>s\<close> is \<open>NULL\<close>, and written through, when there is nothing behind the \<open>q\<close>.
\<close>

definition chr :: "nat \<Rightarrow> string" where
  "chr n = [char_of n]"

definition summary_device :: "int \<Rightarrow> device \<Rightarrow> act" where
  "summary_device i d = Curses (Mvwprintw i 8 (chr 179 @ '' '' @ pad_left 16 (d_device d) @ '' '' @ chr 179 @ '' '' @
     pad_left 16 (d_ip d) @ '' '' @ chr 179 @ '' '' @ pad_left 16 (d_netmask d) @ '' '' @ chr 179 @ '' ''))"

definition summary_edge :: "int \<Rightarrow> nat \<Rightarrow> nat \<Rightarrow> nat \<Rightarrow> act list" where
  "summary_edge i l r cross =
     [Curses (Mvwprintw i 8 (chr l)), Curses (Mvwprintw i 65 (chr r))] @
     map (\<lambda>n. Curses (Mvwprintw i n (chr 196))) [9..64] @
     [Curses (Mvwprintw i 27 (chr cross)), Curses (Mvwprintw i 46 (chr cross))]"

definition summary_rule :: "string \<Rightarrow> string option" where
  "summary_rule buf = map_option butlast (fst (strtok ''q'' (snd (strtok ''q'' buf))))"

fun summary_rules :: "int \<Rightarrow> string list \<Rightarrow> act list option" where
  "summary_rules f [] = Some []"
| "summary_rules f (buf # bufs) =
     (if f < 21 then do {
        s \<leftarrow> summary_rule buf;
        as \<leftarrow> summary_rules (f + 1) bufs;
        Some (Curses (Mvwprintw f 6 s) # as)
      }
      else Some [])"

definition summary_head :: "act list" where
  "summary_head =
     [Dialog_clear, Newwin 22 74 2 2, Curses (Draw_box 0 0 22 74 dialog_attr border_attr),
      Curses (Draw_shadow 0 0 23 75), Curses (Wattrset title_attr),
      Curses (Mvwprintw 0 18 ''[ ClosedBSD: Configuration summary ]''), Curses (Wattrset dialog_attr)] @
     summary_edge 2 218 191 194 @
     [Curses (Wattrset title_attr), Curses (Mvwprintw 2 14 '' Device ''), Curses (Mvwprintw 2 35 '' IP ''),
      Curses (Mvwprintw 2 52 '' Netmask ''), Curses (Wattrset dialog_attr)]"

definition summary :: "world \<Rightarrow> (rc \<times> world) option" where
  "summary w = do {
     t \<leftarrow> devdb w;
     let ds = btseq t;
     let i = 3 + int (length ds);
     rules \<leftarrow> (case files w RULESCRIPT of
         None \<Rightarrow> Some [Curses (Mvwprintw (i + 4) 6 ''There are currently no firewall rules to display'')]
       | Some text \<Rightarrow> map_option (\<lambda>as. Curses (Mvwprintw (i + 2) 6 ''Firewall rules currently in place: '') # as)
           (summary_rules (i + 4) (fgets_all 255 text)));
     Some (ditem_continue, emit (summary_head @
       map (\<lambda>(i, d). summary_device i d) (zip [3..i - 1] ds) @ summary_edge i 192 217 193 @ rules @
       [Curses (Mvwprintw 22 37 ''Press any key to exit.''), Curses (Wmove 0 0), Curses Wrefresh,
        Dialog_clear]) w)
   }"

subsection \<open>The Basic firewall\<close>

definition basic_line :: "proto \<Rightarrow> string" where
  "basic_line p = ''/sbin/ipfw -q add allow '' @ proto_text p @ '' from any to any''"

lemma basic_rule_text:
  "filter_text (basic_rule p) = basic_line p" "action_listed (basic_rule p)" "r_action (basic_rule p) = ALLOW"
proof -
  have r: "basic_rule p = zero_rule\<lparr>r_cmd := ADD, r_action := ALLOW, r_proto := p, r_src := ''any'', r_dst := ''any''\<rparr>"
    by (simp add: basic_rule_def snprintf_fits)
  show "filter_text (basic_rule p) = basic_line p" "action_listed (basic_rule p)"
    "r_action (basic_rule p) = ALLOW"
    unfolding r by (cases p; simp add: filter_text_def action_listed_def basic_line_def zero_rule_def
      action_text_def port_pieces_def other_pieces_def dir_text_def option_text_def)+
qed

lemma basic_line_length: "length (basic_line p) < 256"
  by (cases p) (simp_all add: basic_line_def proto_text_def)

lemma basic_insert:
  assumes "writable env RULESCRIPT" "stable env RULESCRIPT"
  shows "\<exists>w'. insert_rule_text env (basic_rule p) w = Some (0, w') \<and>
    contents RULESCRIPT w' = contents RULESCRIPT w @ basic_line p @ [nl] \<and>
    commands (trace w') = commands (trace w) @ [basic_line p, CHMOD744] \<and> devdb w' = devdb w"
proof -
  have "spares env {filter_text (basic_rule p), CHMOD744} RULESCRIPT"
    using assms(2) by (simp add: spares_def)
  then show ?thesis
    using insert_rule_text_filter [of env "basic_rule p" w] assms(1) basic_line_length [of p]
    by (simp add: basic_rule_text)
qed

definition WRITETC :: string where "WRITETC = ''/sbin/writetcnp''"

text \<open>
  C28. The \<open>Basic\<close> firewall, for an external device: the old rules are gone, \<open>/etc/rules\<close> holds
  exactly the four rules that let ip, tcp, udp and icmp pass, \<open>/etc/nat\<close> the device; the kernel has
  been flushed, translation has been turned on, the four rules have been loaded in that order, natd
  has been started a second time, and the settings are saved when the user says so.
\<close>

theorem basic_firewall_effect:
  assumes "devdb w = Some t" and "one_external (table_recs t)" and "d \<in> table_recs t" and "d_ext d = 1"
    and "0 \<le> d_id d" and "length (d_device d) < 6" and "nl \<notin> set (d_device d)"
    and "writable env NATSCRIPT" and "writable env RULESCRIPT"
    and "stable env NATSCRIPT" and "stable env RULESCRIPT"
  shows "\<exists>w'. main_fw_menu env 0 1 save w = Some (ditem_continue, w') \<and>
    files w' RULESCRIPT = Some (concat (map (\<lambda>p. basic_line p @ [nl]) [IP, TCP, UDP, ICMP])) \<and>
    files w' NATSCRIPT = Some (d_device d) \<and> devdb w' = devdb w \<and>
    commands (trace w') = commands (trace w) @
      [FLUSH_CMD, ''/sbin/natd -n '' @ d_device d @ [nl], FLUSH_CMD, nat_rule (d_device d @ [nl])] @
      concat (map (\<lambda>p. [basic_line p, CHMOD744]) [IP, TCP, UDP, ICMP]) @
      [''/sbin/natd -n '' @ d_device d] @ (if save = 0 then [WRITETC] else [])"
proof -
  have find: "seq_find (\<lambda>e. d_ext e = 1) (btseq t) = Some d"
    using assms(2-4) by (intro seq_find_only) (auto simp: one_external_def table_recs_def)
  define w0 where "w0 = emit [Init_dialog, Menu ''ClosedBSD'' ''Select Your Firewall Configuration''
       [(''Basic'', ''Basic configuration; pass all packets in and out.''),
        (''Advanced'', ''Create / Manage a custom ruleset'')], Dialog_clear, Init_dialog] w"
  define u where "u = run env FLUSH_CMD (unlink RULESCRIPT w0)"
  have u: "files u RULESCRIPT = None" "commands (trace u) = commands (trace w) @ [FLUSH_CMD]" "devdb u = devdb w"
    using assms(11) by (simp_all add: u_def w0_def unlink_sel run_sel(2,3))
  have c: "c_str (Some (d_device d)) = d_device d" by (simp add: c_str_def)
  obtain v where v: "enable_nat env (Some (d_device d)) u = Some (0, v)" "files v RULESCRIPT = None"
    "commands (trace v) = commands (trace u) @
       [''/sbin/natd -n '' @ d_device d @ [nl], FLUSH_CMD, nat_rule (d_device d @ [nl])]" "devdb v = devdb w"
    using enable_nat_eq [OF assms(8,10,11), of "Some (d_device d)" u] assms(6,7) u by (auto simp: c)
  obtain v1 where v1: "insert_rule_text env (basic_rule IP) v = Some (0, v1)"
    "contents RULESCRIPT v1 = contents RULESCRIPT v @ basic_line IP @ [nl]"
    "commands (trace v1) = commands (trace v) @ [basic_line IP, CHMOD744]" "devdb v1 = devdb v"
    using basic_insert [OF assms(9,11)] by blast
  obtain v2 where v2: "insert_rule_text env (basic_rule TCP) v1 = Some (0, v2)"
    "contents RULESCRIPT v2 = contents RULESCRIPT v1 @ basic_line TCP @ [nl]"
    "commands (trace v2) = commands (trace v1) @ [basic_line TCP, CHMOD744]" "devdb v2 = devdb v1"
    using basic_insert [OF assms(9,11)] by blast
  obtain v3 where v3: "insert_rule_text env (basic_rule UDP) v2 = Some (0, v3)"
    "contents RULESCRIPT v3 = contents RULESCRIPT v2 @ basic_line UDP @ [nl]"
    "commands (trace v3) = commands (trace v2) @ [basic_line UDP, CHMOD744]" "devdb v3 = devdb v2"
    using basic_insert [OF assms(9,11)] by blast
  obtain v4 where v4: "insert_rule_text env (basic_rule ICMP) v3 = Some (0, v4)"
    "contents RULESCRIPT v4 = contents RULESCRIPT v3 @ basic_line ICMP @ [nl]"
    "commands (trace v4) = commands (trace v3) @ [basic_line ICMP, CHMOD744]" "devdb v4 = devdb v3"
    using basic_insert [OF assms(9,11)] by blast
  define z where "z = emit [Yesno ''ClosedBSD: 'Basic' Firewall Type Enabled'' ''Save Configuration?'']
    (fprintf NATSCRIPT (d_device d) (fopen_append NATSCRIPT (unlink NATSCRIPT
      (run env (''/sbin/natd -n '' @ d_device d) (emit [Dialog_clear] v4)))))"
  have "contents RULESCRIPT v4 = concat (map (\<lambda>p. basic_line p @ [nl]) [IP, TCP, UDP, ICMP])"
    using v4(2) v3(2) v2(2) v1(2) v(2) by (simp add: contents_def)
  moreover from this have "contents RULESCRIPT v4 \<noteq> []" by simp
  ultimately have f4: "files v4 RULESCRIPT = Some (concat (map (\<lambda>p. basic_line p @ [nl]) [IP, TCP, UDP, ICMP]))"
    by (auto simp: contents_def split: option.splits)
  then have z: "files z RULESCRIPT = Some (concat (map (\<lambda>p. basic_line p @ [nl]) [IP, TCP, UDP, ICMP]))"
    "files z NATSCRIPT = Some (d_device d)" "devdb z = devdb w"
    "commands (trace z) = commands (trace v4) @ [''/sbin/natd -n '' @ d_device d]"
    using assms(11) v4(4) v3(4) v2(4) v1(4) v(4)
    by (simp_all add: z_def unlink_sel fopen_append_sel fprintf_sel run_sel(2,3))
  have "main_fw_menu env 0 1 save w = Some (ditem_continue, if save = 0 then run env WRITETC z else z)"
    using assms(1,5,6,8) find v(1) v1(1) v2(1) v3(1) v4(1)
    by (simp add: main_fw_menu_def basic_firewall_def dev_ext_def ext_exist_def c u_def w0_def z_def
        WRITETC_def snprintf_fits flip: FLUSH_CMD_def)
  then show ?thesis
    using z assms(10,11) v4(3) v3(3) v2(3) v1(3) v(3) u(2)
    by (simp add: run_sel(2,3))
qed

subsection \<open>Configuring by DHCP\<close>

definition dhcp_conf_text :: "string \<Rightarrow> string \<Rightarrow> string" where
  "dhcp_conf_text device hostname =
     ''interface '' @ CHR 0x22 # device @ [CHR 0x22] @ '' {'' @ [nl, CHR 0x09] @ ''send host-name '' @
     CHR 0x22 # hostname @ [CHR 0x22] @ '';'' @ [nl] @ ''}'' @ [nl]"

lemma write_dhcp_conf_eq:
  assumes "writable env DHCLIENT_CONF"
  shows "\<exists>w'. write_dhcp_conf env hostname device w = Some (0, w') \<and>
    files w' DHCLIENT_CONF = Some (dhcp_conf_text device hostname) \<and> devdb w' = devdb w \<and> trace w' = trace w"
  using assms
  by (simp add: write_dhcp_conf_def dhcp_conf_text_def unlink_sel fopen_append_sel fprintf_sel)

text \<open>
  Configuring a device for DHCP records it under the next free id, as the external device, and
  runs dhclient on it; a host name of at least two characters that was confirmed is what
  \<open>/etc/dhclient.conf\<close> then says, otherwise that file is left alone. It never looks whether the device
  or another external device is there already: a device that was configured has two records
  afterwards, and an external one is joined by a second.
\<close>

theorem dhcp_config_records:
  assumes "devdb w = Some t" and "table_ok t" and "int (length t) < 2 ^ 31"
    and "length device < 6" and "length hostname < 212"
    and "writable env DEVICES" and "writable env DHCLIENT_CONF" and "stable env DHCLIENT_CONF"
  shows "\<exists>w' t'. dev_config env junk device 0 host hostname es dflt overwrite again w = Some (ditem_continue, w') \<and>
    devdb w' = Some t' \<and> table_ok t' \<and>
    table_recs t' = insert (dhcp_device (int (length t)) device) (table_recs t) \<and>
    commands (trace w') = commands (trace w) @ [''/sbin/dhclient '' @ device @ [nl]] \<and>
    files w' DHCLIENT_CONF =
      (if host = 0 \<and> 1 < length hostname then Some (dhcp_conf_text device hostname) else files w DHCLIENT_CONF) \<and>
    ((\<exists>e \<in> table_recs t. d_device e = device) \<longrightarrow> \<not> named_apart (table_recs t')) \<and>
    ((\<exists>e \<in> table_recs t. d_ext e = 1) \<longrightarrow> \<not> one_external (table_recs t'))"
proof -
  let ?d = "dhcp_device (int (length t)) device"
  define u where "u = emit [Dialog_clear, Yesno ''ClosedBSD'' ''Should this device use DHCP?'',
    Dialog_clear, Dialog_clear, Inputbox ''ClosedBSD'' hostname] w"
  obtain v where v: "(if host = 0 \<and> length hostname > 1
      then map_option snd (write_dhcp_conf env hostname device u) else Some u) = Some v"
    "files v DHCLIENT_CONF =
      (if host = 0 \<and> 1 < length hostname then Some (dhcp_conf_text device hostname) else files w DHCLIENT_CONF)"
    "devdb v = Some t" "commands (trace v) = commands (trace w)"
    using write_dhcp_conf_eq [OF assms(7), of hostname device u] assms(1)
    by (cases "host = 0 \<and> 1 < length hostname") (auto simp: u_def)
  have wf: "device_wf ?d" "device_commands ?d = [''/sbin/dhclient '' @ device @ [nl]]"
    using assms(4) by (simp_all add: device_wf_def device_commands_def dhcp_device_def)
  obtain z where z: "insert_device env ?d v = Some (0, z)" "devdb z = Some (table_put ?d t)"
    "commands (trace z) = commands (trace v) @ [''/sbin/dhclient '' @ device @ [nl]]"
    using insert_device_eq [OF v(3) assms(6), of ?d] wf by auto
  have zf: "files z DHCLIENT_CONF = files v DHCLIENT_CONF"
    using z(1) assms(6,8) by (auto simp: insert_device_def configure_device_def dhcp_device_def Let_def)
  have new: "\<forall>e \<in> table_recs t. d_id e \<noteq> int (length t)"
    using table_id_range [OF assms(2)] by force
  have recs: "table_recs (table_put ?d t) = insert ?d (table_recs t)"
    using table_recs_put [OF assms(2), of ?d] assms(3) new by (auto simp: dhcp_device_def)
  have ok: "table_ok (table_put ?d t)"
    using table_ok_put [OF assms(2), of ?d] assms(3) by (simp add: dhcp_device_def)
  have fields: "d_device ?d = device" "d_ext ?d = 1" "d_id ?d = int (length t)"
    by (simp_all add: dhcp_device_def)
  have "next_device_id (emit [Dialog_clear, Yesno ''ClosedBSD'' ''Should this device use DHCP?''] w) =
      Some (int (length t))"
    by (rule next_device_id_eq) (simp add: assms(1))
  then have "dev_config env junk device 0 host hostname es dflt overwrite again w =
      Some (ditem_continue, emit [Dialog_clear, Dialog_clear] z)"
    using v(1) z(1) assms(4,5)
    by (simp add: dev_config_def strcpy_Some Let_def u_def split del: if_split cong: if_cong)
  moreover have "\<not> named_apart (insert ?d (table_recs t))" if "e \<in> table_recs t" "d_device e = device" for e
    using that new fields by (auto simp: named_apart_def inj_on_def)
  moreover have "\<not> one_external (insert ?d (table_recs t))" if "e \<in> table_recs t" "d_ext e = 1" for e
    using that new fields by (auto simp: one_external_def)
  ultimately show ?thesis
    using z(2,3) v(2,4) ok recs zf by auto
qed

subsection \<open>The list of devices\<close>

lemma device_title_table:
  assumes "devdb w = Some t"
  shows "device_title n w = Some (
    if strncmp_eq n ''ppp'' 3 then ''PPP Device'' else if strncmp_eq n ''sl'' 2 then ''Slip Device''
    else if strncmp_eq n ''gif'' 3 then ''IPv6 Device''
    else if strncmp_eq n ''lo'' 2 then ''Loopback Device: [configured]''
    else if (case seq_find (\<lambda>d. d_device d = n) (btseq t) of Some d \<Rightarrow> 0 \<le> d_id d | None \<Rightarrow> False)
      then ''Ethernet Device: [configured]'' else ''Ethernet Device'')"
  using assms by (simp add: device_title_def device_exist_def del: seq_find_None split: option.split)

text \<open>What the menu says of a device: only the table decides whether an ethernet card is configured.\<close>

definition title_of :: "device btree \<Rightarrow> string \<Rightarrow> string" where
  "title_of t n =
     (if take 3 n = ''ppp'' then ''PPP Device'' else if take 2 n = ''sl'' then ''Slip Device''
      else if take 3 n = ''gif'' then ''IPv6 Device''
      else if take 2 n = ''lo'' then ''Loopback Device: [configured]''
      else if n \<in> d_device ` table_recs t then ''Ethernet Device: [configured]'' else ''Ethernet Device'')"

lemma device_title_eq:
  assumes "devdb w = Some t" "table_ok t"
  shows "device_title n w = Some (title_of t n)"
proof -
  have "(case seq_find (\<lambda>d. d_device d = n) (btseq t) of Some d \<Rightarrow> 0 \<le> d_id d | None \<Rightarrow> False) \<longleftrightarrow>
      n \<in> d_device ` table_recs t"
  proof (cases "seq_find (\<lambda>d. d_device d = n) (btseq t)")
    case None
    then have "n \<notin> d_device ` table_recs t" by (auto simp: table_recs_def)
    then show ?thesis by (simp add: None del: seq_find_None)
  next
    case (Some d)
    then have "d \<in> table_recs t" "d_device d = n"
      using seq_find_Some by (fastforce simp: table_recs_def)+
    then show ?thesis using Some table_ids [OF assms(2)] by auto
  qed
  then show ?thesis
    using device_title_table [OF assms(1), of n] by (simp add: title_of_def strncmp_eq_def)
qed

lemma fill_menu2_eq:
  assumes "devdb w = Some t" "table_ok t" "length items \<le> MAX_ITEMS"
  shows "fill_menu2 (map (\<lambda>n. n @ [nl]) ns) items w =
    (if length items + length ns \<le> MAX_ITEMS then Some (items @ map (\<lambda>n. (n, title_of t n)) ns) else None)"
  using assms(3)
  by (induction ns arbitrary: items) (auto simp: device_title_eq [OF assms(1,2)])

text \<open>
  The list of devices: the menu has exactly the names that \<open>ifs.sh\<close> found, in order, each with its
  kind, and says \<open>configured\<close> of an ethernet card exactly when the table has it; the file in \<open>/tmp\<close> is
  gone. More than 50 names run over the array of the menu.
\<close>

theorem dev_list_items:
  assumes "files (run env ''/sbin/ifs.sh'' (unlink TMPDEVICES w)) TMPDEVICES = Some (concat (map (\<lambda>n. n @ [nl]) ns))"
    and "\<forall>n \<in> set ns. nl \<notin> set n \<and> length n \<le> 254" and "devdb w = Some t" and "table_ok t"
  shows "if length ns \<le> MAX_ITEMS
    then \<exists>w'. dev_list env w = Some (0, map (\<lambda>n. (n, title_of t n)) ns, w') \<and> files w' TMPDEVICES = None \<and>
      Menu ''ClosedBSD'' ''Please select the device to configure'' (map (\<lambda>n. (n, title_of t n)) ns)
        \<in> set (trace w') \<and> devdb w' = devdb w
    else dev_list env w = None"
proof -
  let ?u = "run env ''/sbin/ifs.sh'' (unlink TMPDEVICES w)"
  have l: "fgets_all 255 (concat (map (\<lambda>n. n @ [nl]) ns)) = map (\<lambda>n. n @ [nl]) ns"
    using assms(2) by (intro fgets_all_lines) (auto simp: is_line_def butlast_append)
  have u: "devdb (emit [Dialog_clear] ?u) = Some t"
    using assms(3) by (simp add: run_sel(2) unlink_sel)
  have "dev_list env w =
      (if length ns \<le> MAX_ITEMS
       then Some (0, map (\<lambda>n. (n, title_of t n)) ns,
         emit [Menu ''ClosedBSD'' ''Please select the device to configure'' (map (\<lambda>n. (n, title_of t n)) ns),
           Dialog_clear] (unlink TMPDEVICES (emit [Dialog_clear] ?u)))
       else None)"
    using assms(1) fill_menu2_eq [OF u assms(4), of "[]" ns]
    by (simp add: dev_list_def l)
  then show ?thesis
    using assms(3) by (simp add: unlink_sel run_sel(2))
qed

subsection \<open>What the summary shows\<close>

lemma summary_rule_line:
  assumes "rule_body t" "CHR ''q'' \<notin> set t"
  shows "summary_rule (rule_line t) = Some t"
proof -
  have "rule_line t = ''/sbin/ipfw -'' @ CHR ''q'' # (t @ [nl])"
    by (simp add: rule_line_def IPFW_Q_def)
  then have one: "snd (strtok ''q'' (rule_line t)) = t @ [nl]"
    by (simp only:) (subst strtok_token, auto)
  have "dropWhile (\<lambda>c. c = CHR ''q'') (t @ [nl]) = t @ [nl]"
    using assms(1) by (cases t) (auto simp: rule_body_def)
  moreover have "takeWhile (\<lambda>c. c \<noteq> CHR ''q'') (t @ [nl]) = t @ [nl]"
    using assms(2) by (auto simp: takeWhile_eq_all_conv)
  ultimately have "fst (strtok ''q'' (t @ [nl])) = Some (t @ [nl])"
    by (simp add: strtok_def)
  then show ?thesis by (simp add: summary_rule_def one)
qed

lemma summary_rules_eq:
  "\<forall>t \<in> set ts. rule_body t \<and> CHR ''q'' \<notin> set t \<Longrightarrow>
   summary_rules f (map rule_line ts) =
     Some (map (\<lambda>(j, t). Curses (Mvwprintw j 6 t)) (zip [f..20] ts))"
proof (induction ts arbitrary: f)
  case Nil
  then show ?case by simp
next
  case (Cons t ts)
  show ?case
  proof (cases "f < 21")
    case True
    then have "[f..20] = f # [f + 1..20]" by (simp add: upto_rec1)
    then show ?thesis
      using Cons True by (simp add: summary_rule_line)
  next
    case False
    then show ?thesis by simp
  qed
qed

text \<open>
  The summary shows the configuration: below the head one row per device, in the order of the
  table, then the rules, one per row down to row 20 of the window, in their order, without the call of
  ipfw; and it changes nothing.
\<close>

theorem summary_shows:
  assumes "devdb w = Some t" and "files w RULESCRIPT = Some (concat (map rule_line ts))"
    and "\<forall>t \<in> set ts. rule_body t \<and> CHR ''q'' \<notin> set t"
  shows "\<exists>w'. summary w = Some (ditem_continue, w') \<and> files w' = files w \<and> devdb w' = devdb w \<and>
    trace w' = trace w @ summary_head @
      map (\<lambda>(i, d). summary_device i d) (zip [3..2 + int (length t)] (btseq t)) @
      summary_edge (3 + int (length t)) 192 217 193 @
      Curses (Mvwprintw (5 + int (length t)) 6 ''Firewall rules currently in place: '') #
      map (\<lambda>(j, r). Curses (Mvwprintw j 6 r)) (zip [7 + int (length t)..20] ts) @
      [Curses (Mvwprintw 22 37 ''Press any key to exit.''), Curses (Wmove 0 0), Curses Wrefresh, Dialog_clear]"
proof -
  have l: "fgets_all 255 (concat (map rule_line ts)) = map rule_line ts"
    using assms(3) short_rule_line by (intro fgets_all_lines) (auto simp: short_line_def)
  have "length (btseq t) = length t" by (simp add: btseq_def)
  then show ?thesis
    using assms(1,2) summary_rules_eq [OF assms(3), of "7 + int (length t)"]
    by (simp add: summary_def l Let_def add.commute)
qed

subsection \<open>Saving\<close>

definition MOUNT :: string where "MOUNT = ''/sbin/mount /dev/fd0 /mnt''"
definition UMOUNT :: string where "UMOUNT = ''/sbin/umount /dev/fd0''"

definition FORMATTING :: "string list" where
  "FORMATTING = [''/sbin/fdformat -y /dev/fd0 >/dev/null'', ''/sbin/disklabel -w -r /dev/fd0 fd1440 >/dev/null'',
     ''/sbin/newfs -T fd1440 /dev/fd0 fd1440 >/dev/null'', ''/sbin/mount /dev/fd0 /mnt >/dev/null'']"

text \<open>Commands run one after the other up to the first that fails.\<close>

fun until_failure :: "(string \<Rightarrow> int) \<Rightarrow> string list \<Rightarrow> string list" where
  "until_failure st [] = []"
| "until_failure st (c # cs) = c # (if st c = 0 then until_failure st cs else [])"

text \<open>
  C18. Saving the settings: a floppy disk that can be mounted is used as it is, and is never formatted;
  any other is formatted, step by step up to the first step that fails. The settings are written exactly
  when there is a disk to write to: it could be mounted, before or after the formatting.
\<close>

theorem save_writes:
  assumes "\<forall>c fs. fst (shell env c fs) = st c"
  shows "\<exists>cs. commands (trace (menu1_save env w)) = commands (trace w) @ cs \<and>
    cs = (if st MOUNT = 0 then [MOUNT, UMOUNT, WRITETC]
          else MOUNT # until_failure st FORMATTING @
            (if \<forall>c \<in> set FORMATTING. st c = 0 then [WRITETC, WRITETC] else [])) \<and>
    (WRITETC \<in> set cs \<longleftrightarrow> st MOUNT = 0 \<or> (\<forall>c \<in> set FORMATTING. st c = 0)) \<and>
    (hd FORMATTING \<in> set cs \<longleftrightarrow> st MOUNT \<noteq> 0)"
proof -
  have e: "commands (trace (menu1_save env w)) = commands (trace w) @
      (if st MOUNT = 0 then [MOUNT, UMOUNT, WRITETC]
       else MOUNT # until_failure st FORMATTING @
         (if \<forall>c \<in> set FORMATTING. st c = 0 then [WRITETC, WRITETC] else []))"
    by (simp add: menu1_save_def system_split Let_def assms run_sel(3) sa_fail_def sa_gauge_def
        MOUNT_def UMOUNT_def WRITETC_def FORMATTING_def del: emit_emit)
  show ?thesis
    by (rule exI, rule conjI, rule e, rule conjI, rule refl)
      (auto simp: MOUNT_def UMOUNT_def WRITETC_def FORMATTING_def)
qed

subsection \<open>Trying it\<close>

theorem basic_firewall_effect_witness:
  "\<exists>w'. main_fw_menu calm 0 1 1 rules_world = Some (ditem_continue, w') \<and>
     files w' NATSCRIPT = Some ''xl0'' \<and>
     files w' RULESCRIPT = Some (''/sbin/ipfw -q add allow ip from any to any'' @ [nl] @
       ''/sbin/ipfw -q add allow tcp from any to any'' @ [nl] @
       ''/sbin/ipfw -q add allow udp from any to any'' @ [nl] @
       ''/sbin/ipfw -q add allow icmp from any to any'' @ [nl])"
  using basic_firewall_effect [OF rules_world_sel(1) two_cards_external, of calm 1]
  by (auto simp: eth_def basic_line_def proto_text_def)

theorem dhcp_config_records_witness:
  "\<exists>w' t'. dev_config calm (eth 0 [] 0) ''xl0'' 0 0 ''gw'' [] 0 0 0 two_cards_world = Some (ditem_continue, w') \<and>
     devdb w' = Some t' \<and> \<not> named_apart (table_recs t') \<and> \<not> one_external (table_recs t') \<and>
     commands (trace w') = [''/sbin/dhclient xl0'' @ [nl]]"
proof -
  have "eth 1 ''xl0'' 1 \<in> table_recs two_cards" "d_device (eth 1 ''xl0'' 1) = ''xl0''" "d_ext (eth 1 ''xl0'' 1) = 1"
    by (simp_all add: two_cards_recs eth_def)
  moreover have "commands (trace two_cards_world) = []" by code_simp
  ultimately show ?thesis
    using dhcp_config_records [OF two_cards_world_db(1) two_cards_ok, of "''xl0''" "''gw''" calm
      "eth 0 [] 0" 0 "[]" 0 0 0] two_cards_world_db(2)
    by (auto simp: calm_spares)
qed

text \<open>An environment in which \<open>ifs.sh\<close> finds two interfaces.\<close>

definition ifs_env :: env where
  "ifs_env = calm\<lparr>shell := (\<lambda>c fs. (0, if c = ''/sbin/ifs.sh'' then fs(TMPDEVICES \<mapsto> ''xl0'' @ [nl] @ ''dc0'' @ [nl]) else fs))\<rparr>"

theorem dev_list_items_witness:
  "\<exists>w'. dev_list ifs_env two_cards_world =
     Some (0, [(''xl0'', ''Ethernet Device: [configured]''), (''dc0'', ''Ethernet Device'')], w')"
proof -
  have f: "files (run ifs_env ''/sbin/ifs.sh'' (unlink TMPDEVICES two_cards_world)) TMPDEVICES =
      Some (concat (map (\<lambda>n. n @ [nl]) [''xl0'', ''dc0'']))"
    by (simp add: run_sel(1) ifs_env_def)
  have "title_of two_cards ''xl0'' = ''Ethernet Device: [configured]''" "title_of two_cards ''dc0'' = ''Ethernet Device''"
    by (simp_all add: title_of_def two_cards_recs eth_def)
  moreover have "\<forall>n \<in> set [''xl0'', ''dc0'']. nl \<notin> set n \<and> length n \<le> 254" "length [''xl0'', ''dc0''] \<le> MAX_ITEMS"
    by (simp_all add: MAX_ITEMS_def)
  ultimately show ?thesis
    using dev_list_items [OF f _ two_cards_world_db(1) two_cards_ok] by auto
qed

theorem summary_shows_witness:
  "\<exists>w'. summary (two_cards_world\<lparr>files := [RULESCRIPT \<mapsto> rule_line '' add 1 deny ip from any to me'']\<rparr>) =
       Some (ditem_continue, w') \<and>
     summary_device 4 (eth 1 ''xl0'' 1) \<in> set (trace w') \<and>
     Curses (Mvwprintw 9 6 '' add 1 deny ip from any to me'') \<in> set (trace w')"
proof -
  let ?w = "two_cards_world\<lparr>files := [RULESCRIPT \<mapsto> rule_line '' add 1 deny ip from any to me'']\<rparr>"
  have w: "devdb ?w = Some two_cards" "files ?w RULESCRIPT = Some (concat (map rule_line ['' add 1 deny ip from any to me'']))"
    using two_cards_world_db by simp_all
  have z: "zip [3..2 + int (length two_cards)] (btseq two_cards) = [(3, eth 0 ''fxp0'' 0), (4, eth 1 ''xl0'' 1)]"
    "zip [7 + int (length two_cards)..20] ['' add 1 deny ip from any to me''] = [(9, '' add 1 deny ip from any to me'')]"
    by code_simp+
  have "rule_body '' add 1 deny ip from any to me'' \<and> CHR ''q'' \<notin> set '' add 1 deny ip from any to me''"
    by (simp add: rule_body_def)
  then obtain w' where "summary ?w = Some (ditem_continue, w')" "trace w' = trace ?w @ summary_head @
      map (\<lambda>(i, d). summary_device i d) (zip [3..2 + int (length two_cards)] (btseq two_cards)) @
      summary_edge (3 + int (length two_cards)) 192 217 193 @
      Curses (Mvwprintw (5 + int (length two_cards)) 6 ''Firewall rules currently in place: '') #
      map (\<lambda>(j, r). Curses (Mvwprintw j 6 r)) (zip [7 + int (length two_cards)..20] ['' add 1 deny ip from any to me'']) @
      [Curses (Mvwprintw 22 37 ''Press any key to exit.''), Curses (Wmove 0 0), Curses Wrefresh, Dialog_clear]"
    using summary_shows [OF w] by auto
  then show ?thesis by (simp add: z)
qed

theorem save_writes_witness:
  "commands (trace (menu1_save calm blank_world)) =
     [''/sbin/mount /dev/fd0 /mnt'', ''/sbin/umount /dev/fd0'', ''/sbin/writetcnp'']"
proof -
  have "\<forall>c fs. fst (shell calm c fs) = (\<lambda>_. 0) c" by (simp add: calm_def)
  from save_writes [OF this, of blank_world] show ?thesis
    by (simp add: MOUNT_def UMOUNT_def WRITETC_def blank_world_def)
qed

end
