(* ===== verification/Passwd.thy ===== *)
theory Passwd
  imports World "HOL-Library.Word"
begin

unbundle bit_operations_syntax

text \<open>
  \<open>closedbsd/passwd/passwd.c\<close>: setting the root password. The salt of the DES crypt is made of
  base-64 digits; then \<open>/etc/master.passwd\<close> is copied line by line to \<open>/etc/mpw.tmp\<close>, with the
  line of root replaced, and the database is made from the copy. \<open>long\<close> is a 32-bit word, as on the
  i386 the system is built for. \<open>getpwnam\<close>, \<open>crypt\<close>, the random number, the time and what is
  entered are parameters.
\<close>

subsection \<open>The salt\<close>

definition itoa64 :: string where
  "itoa64 = ''./0123456789ABCDEFGHIJKLMNOPQRSTUVWXYZabcdefghijklmnopqrstuvwxyz''"

fun to64 :: "32 word \<Rightarrow> nat \<Rightarrow> string" where
  "to64 v 0 = []"
| "to64 v (Suc n) = itoa64 ! unat (v AND 0x3f) # to64 (signed_drop_bit 6 v) n"

definition dessalt :: "32 word \<Rightarrow> 32 word \<Rightarrow> 32 word \<Rightarrow> string" where
  "dessalt rnd usec sec = to64 rnd 3 @ to64 usec 3 @ to64 sec 2"

text \<open>\<open>s[strlen(s) - 2] = 0\<close> in \<open>main\<close> cuts the last two characters.\<close>

definition passwd_salt :: "32 word \<Rightarrow> 32 word \<Rightarrow> 32 word \<Rightarrow> string" where
  "passwd_salt rnd usec sec = (let s = dessalt rnd usec sec in take (length s - 2) s)"

subsection \<open>The copy of the password file\<close>

record passwd =
  pw_name :: string
  pw_passwd :: string
  pw_uid :: int
  pw_gid :: int
  pw_gecos :: string
  pw_dir :: string
  pw_shell :: string

definition MASTER :: string where "MASTER = ''/etc/master.passwd''"
definition MPW_TMP :: string where "MPW_TMP = ''/etc/mpw.tmp''"

definition mod_line :: "passwd \<Rightarrow> string" where
  "mod_line pw = snprintf 1024 (pw_name pw @ '':'' @ pw_passwd pw @ '':'' @ dec_int (pw_uid pw) @ '':'' @
     dec_int (pw_gid pw) @ ''::0:0:'' @ pw_gecos pw @ '':'' @ pw_dir pw @ '':'' @ pw_shell pw @ [nl])"

text \<open>
  \<open>snprintf(tmpbuf, sizeof(tmpbuf), buf)\<close>: the line itself is the format. There are no arguments, so
  that any conversion but \<open>%%\<close> has no defined effect.
\<close>

fun format0 :: "string \<Rightarrow> string option" where
  "format0 [] = Some []"
| "format0 (c # cs) =
     (if c = CHR ''%'' then
        (case cs of
           [] \<Rightarrow> None
         | d # ds \<Rightarrow> if d = CHR ''%'' then map_option (Cons c) (format0 ds) else None)
      else map_option (Cons c) (format0 cs))"

text \<open>A line of colons only has no first token, and \<open>strcmp\<close> is called on \<open>NULL\<close>.\<close>

fun copy_lines :: "string \<Rightarrow> string \<Rightarrow> string list \<Rightarrow> world \<Rightarrow> world option" where
  "copy_lines name modbuf [] w = Some w"
| "copy_lines name modbuf (buf # bufs) w = do {
     t \<leftarrow> format0 buf;
     let tmpbuf = snprintf 1024 t;
     uname \<leftarrow> fst (strtok '':'' tmpbuf);
     let (buf, w) = (if uname = name then ([], fprintf MPW_TMP modbuf w) else (buf, w));
     copy_lines name modbuf bufs (fprintf MPW_TMP buf w)
   }"

definition passwd_finish :: "env \<Rightarrow> int \<Rightarrow> world \<Rightarrow> int \<times> world" where
  "passwd_finish env getchar w =
     (let w = emit [Print (''passwd: updating the database'' @ [nl])] w;
          (ret, w) = system env ''/sbin/pwd_mkdb /etc/mpw.tmp'' w
      in if ret = - 1 then
           (- 1, unlink ''/etc/mpw'' (emit [Print (''passwd: error making db'' @ [nl])] w))
         else
           let w = emit [Print (''passwd: writing information to floppy'' @ [nl]),
                 Print (''please insert the ClosedBSD diskette and press a key'' @ [nl])] w;
               (ret, w) = (if getchar > 0 then system env ''/sbin/writetcnp'' w else (0, w))
           in if ret = - 1 then
                (- 1, unlink MPW_TMP (emit [Print (''passwd: error writing to floppy'' @ [nl])] w))
              else (0, emit [Print (''passwd: done'' @ [nl])] (unlink MPW_TMP w)))"

definition passwd_main ::
  "(string \<Rightarrow> passwd option) \<Rightarrow> (string \<Rightarrow> string \<Rightarrow> string) \<Rightarrow> env \<Rightarrow> 32 word \<Rightarrow> 32 word \<Rightarrow> 32 word \<Rightarrow>
   string \<Rightarrow> int \<Rightarrow> world \<Rightarrow> (int \<times> world) option" where
  "passwd_main getpwnam crypt env rnd usec sec pass getchar w = do {
     let s = passwd_salt rnd usec sec;
     pw \<leftarrow> getpwnam ''root'';
     let pw = pw\<lparr>pw_passwd := crypt pass s\<rparr>;
     let w = emit [Print ''New root password: ''] w;
     let modbuf = mod_line pw;
     text \<leftarrow> (if writable env MASTER then files w MASTER else None);
     if \<not> writable env MPW_TMP then None
     else do {
       let w = fopen_append MPW_TMP w;
       w \<leftarrow> copy_lines (pw_name pw) modbuf (fgets_all 1023 text) w;
       Some (passwd_finish env getchar w)
     }
   }"

subsection \<open>Base 64\<close>

definition a64 :: "char \<Rightarrow> nat" where
  "a64 c = length (takeWhile (\<lambda>d. d \<noteq> c) itoa64)"

fun from64 :: "string \<Rightarrow> int" where
  "from64 [] = 0"
| "from64 (c # cs) = int (a64 c) + 64 * from64 cs"

lemma itoa64_distinct: "distinct itoa64" and itoa64_length: "length itoa64 = 64"
  by code_simp+

lemma length_takeWhile_nth:
  assumes "distinct xs" "k < length xs"
  shows "length (takeWhile (\<lambda>d. d \<noteq> xs ! k) xs) = k"
proof -
  have x: "xs = take k xs @ xs ! k # drop (Suc k) xs"
    using assms(2) by (rule id_take_nth_drop)
  have "xs ! k \<notin> set (take k xs)"
    using assms(1) by (subst (asm) x) auto
  then have "takeWhile (\<lambda>d. d \<noteq> xs ! k) (take k xs @ xs ! k # drop (Suc k) xs) = take k xs"
    by (subst takeWhile_append2) auto
  then show ?thesis using x assms(2) by simp
qed

lemma a64_itoa64: "k < 64 \<Longrightarrow> a64 (itoa64 ! k) = k"
  using length_takeWhile_nth [OF itoa64_distinct] itoa64_length by (simp add: a64_def)

lemma low_digit: "uint ((v :: 32 word) AND 0x3f) = sint v mod 64"
proof -
  have "(v AND 0x3f) = take_bit 6 v"
    by (simp add: take_bit_eq_mask mask_eq_exp_minus_1)
  then have "uint (v AND 0x3f) = take_bit 6 (uint v)"
    by (simp add: unsigned_take_bit_eq)
  also have "\<dots> = take_bit 6 (sint v)"
    by (simp add: sint_uint take_bit_signed_take_bit)
  finally show ?thesis by (simp add: take_bit_eq_mod)
qed

lemma from64_to64: "from64 (to64 v n) = sint v mod 64 ^ n"
proof (induction n arbitrary: v)
  case 0
  then show ?case by simp
next
  case (Suc n)
  have "unat (v AND 0x3f) < 64"
    using low_digit [of v] by (simp add: unat_eq_nat_uint nat_less_iff)
  then have "from64 (to64 v (Suc n)) = sint v mod 64 + 64 * (sint v div 64 mod 64 ^ n)"
    using Suc by (simp add: a64_itoa64 low_digit sint_signed_drop_bit_eq drop_bit_eq_div)
  then show ?case by (simp add: zmod_zmult2_eq)
qed

lemma to64_chars: "length (to64 v n) = n" "set (to64 v n) \<subseteq> set itoa64"
proof -
  have "unat (v AND 0x3f) < length itoa64" for v :: "32 word"
    using low_digit [of v] by (simp add: unat_eq_nat_uint nat_less_iff itoa64_length)
  then show "length (to64 v n) = n" "set (to64 v n) \<subseteq> set itoa64"
    by (induction n arbitrary: v) auto
qed

text \<open>
  The salt: six characters of the base-64 alphabet, whose first three are the low 18 bits of the
  random number and whose last three those of the microseconds; the seconds, which \<open>dessalt\<close> puts at
  the end, are cut off again.
\<close>

theorem passwd_salt_digits:
  "length (passwd_salt rnd usec sec) = 6 \<and> set (passwd_salt rnd usec sec) \<subseteq> set itoa64 \<and>
   from64 (take 3 (passwd_salt rnd usec sec)) = sint rnd mod 2 ^ 18 \<and>
   from64 (drop 3 (passwd_salt rnd usec sec)) = sint usec mod 2 ^ 18 \<and>
   passwd_salt rnd usec sec = passwd_salt rnd usec 0"
proof -
  have s: "passwd_salt rnd usec x = to64 rnd 3 @ to64 usec 3" for x
    by (simp add: passwd_salt_def dessalt_def Let_def to64_chars del: to64.simps)
  show ?thesis
    using to64_chars [of rnd 3] to64_chars [of usec 3] from64_to64 [of rnd 3] from64_to64 [of usec 3]
    by (simp add: s del: to64.simps)
qed

subsection \<open>The copy\<close>

definition pw_field :: "string \<Rightarrow> string" where
  "pw_field l = takeWhile (\<lambda>c. c \<noteq> CHR '':'') l"

text \<open>A line the copy can handle: it fits the buffer, has a user name, and no percent sign.\<close>

definition pw_line :: "string \<Rightarrow> bool" where
  "pw_line l \<longleftrightarrow> is_line l \<and> length l \<le> 1023 \<and> pw_field l \<noteq> [] \<and> CHR ''%'' \<notin> set l"

definition replace_line :: "string \<Rightarrow> string \<Rightarrow> string \<Rightarrow> string" where
  "replace_line name modbuf l = (if pw_field l = name then modbuf else l)"

lemma format0_plain: "CHR ''%'' \<notin> set s \<Longrightarrow> format0 s = Some s"
  by (induction s) auto

lemma strtok_field: "pw_field l \<noteq> [] \<Longrightarrow> fst (strtok '':'' l) = Some (pw_field l)"
  by (cases l) (auto simp: strtok_def pw_field_def split: if_splits)

lemma copy_line_ok:
  "pw_line l \<Longrightarrow> format0 l = Some l \<and> snprintf 1024 l = l \<and> fst (strtok '':'' l) = Some (pw_field l)"
  by (simp add: pw_line_def format0_plain snprintf_fits strtok_field)

lemma copy_lines_effect:
  "\<forall>l \<in> set ls. pw_line l \<Longrightarrow>
   \<exists>u. copy_lines name modbuf ls w = Some u \<and>
     contents MPW_TMP u = contents MPW_TMP w @ concat (map (replace_line name modbuf) ls) \<and>
     (files w MPW_TMP \<noteq> None \<longrightarrow> files u MPW_TMP \<noteq> None) \<and>
     (\<forall>p. p \<noteq> MPW_TMP \<longrightarrow> files u p = files w p) \<and> trace u = trace w \<and> devdb u = devdb w"
proof (induction ls arbitrary: w)
  case Nil
  then show ?case by simp
next
  case (Cons l ls)
  let ?w = "if pw_field l = name then fprintf MPW_TMP [] (fprintf MPW_TMP modbuf w) else fprintf MPW_TMP l w"
  obtain u where "copy_lines name modbuf ls ?w = Some u"
     "contents MPW_TMP u = contents MPW_TMP ?w @ concat (map (replace_line name modbuf) ls)"
     "files ?w MPW_TMP \<noteq> None \<longrightarrow> files u MPW_TMP \<noteq> None"
     "\<forall>p. p \<noteq> MPW_TMP \<longrightarrow> files u p = files ?w p" "trace u = trace ?w" "devdb u = devdb ?w"
    using Cons.IH [of ?w] Cons.prems by auto
  then show ?case
    using Cons.prems copy_line_ok [of l]
    by (intro exI [of _ u]) (auto simp: replace_line_def [of name modbuf l] fprintf_sel contents_sel split: if_splits)
qed

definition new_root :: "(string \<Rightarrow> string \<Rightarrow> string) \<Rightarrow> string \<Rightarrow> string \<Rightarrow> passwd \<Rightarrow> string" where
  "new_root crypt pass s pw = mod_line (pw\<lparr>pw_passwd := crypt pass s\<rparr>)"

lemma passwd_main_copies:
  assumes "getpwnam ''root'' = Some pw" and "files w MASTER = Some (concat ls)" and "\<forall>l \<in> set ls. pw_line l"
    and "writable env MASTER" and "writable env MPW_TMP"
  shows "\<exists>u. files u MPW_TMP = Some (contents MPW_TMP w @
      concat (map (replace_line (pw_name pw) (new_root crypt pass (passwd_salt rnd usec sec) pw)) ls)) \<and>
    files u MASTER = files w MASTER \<and> commands (trace u) = commands (trace w) \<and>
    passwd_main getpwnam crypt env rnd usec sec pass key w = Some (passwd_finish env key u)"
proof -
  let ?m = "new_root crypt pass (passwd_salt rnd usec sec) pw"
  let ?v = "fopen_append MPW_TMP (emit [Print ''New root password: ''] w)"
  have l: "fgets_all 1023 (concat ls) = ls"
    using assms(3) by (intro fgets_all_lines) (auto simp: pw_line_def)
  obtain u where u: "copy_lines (pw_name pw) ?m ls ?v = Some u"
    "contents MPW_TMP u = contents MPW_TMP ?v @ concat (map (replace_line (pw_name pw) ?m) ls)"
    "files ?v MPW_TMP \<noteq> None \<longrightarrow> files u MPW_TMP \<noteq> None"
    "\<forall>p. p \<noteq> MPW_TMP \<longrightarrow> files u p = files ?v p" "trace u = trace ?v"
    using copy_lines_effect [OF assms(3)] by blast
  have "files ?v MPW_TMP \<noteq> None" by (simp add: fopen_append_sel)
  then have "files u MPW_TMP = Some (contents MPW_TMP u)"
    using u(3) by (auto simp: contents_def)
  moreover have "MASTER \<noteq> MPW_TMP" by (simp add: MASTER_def MPW_TMP_def)
  moreover have "passwd_main getpwnam crypt env rnd usec sec pass key w = Some (passwd_finish env key u)"
    using u(1) assms(1,2,4,5) l by (simp add: passwd_main_def new_root_def Let_def)
  ultimately show ?thesis
    using u by (intro exI [of _ u]) (simp add: fopen_append_sel contents_sel)
qed

subsection \<open>Properties of the command\<close>

text \<open>
  C17. Setting the password: the database is made from a copy of \<open>/etc/master.passwd\<close> in which the line
  of root, wherever it stands, is the new entry and every other line is as it was; afterwards the copy is
  removed, and the settings are saved when a key is pressed.
\<close>

theorem passwd_replaces_root:
  assumes "getpwnam ''root'' = Some pw" and "files w MASTER = Some (concat ls)" and "\<forall>l \<in> set ls. pw_line l"
    and "writable env MASTER" and "writable env MPW_TMP" and "files w MPW_TMP = None"
    and "\<forall>c fs. fst (shell env c fs) \<noteq> - 1"
  shows "\<exists>u w'. files u MPW_TMP =
      Some (concat (map (replace_line (pw_name pw) (new_root crypt pass (passwd_salt rnd usec sec) pw)) ls)) \<and>
    files u MASTER = files w MASTER \<and> commands (trace u) = commands (trace w) \<and>
    passwd_main getpwnam crypt env rnd usec sec pass key w = Some (passwd_finish env key u) \<and>
    passwd_finish env key u = (0, w') \<and> files w' MPW_TMP = None \<and>
    commands (trace w') = commands (trace w) @ ''/sbin/pwd_mkdb /etc/mpw.tmp'' #
      (if key > 0 then [''/sbin/writetcnp''] else [])"
proof -
  obtain u where u: "files u MPW_TMP = Some (contents MPW_TMP w @
      concat (map (replace_line (pw_name pw) (new_root crypt pass (passwd_salt rnd usec sec) pw)) ls))"
    "files u MASTER = files w MASTER" "commands (trace u) = commands (trace w)"
    "passwd_main getpwnam crypt env rnd usec sec pass key w = Some (passwd_finish env key u)"
    using passwd_main_copies [where getpwnam = getpwnam and ls = ls and w = w, OF assms(1-5)] by blast
  have "\<exists>w'. passwd_finish env key u = (0, w') \<and> files w' MPW_TMP = None \<and>
      commands (trace w') = commands (trace u) @ ''/sbin/pwd_mkdb /etc/mpw.tmp'' #
        (if key > 0 then [''/sbin/writetcnp''] else [])"
    using assms(7) by (simp add: passwd_finish_def system_split Let_def unlink_sel run_sel(2,3))
  then show ?thesis
    using u assms(6) by (auto simp: contents_def)
qed

text \<open>
  After a failure the command is not what it was: \<open>/etc/mpw\<close> is removed instead of
  \<open>/etc/mpw.tmp\<close>, and the next run appends to what the first has left, so that the database is then
  made from a file with every line twice, the entries of the first run in front.
\<close>

theorem passwd_retry_appends:
  assumes "getpwnam ''root'' = Some pw" and "files w MASTER = Some (concat ls)" and "\<forall>l \<in> set ls. pw_line l"
    and "writable env MASTER" and "writable env MPW_TMP" and "files w MPW_TMP = None"
    and "spares env {''/sbin/pwd_mkdb /etc/mpw.tmp''} MPW_TMP" and "spares env {''/sbin/pwd_mkdb /etc/mpw.tmp''} MASTER"
    and "\<forall>fs. fst (shell env ''/sbin/pwd_mkdb /etc/mpw.tmp'' fs) = - 1"
    and "writable env' MASTER" and "writable env' MPW_TMP"
  shows "\<exists>w1 u. passwd_main getpwnam crypt env rnd usec sec pass key w = Some (- 1, w1) \<and>
    files u MPW_TMP = Some (
      concat (map (replace_line (pw_name pw) (new_root crypt pass (passwd_salt rnd usec sec) pw)) ls) @
      concat (map (replace_line (pw_name pw) (new_root crypt pass' (passwd_salt rnd' usec' sec') pw)) ls)) \<and>
    passwd_main getpwnam crypt env' rnd' usec' sec' pass' key' w1 = Some (passwd_finish env' key' u)"
proof -
  let ?c = "''/sbin/pwd_mkdb /etc/mpw.tmp''"
  let ?one = "concat (map (replace_line (pw_name pw) (new_root crypt pass (passwd_salt rnd usec sec) pw)) ls)"
  obtain u where u: "files u MPW_TMP = Some (contents MPW_TMP w @ ?one)"
    "files u MASTER = files w MASTER"
    "passwd_main getpwnam crypt env rnd usec sec pass key w = Some (passwd_finish env key u)"
    using passwd_main_copies [where getpwnam = getpwnam and ls = ls and w = w, OF assms(1-5)] by blast
  define w1 where "w1 = snd (passwd_finish env key u)"
  have e: "passwd_finish env key u = (- 1, w1)"
    using assms(9) by (simp add: w1_def passwd_finish_def system_split Let_def)
  have "files (run env ?c v) MPW_TMP = files v MPW_TMP" "files (run env ?c v) MASTER = files v MASTER" for v
    using assms(7,8) by (simp_all add: run_spares)
  then have "files w1 MPW_TMP = Some ?one" "files w1 MASTER = Some (concat ls)"
    using assms(2,6,9) u(1,2)
    by (simp_all add: w1_def passwd_finish_def system_split Let_def unlink_sel MPW_TMP_def MASTER_def contents_def)
  then obtain u' where "files u' MPW_TMP = Some (?one @
      concat (map (replace_line (pw_name pw) (new_root crypt pass' (passwd_salt rnd' usec' sec') pw)) ls))"
    "passwd_main getpwnam crypt env' rnd' usec' sec' pass' key' w1 = Some (passwd_finish env' key' u')"
    using passwd_main_copies [where getpwnam = getpwnam and w = w1 and ls = ls and crypt = crypt and pass = pass' and rnd = rnd' and
        usec = usec' and sec = sec' and key = key', OF assms(1) _ assms(3,10,11)]
    by (auto simp: contents_def)
  then show ?thesis using u(3) e by auto
qed

text \<open>
  A percent sign in the password file, say in the full name of a user, makes the command
  undefined: the line that has it is used as a format.
\<close>

theorem passwd_percent:
  assumes "files w MASTER = Some (concat (ls @ (a @ CHR ''%'' # b) # ls'))"
    and "\<forall>l \<in> set ls. pw_line l" and "is_line (a @ CHR ''%'' # b)" and "length (a @ CHR ''%'' # b) \<le> 1023"
    and "CHR ''%'' \<notin> set a" and "CHR ''%'' \<noteq> hd b" and "\<forall>l \<in> set ls'. is_line l \<and> length l \<le> 1023"
  shows "passwd_main getpwnam crypt env rnd usec sec pass key w = None"
proof -
  have l: "fgets_all 1023 (concat (ls @ (a @ CHR ''%'' # b) # ls')) = ls @ (a @ CHR ''%'' # b) # ls'"
    using assms(2-4,7) by (intro fgets_all_lines) (auto simp: pw_line_def)
  have f: "format0 (a @ CHR ''%'' # b) = None"
    using assms(5,6) by (induction a) (auto split: list.split)
  have "copy_lines name m (ls @ (a @ CHR ''%'' # b) # ls') v = None" for name m v
    using assms(2)
  proof (induction ls arbitrary: v)
    case Nil
    then show ?case by (simp add: f)
  next
    case (Cons l ls)
    then show ?case using copy_line_ok [of l] by simp
  qed
  then show ?thesis
    using assms(1) l by (auto simp: passwd_main_def Let_def bind_eq_None_conv split: option.split)
qed

subsection \<open>Trying it\<close>

definition root_entry :: passwd where
  "root_entry = \<lparr>pw_name = ''root'', pw_passwd = [], pw_uid = 0, pw_gid = 0, pw_gecos = ''Charlie'',
     pw_dir = ''/root'', pw_shell = ''/bin/sh''\<rparr>"

definition passwd_lines :: "string list" where
  "passwd_lines = [''toor:*:0:0::0:0::/:'' @ [nl], ''root::0:0::0:0:Charlie:/root:/bin/sh'' @ [nl]]"

definition passwd_world :: world where
  "passwd_world = blank_world\<lparr>files := [MASTER \<mapsto> concat passwd_lines]\<rparr>"

lemma passwd_world_sel:
  "files passwd_world MASTER = Some (concat passwd_lines)" "files passwd_world MPW_TMP = None"
  "trace passwd_world = []"
  by (simp_all add: passwd_world_def blank_world_def MASTER_def MPW_TMP_def)

lemma passwd_lines_ok: "\<forall>l \<in> set passwd_lines. pw_line l"
  by (simp add: passwd_lines_def pw_line_def pw_field_def is_line_def)

lemma new_root_entry:
  "new_root (\<lambda>p s. p) p s root_entry = snprintf 1024 (''root:'' @ p @ '':0:0::0:0:Charlie:/root:/bin/sh'' @ [nl])"
  by (simp add: new_root_def mod_line_def root_entry_def dec_int_def dec.simps digit_0)

theorem passwd_replaces_root_witness:
  "\<exists>u w'. files u MPW_TMP = Some (''toor:*:0:0::0:0::/:'' @ [nl] @ ''root:secret:0:0::0:0:Charlie:/root:/bin/sh'' @ [nl]) \<and>
     passwd_main [''root'' \<mapsto> root_entry] (\<lambda>p s. p) calm 0 0 0 ''secret'' 0 passwd_world = Some (passwd_finish calm 0 u) \<and>
     passwd_finish calm 0 u = (0, w') \<and> commands (trace w') = [''/sbin/pwd_mkdb /etc/mpw.tmp'']"
proof -
  have n: "concat (map (replace_line (pw_name root_entry) (new_root (\<lambda>p s. p) ''secret'' (passwd_salt 0 0 0) root_entry)) passwd_lines) =
      ''toor:*:0:0::0:0::/:'' @ [nl] @ ''root:secret:0:0::0:0:Charlie:/root:/bin/sh'' @ [nl]"
    by (simp add: new_root_entry passwd_lines_def replace_line_def pw_field_def snprintf_fits)
      (simp add: root_entry_def)
  have g: "[''root'' \<mapsto> root_entry] ''root'' = Some root_entry" by simp
  have "\<forall>c fs. fst (shell calm c fs) \<noteq> - 1" by (simp add: calm_def)
  then show ?thesis
    using passwd_replaces_root [where getpwnam = "[''root'' \<mapsto> root_entry]" and ls = passwd_lines and
        w = passwd_world and env = calm and crypt = "\<lambda>p s. p" and rnd = 0 and usec = 0 and sec = 0 and
        pass = "''secret''" and key = 0, OF g passwd_world_sel(1) passwd_lines_ok _ _ passwd_world_sel(2)]
    unfolding n by (auto simp: passwd_world_sel)
qed

definition failing :: env where
  "failing = calm\<lparr>shell := (\<lambda>_ fs. (- 1, fs))\<rparr>"

theorem passwd_retry_appends_witness:
  "\<exists>w1 u. passwd_main [''root'' \<mapsto> root_entry] (\<lambda>p s. p) failing 0 0 0 ''one'' 0 passwd_world = Some (- 1, w1) \<and>
     files u MPW_TMP = Some (''toor:*:0:0::0:0::/:'' @ [nl] @ ''root:one:0:0::0:0:Charlie:/root:/bin/sh'' @ [nl] @
       ''toor:*:0:0::0:0::/:'' @ [nl] @ ''root:two:0:0::0:0:Charlie:/root:/bin/sh'' @ [nl]) \<and>
     passwd_main [''root'' \<mapsto> root_entry] (\<lambda>p s. p) calm 0 0 0 ''two'' 0 w1 = Some (passwd_finish calm 0 u)"
proof -
  have n: "concat (map (replace_line (pw_name root_entry) (new_root (\<lambda>p s. p) p (passwd_salt 0 0 0) root_entry)) passwd_lines) =
      ''toor:*:0:0::0:0::/:'' @ [nl] @ ''root:'' @ p @ '':0:0::0:0:Charlie:/root:/bin/sh'' @ [nl]"
    if "length p < 100" for p
    using that by (simp add: new_root_entry passwd_lines_def replace_line_def pw_field_def snprintf_fits)
      (simp add: root_entry_def)
  have g: "[''root'' \<mapsto> root_entry] ''root'' = Some root_entry" by simp
  have f: "writable failing p" "spares failing cs p" "fst (shell failing c fs) = - 1" for p cs c fs
    by (simp_all add: failing_def calm_def spares_def)
  show ?thesis
    using passwd_retry_appends [where getpwnam = "[''root'' \<mapsto> root_entry]" and ls = passwd_lines and
        w = passwd_world and env = failing and env' = calm and crypt = "\<lambda>p s. p" and rnd = 0 and usec = 0 and
        sec = 0 and pass = "''one''" and key = 0 and rnd' = 0 and usec' = 0 and sec' = 0 and pass' = "''two''" and
        key' = 0, OF g passwd_world_sel(1) passwd_lines_ok _ _ passwd_world_sel(2)]
    by (auto simp: f n)
qed

theorem passwd_percent_witness:
  "passwd_main [''root'' \<mapsto> root_entry] (\<lambda>p s. p) calm 0 0 0 ''secret'' 0
     (passwd_world\<lparr>files := [MASTER \<mapsto> ''joe:*:9:9::0:0:100'' @ CHR ''%'' # '' Joe:/:'' @ [nl]]\<rparr>) = None"
  using passwd_percent [of "passwd_world\<lparr>files := [MASTER \<mapsto> ''joe:*:9:9::0:0:100'' @ CHR ''%'' # '' Joe:/:'' @ [nl]]\<rparr>"
      "[]" "''joe:*:9:9::0:0:100''" "'' Joe:/:'' @ [nl]" "[]"]
  by (simp add: is_line_def)

end
