(* ===== verification/Monitor.thy ===== *)
theory Monitor
  imports World "HOL-Library.Word"
begin

unbundle bit_operations_syntax

text \<open>
  \<open>closedbsd/config/mon.c\<close>: the network monitor, which shows the statistics of the kernel and, in
  ten rows of its window, the connections that are being opened. libpcap hands it packets: bytes of
  memory, of which \<open>p->len\<close> says how many the packet had. The machine is the i386: \<open>short\<close> and
  \<open>long\<close> have 16 and 32 bits, the low byte first, and a pointer has 4 bytes.
\<close>

type_synonym byte = "8 word"

subsection \<open>State\<close>

text \<open>
  The globals \<open>zdlt_len\<close> and \<open>y\<close>, and the 4096 bytes of the static \<open>align_buf\<close>; before the first
  packet they are what \<open>malloc\<close> has found.
\<close>

record mon_st =
  m_zdlt :: int
  m_y :: int
  m_align :: "byte list"
  m_world :: world

definition m_emit :: "act list \<Rightarrow> mon_st \<Rightarrow> mon_st" where
  "m_emit as s = s\<lparr>m_world := emit as (m_world s)\<rparr>"

text \<open>
  What the kernel answers to the three \<open>sysctl\<close> calls, \<open>None\<close> for a failure: the packets in and
  out, for icmp by message type.
\<close>

record stats =
  tcpstat :: "(32 word \<times> 32 word) option"
  udpstat :: "(32 word \<times> 32 word) option"
  icmpstat :: "(32 word list \<times> 32 word list) option"

record tm =
  tm_mon :: nat
  tm_mday :: nat
  tm_hour :: nat
  tm_min :: nat

subsection \<open>Statistics\<close>

definition stat_row :: "int \<Rightarrow> 32 word \<times> 32 word \<Rightarrow> act list" where
  "stat_row row st = (case st of (i, out) \<Rightarrow>
     [Curses (Mvwprintw row 20 (pad_left 10 (dec (unat i)))),
      Curses (Mvwprintw row 40 (pad_left 10 (dec (unat out)))),
      Curses (Mvwprintw row 60 (pad_left 10 (dec (unat (out + i)))))])"

text \<open>The loop over the icmp types: \<open>ii\<close> and \<open>io\<close> are \<open>int\<close>, the counters \<open>u_long\<close>.\<close>

definition icmp_sum :: "32 word list \<Rightarrow> 32 word" where
  "icmp_sum cs = fold (\<lambda>c n. if c > 0 then n + c else n) cs 0"

definition icmp_row :: "32 word list \<times> 32 word list \<Rightarrow> act list" where
  "icmp_row st = (case st of (ins, outs) \<Rightarrow>
     let ii = icmp_sum ins; io = icmp_sum outs in
     [Curses (Wattrset dialog_attr),
      Curses (Mvwprintw 6 20 (pad_left 10 (dec_int (sint ii)))),
      Curses (Mvwprintw 6 40 (pad_left 10 (dec_int (sint io)))),
      Curses (Mvwprintw 6 60 (pad_left 10 (dec_int (sint (ii + io)))))])"

definition log_packet :: "stats \<Rightarrow> act list" where
  "log_packet st =
     Curses (Wattrset dialog_attr) #
     (case tcpstat st of
        None \<Rightarrow> []
      | Some t \<Rightarrow> stat_row 4 t @
          (case udpstat st of
             None \<Rightarrow> []
           | Some u \<Rightarrow> stat_row 5 u @
               (case icmpstat st of
                  None \<Rightarrow> []
                | Some ic \<Rightarrow> icmp_row ic @ [Curses (Wmove 0 0), Curses Wrefresh])))"

subsection \<open>One connection\<close>

definition pad02 :: "nat \<Rightarrow> string" where
  "pad02 n = (if n < 10 then CHR ''0'' # dec n else dec n)"

definition months :: "string list" where
  "months = [''Jan'', ''Feb'', ''Mar'', ''Apr'', ''May'', ''Jun'', ''Jul'', ''Aug'', ''Sep'', ''Oct'', ''Nov'', ''Dec'']"

definition get_date :: "tm \<Rightarrow> string" where
  "get_date t = months ! tm_mon t @ '' '' @ pad02 (tm_mday t) @ '' '' @ pad02 (tm_hour t) @ '':'' @ pad02 (tm_min t)"

text \<open>\<open>resolve\<close> is 0: the name of a host is always \<open>inet_ntoa\<close> of its address.\<close>

definition hostlookup :: "byte list \<Rightarrow> string" where
  "hostlookup a = dec (unat (a ! 0)) @ ''.'' @ dec (unat (a ! 1)) @ ''.'' @ dec (unat (a ! 2)) @ ''.'' @ dec (unat (a ! 3))"

text \<open>\<open>ntohs\<close> of the two bytes in memory.\<close>

definition ntohs :: "byte list \<Rightarrow> nat" where
  "ntohs a = 256 * unat (a ! 0) + unat (a ! 1)"

definition log_syn :: "int \<Rightarrow> tm \<Rightarrow> byte list \<Rightarrow> byte list \<Rightarrow> act list" where
  "log_syn y now ip tcp =
     (let buf = snprintf 80 (get_date now @ '' : '' @ take 15 (hostlookup (take 4 (drop 12 ip))) @ '':'' @
            dec (ntohs (take 2 tcp)) @ '' -> '')
      in [Curses (Wattrset dialog_attr), Curses (Mvwprintw y 2 buf),
          Curses (Mvwprintw y (2 + int (length buf)) (take 25 (hostlookup (take 4 (drop 16 ip))) @ '':'' @
            dec (ntohs (take 2 (drop 2 tcp))))),
          Curses (Wattrset dialog_attr), Curses (Wmove 0 0), Curses Wrefresh])"

subsection \<open>One packet\<close>

definition IP_SIZE :: int where "IP_SIZE = 20"
definition TCP_SIZE :: int where "TCP_SIZE = 20"

definition load16 :: "byte list \<Rightarrow> nat \<Rightarrow> 16 word" where
  "load16 a i = push_bit 8 (ucast (a ! (i + 1))) OR ucast (a ! i)"

definition store16 :: "nat \<Rightarrow> 16 word \<Rightarrow> byte list \<Rightarrow> byte list" where
  "store16 i v a = a[i := ucast v, i + 1 := ucast (drop_bit 8 v)]"

definition bzero4 :: "nat \<Rightarrow> byte list \<Rightarrow> byte list" where
  "bzero4 i a = a[i := 0, i + 1 := 0, i + 2 := 0, i + 3 := 0]"

text \<open>The pointer to the TCP header, as an offset: \<open>ip_options\<close> is an \<open>unsigned short\<close>.\<close>

definition tcp_offset :: "byte list \<Rightarrow> nat" where
  "tcp_offset buf =
     (let ip_options = (ucast (buf ! 0 AND 0xF) :: 16 word);
          ip_options = ip_options - 5;
          ip_options = ip_options * 4
      in nat IP_SIZE + unat ip_options)"

text \<open>
  The second half of \<open>filter_packet\<close>, on the packet in \<open>align_buf\<close>. An access beyond its 4096 bytes is
  undefined. \<open>sizeof(ip)\<close> is that of a pointer.
\<close>

definition look_at :: "stats \<Rightarrow> tm \<Rightarrow> byte list \<Rightarrow> mon_st \<Rightarrow> (rc \<times> mon_st) option" where
  "look_at st now buf s =
     (if buf ! 9 \<noteq> 6 then Some (Rc 0, s\<lparr>m_align := buf\<rparr>)
      else
        let tcp = tcp_offset buf;
            buf = store16 6 (load16 buf 6 AND 0xFF9F) buf
        in if load16 buf 6 \<noteq> 0 then Some (Rc 0, s\<lparr>m_align := buf\<rparr>)
        else if 4096 < tcp + nat TCP_SIZE then None
        else
          let th_flags = buf ! (tcp + 13);
              s = (if th_flags AND 0x02 \<noteq> 0 \<and> th_flags AND 0x10 = 0 then
                     let s = m_emit (log_syn (m_y s) now buf (drop tcp buf)) s
                     in s\<lparr>m_y := (if m_y s < 19 then m_y s + 1 else 10)\<rparr>
                   else m_emit (log_packet st) s)
          in Some (Rc 0, s\<lparr>m_align := bzero4 tcp (bzero4 0 buf)\<rparr>))"

text \<open>
  \<open>filter_packet\<close>: \<open>key\<close> says whether a key is waiting, \<open>mem\<close> is the memory that can be read from
  \<open>packet\<close> on. \<open>bcopy\<close> copies \<open>p->len\<close> bytes from behind the link header.
\<close>

definition filter_packet ::
  "bool \<Rightarrow> stats \<Rightarrow> tm \<Rightarrow> 32 word \<Rightarrow> byte list \<Rightarrow> mon_st \<Rightarrow> (rc \<times> mon_st) option" where
  "filter_packet key st now plen mem s =
     (let s = m_emit (log_packet st) s in
      if key then Some (ditem_continue, m_emit [Dialog_clear] s)
      else if plen < word_of_int (m_zdlt s + IP_SIZE + TCP_SIZE) then Some (ditem_continue, s)
      else if length mem < nat (m_zdlt s) + unat plen \<or> 4096 < unat plen then None
      else look_at st now
        (take (unat plen) (drop (nat (m_zdlt s)) mem) @ drop (unat plen) (m_align s)) s)"

subsection \<open>The monitor\<close>

text \<open>
  The start of \<open>mon\<close>, with what libpcap answers: the device, the result of \<open>pcap_lookupnet\<close>,
  whether the device could be opened and whether it is an ethernet. Without a return value the loop is
  entered.
\<close>

definition mon_window :: "act list" where
  "mon_window =
     [Dialog_clear, Newwin 22 74 2 2, Curses (Draw_box 0 0 22 74 dialog_attr border_attr),
      Curses (Draw_shadow 0 0 23 75), Curses (Wattrset title_attr),
      Curses (Mvwprintw 0 22 ''[ ClosedBSD: Network Monitor ]''), Curses (Wattrset check_selected_attr)] @
     map (\<lambda>k. Curses (Mvwprintw 3 k '' '')) [1..72] @
     [Curses (Mvwprintw 3 1 ''Protocol''), Curses (Mvwprintw 3 20 ''Packets in''),
      Curses (Mvwprintw 3 39 ''Packets out''), Curses (Mvwprintw 3 57 ''Packets total''),
      Curses (Wattrset dialog_attr), Curses (Mvwprintw 4 1 ''     TCP''),
      Curses (Mvwprintw 5 1 ''     UDP''), Curses (Mvwprintw 6 1 ''    ICMP''), Curses Wrefresh]"

definition mon_start ::
  "bool \<Rightarrow> string option \<Rightarrow> int \<Rightarrow> bool \<Rightarrow> bool \<Rightarrow> stats \<Rightarrow> mon_st \<Rightarrow> rc option \<times> mon_st" where
  "mon_start key dev net opened ether st s =
     (let s = m_emit [Init_dialog, Dialog_clear] s in
      if key then (Some ditem_continue, m_emit [Dialog_clear] s)
      else (case dev of
        None \<Rightarrow> (Some ditem_continue,
          m_emit [Msgbox ''ClosedBSD'' ''No suitable devices found'', Dialog_clear] s)
      | Some interface \<Rightarrow>
          if net < 0 then (Some (Rc (- 1)), m_emit [Endwin] s)
          else
            let s = m_emit mon_window s in
            if \<not> opened then (Some ditem_continue, s)
            else (None, m_emit
              ([Curses (Wattrset dialog_attr), Curses (Mvwprintw 1 1 (''Using interface: '' @ interface)),
                Curses (Wattrset check_selected_attr)] @ map (\<lambda>n. Curses (Mvwprintw 9 n '' '')) [1..72] @
               [Curses (Mvwprintw 9 22 ''[ 10 most recent connections ]''), Curses (Wmove 0 0), Curses Wrefresh] @
               log_packet st) (s\<lparr>m_zdlt := (if ether then 14 else 4)\<rparr>))))"

text \<open>
  One turn of the loop: whether a key is waiting, the statistics, and the packet of
  \<open>pcap_dispatch\<close>, if one has come: whether a key is waiting by then, the time, the length and the memory.
\<close>

type_synonym turn = "bool \<times> stats \<times> (bool \<times> tm \<times> 32 word \<times> byte list) option"

definition mon_turn :: "turn \<Rightarrow> mon_st \<Rightarrow> (rc option \<times> mon_st) option" where
  "mon_turn t s = (case t of (key, st, pkt) \<Rightarrow>
     let s = m_emit (log_packet st) s in
     if key then Some (Some ditem_continue, s)
     else (case pkt of
       None \<Rightarrow> Some (None, m_emit [Curses Wrefresh] s)
     | Some (key, now, plen, mem) \<Rightarrow> do {
         (_, s) \<leftarrow> filter_packet key st now plen mem s;
         Some (None, m_emit [Curses Wrefresh] s)
       }))"

fun mon_loop :: "turn list \<Rightarrow> mon_st \<Rightarrow> (rc option \<times> mon_st) option" where
  "mon_loop [] s = Some (None, s)"
| "mon_loop (t # ts) s = do {
     (r, s) \<leftarrow> mon_turn t s;
     (case r of None \<Rightarrow> mon_loop ts s | Some r \<Rightarrow> Some (Some r, s))
   }"

subsection \<open>The bits\<close>

lemma load16_bit:
  "bit (load16 a i) n \<longleftrightarrow> n < 16 \<and> (if n < 8 then bit (a ! i) n else bit (a ! (i + 1)) (n - 8))"
proof -
  have "\<not> bit b n" if "8 \<le> n" for b :: byte and n
    using that bit_imp_le_length by force
  then show ?thesis
    by (auto simp: load16_def bit_or_iff bit_push_bit_iff bit_unsigned_iff)
qed

lemma load16_store16: "i + 1 < length a \<Longrightarrow> load16 (store16 i v a) i = v"
  by (rule bit_word_eqI) (auto simp: load16_bit store16_def bit_unsigned_iff bit_drop_bit_eq)

text \<open>The flags and the offset of a fragment, in network order.\<close>

definition fragment :: "byte list \<Rightarrow> nat" where
  "fragment p = 256 * unat (p ! 6) + unat (p ! 7)"

lemma mask_bytes:
  "list_all (\<lambda>k. ((word_of_nat k :: 16 word) AND 0xFF9F = 0) = (k mod 32 = 0 \<and> k < 128)) [0..<256]"
  "list_all (\<lambda>k. (push_bit 8 (word_of_nat k :: 16 word) AND 0xFF9F = 0) = (k = 0)) [0..<256]"
  by code_simp+

lemma or_zero: "(x :: 16 word) OR y = 0 \<longleftrightarrow> x = 0 \<and> y = 0"
  by (auto simp: bit_eq_iff bit_or_iff)

text \<open>What the mask leaves of a fragment word: nothing when offset and reserved bit are 0.\<close>

lemma fragment_mask:
  "load16 p 6 AND 0xFF9F = 0 \<longleftrightarrow> fragment p mod 8192 = 0 \<and> fragment p < 32768"
proof -
  let ?a = "unat (p ! 6)" and ?b = "unat (p ! 7)"
  have l: "?a < 256" "?b < 256"
    using unsigned_less [of "p ! 6", where ?'a = nat] unsigned_less [of "p ! 7", where ?'a = nat] by simp_all
  have "load16 p 6 = push_bit 8 (word_of_nat ?b) OR word_of_nat ?a"
    by (simp add: load16_def)
  then have "load16 p 6 AND 0xFF9F = 0 \<longleftrightarrow>
      (push_bit 8 (word_of_nat ?b :: 16 word)) AND 0xFF9F = 0 \<and> (word_of_nat ?a :: 16 word) AND 0xFF9F = 0"
    by (simp only: bit.conj_disj_distrib2 or_zero)
  also have "\<dots> \<longleftrightarrow> ?b = 0 \<and> ?a mod 32 = 0 \<and> ?a < 128"
    using mask_bytes l unfolding list_all_iff set_upt by (metis atLeastLessThan_iff le0)
  also have "\<dots> \<longleftrightarrow> fragment p mod 8192 = 0 \<and> fragment p < 32768"
  proof -
    have "(256 * ?a + ?b) mod (256 * 32) = 256 * (?a mod 32) + ?b"
      using l by (subst mod_mult2_eq) simp
    then show ?thesis using l by (auto simp: fragment_def)
  qed
  finally show ?thesis .
qed

text \<open>The low half of the first byte is the length of the header, in words of four bytes.\<close>

definition header_len :: "byte list \<Rightarrow> nat" where
  "header_len p = unat (p ! 0 AND 0xF)"

lemma header_len_bound: "header_len p < 16"
proof -
  have "p ! 0 AND 0xF = take_bit 4 (p ! 0)"
    by (simp add: take_bit_eq_mask mask_eq_exp_minus_1)
  then have "header_len p = take_bit 4 (unat (p ! 0))"
    by (simp add: header_len_def unsigned_take_bit_eq)
  then show ?thesis by (simp add: take_bit_eq_mod)
qed

lemma offset_all:
  "list_all (\<lambda>k. uint (((word_of_nat k :: 16 word) - 5) * 4) =
     (if 5 \<le> k then 4 * int k - 20 else 65516 + 4 * int k)) [0..<16]"
  by code_simp

lemma tcp_offset_eq:
  "tcp_offset p = (if 5 \<le> header_len p then 4 * header_len p else 65536 + 4 * header_len p)"
proof -
  have "header_len p \<in> set [0..<16]" using header_len_bound by simp
  then have "uint (((word_of_nat (header_len p) :: 16 word) - 5) * 4) =
      (if 5 \<le> header_len p then 4 * int (header_len p) - 20 else 65516 + 4 * int (header_len p))"
    using offset_all unfolding list_all_iff by blast
  moreover have "(ucast (p ! 0 AND 0xF) :: 16 word) = word_of_nat (header_len p)"
    by (simp add: header_len_def)
  ultimately show ?thesis
    unfolding tcp_offset_def IP_SIZE_def unat_eq_nat_uint Let_def by (simp split: if_splits)
qed

subsection \<open>What a packet does\<close>

text \<open>The bytes of a packet behind the link header, and the packets that open a connection.\<close>

definition syn_packet :: "byte list \<Rightarrow> bool" where
  "syn_packet p \<longleftrightarrow> p ! 9 = 6 \<and> fragment p mod 8192 = 0 \<and> fragment p < 32768 \<and>
     p ! (4 * header_len p + 13) AND 0x02 \<noteq> 0 \<and> p ! (4 * header_len p + 13) AND 0x10 = 0"

definition next_row :: "int \<Rightarrow> int" where
  "next_row y = (if y < 19 then y + 1 else 10)"

definition mon_ok :: "mon_st \<Rightarrow> bool" where
  "mon_ok s \<longleftrightarrow> (m_zdlt s = 4 \<or> m_zdlt s = 14) \<and> 10 \<le> m_y s \<and> m_y s \<le> 19 \<and> length (m_align s) = 4096"

lemma store16_nth: "j \<noteq> i \<Longrightarrow> j \<noteq> i + 1 \<Longrightarrow> store16 i v a ! j = a ! j"
  by (simp add: store16_def)

lemma store16_length [simp]: "length (store16 i v a) = length a"
  by (simp add: store16_def)

lemma bzero4_length [simp]: "length (bzero4 i a) = length a"
  by (simp add: bzero4_def)

lemma m_emit_sel [simp]:
  "m_zdlt (m_emit as s) = m_zdlt s" "m_y (m_emit as s) = m_y s" "m_align (m_emit as s) = m_align s"
  "m_world (m_emit as s) = emit as (m_world s)"
  by (simp_all add: m_emit_def)

lemma too_short:
  "mon_ok s \<Longrightarrow> plen < word_of_int (m_zdlt s + IP_SIZE + TCP_SIZE) \<longleftrightarrow> unat (plen :: 32 word) < nat (m_zdlt s) + 40"
  by (auto simp: mon_ok_def IP_SIZE_def TCP_SIZE_def word_less_nat_alt)

definition payload :: "32 word \<Rightarrow> byte list \<Rightarrow> mon_st \<Rightarrow> byte list" where
  "payload plen mem s = take (unat plen) (drop (nat (m_zdlt s)) mem)"

text \<open>The length of a packet that is looked at, and the memory it takes to do so.\<close>

definition readable :: "32 word \<Rightarrow> byte list \<Rightarrow> mon_st \<Rightarrow> bool" where
  "readable plen mem s \<longleftrightarrow> nat (m_zdlt s) + 40 \<le> unat plen \<and> unat plen \<le> 4096 \<and>
     nat (m_zdlt s) + unat plen \<le> length mem"

lemma payload_length:
  "mon_ok s \<Longrightarrow> readable plen mem s \<Longrightarrow> length (payload plen mem s) = unat plen \<and> 44 \<le> unat plen"
  by (auto simp: payload_def readable_def mon_ok_def)

lemma log_syn_cong:
  "take 4 (drop 12 ip) = take 4 (drop 12 ip') \<Longrightarrow> take 4 (drop 16 ip) = take 4 (drop 16 ip') \<Longrightarrow>
   take 2 tcp = take 2 tcp' \<Longrightarrow> take 2 (drop 2 tcp) = take 2 (drop 2 tcp') \<Longrightarrow>
   log_syn y now ip tcp = log_syn y now ip' tcp'"
  by (simp add: log_syn_def)

text \<open>The packet in the buffer: its fields are those of the packet.\<close>

lemma buffer_fields:
  assumes "44 \<le> length p" "length (p @ r) = 4096"
  shows "(p @ r) ! 9 = p ! 9" "header_len (p @ r) = header_len p" "tcp_offset (p @ r) = tcp_offset p"
    "fragment (p @ r) = fragment p"
proof -
  have "p \<noteq> []" using assms(1) by auto
  then show "(p @ r) ! 9 = p ! 9" "header_len (p @ r) = header_len p" "tcp_offset (p @ r) = tcp_offset p"
    "fragment (p @ r) = fragment p"
    using assms by (simp_all add: nth_append header_len_def tcp_offset_def fragment_def)
qed

lemma buffer_syn:
  assumes "44 \<le> length p" "20 \<le> t" "t + 20 \<le> length p"
  shows "log_syn y now (store16 6 v (p @ r)) (drop t (store16 6 v (p @ r))) = log_syn y now p (drop t p)"
    and "store16 6 v (p @ r) ! (t + 13) = p ! (t + 13)"
  using assms by (auto intro!: log_syn_cong simp: store16_def nth_append)

text \<open>What a whole packet \<open>p\<close> in the buffer does, \<open>r\<close> being what lies behind it.\<close>

definition tcp_start :: "byte list \<Rightarrow> bool" where
  "tcp_start p \<longleftrightarrow> p ! 9 = 6 \<and> fragment p mod 8192 = 0 \<and> fragment p < 32768"

definition packet_acts :: "stats \<Rightarrow> tm \<Rightarrow> byte list \<Rightarrow> int \<Rightarrow> act list" where
  "packet_acts st now p y =
     (if syn_packet p then log_syn y now p (drop (4 * header_len p) p)
      else if tcp_start p then log_packet st else [])"

lemma look_at_packet:
  assumes "44 \<le> length p" "length (p @ r) = 4096" "5 \<le> header_len p" "4 * header_len p + 20 \<le> length p"
  shows "\<exists>b. look_at st now (p @ r) s = Some (Rc 0, s\<lparr>m_align := b,
      m_y := (if syn_packet p then next_row (m_y s) else m_y s),
      m_world := emit (packet_acts st now p (m_y s)) (m_world s)\<rparr>) \<and> length b = 4096"
proof -
  define b where "b = store16 6 (load16 (p @ r) 6 AND 0xFF9F) (p @ r)"
  note flds = buffer_fields [OF assms(1,2)]
  have t: "tcp_offset (p @ r) = 4 * header_len p" "20 \<le> 4 * header_len p" "4 * header_len p + 20 \<le> length p"
    using assms(3,4) flds by (simp_all add: tcp_offset_eq)
  have syn: "log_syn y now b (drop (4 * header_len p) b) = log_syn y now p (drop (4 * header_len p) p)"
    "b ! (4 * header_len p + 13) = p ! (4 * header_len p + 13)" for y
    unfolding b_def by (rule buffer_syn [OF assms(1) t(2,3)])+
  have mask: "load16 b 6 = 0 \<longleftrightarrow> fragment p mod 8192 = 0 \<and> fragment p < 32768"
    using assms(2) flds(4) by (simp add: b_def load16_store16 fragment_mask)
  have len: "length b = 4096" using assms(2) by (simp add: b_def)
  show ?thesis
  proof (cases "tcp_start p")
    case False
    then have "\<not> syn_packet p" by (auto simp: syn_packet_def tcp_start_def)
    then show ?thesis
      using False mask len assms(2) flds(1)
      by (auto simp: look_at_def tcp_start_def packet_acts_def Let_def b_def [symmetric])
  next
    case True
    have s: "syn_packet p \<longleftrightarrow> p ! (4 * header_len p + 13) AND 0x02 \<noteq> 0 \<and> p ! (4 * header_len p + 13) AND 0x10 = 0"
      using True by (simp add: syn_packet_def tcp_start_def)
    have "look_at st now (p @ r) s = Some (Rc 0,
        (if syn_packet p then (m_emit (log_syn (m_y s) now p (drop (4 * header_len p) p)) s)\<lparr>m_y := next_row (m_y s)\<rparr>
         else m_emit (log_packet st) s)\<lparr>m_align := bzero4 (4 * header_len p) (bzero4 0 b)\<rparr>)"
      using True mask flds(1) t assms(2) syn
      by (simp add: look_at_def Let_def b_def [symmetric] tcp_start_def TCP_SIZE_def s next_row_def)
    then show ?thesis
      using True len
      by (intro exI [of _ "bzero4 (4 * header_len p) (bzero4 0 b)"], cases s)
        (simp add: packet_acts_def m_emit_def)
  qed
qed


lemma filter_packet_look:
  assumes "mon_ok s" "readable plen mem s"
  shows "filter_packet False st now plen mem s =
    look_at st now (payload plen mem s @ drop (unat plen) (m_align s)) (m_emit (log_packet st) s)"
  using assms too_short [OF assms(1), of plen]
  by (auto simp: filter_packet_def readable_def payload_def Let_def)

subsection \<open>The rows of the window\<close>

text \<open>Every row that is printed: the statistics, or one of the ten rows of connections.\<close>

definition row_ok :: "act \<Rightarrow> bool" where
  "row_ok a = (case a of Curses (Mvwprintw y x t) \<Rightarrow> y \<in> {4, 5, 6} \<union> {10..19} | _ \<Rightarrow> True)"

definition rows_ok :: "act list \<Rightarrow> bool" where
  "rows_ok as = list_all row_ok as"

lemma rows_okD: "rows_ok as \<Longrightarrow> Curses (Mvwprintw y x t) \<in> set as \<Longrightarrow> y \<in> {4, 5, 6} \<union> {10..19}"
  by (auto simp: rows_ok_def list_all_iff row_ok_def)

lemma rows_ok_append: "rows_ok (as @ bs) \<longleftrightarrow> rows_ok as \<and> rows_ok bs"
  by (simp add: rows_ok_def)

lemma rows_log_packet: "rows_ok (log_packet st)"
  by (simp add: rows_ok_def row_ok_def log_packet_def stat_row_def icmp_row_def Let_def split: option.split prod.split)

lemma rows_log_syn: "10 \<le> y \<Longrightarrow> y \<le> 19 \<Longrightarrow> rows_ok (log_syn y now ip tcp)"
  by (simp add: rows_ok_def row_ok_def log_syn_def Let_def)

lemma rows_other: "rows_ok [Curses Wrefresh]" "rows_ok [Dialog_clear]" "rows_ok []"
  by (simp_all add: rows_ok_def row_ok_def)

lemma look_at_ok:
  assumes "mon_ok s" "length buf = 4096" "look_at st now buf s = Some (r, s')"
  shows "mon_ok s' \<and> (\<exists>as. trace (m_world s') = trace (m_world s) @ as \<and> rows_ok as)"
proof -
  have y: "10 \<le> m_y s" "m_y s \<le> 19" using assms(1) by (auto simp: mon_ok_def)
  show ?thesis
    using assms rows_log_syn [OF y] rows_log_packet [of st] rows_other(3)
    by (auto simp: look_at_def mon_ok_def Let_def split: if_splits)
qed

lemma filter_packet_ok:
  assumes "mon_ok s" "filter_packet key st now plen mem s = Some (r, s')"
  shows "mon_ok s' \<and> (\<exists>as. trace (m_world s') = trace (m_world s) @ as \<and> rows_ok as)"
proof (cases "key \<or> plen < word_of_int (m_zdlt s + IP_SIZE + TCP_SIZE)")
  case True
  then show ?thesis
    using assms rows_log_packet [of st] rows_other
    by (auto simp: filter_packet_def Let_def mon_ok_def rows_ok_append split: if_splits)
next
  case False
  let ?s = "m_emit (log_packet st) s"
  have ok: "mon_ok ?s" using assms(1) by (simp add: mon_ok_def)
  obtain buf where b: "look_at st now buf ?s = Some (r, s')" "length buf = 4096"
    using False assms by (auto simp: filter_packet_def Let_def mon_ok_def split: if_splits)
  obtain as where "mon_ok s'" "trace (m_world s') = trace (m_world ?s) @ as" "rows_ok as"
    using look_at_ok [OF ok b(2,1)] by blast
  then show ?thesis
    using rows_log_packet [of st] by (intro conjI exI [of _ "log_packet st @ as"]) (simp_all add: rows_ok_append)
qed

lemma mon_turn_ok:
  assumes "mon_ok s" "mon_turn t s = Some (r, s')"
  shows "mon_ok s' \<and> (\<exists>as. trace (m_world s') = trace (m_world s) @ as \<and> rows_ok as)"
proof -
  obtain key st pkt where t: "t = (key, st, pkt)" by (cases t)
  have ok: "mon_ok (m_emit (log_packet st) s)" using assms(1) by (simp add: mon_ok_def)
  show ?thesis
  proof (cases "key \<or> pkt = None")
    case True
    then show ?thesis
      using assms ok rows_log_packet [of st] rows_other(1)
      by (auto simp: mon_turn_def t Let_def rows_ok_append mon_ok_def split: if_splits)
  next
    case False
    then obtain key' now plen mem where p: "pkt = Some (key', now, plen, mem)" by (metis option.exhaust prod_cases4)
    obtain v s1 where f: "filter_packet key' st now plen mem (m_emit (log_packet st) s) = Some (v, s1)"
      "s' = m_emit [Curses Wrefresh] s1"
      using assms(2) False by (auto simp: mon_turn_def t p Let_def bind_eq_Some_conv)
    from filter_packet_ok [OF ok f(1)] show ?thesis
      using f(2) rows_log_packet [of st] rows_other(1)
      by (auto simp: mon_ok_def rows_ok_append)
  qed
qed

subsection \<open>Properties\<close>

text \<open>
  C19. A connection is logged exactly when it is opened: a packet that is long enough, holds its headers
  and can be read prints a row when it is TCP, the first fragment, and has SYN but not ACK; the row shows
  the addresses and the ports of the packet and the next one is taken for the next connection. No other
  packet uses a row.
\<close>

theorem filter_packet_logs:
  assumes "mon_ok s" and "readable plen mem s" and "5 \<le> header_len (payload plen mem s)"
    and "4 * header_len (payload plen mem s) + 20 \<le> unat plen"
  shows "\<exists>s'. filter_packet False st now plen mem s = Some (Rc 0, s') \<and>
    m_y s' = (if syn_packet (payload plen mem s) then next_row (m_y s) else m_y s) \<and>
    trace (m_world s') = trace (m_world s) @ log_packet st @
      (if syn_packet (payload plen mem s)
       then log_syn (m_y s) now (payload plen mem s) (drop (4 * header_len (payload plen mem s)) (payload plen mem s))
       else if tcp_start (payload plen mem s) then log_packet st else [])"
proof -
  have len: "44 \<le> length (payload plen mem s)" "length (payload plen mem s) = unat plen"
    "length (payload plen mem s @ drop (unat plen) (m_align s)) = 4096"
    using payload_length [OF assms(1,2)] assms(1,2) by (auto simp: mon_ok_def readable_def)
  show ?thesis
    using look_at_packet [OF len(1,3) assms(3), of st now "m_emit (log_packet st) s"] assms(4) len(2)
      filter_packet_look [OF assms(1,2), of st now]
    by (auto simp: packet_acts_def)
qed

text \<open>
  The monitor writes only into its rows: for every sequence of keys and packets, whatever they hold,
  the next row stays among the ten of the list, and every row that is printed is one of those or of the
  three of the statistics.
\<close>

theorem mon_rows:
  assumes "mon_ok s" and "mon_loop ts s = Some (r, s')"
  shows "10 \<le> m_y s' \<and> m_y s' \<le> 19 \<and> (\<exists>as. trace (m_world s') = trace (m_world s) @ as \<and>
    (\<forall>y x t. Curses (Mvwprintw y x t) \<in> set as \<longrightarrow> y \<in> {4, 5, 6} \<union> {10..19}))"
proof -
  have "mon_ok s \<Longrightarrow> mon_loop ts s = Some (r, s') \<Longrightarrow>
      mon_ok s' \<and> (\<exists>as. trace (m_world s') = trace (m_world s) @ as \<and> rows_ok as)"
  proof (induction ts arbitrary: s)
    case Nil
    then show ?case using rows_other(3) by auto
  next
    case (Cons t ts)
    then obtain v s1 where t: "mon_turn t s = Some (v, s1)"
      "(case v of None \<Rightarrow> mon_loop ts s1 | Some r \<Rightarrow> Some (Some r, s1)) = Some (r, s')"
      by (auto simp: bind_eq_Some_conv)
    then obtain as where s1: "mon_ok s1" "trace (m_world s1) = trace (m_world s) @ as" "rows_ok as"
      using mon_turn_ok [OF Cons.prems(1)] by blast
    show ?case
    proof (cases v)
      case None
      then obtain bs where "mon_ok s'" "trace (m_world s') = trace (m_world s1) @ bs" "rows_ok bs"
        using Cons.IH [OF s1(1)] t(2) by auto
      then show ?thesis using s1 by (auto simp: rows_ok_append)
    next
      case (Some q)
      then show ?thesis using t(2) s1 by auto
    qed
  qed
  then show ?thesis using assms rows_okD unfolding mon_ok_def by blast
qed

text \<open>
  A TCP packet whose header claims to be shorter than it can be makes the monitor read 64 kilobytes
  behind its buffer: the length of the options is computed in an unsigned 16-bit integer.
\<close>

theorem filter_packet_short_header:
  assumes "mon_ok s" and "readable plen mem s" and "header_len (payload plen mem s) < 5"
    and "tcp_start (payload plen mem s)"
  shows "filter_packet False st now plen mem s = None"
proof -
  let ?p = "payload plen mem s" and ?r = "drop (unat plen) (m_align s)"
  have len: "44 \<le> length ?p" "length (?p @ ?r) = 4096"
    using payload_length [OF assms(1,2)] assms(1,2) by (auto simp: mon_ok_def readable_def)
  define b where "b = store16 6 (load16 (?p @ ?r) 6 AND 0xFF9F) (?p @ ?r)"
  note flds = buffer_fields [OF len]
  have "4096 < tcp_offset (?p @ ?r)"
    using flds(2) assms(3) by (simp add: tcp_offset_eq)
  moreover have "load16 b 6 = 0"
    using len(2) flds(4) assms(4) by (simp add: b_def load16_store16 fragment_mask tcp_start_def)
  ultimately have "look_at st now (?p @ ?r) (m_emit (log_packet st) s) = None"
    using assms(4) flds(1) by (simp add: look_at_def Let_def tcp_start_def flip: b_def)
  then show ?thesis by (simp add: filter_packet_look [OF assms(1,2)])
qed

text \<open>
  \<open>bcopy\<close> is told the length of the whole packet but starts behind the link header: of a packet
  of which only its own bytes can be read, the copy reads past the end.
\<close>

theorem filter_packet_overread:
  assumes "mon_ok s" and "length mem = unat plen" and "nat (m_zdlt s) + 40 \<le> unat plen"
  shows "filter_packet False st now plen mem s = None"
proof -
  have "0 < nat (m_zdlt s)" using assms(1) by (auto simp: mon_ok_def)
  then show ?thesis
    using assms(2,3) too_short [OF assms(1), of plen] by (simp add: filter_packet_def Let_def)
qed

subsection \<open>Trying it\<close>

text \<open>An ethernet packet from port 1234 of 10.0.0.1 to port 80 of 10.0.0.2, with these flags.\<close>

definition tcp_example :: "byte \<Rightarrow> byte \<Rightarrow> byte list" where
  "tcp_example vhl flags = [vhl, 0, 0, 40, 0, 0, 0x40, 0, 64, 6, 0, 0, 10, 0, 0, 1, 10, 0, 0, 2,
     4, 210, 0, 80, 0, 0, 0, 0, 0, 0, 0, 0, 0x50, flags, 0, 0, 0, 0, 0, 0]"

definition ether :: "byte list" where
  "ether = [0, 0, 0, 0, 0, 0, 0, 0, 0, 0, 0, 0, 8, 0]"

definition mon0 :: mon_st where
  "mon0 = \<lparr>m_zdlt = 14, m_y = 10, m_align = replicate 4096 0, m_world = blank_world\<rparr>"

definition no_stats :: stats where
  "no_stats = \<lparr>tcpstat = None, udpstat = None, icmpstat = None\<rparr>"

definition noon :: tm where
  "noon = \<lparr>tm_mon = 2, tm_mday = 9, tm_hour = 12, tm_min = 0\<rparr>"

lemma mon0_ok: "mon_ok mon0"
  by (simp add: mon_ok_def mon0_def)

lemma example_payload:
  "payload 54 (ether @ tcp_example v f @ ether) mon0 = tcp_example v f @ ether"
  "readable 54 (ether @ tcp_example v f @ ether) mon0"
  by (simp_all add: payload_def readable_def mon0_def ether_def tcp_example_def)

lemma example_header: "header_len (tcp_example 0x45 f @ b) = 5" "header_len (tcp_example 0x44 f @ b) = 4"
  by (simp_all add: header_len_def tcp_example_def)

lemma example_start: "tcp_start (tcp_example v f @ b)"
  by (simp add: tcp_start_def fragment_def tcp_example_def)

lemma example_syn: "syn_packet (tcp_example 0x45 0x02 @ b)"
  using example_start [of "0x45" "0x02" b] example_header(1) [of "0x02" b]
  by (simp add: syn_packet_def tcp_start_def) (simp add: tcp_example_def)

lemma digit_chars: "digit 0 = CHR ''0''" "digit (Suc 0) = CHR ''1''" "digit 2 = CHR ''2''" "digit 3 = CHR ''3''"
  "digit 4 = CHR ''4''" "digit 5 = CHR ''5''" "digit 6 = CHR ''6''" "digit 7 = CHR ''7''" "digit 8 = CHR ''8''"
  "digit 9 = CHR ''9''"
  by code_simp+

lemma example_row:
  "log_syn y noon (tcp_example 0x45 0x02 @ b) (drop 20 (tcp_example 0x45 0x02 @ b)) =
     [Curses (Wattrset dialog_attr), Curses (Mvwprintw y 2 ''Mar 09 12:00 : 10.0.0.1:1234 -> ''),
      Curses (Mvwprintw y 34 ''10.0.0.2:80''), Curses (Wattrset dialog_attr), Curses (Wmove 0 0), Curses Wrefresh]"
proof -
  have d: "dec 0 = ''0''" "dec (Suc 0) = ''1''" "dec 2 = ''2''" "dec 9 = ''9''" "dec 10 = ''10''" "dec 12 = ''12''" "dec 80 = ''80''"
    "dec 1234 = ''1234''"
    by (simp_all add: dec.simps digit_chars)
  show ?thesis
    by (simp add: log_syn_def get_date_def pad02_def months_def noon_def hostlookup_def ntohs_def tcp_example_def d
      snprintf_fits)
qed

theorem filter_packet_logs_witness:
  "\<exists>s'. filter_packet False no_stats noon 54 (ether @ tcp_example 0x45 0x02 @ ether) mon0 = Some (Rc 0, s') \<and>
     m_y s' = 11 \<and>
     Curses (Mvwprintw 10 2 ''Mar 09 12:00 : 10.0.0.1:1234 -> '') \<in> set (trace (m_world s')) \<and>
     Curses (Mvwprintw 10 34 ''10.0.0.2:80'') \<in> set (trace (m_world s'))"
proof -
  let ?p = "tcp_example 0x45 0x02 @ ether"
  have p: "header_len ?p = 5" "syn_packet ?p" "next_row 10 = 11"
    by (simp_all add: example_header example_syn next_row_def)
  have y: "m_y mon0 = 10" by (simp add: mon0_def)
  show ?thesis
    using filter_packet_logs [OF mon0_ok, of 54 "ether @ ?p" no_stats noon] p y
    by (auto simp: example_payload example_row simp del: drop_append)
qed

theorem mon_rows_witness:
  "\<exists>s'. mon_loop [(False, no_stats, None), (True, no_stats, None)] mon0 = Some (Some ditem_continue, s') \<and>
     10 \<le> m_y s' \<and> m_y s' \<le> 19"
proof -
  obtain s' where l: "mon_loop [(False, no_stats, None), (True, no_stats, None)] mon0 = Some (Some ditem_continue, s')"
    by (simp add: mon_turn_def Let_def)
  then show ?thesis using mon_rows [OF mon0_ok l] by auto
qed

theorem filter_packet_short_header_witness:
  "filter_packet False no_stats noon 54 (ether @ tcp_example 0x44 0x02 @ ether) mon0 = None"
  using filter_packet_short_header [OF mon0_ok, of 54 "ether @ tcp_example 0x44 0x02 @ ether" no_stats noon]
  by (simp add: example_payload example_header example_start)

theorem filter_packet_overread_witness:
  "filter_packet False no_stats noon 54 (ether @ tcp_example 0x45 0x02) mon0 = None"
  using filter_packet_overread [OF mon0_ok, of "ether @ tcp_example 0x45 0x02" 54 no_stats noon]
  by (simp add: ether_def tcp_example_def mon0_def)

end
