(* ===== verification/Ipfw.thy ===== *)
theory Ipfw
  imports RuleProps "HOL-Library.Word"
begin

unbundle bit_operations_syntax

text \<open>
  \<open>sbin/ipfw/ipfw.c\<close>: the command that every rule line calls. Modelled are the functions that read
  the arguments of a rule into a \<open>struct ip_fw\<close>, \<open>add\<close>, \<open>delete\<close>, \<open>zero\<close>, \<open>resetlog\<close> and
  \<open>ipfw_main\<close>; their result is what is asked of the kernel. The members and flags of
  \<open>struct ip_fw\<close> come from a kernel header: a flag is a constructor, a bit set a set. Addresses
  are words in host order, as \<open>htonl\<close> is applied to every mask and address alike. The divert port,
  the number of a pipe, the rule to skip to and the reject code are members of one union there, \<open>fw_un\<close>
  here; \<open>IP_FW_MAX_PORTS\<close> is 10, and there are 128 ICMP types.
\<close>

subsection \<open>Outcomes\<close>

text \<open>
  A function returns, leaves the program through \<open>errx\<close>, or has no defined behaviour.
\<close>

datatype exit_error = EX_USAGE string | EX_DATAERR string | EX_NOHOST string | EX_UNAVAILABLE string | EX_NOPERM string
  | EXIT_1 string

datatype 'a outcome = Ok 'a | Fail exit_error | Undefined

primrec bind_o :: "'a outcome \<Rightarrow> ('a \<Rightarrow> 'b outcome) \<Rightarrow> 'b outcome" where
  "bind_o (Ok x) f = f x"
| "bind_o (Fail e) f = Fail e"
| "bind_o Undefined f = Undefined"

lemma bind_o_cong [fundef_cong]:
  "m = m' \<Longrightarrow> (\<And>x. m' = Ok x \<Longrightarrow> f x = g x) \<Longrightarrow> bind_o m f = bind_o m' g"
  by (cases m') auto

lemma bind_o_eq_Ok: "bind_o m f = Ok y \<longleftrightarrow> (\<exists>x. m = Ok x \<and> f x = Ok y)"
  by (cases m) auto

subsection \<open>The C library\<close>

text \<open>\<open>strtoul(s, &end, base)\<close> for the bases 0 and 10: the value of 32 bits and what \<open>end\<close> points to.\<close>

definition digit_value :: "char \<Rightarrow> nat" where
  "digit_value c =
     (let n = of_char c in
      if 48 \<le> n \<and> n \<le> 57 then n - 48 else if 65 \<le> n \<and> n \<le> 90 then n - 55
      else if 97 \<le> n \<and> n \<le> 122 then n - 87 else 36)"

fun read_digits :: "nat \<Rightarrow> nat \<Rightarrow> string \<Rightarrow> nat \<times> string" where
  "read_digits b v [] = (v, [])"
| "read_digits b v (c # cs) =
     (if digit_value c < b then read_digits b (b * v + digit_value c) cs else (v, c # cs))"

definition strtoul :: "nat \<Rightarrow> string \<Rightarrow> nat \<times> string" where
  "strtoul base s =
     (let t = dropWhile isspace s;
          neg = (take 1 t = ''-'');
          t = (if take 1 t = ''-'' \<or> take 1 t = ''+'' then tl t else t);
          hex = (base = 0 \<and> (take 2 t = ''0x'' \<or> take 2 t = ''0X''));
          b = (if hex then 16 else if base = 0 then (if take 1 t = ''0'' then 8 else 10) else base);
          t = (if hex then drop 2 t else t)
      in case read_digits b 0 t of
           (v, rest) \<Rightarrow>
             if length rest = length t then (0, s)
             else if 2 ^ 32 \<le> v then (2 ^ 32 - 1, rest)
             else (if neg then (2 ^ 32 - v) mod 2 ^ 32 else v, rest))"

text \<open>\<open>inet_aton\<close>: one to four numbers, the last of which fills the bytes that are left.\<close>

fun aton_digits :: "nat \<Rightarrow> nat \<Rightarrow> string \<Rightarrow> nat \<times> string" where
  "aton_digits b v [] = (v, [])"
| "aton_digits b v (c # cs) =
     (if isdigit c then aton_digits b ((v * b + digit_value c) mod 2 ^ 32) cs
      else if b = 16 \<and> digit_value c < 16 then aton_digits b ((v * 16 + digit_value c) mod 2 ^ 32) cs
      else (v, c # cs))"

definition aton_number :: "string \<Rightarrow> (nat \<times> string) option" where
  "aton_number s =
     (if s = [] \<or> \<not> isdigit (hd s) then None
      else if take 2 s = ''0x'' \<or> take 2 s = ''0X'' then Some (aton_digits 16 0 (drop 2 s))
      else if hd s = CHR ''0'' then Some (aton_digits 8 0 (tl s))
      else Some (aton_digits 10 0 s))"

fun aton_parts :: "nat \<Rightarrow> string \<Rightarrow> (nat list \<times> string) option" where
  "aton_parts 0 s = do { (v, t) \<leftarrow> aton_number s; if take 1 t = ''.'' then None else Some ([v], t) }"
| "aton_parts (Suc k) s = do {
     (v, t) \<leftarrow> aton_number s;
     if take 1 t = ''.'' then do { (vs, t) \<leftarrow> aton_parts k (tl t); Some (v # vs, t) }
     else Some ([v], t)
   }"

definition aton_word :: "nat list \<Rightarrow> 32 word option" where
  "aton_word vs =
     (case vs of
        [a] \<Rightarrow> Some (word_of_nat a)
      | [a, b] \<Rightarrow> if b > 0xffffff \<or> a > 0xff then None else Some (word_of_nat (a * 2 ^ 24 + b))
      | [a, b, c] \<Rightarrow> if c > 0xffff \<or> a > 0xff \<or> b > 0xff then None
          else Some (word_of_nat (a * 2 ^ 24 + b * 2 ^ 16 + c))
      | [a, b, c, d] \<Rightarrow> if d > 0xff \<or> a > 0xff \<or> b > 0xff \<or> c > 0xff then None
          else Some (word_of_nat (a * 2 ^ 24 + b * 2 ^ 16 + c * 2 ^ 8 + d))
      | _ \<Rightarrow> None)"

definition inet_aton :: "string \<Rightarrow> 32 word option" where
  "inet_aton s = do {
     (vs, t) \<leftarrow> aton_parts 3 s;
     if t \<noteq> [] \<and> \<not> isspace (hd t) then None else aton_word vs
   }"

subsection \<open>The rule\<close>

datatype fw_command = F_DENY | F_REJECT | F_ACCEPT | F_COUNT | F_DIVERT | F_TEE | F_SKIPTO | F_FWD | F_PIPE
  | F_QUEUE | F_CHECK_S

datatype fw_flag = F_IN | F_OUT | F_IIFACE | F_OIFACE | F_PRN | F_SRNG | F_DRNG | F_FRAG | F_IIFNAME | F_OIFNAME
  | F_INVSRC | F_INVDST | F_ICMPBIT | F_UID | F_GID | F_RND_MATCH | F_SMSK | F_DMSK | F_BRIDGED | F_KEEP_S
  | F_SME | F_DME

datatype tcp_flag = TCPF_SYN | TCPF_FIN | TCPF_ACK | TCPF_PSH | TCPF_RST | TCPF_URG
datatype tcp_opt = TCPOPT_MSS | TCPOPT_WINDOW | TCPOPT_SACK | TCPOPT_TS | TCPOPT_CC
datatype ip_opt = IPOPT_SSRR | IPOPT_LSRR | IPOPT_RR | IPOPT_TS
datatype dyn_mask = DYN_SRC_ADDR | DYN_SRC_PORT | DYN_DST_ADDR | DYN_DST_PORT
datatype fw_if = Via_ip "32 word" | Via_if string int

record ip_fw =
  fw_number :: nat
  fw_command :: fw_command
  fw_flg :: "fw_flag set"
  dont_match_prob :: int
  fw_un :: nat
  fw_fwd_ip :: "32 word"
  fw_fwd_port :: nat
  fw_logamount :: int
  fw_loghighest :: int
  fw_prot :: nat
  fw_src :: "32 word"
  fw_smsk :: "32 word"
  fw_dst :: "32 word"
  fw_dmsk :: "32 word"
  fw_pts :: "nat list"
  fw_nsrcp :: nat
  fw_ndstp :: nat
  fw_icmptypes :: "nat set"
  fw_uid :: nat
  fw_gid :: nat
  fw_in_if :: fw_if
  fw_out_if :: fw_if
  fw_ipopt :: "ip_opt set"
  fw_ipnopt :: "ip_opt set"
  fw_tcpest :: bool
  fw_tcpf :: "tcp_flag set"
  fw_tcpnf :: "tcp_flag set"
  fw_tcpopt :: "tcp_opt set"
  fw_tcpnopt :: "tcp_opt set"
  dyn_type :: nat
  limit_mask :: "dyn_mask set"
  conn_limit :: nat

text \<open>
  What the program asks of the kernel. For \<open>IP_DUMMYNET_DEL\<close> the first number is \<open>do_pipe\<close>; no
  rule number is given to clear all counters.
\<close>

datatype fw_request = FW_ADD ip_fw | FW_DEL nat | DUMMYNET_DEL nat nat | FW_FLUSH | DUMMYNET_FLUSH
  | FW_ZERO "nat option" | FW_RESETLOG "nat option"

text \<open>\<open>memset(&rule, 0, sizeof rule)\<close>.\<close>

definition zero_fw :: ip_fw where
  "zero_fw = \<lparr>fw_number = 0, fw_command = F_DENY, fw_flg = {}, dont_match_prob = 0, fw_un = 0,
     fw_fwd_ip = 0, fw_fwd_port = 0, fw_logamount = 0, fw_loghighest = 0,
     fw_prot = 0, fw_src = 0, fw_smsk = 0, fw_dst = 0, fw_dmsk = 0, fw_pts = [], fw_nsrcp = 0, fw_ndstp = 0,
     fw_icmptypes = {}, fw_uid = 0, fw_gid = 0, fw_in_if = Via_ip 0, fw_out_if = Via_ip 0, fw_ipopt = {},
     fw_ipnopt = {}, fw_tcpest = False, fw_tcpf = {}, fw_tcpnf = {}, fw_tcpopt = {}, fw_tcpnopt = {},
     dyn_type = 0, limit_mask = {}, conn_limit = 0\<rparr>"

text \<open>
  The data bases of the system: protocols, services (ports in host order), hosts, users and groups;
  what the floating-point arithmetic makes of the argument of \<open>prob\<close> (\<open>None\<close> for an illegal one,
  \<open>Some None\<close> for 1); the limit of log messages; which requests the kernel accepts; whether the
  input is a terminal, and what is typed there.
\<close>

record netdb =
  protobyname :: "string \<Rightarrow> nat option"
  protobynumber :: "nat \<Rightarrow> string option"
  servbyname :: "string \<Rightarrow> string option \<Rightarrow> nat option"
  hostbyname :: "string \<Rightarrow> 32 word option"
  pwuid :: "nat \<Rightarrow> nat option"
  pwnam :: "string \<Rightarrow> nat option"
  grgid :: "nat \<Rightarrow> nat option"
  grnam :: "string \<Rightarrow> nat option"
  match_prob :: "string \<Rightarrow> int option option"
  verbose_limit :: "int option"
  accepts :: "fw_request \<Rightarrow> bool"
  stdin_tty :: bool
  stdin_text :: string

text \<open>\<open>!strncmp(*av, "key", strlen( *av))\<close>: the argument abbreviates the key word.\<close>

definition kw :: "string \<Rightarrow> string \<Rightarrow> bool" where
  "kw a s = strncmp_eq a s (length a)"

subsection \<open>Addresses\<close>

definition lookup_host :: "netdb \<Rightarrow> string \<Rightarrow> 32 word option" where
  "lookup_host db host = (case inet_aton host of Some a \<Rightarrow> Some a | None \<Rightarrow> hostbyname db host)"

text \<open>\<open>p = strchr(s, c)\<close> with \<open>*p++ = 0\<close>: what is before and behind the character.\<close>

definition cut_at :: "char \<Rightarrow> string \<Rightarrow> (string \<times> string) option" where
  "cut_at c s = (if c \<in> set s then Some (takeWhile (\<lambda>d. d \<noteq> c) s, tl (dropWhile (\<lambda>d. d \<noteq> c) s)) else None)"

text \<open>A shift by more than 31 has no defined result.\<close>

definition width_mask :: "int \<Rightarrow> 32 word outcome" where
  "width_mask n =
     (if n = 0 then Ok 0
      else if n > 32 then Fail (EX_DATAERR ''bad width'')
      else if n < 1 then Undefined
      else Ok (push_bit (nat (32 - n)) (- 1)))"

definition fill_ip :: "netdb \<Rightarrow> string list \<Rightarrow> ((32 word \<times> 32 word) \<times> string list) outcome" where
  "fill_ip db args =
     (case args of
        [] \<Rightarrow> Undefined
      | a # av \<Rightarrow>
          if kw a ''any'' then Ok ((0, 0), av)
          else
            let (host, md, p) = (case cut_at CHR ''/'' a of
                  Some (h, p) \<Rightarrow> (h, Some CHR ''/'', p)
                | None \<Rightarrow> (case cut_at CHR '':'' a of Some (h, p) \<Rightarrow> (h, Some CHR '':'', p) | None \<Rightarrow> (a, None, [])))
            in case lookup_host db host of
                 None \<Rightarrow> Fail (EX_NOHOST host)
               | Some ip \<Rightarrow>
                   bind_o
                     (case md of
                        None \<Rightarrow> Ok (- 1)
                      | Some c \<Rightarrow> if c = CHR '':'' then (case inet_aton p of None \<Rightarrow> Fail (EX_DATAERR p) | Some m \<Rightarrow> Ok m)
                          else width_mask (atoi p))
                     (\<lambda>mask. Ok ((ip AND mask, mask), av)))"

subsection \<open>Ports\<close>

definition IP_FW_MAX_PORTS :: nat where "IP_FW_MAX_PORTS = 10"

text \<open>\<open>ptr[off + *cnt] = port\<close>: the ports read so far are a list of that length.\<close>

definition add_port :: "nat list \<Rightarrow> nat \<Rightarrow> nat list outcome" where
  "add_port pts port =
     (if length pts \<ge> IP_FW_MAX_PORTS then Fail (EX_USAGE ''too many ports'') else Ok (pts @ [port]))"

text \<open>The loop that copies a port in place: backslashes quote, a comma or dash ends it.\<close>

fun port_word :: "bool \<Rightarrow> string \<Rightarrow> string" where
  "port_word nodash [] = []"
| "port_word nodash (c # cs) =
     (if c = CHR 0x5C then (case cs of [] \<Rightarrow> [c] | d # ds \<Rightarrow> d # port_word nodash ds)
      else if c = CHR '','' \<or> nodash \<and> c = CHR ''-'' then []
      else c # port_word nodash cs)"

definition lookup_port :: "netdb \<Rightarrow> string \<Rightarrow> nat \<Rightarrow> bool \<Rightarrow> bool \<Rightarrow> int outcome" where
  "lookup_port db arg proto test nodash =
     (let buf = port_word nodash (snprintf 32 arg);
          (v, earg) = strtoul 0 buf
      in if buf = [] \<or> earg \<noteq> [] then
           (case servbyname db buf (if proto \<noteq> 0 then protobynumber db proto else None) of
              Some p \<Rightarrow> Ok (int p)
            | None \<Rightarrow> if test then Ok (- 1) else Fail (EX_DATAERR buf))
         else if v > 0xffff then (if test then Ok (- 1) else Fail (EX_DATAERR buf))
         else Ok (int v))"

text \<open>The first unquoted comma, dash or colon of a list of ports.\<close>

fun port_scan :: "string \<Rightarrow> string \<times> string" where
  "port_scan [] = ([], [])"
| "port_scan (c # cs) =
     (if c = CHR '','' \<or> c = CHR ''-'' \<or> c = CHR '':'' then ([], c # cs)
      else if c = CHR 0x5C then
        (case cs of
           [] \<Rightarrow> ([c], [])
         | d # ds \<Rightarrow> (case port_scan ds of (a, r) \<Rightarrow> (c # d # a, r)))
      else (case port_scan cs of (a, r) \<Rightarrow> (c # a, r)))"

text \<open>What is between the commas, the way \<open>strchr(arg, ',')\<close> cuts it off piece by piece.\<close>

fun commas :: "string \<Rightarrow> string list" where
  "commas [] = [[]]"
| "commas (c # cs) =
     (if c = CHR '','' then [] # commas cs
      else (case commas cs of [] \<Rightarrow> [[c]] | p # ps \<Rightarrow> (c # p) # ps))"

definition port_or :: "netdb \<Rightarrow> string \<Rightarrow> nat \<Rightarrow> int \<Rightarrow> nat list \<Rightarrow> nat list outcome" where
  "port_or db arg proto default_port pts =
     bind_o (if arg \<noteq> [] then lookup_port db arg proto False False else Ok default_port)
       (\<lambda>port. add_port pts (nat port))"

fun add_ports :: "netdb \<Rightarrow> nat \<Rightarrow> string list \<Rightarrow> nat list \<Rightarrow> nat list outcome" where
  "add_ports db proto [] pts = Ok pts"
| "add_ports db proto (arg # args) pts =
     bind_o (lookup_port db arg proto False False) (\<lambda>port.
     bind_o (add_port pts (nat port)) (\<lambda>pts.
     add_ports db proto args pts))"

text \<open>The result is \<open>initial_range\<close> and the ports, of which \<open>pts\<close> were there before.\<close>

definition fill_port :: "netdb \<Rightarrow> string \<Rightarrow> nat \<Rightarrow> nat list \<Rightarrow> (int \<times> nat list) outcome" where
  "fill_port db arg proto pts =
     (case port_scan arg of
        (a, c # s) \<Rightarrow>
          if c = CHR '':'' \<or> c = CHR ''-'' then
            if CHR '','' \<in> set a then Fail (EX_USAGE ''must be first in list'')
            else
              bind_o (port_or db a proto 0 pts) (\<lambda>pts.
              bind_o (port_or db (hd (commas s)) proto 0xffff pts) (\<lambda>pts.
              bind_o (add_ports db proto (tl (commas s)) pts) (\<lambda>pts.
              Ok (if c = CHR '':'' then 2 else 1, pts))))
          else bind_o (add_ports db proto (commas arg) pts) (\<lambda>pts. Ok (0, pts))
      | (a, []) \<Rightarrow> bind_o (add_ports db proto (commas arg) pts) (\<lambda>pts. Ok (0, pts)))"

subsection \<open>Flags and options\<close>

text \<open>The loops over a comma-separated list end at its end or at an empty last piece.\<close>

fun fill_flags :: "(string \<times> 'f) list \<Rightarrow> string list \<Rightarrow> 'f set \<Rightarrow> 'f set \<Rightarrow> ('f set \<times> 'f set) outcome" where
  "fill_flags tbl [] on off = Ok (on, off)"
| "fill_flags tbl (p # ps) on off =
     (if p = [] \<and> ps = [] then Ok (on, off)
      else
        let neg = (take 1 p = ''!''); p = (if neg then tl p else p)
        in case List.find (\<lambda>(n, v). kw p n) tbl of
             None \<Rightarrow> Fail (EX_DATAERR p)
           | Some (n, v) \<Rightarrow>
               if neg then fill_flags tbl ps on (insert v off) else fill_flags tbl ps (insert v on) off)"

definition tcp_flags :: "(string \<times> tcp_flag) list" where
  "tcp_flags = [(''syn'', TCPF_SYN), (''fin'', TCPF_FIN), (''ack'', TCPF_ACK), (''psh'', TCPF_PSH),
     (''rst'', TCPF_RST), (''urg'', TCPF_URG)]"

definition fill_tcpflag :: "tcp_flag set \<Rightarrow> tcp_flag set \<Rightarrow> string \<Rightarrow> (tcp_flag set \<times> tcp_flag set) outcome" where
  "fill_tcpflag on off p = fill_flags tcp_flags (commas p) on off"

definition tcp_opts :: "(string \<times> tcp_opt) list" where
  "tcp_opts = [(''mss'', TCPOPT_MSS), (''window'', TCPOPT_WINDOW), (''sack'', TCPOPT_SACK), (''ts'', TCPOPT_TS),
     (''cc'', TCPOPT_CC)]"

definition fill_tcpopts :: "tcp_opt set \<Rightarrow> tcp_opt set \<Rightarrow> string \<Rightarrow> (tcp_opt set \<times> tcp_opt set) outcome" where
  "fill_tcpopts on off p = fill_flags tcp_opts (commas p) on off"

definition ip_opts :: "(string \<times> ip_opt) list" where
  "ip_opts = [(''ssrr'', IPOPT_SSRR), (''lsrr'', IPOPT_LSRR), (''rr'', IPOPT_RR), (''ts'', IPOPT_TS)]"

text \<open>\<open>fill_ipopt\<close> sets every option that the piece abbreviates, and none for an unknown one.\<close>

fun fill_ipopt :: "string list \<Rightarrow> ip_opt set \<Rightarrow> ip_opt set \<Rightarrow> ip_opt set \<times> ip_opt set" where
  "fill_ipopt [] on off = (on, off)"
| "fill_ipopt (p # ps) on off =
     (if p = [] \<and> ps = [] then (on, off)
      else
        let neg = (take 1 p = ''!''); p = (if neg then tl p else p);
            vs = set (map snd (filter (\<lambda>(n, v). kw p n) ip_opts))
        in if neg then fill_ipopt ps on (off \<union> vs) else fill_ipopt ps (on \<union> vs) off)"

definition ICMPTYPES :: nat where "ICMPTYPES = 128"

lemma read_digits_shorter: "length (snd (read_digits b v s)) \<le> length s"
  by (induction b v s rule: read_digits.induct) auto

lemma strtoul_progress: "snd (strtoul b s) = s \<or> length (snd (strtoul b s)) < length s"
proof -
  define t where "t = dropWhile isspace s"
  define t1 where "t1 = (if take 1 t = ''-'' \<or> take 1 t = ''+'' then tl t else t)"
  define hex where "hex \<longleftrightarrow> b = 0 \<and> (take 2 t1 = ''0x'' \<or> take 2 t1 = ''0X'')"
  define t2 where "t2 = (if hex then drop 2 t1 else t1)"
  define c where "c = (if hex then 16 else if b = 0 then (if take 1 t1 = ''0'' then 8 else 10) else b)"
  have "length t2 \<le> length s"
    using length_dropWhile_le [of isspace s] by (auto simp: t_def t1_def t2_def)
  moreover have "length (snd (read_digits c 0 t2)) \<le> length t2"
    by (rule read_digits_shorter)
  moreover have "snd (strtoul b s) =
      (if length (snd (read_digits c 0 t2)) = length t2 then s else snd (read_digits c 0 t2))"
    unfolding strtoul_def Let_def t_def [symmetric] t1_def [symmetric] hex_def [symmetric] t2_def [symmetric]
      c_def [symmetric]
    by (simp split: prod.split)
  ultimately show ?thesis by auto
qed

function fill_icmptypes :: "string \<Rightarrow> nat set \<Rightarrow> bool \<Rightarrow> (nat set \<times> bool) outcome" where
  "fill_icmptypes c types seen =
     (if c = [] then Ok (types, seen)
      else
        let c1 = (if hd c = CHR '','' then tl c else c) in
        case strtoul 0 c1 of
          (icmptype, rest) \<Rightarrow>
            if rest \<noteq> [] \<and> hd rest \<noteq> CHR '','' then Fail (EX_DATAERR ''invalid ICMP type'')
            else if icmptype \<ge> ICMPTYPES then Fail (EX_DATAERR ''ICMP type out of range'')
            else fill_icmptypes rest (insert icmptype types) True)"
  by pat_completeness auto
termination
proof (relation "measure (\<lambda>(c, types, seen). length c)", goal_cases)
  case (2 c types seen c1 icmptype rest)
  then have "snd (strtoul 0 c1) = rest" by (metis snd_conv)
  then have r: "rest = c1 \<or> length rest < length c1"
    using strtoul_progress [of 0 c1] by auto
  have h: "rest = [] \<or> hd rest = CHR '','' " using 2 by auto
  have "length c1 < length c \<or> c1 = c \<and> hd c \<noteq> CHR '','' \<and> c \<noteq> []"
    using 2 by auto
  with r h have "length rest < length c" by auto
  then show ?case by simp
qed simp

subsection \<open>Interfaces\<close>

text \<open>The unit of an interface is a \<open>short\<close>.\<close>

definition to_short :: "int \<Rightarrow> int" where
  "to_short i = (i + 2 ^ 15) mod 2 ^ 16 - 2 ^ 15"

text \<open>
  The name of an interface, at most 9 characters, up to its unit; \<open>*\<close> stands for any unit.
  \<open>verify_interface\<close> only warns.
\<close>

definition fill_iface :: "string list \<Rightarrow> ((fw_if \<times> bool) \<times> string list) outcome" where
  "fill_iface args =
     (case args of
        [] \<Rightarrow> Fail (EX_USAGE ''missing argument'')
      | arg # av \<Rightarrow>
          if arg = ''any'' then Ok ((Via_ip 0, False), av)
          else if arg = [] \<or> \<not> isdigit (hd arg) then
            let name = take 9 arg;
                stop = (\<lambda>c. isdigit c \<or> c = CHR ''*'');
                q = dropWhile (\<lambda>c. \<not> stop c) name
            in Ok ((Via_if (takeWhile (\<lambda>c. \<not> stop c) name) (if take 1 q = ''*'' then - 1 else to_short (atoi q)), True), av)
          else (case inet_aton arg of
                  None \<Rightarrow> Fail (EX_DATAERR arg)
                | Some ip \<Rightarrow> Ok ((Via_ip ip, False), av)))"

subsection \<open>The head of a rule\<close>

definition starts_digit :: "string \<Rightarrow> bool" where
  "starts_digit a \<longleftrightarrow> a \<noteq> [] \<and> isdigit (hd a)"

definition u_short :: "int \<Rightarrow> nat" where
  "u_short i = nat (i mod 65536)"

definition add_number :: "ip_fw \<times> string list \<Rightarrow> ip_fw \<times> string list" where
  "add_number = (\<lambda>(r, args). case args of
     [] \<Rightarrow> (r, args)
   | a # av \<Rightarrow> if starts_digit a then (r\<lparr>fw_number := u_short (atoi a)\<rparr>, av) else (r, args))"

definition add_prob :: "netdb \<Rightarrow> ip_fw \<times> string list \<Rightarrow> (ip_fw \<times> string list) outcome" where
  "add_prob db = (\<lambda>(r, args). case args of
     a # p # av \<Rightarrow>
       if kw a ''prob'' then
         (case match_prob db p of
            None \<Rightarrow> Fail (EX_DATAERR p)
          | Some None \<Rightarrow> Ok (r, av)
          | Some (Some q) \<Rightarrow> Ok (r\<lparr>fw_flg := insert F_RND_MATCH (fw_flg r), dont_match_prob := q\<rparr>, av))
       else Ok (r, args)
   | _ \<Rightarrow> Ok (r, args))"

definition ICMP_UNREACH_HOST :: nat where "ICMP_UNREACH_HOST = 1"
definition IP_FW_REJECT_RST :: nat where "IP_FW_REJECT_RST = 0x100"

definition icmpcodes :: "(string \<times> nat) list" where
  "icmpcodes = [(''net'', 0), (''host'', 1), (''protocol'', 2), (''port'', 3), (''needfrag'', 4), (''srcfail'', 5),
     (''net-unknown'', 6), (''host-unknown'', 7), (''isolated'', 8), (''net-prohib'', 9), (''host-prohib'', 10),
     (''tosnet'', 11), (''toshost'', 12), (''filter-prohib'', 13), (''host-precedence'', 14),
     (''precedence-cutoff'', 15)]"

definition lower :: "char \<Rightarrow> char" where
  "lower c = (let n = of_char c :: nat in if 65 \<le> n \<and> n \<le> 90 then char_of (n + 32) else c)"

definition fill_reject_code :: "string \<Rightarrow> nat outcome" where
  "fill_reject_code str =
     (case strtoul 0 str of
        (val, s) \<Rightarrow>
          if s \<noteq> str \<and> s = [] \<and> val < 0x100 then Ok val
          else (case List.find (\<lambda>(n, c). map lower n = map lower str) icmpcodes of
                  Some (n, c) \<Rightarrow> Ok c
                | None \<Rightarrow> Fail (EX_DATAERR str)))"

text \<open>The port of \<open>divert\<close> and \<open>tee\<close>: a number, or the name of a service.\<close>

definition divert_port :: "netdb \<Rightarrow> string list \<Rightarrow> (nat \<times> string list) outcome" where
  "divert_port db args =
     (case args of
        [] \<Rightarrow> Fail (EX_USAGE ''missing port'')
      | p # av \<Rightarrow>
          let v = u_short (int (fst (strtoul 0 p))) in
          if v = 0 then (case servbyname db p (Some ''divert'') of
                           Some q \<Rightarrow> Ok (q, av) | None \<Rightarrow> Fail (EX_DATAERR ''illegal port''))
          else Ok (v, av))"

definition number_arg :: "nat \<Rightarrow> string list \<Rightarrow> (nat \<times> string list) outcome" where
  "number_arg base args =
     (case args of
        [] \<Rightarrow> Fail (EX_USAGE ''missing number'')
      | p # av \<Rightarrow> Ok (u_short (int (fst (strtoul base p))), av))"

definition forward_to :: "netdb \<Rightarrow> ip_fw \<Rightarrow> string list \<Rightarrow> (ip_fw \<times> string list) outcome" where
  "forward_to db r args =
     (case args of
        [] \<Rightarrow> Fail (EX_USAGE ''missing forwarding IP address'')
      | a # av \<Rightarrow>
          let cut = (case cut_at CHR '':'' a of None \<Rightarrow> cut_at CHR '','' a | Some x \<Rightarrow> Some x) in
          bind_o
            (case cut of
               None \<Rightarrow> Ok (a, 0)
             | Some (host, pp) \<Rightarrow> bind_o (lookup_port db pp 0 True False)
                 (\<lambda>i. if i = - 1 then Fail (EX_DATAERR pp) else Ok (host, u_short i)))
            (\<lambda>(host, port).
          bind_o (fill_ip db (host # av)) (\<lambda>((ip, _), av).
          if ip = 0 then Fail (EX_DATAERR ''illegal forwarding IP address'')
          else Ok (r\<lparr>fw_fwd_port := port, fw_fwd_ip := ip\<rparr>, av))))"

text \<open>The action; the last component says that \<open>check-state\<close> ends the rule.\<close>

definition add_action :: "netdb \<Rightarrow> ip_fw \<times> string list \<Rightarrow> (ip_fw \<times> string list \<times> bool) outcome" where
  "add_action db = (\<lambda>(r, args). case args of
     [] \<Rightarrow> Fail (EX_USAGE ''missing action'')
   | a # av \<Rightarrow>
       if kw a ''accept'' \<or> kw a ''pass'' \<or> kw a ''allow'' \<or> kw a ''permit''
       then Ok (r\<lparr>fw_command := F_ACCEPT\<rparr>, av, False)
       else if kw a ''count'' then Ok (r\<lparr>fw_command := F_COUNT\<rparr>, av, False)
       else if kw a ''pipe'' then
         bind_o (number_arg 0 av) (\<lambda>(n, av). Ok (r\<lparr>fw_command := F_PIPE, fw_un := n\<rparr>, av, False))
       else if kw a ''queue'' then
         bind_o (number_arg 0 av) (\<lambda>(n, av). Ok (r\<lparr>fw_command := F_QUEUE, fw_un := n\<rparr>, av, False))
       else if kw a ''divert'' then
         bind_o (divert_port db av) (\<lambda>(n, av). Ok (r\<lparr>fw_command := F_DIVERT, fw_un := n\<rparr>, av, False))
       else if kw a ''tee'' then
         bind_o (divert_port db av) (\<lambda>(n, av). Ok (r\<lparr>fw_command := F_TEE, fw_un := n\<rparr>, av, False))
       else if kw a ''fwd'' \<or> kw a ''forward'' then
         bind_o (forward_to db (r\<lparr>fw_command := F_FWD\<rparr>) av) (\<lambda>(r, av). Ok (r, av, False))
       else if kw a ''skipto'' then
         bind_o (number_arg 10 av) (\<lambda>(n, av). Ok (r\<lparr>fw_command := F_SKIPTO, fw_un := n\<rparr>, av, False))
       else if kw a ''deny'' \<or> kw a ''drop'' then Ok (r\<lparr>fw_command := F_DENY\<rparr>, av, False)
       else if kw a ''reject'' then
         Ok (r\<lparr>fw_command := F_REJECT, fw_un := ICMP_UNREACH_HOST\<rparr>, av, False)
       else if kw a ''reset'' then
         Ok (r\<lparr>fw_command := F_REJECT, fw_un := IP_FW_REJECT_RST\<rparr>, av, False)
       else if kw a ''unreach'' then
         (case av of
            [] \<Rightarrow> Undefined
          | c # av \<Rightarrow> bind_o (fill_reject_code c)
              (\<lambda>n. Ok (r\<lparr>fw_command := F_REJECT, fw_un := n\<rparr>, av, False)))
       else if kw a ''check-state'' then Ok (r\<lparr>fw_command := F_CHECK_S\<rparr>, av, True)
       else Fail (EX_DATAERR a))"

definition add_logamount :: "ip_fw \<times> string list \<Rightarrow> (ip_fw \<times> string list) outcome" where
  "add_logamount = (\<lambda>(r, args). case args of
     [] \<Rightarrow> Ok (r, args)
   | a # av \<Rightarrow>
       if kw a ''logamount'' then
         (if F_PRN \<notin> fw_flg r then Fail (EX_USAGE ''not valid without log'')
          else (case av of
            [] \<Rightarrow> Fail (EX_USAGE ''requires argument'')
          | n # av \<Rightarrow>
              if atoi n < 0 then Fail (EX_DATAERR ''must be positive'')
              else Ok (r\<lparr>fw_logamount := (if atoi n = 0 then - 1 else atoi n)\<rparr>, av)))
       else Ok (r, args))"

definition add_log :: "ip_fw \<times> string list \<Rightarrow> (ip_fw \<times> string list) outcome" where
  "add_log = (\<lambda>(r, args). add_logamount
     (case args of
        [] \<Rightarrow> (r, args)
      | a # av \<Rightarrow> if kw a ''log'' then (r\<lparr>fw_flg := insert F_PRN (fw_flg r)\<rparr>, av) else (r, args)))"

definition IPPROTO_IP :: nat where "IPPROTO_IP = 0"
definition IPPROTO_ICMP :: nat where "IPPROTO_ICMP = 1"
definition IPPROTO_TCP :: nat where "IPPROTO_TCP = 6"
definition IPPROTO_UDP :: nat where "IPPROTO_UDP = 17"

text \<open>The protocol is an \<open>unsigned char\<close>.\<close>

definition add_proto :: "netdb \<Rightarrow> ip_fw \<times> string list \<Rightarrow> (ip_fw \<times> string list) outcome" where
  "add_proto db = (\<lambda>(r, args). case args of
     [] \<Rightarrow> Fail (EX_USAGE ''missing protocol'')
   | a # av \<Rightarrow>
       bind_o
         (let proto = nat (atoi a mod 256) in
          if proto > 0 then Ok proto
          else if kw a ''all'' then Ok IPPROTO_IP
          else (case protobyname db a of Some p \<Rightarrow> Ok (p mod 256) | None \<Rightarrow> Fail (EX_DATAERR a)))
         (\<lambda>p.
       if p \<noteq> IPPROTO_TCP \<and> fw_command r = F_REJECT \<and> fw_un r = IP_FW_REJECT_RST
       then Fail (EX_DATAERR ''reset is only valid for tcp packets'')
       else Ok (r\<lparr>fw_prot := p\<rparr>, av)))"

end
