(* ===== verification/IpfwMain.thy ===== *)
theory IpfwMain
  imports Ipfw
begin

text \<open>
  \<open>sbin/ipfw/ipfw.c\<close>: the rest of \<open>add\<close> (the two ends of a rule, its options and the checks at the
  end), \<open>delete\<close>, \<open>zero\<close>, \<open>resetlog\<close>, and \<open>ipfw_main\<close>, which reads the options and the command.
\<close>

subsection \<open>The two ends of a rule\<close>

text \<open>Ports follow an address when the next argument starts with a digit or names a service.\<close>

definition ports_follow :: "netdb \<Rightarrow> nat \<Rightarrow> string list \<Rightarrow> bool" where
  "ports_follow db proto args =
     (case args of
        [] \<Rightarrow> False
      | a # av \<Rightarrow> starts_digit a \<or>
          (case lookup_port db a proto True True of Ok i \<Rightarrow> i \<ge> 0 | _ \<Rightarrow> False))"

text \<open>The word \<open>from\<close> or \<open>to\<close>, and an optional \<open>not\<close>.\<close>

definition end_word :: "string \<Rightarrow> fw_flag \<Rightarrow> ip_fw \<times> string list \<Rightarrow> (ip_fw \<times> string list) outcome" where
  "end_word word nflag = (\<lambda>(r, args). case args of
     [] \<Rightarrow> Fail (EX_USAGE word)
   | f # args \<Rightarrow>
       if \<not> kw f word then Fail (EX_USAGE word)
       else Ok (case args of
                  [] \<Rightarrow> (r, args)
                | a # av \<Rightarrow> if kw a ''not'' then (r\<lparr>fw_flg := insert nflag (fw_flg r)\<rparr>, av) else (r, args)))"

definition add_src :: "netdb \<Rightarrow> ip_fw \<times> string list \<Rightarrow> (ip_fw \<times> string list) outcome" where
  "add_src db = (\<lambda>(r, args). case args of
     [] \<Rightarrow> Fail (EX_USAGE ''missing arguments'')
   | a # av \<Rightarrow>
       if kw a ''me'' then Ok (r\<lparr>fw_flg := insert F_SME (fw_flg r)\<rparr>, av)
       else bind_o (fill_ip db args) (\<lambda>((ip, mask), av). Ok (r\<lparr>fw_src := ip, fw_smsk := mask\<rparr>, av)))"

definition add_src_ports :: "netdb \<Rightarrow> ip_fw \<times> string list \<Rightarrow> (ip_fw \<times> string list) outcome" where
  "add_src_ports db = (\<lambda>(r, args).
     if ports_follow db (fw_prot r) args then
       bind_o (fill_port db (hd args) (fw_prot r) []) (\<lambda>(range, pts).
       Ok (r\<lparr>fw_pts := pts, fw_nsrcp := length pts,
             fw_flg := (if range = 1 then insert F_SRNG (fw_flg r)
                        else if range = 2 then insert F_SMSK (fw_flg r) else fw_flg r)\<rparr>, tl args))
     else Ok (r, args))"

definition add_from :: "netdb \<Rightarrow> ip_fw \<times> string list \<Rightarrow> (ip_fw \<times> string list) outcome" where
  "add_from db x = bind_o (end_word ''from'' F_INVSRC x) (\<lambda>x. bind_o (add_src db x) (add_src_ports db))"

definition add_dst :: "netdb \<Rightarrow> ip_fw \<times> string list \<Rightarrow> (ip_fw \<times> string list) outcome" where
  "add_dst db = (\<lambda>(r, args). case args of
     [] \<Rightarrow> Fail (EX_USAGE ''missing arguments'')
   | a # av \<Rightarrow>
       if kw a ''me'' then Ok (r\<lparr>fw_flg := insert F_DME (fw_flg r)\<rparr>, av)
       else bind_o (fill_ip db args) (\<lambda>((ip, mask), av). Ok (r\<lparr>fw_dst := ip, fw_dmsk := mask\<rparr>, av)))"

definition add_dst_ports :: "netdb \<Rightarrow> ip_fw \<times> string list \<Rightarrow> (ip_fw \<times> string list) outcome" where
  "add_dst_ports db = (\<lambda>(r, args).
     if ports_follow db (fw_prot r) args then
       bind_o (fill_port db (hd args) (fw_prot r) (fw_pts r)) (\<lambda>(range, pts).
       Ok (r\<lparr>fw_pts := pts, fw_ndstp := length pts - fw_nsrcp r,
             fw_flg := (if range = 1 then insert F_DRNG (fw_flg r)
                        else if range = 2 then insert F_DMSK (fw_flg r) else fw_flg r)\<rparr>, tl args))
     else Ok (r, args))"

definition add_to :: "netdb \<Rightarrow> ip_fw \<times> string list \<Rightarrow> (ip_fw \<times> string list) outcome" where
  "add_to db x = bind_o (end_word ''to'' F_INVDST x) (\<lambda>x. bind_o (add_dst db x) (add_dst_ports db))"

definition ports_allowed :: "ip_fw \<Rightarrow> ip_fw outcome" where
  "ports_allowed r =
     (if fw_prot r \<noteq> IPPROTO_TCP \<and> fw_prot r \<noteq> IPPROTO_UDP \<and> (fw_nsrcp r \<noteq> 0 \<or> fw_ndstp r \<noteq> 0)
      then Fail (EX_USAGE ''only TCP and UDP protocols are valid with port specifications'') else Ok r)"

subsection \<open>The options\<close>

text \<open>The two numbers of a user or group, by its number or its name.\<close>

definition owner_id :: "(nat \<Rightarrow> nat option) \<Rightarrow> (string \<Rightarrow> nat option) \<Rightarrow> string \<Rightarrow> nat outcome" where
  "owner_id by_id by_name a =
     (case (if snd (strtoul 0 a) = [] then by_id (fst (strtoul 0 a)) else by_name a) of
        Some u \<Rightarrow> Ok u | None \<Rightarrow> Fail (EX_DATAERR a))"

definition limit_masks :: "(string \<times> dyn_mask) list" where
  "limit_masks = [(''src-addr'', DYN_SRC_ADDR), (''src-port'', DYN_SRC_PORT), (''dst-addr'', DYN_DST_ADDR),
     (''dst-port'', DYN_DST_PORT)]"

fun take_masks :: "string list \<Rightarrow> dyn_mask set \<Rightarrow> dyn_mask set \<times> string list" where
  "take_masks (a # b # av) m =
     (case List.find (\<lambda>(n, x). kw a n) limit_masks of
        Some (n, x) \<Rightarrow> take_masks (b # av) (insert x m)
      | None \<Rightarrow> (m, a # b # av))"
| "take_masks args m = (m, args)"

definition DYN_LIMIT :: nat where "DYN_LIMIT = 1"

definition add_limit :: "ip_fw \<Rightarrow> string list \<Rightarrow> (ip_fw \<times> string list) outcome" where
  "add_limit r args =
     (case take_masks args {} of
        (m, []) \<Rightarrow> Fail (EX_USAGE ''limit needs mask and # of connections'')
      | (m, n # av) \<Rightarrow>
          if u_short (atoi n) = 0 then Fail (EX_USAGE ''limit: limit must be >0'')
          else if m = {} then Fail (EX_USAGE ''missing limit mask'')
          else Ok (r\<lparr>fw_flg := insert F_KEEP_S (fw_flg r), dyn_type := DYN_LIMIT, limit_mask := m,
                     conn_limit := u_short (atoi n)\<rparr>, av))"

text \<open>The argument that must follow a key word.\<close>

definition with_arg :: "string \<Rightarrow> string list \<Rightarrow> (string \<Rightarrow> string list \<Rightarrow> 'a outcome) \<Rightarrow> 'a outcome" where
  "with_arg what args f = (case args of [] \<Rightarrow> Fail (EX_USAGE what) | a # av \<Rightarrow> f a av)"

text \<open>The options for TCP, and for ICMP.\<close>

definition add_tcp_option :: "ip_fw \<Rightarrow> string \<Rightarrow> string list \<Rightarrow> (ip_fw \<times> string list) outcome" where
  "add_tcp_option r a av =
     (if kw a ''established'' then Ok (r\<lparr>fw_tcpest := True\<rparr>, av)
      else if kw a ''setup'' then
        Ok (r\<lparr>fw_tcpf := insert TCPF_SYN (fw_tcpf r), fw_tcpnf := insert TCPF_ACK (fw_tcpnf r)\<rparr>, av)
      else if kw a ''tcpflags'' \<or> kw a ''tcpflgs'' then
        with_arg ''missing argument for tcpflags'' av (\<lambda>p av.
        bind_o (fill_tcpflag (fw_tcpf r) (fw_tcpnf r) p) (\<lambda>(on, off).
        Ok (r\<lparr>fw_tcpf := on, fw_tcpnf := off\<rparr>, av)))
      else if kw a ''tcpoptions'' \<or> kw a ''tcpopts'' then
        with_arg ''missing argument for tcpoptions'' av (\<lambda>p av.
        bind_o (fill_tcpopts (fw_tcpopt r) (fw_tcpnopt r) p) (\<lambda>(on, off).
        Ok (r\<lparr>fw_tcpopt := on, fw_tcpnopt := off\<rparr>, av)))
      else Fail (EX_USAGE a))"

definition add_icmp_option :: "ip_fw \<Rightarrow> string \<Rightarrow> string list \<Rightarrow> (ip_fw \<times> string list) outcome" where
  "add_icmp_option r a av =
     (if kw a ''icmptypes'' then
        with_arg ''missing argument for icmptypes'' av (\<lambda>p av.
        bind_o (fill_icmptypes p (fw_icmptypes r) False) (\<lambda>(types, seen).
        Ok (r\<lparr>fw_icmptypes := types, fw_flg := (if seen then insert F_ICMPBIT (fw_flg r) else fw_flg r)\<rparr>, av)))
      else Fail (EX_USAGE a))"

text \<open>The state of the loop: the rule, \<open>saw_xmrc\<close> and \<open>saw_via\<close>.\<close>

type_synonym option_state = "ip_fw \<times> bool \<times> bool"

definition by_name :: "bool \<Rightarrow> fw_flag set \<Rightarrow> fw_flag set" where
  "by_name byname fs = (if byname then fs else {})"

text \<open>One round of the \<open>while (ac)\<close> loop.\<close>

definition add_option :: "netdb \<Rightarrow> option_state \<Rightarrow> string \<Rightarrow> string list \<Rightarrow> (option_state \<times> string list) outcome" where
  "add_option db = (\<lambda>(r, xmrc, via) a av.
     let flag = (\<lambda>f. r\<lparr>fw_flg := insert f (fw_flg r)\<rparr>);
         stay = (\<lambda>(r, av). Ok ((r, xmrc, via), av))
     in
     if kw a ''uid'' then
       with_arg ''uid requires argument'' av (\<lambda>u av.
       bind_o (owner_id (pwuid db) (pwnam db) u) (\<lambda>n. stay ((flag F_UID)\<lparr>fw_uid := n\<rparr>, av)))
     else if kw a ''gid'' then
       with_arg ''gid requires argument'' av (\<lambda>g av.
       bind_o (owner_id (grgid db) (grnam db) g) (\<lambda>n. stay ((flag F_GID)\<lparr>fw_gid := n\<rparr>, av)))
     else if kw a ''in'' then stay (flag F_IN, av)
     else if kw a ''limit'' then bind_o (add_limit r av) stay
     else if kw a ''keep-state'' then
       stay (case av of
               [] \<Rightarrow> (flag F_KEEP_S, av)
             | t # ts \<Rightarrow> if atoi t \<noteq> 0 then ((flag F_KEEP_S)\<lparr>dyn_type := nat (atoi t mod 256)\<rparr>, ts)
                        else (flag F_KEEP_S, av))
     else if kw a ''bridged'' then stay (flag F_BRIDGED, av)
     else if kw a ''out'' then stay (flag F_OUT, av)
     else if kw a ''xmit'' then
       (if via then Fail (EX_USAGE ''via is incompatible with xmit and recv'')
        else bind_o (fill_iface av) (\<lambda>((ifu, byname), av).
          Ok ((r\<lparr>fw_out_if := ifu, fw_flg := fw_flg r \<union> {F_OIFACE} \<union> by_name byname {F_OIFNAME}\<rparr>, True, via), av)))
     else if kw a ''recv'' then
       (if via then Fail (EX_USAGE ''via is incompatible with xmit and recv'')
        else bind_o (fill_iface av) (\<lambda>((ifu, byname), av).
          Ok ((r\<lparr>fw_in_if := ifu, fw_flg := fw_flg r \<union> {F_IIFACE} \<union> by_name byname {F_IIFNAME}\<rparr>, True, via), av)))
     else if kw a ''via'' then
       (if xmrc then Fail (EX_USAGE ''via is incompatible with xmit and recv'')
        else bind_o (fill_iface av) (\<lambda>((ifu, byname), av).
          Ok ((r\<lparr>fw_out_if := ifu, fw_in_if := ifu,
                 fw_flg := fw_flg r \<union> by_name byname {F_IIFNAME, F_OIFNAME}\<rparr>, xmrc, True), av)))
     else if kw a ''fragment'' then stay (flag F_FRAG, av)
     else if kw a ''ipoptions'' then
       with_arg ''missing argument for ipoptions'' av (\<lambda>p av.
       stay (case fill_ipopt (commas p) (fw_ipopt r) (fw_ipnopt r) of (on, off) \<Rightarrow>
         (r\<lparr>fw_ipopt := on, fw_ipnopt := off\<rparr>, av)))
     else if fw_prot r = IPPROTO_TCP then bind_o (add_tcp_option r a av) stay
     else if fw_prot r = IPPROTO_ICMP then bind_o (add_icmp_option r a av) stay
     else Fail (EX_USAGE a))"

text \<open>Every option takes at least its own word, so that the loop ends.\<close>

lemma bind_o_rest:
  assumes "bind_o m f = Ok (x, av)" and "\<And>y. m = Ok y \<Longrightarrow> f y = Ok (x, av) \<Longrightarrow> P"
  shows P
  using assms by (cases m) auto

lemma fill_iface_shorter: "fill_iface args = Ok (x, av) \<Longrightarrow> length av < length args"
  by (auto simp: fill_iface_def Let_def split: list.splits if_splits option.splits)

lemma take_masks_shorter: "length (snd (take_masks args m)) \<le> length args"
  by (induction args m rule: take_masks.induct) (auto split: option.split intro: le_SucI)

lemma add_limit_shorter: "add_limit r args = Ok (r', av) \<Longrightarrow> length av < length args"
  using take_masks_shorter [of args "{}"]
  by (auto simp: add_limit_def split: prod.splits list.splits if_splits)

lemma with_arg_shorter:
  "with_arg what args f = Ok y \<Longrightarrow> (\<And>a av. args = a # av \<Longrightarrow> f a av = Ok y \<Longrightarrow> P) \<Longrightarrow> P"
  by (cases args) (auto simp: with_arg_def)

lemma add_tcp_option_shorter: "add_tcp_option r a args = Ok (r', av) \<Longrightarrow> length av \<le> length args"
  by (auto simp: add_tcp_option_def bind_o_eq_Ok split: if_splits elim!: with_arg_shorter)

lemma add_icmp_option_shorter: "add_icmp_option r a args = Ok (r', av) \<Longrightarrow> length av \<le> length args"
  by (auto simp: add_icmp_option_def bind_o_eq_Ok simp del: fill_icmptypes.simps split: if_splits elim!: with_arg_shorter)

lemma add_option_shorter: "add_option db st a args = Ok (st', av) \<Longrightarrow> length av \<le> length args"
  by (cases st)
    (auto simp: add_option_def Let_def bind_o_eq_Ok split: if_splits list.splits prod.splits
      elim!: with_arg_shorter dest: fill_iface_shorter add_limit_shorter add_tcp_option_shorter
        add_icmp_option_shorter)

function add_options :: "netdb \<Rightarrow> option_state \<Rightarrow> string list \<Rightarrow> option_state outcome" where
  "add_options db st [] = Ok st"
| "add_options db st (a # args) = bind_o (add_option db st a args) (\<lambda>(st, av). add_options db st av)"
  by pat_completeness auto
termination
  by (relation "measure (\<lambda>(db, st, args). length args)")
    (auto dest: add_option_shorter simp: less_Suc_eq_le)

subsection \<open>The checks at the end\<close>

definition add_direction :: "ip_fw \<Rightarrow> ip_fw" where
  "add_direction r =
     (if F_OUT \<notin> fw_flg r \<and> F_IN \<notin> fw_flg r then r\<lparr>fw_flg := fw_flg r \<union> {F_OUT, F_IN}\<rparr> else r)"

definition add_via :: "bool \<Rightarrow> ip_fw \<Rightarrow> ip_fw outcome" where
  "add_via via r =
     (if via then
        Ok (r\<lparr>fw_flg := fw_flg r \<union> (if F_IN \<in> fw_flg r then {F_IIFACE} else {})
              \<union> (if F_OUT \<in> fw_flg r then {F_OIFACE} else {})\<rparr>)
      else if F_OIFACE \<in> fw_flg r \<and> F_IN \<in> fw_flg r
      then Fail (EX_DATAERR ''can't check xmit interface of incoming packets'') else Ok r)"

definition add_frag :: "ip_fw \<Rightarrow> ip_fw outcome" where
  "add_frag r =
     (if F_FRAG \<in> fw_flg r then
        if fw_tcpf r \<noteq> {} \<or> fw_tcpnf r \<noteq> {} then Fail (EX_DATAERR ''can't mix 'frag' and tcpflags'')
        else if fw_nsrcp r \<noteq> 0 \<or> fw_ndstp r \<noteq> 0
        then Fail (EX_DATAERR ''can't mix 'frag' and port specifications'') else Ok r
      else Ok r)"

definition add_loglimit :: "netdb \<Rightarrow> ip_fw \<Rightarrow> ip_fw outcome" where
  "add_loglimit db r =
     (if F_PRN \<in> fw_flg r then
        bind_o
          (if fw_logamount r = 0 then (case verbose_limit db of Some n \<Rightarrow> Ok n | None \<Rightarrow> Fail (EXIT_1 ''sysctlbyname''))
           else Ok (if fw_logamount r = - 1 then 0 else fw_logamount r))
          (\<lambda>n. Ok (r\<lparr>fw_logamount := n, fw_loghighest := n\<rparr>))
      else Ok r)"

definition add_finish :: "netdb \<Rightarrow> ip_fw \<times> bool \<times> bool \<Rightarrow> ip_fw outcome" where
  "add_finish db = (\<lambda>(r, xmrc, via).
     bind_o (add_via via (add_direction r)) (\<lambda>r. bind_o (add_frag r) (add_loglimit db)))"

text \<open>What stands behind the action.\<close>

definition add_body :: "netdb \<Rightarrow> ip_fw \<times> string list \<Rightarrow> ip_fw outcome" where
  "add_body db x =
     bind_o (add_log x) (\<lambda>x.
     bind_o (add_proto db x) (\<lambda>x.
     bind_o (add_from db x) (\<lambda>x.
     bind_o (add_to db x) (\<lambda>(r, av).
     bind_o (ports_allowed r) (\<lambda>r.
     bind_o (add_options db (r, False, False) av) (add_finish db))))))"

text \<open>The rule of the arguments behind \<open>add\<close>.\<close>

definition add_rule :: "netdb \<Rightarrow> string list \<Rightarrow> ip_fw outcome" where
  "add_rule db args =
     bind_o (add_prob db (add_number (zero_fw, args))) (\<lambda>x.
     bind_o (add_action db x) (\<lambda>(r, av, finished).
     if finished then Ok r else add_body db (r, av)))"

subsection \<open>The commands\<close>

text \<open>The requests made, and how the program ends when it does not return.\<close>

type_synonym fw_result = "fw_request list \<times> exit_error option"

definition add :: "netdb \<Rightarrow> string list \<Rightarrow> fw_result outcome" where
  "add db args =
     (case add_rule db args of
        Ok r \<Rightarrow> Ok ([FW_ADD r], if accepts db (FW_ADD r) then None else Some (EX_UNAVAILABLE ''IP_FW_ADD''))
      | Fail e \<Rightarrow> Ok ([], Some e)
      | Undefined \<Rightarrow> Undefined)"

text \<open>\<open>delete\<close>: the leading rule numbers; \<open>failed\<close> is \<open>exitval\<close>.\<close>

fun delete_numbers :: "netdb \<Rightarrow> nat \<Rightarrow> string list \<Rightarrow> exit_error option \<Rightarrow> fw_result" where
  "delete_numbers db pipe [] failed = ([], failed)"
| "delete_numbers db pipe (a # av) failed =
     (if starts_digit a then
        let q = (if pipe \<noteq> 0 then DUMMYNET_DEL pipe (u_short (atoi a)) else FW_DEL (u_short (atoi a)));
            failed = (if accepts db q then failed
                      else if pipe \<noteq> 0 then Some (EXIT_1 ''IP_DUMMYNET_DEL'') else Some (EX_UNAVAILABLE ''IP_FW_DEL''))
        in case delete_numbers db pipe av failed of (qs, e) \<Rightarrow> (q # qs, e)
      else ([], failed))"

text \<open>The loop of \<open>zero\<close> and of \<open>resetlog\<close>: each leaves with its own error at another word.\<close>

fun clear_numbers :: "netdb \<Rightarrow> (nat option \<Rightarrow> fw_request) \<Rightarrow> (string \<Rightarrow> exit_error) \<Rightarrow> string list \<Rightarrow>
    exit_error option \<Rightarrow> fw_result" where
  "clear_numbers db mk bad [] failed = ([], failed)"
| "clear_numbers db mk bad (a # av) failed =
     (if starts_digit a then
        let q = mk (Some (u_short (atoi a)));
            failed = (if accepts db q then failed else Some (EX_UNAVAILABLE ''setsockopt''))
        in case clear_numbers db mk bad av failed of (qs, e) \<Rightarrow> (q # qs, e)
      else ([], Some (bad a)))"

definition clear_counters :: "netdb \<Rightarrow> (nat option \<Rightarrow> fw_request) \<Rightarrow> (string \<Rightarrow> exit_error) \<Rightarrow> string list \<Rightarrow> fw_result"
  where
  "clear_counters db mk bad args =
     (if args = [] then ([mk None], if accepts db (mk None) then None else Some (EX_UNAVAILABLE ''setsockopt''))
      else clear_numbers db mk bad args None)"

definition zero_cmd :: "netdb \<Rightarrow> string list \<Rightarrow> fw_result" where
  "zero_cmd db args = clear_counters db FW_ZERO EX_USAGE args"

definition resetlog :: "netdb \<Rightarrow> string list \<Rightarrow> fw_result" where
  "resetlog db args = clear_counters db FW_RESETLOG EX_DATAERR args"

text \<open>
  The question before a flush: the first letter of a line counts, an empty line asks again, and
  the end of the input answers no.
\<close>

function flush_answer :: "string \<Rightarrow> bool" where
  "flush_answer [] = False"
| "flush_answer (c # cs) =
     (if c = nl then flush_answer cs
      else (case dropWhile (\<lambda>d. d \<noteq> nl) cs of
              [] \<Rightarrow> False
            | _ # rest \<Rightarrow> if lower c = CHR ''y'' then True else if lower c = CHR ''n'' then False else flush_answer rest))"
  by pat_completeness auto
termination
proof (relation "measure length", goal_cases)
  case (3 c cs d rest)
  then show ?case using length_dropWhile_le [of "\<lambda>d. d \<noteq> nl" cs] by simp
qed simp_all

subsection \<open>The options of the program\<close>

record fw_opts =
  do_sort :: int
  do_acct :: bool
  do_dynamic :: bool
  do_expired :: bool
  do_force :: bool
  do_resolv :: bool
  do_quiet :: bool
  do_time :: bool
  verbose :: nat

definition start_opts :: "netdb \<Rightarrow> fw_opts" where
  "start_opts db = \<lparr>do_sort = 0, do_acct = False, do_dynamic = False, do_expired = False,
     do_force = (\<not> stdin_tty db), do_resolv = False, do_quiet = False, do_time = False, verbose = 0\<rparr>"

definition set_opt :: "char \<Rightarrow> fw_opts \<Rightarrow> fw_opts option" where
  "set_opt c p =
     (if c = CHR ''a'' then Some (p\<lparr>do_acct := True\<rparr>)
      else if c = CHR ''d'' then Some (p\<lparr>do_dynamic := True\<rparr>)
      else if c = CHR ''e'' then Some (p\<lparr>do_expired := True\<rparr>)
      else if c = CHR ''f'' then Some (p\<lparr>do_force := True\<rparr>)
      else if c = CHR ''N'' then Some (p\<lparr>do_resolv := True\<rparr>)
      else if c = CHR ''q'' then Some (p\<lparr>do_quiet := True\<rparr>)
      else if c = CHR ''t'' then Some (p\<lparr>do_time := True\<rparr>)
      else if c = CHR ''v'' then Some (p\<lparr>verbose := verbose p + 1\<rparr>)
      else None)"

text \<open>
  \<open>getopt\<close> on one word, and on the arguments up to the first that is no option. \<open>None\<close> is
  the branch to \<open>show_usage\<close>.
\<close>

fun opt_letters :: "string \<Rightarrow> string list \<Rightarrow> fw_opts \<Rightarrow> (fw_opts \<times> string list) option" where
  "opt_letters [] av p = Some (p, av)"
| "opt_letters (c # cs) av p =
     (if c = CHR ''s'' then
        (if cs \<noteq> [] then Some (p\<lparr>do_sort := atoi cs\<rparr>, av)
         else (case av of [] \<Rightarrow> None | a # av \<Rightarrow> Some (p\<lparr>do_sort := atoi a\<rparr>, av)))
      else (case set_opt c p of None \<Rightarrow> None | Some p \<Rightarrow> opt_letters cs av p))"

lemma opt_letters_shorter: "opt_letters cs av p = Some (p', av') \<Longrightarrow> length av' \<le> length av"
  by (induction cs av p rule: opt_letters.induct) (auto split: if_splits list.splits option.splits)

function get_opts :: "string list \<Rightarrow> fw_opts \<Rightarrow> (fw_opts \<times> string list) option" where
  "get_opts [] p = Some (p, [])"
| "get_opts (a # av) p =
     (if take 2 a = ''--'' then Some (p, av)
      else if take 1 a = ''-'' \<and> a \<noteq> ''-'' then
        (case opt_letters (tl a) av p of None \<Rightarrow> None | Some (p, av) \<Rightarrow> get_opts av p)
      else Some (p, a # av))"
  by pat_completeness auto
termination
  by (relation "measure (\<lambda>(av, p). length av)") (auto dest: opt_letters_shorter simp: less_Suc_eq_le)

subsection \<open>The program\<close>

text \<open>Listing the rules and configuring a pipe are left to \<open>list\<close> and \<open>config_pipe\<close>, with their arguments.\<close>

datatype fw_run = Requests fw_result | Listing fw_opts "string list" | Config_pipe nat "string list"

definition swap_args :: "string list \<Rightarrow> string list" where
  "swap_args args = (case args of
     a # b # av \<Rightarrow> if starts_digit a then b # a # av else args | _ \<Rightarrow> args)"

definition flush_cmd :: "netdb \<Rightarrow> fw_opts \<Rightarrow> nat \<Rightarrow> fw_result" where
  "flush_cmd db p pipe =
     (if do_force p \<or> do_quiet p \<or> flush_answer (stdin_text db) then
        let q = (if pipe \<noteq> 0 then DUMMYNET_FLUSH else FW_FLUSH)
        in ([q], if accepts db q then None else Some (EX_UNAVAILABLE ''FLUSH''))
      else ([], None))"

definition ipfw_command :: "netdb \<Rightarrow> fw_opts \<Rightarrow> nat \<Rightarrow> string list \<Rightarrow> fw_run outcome" where
  "ipfw_command db p pipe args =
     (case swap_args args of
        [] \<Rightarrow> Ok (Requests ([], Some (EX_USAGE ''pipe requires arguments'')))
      | c # av \<Rightarrow>
          if kw c ''add'' then bind_o (add db av) (\<lambda>x. Ok (Requests x))
          else if pipe \<noteq> 0 \<and> kw c ''config'' then Ok (Config_pipe pipe av)
          else if kw c ''delete'' then Ok (Requests (delete_numbers db pipe av None))
          else if kw c ''flush'' then Ok (Requests (flush_cmd db p pipe))
          else if kw c ''zero'' then Ok (Requests (zero_cmd db av))
          else if kw c ''resetlog'' then Ok (Requests (resetlog db av))
          else if kw c ''print'' \<or> kw c ''list'' then Ok (Listing p av)
          else if kw c ''show'' then Ok (Listing (p\<lparr>do_acct := True\<rparr>) av)
          else Ok (Requests ([], Some (EX_USAGE ''bad arguments''))))"

definition ipfw_main :: "netdb \<Rightarrow> string list \<Rightarrow> fw_run outcome" where
  "ipfw_main db argv =
     (if length argv \<le> 1 then Ok (Requests ([], Some (EX_USAGE ''usage'')))
      else case get_opts (tl argv) (start_opts db) of
        None \<Rightarrow> Ok (Requests ([], Some (EX_USAGE ''usage'')))
      | Some (p, []) \<Rightarrow> Ok (Requests ([], Some (EX_USAGE ''bad arguments'')))
      | Some (p, a # av) \<Rightarrow>
          if kw a ''pipe'' then ipfw_command db p 1 av
          else if kw a ''queue'' then ipfw_command db p 2 av
          else ipfw_command db p 0 (a # av))"

end
