(* ===== verification/IpfwProps.thy ===== *)
theory IpfwProps
  imports IpfwMain
begin

text \<open>
  What \<open>ipfw\<close> makes of the lines that the configuration program writes: numbers and addresses
  are read back, the words of a filter rule give the rule that was written, and no rule has more ports
  than fit.
\<close>

subsection \<open>Numbers\<close>

lemma digit_value_digit [simp]: "k < 10 \<Longrightarrow> digit_value (digit k) = k"
  by (simp add: digit_value_def Let_def)

lemma length_dec_le: "0 < k \<Longrightarrow> n < 10 ^ k \<Longrightarrow> length (dec n) \<le> k"
proof (induction k arbitrary: n)
  case (Suc k)
  show ?case
  proof (cases "n < 10")
    case False
    then have "0 < k" "n div 10 < 10 ^ k"
      using Suc.prems by (auto simp: less_mult_imp_div_less mult.commute intro: Nat.gr0I)
    then show ?thesis
      using Suc.IH [of "n div 10"] False by (subst dec.simps) simp
  qed (simp add: dec.simps)
qed simp

lemma isdigit_hd_dec [simp]: "isdigit (hd (dec n))"
  by (rule dec_digits [OF hd_in_set]) simp

lemma hd_dec_pos: "0 < n \<Longrightarrow> hd (dec n) \<noteq> CHR ''0''"
proof (induction n rule: dec.induct)
  case (1 n)
  have "digit n \<noteq> digit 0" if "n < 10"
    using of_char_digit [OF that] of_char_digit [of 0] 1(2) by fastforce
  then show ?case
    using 1 by (cases "n < 10") (auto simp: dec.simps [of n] hd_append digit_0)
qed

lemma read_digits_dec: "read_digits 10 0 (dec n @ t) = read_digits 10 n t"
proof (induction n arbitrary: t rule: dec.induct)
  case (1 n)
  then show ?case by (cases "n < 10") (simp_all add: dec.simps [of n])
qed

lemma aton_digits_dec: "n < 2 ^ 32 \<Longrightarrow> aton_digits 10 0 (dec n @ t) = aton_digits 10 n t"
proof (induction n arbitrary: t rule: dec.induct)
  case (1 n)
  then show ?case by (cases "n < 10") (auto simp: dec.simps [of n] mult.commute)
qed

lemma dec_no_sign: "take 1 (dec n @ t) \<noteq> ''-''" "take 1 (dec n @ t) \<noteq> ''+''" "dropWhile isspace (dec n @ t) = dec n @ t"
  using isdigit_hd_dec [of n] digit_not_space [of "hd (dec n)"] by (cases "dec n"; simp)+

lemma strtoul_dec_append:
  assumes "n < 2 ^ 32" and "t = [] \<or> 10 \<le> digit_value (hd t) \<and> hd t \<noteq> CHR ''x'' \<and> hd t \<noteq> CHR ''X''"
  shows "strtoul 0 (dec n @ t) = (n, t)"
proof (cases "n = 0")
  case True
  then have "dec n = ''0''" by (simp add: dec.simps digit_0)
  then show ?thesis
    using True assms(2) by (cases t) (simp_all add: strtoul_def isspace_def digit_value_def [of "CHR ''0''"])
next
  case False
  then have "take 1 (dec n @ t) \<noteq> ''0''" "take 2 (dec n @ t) \<noteq> ''0x''" "take 2 (dec n @ t) \<noteq> ''0X''"
    using hd_dec_pos [of n] by (cases "dec n"; auto)+
  moreover have "read_digits 10 n t = (n, t)" using assms(2) by (cases t) simp_all
  ultimately show ?thesis
    using assms(1) dec_no_sign [of n t] read_digits_dec [of n t]
    by (simp add: strtoul_def)
qed

lemma strtoul_dec [simp]: "n < 2 ^ 32 \<Longrightarrow> strtoul 0 (dec n) = (n, [])"
  using strtoul_dec_append [of n "[]"] by simp

lemma aton_number_dec:
  assumes "n < 2 ^ 32" and "t = [] \<or> hd t = CHR ''.'' \<or> hd t = CHR ''t''"
  shows "aton_number (dec n @ t) = Some (n, t)"
proof -
  have t: "aton_digits 10 v t = (v, t)" "aton_digits 8 v t = (v, t)" for v
    using assms(2) by (cases t; auto simp: isdigit_def digit_value_def)+
  show ?thesis
  proof (cases "n = 0")
    case True
    have "take 2 (CHR ''0'' # t) \<noteq> ''0x''" "take 2 (CHR ''0'' # t) \<noteq> ''0X''"
      using assms(2) by (cases t; auto)+
    then show ?thesis
      using True t by (simp add: dec.simps digit_0 aton_number_def isdigit_def)
  next
    case False
    then have "take 2 (dec n @ t) \<noteq> ''0x''" "take 2 (dec n @ t) \<noteq> ''0X''" "hd (dec n @ t) \<noteq> CHR ''0''"
      using hd_dec_pos [of n] by (cases "dec n"; auto)+
    then show ?thesis
      using isdigit_hd_dec [of n] aton_digits_dec [OF assms(1)] t by (simp add: aton_number_def)
  qed
qed

lemma not_special_dec:
  assumes "c \<in> set (dec n)"
  shows "c \<noteq> CHR ''.'' \<and> c \<noteq> CHR ''/'' \<and> c \<noteq> CHR '':'' \<and> c \<noteq> CHR '','' \<and> c \<noteq> CHR ''-'' \<and> c \<noteq> CHR 0x5C"
  using dec_digits [OF assms] by (auto simp: isdigit_def)

subsection \<open>Addresses\<close>

definition dotted :: "nat \<Rightarrow> nat \<Rightarrow> nat \<Rightarrow> nat \<Rightarrow> string" where
  "dotted a b c d = dec a @ ''.'' @ dec b @ ''.'' @ dec c @ ''.'' @ dec d"

definition ip_word :: "nat \<Rightarrow> nat \<Rightarrow> nat \<Rightarrow> nat \<Rightarrow> 32 word" where
  "ip_word a b c d = word_of_nat (a * 2 ^ 24 + b * 2 ^ 16 + c * 2 ^ 8 + d)"

lemma inet_aton_dotted:
  assumes "a < 256" "b < 256" "c < 256" "d < 256"
  shows "inet_aton (dotted a b c d) = Some (ip_word a b c d)"
proof -
  have lt: "a < 2 ^ 32" "b < 2 ^ 32" "c < 2 ^ 32" "d < 2 ^ 32" using assms by simp_all
  note n = aton_number_dec [OF lt(1)] aton_number_dec [OF lt(2)] aton_number_dec [OF lt(3)]
    aton_number_dec [OF lt(4), of "[]", simplified]
  have "aton_parts 3 (dotted a b c d) = Some ([a, b, c, d], [])"
    by (simp add: dotted_def eval_nat_numeral n)
  then show ?thesis using assms by (simp add: inet_aton_def aton_word_def ip_word_def)
qed

text \<open>The addresses that the dialogs put into a rule.\<close>

datatype endpoint = Anyone | This_host | Host nat nat nat nat | Network nat nat nat nat nat

fun endpoint_text :: "endpoint \<Rightarrow> string" where
  "endpoint_text Anyone = ''any''"
| "endpoint_text This_host = ''me''"
| "endpoint_text (Host a b c d) = dotted a b c d"
| "endpoint_text (Network a b c d n) = dotted a b c d @ ''/'' @ dec n"

fun endpoint_ok :: "endpoint \<Rightarrow> bool" where
  "endpoint_ok (Host a b c d) \<longleftrightarrow> a < 256 \<and> b < 256 \<and> c < 256 \<and> d < 256"
| "endpoint_ok (Network a b c d n) \<longleftrightarrow> a < 256 \<and> b < 256 \<and> c < 256 \<and> d < 256 \<and> n \<le> 32"
| "endpoint_ok _ \<longleftrightarrow> True"

text \<open>A mask of \<open>n\<close> leading ones.\<close>

definition prefix_mask :: "nat \<Rightarrow> 32 word" where
  "prefix_mask n = push_bit (32 - n) (- 1)"

fun endpoint_mask :: "endpoint \<Rightarrow> 32 word" where
  "endpoint_mask (Host a b c d) = - 1"
| "endpoint_mask (Network a b c d n) = prefix_mask n"
| "endpoint_mask _ = 0"

fun endpoint_addr :: "endpoint \<Rightarrow> 32 word" where
  "endpoint_addr (Host a b c d) = ip_word a b c d"
| "endpoint_addr (Network a b c d n) = ip_word a b c d AND prefix_mask n"
| "endpoint_addr _ = 0"

lemma width_mask_prefix: "n \<le> 32 \<Longrightarrow> width_mask (int n) = Ok (prefix_mask n)"
proof (cases "n = 0")
  case True
  have "push_bit 32 (- 1) = (0 :: 32 word)" by (rule bit_word_eqI) (simp add: bit_simps)
  then show ?thesis using True by (simp add: width_mask_def prefix_mask_def)
next
  case False
  assume "n \<le> 32"
  then have "nat (32 - int n) = 32 - n" by simp
  then show ?thesis using False \<open>n \<le> 32\<close> by (simp add: width_mask_def prefix_mask_def)
qed

text \<open>No key word starts with a digit.\<close>

lemma kw_digit: "a \<noteq> [] \<Longrightarrow> isdigit (hd a) \<Longrightarrow> \<not> isdigit (hd s) \<Longrightarrow> s \<noteq> [] \<Longrightarrow> \<not> kw a s"
  by (cases a; cases s) (auto simp: kw_def strncmp_eq_def)

lemma hd_dotted: "dotted a b c d @ t \<noteq> []" "isdigit (hd (dotted a b c d @ t))"
  by (simp_all add: dotted_def)

lemma kw_dotted: "\<not> isdigit (hd s) \<Longrightarrow> s \<noteq> [] \<Longrightarrow> \<not> kw (dotted a b c d @ t) s"
  using kw_digit hd_dotted by blast

lemma cut_at_none: "c \<notin> set s \<Longrightarrow> cut_at c s = None"
  by (simp add: cut_at_def)

lemma cut_at_first: "c \<notin> set s \<Longrightarrow> cut_at c (s @ c # t) = Some (s, t)"
  by (induction s) (auto simp: cut_at_def)

lemma set_dotted: "c \<in> set (dotted x y z w) \<Longrightarrow> c = CHR ''.'' \<or> isdigit c"
  by (auto simp: dotted_def dest: dec_digits)

lemma dotted_no_cut: "CHR ''/'' \<notin> set (dotted a b c d)" "CHR '':'' \<notin> set (dotted a b c d)"
  using set_dotted by (fastforce simp: isdigit_def)+

lemma fill_ip_endpoint:
  assumes "endpoint_ok e" and "e \<noteq> This_host"
  shows "fill_ip db (endpoint_text e # av) = Ok ((endpoint_addr e, endpoint_mask e), av)"
proof (cases e)
  case Anyone
  then show ?thesis by (simp add: fill_ip_def kw_def strncmp_eq_def)
next
  case This_host
  then show ?thesis using assms by simp
next
  case (Host a b c d)
  then have "lookup_host db (dotted a b c d) = Some (ip_word a b c d)"
    using assms by (simp add: lookup_host_def inet_aton_dotted)
  moreover have "\<not> kw (dotted a b c d) ''any''"
    using kw_dotted [of "''any''" a b c d "[]"] by (simp add: isdigit_def)
  ultimately show ?thesis
    using Host by (simp add: fill_ip_def cut_at_none dotted_no_cut)
next
  case (Network a b c d n)
  then have "lookup_host db (dotted a b c d) = Some (ip_word a b c d)"
    using assms by (simp add: lookup_host_def inet_aton_dotted)
  moreover have "\<not> kw (dotted a b c d @ CHR ''/'' # dec n) ''any''"
    using kw_dotted [of "''any''" a b c d] by (simp add: isdigit_def)
  ultimately show ?thesis
    using Network assms by (simp add: fill_ip_def cut_at_first dotted_no_cut width_mask_prefix)
qed

text \<open>An address is neither \<open>not\<close> nor, but for the one, \<open>me\<close>.\<close>

lemma kw_endpoint:
  assumes "e \<noteq> Anyone" "e \<noteq> This_host" "\<not> isdigit (hd s)" "s \<noteq> []"
  shows "\<not> kw (endpoint_text e) s"
proof (cases e)
  case (Host a b c d)
  then show ?thesis using kw_dotted [OF assms(3,4), of a b c d "[]"] by simp
next
  case (Network a b c d n)
  then show ?thesis using kw_dotted [OF assms(3,4)] by simp
qed (use assms in simp_all)

lemma endpoint_keys [simp]:
  "\<not> kw (endpoint_text e) ''not''" "kw (endpoint_text e) ''me'' \<longleftrightarrow> e = This_host"
proof -
  have k: "\<not> kw ''any'' ''not''" "\<not> kw ''me'' ''not''" "\<not> kw ''any'' ''me''" "kw ''me'' ''me''"
    by (simp_all add: kw_def strncmp_eq_def)
  have d: "\<not> isdigit (hd ''not'')" "\<not> isdigit (hd ''me'')"
    by (simp_all add: isdigit_def)
  show "\<not> kw (endpoint_text e) ''not''"
    using k kw_endpoint [OF _ _ d(1)] by (cases "e = Anyone"; cases "e = This_host") auto
  show "kw (endpoint_text e) ''me'' \<longleftrightarrow> e = This_host"
    using k kw_endpoint [OF _ _ d(2)] by (cases "e = Anyone"; cases "e = This_host") auto
qed

subsection \<open>Ports\<close>

lemma port_word_dec: "\<forall>c \<in> set s. c \<noteq> CHR 0x5C \<and> c \<noteq> CHR '','' \<and> c \<noteq> CHR ''-'' \<Longrightarrow> port_word nodash s = s"
  by (induction s) auto

lemma lookup_port_dec:
  assumes "n < 65536"
  shows "lookup_port db (dec n) proto test nodash = Ok (int n)"
proof -
  have "length (dec n) \<le> 5" using assms length_dec_le [of 5 n] by simp
  then have "snprintf 32 (dec n) = dec n" by (simp add: snprintf_fits)
  moreover have "port_word nodash (dec n) = dec n"
    by (rule port_word_dec) (use not_special_dec in blast)
  ultimately show ?thesis using assms by (simp add: lookup_port_def)
qed

lemma port_scan_plain:
  "\<forall>c \<in> set s. c \<noteq> CHR 0x5C \<and> c \<noteq> CHR '','' \<and> c \<noteq> CHR ''-'' \<and> c \<noteq> CHR '':'' \<Longrightarrow> port_scan s = (s, [])"
  by (induction s) auto

lemma commas_plain: "CHR '','' \<notin> set s \<Longrightarrow> commas s = [s]"
  by (induction s) auto

lemma fill_port_dec:
  assumes "n < 65536"
  shows "fill_port db (dec n) proto pts = bind_o (add_port pts n) (\<lambda>pts. Ok (0, pts))"
proof -
  have "port_scan (dec n) = (dec n, [])"
    by (rule port_scan_plain) (use not_special_dec in blast)
  moreover have "commas (dec n) = [dec n]"
    by (rule commas_plain) (use not_special_dec in blast)
  ultimately show ?thesis
    using assms by (cases "add_port pts n") (simp_all add: fill_port_def lookup_port_dec)
qed

subsection \<open>The rule that is written\<close>

definition port_text :: "nat option \<Rightarrow> string" where
  "port_text p = (case p of None \<Rightarrow> [] | Some n \<Rightarrow> dec n)"

definition port_args :: "nat option \<Rightarrow> string list" where
  "port_args p = (case p of None \<Rightarrow> [] | Some n \<Rightarrow> [dec n])"

definition port_ok :: "nat option \<Rightarrow> bool" where
  "port_ok p \<longleftrightarrow> (case p of None \<Rightarrow> True | Some n \<Rightarrow> n < 65536)"

definition port_list :: "nat option \<Rightarrow> nat list" where
  "port_list p = (case p of None \<Rightarrow> [] | Some n \<Rightarrow> [n])"

text \<open>
  What ipfw relies on of the system's tables: the numbers of four protocols, and that no service is
  named like one of its key words.
\<close>

definition key_words :: "string list" where
  "key_words = [''to'', ''in'', ''out'', ''setup'', ''established'', ''frag'', ''ipoptions'', ''icmptypes'', ''via'',
     ''ipopt'', ''icmptype'']"

definition std_tables :: "netdb \<Rightarrow> bool" where
  "std_tables db \<longleftrightarrow> protobyname db ''ip'' = Some 0 \<and> protobyname db ''icmp'' = Some 1 \<and>
     protobyname db ''tcp'' = Some 6 \<and> protobyname db ''udp'' = Some 17 \<and>
     (\<forall>w \<in> set key_words. \<forall>p. servbyname db w p = None)"

definition protocol_number :: "proto \<Rightarrow> nat" where
  "protocol_number p = (case p of IP \<Rightarrow> IPPROTO_IP | ICMP \<Rightarrow> IPPROTO_ICMP | TCP \<Rightarrow> IPPROTO_TCP | UDP \<Rightarrow> IPPROTO_UDP)"

lemma ports_follow_dec: "ports_follow db proto (dec n # av)"
  by (simp add: ports_follow_def starts_digit_def)

lemma lookup_key_word:
  assumes "std_tables db" and "w \<in> set key_words"
  shows "lookup_port db w proto True True = Ok (- 1)"
proof -
  have "servbyname db w p = None" for p using assms by (simp add: std_tables_def)
  moreover have "snprintf 32 w = w" "port_word True w = w" "snd (strtoul 0 w) \<noteq> []"
    using assms(2) unfolding key_words_def
    by (auto simp: snprintf_def strtoul_def isspace_def digit_value_def)
  ultimately show ?thesis
    by (cases "strtoul 0 w") (auto simp: lookup_port_def)
qed

lemma ports_follow_key_word:
  assumes "std_tables db" and "args = [] \<or> hd args \<in> set key_words"
  shows "\<not> ports_follow db proto args"
proof (cases args)
  case (Cons a av)
  then have a: "a \<in> set key_words" using assms(2) by simp
  then have "\<not> starts_digit a"
    by (auto simp: key_words_def starts_digit_def isdigit_def)
  then show ?thesis using Cons lookup_key_word [OF assms(1) a] by (simp add: ports_follow_def)
qed (simp add: ports_follow_def)

lemma kw_exact [simp]: "kw a a"
  by (simp add: kw_def strncmp_eq_def)

lemma kw_me_not [simp]: "\<not> kw ''me'' ''not''"
  by (simp add: kw_def strncmp_eq_def)

text \<open>The ends of a rule are read back.\<close>

lemma add_from_words:
  assumes "std_tables db" "endpoint_ok e" "port_ok p"
  shows "add_from db (r, ''from'' # endpoint_text e # port_args p @ ''to'' # av) =
    Ok (r\<lparr>fw_src := (if e = This_host then fw_src r else endpoint_addr e),
          fw_smsk := (if e = This_host then fw_smsk r else endpoint_mask e),
          fw_pts := (if p = None then fw_pts r else port_list p),
          fw_nsrcp := (if p = None then fw_nsrcp r else 1),
          fw_flg := fw_flg r \<union> (if e = This_host then {F_SME} else {})\<rparr>, ''to'' # av)"
proof -
  have "\<not> ports_follow db proto (''to'' # av)" for proto
    using assms(1) by (intro ports_follow_key_word) (simp_all add: key_words_def)
  moreover have "fill_port db (dec n) proto [] = Ok (0, [n])" if "p = Some n" for n proto
    using assms(3) that by (simp add: fill_port_dec port_ok_def add_port_def IP_FW_MAX_PORTS_def)
  ultimately show ?thesis
    using assms(2) fill_ip_endpoint [OF assms(2)]
    by (cases p; cases "e = This_host")
      (simp_all add: add_from_def end_word_def add_src_def add_src_ports_def port_args_def port_list_def ports_follow_dec)
qed

lemma add_to_words:
  assumes "std_tables db" "endpoint_ok e" "port_ok p" "length (fw_pts r) < 10" "fw_nsrcp r = length (fw_pts r)"
    and "av = [] \<or> hd av \<in> set key_words"
  shows "add_to db (r, ''to'' # endpoint_text e # port_args p @ av) =
    Ok (r\<lparr>fw_dst := (if e = This_host then fw_dst r else endpoint_addr e),
          fw_dmsk := (if e = This_host then fw_dmsk r else endpoint_mask e),
          fw_pts := fw_pts r @ port_list p,
          fw_ndstp := (if p = None then fw_ndstp r else 1),
          fw_flg := fw_flg r \<union> (if e = This_host then {F_DME} else {})\<rparr>, av)"
proof -
  have "\<not> ports_follow db proto av" for proto
    using assms(1,6) by (rule ports_follow_key_word)
  moreover have "fill_port db (dec n) proto (fw_pts r) = Ok (0, fw_pts r @ [n])" if "p = Some n" for n proto
    using assms(3,4) that by (simp add: fill_port_dec port_ok_def add_port_def IP_FW_MAX_PORTS_def)
  ultimately show ?thesis
    using assms(5) fill_ip_endpoint [OF assms(2)]
    by (cases p; cases "e = This_host")
      (simp_all add: add_to_def end_word_def add_dst_def add_dst_ports_def port_args_def port_list_def ports_follow_dec)
qed

subsection \<open>Whole rules\<close>

text \<open>The rule that the fields of a dialog stand for.\<close>

definition action_rule :: "action \<Rightarrow> ip_fw" where
  "action_rule a = (case a of
     ALLOW \<Rightarrow> zero_fw\<lparr>fw_command := F_ACCEPT\<rparr>
   | DENY \<Rightarrow> zero_fw\<lparr>fw_command := F_DENY\<rparr>
   | DIVERT \<Rightarrow> zero_fw\<lparr>fw_command := F_DIVERT, fw_un := 8668\<rparr>
   | RESET \<Rightarrow> zero_fw\<lparr>fw_command := F_REJECT, fw_un := IP_FW_REJECT_RST\<rparr>
   | FWD \<Rightarrow> zero_fw\<lparr>fw_command := F_FWD\<rparr>)"

definition direction_flags :: "ifs \<Rightarrow> fw_flag set" where
  "direction_flags i = (case i of ANY \<Rightarrow> {F_IN, F_OUT} | INCOMING \<Rightarrow> {F_IN} | OUTGOING \<Rightarrow> {F_OUT})"

text \<open>What the option of the dialog adds.\<close>

definition option_rule :: "proto \<Rightarrow> int \<Rightarrow> ip_fw \<Rightarrow> ip_fw" where
  "option_rule p n r = (case p of
     IP \<Rightarrow> r\<lparr>fw_ipopt := (if n = SSRR then {IPOPT_SSRR} else if n = LSRR then {IPOPT_LSRR}
                      else if n = TS then {IPOPT_TS} else {})\<rparr>
   | TCP \<Rightarrow> if n = SETUP then r\<lparr>fw_tcpf := {TCPF_SYN}, fw_tcpnf := {TCPF_ACK}\<rparr>
            else if n = ESTABLISHED then r\<lparr>fw_tcpest := True\<rparr>
            else if n = FRAG then r\<lparr>fw_flg := insert F_FRAG (fw_flg r)\<rparr> else r
   | UDP \<Rightarrow> r
   | ICMP \<Rightarrow> if n = ECHO_REQUEST then r\<lparr>fw_icmptypes := {5}, fw_flg := insert F_ICMPBIT (fw_flg r)\<rparr>
             else if n = DEST_UNREACH then r\<lparr>fw_icmptypes := {3}, fw_flg := insert F_ICMPBIT (fw_flg r)\<rparr>
             else if n = ECHO_REPLY then r\<lparr>fw_icmptypes := {0}, fw_flg := insert F_ICMPBIT (fw_flg r)\<rparr>
             else r)"

definition rule_ports :: "proto \<Rightarrow> nat option \<Rightarrow> nat list" where
  "rule_ports p q = (if p \<in> {TCP, UDP} then port_list q else [])"

definition ends_rule :: "ip_fw \<Rightarrow> proto \<Rightarrow> endpoint \<Rightarrow> nat option \<Rightarrow> endpoint \<Rightarrow> nat option \<Rightarrow> ip_fw" where
  "ends_rule r p src sport dst dport =
     r\<lparr>fw_prot := protocol_number p,
       fw_src := endpoint_addr src, fw_smsk := endpoint_mask src,
       fw_dst := endpoint_addr dst, fw_dmsk := endpoint_mask dst,
       fw_pts := rule_ports p sport @ rule_ports p dport,
       fw_nsrcp := length (rule_ports p sport), fw_ndstp := length (rule_ports p dport),
       fw_flg := (if src = This_host then {F_SME} else {}) \<union> (if dst = This_host then {F_DME} else {})\<rparr>"

definition add_flags :: "fw_flag set \<Rightarrow> ip_fw \<Rightarrow> ip_fw" where
  "add_flags F r = r\<lparr>fw_flg := fw_flg r \<union> F\<rparr>"

definition built_rule :: "ip_fw \<Rightarrow> proto \<Rightarrow> endpoint \<Rightarrow> nat option \<Rightarrow> endpoint \<Rightarrow> nat option \<Rightarrow> ifs \<Rightarrow> int \<Rightarrow> ip_fw"
  where
  "built_rule r p src sport dst dport i n =
     option_rule p n (add_flags (direction_flags i) (ends_rule r p src sport dst dport))"

text \<open>A rule that has a number, an action and nothing else.\<close>

definition fresh_rule :: "ip_fw \<Rightarrow> bool" where
  "fresh_rule r \<longleftrightarrow> r\<lparr>fw_number := 0, fw_command := F_DENY, fw_un := 0, fw_fwd_ip := 0,
     fw_fwd_port := 0\<rparr> = zero_fw"

lemma fresh_rule_sel:
  assumes "fresh_rule r"
  shows "fw_flg r = {}" "fw_pts r = []" "fw_nsrcp r = 0" "fw_ndstp r = 0" "fw_ipopt r = {}" "fw_tcpf r = {}"
    "fw_tcpnf r = {}" "\<not> fw_tcpest r" "fw_icmptypes r = {}" "fw_src r = 0" "fw_smsk r = 0" "fw_dst r = 0"
    "fw_dmsk r = 0"
  using assms by (cases r; simp add: fresh_rule_def zero_fw_def)+

lemma fresh_action_rule: "fresh_rule (action_rule a)"
  by (cases a) (simp_all add: fresh_rule_def action_rule_def zero_fw_def)

text \<open>The action, and what comes behind it.\<close>

lemma add_action_words:
  assumes "a \<noteq> FWD"
  shows "add_rule db (action_words a @ ws) = add_body db (action_rule a, ws)"
proof -
  have "bind_o (add_prob db (add_number (zero_fw, action_words a @ ws))) (add_action db) = Ok (action_rule a, ws, False)"
    using assms
    by (cases a)
      (simp_all add: action_words_def add_number_def starts_digit_def isdigit_def add_prob_def add_action_def
        divert_port_def strtoul_def isspace_def digit_value_def u_short_def kw_def strncmp_eq_def action_rule_def
        split: list.split)
  then show ?thesis
    by (cases "add_prob db (add_number (zero_fw, action_words a @ ws))") (auto simp: add_rule_def)
qed

lemma add_proto_words:
  assumes "std_tables db" and "fw_command r = F_REJECT \<Longrightarrow> p = TCP"
  shows "add_body db (r, proto_text p # av) =
    bind_o (add_from db (r\<lparr>fw_prot := protocol_number p\<rparr>, av)) (\<lambda>x.
    bind_o (add_to db x) (\<lambda>(r, av).
    bind_o (ports_allowed r) (\<lambda>r.
    bind_o (add_options db (r, False, False) av) (add_finish db))))"
proof -
  have "atoi (proto_text p) = 0"
    by (cases p) (simp_all add: proto_text_def atoi_word isdigit_def isspace_def)
  then have "add_proto db (r, proto_text p # av) = Ok (r\<lparr>fw_prot := protocol_number p\<rparr>, av)"
    using assms
    by (cases p) (auto simp: add_proto_def proto_text_def protocol_number_def std_tables_def
        kw_def strncmp_eq_def IPPROTO_IP_def IPPROTO_ICMP_def IPPROTO_TCP_def
        IPPROTO_UDP_def)
  moreover have "add_log (r, proto_text p # av) = Ok (r, proto_text p # av)"
    by (cases p) (simp_all add: add_log_def add_logamount_def proto_text_def kw_def strncmp_eq_def)
  ultimately show ?thesis by (simp add: add_body_def)
qed

text \<open>The flags that the direction words set.\<close>

definition word_flags :: "ifs \<Rightarrow> fw_flag set" where
  "word_flags i = (if i = ANY then {} else direction_flags i)"

lemma add_finish_words:
  assumes "fw_flg r \<subseteq> {F_SME, F_DME}" "fw_tcpf r = {}" "fw_tcpnf r = {}"
    and "p = TCP \<Longrightarrow> n = FRAG \<Longrightarrow> fw_nsrcp r = 0 \<and> fw_ndstp r = 0"
  shows "add_finish db (option_rule p n (add_flags (word_flags i) r), False, False) =
    Ok (option_rule p n (add_flags (direction_flags i) r))"
proof -
  have f: "F_IN \<notin> fw_flg r" "F_OUT \<notin> fw_flg r" "F_PRN \<notin> fw_flg r" "F_OIFACE \<notin> fw_flg r" "F_FRAG \<notin> fw_flg r"
    using assms(1) by auto
  show ?thesis
    using f assms(2-4)
    by (cases p; cases i)
      (auto simp: add_finish_def add_direction_def add_via_def add_frag_def add_loglimit_def option_rule_def
        add_flags_def word_flags_def direction_flags_def insert_commute)
qed

lemma add_finish_frag:
  assumes "fw_flg r \<subseteq> {F_SME, F_DME}" "fw_tcpf r = {}" "fw_tcpnf r = {}" "fw_nsrcp r \<noteq> 0 \<or> fw_ndstp r \<noteq> 0"
  shows "add_finish db (option_rule TCP FRAG (add_flags (word_flags i) r), False, False) =
    Fail (EX_DATAERR ''can't mix 'frag' and port specifications'')"
  using assms
  by (cases i)
    (auto simp: add_finish_def add_direction_def add_via_def add_frag_def option_rule_def add_flags_def word_flags_def
      direction_flags_def)

text \<open>Option words that stand for a direction and an option of the dialog.\<close>

definition no_options :: "ip_fw \<Rightarrow> bool" where
  "no_options r \<longleftrightarrow> fw_flg r \<subseteq> {F_SME, F_DME} \<and> fw_ipopt r = {} \<and> fw_tcpf r = {} \<and> fw_tcpnf r = {} \<and>
     \<not> fw_tcpest r \<and> fw_icmptypes r = {}"

definition opts_mean :: "netdb \<Rightarrow> proto \<Rightarrow> ifs \<Rightarrow> int \<Rightarrow> string list \<Rightarrow> bool" where
  "opts_mean db p i n opts \<longleftrightarrow> (opts = [] \<or> hd opts \<in> set key_words) \<and>
     (\<forall>r. fw_prot r = protocol_number p \<longrightarrow> no_options r \<longrightarrow>
       add_options db (r, False, False) opts = Ok (option_rule p n (add_flags (word_flags i) r), False, False))"

lemma add_options_words: "opts_mean db (r_proto rs) (r_ifs rs) (r_option rs) (dir_words (r_ifs rs) @ option_words rs)"
proof -
  have "dir_words (r_ifs rs) @ option_words rs = [] \<or> hd (dir_words (r_ifs rs) @ option_words rs) \<in> set key_words"
    by (auto simp: dir_words_def option_words_def key_words_def split: ifs.split proto.split)
  moreover have "add_options db (r, False, False) (dir_words (r_ifs rs) @ option_words rs) =
      Ok (option_rule (r_proto rs) (r_option rs) (add_flags (word_flags (r_ifs rs)) r), False, False)"
    if "fw_prot r = protocol_number (r_proto rs)" "no_options r" for r
    using that
    by (cases "r_proto rs"; cases "r_ifs rs")
      (simp_all add: dir_words_def option_words_def add_option_def kw_def strncmp_eq_def with_arg_def
        add_tcp_option_def add_icmp_option_def strtoul_def isspace_def digit_value_def ICMPTYPES_def
        option_rule_def direction_flags_def word_flags_def add_flags_def no_options_def ip_opts_def
        protocol_number_def IPPROTO_IP_def IPPROTO_ICMP_def IPPROTO_TCP_def IPPROTO_UDP_def)
  ultimately show ?thesis by (simp add: opts_mean_def)
qed

lemma add_ends_words:
  fixes sport dport :: "nat option" and p :: proto
  defines "sp \<equiv> if p \<in> {TCP, UDP} then sport else None" and "dp \<equiv> if p \<in> {TCP, UDP} then dport else None"
  assumes "std_tables db" and fresh: "fresh_rule r" and "fw_command r = F_REJECT \<Longrightarrow> p = TCP"
    and "endpoint_ok src" "endpoint_ok dst" "port_ok sport" "port_ok dport" and opts: "opts_mean db p i n opts"
  shows "add_body db (r, proto_text p # ''from'' # endpoint_text src # port_args sp @
      ''to'' # endpoint_text dst # port_args dp @ opts) =
    add_finish db (option_rule p n (add_flags (word_flags i) (ends_rule r p src sport dst dport)), False, False)"
proof -
  note f = fresh_rule_sel [OF fresh]
  have ok: "port_ok sp" "port_ok dp" using assms(8,9) by (simp_all add: sp_def dp_def port_ok_def)
  have o: "opts = [] \<or> hd opts \<in> set key_words" using opts by (simp add: opts_mean_def)
  define r1 where "r1 = r\<lparr>fw_prot := protocol_number p\<rparr>"
  define r2 where "r2 = r1\<lparr>fw_src := endpoint_addr src, fw_smsk := endpoint_mask src,
      fw_pts := port_list sp, fw_nsrcp := length (port_list sp),
      fw_flg := (if src = This_host then {F_SME} else {})\<rparr>"
  define r3 where "r3 = ends_rule r p src sport dst dport"
  have ports: "rule_ports p sport = port_list sp" "rule_ports p dport = port_list dp"
    by (simp_all add: rule_ports_def sp_def dp_def port_list_def)
  have src: "add_from db (r1, ''from'' # endpoint_text src # port_args sp @ ''to'' # av) = Ok (r2, ''to'' # av)" for av
    using add_from_words [OF assms(3,6) ok(1), of r1 av] f
    by (cases sp; cases "src = This_host") (simp_all add: r2_def r1_def port_list_def)
  have "add_to db (r2, ''to'' # endpoint_text dst # port_args dp @ opts) =
      Ok (r2\<lparr>fw_dst := endpoint_addr dst, fw_dmsk := endpoint_mask dst,
      fw_pts := port_list sp @ port_list dp, fw_ndstp := length (port_list dp),
      fw_flg := fw_flg r2 \<union> (if dst = This_host then {F_DME} else {})\<rparr>, opts)"
    using add_to_words [OF assms(3,7) ok(2) _ _ o, of r2] f
    by (cases dp; cases sp; cases "dst = This_host") (simp_all add: r2_def r1_def port_list_def)
  moreover have "r2\<lparr>fw_dst := endpoint_addr dst, fw_dmsk := endpoint_mask dst,
      fw_pts := port_list sp @ port_list dp, fw_ndstp := length (port_list dp),
      fw_flg := fw_flg r2 \<union> (if dst = This_host then {F_DME} else {})\<rparr> = r3"
    by (rule ip_fw.equality) (simp_all add: r3_def r2_def r1_def ends_rule_def ports)
  ultimately have dst: "add_to db (r2, ''to'' # endpoint_text dst # port_args dp @ opts) = Ok (r3, opts)"
    by simp
  have allowed: "ports_allowed r3 = Ok r3"
    using f
    by (cases p) (simp_all add: ports_allowed_def r3_def ends_rule_def rule_ports_def protocol_number_def)
  have "fw_prot r3 = protocol_number p" "no_options r3"
    by (simp_all add: f r3_def ends_rule_def no_options_def)
  then have "add_options db (r3, False, False) opts = Ok (option_rule p n (add_flags (word_flags i) r3), False, False)"
    using opts by (simp add: opts_mean_def)
  then show ?thesis
    using add_proto_words [OF assms(3,5)] src dst allowed
    by (simp add: r1_def r3_def [symmetric])
qed

lemma ends_rule_sel [simp]:
  "fw_flg (ends_rule r p src sport dst dport) \<subseteq> {F_SME, F_DME}"
  "fw_tcpf (ends_rule r p src sport dst dport) = fw_tcpf r"
  "fw_tcpnf (ends_rule r p src sport dst dport) = fw_tcpnf r"
  "fw_nsrcp (ends_rule r p src sport dst dport) = length (rule_ports p sport)"
  "fw_ndstp (ends_rule r p src sport dst dport) = length (rule_ports p dport)"
  by (simp_all add: ends_rule_def)

lemma add_body_words:
  fixes sport dport :: "nat option" and p :: proto
  defines "sp \<equiv> if p \<in> {TCP, UDP} then sport else None" and "dp \<equiv> if p \<in> {TCP, UDP} then dport else None"
  assumes "std_tables db" and fresh: "fresh_rule r" and "fw_command r = F_REJECT \<Longrightarrow> p = TCP"
    and "endpoint_ok src" "endpoint_ok dst" "port_ok sport" "port_ok dport" and opts: "opts_mean db p i n opts"
    and "p = TCP \<Longrightarrow> n = FRAG \<Longrightarrow> sport = None \<and> dport = None"
  shows "add_body db (r, proto_text p # ''from'' # endpoint_text src # port_args sp @
      ''to'' # endpoint_text dst # port_args dp @ opts) = Ok (built_rule r p src sport dst dport i n)"
proof -
  have "p = TCP \<Longrightarrow> n = FRAG \<Longrightarrow> length (rule_ports p sport) = 0 \<and> length (rule_ports p dport) = 0"
    using assms(11) by (simp add: rule_ports_def port_list_def)
  then show ?thesis
    using add_ends_words [OF assms(3,4) _ assms(6-10)] assms(5) fresh_rule_sel [OF fresh]
    by (simp add: built_rule_def add_finish_words sp_def dp_def)
qed

subsection \<open>From the line to the kernel\<close>

text \<open>The words of a command line end at the end of the line.\<close>

definition command_words :: "string \<Rightarrow> string list" where
  "command_words l = words (takeWhile (\<lambda>c. c \<noteq> nl) l)"

definition add_result :: "netdb \<Rightarrow> ip_fw \<Rightarrow> fw_run outcome" where
  "add_result db r =
     Ok (Requests ([FW_ADD r], if accepts db (FW_ADD r) then None else Some (EX_UNAVAILABLE ''IP_FW_ADD'')))"

lemma ipfw_q_add:
  "ipfw_main db (''/sbin/ipfw'' # ''-q'' # ''add'' # av) = bind_o (add db av) (\<lambda>x. Ok (Requests x))"
  by (cases av) (simp_all add: ipfw_main_def set_opt_def start_opts_def kw_def strncmp_eq_def ipfw_command_def swap_args_def
      starts_digit_def isdigit_def)

lemma ipfw_q_add_rule: "add_rule db av = Ok r \<Longrightarrow>
    ipfw_main db (''/sbin/ipfw'' # ''-q'' # ''add'' # av) = add_result db r"
  by (simp add: ipfw_q_add add_def add_result_def)

lemma ipfw_q_add_fail: "add_rule db av = Fail e \<Longrightarrow>
    ipfw_main db (''/sbin/ipfw'' # ''-q'' # ''add'' # av) = Ok (Requests ([], Some e))"
  by (simp add: ipfw_q_add add_def)

lemma text_chars:
  "c \<in> set (endpoint_text e) \<Longrightarrow> c \<noteq> CHR '' '' \<and> c \<noteq> nl"
  "c \<in> set (port_text p) \<Longrightarrow> c \<noteq> CHR '' '' \<and> c \<noteq> nl"
proof -
  show "c \<in> set (endpoint_text e) \<Longrightarrow> c \<noteq> CHR '' '' \<and> c \<noteq> nl"
    by (cases e) (auto dest!: set_dotted dec_digits simp: isdigit_def)
  show "c \<in> set (port_text p) \<Longrightarrow> c \<noteq> CHR '' '' \<and> c \<noteq> nl"
    by (cases p) (auto dest!: dec_digits simp: isdigit_def port_text_def)
qed

lemma text_plain [simp]:
  "blank_free (endpoint_text e)" "endpoint_text e \<noteq> []" "blank_free (port_text p)"
  "nl \<notin> set (endpoint_text e)" "nl \<notin> set (port_text p)"
  using text_chars(1) [of _ e] text_chars(2) [of _ p]
  by (cases e; auto simp: blank_free_def dotted_def)+

lemma command_words_line: "nl \<notin> set s \<Longrightarrow> command_words (s @ nl # t) = words s" "nl \<notin> set s \<Longrightarrow> command_words s = words s"
proof -
  assume a: "nl \<notin> set s"
  have "takeWhile (\<lambda>c. c \<noteq> nl) (s @ nl # t) = s" using a by (induction s) auto
  then show "command_words (s @ nl # t) = words s" by (simp add: command_words_def)
  have "takeWhile (\<lambda>c. c \<noteq> nl) s = s" using a by (auto simp: takeWhile_eq_all_conv)
  then show "command_words s = words s" by (simp only: command_words_def)
qed

text \<open>A rule whose fields are addresses and ports.\<close>

definition readable :: "ruleset \<Rightarrow> endpoint \<Rightarrow> nat option \<Rightarrow> endpoint \<Rightarrow> nat option \<Rightarrow> bool" where
  "readable rs src sport dst dport \<longleftrightarrow>
     r_src rs = endpoint_text src \<and> r_dst rs = endpoint_text dst \<and> endpoint_ok src \<and> endpoint_ok dst \<and>
     r_src_port rs = port_text sport \<and> r_dst_port rs = port_text dport \<and> port_ok sport \<and> port_ok dport \<and>
     r_other_a rs = []"

text \<open>
  What the text of such a rule says to \<open>ipfw\<close>. This is not always what was asked for: the option
  \<open>Echo Request\<close> is written as \<open>icmptypes 5\<close>.
\<close>

definition written_rule :: "ruleset \<Rightarrow> endpoint \<Rightarrow> nat option \<Rightarrow> endpoint \<Rightarrow> nat option \<Rightarrow> ip_fw" where
  "written_rule rs src sport dst dport =
     built_rule (action_rule (r_action rs)) (r_proto rs) src sport dst dport (r_ifs rs) (r_option rs)"

lemma readable_text:
  assumes "readable rs src sport dst dport"
  shows "plain_fields rs" "nl \<notin> set (filter_text rs)"
  using assms
  by (auto simp: readable_def plain_fields_def filter_text_def action_text_def proto_text_def port_pieces_def
      dir_text_def option_text_def other_pieces_def split: action.split proto.split ifs.split)

lemma readable_words:
  assumes "readable rs src sport dst dport" and "nl \<notin> set t"
  shows "command_words (filter_text rs) = ''/sbin/ipfw'' # ''-q'' # ''add'' # drop 3 (rule_words rs)"
    "command_words (filter_text rs @ nl # t) = ''/sbin/ipfw'' # ''-q'' # ''add'' # drop 3 (rule_words rs)"
  using readable_text [OF assms(1)] filter_text_words [of rs]
  by (simp_all add: command_words_line rule_words_def)

lemma readable_rule_words:
  assumes "readable rs src sport dst dport"
  defines "p \<equiv> r_proto rs"
  shows "drop 3 (rule_words rs) = action_words (r_action rs) @ proto_text p # ''from'' # endpoint_text src #
      port_args (if p \<in> {TCP, UDP} then sport else None) @ ''to'' # endpoint_text dst #
      port_args (if p \<in> {TCP, UDP} then dport else None) @ dir_words (r_ifs rs) @ option_words rs"
proof -
  have "port_words rs (port_text q) = port_args (if p \<in> {TCP, UDP} then q else None)" for q
    by (auto simp: p_def port_words_def port_text_def port_args_def split: option.split)
  then show ?thesis
    using assms(1) by (simp only: readable_def rule_words_def) (simp add: p_def)
qed

lemma listed_action:
  assumes "action_listed rs"
  shows "r_action rs \<noteq> FWD" "fw_command (action_rule (r_action rs)) = F_REJECT \<Longrightarrow> r_proto rs = TCP"
  using assms by (auto simp: action_listed_def action_rule_def split: proto.splits action.splits)

lemma readable_add_rule:
  assumes "std_tables db" "readable rs src sport dst dport" "action_listed rs"
    and "r_proto rs = TCP \<Longrightarrow> r_option rs = FRAG \<Longrightarrow> sport = None \<and> dport = None"
  shows "add_rule db (drop 3 (rule_words rs)) = Ok (written_rule rs src sport dst dport)"
  unfolding readable_rule_words [OF assms(2)] add_action_words [OF listed_action(1) [OF assms(3)]] written_rule_def
  by (rule add_body_words [OF assms(1) fresh_action_rule _ _ _ _ _ add_options_words])
    (use assms(2,4) listed_action [OF assms(3)] in \<open>auto simp: readable_def\<close>)

lemma readable_parsed:
  assumes "std_tables db" "readable rs src sport dst dport" "action_listed rs"
    and "r_proto rs = TCP \<Longrightarrow> r_option rs = FRAG \<Longrightarrow> sport = None \<and> dport = None"
  shows "ipfw_main db (command_words (filter_text rs)) = add_result db (written_rule rs src sport dst dport)"
    "ipfw_main db (command_words (filter_text rs @ [nl])) = add_result db (written_rule rs src sport dst dport)"
  using readable_add_rule [OF assms] readable_words [OF assms(2), of "[]"] by (simp_all add: ipfw_q_add_rule)

subsection \<open>The rule that was asked for\<close>

text \<open>
  The ICMP types that the names in the option box have (\<open>ipfw(8)\<close>, RFC 792): echo request 8, destination
  unreachable 3, echo reply 0. \<open>asked\<close> is the rule that the choices in the dialog ask for; \<open>echo_as_redirect\<close> is
  what becomes of it: for \<open>Echo Request\<close> the type is 5, redirect.
\<close>

definition asked_types :: "int \<Rightarrow> nat set" where
  "asked_types n = (if n = ECHO_REQUEST then {8} else if n = DEST_UNREACH then {3} else if n = ECHO_REPLY then {0} else {})"

definition asked :: "ruleset \<Rightarrow> endpoint \<Rightarrow> nat option \<Rightarrow> endpoint \<Rightarrow> nat option \<Rightarrow> ip_fw" where
  "asked rs src sport dst dport =
     (let r = written_rule rs src sport dst dport
      in if r_proto rs = ICMP then r\<lparr>fw_icmptypes := asked_types (r_option rs)\<rparr> else r)"

definition echo_as_redirect :: "ruleset \<Rightarrow> ip_fw \<Rightarrow> ip_fw" where
  "echo_as_redirect rs r = (if r_proto rs = ICMP \<and> r_option rs = ECHO_REQUEST then r\<lparr>fw_icmptypes := {5}\<rparr> else r)"

lemma written_asked: "written_rule rs src sport dst dport = echo_as_redirect rs (asked rs src sport dst dport)"
proof -
  have "fw_icmptypes (ends_rule (action_rule (r_action rs)) (r_proto rs) src sport dst dport) = {}"
    by (cases "r_action rs") (simp_all add: ends_rule_def action_rule_def zero_fw_def)
  then show ?thesis
    by (cases "r_proto rs")
      (auto simp: echo_as_redirect_def asked_def asked_types_def written_rule_def built_rule_def option_rule_def add_flags_def Let_def)
qed

subsection \<open>Forwarding rules\<close>

definition forward_rule :: "32 word \<Rightarrow> nat \<Rightarrow> ip_fw" where
  "forward_rule ip port = zero_fw\<lparr>fw_command := F_FWD, fw_fwd_ip := ip, fw_fwd_port := port\<rparr>"

text \<open>The fields of a forwarding rule: a host to forward to, two ends, and a destination port.\<close>

definition forwards :: "ruleset \<Rightarrow> endpoint \<Rightarrow> endpoint \<Rightarrow> nat option \<Rightarrow> nat \<times> nat \<times> nat \<times> nat \<Rightarrow> nat \<Rightarrow> bool" where
  "forwards rs src dst dport to port \<longleftrightarrow>
     r_action rs = FWD \<and> r_proto rs \<in> {TCP, UDP} \<and>
     r_src rs = endpoint_text src \<and> r_dst rs = endpoint_text dst \<and> endpoint_ok src \<and> endpoint_ok dst \<and>
     r_dst_port rs = port_text dport \<and> port_ok dport \<and>
     (case to of (a, b, c, d) \<Rightarrow> r_other_a rs = dotted a b c d \<and> endpoint_ok (Host a b c d) \<and> ip_word a b c d \<noteq> 0) \<and>
     r_other_b rs = dec port \<and> port < 65536"

lemma forward_to_words:
  assumes "endpoint_ok (Host a b c d)" and "ip_word a b c d \<noteq> 0" and "port < 65536"
  shows "forward_to db r ((dotted a b c d @ '','' @ dec port) # av) =
    Ok (r\<lparr>fw_fwd_port := port, fw_fwd_ip := ip_word a b c d\<rparr>, av)"
proof -
  let ?s = "dotted a b c d @ '','' @ dec port"
  have "CHR '':'' \<notin> set ?s" "CHR '','' \<notin> set (dotted a b c d)"
    using dotted_no_cut set_dotted by (fastforce dest: dec_digits simp: isdigit_def)+
  then have cut: "cut_at CHR '':'' ?s = None" "cut_at CHR '','' ?s = Some (dotted a b c d, dec port)"
    using cut_at_first [of "CHR '',''" "dotted a b c d" "dec port"] by (simp_all add: cut_at_none)
  have "u_short (int port) = port" using assms(3) by (simp add: u_short_def)
  then show ?thesis
    using cut assms fill_ip_endpoint [OF assms(1), of db av]
    by (simp add: forward_to_def lookup_port_dec del: append_Cons)
qed

lemma add_forward_words:
  assumes "endpoint_ok (Host a b c d)" and "ip_word a b c d \<noteq> 0" and "port < 65536"
  shows "add_rule db (''fwd'' # (dotted a b c d @ '','' @ dec port) # ws) =
    add_body db (forward_rule (ip_word a b c d) port, ws)"
proof -
  have "add_number (zero_fw, ''fwd'' # av) = (zero_fw, ''fwd'' # av)"
    "add_prob db (zero_fw, ''fwd'' # av) = Ok (zero_fw, ''fwd'' # av)" for av
    by (simp_all add: add_number_def add_prob_def starts_digit_def isdigit_def kw_def strncmp_eq_def split: list.split)
  moreover have "add_action db (zero_fw, ''fwd'' # av) =
      bind_o (forward_to db (zero_fw\<lparr>fw_command := F_FWD\<rparr>) av) (\<lambda>(r, av). Ok (r, av, False))" for av
    by (simp add: add_action_def kw_def strncmp_eq_def)
  moreover have "(zero_fw\<lparr>fw_command := F_FWD\<rparr>)\<lparr>fw_fwd_port := port, fw_fwd_ip := ip_word a b c d\<rparr> =
      forward_rule (ip_word a b c d) port"
    by (simp add: forward_rule_def zero_fw_def)
  ultimately show ?thesis
    by (simp add: add_rule_def forward_to_words [OF assms] del: append_Cons)
qed

lemma fresh_forward_rule: "fresh_rule (forward_rule ip port)" "fw_command (forward_rule ip port) = F_FWD"
  by (simp_all add: fresh_rule_def forward_rule_def zero_fw_def)

lemma text_words:
  "blank_free (dotted a b c d)" "blank_free (dec n)" "nl \<notin> set (dotted a b c d)" "nl \<notin> set (dec n)"
  "take 3 (dec n) \<noteq> ''any''"
proof -
  show "blank_free (dotted a b c d)" "nl \<notin> set (dotted a b c d)"
    using text_plain(1,4) [of "Host a b c d"] by simp_all
  show "blank_free (dec n)" "nl \<notin> set (dec n)"
    using text_plain(3,5) [of "Some n"] by (simp_all add: port_text_def)
  show "take 3 (dec n) \<noteq> ''any''"
  proof
    assume "take 3 (dec n) = ''any''"
    then have "CHR ''a'' \<in> set (dec n)" by (metis in_set_takeD list.set_intros(1))
    then show False by (auto simp: isdigit_def dest!: dec_digits)
  qed
qed

lemma fwd_join_words:
  "fwd_join s ''any'' @ ws = s # ''to'' # ws" "fwd_join s (dec n) @ ws = s # (dec n @ ''to'') # ws"
  by (simp_all add: fwd_join_def text_words)

lemma forwards_fields:
  assumes "forwards rs src dst dport to port"
  shows "blank_free (r_src rs)" "r_src rs \<noteq> []" "blank_free (r_dst rs)" "r_dst rs \<noteq> []"
    "blank_free (r_dst_port rs)" "blank_free (r_other_a rs)" "blank_free (r_other_b rs)"
    "nl \<notin> set (r_src_port rs) \<Longrightarrow> nl \<notin> set (fwd_text rs)"
  using assms text_words
  by (auto simp: forwards_def fwd_text_def fwd_tail_def proto_text_def split: prod.splits)

lemma forwards_words:
  assumes "forwards rs src dst dport (a, b, c, d) port"
  shows "fwd_words rs = ''/sbin/ipfw'' # ''-q'' # ''add'' # ''fwd'' # (dotted a b c d @ '','' @ dec port) #
    proto_text (r_proto rs) # ''from'' # fwd_join (endpoint_text src) (r_src_port rs) @
    endpoint_text dst # port_args dport"
  using assms text_words(5)
  by (auto simp: forwards_def fwd_words_def port_args_def port_text_def split: option.split)

text \<open>What the command of a forwarding rule is for ipfw, up to the ends of the rule.\<close>

lemma forward_command_words_of:
  assumes "fwd_command rs = Some cmd" and "forwards rs src dst dport (a, b, c, d) port"
    and "blank_free (r_src_port rs)" "nl \<notin> set (r_src_port rs)"
  shows "ipfw_main db (command_words cmd) =
    (let ws = proto_text (r_proto rs) # ''from'' # fwd_join (endpoint_text src) (r_src_port rs) @
       endpoint_text dst # port_args dport
     in bind_o (add db (''fwd'' # (dotted a b c d @ '','' @ dec port) # ws)) (\<lambda>x. Ok (Requests x)))"
proof -
  have "r_proto rs = TCP \<or> r_proto rs = UDP" using assms(2) by (simp add: forwards_def)
  then have "cmd = fwd_text rs" using assms(1) by (auto simp: fwd_command_eq split: if_splits)
  then have "command_words cmd = fwd_words rs"
    using fwd_text_words forwards_fields [OF assms(2)] assms(3,4) by (simp add: command_words_line)
  then show ?thesis
    by (simp add: forwards_words [OF assms(2)] ipfw_q_add del: append_Cons)
qed

lemma add_forward_rule:
  assumes "forwards rs src dst dport (a, b, c, d) port"
  shows "add_rule db (''fwd'' # (dotted a b c d @ '','' @ dec port) # ws) =
    add_body db (forward_rule (ip_word a b c d) port, ws)"
  by (rule add_forward_words) (use assms in \<open>simp_all add: forwards_def\<close>)

text \<open>A source port to which \<open>to\<close> is glued.\<close>

lemma glued_port:
  assumes "n < 65536" and "\<And>p. servbyname db (dec n @ ''to'') p = None"
  shows "fill_port db (dec n @ ''to'') proto pts = Fail (EX_DATAERR (dec n @ ''to''))"
    "starts_digit (dec n @ ''to'')"
proof -
  let ?s = "dec n @ ''to''"
  have c: "\<forall>c \<in> set ?s. c \<noteq> CHR 0x5C \<and> c \<noteq> CHR '','' \<and> c \<noteq> CHR ''-'' \<and> c \<noteq> CHR '':''"
    using not_special_dec by auto
  then have "port_scan ?s = (?s, [])" "commas ?s = [?s]"
    using port_scan_plain [of ?s] commas_plain [of ?s] by auto
  moreover have "length (dec n) \<le> 5" using assms(1) length_dec_le [of 5 n] by simp
  then have "snprintf 32 ?s = ?s" "port_word nodash ?s = ?s" for nodash
    using c by (simp add: snprintf_fits, intro port_word_dec, simp)
  moreover have "snd (strtoul 0 ?s) \<noteq> []"
    using assms(1) strtoul_dec_append [of n "''to''"] by (simp add: digit_value_def)
  ultimately show "fill_port db ?s proto pts = Fail (EX_DATAERR ?s)"
    using assms(2) by (cases "strtoul 0 ?s") (auto simp: fill_port_def lookup_port_def)
  show "starts_digit ?s" by (simp add: starts_digit_def)
qed

lemma atoi_dec_to: "n < 2 ^ 31 \<Longrightarrow> atoi (dec n @ ''to'') = int n"
proof -
  assume l: "n < 2 ^ 31"
  have h: "isdigit (hd (dec n @ ''to''))" by (simp add: hd_append isdigit_hd_dec)
  have "takeWhile isdigit (dec n @ ''to'') = dec n"
    by (subst takeWhile_append2) (auto dest: dec_digits simp: isdigit_def)
  then have "digits_value (dec n @ ''to'') = int n"
    using digits_value_dec [of n] by (simp add: digits_value_def)
  then show ?thesis
    using h l digit_not_space [OF h] by (intro atoi_small) (cases "dec n"; auto simp: number_value_def)
qed

lemma inet_aton_to:
  assumes "a < 256" "b < 256" "c < 256" "d < 256"
  shows "inet_aton (dotted a b c d @ ''to'') = None"
proof -
  have lt: "a < 2 ^ 32" "b < 2 ^ 32" "c < 2 ^ 32" "d < 2 ^ 32" using assms by simp_all
  note n = aton_number_dec [OF lt(1)] aton_number_dec [OF lt(2)] aton_number_dec [OF lt(3)] aton_number_dec [OF lt(4), of "''to''"]
  have "aton_parts 3 (dotted a b c d @ ''to'') = Some ([a, b, c, d], ''to'')"
    by (simp add: dotted_def eval_nat_numeral n)
  then show ?thesis by (simp add: inet_aton_def isspace_def)
qed

definition fails :: "'a outcome \<Rightarrow> bool" where
  "fails m \<longleftrightarrow> (\<exists>e. m = Fail e)"

lemma fails_bind: "fails m \<Longrightarrow> fails (bind_o m f)"
  by (auto simp: fails_def)

lemma fails_bind2: "m \<noteq> Undefined \<Longrightarrow> (\<And>x. m = Ok x \<Longrightarrow> fails (f x)) \<Longrightarrow> fails (bind_o m f)"
  by (cases m) (auto simp: fails_def)

definition defined :: "'a outcome \<Rightarrow> bool" where
  "defined m \<longleftrightarrow> m \<noteq> Undefined"

lemma defined_simps [simp]: "defined (Ok x)" "defined (Fail e)"
  by (simp_all add: defined_def)

lemma defined_bind [intro]: "defined m \<Longrightarrow> (\<And>x. m = Ok x \<Longrightarrow> defined (f x)) \<Longrightarrow> defined (bind_o m f)"
  by (cases m) (auto simp: defined_def)

lemma lookup_port_defined [intro]: "defined (lookup_port db a proto t n)"
  by (simp add: lookup_port_def Let_def split: prod.split option.split)

lemma add_port_defined [intro]: "defined (add_port pts p)"
  by (simp add: add_port_def)

lemma add_ports_defined [intro]: "defined (add_ports db proto args pts)"
  by (induction args arbitrary: pts) auto

lemma port_or_defined [intro]: "defined (port_or db a proto d pts)"
  by (auto simp: port_or_def)

lemma fill_port_defined [intro]: "defined (fill_port db arg proto pts)"
  by (auto simp: fill_port_def split: prod.split list.split intro!: defined_bind port_or_defined add_ports_defined)

text \<open>An address to which \<open>to\<close> is glued.\<close>

lemma glued_source:
  assumes "endpoint_ok src" and "hostbyname db (endpoint_text src @ ''to'') = None" and "\<forall>a b c d n. src \<noteq> Network a b c d n"
  shows "fails (add_src db (r, (endpoint_text src @ ''to'') # av))"
proof (cases src)
  case (Host a b c d)
  have k: "\<not> kw (dotted a b c d @ ''to'') ''me''" "\<not> kw (dotted a b c d @ ''to'') ''any''"
    using kw_dotted [of "''me''" a b c d "''to''"] kw_dotted [of "''any''" a b c d "''to''"] by (simp_all add: isdigit_def)
  have "lookup_host db (dotted a b c d @ ''to'') = None"
    using assms Host by (simp add: lookup_host_def inet_aton_to)
  moreover have "cut_at CHR ''/'' (dotted a b c d @ ''to'') = None" "cut_at CHR '':'' (dotted a b c d @ ''to'') = None"
    using dotted_no_cut [of a b c d] by (auto intro!: cut_at_none)
  ultimately show ?thesis
    using k by (simp add: Host add_src_def fill_ip_def fails_def)
next
  case Anyone
  have "inet_aton ''anyto'' = None" by code_simp
  then have "fill_ip db (''anyto'' # av) = Fail (EX_NOHOST ''anyto'')"
    using assms(2) Anyone by (simp add: fill_ip_def kw_def strncmp_eq_def cut_at_def lookup_host_def)
  then show ?thesis by (simp add: Anyone add_src_def kw_def strncmp_eq_def fails_def)
next
  case This_host
  have "inet_aton ''meto'' = None" by code_simp
  then have "fill_ip db (''meto'' # av) = Fail (EX_NOHOST ''meto'')"
    using assms(2) This_host by (simp add: fill_ip_def kw_def strncmp_eq_def cut_at_def lookup_host_def)
  then show ?thesis by (simp add: This_host add_src_def kw_def strncmp_eq_def fails_def)
qed (use assms in simp)

lemma glued_network:
  assumes "endpoint_ok (Network a b c d n)"
  shows "\<exists>r'. add_src db (r, (endpoint_text (Network a b c d n) @ ''to'') # av) = Ok (r', av)"
proof -
  have k: "\<not> kw (dotted a b c d @ CHR ''/'' # dec n @ ''to'') ''me''" "\<not> kw (dotted a b c d @ CHR ''/'' # dec n @ ''to'') ''any''"
    using kw_dotted [of "''me''" a b c d] kw_dotted [of "''any''" a b c d] by (simp_all add: isdigit_def)
  have "lookup_host db (dotted a b c d) = Some (ip_word a b c d)"
    using assms by (simp add: lookup_host_def inet_aton_dotted)
  then show ?thesis
    using k assms by (simp add: add_src_def fill_ip_def cut_at_first dotted_no_cut width_mask_prefix atoi_dec_to)
qed

lemma no_to_word: "endpoint_ok dst \<Longrightarrow> \<not> kw (endpoint_text dst) ''to''"
  using kw_endpoint [of dst "''to''"] by (cases dst) (simp_all add: kw_def strncmp_eq_def isdigit_def)

lemma no_to_args: "endpoint_ok dst \<Longrightarrow> fails (add_to db (r, endpoint_text dst # av))" "fails (add_to db (r, port_args p))"
  using no_to_word [of dst] kw_digit [of "dec (the p)" "''to''"] isdigit_hd_dec [of "the p"]
  by (auto simp: add_to_def end_word_def fails_def port_args_def isdigit_def split: option.split)

lemma glued_fails:
  assumes "endpoint_ok src" "endpoint_ok dst" and "hostbyname db (endpoint_text src @ ''to'') = None"
  shows "fails (bind_o (add_from db (r, ''from'' # (endpoint_text src @ ''to'') # endpoint_text dst # port_args p)) (\<lambda>x. bind_o (add_to db x) f))"
proof -
  let ?av = "endpoint_text dst # port_args p"
  have n: "\<not> kw (endpoint_text src @ ''to'') ''not''"
  proof (cases src)
    case (Host a b c d)
    then show ?thesis using kw_dotted [of "''not''" a b c d "''to''"] by (simp add: isdigit_def)
  next
    case (Network a b c d n)
    then show ?thesis using kw_dotted [of "''not''" a b c d] by (simp add: isdigit_def)
  qed (simp_all add: kw_def strncmp_eq_def)
  have f: "add_from db (r, ''from'' # (endpoint_text src @ ''to'') # ?av) =
      bind_o (add_src db (r, (endpoint_text src @ ''to'') # ?av)) (add_src_ports db)"
    using n by (simp add: add_from_def end_word_def)
  show ?thesis
  proof (cases "\<forall>a b c d n. src \<noteq> Network a b c d n")
    case True
    then show ?thesis using glued_source [OF assms(1,3)] by (simp add: f fails_bind del: append_Cons)
  next
    case False
    then obtain r' where r': "add_src db (r, (endpoint_text src @ ''to'') # ?av) = Ok (r', ?av)"
      using glued_network assms(1) by blast
    have "defined (add_src_ports db (r', ?av))"
      by (auto simp: add_src_ports_def)
    moreover have "fails (bind_o (add_to db x) f)" if "add_src_ports db (r', ?av) = Ok x" for x
      using that no_to_args assms(2)
      by (intro fails_bind) (auto simp: add_src_ports_def bind_o_eq_Ok split: if_splits)
    ultimately show ?thesis by (simp add: f r' fails_bind2 defined_def del: append_Cons)
  qed
qed

lemma forward_any_parsed:
  assumes "fwd_command rs = Some cmd" and "forwards rs src dst dport (a, b, c, d) port" and "r_src_port rs = ''any''"
    and "std_tables db"
  shows "ipfw_main db (command_words cmd) =
    add_result db (built_rule (forward_rule (ip_word a b c d) port) (r_proto rs) src None dst dport ANY NONE)"
proof -
  let ?p = "r_proto rs"
  have p: "?p \<in> {TCP, UDP}" using assms(2) by (simp add: forwards_def)
  have opts: "opts_mean db ?p ANY NONE []"
    using add_options_words [of db "zero_rule\<lparr>r_proto := ?p\<rparr>"] p
    by (auto simp: zero_rule_def dir_words_def option_words_def)
  have "add_body db (forward_rule (ip_word a b c d) port, proto_text ?p # ''from'' # endpoint_text src #
      port_args (if ?p \<in> {TCP, UDP} then None else None) @ ''to'' # endpoint_text dst #
      port_args (if ?p \<in> {TCP, UDP} then dport else None) @ []) =
    Ok (built_rule (forward_rule (ip_word a b c d) port) ?p src None dst dport ANY NONE)"
    by (rule add_body_words [OF assms(4) _ _ _ _ _ _ opts])
      (use assms(2) fresh_forward_rule in \<open>auto simp: forwards_def port_ok_def\<close>)
  then show ?thesis
    using p forward_command_words_of [OF assms(1,2)] add_forward_rule [OF assms(2)] assms(3)
    by (simp add: fwd_join_words blank_free_def port_args_def add_def add_result_def del: append_Cons)
qed

lemma forward_default_refused:
  assumes "fwd_command rs = Some cmd" and "forwards rs src dst dport (a, b, c, d) port" and "r_src_port rs = []"
    and "std_tables db" and "hostbyname db (endpoint_text src @ ''to'') = None"
  shows "\<exists>e. ipfw_main db (command_words cmd) = Ok (Requests ([], Some e))"
proof -
  have ok: "endpoint_ok src" "endpoint_ok dst" using assms(2) by (auto simp: forwards_def)
  have "fails (add_body db (forward_rule ip port, proto_text (r_proto rs) # ''from'' # (endpoint_text src @ ''to'') # endpoint_text dst # port_args dport))" for ip
    using glued_fails [OF ok assms(5)]
    by (subst add_proto_words [OF assms(4)]) (simp_all add: fresh_forward_rule del: append_Cons)
  then have "fails (add_body db (forward_rule (ip_word a b c d) port, proto_text (r_proto rs) # ''from'' #
      (endpoint_text src @ ''to'') # endpoint_text dst # port_args dport))" .
  then obtain e where e: "add_body db (forward_rule (ip_word a b c d) port, proto_text (r_proto rs) # ''from'' #
      (endpoint_text src @ ''to'') # endpoint_text dst # port_args dport) = Fail e"
    by (auto simp: fails_def)
  have j: "fwd_join (endpoint_text src) (r_src_port rs) @ ws = (endpoint_text src @ ''to'') # ws" for ws
    by (simp add: fwd_join_def assms(3))
  show ?thesis
    using forward_command_words_of [OF assms(1,2), of db] add_forward_rule [OF assms(2)] assms(3) e
    unfolding j by (simp add: add_def blank_free_def del: append_Cons)
qed

subsection \<open>What every rule satisfies\<close>

text \<open>The members that the options do not change, and the range of the others.\<close>

definition fw_head :: "ip_fw \<Rightarrow> nat list \<times> nat \<times> nat \<times> nat \<times> fw_command" where
  "fw_head r = (fw_pts r, fw_nsrcp r, fw_ndstp r, fw_prot r, fw_command r)"

definition types_ok :: "nat set \<Rightarrow> bool" where
  "types_ok T \<longleftrightarrow> (\<forall>t \<in> T. t < ICMPTYPES)"

definition fw_wf :: "ip_fw \<Rightarrow> bool" where
  "fw_wf r \<longleftrightarrow> length (fw_pts r) \<le> IP_FW_MAX_PORTS \<and> (\<forall>p \<in> set (fw_pts r). p < 65536) \<and>
     fw_nsrcp r + fw_ndstp r = length (fw_pts r) \<and> fw_prot r < 256 \<and> types_ok (fw_icmptypes r)"

definition services_ok :: "netdb \<Rightarrow> bool" where
  "services_ok db \<longleftrightarrow> (\<forall>s p n. servbyname db s p = Some n \<longrightarrow> n < 65536)"

definition ports_wf :: "nat list \<Rightarrow> bool" where
  "ports_wf pts \<longleftrightarrow> length pts \<le> IP_FW_MAX_PORTS \<and> (\<forall>p \<in> set pts. p < 65536)"

lemma lookup_port_range:
  "services_ok db \<Longrightarrow> lookup_port db s proto False nodash = Ok i \<Longrightarrow> nat i < 65536"
  by (auto simp: lookup_port_def services_ok_def Let_def split: prod.splits option.splits if_splits)

lemma add_port_wf: "add_port pts n = Ok pts' \<Longrightarrow> ports_wf pts \<Longrightarrow> n < 65536 \<Longrightarrow>
    ports_wf pts' \<and> length pts \<le> length pts'"
  by (auto simp: add_port_def ports_wf_def split: if_splits)

lemma port_or_wf: "services_ok db \<Longrightarrow> nat d < 65536 \<Longrightarrow> port_or db s proto d pts = Ok pts' \<Longrightarrow> ports_wf pts \<Longrightarrow>
    ports_wf pts' \<and> length pts \<le> length pts'"
  by (auto simp: port_or_def bind_o_eq_Ok split: if_splits dest: lookup_port_range add_port_wf)

lemma add_ports_wf: "services_ok db \<Longrightarrow> add_ports db proto ss pts = Ok pts' \<Longrightarrow> ports_wf pts \<Longrightarrow>
    ports_wf pts' \<and> length pts \<le> length pts'"
proof (induction ss arbitrary: pts)
  case (Cons s ss)
  then obtain i pts1 where "lookup_port db s proto False False = Ok i" "add_port pts (nat i) = Ok pts1"
    and rest: "add_ports db proto ss pts1 = Ok pts'"
    by (auto simp: bind_o_eq_Ok)
  then have "ports_wf pts1 \<and> length pts \<le> length pts1"
    using Cons.prems lookup_port_range add_port_wf by blast
  then show ?case using Cons.IH [OF Cons.prems(1) rest] by auto
qed simp

lemma fill_port_wf:
  assumes "services_ok db" and "fill_port db s proto pts = Ok (k, pts')" and "ports_wf pts"
  shows "ports_wf pts' \<and> length pts \<le> length pts'"
proof -
  have "nat 0 < 65536" "nat 65535 < 65536" by simp_all
  note or = this [THEN port_or_wf [OF assms(1)]]
  show ?thesis
    using assms(2,3) or add_ports_wf [OF assms(1)]
    by (auto simp: fill_port_def bind_o_eq_Ok split: prod.splits list.splits if_splits) (meson le_trans)+
qed

lemma fill_icmptypes_wf:
  "fill_icmptypes c T seen = Ok (T', s) \<Longrightarrow> types_ok (T) \<Longrightarrow> types_ok (T')"
proof (induction c T seen rule: fill_icmptypes.induct)
  case (1 c T seen)
  show ?case
  proof (cases "c = []")
    case False
    define c1 where "c1 = (if hd c = CHR '','' then tl c else c)"
    obtain n rest where n: "strtoul 0 c1 = (n, rest)" by force
    then have "\<not> (rest \<noteq> [] \<and> hd rest \<noteq> CHR '','')" "\<not> n \<ge> ICMPTYPES"
      and f: "fill_icmptypes rest (insert n T) True = Ok (T', s)"
      using 1(2) False by (subst (asm) fill_icmptypes.simps; simp add: c1_def [symmetric] split: if_splits)+
    then show ?thesis using 1(1) [OF False c1_def n [symmetric]] 1(3) by (auto simp: types_ok_def)
  qed (use 1 in \<open>simp add: fill_icmptypes.simps\<close>)
qed

lemma add_tcp_option_keeps:
  "add_tcp_option r a args = Ok (r', av) \<Longrightarrow> fw_head r' = fw_head r \<and> fw_icmptypes r' = fw_icmptypes r"
  by (auto simp: add_tcp_option_def fw_head_def bind_o_eq_Ok split: if_splits elim!: with_arg_shorter)

lemma add_icmp_option_keeps:
  "add_icmp_option r a args = Ok (r', av) \<Longrightarrow> fw_head r' = fw_head r \<and>
    (types_ok (fw_icmptypes r) \<longrightarrow> types_ok (fw_icmptypes r'))"
  by (auto simp: add_icmp_option_def fw_head_def bind_o_eq_Ok simp del: fill_icmptypes.simps split: if_splits
      elim!: with_arg_shorter dest!: fill_icmptypes_wf)

lemma add_limit_keeps:
  "add_limit r args = Ok (r', av) \<Longrightarrow> fw_head r' = fw_head r \<and> fw_icmptypes r' = fw_icmptypes r"
  by (auto simp: add_limit_def fw_head_def split: prod.splits list.splits if_splits)

lemma fw_head_upd [simp]:
  "fw_head (r\<lparr>fw_flg := F\<rparr>) = fw_head r" "fw_head (r\<lparr>fw_uid := u\<rparr>) = fw_head r"
  "fw_head (r\<lparr>fw_gid := u\<rparr>) = fw_head r" "fw_head (r\<lparr>dyn_type := t\<rparr>) = fw_head r"
  "fw_head (r\<lparr>fw_out_if := i\<rparr>) = fw_head r" "fw_head (r\<lparr>fw_in_if := i\<rparr>) = fw_head r"
  "fw_head (r\<lparr>fw_ipopt := o1\<rparr>) = fw_head r" "fw_head (r\<lparr>fw_ipnopt := o1\<rparr>) = fw_head r"
  "fw_head (r\<lparr>fw_logamount := n\<rparr>) = fw_head r" "fw_head (r\<lparr>fw_loghighest := n\<rparr>) = fw_head r"
  by (simp_all add: fw_head_def)

lemma add_option_keeps:
  assumes "add_option db (r, x, v) a args = Ok ((r', x', v'), av)"
  shows "fw_head r' = fw_head r \<and> (types_ok (fw_icmptypes r) \<longrightarrow> types_ok (fw_icmptypes r'))"
  using assms
  by (auto simp: add_option_def Let_def bind_o_eq_Ok split: if_splits list.splits prod.splits
      elim!: with_arg_shorter dest!: add_tcp_option_keeps add_icmp_option_keeps add_limit_keeps)

lemma add_options_keeps:
  "add_options db st args = Ok st' \<Longrightarrow> fw_head (fst st') = fw_head (fst st) \<and>
    (types_ok (fw_icmptypes (fst st)) \<longrightarrow> types_ok (fw_icmptypes (fst st')))"
proof (induction db st args rule: add_options.induct)
  case (2 db st a args)
  then obtain st1 av where o: "add_option db st a args = Ok (st1, av)" and rest: "add_options db st1 av = Ok st'"
    by (auto simp: bind_o_eq_Ok)
  have "fw_head (fst st1) = fw_head (fst st) \<and>
      (types_ok (fw_icmptypes (fst st)) \<longrightarrow> types_ok (fw_icmptypes (fst st1)))"
    using add_option_keeps o by (cases st; cases st1) auto
  then show ?case using 2(1) [OF o _ rest] by auto
qed simp

text \<open>A rule before its protocol is read.\<close>

definition fw_base :: "ip_fw \<Rightarrow> bool" where
  "fw_base r \<longleftrightarrow> fw_pts r = [] \<and> fw_nsrcp r = 0 \<and> fw_ndstp r = 0 \<and> fw_prot r = 0 \<and> fw_icmptypes r = {}"

lemma add_prob_base: "add_prob db (add_number (zero_fw, args)) = Ok (r, av) \<Longrightarrow> fw_base r"
  by (auto simp: add_prob_def add_number_def fw_base_def zero_fw_def split: list.splits if_splits option.splits)

lemma forward_to_base: "forward_to db r args = Ok (r', av) \<Longrightarrow> fw_base r \<Longrightarrow> fw_base r'"
  by (auto simp: forward_to_def fw_base_def bind_o_eq_Ok split: list.splits if_splits prod.splits)

lemma add_action_base:
  "add_action db (r, args) = Ok (r', av, fin) \<Longrightarrow> fw_base r \<Longrightarrow> fw_base r' \<and> (fin \<longrightarrow> fw_command r' = F_CHECK_S)"
  by (auto simp: add_action_def bind_o_eq_Ok split: list.splits if_splits dest!: forward_to_base)
    (simp_all add: fw_base_def)

lemma add_log_base: "add_log (r, args) = Ok (r', av) \<Longrightarrow> fw_base r \<Longrightarrow> fw_base r'"
  by (auto simp: add_log_def add_logamount_def fw_base_def split: list.splits if_splits)

lemma add_proto_range:
  "add_proto db (r, args) = Ok (r', av) \<Longrightarrow> fw_base r \<Longrightarrow>
    fw_prot r' < 256 \<and> fw_pts r' = [] \<and> fw_nsrcp r' = 0 \<and> fw_ndstp r' = 0 \<and> fw_icmptypes r' = {}"
  by (auto simp: add_proto_def fw_base_def bind_o_eq_Ok Let_def nat_less_iff IPPROTO_IP_def IPPROTO_TCP_def
      split: list.splits if_splits option.splits)

lemma ports_wf_Nil [simp]: "ports_wf []"
  by (simp add: ports_wf_def)

lemma end_parts_keep:
  "end_word w nflag (r, args) = Ok (r', av) \<Longrightarrow> fw_head r' = fw_head r \<and> fw_icmptypes r' = fw_icmptypes r"
  "add_src db (r, args) = Ok (r', av) \<Longrightarrow> fw_head r' = fw_head r \<and> fw_icmptypes r' = fw_icmptypes r"
  "add_dst db (r, args) = Ok (r', av) \<Longrightarrow> fw_head r' = fw_head r \<and> fw_icmptypes r' = fw_icmptypes r"
  by (auto simp: end_word_def add_src_def add_dst_def bind_o_eq_Ok fw_head_def split: list.splits if_splits)

lemma add_from_wf:
  assumes "add_from db (r, args) = Ok (r', av)" and "services_ok db" and "fw_pts r = []" "fw_nsrcp r = 0"
  shows "ports_wf (fw_pts r') \<and> fw_nsrcp r' = length (fw_pts r') \<and> fw_ndstp r' = fw_ndstp r \<and>
    fw_prot r' = fw_prot r \<and> fw_icmptypes r' = fw_icmptypes r"
proof -
  obtain r1 a1 r2 a2 where "end_word ''from'' F_INVSRC (r, args) = Ok (r1, a1)" "add_src db (r1, a1) = Ok (r2, a2)"
    and p: "add_src_ports db (r2, a2) = Ok (r', av)"
    using assms(1) by (auto simp: add_from_def bind_o_eq_Ok)
  then have "fw_head r2 = fw_head r" "fw_icmptypes r2 = fw_icmptypes r"
    using end_parts_keep by metis+
  then have h: "fw_pts r2 = []" "fw_nsrcp r2 = 0" "fw_ndstp r2 = fw_ndstp r" "fw_prot r2 = fw_prot r"
    "fw_icmptypes r2 = fw_icmptypes r"
    using assms(3,4) by (simp_all add: fw_head_def)
  show ?thesis
  proof (cases "ports_follow db (fw_prot r2) a2")
    case True
    then obtain k pts where "fill_port db (hd a2) (fw_prot r2) [] = Ok (k, pts)" and
      "fw_pts r' = pts" "fw_nsrcp r' = length pts" "fw_ndstp r' = fw_ndstp r2" "fw_prot r' = fw_prot r2"
      "fw_icmptypes r' = fw_icmptypes r2"
      using p by (auto simp: add_src_ports_def bind_o_eq_Ok)
    then show ?thesis using h fill_port_wf [OF assms(2)] by fastforce
  qed (use p h in \<open>auto simp: add_src_ports_def\<close>)
qed

lemma add_to_wf:
  assumes "add_to db (r, args) = Ok (r', av)" and "services_ok db" and "ports_wf (fw_pts r)"
    and "fw_nsrcp r = length (fw_pts r)" "fw_ndstp r = 0"
  shows "ports_wf (fw_pts r') \<and> fw_nsrcp r' + fw_ndstp r' = length (fw_pts r') \<and>
    fw_prot r' = fw_prot r \<and> fw_icmptypes r' = fw_icmptypes r"
proof -
  obtain r1 a1 r2 a2 where "end_word ''to'' F_INVDST (r, args) = Ok (r1, a1)" "add_dst db (r1, a1) = Ok (r2, a2)"
    and p: "add_dst_ports db (r2, a2) = Ok (r', av)"
    using assms(1) by (auto simp: add_to_def bind_o_eq_Ok)
  then have "fw_head r2 = fw_head r" "fw_icmptypes r2 = fw_icmptypes r"
    using end_parts_keep by metis+
  then have h: "fw_pts r2 = fw_pts r" "fw_nsrcp r2 = length (fw_pts r)" "fw_ndstp r2 = 0" "fw_prot r2 = fw_prot r"
    "fw_icmptypes r2 = fw_icmptypes r"
    using assms(4,5) by (simp_all add: fw_head_def)
  show ?thesis
  proof (cases "ports_follow db (fw_prot r2) a2")
    case True
    then obtain k pts where f: "fill_port db (hd a2) (fw_prot r2) (fw_pts r2) = Ok (k, pts)" and
      "fw_pts r' = pts" "fw_nsrcp r' = fw_nsrcp r2" "fw_ndstp r' = length pts - fw_nsrcp r2" "fw_prot r' = fw_prot r2"
      "fw_icmptypes r' = fw_icmptypes r2"
      using p by (auto simp: add_dst_ports_def bind_o_eq_Ok)
    moreover have "ports_wf pts \<and> length (fw_pts r2) \<le> length pts"
      using fill_port_wf [OF assms(2) f] assms(3) h(1) by simp
    ultimately show ?thesis using h by simp
  qed (use p h assms(3) in \<open>auto simp: add_dst_ports_def\<close>)
qed

lemma add_finish_keeps:
  assumes "add_finish db (r, x, v) = Ok r'"
  shows "fw_head r' = fw_head r" "fw_icmptypes r' = fw_icmptypes r"
    "F_IN \<in> fw_flg r' \<or> F_OUT \<in> fw_flg r'"
    "F_FRAG \<in> fw_flg r' \<Longrightarrow> fw_nsrcp r' = 0 \<and> fw_ndstp r' = 0 \<and> fw_tcpf r' = {} \<and> fw_tcpnf r' = {}"
  using assms
  by (auto simp: add_finish_def add_direction_def add_via_def add_frag_def add_loglimit_def bind_o_eq_Ok
      split: if_splits option.splits)

lemma add_body_wf:
  assumes "add_body db (r, args) = Ok r'" and "services_ok db" and "fw_base r"
  shows "fw_wf r' \<and> (fw_pts r' \<noteq> [] \<longrightarrow> fw_prot r' \<in> {IPPROTO_TCP, IPPROTO_UDP}) \<and>
    (F_IN \<in> fw_flg r' \<or> F_OUT \<in> fw_flg r') \<and>
    (F_FRAG \<in> fw_flg r' \<longrightarrow> fw_pts r' = [] \<and> fw_tcpf r' = {} \<and> fw_tcpnf r' = {})"
proof -
  obtain r1 a1 r2 a2 r3 a3 r4 a4 r5 x5 v5 where
    l: "add_log (r, args) = Ok (r1, a1)" and p: "add_proto db (r1, a1) = Ok (r2, a2)" and
    f: "add_from db (r2, a2) = Ok (r3, a3)" and t: "add_to db (r3, a3) = Ok (r4, a4)" and
    w: "ports_allowed r4 = Ok r4" and o: "add_options db (r4, False, False) a4 = Ok (r5, x5, v5)" and
    e: "add_finish db (r5, x5, v5) = Ok r'"
    using assms(1) by (auto simp: add_body_def bind_o_eq_Ok ports_allowed_def split: if_splits)
  note p' = add_proto_range [OF p add_log_base [OF l assms(3)]]
  have f': "ports_wf (fw_pts r3) \<and> fw_nsrcp r3 = length (fw_pts r3) \<and> fw_ndstp r3 = fw_ndstp r2 \<and>
      fw_prot r3 = fw_prot r2 \<and> fw_icmptypes r3 = fw_icmptypes r2"
    by (rule add_from_wf [OF f assms(2)]) (use p' in simp_all)
  have t': "ports_wf (fw_pts r4) \<and> fw_nsrcp r4 + fw_ndstp r4 = length (fw_pts r4) \<and>
      fw_prot r4 = fw_prot r3 \<and> fw_icmptypes r4 = fw_icmptypes r3"
    by (rule add_to_wf [OF t assms(2)]) (use p' f' in simp_all)
  have o': "fw_head r5 = fw_head r4" "types_ok (fw_icmptypes r5)"
    using add_options_keeps [OF o] p' f' t' by (simp_all add: types_ok_def)
  note e' = add_finish_keeps [OF e]
  have "fw_head r' = fw_head r4" using e' o' by simp
  then show ?thesis
    using p' f' t' o'(2) e'(2-4) w
    by (auto simp: fw_head_def fw_wf_def ports_wf_def ports_allowed_def split: if_splits)
qed

subsection \<open>Properties\<close>

text \<open>Tables with the usual protocols and no services or hosts, and a kernel that accepts everything.\<close>

definition plain_db :: netdb where
  "plain_db = \<lparr>protobyname = [''ip'' \<mapsto> 0, ''icmp'' \<mapsto> 1, ''tcp'' \<mapsto> 6, ''udp'' \<mapsto> 17], protobynumber = (\<lambda>_. None),
     servbyname = (\<lambda>_ _. None), hostbyname = (\<lambda>_. None), pwuid = (\<lambda>_. None), pwnam = (\<lambda>_. None),
     grgid = (\<lambda>_. None), grnam = (\<lambda>_. None), match_prob = (\<lambda>_. None), verbose_limit = Some 100,
     accepts = (\<lambda>_. True), stdin_tty = True, stdin_text = []\<rparr>"

lemma accepts_plain [simp]: "accepts plain_db q" "servbyname plain_db s p = None"
  by (simp_all add: plain_db_def)

lemma dec_examples:
  "dec 0 = ''0''" "dec 1 = ''1''" "dec 2 = ''2''" "dec 3 = ''3''" "dec 8 = ''8''" "dec 9 = ''9''" "dec 10 = ''10''"
  "dec 80 = ''80''" "dec 8080 = ''8080''"
  by (simp_all add: dec.simps digit_def char_of_def bit_Suc_0_iff)

lemma std_plain [simp]: "std_tables plain_db"
  by (simp add: std_tables_def plain_db_def)



text \<open>
  C29. A forwarding rule for any source port, when the source port is given as \<open>any\<close>: the command that
  \<open>__insert_rule\<close> writes is read as one request, to add a rule that forwards to the given host and port the packets
  between the two ends. With the empty source port, with which the dialog begins, it is not: \<open>to\<close> is
  glued to the source address, ipfw ends with an error, and the kernel is asked for nothing.
\<close>

theorem forward_rule_parsed:
  assumes "fwd_command rs = Some cmd" and "forwards rs src dst dport (a, b, c, d) port" and "std_tables db"
    and "hostbyname db (endpoint_text src @ ''to'') = None"
  shows "(r_src_port rs = ''any'' \<longrightarrow> ipfw_main db (command_words cmd) =
      add_result db (built_rule (forward_rule (ip_word a b c d) port) (r_proto rs) src None dst dport ANY NONE)) \<and>
    (r_src_port rs = [] \<longrightarrow> (\<exists>e. ipfw_main db (command_words cmd) = Ok (Requests ([], Some e))))"
  using forward_any_parsed [OF assms(1,2) _ assms(3)] forward_default_refused [OF assms(1,2) _ assms(3,4)] by blast

theorem forward_rule_parsed_witness:
  "ipfw_main plain_db (command_words ''/sbin/ipfw -q add fwd 10.0.0.9,8080 tcp from any to me 80'') =
    Ok (Requests ([FW_ADD (zero_fw\<lparr>fw_command := F_FWD, fw_fwd_ip := 0x0A000009, fw_fwd_port := 8080, fw_prot := 6,
      fw_pts := [80], fw_ndstp := 1, fw_flg := {F_IN, F_OUT, F_DME}\<rparr>)], None)) \<and>
   (\<exists>e. ipfw_main plain_db (command_words ''/sbin/ipfw -q add fwd 10.0.0.9,8080 tcp from anyto me 80'') = Ok (Requests ([], Some e)))"
proof -
  let ?r = "\<lambda>p. zero_rule\<lparr>r_action := FWD, r_proto := TCP, r_src := ''any'', r_src_port := p, r_dst := ''me'',
    r_dst_port := ''80'', r_other_a := ''10.0.0.9'', r_other_b := ''8080''\<rparr>"
  have c: "fwd_command (?r ''any'') = Some ''/sbin/ipfw -q add fwd 10.0.0.9,8080 tcp from any to me 80''"
    "fwd_command (?r []) = Some ''/sbin/ipfw -q add fwd 10.0.0.9,8080 tcp from anyto me 80''"
    by code_simp+
  have "dec 10 = ''10''" "dec 0 = ''0''" "dec 9 = ''9''" "dec 80 = ''80''" "dec 8080 = ''8080''"
    by (simp_all add: dec_examples)
  then have f: "forwards (?r p) Anyone This_host (Some 80) (10, 0, 0, 9) 8080" for p
    by (simp add: forwards_def port_text_def port_ok_def dotted_def ip_word_def)
  have h: "hostbyname plain_db (endpoint_text Anyone @ ''to'') = None" by (simp add: plain_db_def)
  show ?thesis
    using forward_rule_parsed [OF c(1) f std_plain h] forward_rule_parsed [OF c(2) f std_plain h]
    by (simp add: add_result_def built_rule_def ends_rule_def add_flags_def option_rule_def rule_ports_def port_list_def
        direction_flags_def protocol_number_def IPPROTO_TCP_def forward_rule_def zero_fw_def ip_word_def
        insert_commute)
qed

text \<open>
  C30. With a number for the source port it is not: the word \<open>to\<close> is glued to the number, ipfw
  ends with an error about that word, and the kernel is asked for nothing.
\<close>

theorem forward_port_refused:
  assumes "fwd_command rs = Some cmd" and "forwards rs src dst dport (a, b, c, d) port"
    and "r_src_port rs = dec n" and "n < 65536"
    and "std_tables db" and "\<And>p. servbyname db (dec n @ ''to'') p = None"
  shows "ipfw_main db (command_words cmd) = Ok (Requests ([], Some (EX_DATAERR (dec n @ ''to''))))"
proof -
  have src: "endpoint_ok src" using assms(2) by (simp add: forwards_def)
  have src_end: "add_from db (r, ''from'' # endpoint_text src # (dec n @ ''to'') # ws) =
      Fail (EX_DATAERR (dec n @ ''to''))" for r ws
    using glued_port [OF assms(4,6)] fill_ip_endpoint [OF src]
    by (cases "src = This_host") (simp_all add: add_from_def end_word_def add_src_def add_src_ports_def ports_follow_def del: append_Cons)
  have "add_body db (forward_rule ip port, proto_text (r_proto rs) # ''from'' # endpoint_text src # (dec n @ ''to'') # ws) =
      Fail (EX_DATAERR (dec n @ ''to''))" for ip ws
    by (subst add_proto_words [OF assms(5)]) (simp_all add: src_end fresh_forward_rule del: append_Cons)
  then show ?thesis
    using assms(3) forward_command_words_of [OF assms(1,2)] add_forward_rule [OF assms(2)] text_words
    by (simp add: fwd_join_words add_def del: append_Cons)
qed

theorem forward_port_refused_witness:
  "ipfw_main plain_db (command_words ''/sbin/ipfw -q add fwd 10.0.0.9,8080 tcp from any 80to me 80'') =
    Ok (Requests ([], Some (EX_DATAERR ''80to'')))"
proof -
  let ?r = "zero_rule\<lparr>r_action := FWD, r_proto := TCP, r_src := ''any'', r_src_port := ''80'', r_dst := ''me'',
    r_dst_port := ''80'', r_other_a := ''10.0.0.9'', r_other_b := ''8080''\<rparr>"
  have c: "fwd_command ?r = Some ''/sbin/ipfw -q add fwd 10.0.0.9,8080 tcp from any 80to me 80''"
    by code_simp
  have d: "dec 10 = ''10''" "dec 0 = ''0''" "dec 9 = ''9''" "dec 80 = ''80''" "dec 8080 = ''8080''"
    by (simp_all add: dec_examples)
  then have "forwards ?r Anyone This_host (Some 80) (10, 0, 0, 9) 8080"
    by (simp add: forwards_def port_text_def port_ok_def dotted_def ip_word_def)
  then show ?thesis
    using forward_port_refused [OF c, of Anyone This_host "Some 80" 10 0 0 9 8080 80 plain_db] d by simp
qed

text \<open>
  C16. The type of a rule: whatever the arguments are, a rule that ipfw sends to the kernel has at most
  ten ports, below 65536 and shared out between the two ends, a protocol of one byte and ICMP types
  below 128. Unless it is \<open>check-state\<close>, it has ports only for TCP and UDP, it has a direction, and
  \<open>frag\<close> is not mixed with ports or TCP flags.
\<close>

theorem added_rule_wf:
  assumes "add_rule db args = Ok r" and "services_ok db"
  shows "fw_wf r \<and> (fw_command r \<noteq> F_CHECK_S \<longrightarrow>
    (fw_pts r \<noteq> [] \<longrightarrow> fw_prot r \<in> {IPPROTO_TCP, IPPROTO_UDP}) \<and>
    (F_IN \<in> fw_flg r \<or> F_OUT \<in> fw_flg r) \<and>
    (F_FRAG \<in> fw_flg r \<longrightarrow> fw_pts r = [] \<and> fw_tcpf r = {} \<and> fw_tcpnf r = {}))"
proof -
  obtain r1 a1 r2 a2 fin where p: "add_prob db (add_number (zero_fw, args)) = Ok (r1, a1)" and
    a: "add_action db (r1, a1) = Ok (r2, a2, fin)" and
    b: "if fin then Ok r2 = Ok r else add_body db (r2, a2) = Ok r"
    using assms(1) by (auto simp: add_rule_def bind_o_eq_Ok split: if_splits)
  have r2: "fw_base r2" "fin \<Longrightarrow> fw_command r2 = F_CHECK_S"
    using add_action_base [OF a add_prob_base [OF p]] by auto
  show ?thesis
  proof (cases fin)
    case True
    then show ?thesis using b r2 by (simp add: fw_base_def fw_wf_def types_ok_def)
  next
    case False
    then show ?thesis using b add_body_wf [OF _ assms(2) r2(1)] by simp
  qed
qed

theorem added_rule_wf_witness:
  "\<exists>r. add_rule plain_db [''deny'', ''tcp'', ''from'', ''any'', ''to'', ''me'', ''80''] = Ok r \<and>
    fw_pts r = [80] \<and> fw_wf r"
proof -
  let ?r = "zero_rule\<lparr>r_action := DENY, r_proto := TCP, r_src := ''any'', r_dst := ''me'', r_dst_port := ''80''\<rparr>"
  have "dec 80 = ''80''" by (simp add: dec_examples)
  then have "readable ?r Anyone None This_host (Some 80)"
    by (simp add: readable_def zero_rule_def port_text_def port_ok_def)
  moreover have "drop 3 (rule_words ?r) = [''deny'', ''tcp'', ''from'', ''any'', ''to'', ''me'', ''80'']" "action_listed ?r"
    by code_simp+
  ultimately have r: "add_rule plain_db [''deny'', ''tcp'', ''from'', ''any'', ''to'', ''me'', ''80''] =
      Ok (written_rule ?r Anyone None This_host (Some 80))"
    using readable_add_rule [OF std_plain, of ?r Anyone None This_host "Some 80"] by (simp add: zero_rule_def)
  moreover have "services_ok plain_db" by (simp add: services_ok_def plain_db_def)
  ultimately have "fw_wf (written_rule ?r Anyone None This_host (Some 80))"
    using added_rule_wf by blast
  moreover have "fw_pts (written_rule ?r Anyone None This_host (Some 80)) = [80]"
    by (simp add: written_rule_def built_rule_def ends_rule_def add_flags_def option_rule_def rule_ports_def port_list_def
        zero_rule_def)
  ultimately show ?thesis using r by blast
qed

text \<open>
  A TCP rule for fragments that has a port is recorded, but ipfw refuses it: \<open>frag\<close> cannot be mixed
  with ports, and the kernel gets no rule.
\<close>

theorem frag_ports_refused:
  assumes "filter_command rs = Some cmd" and "readable rs src sport dst dport" and "std_tables db"
    and "r_proto rs = TCP" "r_option rs = FRAG" "sport \<noteq> None \<or> dport \<noteq> None"
  shows "ipfw_main db (command_words cmd) =
    Ok (Requests ([], Some (EX_DATAERR ''can't mix 'frag' and port specifications'')))"
proof -
  have cmd: "action_listed rs" "cmd = filter_text rs"
    using assms(1) by (auto simp: filter_command_eq split: if_splits)
  let ?a = "action_rule (r_action rs)"
  have "add_rule db (drop 3 (rule_words rs)) =
      add_finish db (option_rule (r_proto rs) (r_option rs) (add_flags (word_flags (r_ifs rs))
        (ends_rule ?a (r_proto rs) src sport dst dport)), False, False)"
    unfolding readable_rule_words [OF assms(2)] add_action_words [OF listed_action(1) [OF cmd(1)]]
    by (rule add_ends_words [OF assms(3) fresh_action_rule _ _ _ _ _ add_options_words])
      (use assms(2) listed_action [OF cmd(1)] in \<open>auto simp: readable_def\<close>)
  also have "\<dots> = Fail (EX_DATAERR ''can't mix 'frag' and port specifications'')"
    unfolding assms(4,5)
    by (rule add_finish_frag)
      (use assms(6) fresh_rule_sel [OF fresh_action_rule] in
        \<open>auto simp: rule_ports_def port_list_def split: option.split dest: subsetD [OF ends_rule_sel(1)]\<close>)
  finally show ?thesis
    using readable_words(1) [OF assms(2), of "[]"] by (simp add: cmd(2) ipfw_q_add_fail)
qed

theorem frag_ports_refused_witness:
  "ipfw_main plain_db (command_words ''/sbin/ipfw -q add deny tcp from any to me 80 frag'') =
    Ok (Requests ([], Some (EX_DATAERR ''can't mix 'frag' and port specifications'')))"
proof -
  let ?r = "zero_rule\<lparr>r_action := DENY, r_proto := TCP, r_src := ''any'', r_dst := ''me'', r_dst_port := ''80'',
    r_option := FRAG\<rparr>"
  have c: "filter_command ?r = Some ''/sbin/ipfw -q add deny tcp from any to me 80 frag''" by code_simp
  have "dec 80 = ''80''" by (simp add: dec_examples)
  then have "readable ?r Anyone None This_host (Some 80)"
    by (simp add: readable_def zero_rule_def port_text_def port_ok_def)
  from frag_ports_refused [OF c this std_plain] show ?thesis by simp
qed

end
