(* ===== verification/RuleTable.thy ===== *)
theory RuleTable
  imports IpfwProps NatCtl
begin

text \<open>
  The rule file as an abstract table. Every writer of \<open>/etc/rules\<close> (\<open>__insert_rule\<close>,
  \<open>raw_add_rule\<close>, the delete menu and \<open>raw_drop_rule\<close>) is an operation on a list of rules; a run of
  them is simulated by the list, and loading the file asks the kernel for exactly the list.
\<close>

subsection \<open>Simulation\<close>

text \<open>Runs of a step relation, and the operations that are allowed one after the other.\<close>

inductive runs :: "('op \<Rightarrow> 's \<Rightarrow> 's \<Rightarrow> bool) \<Rightarrow> 'op list \<Rightarrow> 's \<Rightarrow> 's \<Rightarrow> bool" for step where
  nothing: "runs step [] s s"
| more: "step op s s1 \<Longrightarrow> runs step ops s1 s2 \<Longrightarrow> runs step (op # ops) s s2"

inductive_simps runs_Nil: "runs step [] s s'"
inductive_simps runs_Cons: "runs step (op # ops) s s'"

fun all_ok :: "('op \<Rightarrow> 'a \<Rightarrow> 'a) \<Rightarrow> ('a \<Rightarrow> 'op \<Rightarrow> bool) \<Rightarrow> 'a \<Rightarrow> 'op list \<Rightarrow> bool" where
  "all_ok next_of ok a [] \<longleftrightarrow> True"
| "all_ok next_of ok a (op # ops) \<longleftrightarrow> ok a op \<and> all_ok next_of ok (next_of op a) ops"

text \<open>
  The contract of an implementation: every allowed operation can be done, and does to the
  state what its specification does to the abstract value.
\<close>

locale simulation =
  fixes step :: "'op \<Rightarrow> 's \<Rightarrow> 's \<Rightarrow> bool"
    and holds :: "'s \<Rightarrow> 'a \<Rightarrow> bool"
    and next_of :: "'op \<Rightarrow> 'a \<Rightarrow> 'a"
    and ok :: "'a \<Rightarrow> 'op \<Rightarrow> bool"
  assumes simulates: "step op s s' \<Longrightarrow> holds s a \<Longrightarrow> ok a op \<Longrightarrow> holds s' (next_of op a)"
    and enabled: "holds s a \<Longrightarrow> ok a op \<Longrightarrow> \<exists>s'. step op s s'"
begin

lemma run_simulates:
  "runs step ops s s' \<Longrightarrow> holds s a \<Longrightarrow> all_ok next_of ok a ops \<Longrightarrow> holds s' (fold next_of ops a)"
  by (induction arbitrary: a rule: runs.induct) (auto intro: simulates)

lemma run_enabled: "holds s a \<Longrightarrow> all_ok next_of ok a ops \<Longrightarrow> \<exists>s'. runs step ops s s'"
proof (induction ops arbitrary: s a)
  case (Cons op ops)
  then obtain s1 where "step op s s1" "holds s1 (next_of op a)"
    using enabled simulates by fastforce
  moreover from this obtain s2 where "runs step ops s1 s2" using Cons by auto
  ultimately show ?case by (auto simp: runs_Cons)
qed (auto simp: runs_Nil)

end

subsection \<open>The table and its operations\<close>

text \<open>A rule is what stands behind \<open>/sbin/ipfw -q\<close> in its line.\<close>

datatype table_op = Insert ruleset | Raw_add string | Raw_drop nat | Menu_delete nat

definition filter_body :: "ruleset \<Rightarrow> string" where
  "filter_body r = drop 13 (filter_text r)"

fun table_after :: "table_op \<Rightarrow> string list \<Rightarrow> string list" where
  "table_after (Insert r) ts = ts @ [filter_body r]"
| "table_after (Raw_add s) ts = ts @ ['' '' @ s]"
| "table_after (Raw_drop k) ts = take k ts @ drop (Suc k) ts"
| "table_after (Menu_delete k) ts = map menu_title (take k ts @ drop (Suc k) ts)"

text \<open>Which operations the program can do on a table without leaving its bounds.\<close>

fun op_ok :: "string list \<Rightarrow> table_op \<Rightarrow> bool" where
  "op_ok ts (Insert r) \<longleftrightarrow> r_action r \<noteq> FWD \<and> action_listed r \<and> length (filter_text r) < 255 \<and> nl \<notin> set (filter_text r)"
| "op_ok ts (Raw_add s) \<longleftrightarrow> nl \<notin> set s \<and> length s \<le> 240"
| "op_ok ts (Raw_drop k) \<longleftrightarrow> k < length ts"
| "op_ok ts (Menu_delete k) \<longleftrightarrow> k < length ts \<and> length ts \<le> RLIST_SIZE"

text \<open>The steps of the program, each a call that succeeds; \<open>beyond\<close> is the memory behind \<open>rlist\<close>.\<close>

inductive op_step :: "env \<Rightarrow> (nat \<Rightarrow> ritem) \<Rightarrow> table_op \<Rightarrow> world \<Rightarrow> world \<Rightarrow> bool" for env beyond where
  insert: "insert_rule_text env r w = Some (0, w') \<Longrightarrow> op_step env beyond (Insert r) w w'"
| raw_add: "raw_add_rule env s w = (0, w') \<Longrightarrow> op_step env beyond (Raw_add s) w w'"
| raw_drop: "raw_drop_rule env (int k + 1) w = Some (0, w') \<Longrightarrow> op_step env beyond (Raw_drop k) w w'"
| menu_delete: "delete_rule env beyond (Some k) w = Some (Rc 0, w') \<Longrightarrow> op_step env beyond (Menu_delete k) w w'"

inductive_cases op_step_cases: "op_step env beyond op w w'"

text \<open>The file holds the table.\<close>

definition holds_table :: "world \<Rightarrow> string list \<Rightarrow> bool" where
  "holds_table w ts \<longleftrightarrow> contents RULESCRIPT w = concat (map rule_line ts) \<and> (\<forall>t \<in> set ts. rule_body t)"

text \<open>An environment in which the files can be written and no command changes the rule file.\<close>

definition good_env :: "env \<Rightarrow> (nat \<Rightarrow> ritem) \<Rightarrow> bool" where
  "good_env env beyond \<longleftrightarrow> writable env RULESCRIPT \<and> writable env TMPRULES \<and> stable env RULESCRIPT \<and>
     stable env NATSCRIPT \<and> (\<forall>j. title (beyond j) = None)"

lemma spares_mono: "stable env p \<Longrightarrow> spares env cs p"
  by (simp add: spares_def)

lemma filter_text_split: "filter_text r = IPFW_Q @ filter_body r" "take 5 (filter_body r) = '' add ''"
  by (simp_all add: filter_text_def filter_body_def IPFW_Q_def)

lemma filter_body_ok: "op_ok ts (Insert r) \<Longrightarrow> rule_body (filter_body r)"
proof -
  assume ok: "op_ok ts (Insert r)"
  have "length (filter_text r) = 13 + length (filter_body r)"
    using filter_text_split(1) [of r] by (simp add: IPFW_Q_def)
  moreover have "filter_body r \<noteq> []" "hd (filter_body r) = CHR '' ''"
    using filter_text_split(2) [of r] by (cases "filter_body r"; simp)+
  moreover have "nl \<notin> set (filter_body r)"
    using ok by (auto simp: filter_body_def dest: in_set_dropD)
  ultimately show ?thesis using ok by (simp add: rule_body_def)
qed

lemma raw_body_ok: "op_ok ts (Raw_add s) \<Longrightarrow> rule_body ('' '' @ s)"
  by (simp add: rule_body_def)

lemma menu_title_body:
  assumes "rule_body t"
  shows "rule_body (menu_title t)"
proof -
  obtain c cs where t: "t = c # cs" "c \<noteq> CHR ''q''" using assms by (cases t) (auto simp: rule_body_def)
  have "length (menu_title t) \<le> length t"
    unfolding menu_title_def by (rule length_takeWhile_le)
  moreover have "set (menu_title t) \<subseteq> set t"
    unfolding menu_title_def by (auto dest: set_takeWhileD)
  moreover have "menu_title t \<noteq> []" "hd (menu_title t) = c" using t by (simp_all add: menu_title_def)
  ultimately show ?thesis using assms t by (auto simp: rule_body_def)
qed

lemma holds_table_lines:
  "holds_table w ts \<Longrightarrow> file_lines RULESCRIPT w = map rule_line ts"
  by (rule file_lines_concat) (auto simp: holds_table_def short_rule_line)

lemma holds_table_files:
  "holds_table w ts \<Longrightarrow> k < length ts \<Longrightarrow> files w RULESCRIPT = Some (concat (map rule_line ts))"
  by (cases ts) (auto simp: holds_table_def contents_def rule_line_def IPFW_Q_def split: option.splits)

text \<open>One step of the program is one step of the table.\<close>

lemma op_step_simulates:
  assumes "op_step env beyond op w w'" and "holds_table w ts" and "op_ok ts op" and "good_env env beyond"
  shows "holds_table w' (table_after op ts)"
  using assms(1)
proof cases
  case (insert r)
  then have "spares env {filter_text r, CHMOD744} RULESCRIPT" "writable env RULESCRIPT"
    using assms(4) spares_mono by (auto simp: good_env_def)
  then have "contents RULESCRIPT w' = contents RULESCRIPT w @ filter_text r @ [nl]"
    using insert_rule_text_filter [of env r w] insert assms(3) by auto
  then show ?thesis
    using insert assms(2,3) filter_body_ok [of ts r]
    by (simp add: holds_table_def rule_line_def filter_text_split(1))
next
  case (raw_add s)
  then have "spares env {FLUSH_CMD, SH_RULES} RULESCRIPT" "writable env RULESCRIPT"
    using assms(4) spares_mono by (auto simp: good_env_def)
  then have "contents RULESCRIPT w' = contents RULESCRIPT w @ ''/sbin/ipfw -q '' @ s @ [nl]"
    using raw_add_rule_effect [of env s w] raw_add by simp
  then show ?thesis
    using raw_add assms(2,3) raw_body_ok [of ts s]
    by (simp add: holds_table_def rule_line_def IPFW_Q_def)
next
  case (raw_drop k)
  then have k: "k < length ts" using assms(3) by simp
  then have "files w RULESCRIPT = Some (concat (map rule_line ts))"
    using holds_table_files [OF assms(2)] by blast
  moreover have "fgets_all 255 (concat (map rule_line ts)) = map rule_line ts"
    using holds_table_lines [OF assms(2)] assms(2) by (simp add: file_lines_def holds_table_def)
  moreover have "kept_lines (int k + 1) (map rule_line ts) = concat (map rule_line (take k ts @ drop (Suc k) ts))"
    using kept_lines_drop [of k "map rule_line ts"] k by (simp add: take_map drop_map add.commute)
  ultimately have "contents RULESCRIPT w' = concat (map rule_line (take k ts @ drop (Suc k) ts))"
    using raw_drop_rule_effect [of w _ env "int k + 1"] raw_drop assms(4) by (auto simp: good_env_def contents_def)
  then show ?thesis
    using raw_drop assms(2) by (auto simp: holds_table_def dest: in_set_takeD in_set_dropD)
next
  case (menu_delete k)
  then have k: "k < length ts" "length ts \<le> RLIST_SIZE" using assms(3) by simp_all
  then have "files w RULESCRIPT = Some (concat (map rule_line ts))"
    using holds_table_files [OF assms(2)] by blast
  then have "files w' RULESCRIPT = Some (concat (map (\<lambda>t. rule_line (menu_title t)) (take k ts @ drop (Suc k) ts)))"
    using delete_rule_effect [of w ts k beyond env] k menu_delete assms(2,4) spares_mono
    by (auto simp: holds_table_def good_env_def)
  then show ?thesis
    using menu_delete assms(2)
    by (auto simp: holds_table_def contents_def comp_def menu_title_body dest: in_set_takeD in_set_dropD)
qed

text \<open>An allowed operation is never stuck.\<close>

lemma op_step_enabled:
  assumes "holds_table w ts" and "op_ok ts op" and "good_env env beyond"
  shows "\<exists>w'. op_step env beyond op w w'"
proof (cases op)
  case (Insert r)
  then show ?thesis
    using insert_rule_text_filter [of env r w] assms(2,3) spares_mono
    by (fastforce simp: good_env_def intro: op_step.insert)
next
  case (Raw_add s)
  then show ?thesis
    using raw_add_rule_effect [of env s w] assms(3) spares_mono
    by (cases "raw_add_rule env s w") (fastforce simp: good_env_def intro: op_step.raw_add)
next
  case (Raw_drop k)
  then have "files w RULESCRIPT = Some (concat (map rule_line ts))"
    using assms(2) holds_table_files [OF assms(1), of k] by simp
  then show ?thesis
    using Raw_drop raw_drop_rule_effect [of w _ env "int k + 1"] assms(3)
    by (fastforce simp: good_env_def intro: op_step.raw_drop)
next
  case (Menu_delete k)
  then have "files w RULESCRIPT = Some (concat (map rule_line ts))"
    using assms(2) holds_table_files [OF assms(1), of k] by simp
  then show ?thesis
    using Menu_delete delete_rule_effect [of w ts k beyond env] assms spares_mono
    by (fastforce simp: good_env_def holds_table_def intro: op_step.menu_delete)
qed

definition may_do :: "env \<Rightarrow> (nat \<Rightarrow> ritem) \<Rightarrow> string list \<Rightarrow> table_op \<Rightarrow> bool" where
  "may_do env beyond ts op \<longleftrightarrow> good_env env beyond \<and> op_ok ts op"

interpretation rt: simulation "op_step env beyond" holds_table table_after "may_do env beyond" for env beyond
  by unfold_locales (auto simp: may_do_def intro: op_step_simulates op_step_enabled)

subsection \<open>What the kernel is asked for\<close>

definition line_requests :: "netdb \<Rightarrow> string \<Rightarrow> fw_request list" where
  "line_requests db l =
     (case command_words l of
        [] \<Rightarrow> []
      | c # args \<Rightarrow> if c \<noteq> ''/sbin/ipfw'' then []
          else (case ipfw_main db (c # args) of Ok (Requests (qs, _)) \<Rightarrow> qs | _ \<Rightarrow> []))"

definition requests :: "netdb \<Rightarrow> string list \<Rightarrow> fw_request list" where
  "requests db cs = concat (map (line_requests db) cs)"

lemma requests_append [simp]: "requests db (cs @ ds) = requests db cs @ requests db ds"
  by (simp add: requests_def)

lemma requests_flush: "line_requests db FLUSH_CMD = [FW_FLUSH]"
proof -
  have "command_words FLUSH_CMD = [''/sbin/ipfw'', ''-q'', ''flush'']"
    by code_simp
  then show ?thesis
    by (simp add: line_requests_def ipfw_main_def set_opt_def start_opts_def kw_def strncmp_eq_def ipfw_command_def
        swap_args_def flush_cmd_def)
qed

lemma requests_filter:
  assumes "std_tables db" "readable rs src sport dst dport" "action_listed rs"
    and "r_proto rs = TCP \<Longrightarrow> r_option rs = FRAG \<Longrightarrow> sport = None \<and> dport = None"
  shows "line_requests db (filter_text rs) = [FW_ADD (written_rule rs src sport dst dport)]"
    "line_requests db (filter_text rs @ [nl]) = [FW_ADD (written_rule rs src sport dst dport)]"
  using readable_parsed [OF assms] readable_words [OF assms(2), of "[]"]
  by (simp_all add: line_requests_def add_result_def)

subsection \<open>The divert rule\<close>

text \<open>The name of a network card: letters and a unit, in at most five characters.\<close>

definition card_name :: "string \<Rightarrow> nat \<Rightarrow> string" where
  "card_name s n = s @ dec n"

definition letters :: "string \<Rightarrow> bool" where
  "letters s \<longleftrightarrow> s \<noteq> [] \<and> (\<forall>c \<in> set s. \<not> isdigit c \<and> c \<noteq> CHR ''*'' \<and> c \<noteq> CHR '' '' \<and> c \<noteq> nl)"

definition divert_rule :: "string \<Rightarrow> nat \<Rightarrow> ip_fw" where
  "divert_rule s n = zero_fw\<lparr>fw_number := 85, fw_command := F_DIVERT, fw_un := 8668,
     fw_in_if := Via_if s (int n), fw_out_if := Via_if s (int n),
     fw_flg := {F_IN, F_OUT, F_IIFACE, F_OIFACE, F_IIFNAME, F_OIFNAME}\<rparr>"

lemma dec_less_power: "n < 10 ^ length (dec n)"
proof (induction n rule: dec.induct)
  case (1 n)
  show ?case
  proof (cases "n < 10")
    case False
    then have "n div 10 < 10 ^ length (dec (n div 10))" using 1 by simp
    then have "n < 10 * 10 ^ length (dec (n div 10))" by linarith
    moreover have "length (dec n) = length (dec (n div 10)) + 1" using False by (simp add: dec.simps [of n])
    ultimately show ?thesis by simp
  qed (simp add: dec.simps [of n])
qed

text \<open>A unit of at most four digits fits a \<open>short\<close>.\<close>

lemma unit_short:
  assumes "letters s" and "length (card_name s n) < 6"
  shows "n < 10000"
proof -
  have "length (dec n) \<le> 4" using assms by (cases s) (simp_all add: letters_def card_name_def)
  then have "(10 :: nat) ^ length (dec n) \<le> 10 ^ 4" by (intro power_increasing) simp_all
  then show ?thesis using dec_less_power [of n] by simp
qed

lemma fill_iface_card:
  assumes "letters s" and "length (card_name s n) < 6" and "card_name s n \<noteq> ''any''"
  shows "fill_iface [card_name s n] = Ok ((Via_if s (int n), True), [])"
proof -
  let ?stop = "\<lambda>c. isdigit c \<or> c = CHR ''*''"
  have hd: "\<not> isdigit (hd (card_name s n))" "card_name s n \<noteq> []"
    using assms(1) by (cases s; simp add: letters_def card_name_def)+
  have s: "\<not> ?stop c" if "c \<in> set s" for c using assms(1) that by (auto simp: letters_def)
  obtain c cs where c: "dec n = c # cs" "isdigit c" using isdigit_hd_dec [of n] by (cases "dec n") auto
  have "takeWhile (\<lambda>c. \<not> ?stop c) (s @ dec n) = s"
    by (subst takeWhile_append2) (use s c in simp_all)
  moreover have "dropWhile (\<lambda>c. \<not> ?stop c) (s @ dec n) = dec n"
    by (subst dropWhile_append2) (use s c in simp_all)
  moreover have "take 1 (dec n) \<noteq> ''*''"
    using isdigit_hd_dec [of n] by (cases "dec n") (auto simp: isdigit_def)
  ultimately show ?thesis
    using assms(2,3) hd unit_short [OF assms(1,2)] by (simp add: fill_iface_def card_name_def Let_def to_short_def)
qed

lemma divert_rule_parsed:
  assumes "letters s" and "length (card_name s n) < 6" and "std_tables db"
  shows "add_rule db [''85'', ''divert'', ''8668'', ''ip'', ''from'', ''any'', ''to'', ''any'', ''via'', card_name s n] =
    Ok (divert_rule s n)"
proof -
  let ?r = "zero_fw\<lparr>fw_number := 85, fw_command := F_DIVERT, fw_un := 8668\<rparr>"
  have any: "card_name s n \<noteq> ''any''"
  proof
    assume "card_name s n = ''any''"
    then have "last (card_name s n) = CHR ''y''" by simp
    moreover have "isdigit (last (card_name s n))"
      using dec_digits [of "last (dec n)" n] by (simp add: card_name_def)
    ultimately show False by (simp add: isdigit_def)
  qed
  have number: "atoi ''85'' = 85"
    by (simp add: atoi_def number_value_def isspace_def isdigit_def digits_value_def)
  have word: "atoi ''ip'' = 0"
    by (simp add: atoi_word isspace_def isdigit_def)
  have head: "add_rule db (''85'' # ''divert'' # ''8668'' # ws) = add_body db (?r, ws)" for ws
    by (cases ws) (simp_all add: add_rule_def add_number_def starts_digit_def isdigit_def number isspace_def
        u_short_def add_prob_def add_action_def divert_port_def strtoul_def digit_value_def
        kw_def strncmp_eq_def zero_fw_def)
  have fol: "ports_follow db 0 (''to'' # ws) = False" "ports_follow db 0 (''via'' # ws) = False" for ws
    using ports_follow_key_word [OF assms(3)] by (simp_all add: key_words_def)
  have "add_proto db (?r, ''ip'' # ws) = Ok (?r\<lparr>fw_prot := 0\<rparr>, ws)" for ws
    using assms(3) by (simp add: add_proto_def std_tables_def word kw_def strncmp_eq_def IPPROTO_TCP_def)
  moreover have "add_log (?r, ''ip'' # ws) = Ok (?r, ''ip'' # ws)" for ws
    by (simp add: add_log_def add_logamount_def kw_def strncmp_eq_def)
  moreover have "add_from db (?r\<lparr>fw_prot := 0\<rparr>, ''from'' # ''any'' # ''to'' # ws) = Ok (?r\<lparr>fw_prot := 0\<rparr>, ''to'' # ws)" for ws
    by (simp add: add_from_def end_word_def add_src_def add_src_ports_def fol fill_ip_def kw_def strncmp_eq_def zero_fw_def)
  moreover have "add_to db (?r\<lparr>fw_prot := 0\<rparr>, ''to'' # ''any'' # ''via'' # ws) = Ok (?r\<lparr>fw_prot := 0\<rparr>, ''via'' # ws)" for ws
    by (simp add: add_to_def end_word_def add_dst_def add_dst_ports_def fol fill_ip_def kw_def strncmp_eq_def zero_fw_def)
  moreover have "ports_allowed (?r\<lparr>fw_prot := 0\<rparr>) = Ok (?r\<lparr>fw_prot := 0\<rparr>)"
    by (simp add: ports_allowed_def zero_fw_def)
  moreover have "add_options db (?r\<lparr>fw_prot := 0\<rparr>, False, False) [''via'', card_name s n] =
      Ok (?r\<lparr>fw_prot := 0, fw_in_if := Via_if s (int n), fw_out_if := Via_if s (int n),
        fw_flg := {F_IIFNAME, F_OIFNAME}\<rparr>, False, True)"
    using fill_iface_card [OF assms(1) _ any] assms(2)
    by (simp add: add_option_def kw_def strncmp_eq_def by_name_def zero_fw_def)
  moreover have "add_finish db (?r\<lparr>fw_prot := 0, fw_in_if := Via_if s (int n), fw_out_if := Via_if s (int n),
        fw_flg := {F_IIFNAME, F_OIFNAME}\<rparr>, False, True) = Ok (divert_rule s n)"
    by (simp add: add_finish_def add_direction_def add_via_def add_frag_def add_loglimit_def divert_rule_def zero_fw_def)
      blast
  ultimately show ?thesis by (simp add: head add_body_def)
qed

lemma requests_divert:
  assumes "letters s" and "length (card_name s n) < 6" and "std_tables db"
  shows "line_requests db (nat_rule (card_name s n @ [nl])) = [FW_ADD (divert_rule s n)]"
proof -
  have c: "c \<noteq> CHR '' '' \<and> c \<noteq> nl" if "c \<in> set (card_name s n)" for c
    using that assms(1) text_words(2,4) [of n] by (auto simp: card_name_def letters_def blank_free_def)
  then have b: "blank_free (card_name s n)" "card_name s n \<noteq> []" "nl \<notin> set (card_name s n)"
    by (auto simp: blank_free_def card_name_def)
  have e: "nat_rule (card_name s n @ [nl]) =
      (''/sbin/ipfw -q add 85 divert 8668 ip from any to any via '' @ card_name s n) @ nl # []"
    using assms(2) by (simp add: nat_rule_def snprintf_fits)
  have "nl \<notin> set (''/sbin/ipfw -q add 85 divert 8668 ip from any to any via '' @ card_name s n)"
    using b(3) by simp
  then have "command_words (nat_rule (card_name s n @ [nl])) =
      words (''/sbin/ipfw -q add 85 divert 8668 ip from any to any via '' @ card_name s n)"
    unfolding e by (rule command_words_line(1))
  also have "\<dots> = ''/sbin/ipfw'' # ''-q'' # ''add'' # [''85'', ''divert'', ''8668'', ''ip'', ''from'', ''any'', ''to'',
      ''any'', ''via'', card_name s n]"
    using words_last [OF b(1,2)] by simp
  finally show ?thesis
    using ipfw_q_add_rule [OF divert_rule_parsed [OF assms]] by (simp add: line_requests_def add_result_def)
qed

subsection \<open>Properties\<close>

text \<open>
  C2. The rule file refines a list of rules. From a file that holds a list, every sequence of the
  program's operations on the file that the list allows (inserting a filter rule, adding a line by
  hand, deleting a line by number or from the menu) can be done, and leaves the file that holds the
  list on which the operations have been done one after the other.
\<close>

theorem rule_file_refines:
  assumes "holds_table w ts" and "all_ok table_after (may_do env beyond) ts ops"
  shows "(\<exists>w'. runs (op_step env beyond) ops w w') \<and>
    (\<forall>w'. runs (op_step env beyond) ops w w' \<longrightarrow> holds_table w' (fold table_after ops ts))"
  using assms rt.run_enabled rt.run_simulates by blast

text \<open>
  C9. What was entered is what the kernel gets. After any such sequence of operations, loading the rule
  set asks the kernel to drop all rules, to divert the packets of the card in \<open>/etc/nat\<close>, if there is
  one, and then for what the rules of the list say, in their order.
\<close>

theorem rule_file_loads:
  assumes "runs (op_step env beyond) ops w w'" and "holds_table w ts"
    and "all_ok table_after (may_do env beyond) ts ops" and "good_env env beyond" and "std_tables db"
    and "case nic of None \<Rightarrow> files w' NATSCRIPT = None
         | Some (s, n) \<Rightarrow> files w' NATSCRIPT = Some (card_name s n @ [nl]) \<and> letters s \<and> length (card_name s n) < 6"
  shows "\<exists>rc w'' cs. ruleset_load env w' = Some (rc, w'') \<and> commands (trace w'') = commands (trace w') @ cs \<and>
    requests db cs = FW_FLUSH # (case nic of None \<Rightarrow> [] | Some (s, n) \<Rightarrow> [FW_ADD (divert_rule s n)]) @
      requests db (map rule_line (fold table_after ops ts))"
proof -
  have h: "holds_table w' (fold table_after ops ts)"
    using rt.run_simulates assms(1-3) by blast
  have n: "files w' NATSCRIPT \<noteq> Some []" using assms(6) by (auto simp: card_name_def split: option.splits)
  have env: "stable env NATSCRIPT" "stable env RULESCRIPT" using assms(4) by (simp_all add: good_env_def)
  have rules: "(case files w' RULESCRIPT of None \<Rightarrow> [] | Some t \<Rightarrow> fgets_all 255 t) =
      map rule_line (fold table_after ops ts)"
    using holds_table_lines [OF h] by (simp add: file_lines_def contents_def split: option.splits)
  have "requests db (case files w' NATSCRIPT of None \<Rightarrow> [] | Some t \<Rightarrow> [nat_rule (last (fgets_all 255 t))]) =
      (case nic of None \<Rightarrow> [] | Some (s, n) \<Rightarrow> [FW_ADD (divert_rule s n)])"
  proof (cases nic)
    case (Some x)
    obtain s k where x: "x = (s, k)" by force
    then have f: "files w' NATSCRIPT = Some (card_name s k @ [nl])" "letters s" "length (card_name s k) < 6"
      using assms(6) Some by simp_all
    have "nl \<notin> set (card_name s k)"
      using f(2) text_words(4) [of k] by (auto simp: card_name_def letters_def)
    then have "fgets_all 255 (card_name s k @ [nl]) = [card_name s k @ [nl]]"
      using fgets_all_lines [of "[card_name s k @ [nl]]" 255] f(3) by (simp add: is_line_def)
    then show ?thesis
      using Some x f requests_divert [OF f(2,3) assms(5)] by (simp add: requests_def)
  qed (use assms(6) in \<open>simp add: requests_def\<close>)
  then show ?thesis
    using ruleset_load_eq [OF env n] rules requests_flush [of db]
    by (fastforce simp: load_commands_def requests_def)
qed

text \<open>
  Entering a filter rule keeps the running filter and the file together: the request that is made
  at once, to add the rule that its text says, is the one that every later load of the file makes after
  those of the rules before it.
\<close>

theorem insert_in_step:
  assumes "holds_table w ts" and "op_ok ts (Insert rs)" and "good_env env beyond"
    and "std_tables db" and "readable rs src sport dst dport"
    and "r_proto rs = TCP \<Longrightarrow> r_option rs = FRAG \<Longrightarrow> sport = None \<and> dport = None"
  shows "\<exists>w' cs. insert_rule_text env rs w = Some (0, w') \<and> holds_table w' (ts @ [filter_body rs]) \<and>
    commands (trace w') = commands (trace w) @ cs \<and>
    requests db cs = [FW_ADD (written_rule rs src sport dst dport)] \<and>
    requests db (map rule_line (ts @ [filter_body rs])) =
      requests db (map rule_line ts) @ [FW_ADD (written_rule rs src sport dst dport)]"
proof -
  have a: "action_listed rs" using assms(2) by simp
  obtain w' where w': "insert_rule_text env rs w = Some (0, w')"
    "commands (trace w') = commands (trace w) @ [filter_text rs, CHMOD744]"
    using insert_rule_text_filter [of env rs w] assms(2,3) spares_mono by (auto simp: good_env_def)
  have "holds_table w' (ts @ [filter_body rs])"
    using op_step_simulates [OF op_step.insert [OF w'(1)] assms(1,2,3)] by simp
  moreover have "line_requests db CHMOD744 = []"
    by (simp add: line_requests_def CHMOD744_def command_words_def)
  moreover have "rule_line (filter_body rs) = filter_text rs @ [nl]"
    by (simp add: rule_line_def filter_text_split(1))
  ultimately show ?thesis
    using w' requests_filter [OF assms(4,5) a assms(6)] by (simp add: requests_def)
qed

subsection \<open>Trying it\<close>

definition web_rule :: ruleset where
  "web_rule = zero_rule\<lparr>r_action := DENY, r_proto := TCP, r_src := ''any'', r_dst := ''me'', r_dst_port := ''80''\<rparr>"

lemma web_rule_facts:
  "filter_text web_rule = ''/sbin/ipfw -q add deny tcp from any to me 80''" "action_listed web_rule"
  "filter_body web_rule = '' add deny tcp from any to me 80''"
  "r_action web_rule = DENY" "r_option web_rule = NONE"
  by code_simp+

lemma web_rule_readable: "readable web_rule Anyone None This_host (Some 80)"
  by (simp add: web_rule_def readable_def zero_rule_def port_text_def port_ok_def dec_examples)

lemma calm_good: "good_env calm (\<lambda>_. empty_item)"
  by (simp add: good_env_def empty_item_def)

lemma holds_nothing: "holds_table blank_world []"
  by (simp add: holds_table_def contents_def blank_world_def)

theorem rule_file_refines_witness:
  "\<exists>w'. runs (op_step calm (\<lambda>_. empty_item))
      [Insert web_rule, Raw_add ''add 9 count ip from any to any'', Menu_delete 0] blank_world w' \<and>
    holds_table w' ['' add 9 count ip from any to any'']"
proof -
  let ?ops = "[Insert web_rule, Raw_add ''add 9 count ip from any to any'', Menu_delete 0]"
  have "all_ok table_after (may_do calm (\<lambda>_. empty_item)) [] ?ops"
    using calm_good by (simp add: may_do_def web_rule_facts RLIST_SIZE_def)
  moreover have "fold table_after ?ops [] = ['' add 9 count ip from any to any'']"
    by (simp add: menu_title_def)
  ultimately show ?thesis
    using rule_file_refines [OF holds_nothing, of calm "\<lambda>_. empty_item" ?ops] by metis
qed

theorem rule_file_loads_witness:
  "\<exists>w' rc w'' cs. runs (op_step calm (\<lambda>_. empty_item)) [Insert web_rule] blank_world w' \<and>
    ruleset_load calm w' = Some (rc, w'') \<and> commands (trace w'') = commands (trace w') @ cs \<and>
    requests plain_db cs = [FW_FLUSH, FW_ADD (written_rule web_rule Anyone None This_host (Some 80))]"
proof -
  let ?b = "\<lambda>_ :: nat. empty_item"
  obtain w' where w': "insert_rule_text calm web_rule blank_world = Some (0, w')" "files w' NATSCRIPT = None"
    by (auto simp: insert_rule_text_def web_rule_facts filter_command_eq Let_def fprintf_sel fopen_append_sel
        blank_world_def)
  then have r: "runs (op_step calm ?b) [Insert web_rule] blank_world w'"
    by (auto simp: runs_Cons runs_Nil intro: op_step.insert)
  moreover have "all_ok table_after (may_do calm ?b) [] [Insert web_rule]"
    using calm_good by (simp add: may_do_def web_rule_facts)
  moreover have "requests plain_db (map rule_line [filter_body web_rule]) =
      [FW_ADD (written_rule web_rule Anyone None This_host (Some 80))]"
    using requests_filter(2) [OF std_plain web_rule_readable web_rule_facts(2)]
    by (simp add: requests_def rule_line_def web_rule_facts IPFW_Q_def)
  ultimately show ?thesis
    using rule_file_loads [OF r holds_nothing _ calm_good std_plain, of None] w'(2) by fastforce
qed

theorem insert_in_step_witness:
  "\<exists>w' cs. insert_rule_text calm web_rule blank_world = Some (0, w') \<and>
    commands (trace w') = commands (trace blank_world) @ cs \<and>
    requests plain_db cs = [FW_ADD (written_rule web_rule Anyone None This_host (Some 80))]"
proof -
  have "op_ok [] (Insert web_rule)" by (simp add: web_rule_facts)
  from insert_in_step [OF holds_nothing this calm_good std_plain web_rule_readable] show ?thesis
    by (fastforce simp: web_rule_facts)
qed

end
