(* ===== verification/IpfwShow.thy ===== *)
theory IpfwShow
  imports IpfwProps
begin

text \<open>
  \<open>sbin/ipfw/ipfw.c\<close>: the listing. \<open>show_ipfw\<close> prints a rule as a line of words, and \<open>list\<close>
  prints the rules that are asked for. The property is that the line can be entered again: for
  every rule of the dialogs, \<open>add\<close> reads back what \<open>show_ipfw\<close> prints.
\<close>

subsection \<open>Pieces\<close>

text \<open>
  What the listing takes from the system: names of addresses, services, users and groups, \<open>%f\<close> of
  the probability that belongs to \<open>dont_match_prob\<close>, and \<open>ctime\<close>.
\<close>

record names =
  hostbyaddr :: "32 word \<Rightarrow> string option"
  servbyport :: "nat \<Rightarrow> string option \<Rightarrow> string option"
  username :: "nat \<Rightarrow> string option"
  groupname :: "nat \<Rightarrow> string option"
  prob_text :: "int \<Rightarrow> string"
  ctime_text :: "nat \<Rightarrow> string"

text \<open>A rule as the kernel returns it, with its counters and the time of the last match.\<close>

record fw_entry =
  entry_rule :: ip_fw
  fw_pcnt :: nat
  fw_bcnt :: nat
  fw_timestamp :: nat

definition inet_ntoa :: "32 word \<Rightarrow> string" where
  "inet_ntoa w = dec (unat (drop_bit 24 w AND 0xff)) @ ''.'' @ dec (unat (drop_bit 16 w AND 0xff)) @ ''.'' @
     dec (unat (drop_bit 8 w AND 0xff)) @ ''.'' @ dec (unat (w AND 0xff))"

text \<open>The loop over the bits of a mask: \<open>-1\<close> when a zero follows a one.\<close>

fun mask_loop :: "nat \<Rightarrow> 32 word \<Rightarrow> bool \<Rightarrow> int \<Rightarrow> int" where
  "mask_loop 0 m found n = n"
| "mask_loop (Suc k) m found n =
     (if m AND 1 \<noteq> 0 then mask_loop k (drop_bit 1 m) True (n + 1)
      else if found then - 1
      else mask_loop k (drop_bit 1 m) found n)"

definition mask_bits :: "32 word \<Rightarrow> int" where
  "mask_bits m = mask_loop 32 m False 0"

text \<open>\<open>%04x\<close> of a port, and \<open>%05u\<close>.\<close>

definition hex_digit :: "nat \<Rightarrow> char" where
  "hex_digit k = (if k < 10 then digit k else char_of (87 + k))"

definition hex4 :: "nat \<Rightarrow> string" where
  "hex4 n = [hex_digit (n div 4096 mod 16), hex_digit (n div 256 mod 16), hex_digit (n div 16 mod 16), hex_digit (n mod 16)]"

definition dec5 :: "nat \<Rightarrow> string" where
  "dec5 n = replicate (5 - length (dec n)) CHR ''0'' @ dec n"

definition print_port :: "names \<Rightarrow> netdb \<Rightarrow> bool \<Rightarrow> nat \<Rightarrow> nat \<Rightarrow> char \<Rightarrow> string" where
  "print_port nm db resolv prot port comma =
     (if comma = CHR '':'' then comma # ''0x'' @ hex4 port
      else case (if resolv then servbyport nm port (protobynumber db prot) else None) of
             Some s \<Rightarrow> comma # s
           | None \<Rightarrow> comma # dec port)"

text \<open>The loop over the ports of one end; \<open>ranged\<close> and \<open>masked\<close> say how the second is set off.\<close>

fun print_ports :: "(nat \<Rightarrow> char \<Rightarrow> string) \<Rightarrow> bool \<Rightarrow> bool \<Rightarrow> nat \<Rightarrow> char \<Rightarrow> nat list \<Rightarrow> string" where
  "print_ports f ranged masked i comma [] = []"
| "print_ports f ranged masked i comma (p # ps) =
     f p comma @ print_ports f ranged masked (i + 1)
       (if i = 0 \<and> ranged then CHR ''-'' else if i = 0 \<and> masked then CHR '':'' else CHR '','') ps"

text \<open>\<open>byname\<close> says which member of the union is set, as the constructor does here.\<close>

definition print_iface :: "string \<Rightarrow> fw_if \<Rightarrow> string" where
  "print_iface key ifu =
     '' '' @ key @ '' '' @
     (case ifu of
        Via_if s unit \<Rightarrow> s @ (if unit = - 1 then ''*'' else dec_int unit)
      | Via_ip ip \<Rightarrow> if ip \<noteq> 0 then inet_ntoa ip else ''any'')"

definition print_reject_code :: "nat \<Rightarrow> string" where
  "print_reject_code code =
     (case List.find (\<lambda>(n, c). c = code) icmpcodes of Some (n, c) \<Rightarrow> n | None \<Rightarrow> dec code)"

text \<open>The address of one end.\<close>

definition show_addr :: "names \<Rightarrow> bool \<Rightarrow> 32 word \<Rightarrow> 32 word \<Rightarrow> string" where
  "show_addr nm resolv ip msk =
     (if msk = - 1 \<and> resolv then (case hostbyaddr nm ip of None \<Rightarrow> inet_ntoa ip | Some h \<Rightarrow> h)
      else if msk \<noteq> - 1 then
        (let mb = mask_bits msk in
         if mb = 0 then ''any''
         else if mb > 0 then inet_ntoa ip @ ''/'' @ dec_int mb
         else inet_ntoa ip @ '':'' @ inet_ntoa msk)
      else inet_ntoa ip)"

text \<open>\<open>PRINTOPT\<close>, \<open>PRINTFLG\<close> and \<open>PRINTTOPT\<close>: the set names, then the negated one, joined by commas.\<close>

fun join :: "string list \<Rightarrow> string" where
  "join [] = []"
| "join [s] = s"
| "join (s # ss) = s @ '','' @ join ss"

definition print_set :: "(string \<times> 'f) list \<Rightarrow> 'f set \<Rightarrow> 'f set \<Rightarrow> string" where
  "print_set tbl on off =
     join (concat (map (\<lambda>(n, v). (if v \<in> on then [n] else []) @ (if v \<in> off then [''!'' @ n] else [])) tbl))"

definition shown_ip_opts :: "(string \<times> ip_opt) list" where
  "shown_ip_opts = [(''ssrr'', IPOPT_SSRR), (''lsrr'', IPOPT_LSRR), (''rr'', IPOPT_RR), (''ts'', IPOPT_TS)]"

definition shown_tcp_flags :: "(string \<times> tcp_flag) list" where
  "shown_tcp_flags = [(''fin'', TCPF_FIN), (''syn'', TCPF_SYN), (''rst'', TCPF_RST), (''psh'', TCPF_PSH),
     (''ack'', TCPF_ACK), (''urg'', TCPF_URG)]"

definition shown_tcp_opts :: "(string \<times> tcp_opt) list" where
  "shown_tcp_opts = [(''mss'', TCPOPT_MSS), (''window'', TCPOPT_WINDOW), (''sack'', TCPOPT_SACK),
     (''ts'', TCPOPT_TS), (''cc'', TCPOPT_CC)]"

text \<open>The loop over the ICMP types; only the first is set off by a blank.\<close>

definition print_types :: "nat set \<Rightarrow> string" where
  "print_types types = (case map dec (filter (\<lambda>t. t \<in> types) [0..<ICMPTYPES]) of
     [] \<Rightarrow> [] | ts \<Rightarrow> '' '' @ join ts)"

subsection \<open>A rule\<close>

text \<open>\<open>None\<close> is the exit at an impossible action.\<close>

definition show_action :: "ip_fw \<Rightarrow> string option" where
  "show_action r =
     (case fw_command r of
        F_ACCEPT \<Rightarrow> Some ''allow''
      | F_DENY \<Rightarrow> Some ''deny''
      | F_COUNT \<Rightarrow> Some ''count''
      | F_DIVERT \<Rightarrow> Some (''divert '' @ dec (fw_un r))
      | F_TEE \<Rightarrow> Some (''tee '' @ dec (fw_un r))
      | F_SKIPTO \<Rightarrow> Some (''skipto '' @ dec (fw_un r))
      | F_PIPE \<Rightarrow> Some (''pipe '' @ dec (fw_un r))
      | F_QUEUE \<Rightarrow> Some (''queue '' @ dec (fw_un r))
      | F_REJECT \<Rightarrow> Some (if fw_un r = IP_FW_REJECT_RST then ''reset'' else ''unreach '' @ print_reject_code (fw_un r))
      | F_FWD \<Rightarrow> Some (''fwd '' @ inet_ntoa (fw_fwd_ip r) @ (if fw_fwd_port r \<noteq> 0 then '','' @ dec (fw_fwd_port r) else []))
      | F_CHECK_S \<Rightarrow> None)"

text \<open>The number, the counters and the time.\<close>

definition show_head :: "names \<Rightarrow> fw_opts \<Rightarrow> nat \<Rightarrow> nat \<Rightarrow> fw_entry \<Rightarrow> string" where
  "show_head nm p pcwidth bcwidth e =
     dec5 (fw_number (entry_rule e)) @ '' '' @
     (if do_acct p then pad_left pcwidth (dec (fw_pcnt e)) @ '' '' @ pad_left bcwidth (dec (fw_bcnt e)) @ '' '' else []) @
     (if do_time p then
        if fw_timestamp e \<noteq> 0 then takeWhile (\<lambda>c. c \<noteq> nl) (ctime_text nm (fw_timestamp e)) @ '' ''
        else [CHR 0x09, CHR 0x09, CHR 0x09, CHR '' '']
      else [])"

definition show_src :: "names \<Rightarrow> netdb \<Rightarrow> fw_opts \<Rightarrow> ip_fw \<Rightarrow> string" where
  "show_src nm db p r =
     (if F_SME \<in> fw_flg r then '' from me''
      else '' from '' @ (if F_INVSRC \<in> fw_flg r then ''not '' else []) @ show_addr nm (do_resolv p) (fw_src r) (fw_smsk r)) @
     (if fw_prot r = IPPROTO_TCP \<or> fw_prot r = IPPROTO_UDP then
        print_ports (print_port nm db (do_resolv p) (fw_prot r)) (F_SRNG \<in> fw_flg r) (F_SMSK \<in> fw_flg r) 0 CHR '' ''
          (take (fw_nsrcp r) (fw_pts r))
      else [])"

definition show_dst :: "names \<Rightarrow> netdb \<Rightarrow> fw_opts \<Rightarrow> ip_fw \<Rightarrow> string" where
  "show_dst nm db p r =
     (if F_DME \<in> fw_flg r then '' to me''
      else '' to '' @ (if F_INVDST \<in> fw_flg r then ''not '' else []) @ show_addr nm (do_resolv p) (fw_dst r) (fw_dmsk r)) @
     (if fw_prot r = IPPROTO_TCP \<or> fw_prot r = IPPROTO_UDP then
        print_ports (print_port nm db (do_resolv p) (fw_prot r)) (F_DRNG \<in> fw_flg r) (F_DMSK \<in> fw_flg r) 0 CHR '' ''
          (take (fw_ndstp r) (drop (fw_nsrcp r) (fw_pts r)))
      else [])"

definition show_owner :: "names \<Rightarrow> ip_fw \<Rightarrow> string" where
  "show_owner nm r =
     (if F_UID \<in> fw_flg r then '' uid '' @ (case username nm (fw_uid r) of Some s \<Rightarrow> s | None \<Rightarrow> dec (fw_uid r)) else []) @
     (if F_GID \<in> fw_flg r then '' gid '' @ (case groupname nm (fw_gid r) of Some s \<Rightarrow> s | None \<Rightarrow> dec (fw_gid r)) else [])"

definition DYN_KEEP_STATE :: nat where "DYN_KEEP_STATE = 0"

definition show_state :: "ip_fw \<Rightarrow> string" where
  "show_state r =
     (if F_KEEP_S \<notin> fw_flg r then []
      else if dyn_type r = DYN_KEEP_STATE then '' keep-state''
      else if dyn_type r = DYN_LIMIT then
        '' limit'' @ concat (map (\<lambda>(n, x). if x \<in> limit_mask r then '' '' @ n else []) limit_masks) @ '' '' @ dec (conn_limit r)
      else '' *** unknown type ***'')"

definition show_direction :: "ip_fw \<Rightarrow> string" where
  "show_direction r =
     (if F_BRIDGED \<in> fw_flg r then '' bridged'' else []) @
     (if F_IN \<in> fw_flg r \<and> F_OUT \<notin> fw_flg r then '' in'' else []) @
     (if F_IN \<notin> fw_flg r \<and> F_OUT \<in> fw_flg r then '' out'' else [])"

text \<open>\<open>IF_FW_F_VIAHACK\<close>: both directions and both interfaces.\<close>

definition show_ifaces :: "ip_fw \<Rightarrow> string" where
  "show_ifaces r =
     (if {F_IN, F_OUT, F_IIFACE, F_OIFACE} \<subseteq> fw_flg r then print_iface ''via'' (fw_in_if r)
      else (if F_IIFACE \<in> fw_flg r then print_iface ''recv'' (fw_in_if r) else []) @
           (if F_OIFACE \<in> fw_flg r then print_iface ''xmit'' (fw_out_if r) else []))"

definition show_options :: "ip_fw \<Rightarrow> string" where
  "show_options r =
     (if F_FRAG \<in> fw_flg r then '' frag'' else []) @
     (if fw_ipopt r \<noteq> {} \<or> fw_ipnopt r \<noteq> {} then '' ipopt '' @ print_set shown_ip_opts (fw_ipopt r) (fw_ipnopt r) else []) @
     (if fw_tcpest r then '' established''
      else if fw_tcpf r = {TCPF_SYN} \<and> fw_tcpnf r = {TCPF_ACK} then '' setup''
      else if fw_tcpf r \<noteq> {} \<or> fw_tcpnf r \<noteq> {} then '' tcpflags '' @ print_set shown_tcp_flags (fw_tcpf r) (fw_tcpnf r)
      else []) @
     (if fw_tcpopt r \<noteq> {} \<or> fw_tcpnopt r \<noteq> {}
      then '' tcpoptions '' @ print_set shown_tcp_opts (fw_tcpopt r) (fw_tcpnopt r) else []) @
     (if F_ICMPBIT \<in> fw_flg r then '' icmptype'' @ print_types (fw_icmptypes r) else [])"

definition show_ipfw :: "names \<Rightarrow> netdb \<Rightarrow> fw_opts \<Rightarrow> nat \<Rightarrow> nat \<Rightarrow> fw_entry \<Rightarrow> string option" where
  "show_ipfw nm db p pcwidth bcwidth e =
     (let r = entry_rule e; head = show_head nm p pcwidth bcwidth e in
      if fw_command r = F_CHECK_S \<and> fw_flg r = {} then Some (head @ ''check-state'' @ [nl])
      else do {
        action \<leftarrow> show_action r;
        Some (head @
          (if F_RND_MATCH \<in> fw_flg r then ''prob '' @ prob_text nm (dont_match_prob r) @ '' '' else []) @
          action @
          (if F_PRN \<in> fw_flg r then '' log'' @ (if fw_logamount r \<noteq> 0 then '' logamount '' @ dec_int (fw_logamount r) else [])
           else []) @
          '' '' @ (case protobynumber db (fw_prot r) of Some s \<Rightarrow> s | None \<Rightarrow> dec (fw_prot r)) @
          show_src nm db p r @ show_dst nm db p r @ show_owner nm r @ show_state r @ show_direction r @
          show_ifaces r @ show_options r @ [nl])
      })"

subsection \<open>The list\<close>

text \<open>
  The rules end with the default rule, number 65535; without it the loop that counts them runs
  on behind the buffer.
\<close>

fun upto_default :: "fw_entry list \<Rightarrow> fw_entry list option" where
  "upto_default [] = None"
| "upto_default (e # es) =
     (if fw_number (entry_rule e) < 65535 then map_option ((#) e) (upto_default es) else Some [e])"

definition widest :: "(fw_entry \<Rightarrow> nat) \<Rightarrow> fw_entry list \<Rightarrow> nat" where
  "widest count es = fold (\<lambda>e. max (length (dec (count e)))) es 0"

fun show_all :: "(fw_entry \<Rightarrow> string option) \<Rightarrow> fw_entry list \<Rightarrow> string option" where
  "show_all f [] = Some []"
| "show_all f (e # es) = do { l \<leftarrow> f e; ls \<leftarrow> show_all f es; Some (l @ ls) }"

text \<open>The rules of one number: the loop stops at the first greater one.\<close>

definition numbered :: "nat \<Rightarrow> fw_entry list \<Rightarrow> fw_entry list" where
  "numbered n es = filter (\<lambda>e. fw_number (entry_rule e) = n) (takeWhile (\<lambda>e. fw_number (entry_rule e) \<le> n) es)"

fun show_numbers :: "(fw_entry \<Rightarrow> string option) \<Rightarrow> fw_entry list \<Rightarrow> string list \<Rightarrow> exit_error option \<Rightarrow>
    (string \<times> exit_error option) option" where
  "show_numbers f es [] exitval = Some ([], exitval)"
| "show_numbers f es (a # av) exitval =
     (case strtoul 10 a of
        (n, rest) \<Rightarrow>
          if rest \<noteq> [] then show_numbers f es av (Some (EX_USAGE a))
          else do {
            l \<leftarrow> show_all f (numbered n es);
            (ls, e) \<leftarrow> show_numbers f es av
              (if numbered n es = [] \<and> exitval = None then Some (EX_UNAVAILABLE a) else exitval);
            Some (l @ ls, e)
          })"

definition list_rules :: "names \<Rightarrow> netdb \<Rightarrow> fw_opts \<Rightarrow> fw_entry list \<Rightarrow> string list \<Rightarrow> (string \<times> exit_error option) option"
  where
  "list_rules nm db p entries args = do {
     rules \<leftarrow> upto_default entries;
     let pcwidth = (if do_acct p then widest fw_pcnt rules else 0);
     let bcwidth = (if do_acct p then widest fw_bcnt rules else 0);
     if args = [] then do { t \<leftarrow> show_all (show_ipfw nm db p pcwidth bcwidth) rules; Some (t, None) }
     else show_numbers (show_ipfw nm db p pcwidth bcwidth) rules args None
   }"

end
