(* ===== verification/IpfwList.thy ===== *)
theory IpfwList
  imports IpfwShow
begin

text \<open>
  The listing can be entered again. For every rule of the dialogs, the words of the line that
  \<open>show_ipfw\<close> prints are read by \<open>add\<close> as that rule, with its number.
\<close>

subsection \<open>Addresses\<close>

lemma unat_byte: "unat (drop_bit k w AND 0xff :: 32 word) = unat w div 2 ^ k mod 256"
proof -
  have "drop_bit k w AND 0xff = take_bit 8 (drop_bit k w)"
    by (simp add: take_bit_eq_mask mask_eq_exp_minus_1)
  then have "unat (drop_bit k w AND 0xff) = take_bit 8 (unat (drop_bit k w))"
    by (simp only: unsigned_take_bit_eq)
  also have "\<dots> = take_bit 8 (drop_bit k (unat w))" by (simp only: unat_drop_bit_eq)
  also have "\<dots> = unat w div 2 ^ k mod 256" by (simp add: take_bit_eq_mod drop_bit_eq_div)
  finally show ?thesis .
qed

lemma four_bytes:
  assumes "(x :: nat) < 2 ^ 32"
  shows "x div 2 ^ 24 mod 256 * 2 ^ 24 + x div 2 ^ 16 mod 256 * 2 ^ 16 + x div 2 ^ 8 mod 256 * 2 ^ 8 + x mod 256 = x"
proof -
  define y z u where "y = x div 256" and "z = y div 256" and "u = z div 256"
  have "x div 2 ^ 8 = y" "x div 2 ^ 16 = z" "x div 2 ^ 24 = u"
    by (simp_all add: y_def z_def u_def flip: div_mult2_eq)
  moreover have "u < 256"
    using assms by (simp add: u_def z_def y_def less_mult_imp_div_less)
  moreover have "x = 256 * y + x mod 256" "y = 256 * z + y mod 256" "z = 256 * u + z mod 256"
    by (simp_all add: y_def z_def u_def)
  ultimately show ?thesis by simp
qed

lemma four_bytes_inv:
  fixes a b c d :: nat
  assumes "a < 256" "b < 256" "c < 256" "d < 256"
  defines "x \<equiv> a * 2 ^ 24 + b * 2 ^ 16 + c * 2 ^ 8 + d"
  shows "x < 2 ^ 32" "x div 2 ^ 24 mod 256 = a" "x div 2 ^ 16 mod 256 = b" "x div 2 ^ 8 mod 256 = c" "x mod 256 = d"
proof -
  define y z where "y = a * 2 ^ 16 + b * 2 ^ 8 + c" and "z = a * 2 ^ 8 + b"
  have s: "x = 256 * y + d" "y = 256 * z + c" "z = 256 * a + b"
    by (simp_all add: x_def y_def z_def)
  have "x div 256 = y" "x mod 256 = d" using assms(4) by (simp_all add: s(1))
  moreover have "y div 256 = z" "y mod 256 = c" using assms(3) by (simp_all add: s(2))
  moreover have "z div 256 = a" "z mod 256 = b" using assms(2) by (simp_all add: s(3))
  moreover have "x div 2 ^ 8 = x div 256" "x div 2 ^ 16 = x div 256 div 256" "x div 2 ^ 24 = x div 256 div 256 div 256"
    by (simp_all flip: div_mult2_eq)
  ultimately show "x div 2 ^ 24 mod 256 = a" "x div 2 ^ 16 mod 256 = b" "x div 2 ^ 8 mod 256 = c" "x mod 256 = d"
    using assms(1) by simp_all
  show "x < 2 ^ 32" using assms(1-4) by (simp add: x_def)
qed

lemma unat_ip_word:
  assumes "a < 256" "b < 256" "c < 256" "d < 256"
  shows "unat (ip_word a b c d) = a * 2 ^ 24 + b * 2 ^ 16 + c * 2 ^ 8 + d"
  unfolding ip_word_def unat_of_nat using four_bytes_inv(1) [OF assms] by (intro mod_less) simp

definition octets :: "32 word \<Rightarrow> nat \<times> nat \<times> nat \<times> nat" where
  "octets w = (unat (drop_bit 24 w AND 0xff), unat (drop_bit 16 w AND 0xff), unat (drop_bit 8 w AND 0xff), unat (w AND 0xff))"

lemma octets_ip_word:
  assumes "a < 256" "b < 256" "c < 256" "d < 256"
  shows "octets (ip_word a b c d) = (a, b, c, d)"
  using four_bytes_inv [OF assms] unat_byte [of 0 "ip_word a b c d"]
  by (simp add: octets_def unat_byte unat_ip_word [OF assms])

lemma octets_word:
  assumes "octets w = (a, b, c, d)"
  shows "a < 256" "b < 256" "c < 256" "d < 256" "ip_word a b c d = w"
proof -
  have o: "a = unat w div 2 ^ 24 mod 256" "b = unat w div 2 ^ 16 mod 256" "c = unat w div 2 ^ 8 mod 256" "d = unat w mod 256"
    using assms unat_byte [of 24 w] unat_byte [of 16 w] unat_byte [of 8 w] unat_byte [of 0 w]
    by (simp_all add: octets_def)
  then show "a < 256" "b < 256" "c < 256" "d < 256" by simp_all
  have "unat w < 2 ^ 32" using unsigned_less [of w] by simp
  from four_bytes [OF this] show "ip_word a b c d = w"
    by (simp only: ip_word_def o [symmetric]) simp
qed

lemma inet_ntoa_octets: "inet_ntoa w = (case octets w of (a, b, c, d) \<Rightarrow> dotted a b c d)"
  by (simp add: inet_ntoa_def octets_def dotted_def)

lemma inet_ntoa_ip_word:
  "a < 256 \<Longrightarrow> b < 256 \<Longrightarrow> c < 256 \<Longrightarrow> d < 256 \<Longrightarrow> inet_ntoa (ip_word a b c d) = dotted a b c d"
  by (simp add: inet_ntoa_octets octets_ip_word)

lemma mask_bits_prefix: "n \<le> 32 \<Longrightarrow> mask_bits (prefix_mask n) = int n"
proof -
  have "\<forall>n \<in> set [0..<33]. mask_bits (prefix_mask n) = int n" by code_simp
  then show "n \<le> 32 \<Longrightarrow> mask_bits (prefix_mask n) = int n" by (simp del: upt_rec_numeral)
qed

lemma prefix_mask_all: "prefix_mask 32 = - 1" "n < 32 \<Longrightarrow> prefix_mask n \<noteq> - 1"
proof -
  show p: "prefix_mask 32 = - 1" by (simp add: prefix_mask_def)
  show "n < 32 \<Longrightarrow> prefix_mask n \<noteq> - 1"
    using mask_bits_prefix [of n] mask_bits_prefix [of 32] p by auto
qed

text \<open>How an address is written in the listing, and that it is the same one.\<close>

fun shown :: "endpoint \<Rightarrow> endpoint" where
  "shown (Network a b c d n) =
     (if n = 0 then Anyone
      else if n = 32 then Host a b c d
      else case octets (ip_word a b c d AND prefix_mask n) of (a, b, c, d) \<Rightarrow> Network a b c d n)"
| "shown e = e"

lemma shown_same:
  assumes "endpoint_ok e"
  shows "endpoint_ok (shown e)" "endpoint_addr (shown e) = endpoint_addr e" "endpoint_mask (shown e) = endpoint_mask e"
    "shown e = This_host \<longleftrightarrow> e = This_host"
proof -
  have "endpoint_ok (shown e) \<and> endpoint_addr (shown e) = endpoint_addr e \<and> endpoint_mask (shown e) = endpoint_mask e \<and>
      (shown e = This_host \<longleftrightarrow> e = This_host)"
  proof (cases e)
    case (Network a b c d n)
    obtain a' b' c' d' where o: "octets (ip_word a b c d AND prefix_mask n) = (a', b', c', d')"
      by (cases "octets (ip_word a b c d AND prefix_mask n)")
    have "prefix_mask 0 = 0" using width_mask_prefix [of 0] by (simp add: width_mask_def)
    then show ?thesis
      using assms Network o octets_word [OF o] prefix_mask_all(1) by (simp add: and.assoc)
  qed (use assms in simp_all)
  then show "endpoint_ok (shown e)" "endpoint_addr (shown e) = endpoint_addr e" "endpoint_mask (shown e) = endpoint_mask e"
    "shown e = This_host \<longleftrightarrow> e = This_host" by simp_all
qed

lemma show_addr_endpoint:
  assumes "endpoint_ok e" "e \<noteq> This_host"
  shows "show_addr nm False (endpoint_addr e) (endpoint_mask e) = endpoint_text (shown e)"
proof (cases e)
  case Anyone
  have "mask_bits 0 = 0" by code_simp
  then show ?thesis using Anyone by (simp add: show_addr_def)
next
  case (Host a b c d)
  then show ?thesis using assms by (simp add: show_addr_def inet_ntoa_ip_word)
next
  case (Network a b c d n)
  obtain a' b' c' d' where o: "octets (ip_word a b c d AND prefix_mask n) = (a', b', c', d')"
    by (cases "octets (ip_word a b c d AND prefix_mask n)")
  show ?thesis
  proof (cases "n = 32")
    case True
    then show ?thesis using assms Network prefix_mask_all(1) by (simp add: show_addr_def inet_ntoa_ip_word)
  next
    case False
    then have "n < 32" using assms Network by simp
    then show ?thesis
      using Network prefix_mask_all(2) [of n] mask_bits_prefix [of n] o
      by (simp add: show_addr_def Let_def inet_ntoa_octets dec_int_def)
  qed
qed (use assms in simp)

subsection \<open>The words of a line\<close>

definition spaced :: "string list \<Rightarrow> string" where
  "spaced ws = concat (map ((#) CHR '' '') ws)"

lemma spaced_simps [simp]: "spaced [] = []" "spaced (w # ws) = CHR '' '' # w @ spaced ws" "spaced (vs @ ws) = spaced vs @ spaced ws"
  by (simp_all add: spaced_def)

lemma words_spaced: "\<forall>w \<in> set ws. blank_free w \<and> w \<noteq> [] \<Longrightarrow> words (s @ spaced ws) = words s @ ws"
proof (induction ws arbitrary: s)
  case (Cons w ws)
  have "words (s @ CHR '' '' # w) = words s @ [w]"
    using Cons.prems words_last [of w] by (simp add: words_append_blank)
  then show ?case using Cons.IH [of "s @ CHR '' '' # w"] Cons.prems by simp
qed simp

lemma nl_spaced: "nl \<notin> set (spaced ws) \<longleftrightarrow> (\<forall>w \<in> set ws. nl \<notin> set w)"
  by (induction ws) simp_all

text \<open>The words of the number are the number, which \<open>atoi\<close> reads back.\<close>

lemma atoi_dec5 [simp]: "k < 2 ^ 31 \<Longrightarrow> atoi (dec5 k) = int k"
proof (rule atoi_small)
  have "digits_value (replicate m CHR ''0'' @ dec k) = int k" for m
    using digits_value_dec [of k] by (induction m) (simp_all add: digits_value_def isdigit_def)
  moreover have "dec5 k \<noteq> []" "\<And>c. c \<in> set (dec5 k) \<Longrightarrow> isdigit c"
    by (auto simp: dec5_def isdigit_def dest: dec_digits)
  ultimately show "number_value (dec5 k) = int k" by (simp add: number_value_digits) (simp add: dec5_def)
qed

lemma dec5_facts: "blank_free (dec5 k)" "dec5 k \<noteq> []" "nl \<notin> set (dec5 k)" "starts_digit (dec5 k)"
proof -
  have d: "isdigit c" if "c \<in> set (dec5 k)" for c
    using that by (auto simp: dec5_def isdigit_def dest: dec_digits)
  show n: "dec5 k \<noteq> []" by (simp add: dec5_def)
  show "blank_free (dec5 k)" "nl \<notin> set (dec5 k)" using d [of "CHR '' ''"] d [of nl] by (auto simp: blank_free_def isdigit_def)
  show "starts_digit (dec5 k)" using d n by (simp add: starts_digit_def)
qed

subsection \<open>What is shown of a rule\<close>

text \<open>A plain listing: no names, counters or times, and the usual names of the four protocols.\<close>

definition plain_listing :: "netdb \<Rightarrow> fw_opts \<Rightarrow> bool" where
  "plain_listing db o1 \<longleftrightarrow> \<not> do_resolv o1 \<and> \<not> do_acct o1 \<and> \<not> do_time o1 \<and>
     (\<forall>p. protobynumber db (protocol_number p) = Some (proto_text p))"

text \<open>The options in the words of the listing.\<close>

definition shown_option :: "proto \<Rightarrow> int \<Rightarrow> string list" where
  "shown_option p n = (case p of
     IP \<Rightarrow> if n = SSRR then [''ipopt'', ''ssrr''] else if n = LSRR then [''ipopt'', ''lsrr'']
          else if n = TS then [''ipopt'', ''ts''] else []
   | TCP \<Rightarrow> if n = SETUP then [''setup''] else if n = ESTABLISHED then [''established'']
           else if n = FRAG then [''frag''] else []
   | UDP \<Rightarrow> []
   | ICMP \<Rightarrow> if n = ECHO_REQUEST then [''icmptype'', ''5''] else if n = DEST_UNREACH then [''icmptype'', ''3'']
            else if n = ECHO_REPLY then [''icmptype'', ''0''] else [])"

lemma shown_option_means: "opts_mean db p i n (dir_words i @ shown_option p n)"
proof -
  have "dir_words i @ shown_option p n = [] \<or> hd (dir_words i @ shown_option p n) \<in> set key_words"
    by (auto simp: dir_words_def shown_option_def key_words_def split: ifs.split proto.split)
  moreover have "add_options db (r, False, False) (dir_words i @ shown_option p n) =
      Ok (option_rule p n (add_flags (word_flags i) r), False, False)"
    if "fw_prot r = protocol_number p" "no_options r" for r
    using that
    by (cases p; cases i)
      (simp_all add: dir_words_def shown_option_def add_option_def kw_def strncmp_eq_def with_arg_def
        add_tcp_option_def add_icmp_option_def strtoul_def isspace_def digit_value_def ICMPTYPES_def
        option_rule_def direction_flags_def word_flags_def add_flags_def no_options_def ip_opts_def
        protocol_number_def IPPROTO_IP_def IPPROTO_ICMP_def IPPROTO_TCP_def IPPROTO_UDP_def)
  ultimately show ?thesis by (simp add: opts_mean_def)
qed

text \<open>The action of a rule of the dialogs, its text and its words.\<close>

definition dialog_action :: "ip_fw \<Rightarrow> string \<Rightarrow> string list \<Rightarrow> bool" where
  "dialog_action r t ws \<longleftrightarrow>
     (\<exists>a. a \<noteq> FWD \<and> r = action_rule a \<and> t = action_text a \<and> ws = action_words a) \<or>
     (\<exists>a b c d port. endpoint_ok (Host a b c d) \<and> ip_word a b c d \<noteq> 0 \<and> 0 < port \<and> port < 65536 \<and>
        r = forward_rule (ip_word a b c d) port \<and> t = ''fwd '' @ dotted a b c d @ '','' @ dec port \<and>
        ws = [''fwd'', dotted a b c d @ '','' @ dec port])"

lemma dialog_action_fresh: "dialog_action r t ws \<Longrightarrow> fresh_rule r"
  by (auto simp: dialog_action_def fresh_action_rule fresh_forward_rule)

lemma dialog_action_text:
  assumes "dialog_action r t ws"
  shows "CHR '' '' # t = spaced ws" "\<forall>w \<in> set ws. blank_free w \<and> w \<noteq> [] \<and> nl \<notin> set w"
proof -
  have "CHR '' '' # action_text a = spaced (action_words a)"
    "\<forall>w \<in> set (action_words a). blank_free w \<and> w \<noteq> [] \<and> nl \<notin> set w" for a
    by (cases a; simp add: action_text_def action_words_def blank_free_def)+
  moreover have "blank_free (dotted a b c d @ '','' @ dec port)" "nl \<notin> set (dotted a b c d @ '','' @ dec port)" for a b c d port
    using text_words(1,3) [of a b c d] text_words(2,4) [of port] by (auto simp: blank_free_def)
  ultimately show "CHR '' '' # t = spaced ws" "\<forall>w \<in> set ws. blank_free w \<and> w \<noteq> [] \<and> nl \<notin> set w"
    using assms by (auto simp: dialog_action_def blank_free_def)
qed

lemma dialog_action_shown:
  assumes "dialog_action r t ws" and "fw_command r' = fw_command r" "fw_un r' = fw_un r" "fw_fwd_ip r' = fw_fwd_ip r"
    "fw_fwd_port r' = fw_fwd_port r"
  shows "show_action r' = Some t" "fw_command r' \<noteq> F_CHECK_S"
proof -
  have d: "dec 8668 = ''8668''" by (simp add: dec.simps digit_def char_of_def bit_Suc_0_iff)
  have "show_action r' = Some t \<and> fw_command r' \<noteq> F_CHECK_S"
    using assms(1) unfolding dialog_action_def
  proof (elim disjE exE conjE)
    fix a assume "a \<noteq> FWD" "r = action_rule a" "t = action_text a"
    then show ?thesis
      using assms(2-5) d by (cases a) (simp_all add: show_action_def action_rule_def action_text_def)
  next
    fix a b c d port
    assume "endpoint_ok (Host a b c d)" "0 < port" "r = forward_rule (ip_word a b c d) port"
      "t = ''fwd '' @ dotted a b c d @ '','' @ dec port"
    then show ?thesis
      using assms(2-5) by (simp add: show_action_def forward_rule_def inet_ntoa_ip_word)
  qed
  then show "show_action r' = Some t" "fw_command r' \<noteq> F_CHECK_S" by simp_all
qed

text \<open>With a number in front, it is read as the same rule.\<close>

lemma add_number_prob: "w \<noteq> [] \<Longrightarrow> \<not> kw w ''prob'' \<Longrightarrow> k < 65536 \<Longrightarrow>
    add_prob db (add_number (zero_fw, dec5 k # w # ws)) = Ok (zero_fw\<lparr>fw_number := k\<rparr>, w # ws)"
  using dec5_facts(4) [of k] by (cases ws) (simp_all add: add_number_def add_prob_def u_short_def)

lemma numbered_action:
  assumes "a \<noteq> FWD" "k < 65536"
  shows "add_rule db (dec5 k # action_words a @ av) = add_body db ((action_rule a)\<lparr>fw_number := k\<rparr>, av)"
proof -
  have prob: "add_prob db (add_number (zero_fw, dec5 k # action_words a @ av)) =
      Ok (zero_fw\<lparr>fw_number := k\<rparr>, action_words a @ av)"
    using assms by (cases a) (simp_all add: action_words_def add_number_prob kw_def strncmp_eq_def)
  have "add_action db (zero_fw\<lparr>fw_number := k\<rparr>, action_words a @ av) = Ok ((action_rule a)\<lparr>fw_number := k\<rparr>, av, False)"
    using assms(1)
    by (cases a) (simp_all add: action_words_def kw_def strncmp_eq_def add_action_def divert_port_def strtoul_def
        isspace_def digit_value_def u_short_def action_rule_def zero_fw_def)
  then show ?thesis by (simp add: add_rule_def prob)
qed

lemma dialog_action_read:
  assumes "dialog_action r t ws" and "k < 65536"
  shows "add_rule db (dec5 k # ws @ av) = add_body db (r\<lparr>fw_number := k\<rparr>, av)"
  using assms(1) unfolding dialog_action_def
proof (elim disjE exE conjE)
  fix a assume "a \<noteq> FWD" "r = action_rule a" "ws = action_words a"
  then show ?thesis using numbered_action [OF _ assms(2)] by simp
next
  fix a b c d port
  assume f: "endpoint_ok (Host a b c d)" "ip_word a b c d \<noteq> 0" "port < 65536" "r = forward_rule (ip_word a b c d) port"
    "ws = [''fwd'', dotted a b c d @ '','' @ dec port]"
  have ws: "ws @ av = ''fwd'' # (dotted a b c d @ '','' @ dec port) # av" using f(5) by simp
  have "\<not> kw ''fwd'' ''prob''" by (simp add: kw_def strncmp_eq_def)
  moreover have "add_action db (zero_fw\<lparr>fw_number := k\<rparr>, ''fwd'' # av) =
      bind_o (forward_to db (zero_fw\<lparr>fw_number := k, fw_command := F_FWD\<rparr>) av) (\<lambda>(r, av). Ok (r, av, False))" for av
    by (simp add: add_action_def kw_def strncmp_eq_def)
  moreover have "(zero_fw\<lparr>fw_number := k, fw_command := F_FWD\<rparr>)\<lparr>fw_fwd_port := port, fw_fwd_ip := ip_word a b c d\<rparr> =
      r\<lparr>fw_number := k\<rparr>"
    by (simp add: f(4) forward_rule_def zero_fw_def)
  ultimately show ?thesis
    using assms(2) unfolding ws by (simp add: add_rule_def add_number_prob forward_to_words [OF f(1-3)] del: append_Cons)
qed

subsection \<open>The line of a rule of the dialogs\<close>

lemma option_rule_sel [simp]:
  "fw_number (option_rule p n r) = fw_number r" "fw_command (option_rule p n r) = fw_command r"
  "fw_un (option_rule p n r) = fw_un r" "fw_fwd_ip (option_rule p n r) = fw_fwd_ip r"
  "fw_fwd_port (option_rule p n r) = fw_fwd_port r" "fw_prot (option_rule p n r) = fw_prot r"
  "fw_src (option_rule p n r) = fw_src r" "fw_smsk (option_rule p n r) = fw_smsk r"
  "fw_dst (option_rule p n r) = fw_dst r" "fw_dmsk (option_rule p n r) = fw_dmsk r"
  "fw_pts (option_rule p n r) = fw_pts r" "fw_nsrcp (option_rule p n r) = fw_nsrcp r"
  "fw_ndstp (option_rule p n r) = fw_ndstp r" "fw_tcpopt (option_rule p n r) = fw_tcpopt r"
  "fw_tcpnopt (option_rule p n r) = fw_tcpnopt r" "fw_ipnopt (option_rule p n r) = fw_ipnopt r"
  by (cases p; simp add: option_rule_def)+

lemma built_rule_sel [simp]:
  "fw_command (built_rule r p src sport dst dport i n) = fw_command r"
  "fw_un (built_rule r p src sport dst dport i n) = fw_un r"
  "fw_fwd_ip (built_rule r p src sport dst dport i n) = fw_fwd_ip r"
  "fw_fwd_port (built_rule r p src sport dst dport i n) = fw_fwd_port r"
  "fw_prot (built_rule r p src sport dst dport i n) = protocol_number p"
  "fw_src (built_rule r p src sport dst dport i n) = endpoint_addr src"
  "fw_smsk (built_rule r p src sport dst dport i n) = endpoint_mask src"
  "fw_dst (built_rule r p src sport dst dport i n) = endpoint_addr dst"
  "fw_dmsk (built_rule r p src sport dst dport i n) = endpoint_mask dst"
  "fw_pts (built_rule r p src sport dst dport i n) = rule_ports p sport @ rule_ports p dport"
  "fw_nsrcp (built_rule r p src sport dst dport i n) = length (rule_ports p sport)"
  "fw_ndstp (built_rule r p src sport dst dport i n) = length (rule_ports p dport)"
  "fw_tcpopt (built_rule r p src sport dst dport i n) = fw_tcpopt r"
  "fw_tcpnopt (built_rule r p src sport dst dport i n) = fw_tcpnopt r"
  "fw_ipnopt (built_rule r p src sport dst dport i n) = fw_ipnopt r"
  by (simp_all add: built_rule_def add_flags_def ends_rule_def)

lemma built_rule_flags:
  "x \<in> fw_flg (built_rule r p src sport dst dport i n) \<longleftrightarrow>
     x = F_SME \<and> src = This_host \<or> x = F_DME \<and> dst = This_host \<or> x \<in> direction_flags i \<or>
     x = F_FRAG \<and> p = TCP \<and> n = FRAG \<or> x = F_ICMPBIT \<and> p = ICMP \<and> n \<in> {ECHO_REQUEST, DEST_UNREACH, ECHO_REPLY}"
  by (cases p) (auto simp: built_rule_def option_rule_def add_flags_def ends_rule_def)

definition sent_ports :: "proto \<Rightarrow> nat option \<Rightarrow> nat option" where
  "sent_ports p q = (if p \<in> {TCP, UDP} then q else None)"

lemma show_ends_built:
  assumes r_def: "r = (built_rule r0 p src sport dst dport i n)\<lparr>fw_number := k\<rparr>"
    and "plain_listing db o1" "endpoint_ok src" "endpoint_ok dst"
  shows "show_src nm db o1 r = spaced (''from'' # endpoint_text (shown src) # port_args (sent_ports p sport))"
    "show_dst nm db o1 r = spaced (''to'' # endpoint_text (shown dst) # port_args (sent_ports p dport))"
proof -
  have ports: "print_ports (print_port nm db False q) False False 0 CHR '' '' (port_list s) = spaced (port_args s)" for q s
    by (cases s) (simp_all add: port_list_def port_args_def print_port_def)
  have flags: "F_INVSRC \<notin> fw_flg r" "F_INVDST \<notin> fw_flg r" "F_SRNG \<notin> fw_flg r" "F_SMSK \<notin> fw_flg r"
    "F_DRNG \<notin> fw_flg r" "F_DMSK \<notin> fw_flg r" "F_SME \<in> fw_flg r \<longleftrightarrow> src = This_host" "F_DME \<in> fw_flg r \<longleftrightarrow> dst = This_host"
    by (auto simp: r_def built_rule_flags direction_flags_def split: ifs.split)
  have q: "(protocol_number p = IPPROTO_TCP \<or> protocol_number p = IPPROTO_UDP) = (p \<in> {TCP, UDP})"
    by (cases p) (simp_all add: protocol_number_def IPPROTO_IP_def IPPROTO_ICMP_def IPPROTO_TCP_def IPPROTO_UDP_def)
  have "fw_prot r = protocol_number p" "take (fw_nsrcp r) (fw_pts r) = rule_ports p sport"
    "take (fw_ndstp r) (drop (fw_nsrcp r) (fw_pts r)) = rule_ports p dport"
    "fw_src r = endpoint_addr src" "fw_smsk r = endpoint_mask src" "fw_dst r = endpoint_addr dst" "fw_dmsk r = endpoint_mask dst"
    by (simp_all add: r_def)
  moreover have "\<not> do_resolv o1" using assms(2) by (simp add: plain_listing_def)
  ultimately show
    "show_src nm db o1 r = spaced (''from'' # endpoint_text (shown src) # port_args (sent_ports p sport))"
    "show_dst nm db o1 r = spaced (''to'' # endpoint_text (shown dst) # port_args (sent_ports p dport))"
    using flags q ports show_addr_endpoint [OF assms(3)] show_addr_endpoint [OF assms(4)]
    by (cases "src = This_host"; cases "dst = This_host";
        simp add: show_src_def show_dst_def rule_ports_def sent_ports_def port_args_def)+
qed

lemma print_types_single: "print_types {0} = '' 0''" "print_types {3} = '' 3''" "print_types {5} = '' 5''"
  by code_simp+

lemma show_options_built:
  assumes r_def: "r = (built_rule r0 p src sport dst dport i n)\<lparr>fw_number := k\<rparr>"
    and "fresh_rule r0"
  shows "show_direction r @ show_ifaces r @ show_options r = spaced (dir_words i @ shown_option p n)"
    "show_owner nm r = []" "show_state r = []"
proof -
  have "show_direction r = spaced (dir_words i)"
    by (cases i) (auto simp: r_def show_direction_def built_rule_flags direction_flags_def dir_words_def)
  moreover have "show_ifaces r = []"
    by (cases i) (auto simp: r_def show_ifaces_def built_rule_flags direction_flags_def)
  moreover have "fw_tcpopt r0 = {}" "fw_tcpnopt r0 = {}" "fw_ipnopt r0 = {}"
    using assms(2) by (cases r0; simp add: fresh_rule_def zero_fw_def)+
  then have "show_options r = spaced (shown_option p n)"
    using fresh_rule_sel [OF assms(2)] print_types_single
    by (cases p; cases i)
      (simp_all add: r_def show_options_def built_rule_def option_rule_def add_flags_def ends_rule_def direction_flags_def
        shown_option_def print_set_def shown_ip_opts_def)
  ultimately show "show_direction r @ show_ifaces r @ show_options r = spaced (dir_words i @ shown_option p n)"
    by simp
  show "show_owner nm r = []" "show_state r = []"
    by (cases i; auto simp: r_def show_owner_def show_state_def built_rule_flags direction_flags_def)+
qed

text \<open>
  A rule as the dialogs make it, under a number of the kernel: an action, a protocol (TCP for
  \<open>reset\<close>), two addresses, ports for TCP and UDP (none beside \<open>frag\<close>), a direction and an option.
\<close>

inductive dialog_rule :: "ip_fw \<Rightarrow> bool" where
  dialog_rule: "dialog_action r t ws \<Longrightarrow> (fw_command r = F_REJECT \<Longrightarrow> p = TCP) \<Longrightarrow>
     endpoint_ok src \<Longrightarrow> endpoint_ok dst \<Longrightarrow> port_ok sport \<Longrightarrow> port_ok dport \<Longrightarrow>
     (p = TCP \<Longrightarrow> n = FRAG \<Longrightarrow> sport = None \<and> dport = None) \<Longrightarrow> k < 65536 \<Longrightarrow>
     dialog_rule ((built_rule r p src sport dst dport i n)\<lparr>fw_number := k\<rparr>)"

lemma dialog_action_listed: "a \<noteq> FWD \<Longrightarrow> dialog_action (action_rule a) (action_text a) (action_words a)"
  by (auto simp: dialog_action_def)

lemma built_rule_number:
  "(built_rule r0 p src sport dst dport i n)\<lparr>fw_number := k\<rparr> = built_rule (r0\<lparr>fw_number := k\<rparr>) p src sport dst dport i n"
  by (cases p) (simp_all add: built_rule_def option_rule_def add_flags_def ends_rule_def)

lemma ends_rule_shown:
  assumes "endpoint_ok src" "endpoint_ok dst"
  shows "built_rule r p (shown src) sport (shown dst) dport i n = built_rule r p src sport dst dport i n"
  using shown_same [OF assms(1)] shown_same [OF assms(2)] by (simp add: built_rule_def ends_rule_def)

lemma fresh_rule_number: "fresh_rule (r\<lparr>fw_number := k\<rparr>) = fresh_rule r"
  by (simp add: fresh_rule_def)

lemma show_ipfw_plain:
  assumes "\<not> do_acct o1" "\<not> do_time o1" "show_action r = Some t" "fw_command r \<noteq> F_CHECK_S"
    "F_RND_MATCH \<notin> fw_flg r" "F_PRN \<notin> fw_flg r" "protobynumber db (fw_prot r) = Some q" "entry_rule e = r"
  shows "show_ipfw nm db o1 pw bw e = Some (dec5 (fw_number r) @ CHR '' '' # t @ CHR '' '' # q @
    show_src nm db o1 r @ show_dst nm db o1 r @ show_owner nm r @ show_state r @ show_direction r @
    show_ifaces r @ show_options r @ [nl])"
  using assms by (simp add: show_ipfw_def show_head_def)

definition plain_word :: "string \<Rightarrow> bool" where
  "plain_word w \<longleftrightarrow> blank_free w \<and> w \<noteq> [] \<and> nl \<notin> set w"

lemma plain_words:
  "plain_word (proto_text p)" "\<forall>w \<in> set (port_args q). plain_word w" "\<forall>w \<in> set (dir_words i). plain_word w"
  "\<forall>w \<in> set (shown_option p n). plain_word w" "plain_word (endpoint_text e)" "plain_word ''from''" "plain_word ''to''"
proof -
  show "plain_word (proto_text p)" by (cases p) (simp_all add: plain_word_def proto_text_def blank_free_def)
  show "\<forall>w \<in> set (port_args q). plain_word w"
    by (cases q) (simp_all add: plain_word_def port_args_def text_words)
  show "\<forall>w \<in> set (dir_words i). plain_word w"
    by (cases i) (simp_all add: plain_word_def dir_words_def blank_free_def)
  show "\<forall>w \<in> set (shown_option p n). plain_word w"
    by (cases p) (auto simp: plain_word_def shown_option_def blank_free_def)
qed (simp_all add: plain_word_def, simp_all add: blank_free_def)

text \<open>The line is the number and words that do not depend on how the rule was made.\<close>

lemma show_dialog_rule:
  assumes "dialog_rule (entry_rule e)" and "plain_listing db o1" and "std_tables db"
  obtains ws where "show_ipfw nm db o1 pw bw e = Some (dec5 (fw_number (entry_rule e)) @ spaced ws @ [nl])"
    and "\<forall>w \<in> set ws. plain_word w"
    and "add_rule db (dec5 (fw_number (entry_rule e)) # ws) = Ok (entry_rule e)"
proof -
  obtain r0 t ws p src sport dst dport i n k where a: "dialog_action r0 t ws" "fw_command r0 = F_REJECT \<Longrightarrow> p = TCP"
      "endpoint_ok src" "endpoint_ok dst" "port_ok sport" "port_ok dport"
      "p = TCP \<Longrightarrow> n = FRAG \<Longrightarrow> sport = None \<and> dport = None" "k < 65536"
    and r: "entry_rule e = (built_rule r0 p src sport dst dport i n)\<lparr>fw_number := k\<rparr>" (is "_ = ?r")
    using assms(1) by (cases rule: dialog_rule.cases) metis
  note fresh = dialog_action_fresh [OF a(1)]
  define rest where "rest = proto_text p # ''from'' # endpoint_text (shown src) # port_args (sent_ports p sport) @
    ''to'' # endpoint_text (shown dst) # port_args (sent_ports p dport) @ dir_words i @ shown_option p n"
  note ends = show_ends_built [where r = "?r", OF refl assms(2) a(3,4)]
  note options = show_options_built [where r = "?r", OF refl fresh]
  have act: "show_action ?r = Some t" "fw_command ?r \<noteq> F_CHECK_S"
    using dialog_action_shown [OF a(1), of ?r] by simp_all
  have flags: "F_RND_MATCH \<notin> fw_flg ?r" "F_PRN \<notin> fw_flg ?r"
    by (auto simp: built_rule_flags direction_flags_def split: ifs.split)
  have plain: "protobynumber db (fw_prot ?r) = Some (proto_text p)" "\<not> do_acct o1" "\<not> do_time o1"
    using assms(2) by (simp_all add: plain_listing_def)
  have lead: "CHR '' '' # t @ x = spaced ws @ x" for x
    using dialog_action_text(1) [OF a(1)] by (simp only: append_Cons [symmetric])
  have dir: "show_direction ?r @ show_ifaces ?r @ show_options ?r @ [nl] =
      spaced (dir_words i @ shown_option p n) @ [nl]"
    by (simp only: append_assoc flip: options(1))
  have "show_src nm db o1 ?r @ show_dst nm db o1 ?r @ show_owner nm ?r @ show_state ?r @
      show_direction ?r @ show_ifaces ?r @ show_options ?r @ [nl] = spaced (tl rest) @ [nl]"
    by (simp only: ends options(2,3) append_Nil dir) (simp add: rest_def)
  moreover have "spaced rest = CHR '' '' # proto_text p @ spaced (tl rest)" by (simp add: rest_def)
  moreover have "fw_number ?r = k" by simp
  ultimately have "show_ipfw nm db o1 pw bw e = Some (dec5 k @ CHR '' '' # t @ spaced rest @ [nl])"
    using show_ipfw_plain [OF plain(2,3) act flags plain(1) r, of nm pw bw] by (simp only: append_Cons append_Nil append_assoc)
  then have line: "show_ipfw nm db o1 pw bw e = Some (dec5 k @ spaced (ws @ rest) @ [nl])"
    using lead by (simp only: spaced_simps append_assoc)
  have free: "\<forall>w \<in> set (ws @ rest). plain_word w"
    using dialog_action_text(2) [OF a(1)] plain_words by (simp add: rest_def ball_Un flip: plain_word_def)
  have "add_body db (r0\<lparr>fw_number := k\<rparr>, rest) = Ok (built_rule (r0\<lparr>fw_number := k\<rparr>) p (shown src) sport (shown dst) dport i n)"
    unfolding rest_def sent_ports_def
    by (rule add_body_words [OF assms(3) _ _ _ _ a(5,6) shown_option_means])
      (use a fresh shown_same in \<open>simp_all add: fresh_rule_number\<close>)
  then have "add_rule db (dec5 k # ws @ rest) = Ok ?r"
    using dialog_action_read [OF a(1,8)] by (simp only: built_rule_number ends_rule_shown [OF a(3,4)])
  with line free that [of "ws @ rest"] r show thesis by simp
qed

text \<open>
  C8. What ipfw lists can be entered again. When the rules of the kernel are rules of the dialogs and
  the last one is the default rule, \<open>list\<close> prints one line for each, and \<open>add\<close> reads the words of
  every line as exactly the rule that was listed, with its number: the action, the protocol, the
  addresses and masks, the ports, the direction and the option.
\<close>

theorem listing_read_back:
  assumes "upto_default es = Some rs" and "\<forall>e \<in> set rs. dialog_rule (entry_rule e)"
    and "plain_listing db o1" and "std_tables db"
  shows "\<exists>ls. list_rules nm db o1 es [] = Some (concat ls, None) \<and>
    map (\<lambda>l. add_rule db (command_words l)) ls = map (\<lambda>e. Ok (entry_rule e)) rs \<and>
    (\<forall>l \<in> set ls. \<exists>s. l = s @ [nl] \<and> nl \<notin> set s)"
proof -
  have "\<exists>ls. show_all (show_ipfw nm db o1 pw bw) rs = Some (concat ls) \<and>
    map (\<lambda>l. add_rule db (command_words l)) ls = map (\<lambda>e. Ok (entry_rule e)) rs \<and>
    (\<forall>l \<in> set ls. \<exists>s. l = s @ [nl] \<and> nl \<notin> set s)" for pw bw
    using assms(2)
  proof (induction rs)
    case (Cons e rs)
    then obtain ls where ls: "show_all (show_ipfw nm db o1 pw bw) rs = Some (concat ls)"
        "map (\<lambda>l. add_rule db (command_words l)) ls = map (\<lambda>e. Ok (entry_rule e)) rs"
        "\<forall>l \<in> set ls. \<exists>s. l = s @ [nl] \<and> nl \<notin> set s" by auto
    let ?n = "dec5 (fw_number (entry_rule e))"
    obtain ws where l: "show_ipfw nm db o1 pw bw e = Some (?n @ spaced ws @ [nl])"
        "\<forall>w \<in> set ws. plain_word w" "add_rule db (?n # ws) = Ok (entry_rule e)"
      using show_dialog_rule [OF _ assms(3,4), of e nm pw bw] Cons.prems by auto
    have nl: "nl \<notin> set (?n @ spaced ws)" using l(2) dec5_facts(3) by (simp add: nl_spaced plain_word_def)
    have "words (?n @ spaced ws) = ?n # ws"
      using l(2) words_spaced [of ws ?n] dec5_facts(1,2) words_last by (simp add: plain_word_def)
    then have "add_rule db (command_words (?n @ spaced ws @ [nl])) = Ok (entry_rule e)"
      using command_words_line(1) [OF nl, of "[]"] l(3) by simp
    then show ?case
      using ls l(1) nl by (intro exI [of _ "(?n @ spaced ws @ [nl]) # ls"]) auto
  qed simp
  then obtain ls where "show_all (show_ipfw nm db o1 0 0) rs = Some (concat ls)"
      "map (\<lambda>l. add_rule db (command_words l)) ls = map (\<lambda>e. Ok (entry_rule e)) rs"
      "\<forall>l \<in> set ls. \<exists>s. l = s @ [nl] \<and> nl \<notin> set s" by blast
  then show ?thesis
    using assms(1,3) by (intro exI [of _ ls]) (simp add: list_rules_def plain_listing_def)
qed

definition plain_names :: names where
  "plain_names = \<lparr>hostbyaddr = (\<lambda>_. None), servbyport = (\<lambda>_ _. None), username = (\<lambda>_. None), groupname = (\<lambda>_. None),
     prob_text = (\<lambda>_. []), ctime_text = (\<lambda>_. [])\<rparr>"

definition listing_db :: netdb where
  "listing_db = plain_db\<lparr>protobynumber := [0 \<mapsto> ''ip'', 1 \<mapsto> ''icmp'', 6 \<mapsto> ''tcp'', 17 \<mapsto> ''udp'']\<rparr>"

definition http_rule :: ip_fw where
  "http_rule = (built_rule (action_rule ALLOW) TCP (Network 10 0 0 0 8) None This_host (Some 80) INCOMING SETUP)\<lparr>fw_number := 100\<rparr>"

definition default_rule :: ip_fw where
  "default_rule = (built_rule (action_rule DENY) IP Anyone None Anyone None ANY 0)\<lparr>fw_number := 65535\<rparr>"

theorem listing_read_back_witness:
  "\<exists>ls. list_rules plain_names listing_db (start_opts listing_db)
      [\<lparr>entry_rule = http_rule, fw_pcnt = 7, fw_bcnt = 420, fw_timestamp = 0\<rparr>,
       \<lparr>entry_rule = default_rule, fw_pcnt = 1, fw_bcnt = 60, fw_timestamp = 0\<rparr>] [] =
      Some (concat ls, None) \<and>
    map (\<lambda>l. add_rule listing_db (command_words l)) ls = [Ok http_rule, Ok default_rule]"
proof -
  let ?e1 = "\<lparr>entry_rule = http_rule, fw_pcnt = 7, fw_bcnt = 420, fw_timestamp = 0\<rparr>"
  let ?e2 = "\<lparr>entry_rule = default_rule, fw_pcnt = 1, fw_bcnt = 60, fw_timestamp = 0\<rparr>"
  have "dialog_rule http_rule" unfolding http_rule_def
    by (rule dialog_rule [OF dialog_action_listed]) (simp_all add: port_ok_def)
  moreover have "dialog_rule default_rule" unfolding default_rule_def
    by (rule dialog_rule [OF dialog_action_listed]) (simp_all add: port_ok_def action_rule_def)
  moreover have "plain_listing listing_db (start_opts listing_db)"
    by (simp add: plain_listing_def start_opts_def listing_db_def protocol_number_def proto_text_def IPPROTO_IP_def
        IPPROTO_ICMP_def IPPROTO_TCP_def IPPROTO_UDP_def split: proto.split)
  moreover have "std_tables listing_db"
    using std_plain by (simp add: std_tables_def listing_db_def)
  moreover have "upto_default [?e1, ?e2] = Some [?e1, ?e2]"
    by (simp add: http_rule_def default_rule_def)
  ultimately show ?thesis
    using listing_read_back [of "[?e1, ?e2]" "[?e1, ?e2]" listing_db "start_opts listing_db" plain_names] by simp metis
qed

end
