(* ===== verification/IpfwLoop.thy ===== *)
theory IpfwLoop
  imports IpfwProps "HOL-Library.Sublist"
begin

text \<open>
  \<open>sbin/ipfw/ipfw.c\<close>: the \<open>while (ac)\<close> loop over the options of a rule ends. Every round takes the
  word of its option from the front of those that are left, so that there are at most as many rounds
  as words.
\<close>

text \<open>The loop over the options, stopped after \<open>n\<close> rounds; \<open>None\<close> when words are left then.\<close>

fun option_rounds :: "nat \<Rightarrow> netdb \<Rightarrow> option_state \<Rightarrow> string list \<Rightarrow> option_state outcome option" where
  "option_rounds n db st [] = Some (Ok st)"
| "option_rounds 0 db st (a # args) = None"
| "option_rounds (Suc n) db st (a # args) =
     (case add_option db st a args of
        Ok (st', av) \<Rightarrow> option_rounds n db st' av
      | Fail e \<Rightarrow> Some (Fail e)
      | Undefined \<Rightarrow> Some Undefined)"

lemmas suffix_rules = suffix_ConsI suffix_ConsD Nil_suffix suffix_order.refl

lemma fill_iface_ends: "fill_iface args = Ok (x, av) \<Longrightarrow> suffix av args"
  by (auto intro: suffix_rules simp: fill_iface_def Let_def split: list.splits if_splits option.splits)

lemma take_masks_ends: "suffix (snd (take_masks args m)) args"
  by (induction args m rule: take_masks.induct) (auto split: option.split intro: suffix_rules)

lemma add_limit_ends: "add_limit r args = Ok (r', av) \<Longrightarrow> suffix av args"
  using take_masks_ends [of args "{}"]
  by (auto dest: suffix_ConsD simp: add_limit_def split: prod.splits list.splits if_splits)

lemma add_tcp_option_ends: "add_tcp_option r a args = Ok (r', av) \<Longrightarrow> suffix av args"
  by (auto intro: suffix_rules simp: add_tcp_option_def bind_o_eq_Ok split: if_splits elim!: with_arg_shorter)

lemma add_icmp_option_ends: "add_icmp_option r a args = Ok (r', av) \<Longrightarrow> suffix av args"
  by (auto intro: suffix_rules simp: add_icmp_option_def bind_o_eq_Ok simp del: fill_icmptypes.simps split: if_splits elim!: with_arg_shorter)

lemma add_option_ends: "add_option db st a args = Ok (st', av) \<Longrightarrow> suffix av args"
  by (cases st)
    (auto intro: suffix_rules simp: add_option_def Let_def bind_o_eq_Ok split: if_splits list.splits prod.splits
      elim!: with_arg_shorter dest: fill_iface_ends add_limit_ends add_tcp_option_ends
        add_icmp_option_ends)

text \<open>
  C31. The loop over the options of a rule ends. Stopped after as many rounds as there are words it has
  run to its end, with the result of the loop; and a round leaves a part of the words that begins
  further on: no option puts words back or skips past the last one.
\<close>

theorem option_loop_ends:
  "option_rounds (length args) db st args = Some (add_options db st args) \<and>
   (add_option db st a args = Ok (st', av) \<longrightarrow> suffix av args)"
proof
  have "length args \<le> n \<Longrightarrow> option_rounds n db st args = Some (add_options db st args)" for n
  proof (induction n db st args rule: option_rounds.induct)
    case (3 n db st a args)
    then show ?case using add_option_shorter [of db st a args]
      by (cases "add_option db st a args") fastforce+
  qed simp_all
  then show "option_rounds (length args) db st args = Some (add_options db st args)" by simp
qed (use add_option_ends in blast)

theorem option_loop_ends_witness:
  "option_rounds (length [''in'', ''limit'', ''src-addr'', ''4'']) plain_db (zero_fw\<lparr>fw_prot := IPPROTO_TCP\<rparr>, False, False) [''in'', ''limit'', ''src-addr'', ''4''] =
    Some (add_options plain_db (zero_fw\<lparr>fw_prot := IPPROTO_TCP\<rparr>, False, False) [''in'', ''limit'', ''src-addr'', ''4'']) \<and>
   suffix [''limit'', ''src-addr'', ''4''] [''limit'', ''src-addr'', ''4'']"
proof -
  have "add_option plain_db (zero_fw\<lparr>fw_prot := IPPROTO_TCP\<rparr>, False, False) ''in'' [''limit'', ''src-addr'', ''4''] =
      Ok ((zero_fw\<lparr>fw_prot := IPPROTO_TCP, fw_flg := {F_IN}\<rparr>, False, False), [''limit'', ''src-addr'', ''4''])"
    by (simp add: add_option_def kw_def strncmp_eq_def zero_fw_def)
  then have "suffix [''limit'', ''src-addr'', ''4''] [''limit'', ''src-addr'', ''4'']"
    using option_loop_ends by blast
  moreover have "option_rounds (length [''in'', ''limit'', ''src-addr'', ''4'']) db st [''in'', ''limit'', ''src-addr'', ''4''] =
      Some (add_options db st [''in'', ''limit'', ''src-addr'', ''4''])" for db st
    by (rule option_loop_ends [THEN conjunct1])
  ultimately show ?thesis by blast
qed
end
