(* ===== verification/Natd.thy ===== *)
theory Natd
  imports IpfwMain
begin

text \<open>
  \<open>sbin/natd/natd.c\<close>: the daemon that \<open>nat.c\<close> and the boot start, to which the divert rule sends the
  packets. Modelled are the command line and the configuration file, the redirections, the checks and
  sockets of \<open>main\<close>, the search for the address of the interface, and the loop over the packets.
  The rewriting of packets is \<open>libalias\<close>, a library: what is called there is recorded, and what it
  answers is a parameter. A \<open>struct in_addr\<close> is a word in host order; ports are kept in the byte order
  the code keeps them in.
\<close>

subsection \<open>The calls of the library\<close>

datatype alias_opt = PKT_ALIAS_UNREGISTERED_ONLY | PKT_ALIAS_LOG | PKT_ALIAS_PROXY_ONLY | PKT_ALIAS_REVERSE
  | PKT_ALIAS_DENY_INCOMING | PKT_ALIAS_USE_SOCKETS | PKT_ALIAS_SAME_PORTS | PKT_ALIAS_PUNCH_FW

datatype alias_call =
    Set_mode alias_opt bool
  | Set_target "32 word"
  | Redirect_port "32 word" nat "32 word" nat "32 word" nat nat
  | Redirect_proto "32 word" "32 word" "32 word" nat
  | Redirect_addr "32 word" "32 word"
  | Add_server "32 word" nat
  | Proxy_rule string
  | Set_fw_base nat nat
  | Set_address "32 word"

text \<open>
  What the daemon takes from outside: the data bases, the files, the names of the log facilities
  (\<open>syslog.h\<close>), and whether a redirection made a link.
\<close>

record natd_env =
  natd_db :: netdb
  config_text :: "string \<Rightarrow> string option"
  facilities :: "(string \<times> nat) list"
  link_made :: "alias_call \<Rightarrow> bool"

record natd_st =
  natd_verbose :: bool
  dynamicMode :: bool
  inPort :: nat
  outPort :: nat
  inOutPort :: nat
  aliasAddr :: "32 word"
  ifName :: "string option"
  logDropped :: bool
  logFacility :: nat
  alias_calls :: "alias_call list"

definition INADDR_NONE :: "32 word" where "INADDR_NONE = - 1"
definition INADDR_ANY :: "32 word" where "INADDR_ANY = 0"

text \<open>\<open>LOG_DAEMON\<close> is 24.\<close>

definition natd_init :: natd_st where
  "natd_init = \<lparr>natd_verbose = False, dynamicMode = False, inPort = 0, outPort = 0, inOutPort = 0,
     aliasAddr = INADDR_NONE, ifName = None, logDropped = False, logFacility = 24, alias_calls = []\<rparr>"

definition lib_call :: "alias_call \<Rightarrow> natd_st \<Rightarrow> natd_st" where
  "lib_call c st = st\<lparr>alias_calls := alias_calls st @ [c]\<rparr>"

subsection \<open>Addresses and ports\<close>

text \<open>\<open>htons\<close> of an argument that is cut to 16 bits, on a little-endian machine.\<close>

definition htons :: "nat \<Rightarrow> nat" where
  "htons n = (n mod 256) * 256 + n div 256 mod 256"

text \<open>\<open>strtol(s, &end, 10)\<close>, with the value at its 32 bits.\<close>

definition strtol :: "string \<Rightarrow> int \<times> string" where
  "strtol s =
     (let t = dropWhile isspace s;
          neg = (take 1 t = ''-'');
          t = (if take 1 t = ''-'' \<or> take 1 t = ''+'' then tl t else t)
      in case read_digits 10 0 t of
           (v, rest) \<Rightarrow>
             if length rest = length t then (0, s)
             else (if neg then max (- (2 ^ 31)) (- int v) else min (2 ^ 31 - 1) (int v), rest))"

definition StrToAddr :: "netdb \<Rightarrow> string \<Rightarrow> 32 word outcome" where
  "StrToAddr db s = (case lookup_host db s of Some a \<Rightarrow> Ok a | None \<Rightarrow> Fail (EXIT_1 ''unknown host''))"

text \<open>The data base has its ports in host order; \<open>s_port\<close> is in network order.\<close>

definition StrToPort :: "netdb \<Rightarrow> string \<Rightarrow> string \<Rightarrow> nat outcome" where
  "StrToPort db s proto =
     (case strtol s of
        (v, rest) \<Rightarrow>
          if rest \<noteq> s then Ok (htons (nat (v mod 65536)))
          else (case servbyname db s (Some proto) of
                  Some p \<Rightarrow> Ok (htons p) | None \<Rightarrow> Fail (EXIT_1 ''unknown service'')))"

text \<open>A range is one long: the first port above, the number of ports below.\<close>

type_synonym port_range = "32 word"

definition GETLOPORT :: "port_range \<Rightarrow> nat" where "GETLOPORT x = unat (drop_bit 16 x)"
definition GETNUMPORTS :: "port_range \<Rightarrow> nat" where "GETNUMPORTS x = unat (x AND 0xffff)"
definition SETLOPORT :: "port_range \<Rightarrow> int \<Rightarrow> port_range" where
  "SETLOPORT x y = (x AND 0xffff) OR push_bit 16 (word_of_int y)"
definition SETNUMPORTS :: "port_range \<Rightarrow> int \<Rightarrow> port_range" where
  "SETNUMPORTS x y = (x AND 0xffff0000) OR word_of_int y"

text \<open>
  \<open>sscanf(s, "%hu-%hu", &lo, &hi)\<close>. A number that is not there leaves its variable without a value,
  which the code then reads.
\<close>

definition scan_range :: "string \<Rightarrow> (nat \<times> nat) outcome" where
  "scan_range s =
     (case strtoul 10 s of
        (lo, rest) \<Rightarrow>
          if rest = s \<or> take 1 rest \<noteq> ''-'' then Undefined
          else (case strtoul 10 (tl rest) of
                  (hi, rest') \<Rightarrow> if rest' = tl rest then Undefined else Ok (lo mod 65536, hi mod 65536)))"

text \<open>Of the range that is passed in only the half is kept that the next macro overwrites.\<close>

definition StrToPortRange :: "netdb \<Rightarrow> string \<Rightarrow> string \<Rightarrow> port_range outcome" where
  "StrToPortRange db s proto =
     (case servbyname db s (Some proto) of
        Some p \<Rightarrow> Ok (SETNUMPORTS (SETLOPORT 0 (int p)) 1)
      | None \<Rightarrow>
          if CHR ''-'' \<notin> set s then
            (case strtol s of
               (v, rest) \<Rightarrow> if rest \<noteq> s then Ok (SETNUMPORTS (SETLOPORT 0 v) 1) else Fail (EXIT_1 ''unknown service''))
          else bind_o (scan_range s) (\<lambda>(lo, hi).
            let range = SETNUMPORTS (SETLOPORT 0 (int lo)) 0;
                range = (if lo \<le> hi then SETNUMPORTS range (int hi - int lo + 1) else range)
            in if GETNUMPORTS range = 0 then Fail (EXIT_1 ''invalid port range'') else Ok range))"

definition StrToProto :: "string \<Rightarrow> nat outcome" where
  "StrToProto s = (if s = ''tcp'' then Ok IPPROTO_TCP else if s = ''udp'' then Ok IPPROTO_UDP
     else Fail (EXIT_1 ''unknown protocol''))"

definition StrToAddrAndPortRange :: "netdb \<Rightarrow> string \<Rightarrow> string \<Rightarrow> (32 word \<times> port_range) outcome" where
  "StrToAddrAndPortRange db s proto =
     (case cut_at CHR '':'' s of
        None \<Rightarrow> Fail (EXIT_1 ''missing port number'')
      | Some (a, p) \<Rightarrow>
          bind_o (StrToAddr db a) (\<lambda>addr. bind_o (StrToPortRange db p proto) (\<lambda>range. Ok (addr, range))))"

subsection \<open>Redirections\<close>

definition blanks :: string where "blanks = [CHR '' '', CHR 0x09]"

text \<open>\<open>strcpy(buf, parms)\<close> into 128 bytes.\<close>

definition copied :: "string \<Rightarrow> (string \<Rightarrow> 'a outcome) \<Rightarrow> 'a outcome" where
  "copied parms f = (if length parms < 128 then f parms else Undefined)"

text \<open>The next word, which must be there.\<close>

definition need_token :: "string \<Rightarrow> string \<Rightarrow> (string \<Rightarrow> string \<Rightarrow> 'a outcome) \<Rightarrow> 'a outcome" where
  "need_token what s f = (case strtok blanks s of (Some t, s) \<Rightarrow> f t s | (None, s) \<Rightarrow> Fail (EXIT_1 what))"

text \<open>The servers of a pool, \<open>strtok(serverPool, ",")\<close>.\<close>

definition pool_names :: "string \<Rightarrow> string list" where
  "pool_names s = filter (\<lambda>t. t \<noteq> []) (commas s)"

fun add_servers :: "(string \<Rightarrow> (32 word \<times> nat) outcome) \<Rightarrow> string list \<Rightarrow> natd_st \<Rightarrow> natd_st outcome" where
  "add_servers server [] st = Ok st"
| "add_servers server (s # ss) st =
     bind_o (server s) (\<lambda>(a, p). add_servers server ss (lib_call (Add_server a p) st))"

text \<open>The local side: a pool of servers, or an address with its ports.\<close>

definition redirect_local :: "netdb \<Rightarrow> string \<Rightarrow> string \<Rightarrow> (32 word \<times> nat \<times> nat \<times> string option) outcome" where
  "redirect_local db proto s =
     (if CHR '','' \<in> set s then Ok (INADDR_NONE, 65535, 1, Some s)
      else bind_o (StrToAddrAndPortRange db s proto) (\<lambda>(a, range). Ok (a, GETLOPORT range, GETNUMPORTS range, None)))"

definition redirect_public :: "netdb \<Rightarrow> string \<Rightarrow> string \<Rightarrow> (32 word \<times> nat \<times> nat) outcome" where
  "redirect_public db proto s =
     bind_o (if CHR '':'' \<in> set s then StrToAddrAndPortRange db s proto
             else bind_o (StrToPortRange db s proto) (\<lambda>range. Ok (INADDR_ANY, range)))
       (\<lambda>(a, range). Ok (a, GETLOPORT range, GETNUMPORTS range))"

definition redirect_remote :: "netdb \<Rightarrow> string \<Rightarrow> string option \<Rightarrow> (32 word \<times> nat \<times> nat) outcome" where
  "redirect_remote db proto t =
     (case t of
        None \<Rightarrow> Ok (INADDR_ANY, 0, 1)
      | Some s \<Rightarrow>
          if CHR '':'' \<in> set s then
            bind_o (StrToAddrAndPortRange db s proto) (\<lambda>(a, range). Ok (a, GETLOPORT range, GETNUMPORTS range))
          else bind_o (StrToAddr db s) (\<lambda>a. Ok (a, 0, 1)))"

text \<open>The loop over the ports; a \<open>u_short\<close> holds the remote port.\<close>

definition redirect_calls :: "nat \<Rightarrow> 32 word \<times> nat \<Rightarrow> 32 word \<times> nat \<times> nat \<Rightarrow> 32 word \<times> nat \<times> nat \<Rightarrow> alias_call list"
  where
  "redirect_calls proto = (\<lambda>(laddr, lport) (paddr, pport, n) (raddr, rport, m).
     map (\<lambda>i. Redirect_port laddr (htons (lport + i)) raddr
             (htons (if m = 1 \<and> rport = 0 then 0 else (rport + i) mod 65536)) paddr (htons (pport + i)) proto)
       [0..<n])"

definition SetupPortRedirect :: "natd_env \<Rightarrow> string \<Rightarrow> natd_st \<Rightarrow> natd_st outcome" where
  "SetupPortRedirect env parms st = copied parms (\<lambda>buf.
     need_token ''redirect_port: missing protocol'' buf (\<lambda>proto_name buf.
     bind_o (StrToProto proto_name) (\<lambda>proto.
     need_token ''redirect_port: missing local address'' buf (\<lambda>t buf.
     bind_o (redirect_local (natd_db env) proto_name t) (\<lambda>(laddr, lport, ln, pool).
     need_token ''redirect_port: missing public port'' buf (\<lambda>t buf.
     bind_o (redirect_public (natd_db env) proto_name t) (\<lambda>(paddr, pport, pn).
     bind_o (redirect_remote (natd_db env) proto_name (fst (strtok blanks buf))) (\<lambda>(raddr, rport, rn).
     if ln \<noteq> pn then Fail (EXIT_1 ''redirect_port: port ranges must be equal in size'')
     else if rn \<noteq> ln \<and> (rn \<noteq> 1 \<or> rport \<noteq> 0) then
       Fail (EXIT_1 ''redirect_port: remote port must be 0 or equal to local port range in size'')
     else
       let calls = redirect_calls proto (laddr, lport) (paddr, pport, pn) (raddr, rport, rn);
           st = fold lib_call calls st
       in case pool of
            Some s \<Rightarrow>
              if calls \<noteq> [] \<and> link_made env (last calls) then
                add_servers (\<lambda>s. bind_o (StrToAddrAndPortRange (natd_db env) s proto_name) (\<lambda>(a, range).
                  if GETNUMPORTS range \<noteq> 1
                  then Fail (EXIT_1 ''redirect_port: local port must be single in this context'')
                  else Ok (a, htons (GETLOPORT range)))) (pool_names s) st
              else Ok st
          | None \<Rightarrow> Ok st))))))))"

definition optional_addr :: "netdb \<Rightarrow> string option \<Rightarrow> 32 word outcome" where
  "optional_addr db t = (case t of Some s \<Rightarrow> StrToAddr db s | None \<Rightarrow> Ok INADDR_ANY)"

definition SetupProtoRedirect :: "natd_env \<Rightarrow> string \<Rightarrow> natd_st \<Rightarrow> natd_st outcome" where
  "SetupProtoRedirect env parms st = copied parms (\<lambda>buf.
     need_token ''redirect_proto: missing protocol'' buf (\<lambda>proto_name buf.
     bind_o (case protobyname (natd_db env) proto_name of
               Some p \<Rightarrow> Ok p | None \<Rightarrow> Fail (EXIT_1 ''redirect_proto: unknown protocol'')) (\<lambda>proto.
     need_token ''redirect_proto: missing local address'' buf (\<lambda>t buf.
     bind_o (StrToAddr (natd_db env) t) (\<lambda>laddr.
     case strtok blanks buf of (t, buf) \<Rightarrow>
     bind_o (optional_addr (natd_db env) t) (\<lambda>paddr.
     bind_o (optional_addr (natd_db env) (fst (strtok blanks buf))) (\<lambda>raddr.
     Ok (lib_call (Redirect_proto laddr raddr paddr proto) st))))))))"

definition SetupAddressRedirect :: "natd_env \<Rightarrow> string \<Rightarrow> natd_st \<Rightarrow> natd_st outcome" where
  "SetupAddressRedirect env parms st = copied parms (\<lambda>buf.
     need_token ''redirect_address: missing local address'' buf (\<lambda>t buf.
     bind_o (if CHR '','' \<in> set t then Ok (INADDR_NONE, Some t)
             else bind_o (StrToAddr (natd_db env) t) (\<lambda>a. Ok (a, None))) (\<lambda>(laddr, pool).
     need_token ''redirect_address: missing public address'' buf (\<lambda>t buf.
     bind_o (StrToAddr (natd_db env) t) (\<lambda>paddr.
     let call = Redirect_addr laddr paddr; st = lib_call call st in
     case pool of
       Some s \<Rightarrow>
         if link_made env call then
           add_servers (\<lambda>s. bind_o (StrToAddr (natd_db env) s) (\<lambda>a. Ok (a, htons 65535))) (pool_names s) st
         else Ok st
     | None \<Rightarrow> Ok st)))))"

text \<open>\<open>sscanf(strValue, "%u:%u", &base, &num)\<close>.\<close>

definition SetupPunchFW :: "string \<Rightarrow> natd_st \<Rightarrow> natd_st outcome" where
  "SetupPunchFW s st =
     (case strtoul 10 s of
        (base, rest) \<Rightarrow>
          if rest = s \<or> take 1 rest \<noteq> '':'' then Fail (EXIT_1 ''punch_fw: basenumber:count parameter required'')
          else (case strtoul 10 (tl rest) of
                  (num, rest') \<Rightarrow>
                    if rest' = tl rest then Fail (EXIT_1 ''punch_fw: basenumber:count parameter required'')
                    else Ok (lib_call (Set_mode PKT_ALIAS_PUNCH_FW True) (lib_call (Set_fw_base base num) st))))"

subsection \<open>Options\<close>

datatype natd_option = PacketAliasOption alias_opt | Verbose | InPort | OutPort | Port | AliasAddress
  | TargetAddress | InterfaceName | RedirectPort | RedirectProto | RedirectAddress | ConfigFile | DynamicMode
  | ProxyRule | LogDenied | LogFacility | PunchFW

datatype natd_param = YesNo | String | Address | Service

text \<open>\<open>name\<close>, \<open>shortName\<close> (empty for \<open>NULL\<close>), \<open>type\<close>, \<open>parm\<close>.\<close>

definition optionTable :: "(string \<times> string \<times> natd_option \<times> natd_param) list" where
  "optionTable =
    [(''unregistered_only'', ''u'', PacketAliasOption PKT_ALIAS_UNREGISTERED_ONLY, YesNo),
     (''log'', ''l'', PacketAliasOption PKT_ALIAS_LOG, YesNo),
     (''proxy_only'', [], PacketAliasOption PKT_ALIAS_PROXY_ONLY, YesNo),
     (''reverse'', [], PacketAliasOption PKT_ALIAS_REVERSE, YesNo),
     (''deny_incoming'', ''d'', PacketAliasOption PKT_ALIAS_DENY_INCOMING, YesNo),
     (''use_sockets'', ''s'', PacketAliasOption PKT_ALIAS_USE_SOCKETS, YesNo),
     (''same_ports'', ''m'', PacketAliasOption PKT_ALIAS_SAME_PORTS, YesNo),
     (''verbose'', ''v'', Verbose, YesNo),
     (''dynamic'', [], DynamicMode, YesNo),
     (''in_port'', ''i'', InPort, Service),
     (''out_port'', ''o'', OutPort, Service),
     (''port'', ''p'', Port, Service),
     (''alias_address'', ''a'', AliasAddress, Address),
     (''target_address'', ''t'', TargetAddress, Address),
     (''interface'', ''n'', InterfaceName, String),
     (''proxy_rule'', [], ProxyRule, String),
     (''redirect_port'', [], RedirectPort, String),
     (''redirect_proto'', [], RedirectProto, String),
     (''redirect_address'', [], RedirectAddress, String),
     (''config'', ''f'', ConfigFile, String),
     (''log_denied'', [], LogDenied, YesNo),
     (''log_facility'', [], LogFacility, String),
     (''punch_fw'', [], PunchFW, String)]"

definition find_option :: "string \<Rightarrow> (natd_option \<times> natd_param) option" where
  "find_option opt =
     map_option (\<lambda>(n, s, t, p). (t, p)) (List.find (\<lambda>(n, s, t, p). n = opt \<or> s \<noteq> [] \<and> s = opt) optionTable)"

text \<open>The value of the parameter, by what the option takes.\<close>

datatype natd_value = Yes_no bool | Text string | Addr "32 word" | Serv nat

definition option_value :: "netdb \<Rightarrow> natd_param \<Rightarrow> string option \<Rightarrow> natd_value outcome" where
  "option_value db p parms =
     (case p of
        YesNo \<Rightarrow>
          (case parms of
             None \<Rightarrow> Ok (Yes_no True)
           | Some s \<Rightarrow> if s = ''yes'' then Ok (Yes_no True) else if s = ''no'' then Ok (Yes_no False)
               else Fail (EXIT_1 ''needs yes/no parameter''))
      | Service \<Rightarrow>
          (case parms of None \<Rightarrow> Fail (EXIT_1 ''needs service name or port number parameter'')
           | Some s \<Rightarrow> bind_o (StrToPort db s ''divert'') (\<lambda>n. Ok (Serv n)))
      | String \<Rightarrow> (case parms of None \<Rightarrow> Fail (EXIT_1 ''needs parameter'') | Some s \<Rightarrow> Ok (Text s))
      | Address \<Rightarrow>
          (case parms of None \<Rightarrow> Fail (EXIT_1 ''needs address/host parameter'')
           | Some s \<Rightarrow> bind_o (StrToAddr db s) (\<lambda>a. Ok (Addr a))))"

text \<open>What is done with it; a configuration file is read by the functions below.\<close>

definition set_option :: "natd_env \<Rightarrow> (string \<Rightarrow> natd_st \<Rightarrow> natd_st outcome) \<Rightarrow> natd_option \<Rightarrow> natd_value \<Rightarrow>
    natd_st \<Rightarrow> natd_st outcome" where
  "set_option env read_file t v st =
     (case (t, v) of
        (PacketAliasOption f, Yes_no b) \<Rightarrow> Ok (lib_call (Set_mode f b) st)
      | (Verbose, Yes_no b) \<Rightarrow> Ok (st\<lparr>natd_verbose := b\<rparr>)
      | (DynamicMode, Yes_no b) \<Rightarrow> Ok (st\<lparr>dynamicMode := b\<rparr>)
      | (InPort, Serv n) \<Rightarrow> Ok (st\<lparr>inPort := n\<rparr>)
      | (OutPort, Serv n) \<Rightarrow> Ok (st\<lparr>outPort := n\<rparr>)
      | (Port, Serv n) \<Rightarrow> Ok (st\<lparr>inOutPort := n\<rparr>)
      | (AliasAddress, Addr a) \<Rightarrow> Ok (st\<lparr>aliasAddr := a\<rparr>)
      | (TargetAddress, Addr a) \<Rightarrow> Ok (lib_call (Set_target a) st)
      | (RedirectPort, Text s) \<Rightarrow> SetupPortRedirect env s st
      | (RedirectProto, Text s) \<Rightarrow> SetupProtoRedirect env s st
      | (RedirectAddress, Text s) \<Rightarrow> SetupAddressRedirect env s st
      | (ProxyRule, Text s) \<Rightarrow> Ok (lib_call (Proxy_rule s) st)
      | (InterfaceName, Text s) \<Rightarrow> Ok (st\<lparr>ifName := Some s\<rparr>)
      | (ConfigFile, Text s) \<Rightarrow> read_file s st
      | (LogDenied, Yes_no b) \<Rightarrow> Ok (st\<lparr>logDropped := True\<rparr>)
      | (LogFacility, Text s) \<Rightarrow>
          (case map_of (facilities env) s of
             Some v \<Rightarrow> Ok (st\<lparr>logFacility := v\<rparr>) | None \<Rightarrow> Fail (EXIT_1 ''Unknown log facility name''))
      | (PunchFW, Text s) \<Rightarrow> SetupPunchFW s st
      | _ \<Rightarrow> Undefined)"

definition ParseOption :: "natd_env \<Rightarrow> (string \<Rightarrow> natd_st \<Rightarrow> natd_st outcome) \<Rightarrow> string \<Rightarrow> string option \<Rightarrow> natd_st \<Rightarrow>
    natd_st outcome" where
  "ParseOption env read_file opt parms st =
     (case find_option opt of
        None \<Rightarrow> Fail (EXIT_1 ''unknown option'')
      | Some (t, p) \<Rightarrow>
          bind_o (option_value (natd_db env) p parms) (\<lambda>v. set_option env read_file t v st))"

text \<open>A line of the file: without its comment and the blanks around it, the option and its parameters.\<close>

definition config_line :: "string \<Rightarrow> (string \<times> string option) option" where
  "config_line l =
     (let s = dropWhile isspace (takeWhile (\<lambda>c. c \<noteq> CHR ''#'') l);
          s = rev (dropWhile isspace (rev s));
          rest = dropWhile isspace (dropWhile (\<lambda>c. \<not> isspace c) s)
      in if s = [] then None
         else Some (takeWhile (\<lambda>c. \<not> isspace c) s, if rest = [] then None else Some rest))"

fun config_lines :: "(string \<Rightarrow> string option \<Rightarrow> natd_st \<Rightarrow> natd_st outcome) \<Rightarrow> string list \<Rightarrow> natd_st \<Rightarrow> natd_st outcome" where
  "config_lines option [] st = Ok st"
| "config_lines option (l # ls) st =
     (if l = [] \<or> last l \<noteq> nl then Fail (EXIT_1 ''config file format error: last line should end with newline'')
      else case config_line (butlast l) of
             None \<Rightarrow> config_lines option ls st
           | Some (opt, parms) \<Rightarrow> bind_o (option opt parms st) (config_lines option ls))"

text \<open>\<open>fgetln\<close>: the lines of a text, the last one perhaps without an end.\<close>

function text_lines :: "string \<Rightarrow> string list" where
  "text_lines s =
     (if s = [] then []
      else case dropWhile (\<lambda>c. c \<noteq> nl) s of
             [] \<Rightarrow> [s]
           | _ # rest \<Rightarrow> (takeWhile (\<lambda>c. c \<noteq> nl) s @ [nl]) # text_lines rest)"
  by pat_completeness auto
termination
proof (relation "measure length", goal_cases)
  case (2 s c rest)
  then show ?case using length_dropWhile_le [of "\<lambda>c. c \<noteq> nl" s] by simp
qed simp

declare text_lines.simps [simp del]

text \<open>
  A file may name a file, so that the reading is nested. The first argument bounds the depth: a file
  that names itself, or files that are nested deeper, are read until the stack or the descriptors of
  the process are used up.
\<close>

fun ReadConfigFile :: "nat \<Rightarrow> natd_env \<Rightarrow> string \<Rightarrow> natd_st \<Rightarrow> natd_st outcome" where
  "ReadConfigFile 0 env name st = Undefined"
| "ReadConfigFile (Suc depth) env name st =
     (case config_text env name of
        None \<Rightarrow> Fail (EXIT_1 ''cannot open config file'')
      | Some t \<Rightarrow> config_lines (ParseOption env (ReadConfigFile depth env)) (text_lines t) st)"

text \<open>\<open>strncat(parmBuf, s, sizeof(parmBuf) - (len + 1))\<close> with 256 bytes.\<close>

definition parm_cat :: "string \<Rightarrow> string \<Rightarrow> string" where
  "parm_cat buf s = buf @ take (255 - length buf) s"

definition is_option :: "string \<Rightarrow> bool" where
  "is_option s \<longleftrightarrow> take 1 s = ''-''"

definition parm_buffer :: "string list \<Rightarrow> string" where
  "parm_buffer ws = fold (\<lambda>w buf. parm_cat (if buf = [] then [] else parm_cat buf '' '') w) ws []"

function ParseArgs :: "natd_env \<Rightarrow> nat \<Rightarrow> string list \<Rightarrow> natd_st \<Rightarrow> natd_st outcome" where
  "ParseArgs env depth [] st = Ok st"
| "ParseArgs env depth (opt # args) st =
     (if \<not> is_option opt then Fail (EXIT_1 ''invalid option'')
      else
        let buf = parm_buffer (takeWhile (\<lambda>a. \<not> is_option a) args)
        in bind_o (ParseOption env (ReadConfigFile depth env) (tl opt) (if buf = [] then None else Some buf) st)
             (ParseArgs env depth (dropWhile (\<lambda>a. \<not> is_option a) args)))"
  by pat_completeness auto
termination
  by (relation "measure (\<lambda>(env, depth, args, st). length args)")
    (auto simp: less_Suc_eq_le length_dropWhile_le)

declare ParseArgs.simps(2) [simp del]

end
