(* ===== verification/NatdRun.thy ===== *)
theory NatdRun
  imports Natd Monitor IpfwShow
begin

text \<open>
  \<open>sbin/natd/natd.c\<close>: the start of the daemon, and its loop over the packets that the divert rule
  sends. The sockets are taken to be made and bound. Of a packet the daemon reads the header; what
  \<open>PacketAliasIn\<close> and \<open>PacketAliasOut\<close> make of it is a parameter, as is what \<open>select\<close>, \<open>recvfrom\<close>,
  \<open>sendto\<close> and the routing socket give in each turn.
\<close>

subsection \<open>The address of the interface\<close>

text \<open>
  The messages that \<open>sysctl\<close> gives: one of another version, an interface with its index, name and
  \<open>mtu\<close>, an address (\<open>None\<close> when it holds none of the internet family), and others.
\<close>

datatype rt_msg = Other_version | RTM_IFINFO nat string nat | RTM_NEWADDR "32 word option" | RTM_OTHER

fun find_if :: "string \<Rightarrow> rt_msg list \<Rightarrow> ((nat \<times> nat) \<times> rt_msg list) option" where
  "find_if ifn [] = None"
| "find_if ifn (RTM_IFINFO i name mtu # ms) = (if name = ifn then Some ((i, mtu), ms) else find_if ifn ms)"
| "find_if ifn (m # ms) = find_if ifn ms"

fun find_addr :: "rt_msg list \<Rightarrow> 32 word option" where
  "find_addr [] = None"
| "find_addr (Other_version # ms) = find_addr ms"
| "find_addr (RTM_NEWADDR (Some a) # ms) = Some a"
| "find_addr (RTM_NEWADDR None # ms) = find_addr ms"
| "find_addr (m # ms) = None"

text \<open>The index, the \<open>mtu\<close> and the address; the two ways out are \<open>errx\<close>.\<close>

definition interface_address :: "string \<Rightarrow> rt_msg list \<Rightarrow> (nat \<times> nat \<times> 32 word) outcome" where
  "interface_address ifn ms =
     (case find_if ifn ms of
        None \<Rightarrow> Fail (EXIT_1 ''unknown interface name'')
      | Some ((i, mtu), ms) \<Rightarrow>
          if i = 0 then Fail (EXIT_1 ''unknown interface name'')
          else (case find_addr ms of
                  None \<Rightarrow> Fail (EXIT_1 ''cannot get interface address'')
                | Some a \<Rightarrow> Ok (i, mtu, a)))"

subsection \<open>The state of the loop\<close>

datatype nd_sock = Divert_in | Divert_out | Divert_inout
datatype direction = INPUT | OUTPUT | DONT_KNOW

text \<open>The ports the sockets are bound to, in network order.\<close>

datatype divert_ports = One_socket nat | Two_sockets nat nat

text \<open>
  What happens outside: a packet is read, written back with the address it came with, refused by
  the library and dropped, too big, not written; the system log, and what is asked of \<open>libalias\<close>.
\<close>

datatype nd_event =
    Received nd_sock "byte list"
  | Sent nd_sock "32 word" "byte list"
  | Denied
  | Too_big
  | Warn string
  | Syslog string
  | Need_frag int
  | Alias_address "32 word"

record natd_run =
  nd_st :: natd_st
  divert_ports :: divert_ports
  dropIgnoredIncoming :: bool
  assignAliasAddr :: bool
  ifIndex :: nat
  ifMTU :: int
  aliasOverhead :: int
  packetBuf :: "byte list"
  packetLen :: nat
  packetSock :: "nd_sock option"
  packetAddr :: "32 word"
  packetDirection :: direction
  nd_running :: bool
  nd_events :: "nd_event list"

definition nd_emit :: "nd_event \<Rightarrow> natd_run \<Rightarrow> natd_run" where
  "nd_emit e s = s\<lparr>nd_events := nd_events s @ [e]\<rparr>"

definition SetAliasAddressFromIfName :: "rt_msg list \<Rightarrow> string \<Rightarrow> natd_run \<Rightarrow> natd_run outcome" where
  "SetAliasAddressFromIfName ms ifn s =
     bind_o (interface_address ifn ms) (\<lambda>(i, mtu, a).
     Ok (nd_emit (Syslog (''Aliasing to '' @ inet_ntoa a @ '', mtu '' @ dec mtu @ '' bytes''))
       (nd_emit (Alias_address a) (s\<lparr>ifIndex := i, ifMTU := int mtu\<rparr>))))"

subsection \<open>The start\<close>

definition IP_MAXPACKET :: nat where "IP_MAXPACKET = 65535"

text \<open>\<open>denies\<close> is what the library answers of its mode: whether incoming connections are denied.\<close>

definition natd_main :: "natd_env \<Rightarrow> (alias_call list \<Rightarrow> bool) \<Rightarrow> nat \<Rightarrow> rt_msg list \<Rightarrow> string list \<Rightarrow> natd_run outcome" where
  "natd_main env denies depth ms argv =
     bind_o (ParseArgs env depth (tl argv) natd_init) (\<lambda>st.
     if aliasAddr st = INADDR_NONE \<and> ifName st = None then Fail (EXIT_1 ''aliasing address not given'')
     else if aliasAddr st \<noteq> INADDR_NONE \<and> ifName st \<noteq> None
     then Fail (EXIT_1 ''both alias address and interface name are not allowed'')
     else if (inPort st \<noteq> 0 \<or> outPort st \<noteq> 0) \<and> (inPort st = 0 \<or> outPort st = 0)
     then Fail (EXIT_1 ''both input and output ports are required'')
     else
       bind_o (if inPort st = 0 \<and> outPort st = 0 \<and> inOutPort st = 0
               then ParseOption env (ReadConfigFile depth env) ''port'' (Some ''natd'') st else Ok st) (\<lambda>st.
       let s = \<lparr>nd_st = st,
                divert_ports = (if inOutPort st \<noteq> 0 then One_socket (inOutPort st) else Two_sockets (inPort st) (outPort st)),
                dropIgnoredIncoming = denies (alias_calls st),
                assignAliasAddr = False, ifIndex = 0, ifMTU = - 1, aliasOverhead = 12,
                packetBuf = replicate IP_MAXPACKET 0, packetLen = 0, packetSock = None, packetAddr = 0,
                packetDirection = DONT_KNOW, nd_running = True, nd_events = []\<rparr>
       in bind_o (case ifName st of
                    None \<Rightarrow> Ok s
                  | Some ifn \<Rightarrow> if dynamicMode st then Ok (s\<lparr>assignAliasAddr := True\<rparr>)
                      else SetAliasAddressFromIfName ms ifn s) (\<lambda>s.
          Ok (if aliasAddr st \<noteq> INADDR_NONE then nd_emit (Alias_address (aliasAddr st)) s else s))))"

subsection \<open>Packets\<close>

text \<open>A byte and a network-order number of two bytes in the buffer.\<close>

definition byte_at :: "byte list \<Rightarrow> nat \<Rightarrow> nat" where
  "byte_at p i = unat (p ! i)"

definition short_at :: "byte list \<Rightarrow> nat \<Rightarrow> nat" where
  "short_at p i = 256 * byte_at p i + byte_at p (i + 1)"

definition addr_at :: "byte list \<Rightarrow> nat \<Rightarrow> 32 word" where
  "addr_at p i = word_of_nat (2 ^ 24 * byte_at p i + 2 ^ 16 * byte_at p (i + 1) + 2 ^ 8 * byte_at p (i + 2) + byte_at p (i + 3))"

definition FormatPacket :: "byte list \<Rightarrow> string" where
  "FormatPacket p =
     (let src = inet_ntoa (addr_at p 12); dst = inet_ntoa (addr_at p 16);
          h = (byte_at p 0 mod 16) * 4; proto = byte_at p 9;
          ports = (\<lambda>name. name @ src @ '':'' @ dec (short_at p h) @ '' -> '' @ dst @ '':'' @ dec (short_at p (h + 2)))
      in if proto = IPPROTO_TCP then ports ''[TCP] ''
         else if proto = IPPROTO_UDP then ports ''[UDP] ''
         else if proto = IPPROTO_ICMP then
           ''[ICMP] '' @ src @ '' -> '' @ dst @ '' '' @ dec (byte_at p h) @ ''('' @ dec (byte_at p (h + 1)) @ '')''
         else ''['' @ dec proto @ ''] '' @ src @ '' -> '' @ dst @ '' '')"

text \<open>
  \<open>libalias\<close>: what it makes of an outgoing packet, and of an incoming one, with the answer
  \<open>PKT_ALIAS_IGNORED\<close>. It works in the buffer.
\<close>

record libalias =
  PacketAliasOut :: "byte list \<Rightarrow> byte list"
  PacketAliasIn :: "byte list \<Rightarrow> bool \<times> byte list"

text \<open>What \<open>sendto\<close> did: it wrote all, or failed for the reasons that the code tells apart.\<close>

datatype send_result = Wrote_all | Enobufs | Emsgsize | Send_failed

text \<open>And \<open>recvfrom\<close>: a packet with its address, or a failure, interrupted or not.\<close>

datatype recv_result = Packet "32 word" "byte list" | Eintr | Recv_failed

definition FlushPacketBuffer :: "nd_sock \<Rightarrow> send_result \<Rightarrow> natd_run \<Rightarrow> natd_run" where
  "FlushPacketBuffer fd r s =
     (case r of
        Wrote_all \<Rightarrow> (nd_emit (Sent fd (packetAddr s) (take (packetLen s) (packetBuf s))) s)\<lparr>packetSock := None\<rparr>
      | Enobufs \<Rightarrow> s
      | Emsgsize \<Rightarrow>
          (let s = (if packetDirection s = OUTPUT \<and> ifMTU s \<noteq> - 1
                    then nd_emit (Need_frag (ifMTU s - aliasOverhead s)) s else s)
           in (nd_emit Too_big s)\<lparr>packetSock := None\<rparr>)
      | Send_failed \<Rightarrow> (nd_emit (Warn ''failed to write packet back'') s)\<lparr>packetSock := None\<rparr>)"

text \<open>The address of the interface, when it may have changed.\<close>

definition refresh_address :: "rt_msg list \<Rightarrow> natd_run \<Rightarrow> natd_run outcome" where
  "refresh_address ms s =
     (if assignAliasAddr s
      then bind_o (SetAliasAddressFromIfName ms (the (ifName (nd_st s))) s) (\<lambda>s. Ok (s\<lparr>assignAliasAddr := False\<rparr>))
      else Ok s)"

text \<open>What becomes of a packet in the buffer: it is dropped, or written back.\<close>

definition deny :: "natd_run \<Rightarrow> natd_run" where
  "deny s = nd_emit Denied
     (if logDropped (nd_st s) then nd_emit (Syslog (''denied '' @ FormatPacket (packetBuf s))) s else s)"

definition pass_on :: "nd_sock \<Rightarrow> direction \<Rightarrow> send_result \<Rightarrow> nat \<Rightarrow> natd_run \<Rightarrow> natd_run" where
  "pass_on fd direction send origBytes s =
     (let bytes = short_at (packetBuf s) 2;
          grown = int bytes - int origBytes;
          s = (if direction = OUTPUT \<and> grown > aliasOverhead s then s\<lparr>aliasOverhead := grown\<rparr> else s)
      in FlushPacketBuffer fd send (s\<lparr>packetLen := bytes, packetSock := Some fd, packetDirection := direction\<rparr>))"

text \<open>The packet overwrites the front of the buffer; what is printed for \<open>-v\<close> is left out.\<close>

definition handle_packet :: "libalias \<Rightarrow> nd_sock \<Rightarrow> direction \<Rightarrow> send_result \<Rightarrow> 32 word \<Rightarrow> byte list \<Rightarrow> natd_run \<Rightarrow> natd_run"
  where
  "handle_packet lib fd direction send a p s =
     (let s = nd_emit (Received fd p) (s\<lparr>packetBuf := p @ drop (length p) (packetBuf s), packetAddr := a\<rparr>);
          direction = (if direction = DONT_KNOW then if a = INADDR_ANY then OUTPUT else INPUT else direction);
          (ignored, buf) = (if direction = OUTPUT then (False, PacketAliasOut lib (packetBuf s))
                            else PacketAliasIn lib (packetBuf s));
          s = s\<lparr>packetBuf := buf\<rparr>
      in if ignored \<and> dropIgnoredIncoming s then deny s else pass_on fd direction send (length p) s)"

definition DoAliasing :: "libalias \<Rightarrow> rt_msg list \<Rightarrow> nd_sock \<Rightarrow> direction \<Rightarrow> recv_result \<Rightarrow> send_result \<Rightarrow> natd_run \<Rightarrow>
    natd_run outcome" where
  "DoAliasing lib ms fd direction recv send s =
     bind_o (refresh_address ms s) (\<lambda>s.
     Ok (case recv of
           Eintr \<Rightarrow> s
         | Recv_failed \<Rightarrow> nd_emit (Warn ''read from divert socket failed'') s
         | Packet a p \<Rightarrow> handle_packet lib fd direction send a p s))"

text \<open>A message from the routing socket: not read, of another version, or about an interface.\<close>

datatype route_msg = Route_failed | Route_version | Route_msg bool nat

definition HandleRoutingInfo :: "route_msg \<Rightarrow> natd_run \<Rightarrow> natd_run" where
  "HandleRoutingInfo m s =
     (case m of
        Route_failed \<Rightarrow> nd_emit (Warn ''read from routing socket failed'') s
      | Route_version \<Rightarrow> nd_emit (Warn ''unexpected packet read from routing socket'') s
      | Route_msg changed i \<Rightarrow> if changed \<and> i = ifIndex s then s\<lparr>assignAliasAddr := True\<rparr> else s)"

subsection \<open>The loop\<close>

text \<open>What one turn gets from outside: what \<open>select\<close> reports, and the results of the calls.\<close>

record turn =
  writable_now :: bool
  ready :: "nd_sock \<Rightarrow> bool"
  recv_of :: "nd_sock \<Rightarrow> recv_result"
  send_of :: "nd_sock \<Rightarrow> send_result"
  flush_of :: send_result
  routing :: "route_msg option"
  if_list :: "rt_msg list"

fun open_sockets :: "divert_ports \<Rightarrow> nd_sock list" where
  "open_sockets (One_socket p) = [Divert_inout]"
| "open_sockets (Two_sockets p q) = [Divert_in, Divert_out]"

fun socket_direction :: "nd_sock \<Rightarrow> direction" where
  "socket_direction Divert_in = INPUT"
| "socket_direction Divert_out = OUTPUT"
| "socket_direction Divert_inout = DONT_KNOW"

fun read_sockets :: "libalias \<Rightarrow> turn \<Rightarrow> nd_sock list \<Rightarrow> natd_run \<Rightarrow> natd_run outcome" where
  "read_sockets lib t [] s = Ok s"
| "read_sockets lib t (fd # fds) s =
     bind_o (if ready t fd then DoAliasing lib (if_list t) fd (socket_direction fd) (recv_of t fd) (send_of t fd) s else Ok s)
       (read_sockets lib t fds)"

text \<open>
  A turn of \<open>while (running)\<close>. Only when no packet waits are the divert sockets among those that
  \<open>select\<close> looks at.
\<close>

definition natd_turn :: "libalias \<Rightarrow> turn \<Rightarrow> natd_run \<Rightarrow> natd_run outcome" where
  "natd_turn lib t s =
     (if (\<exists>p. divert_ports s = One_socket p) \<and> ifName (nd_st s) = None \<and> packetSock s = None
      then DoAliasing lib (if_list t) Divert_inout DONT_KNOW (recv_of t Divert_inout) (send_of t Divert_inout) s
      else
        let fds = (if packetSock s = None then open_sockets (divert_ports s) else []);
            s = (case packetSock s of
                   Some fd \<Rightarrow> if writable_now t then FlushPacketBuffer fd (flush_of t) s else s
                 | None \<Rightarrow> s)
        in bind_o (read_sockets lib t fds s) (\<lambda>s.
             Ok (case routing t of
                   Some m \<Rightarrow> if ifName (nd_st s) \<noteq> None \<and> dynamicMode (nd_st s) then HandleRoutingInfo m s else s
                 | None \<Rightarrow> s)))"

text \<open>The signals \<open>SIGHUP\<close>, and \<open>SIGTERM\<close> with its timer.\<close>

definition RefreshAddr :: "natd_run \<Rightarrow> natd_run" where
  "RefreshAddr s = (if ifName (nd_st s) \<noteq> None then s\<lparr>assignAliasAddr := True\<rparr> else s)"

definition Shutdown :: "natd_run \<Rightarrow> natd_run" where
  "Shutdown s = s\<lparr>nd_running := False\<rparr>"

datatype natd_input = Turn turn | Sighup | Alarm

inductive natd_step :: "libalias \<Rightarrow> natd_input \<Rightarrow> natd_run \<Rightarrow> natd_run \<Rightarrow> bool" for lib where
  turn: "nd_running s \<Longrightarrow> natd_turn lib t s = Ok s' \<Longrightarrow> natd_step lib (Turn t) s s'"
| hup: "nd_running s \<Longrightarrow> natd_step lib Sighup s (RefreshAddr s)"
| alarm: "nd_running s \<Longrightarrow> natd_step lib Alarm s (Shutdown s)"

inductive_cases natd_stepE: "natd_step lib i s s'"

end
