(* ===== verification/NatdProps.thy ===== *)
theory NatdProps
  imports NatdRun RuleTable
begin

text \<open>
  The daemon behind the divert rule: it is started for the interface and bound to the port of the
  rule that \<open>nat.c\<close> loads beside it, a redirection maps its ports one by one, and no packet is lost in
  its loop.
\<close>

subsection \<open>The command line\<close>

lemma find_option_port: "find_option ''port'' = Some (Port, Service)"
  by code_simp

lemma find_option_n: "find_option ''n'' = Some (InterfaceName, String)"
  by code_simp

lemma parse_interface:
  assumes "ifn \<noteq> []" "\<not> is_option ifn" "length ifn \<le> 255"
  shows "ParseArgs env depth [''-n'', ifn] st = Ok (st\<lparr>ifName := Some ifn\<rparr>)"
proof -
  have "parm_buffer [ifn] = ifn" using assms by (simp add: parm_buffer_def parm_cat_def)
  moreover have "is_option ''-n''" by (simp add: is_option_def)
  ultimately show ?thesis
    using assms(1,2) by (simp add: ParseArgs.simps(2) ParseOption_def find_option_n option_value_def set_option_def)
qed

lemma strtol_natd: "strtol ''natd'' = (0, ''natd'')"
  by code_simp

text \<open>Without an option for a port it is the one of the service \<open>natd/divert\<close>.\<close>

definition interface_run :: "natd_st \<Rightarrow> (alias_call list \<Rightarrow> bool) \<Rightarrow> nat \<Rightarrow> nat \<times> nat \<times> 32 word \<Rightarrow> natd_run" where
  "interface_run st denies port = (\<lambda>(i, mtu, a).
     \<lparr>nd_st = st, divert_ports = One_socket port, dropIgnoredIncoming = denies (alias_calls st),
      assignAliasAddr = False, ifIndex = i, ifMTU = int mtu, aliasOverhead = 12,
      packetBuf = replicate IP_MAXPACKET 0, packetLen = 0, packetSock = None, packetAddr = 0,
      packetDirection = DONT_KNOW, nd_running = True,
      nd_events = [Alias_address a, Syslog (''Aliasing to '' @ inet_ntoa a @ '', mtu '' @ dec mtu @ '' bytes'')]\<rparr>)"

lemma natd_main_interface:
  assumes "ifn \<noteq> []" "\<not> is_option ifn" "length ifn \<le> 255"
    and "servbyname (natd_db env) ''natd'' (Some ''divert'') = Some port" and "htons port \<noteq> 0"
    and "interface_address ifn ms = Ok x"
  shows "natd_main env denies depth ms [''/sbin/natd'', ''-n'', ifn] =
    Ok (interface_run (natd_init\<lparr>ifName := Some ifn, inOutPort := htons port\<rparr>) denies (htons port) x)"
proof -
  have "ParseOption env rf ''port'' (Some ''natd'') st = Ok (st\<lparr>inOutPort := htons port\<rparr>)" for rf st
    using assms(4) by (simp add: ParseOption_def find_option_port option_value_def StrToPort_def strtol_natd set_option_def)
  then show ?thesis
    using assms(5,6) parse_interface [OF assms(1-3)]
    by (cases x) (simp add: natd_main_def natd_init_def INADDR_NONE_def SetAliasAddressFromIfName_def interface_run_def
        nd_emit_def)
qed

lemma card_name_plain:
  assumes "letters s" "hd s \<noteq> CHR ''-''"
  shows "card_name s n \<noteq> []" "\<not> is_option (card_name s n)" "blank_free (card_name s n)" "nl \<notin> set (card_name s n)"
proof -
  show "card_name s n \<noteq> []" by (simp add: card_name_def)
  show "\<not> is_option (card_name s n)" 
    using assms by (cases s) (simp_all add: is_option_def card_name_def letters_def)
  have "c \<noteq> CHR '' '' \<and> c \<noteq> nl" if "c \<in> set (card_name s n)" for c
    using that assms text_words(2,4) [of n] by (auto simp: card_name_def letters_def blank_free_def)
  then show "blank_free (card_name s n)" "nl \<notin> set (card_name s n)" by (auto simp: blank_free_def)
qed

lemma natd_words:
  assumes "letters s" "hd s \<noteq> CHR ''-''"
  shows "command_words (''/sbin/natd -n '' @ card_name s n @ [nl]) = [''/sbin/natd'', ''-n'', card_name s n]"
proof -
  note c = card_name_plain [OF assms, of n]
  have "nl \<notin> set (''/sbin/natd -n '' @ card_name s n)" using c(4) by simp
  from command_words_line(1) [OF this, of "[]"] show ?thesis using words_last [OF c(3,1)] by simp
qed

text \<open>
  C10. Translation as it is turned on works on the packets that are diverted. \<open>enable_nat\<close> runs the command
  that starts natd and loads the divert rule; with \<open>natd/divert\<close> as port 8668 among the services, natd
  reads its command line without an error, binds its one socket to the port to which the rule that ipfw
  makes of the other line diverts packets, and takes as alias address that of the interface which the
  rule names.
\<close>

theorem natd_serves_divert_rule:
  assumes "writable env NATSCRIPT" "stable env NATSCRIPT" "stable env RULESCRIPT"
    and "letters s" "length (card_name s n) < 6" "std_tables db" "hd s \<noteq> CHR ''-''"
    and "servbyname (natd_db ne) ''natd'' (Some ''divert'') = Some 8668"
    and "interface_address (card_name s n) ms = Ok (i, mtu, a)"
  shows "\<exists>w' start rule d r. enable_nat env (Some (card_name s n)) w = Some (0, w') \<and>
    {start, rule} \<subseteq> set (commands (trace w')) \<and>
    natd_main ne denies depth ms (command_words start) = Ok d \<and> line_requests db rule = [FW_ADD r] \<and>
    fw_command r = F_DIVERT \<and> divert_ports d = One_socket (htons (fw_un r)) \<and>
    fw_in_if r = Via_if s (int n) \<and> ifName (nd_st d) = Some (card_name s n) \<and> Alias_address a \<in> set (nd_events d)"
proof -
  note c = card_name_plain [OF assms(4,7), of n]
  obtain w' where w: "enable_nat env (Some (card_name s n)) w = Some (0, w')"
      "commands (trace w') = commands (trace w) @ (''/sbin/natd -n '' @ card_name s n @ [nl]) # FLUSH_CMD #
        nat_rule (card_name s n @ [nl]) # (case files w RULESCRIPT of None \<Rightarrow> [] | Some t \<Rightarrow> fgets_all 255 t)"
    using enable_nat_eq [OF assms(1-3), of "Some (card_name s n)" w] assms(5) c(4) by (auto simp: c_str_def)
  define d where "d = interface_run (natd_init\<lparr>ifName := Some (card_name s n), inOutPort := htons 8668\<rparr>) denies
    (htons 8668) (i, mtu, a)"
  have "length (card_name s n) \<le> 255" "htons 8668 \<noteq> 0" using assms(5) by (simp_all add: htons_def)
  from natd_main_interface [OF c(1,2) this(1) assms(8) this(2) assms(9), of denies depth]
  have "natd_main ne denies depth ms (command_words (''/sbin/natd -n '' @ card_name s n @ [nl])) = Ok d"
    by (simp only: natd_words [OF assms(4,7)] d_def)
  moreover have "divert_ports d = One_socket (htons 8668)" "ifName (nd_st d) = Some (card_name s n)"
      "Alias_address a \<in> set (nd_events d)"
    by (simp_all add: d_def interface_run_def)
  moreover have "fw_command (divert_rule s n) = F_DIVERT" "fw_un (divert_rule s n) = 8668"
      "fw_in_if (divert_rule s n) = Via_if s (int n)"
    by (simp_all add: divert_rule_def)
  moreover have "{''/sbin/natd -n '' @ card_name s n @ [nl], nat_rule (card_name s n @ [nl])} \<subseteq> set (commands (trace w'))"
    unfolding w(2) by simp
  ultimately show ?thesis
    using w(1) requests_divert [OF assms(4-6)] by metis
qed

lemma strtoul10_dec:
  assumes "n < 2 ^ 32" and "t = [] \<or> 10 \<le> digit_value (hd t)"
  shows "strtoul 10 (dec n @ t) = (n, t)"
proof -
  have "read_digits 10 n t = (n, t)" using assms(2) by (cases t) simp_all
  then show ?thesis
    using assms(1) dec_no_sign [of n t] read_digits_dec [of n t] by (simp add: strtoul_def)
qed

lemma range_words:
  assumes "lo < 65536" "n < 65536"
  shows "GETLOPORT (SETNUMPORTS (SETLOPORT x (int lo)) (int n)) = lo"
    "GETNUMPORTS (SETNUMPORTS (SETLOPORT x (int lo)) (int n)) = n"
proof -
  have m: "0xffff = (mask 16 :: 32 word)" "0xffff0000 = (push_bit 16 (mask 16) :: 32 word)"
    by (simp_all add: mask_eq_exp_minus_1)
  have low: "k < 16" if "bit m k" "m < 65536" for m k :: nat
  proof -
    have "take_bit 16 m = m" using that(2) by (simp add: take_bit_nat_eq_self)
    then show ?thesis using that(1) by (metis bit_take_bit_iff)
  qed
  note low = low [OF _ assms(1)] low [OF _ assms(2)]
  have "drop_bit 16 (SETNUMPORTS (SETLOPORT x (int lo)) (int n)) = word_of_nat lo"
    by (rule bit_word_eqI) (auto simp: SETNUMPORTS_def SETLOPORT_def m bit_simps dest: low)
  then show "GETLOPORT (SETNUMPORTS (SETLOPORT x (int lo)) (int n)) = lo"
    using assms(1) by (simp add: GETLOPORT_def unat_of_nat)
  have "SETNUMPORTS (SETLOPORT x (int lo)) (int n) AND 0xffff = word_of_nat n"
    by (rule bit_word_eqI) (auto simp: SETNUMPORTS_def SETLOPORT_def m bit_simps dest: low)
  then show "GETNUMPORTS (SETNUMPORTS (SETLOPORT x (int lo)) (int n)) = n"
    using assms(2) by (simp add: GETNUMPORTS_def unat_of_nat)
qed

lemma SETNUMPORTS_again: "SETNUMPORTS (SETNUMPORTS x 0) y = SETNUMPORTS x y"
  by (simp add: SETNUMPORTS_def and.assoc)

text \<open>A range of ports as text, and as it is read.\<close>

definition range_text :: "nat \<Rightarrow> nat \<Rightarrow> string" where
  "range_text lo n = dec lo @ ''-'' @ dec (lo + n - 1)"

definition range_of :: "nat \<Rightarrow> nat \<Rightarrow> port_range" where
  "range_of lo n = SETNUMPORTS (SETLOPORT 0 (int lo)) (int n)"

lemma StrToPortRange_text:
  assumes "0 < n" "lo + n \<le> 65536" "n < 65536" and "servbyname db (range_text lo n) (Some proto) = None"
  shows "StrToPortRange db (range_text lo n) proto = Ok (range_of lo n)"
proof -
  have d: "10 \<le> digit_value CHR ''-''" by (simp add: digit_value_def)
  have lo: "strtoul 10 (dec lo @ ''-'' @ dec (lo + n - 1)) = (lo, ''-'' @ dec (lo + n - 1))"
    using assms(1,2) d by (intro strtoul10_dec) simp_all
  have hi: "strtoul 10 (dec (lo + n - 1)) = (lo + n - 1, [])"
    using strtoul10_dec [of "lo + n - 1" "[]"] assms(1,2) by simp
  have "scan_range (range_text lo n) = Ok (lo, lo + n - 1)"
    using lo hi assms(1,2) by (simp add: scan_range_def range_text_def dec_nonempty [THEN not_sym])
  moreover have "CHR ''-'' \<in> set (range_text lo n)" by (simp add: range_text_def)
  moreover have "int (lo + n - 1) - int lo + 1 = int n" "lo \<le> lo + n - 1" using assms(1) by simp_all
  moreover have "GETNUMPORTS (range_of lo n) \<noteq> 0" using range_words(2) [of lo n 0] assms(1-3) by (simp add: range_of_def)
  ultimately show ?thesis
    using assms(4) by (simp add: StrToPortRange_def Let_def SETNUMPORTS_again range_of_def)
qed

lemma StrToAddrAndPortRange_text:
  assumes "endpoint_ok (Host a b c d)" and "0 < n" "lo + n \<le> 65536" "n < 65536"
    and "servbyname db (range_text lo n) (Some proto) = None"
  shows "StrToAddrAndPortRange db (dotted a b c d @ '':'' @ range_text lo n) proto = Ok (ip_word a b c d, range_of lo n)"
proof -
  have "cut_at CHR '':'' (dotted a b c d @ '':'' @ range_text lo n) = Some (dotted a b c d, range_text lo n)"
    using cut_at_first [of "CHR '':''" "dotted a b c d" "range_text lo n"] dotted_no_cut(2) by simp
  moreover have "lookup_host db (dotted a b c d) = Some (ip_word a b c d)"
    using inet_aton_dotted [of a b c d] assms(1) by (simp add: lookup_host_def)
  ultimately show ?thesis
    using StrToPortRange_text [OF assms(2-5)] by (simp add: StrToAddrAndPortRange_def StrToAddr_def)
qed

definition no_blanks :: "string \<Rightarrow> bool" where
  "no_blanks s \<longleftrightarrow> s \<noteq> [] \<and> (\<forall>c \<in> set s. c \<notin> set blanks)"

lemma need_token_word:
  assumes "no_blanks t"
  shows "need_token what (t @ CHR '' '' # s) f = f t s" "need_token what t f = f t []"
  using assms strtok_token(1) [of t blanks "CHR '' ''" s] strtok_token(2) [of t blanks "CHR '' ''"]
  by (simp_all add: need_token_def no_blanks_def blanks_def)

lemma range_chars: "c \<in> set (range_text lo n) \<Longrightarrow> c = CHR ''-'' \<or> isdigit c"
  by (auto simp: range_text_def dest: dec_digits)

lemma no_blanks_texts: "no_blanks (range_text lo n)" "no_blanks (dotted a b c d @ '':'' @ range_text lo n)"
  "CHR '','' \<notin> set (dotted a b c d @ '':'' @ range_text lo n)" "CHR '':'' \<notin> set (range_text lo n)"
proof -
  have r: "c \<noteq> CHR '' '' \<and> c \<noteq> CHR 0x09 \<and> c \<noteq> CHR '','' \<and> c \<noteq> CHR '':''" if "c \<in> set (range_text lo n)" for c
    using range_chars [OF that] by (auto simp: isdigit_def)
  have d: "x \<noteq> CHR '' '' \<and> x \<noteq> CHR 0x09 \<and> x \<noteq> CHR '',''" if "x \<in> set (dotted a b c d)" for x
    using set_dotted [OF that] by (auto simp: isdigit_def)
  have "range_text lo n \<noteq> []" by (simp add: range_text_def)
  with r d show "no_blanks (range_text lo n)" "no_blanks (dotted a b c d @ '':'' @ range_text lo n)"
    "CHR '','' \<notin> set (dotted a b c d @ '':'' @ range_text lo n)" "CHR '':'' \<notin> set (range_text lo n)"
    unfolding no_blanks_def blanks_def by (simp_all add: ball_Un) blast+
qed

lemma fold_lib_call: "fold lib_call cs st = st\<lparr>alias_calls := alias_calls st @ cs\<rparr>"
  by (induction cs arbitrary: st) (simp_all add: lib_call_def)

text \<open>
  C32. A redirection of ports maps them one by one. The option
  \<open>redirect_port tcp a.b.c.d:l-l' p-p'\<close> with two ranges of the same size, which is not all of the
  ports, makes one redirection for each: the public port \<open>p + i\<close> goes to the port \<open>l + i\<close> of the
  host, from every remote address and port.
\<close>

theorem port_redirect_pairs:
  assumes "endpoint_ok (Host a b c d)" and "0 < n" "n < 65536" "l + n \<le> 65536" "p + n \<le> 65536"
    and "servbyname (natd_db env) (range_text l n) (Some ''tcp'') = None"
    and "servbyname (natd_db env) (range_text p n) (Some ''tcp'') = None"
  shows "SetupPortRedirect env (''tcp '' @ dotted a b c d @ '':'' @ range_text l n @ '' '' @ range_text p n) st =
    Ok (st\<lparr>alias_calls := alias_calls st @
      map (\<lambda>i. Redirect_port (ip_word a b c d) (htons (l + i)) INADDR_ANY 0 INADDR_ANY (htons (p + i)) IPPROTO_TCP) [0..<n]\<rparr>)"
proof -
  let ?local = "dotted a b c d @ '':'' @ range_text l n"
  let ?text = "''tcp '' @ dotted a b c d @ '':'' @ range_text l n @ '' '' @ range_text p n"
  have len5: "length (dec k) \<le> 5" if "k < 65536" for k using length_dec_le [of 5 k] that by simp
  have len3: "length (dec k) \<le> 3" if "k < 256" for k using length_dec_le [of 3 k] that by simp
  have "length (range_text k n) \<le> 11" if "k + n \<le> 65536" for k
  proof -
    have "k < 65536" "k + n - 1 < 65536" using that assms(2) by simp_all
    then show ?thesis using len5 [of k] len5 [of "k + n - 1"] by (simp add: range_text_def)
  qed
  from this [OF assms(4)] this [OF assms(5)] have "length ?text < 128"
    using assms(1) len3 [of a] len3 [of b] len3 [of c] len3 [of d] by (simp add: dotted_def)
  then have copied: "copied ?text f = f ?text" for f :: "string \<Rightarrow> natd_st outcome" by (simp add: copied_def)
  have tcp: "need_token what ?text f = f ''tcp'' (?local @ CHR '' '' # range_text p n)"
    for what and f :: "string \<Rightarrow> string \<Rightarrow> natd_st outcome"
    using need_token_word(1) [of "''tcp''" what "?local @ CHR '' '' # range_text p n" f]
    by (simp add: no_blanks_def blanks_def)
  have "redirect_local (natd_db env) ''tcp'' ?local = Ok (ip_word a b c d, l, n, None)"
    using StrToAddrAndPortRange_text [OF assms(1,2,4,3,6)] no_blanks_texts(3) range_words(1,2) assms(2-4)
    by (simp add: redirect_local_def range_of_def)
  moreover have "redirect_public (natd_db env) ''tcp'' (range_text p n) = Ok (INADDR_ANY, p, n)"
    using StrToPortRange_text [OF assms(2,5,3,7)] no_blanks_texts(4) range_words(1,2) assms(2-5)
    by (simp add: redirect_public_def range_of_def)
  moreover have "redirect_remote (natd_db env) ''tcp'' (fst (strtok blanks [])) = Ok (INADDR_ANY, 0, 1)"
    by (simp add: redirect_remote_def strtok_def)
  moreover have "htons 0 = 0" by (simp add: htons_def)
  ultimately show ?thesis
    unfolding SetupPortRedirect_def copied tcp
    by (simp only: need_token_word no_blanks_texts)
      (simp add: StrToProto_def need_token_word no_blanks_texts Let_def fold_lib_call redirect_calls_def)
qed

subsection \<open>No packet is lost\<close>

text \<open>
  \<open>accounted pending es\<close>: a packet is read only when none waits, and what was read is sent, denied,
  found too big, or given up with a message.
\<close>

fun accounted :: "bool \<Rightarrow> nd_event list \<Rightarrow> bool" where
  "accounted pending [] \<longleftrightarrow> True"
| "accounted pending (Received fd p # es) \<longleftrightarrow> \<not> pending \<and> accounted True es"
| "accounted pending (Sent fd a p # es) \<longleftrightarrow> pending \<and> accounted False es"
| "accounted pending (Denied # es) \<longleftrightarrow> pending \<and> accounted False es"
| "accounted pending (Too_big # es) \<longleftrightarrow> pending \<and> accounted False es"
| "accounted pending (Warn m # es) \<longleftrightarrow> accounted (pending \<and> m \<noteq> ''failed to write packet back'') es"
| "accounted pending (e # es) \<longleftrightarrow> accounted pending es"

text \<open>Whether a packet is left at the end.\<close>

fun left_over :: "bool \<Rightarrow> nd_event list \<Rightarrow> bool" where
  "left_over pending [] = pending"
| "left_over pending (Received fd p # es) = left_over True es"
| "left_over pending (Sent fd a p # es) = left_over False es"
| "left_over pending (Denied # es) = left_over False es"
| "left_over pending (Too_big # es) = left_over False es"
| "left_over pending (Warn m # es) = left_over (pending \<and> m \<noteq> ''failed to write packet back'') es"
| "left_over pending (e # es) = left_over pending es"

lemma accounted_append: "accounted b (es @ fs) \<longleftrightarrow> accounted b es \<and> accounted (left_over b es) fs"
  by (induction b es rule: accounted.induct) auto

lemma left_over_append: "left_over b (es @ fs) = left_over (left_over b es) fs"
  by (induction b es rule: accounted.induct) auto

text \<open>The state agrees with its events.\<close>

definition in_order :: "natd_run \<Rightarrow> bool" where
  "in_order s \<longleftrightarrow> accounted False (nd_events s) \<and> left_over False (nd_events s) = (packetSock s \<noteq> None)"

lemmas order_simps = in_order_def nd_emit_def accounted_append left_over_append

lemma flush_in_order: "in_order s \<Longrightarrow> packetSock s \<noteq> None \<Longrightarrow> in_order (FlushPacketBuffer fd r s)"
  by (cases r) (auto simp: FlushPacketBuffer_def Let_def order_simps)

lemma flush_ports [simp]: "divert_ports (FlushPacketBuffer fd r s) = divert_ports s" "nd_st (FlushPacketBuffer fd r s) = nd_st s"
  by (cases r; simp add: FlushPacketBuffer_def Let_def nd_emit_def)+

lemma refresh_in_order:
  assumes "refresh_address ms s = Ok s'" "in_order s"
  shows "in_order s'" "packetSock s' = packetSock s" "divert_ports s' = divert_ports s" "nd_st s' = nd_st s"
  using assms by (auto simp: refresh_address_def SetAliasAddressFromIfName_def bind_o_eq_Ok order_simps split: if_splits)

lemma denied_in_order:
  assumes "accounted False (nd_events s)" "left_over False (nd_events s)" "packetSock s = None"
  shows "in_order (deny s) \<and> divert_ports (deny s) = divert_ports s \<and> nd_st (deny s) = nd_st s"
  using assms by (simp add: deny_def order_simps)

lemma passed_in_order:
  assumes "accounted False (nd_events s)" "left_over False (nd_events s)"
  shows "in_order (pass_on fd dir send n s) \<and> divert_ports (pass_on fd dir send n s) = divert_ports s \<and>
    nd_st (pass_on fd dir send n s) = nd_st s"
proof -
  define g where "g = int (short_at (packetBuf s) 2) - int n"
  define v where "v = (if dir = OUTPUT \<and> g > aliasOverhead s then s\<lparr>aliasOverhead := g\<rparr> else s)
    \<lparr>packetLen := short_at (packetBuf s) 2, packetSock := Some fd, packetDirection := dir\<rparr>"
  have "pass_on fd dir send n s = FlushPacketBuffer fd send v"
    by (simp add: pass_on_def Let_def v_def g_def)
  moreover have "nd_events v = nd_events s" "packetSock v = Some fd" "divert_ports v = divert_ports s" "nd_st v = nd_st s"
    by (simp_all add: v_def)
  ultimately show ?thesis using assms flush_in_order [of v fd send] by (simp add: in_order_def)
qed

lemma handle_in_order:
  assumes "in_order s" "packetSock s = None"
  shows "in_order (handle_packet lib fd dir send a p s) \<and>
    divert_ports (handle_packet lib fd dir send a p s) = divert_ports s \<and> nd_st (handle_packet lib fd dir send a p s) = nd_st s"
proof -
  define u where "u buf = (nd_emit (Received fd p)
    (s\<lparr>packetBuf := p @ drop (length p) (packetBuf s), packetAddr := a\<rparr>))\<lparr>packetBuf := buf\<rparr>" for buf
  have u: "accounted False (nd_events (u b))" "left_over False (nd_events (u b))" "packetSock (u b) = None"
    "divert_ports (u b) = divert_ports s" "nd_st (u b) = nd_st s" for b
    using assms by (simp_all add: u_def order_simps)
  define d where "d = (if dir = DONT_KNOW then if a = INADDR_ANY then OUTPUT else INPUT else dir)"
  let ?buf = "p @ drop (length p) (packetBuf s)"
  obtain ign b where b: "(if d = OUTPUT then (False, PacketAliasOut lib ?buf) else PacketAliasIn lib ?buf) = (ign, b)"
    by (cases "if d = OUTPUT then (False, PacketAliasOut lib ?buf) else PacketAliasIn lib ?buf")
  have "handle_packet lib fd dir send a p s =
      (if ign \<and> dropIgnoredIncoming (u b) then deny (u b) else pass_on fd d send (length p) (u b))"
    using b by (cases "d = OUTPUT") (auto simp add: handle_packet_def Let_def u_def nd_emit_def d_def [symmetric])
  then show ?thesis
    using denied_in_order [OF u(1-3), of b] passed_in_order [OF u(1,2), of fd d send "length p" b] u(4,5) by simp
qed

lemma do_aliasing_in_order:
  assumes "DoAliasing lib ms fd dir recv send s = Ok s'" "in_order s" "packetSock s = None"
  shows "in_order s' \<and> divert_ports s' = divert_ports s \<and> nd_st s' = nd_st s"
proof -
  obtain u where u: "refresh_address ms s = Ok u"
    and r: "s' = (case recv of Eintr \<Rightarrow> u | Recv_failed \<Rightarrow> nd_emit (Warn ''read from divert socket failed'') u
      | Packet a p \<Rightarrow> handle_packet lib fd dir send a p u)"
    using assms(1) by (auto simp: DoAliasing_def bind_o_eq_Ok)
  have "in_order u" "packetSock u = None" "divert_ports u = divert_ports s" "nd_st u = nd_st s"
    using refresh_in_order [OF u assms(2)] assms(3) by simp_all
  then show ?thesis
    using handle_in_order [of u] r by (cases recv) (simp_all add: order_simps)
qed

definition one_socket :: "natd_run \<Rightarrow> bool" where
  "one_socket s \<longleftrightarrow> (\<exists>p. divert_ports s = One_socket p)"

lemma routing_in_order: "in_order s \<Longrightarrow> in_order (HandleRoutingInfo m s)" "one_socket (HandleRoutingInfo m s) = one_socket s"
  by (cases m; simp add: HandleRoutingInfo_def order_simps one_socket_def)+

lemma turn_in_order:
  assumes "natd_turn lib t s = Ok s'" "in_order s" "one_socket s"
  shows "in_order s' \<and> one_socket s'"
proof -
  obtain p where p: "divert_ports s = One_socket p" using assms(3) by (auto simp: one_socket_def)
  show ?thesis
  proof (cases "packetSock s")
    case None
    let ?do = "DoAliasing lib (if_list t) Divert_inout DONT_KNOW (recv_of t Divert_inout) (send_of t Divert_inout)"
    have "in_order s'' \<and> one_socket s''" if "?do s = Ok s''" for s''
      using do_aliasing_in_order [OF that assms(2) None] assms(3) by (simp add: one_socket_def)
    then show ?thesis
      using assms p None routing_in_order
      by (auto simp: natd_turn_def bind_o_eq_Ok split: if_splits option.splits)
  next
    case (Some fd)
    define u where "u = (if writable_now t then FlushPacketBuffer fd (flush_of t) s else s)"
    have "in_order u" "one_socket u"
      using assms(2,3) Some by (simp_all add: u_def flush_in_order one_socket_def)
    then show ?thesis
      using assms(1) p Some routing_in_order u_def
      by (auto simp: natd_turn_def split: if_splits option.splits)
  qed
qed

lemma step_in_order:
  assumes "natd_step lib i s s'" "in_order s" "one_socket s"
  shows "in_order s' \<and> one_socket s'"
  using assms turn_in_order
  by (elim natd_stepE) (auto simp: RefreshAddr_def Shutdown_def in_order_def one_socket_def)

text \<open>
  C13. With one divert socket, as it is started here, natd loses no packet. In every run of its loop,
  whatever \<open>select\<close>, the sockets and the library answer and whatever signals come, a packet is read
  only when the one before it was sent, denied by the library's rules, found too big or reported as
  not written; and one that the socket had no space for is still the one that is waiting.
\<close>

theorem natd_accounts:
  assumes "runs (natd_step lib) is s s'" and "nd_events s = []" "packetSock s = None" "divert_ports s = One_socket p"
  shows "accounted False (nd_events s') \<and> left_over False (nd_events s') = (packetSock s' \<noteq> None)"
proof -
  have "in_order s \<Longrightarrow> one_socket s \<Longrightarrow> in_order s' \<and> one_socket s'"
    using assms(1) by (induction rule: runs.induct) (use step_in_order in blast)+
  then show ?thesis using assms(2-4) by (simp add: in_order_def one_socket_def)
qed

text \<open>
  C33. With two sockets, for incoming and outgoing packets, it can lose one. When both have a packet in
  the same turn and there is no space to write back the first, the second is read into the same buffer:
  the first is neither sent nor dropped with a reason.
\<close>

theorem natd_two_sockets_lose:
  assumes "divert_ports s = Two_sockets i j" "packetSock s = None" "nd_events s = []" "\<not> assignAliasAddr s"
    "\<not> dropIgnoredIncoming s"
    and "ready t Divert_in" "ready t Divert_out" "recv_of t Divert_in = Packet a p" "recv_of t Divert_out = Packet b q"
    and "send_of t Divert_in = Enobufs" "send_of t Divert_out = Wrote_all" "routing t = None"
  shows "\<exists>s' r. natd_turn lib t s = Ok s' \<and>
    nd_events s' = [Received Divert_in p, Received Divert_out q, Sent Divert_out b r] \<and> \<not> accounted False (nd_events s')"
proof -
  obtain ign buf where i: "PacketAliasIn lib (p @ drop (length p) (packetBuf s)) = (ign, buf)" by fastforce
  show ?thesis
    using assms i
    by (simp add: natd_turn_def DoAliasing_def refresh_address_def handle_packet_def pass_on_def Let_def nd_emit_def
        FlushPacketBuffer_def)
qed

subsection \<open>Examples\<close>

definition xl0_messages :: "rt_msg list" where
  "xl0_messages = [RTM_IFINFO 1 ''lo0'' 16384, RTM_NEWADDR (Some 0x7F000001), RTM_IFINFO 2 ''xl0'' 1500, RTM_NEWADDR None,
     RTM_NEWADDR (Some 0x0A000001)]"

definition plain_natd :: natd_env where
  "plain_natd = \<lparr>natd_db = plain_db\<lparr>servbyname := (\<lambda>s p. if s = ''natd'' \<and> p = Some ''divert'' then Some 8668 else None)\<rparr>,
     config_text = (\<lambda>_. None), facilities = [(''daemon'', 24)], link_made = (\<lambda>_. True)\<rparr>"

definition plain_alias :: libalias where
  "plain_alias = \<lparr>PacketAliasOut = id, PacketAliasIn = Pair False\<rparr>"

definition plain_turn :: "send_result \<Rightarrow> turn" where
  "plain_turn r = \<lparr>writable_now = True, ready = (\<lambda>_. True), recv_of = (\<lambda>_. Packet 0 (replicate 40 0)),
     send_of = (\<lambda>fd. if fd = Divert_out then Wrote_all else r), flush_of = Wrote_all, routing = None, if_list = []\<rparr>"

definition plain_start :: "divert_ports \<Rightarrow> natd_run" where
  "plain_start d = (interface_run natd_init (\<lambda>_. False) 0 (1, 1500, 0x0A000001))\<lparr>divert_ports := d, nd_events := []\<rparr>"

theorem natd_serves_divert_rule_witness:
  "\<exists>w' start rule d r. enable_nat calm (Some ''xl0'') blank_world = Some (0, w') \<and>
    {start, rule} \<subseteq> set (commands (trace w')) \<and>
    natd_main plain_natd (\<lambda>_. False) 1 xl0_messages (command_words start) = Ok d \<and> line_requests plain_db rule = [FW_ADD r] \<and>
    fw_command r = F_DIVERT \<and> divert_ports d = One_socket (htons (fw_un r)) \<and>
    fw_in_if r = Via_if ''xl'' 0 \<and> ifName (nd_st d) = Some ''xl0'' \<and> Alias_address 0x0A000001 \<in> set (nd_events d)"
proof -
  have c: "card_name ''xl'' 0 = ''xl0''" by (simp add: card_name_def dec_examples)
  have "interface_address ''xl0'' xl0_messages = Ok (2, 1500, 0x0A000001)"
    by (simp add: interface_address_def xl0_messages_def)
  then show ?thesis
    using natd_serves_divert_rule [of calm "''xl''" 0 plain_db plain_natd xl0_messages 2 1500 "0x0A000001" blank_world
        "\<lambda>_. False" 1] calm_good
    by (simp add: c letters_def isdigit_def plain_natd_def good_env_def)
qed

theorem port_redirect_pairs_witness:
  "SetupPortRedirect plain_natd ''tcp 10.0.0.5:8080-8082 80-82'' natd_init =
    Ok (natd_init\<lparr>alias_calls := map (\<lambda>i. Redirect_port (ip_word 10 0 0 5) (htons (8080 + i)) INADDR_ANY 0 INADDR_ANY
      (htons (80 + i)) IPPROTO_TCP) [0..<3]\<rparr>)"
proof -
  have "dec 82 = ''82''" "dec 8082 = ''8082''" "dec 5 = ''5''"
    by (simp_all add: dec.simps digit_def char_of_def bit_Suc_0_iff)
  then have t: "''tcp '' @ dotted 10 0 0 5 @ '':'' @ range_text 8080 3 @ '' '' @ range_text 80 3 = ''tcp 10.0.0.5:8080-8082 80-82''"
    using dec_examples by (simp add: dotted_def range_text_def)
  have "servbyname (natd_db plain_natd) s (Some ''tcp'') = None" for s by (simp add: plain_natd_def)
  then show ?thesis
    using port_redirect_pairs [of 10 0 0 5 3 8080 80 plain_natd natd_init] unfolding t
    by (simp add: ip_word_def natd_init_def)
qed

theorem natd_accounts_witness:
  "\<exists>s'. runs (natd_step plain_alias) [Turn (plain_turn Enobufs), Sighup, Turn (plain_turn Wrote_all)] (plain_start (One_socket 56353)) s' \<and>
    accounted False (nd_events s') \<and> left_over False (nd_events s') = (packetSock s' \<noteq> None)"
proof -
  let ?s = "plain_start (One_socket 56353)"
  obtain s1 where s1: "natd_turn plain_alias (plain_turn Enobufs) ?s = Ok s1" "nd_running s1" "packetSock s1 \<noteq> None"
    by (simp add: natd_turn_def plain_turn_def plain_start_def interface_run_def natd_init_def DoAliasing_def
        refresh_address_def handle_packet_def pass_on_def Let_def nd_emit_def FlushPacketBuffer_def plain_alias_def INADDR_ANY_def)
  have "nd_running (RefreshAddr s1)" "packetSock (RefreshAddr s1) \<noteq> None"
    using s1(2,3) by (simp_all add: RefreshAddr_def)
  moreover from this obtain s2 where "natd_turn plain_alias (plain_turn Wrote_all) (RefreshAddr s1) = Ok s2"
    by (auto simp: natd_turn_def plain_turn_def)
  moreover have "nd_running ?s" by (simp add: plain_start_def interface_run_def)
  ultimately have "runs (natd_step plain_alias) [Turn (plain_turn Enobufs), Sighup, Turn (plain_turn Wrote_all)] ?s s2"
    using s1(1,2) by (auto simp: runs_Cons runs_Nil intro: natd_step.intros)
  moreover have "nd_events ?s = []" "packetSock ?s = None" "divert_ports ?s = One_socket 56353"
    by (simp_all add: plain_start_def interface_run_def)
  ultimately show ?thesis using natd_accounts by blast
qed

theorem natd_two_sockets_lose_witness:
  "\<exists>s' r. natd_turn plain_alias (plain_turn Enobufs) (plain_start (Two_sockets 256 512)) = Ok s' \<and>
    nd_events s' = [Received Divert_in (replicate 40 0), Received Divert_out (replicate 40 0), Sent Divert_out 0 r] \<and>
    \<not> accounted False (nd_events s')"
  by (rule natd_two_sockets_lose) (simp_all add: plain_start_def plain_turn_def interface_run_def)

end
