(* ===== verification/Ifconfig.thy ===== *)
theory Ifconfig
  imports IpfwMain
begin

text \<open>
  \<open>sbin/ifconfig/ifconfig.c\<close>: the command that \<open>db.c\<close> and the boot run for a device. Modelled are the
  reading of its arguments and the requests to the kernel for the internet family; the status it prints
  and the other families, media, and vlans are left to their functions, with their arguments. The flags
  of an interface come from a kernel header: a flag is a constructor, the flags of an interface a set.
\<close>

datatype if_flag = IFF_UP | IFF_NOARP | IFF_DEBUG | IFF_LINK0 | IFF_LINK1 | IFF_LINK2 | IFF_OTHER nat

text \<open>
  \<open>SIOCAIFADDR\<close> has the address, the mask and the broadcast or destination address of \<open>addreq\<close>,
  \<open>None\<close> for one that was not set; \<open>SIOCDIFADDR\<close> that of \<open>ridreq\<close>.
\<close>

datatype if_request = SIOCSIFFLAGS "if_flag set" | SIOCSIFMETRIC int | SIOCSIFMTU int
  | SIOCDIFADDR "32 word option" | SIOCAIFADDR "32 word option" "32 word option" "32 word option"
  | Kldload string

datatype if_answer = Done | No_address | Refused

text \<open>
  The data bases, the modules of the kernel, its interfaces with their flags, and what it answers.
\<close>

record if_env =
  if_db :: netdb
  netbyname :: "string \<Rightarrow> 32 word option"
  modules :: "string list"
  interfaces :: "(string \<times> if_flag set) list"
  answer :: "if_request \<Rightarrow> if_answer"

record if_st =
  setaddr :: bool
  doalias :: int
  clearaddr :: bool
  newaddr :: bool
  ridreq :: "32 word option"
  ifra_addr :: "32 word option"
  ifra_mask :: "32 word option"
  ifra_broadaddr :: "32 word option"
  if_flags :: "if_flag set"
  if_requests :: "if_request list"

definition if_start :: "if_flag set \<Rightarrow> if_st" where
  "if_start fs = \<lparr>setaddr = False, doalias = 0, clearaddr = False, newaddr = True, ridreq = None, ifra_addr = None,
     ifra_mask = None, ifra_broadaddr = None, if_flags = fs, if_requests = []\<rparr>"

definition if_ioctl :: "if_request \<Rightarrow> if_st \<Rightarrow> if_st" where
  "if_ioctl r st = st\<lparr>if_requests := if_requests st @ [r]\<rparr>"

subsection \<open>The commands\<close>

datatype if_cmd = Setifflags if_flag bool | Notealias bool | Setifnetmask | Setifmetric | Setifbroadaddr | Setifmtu
  | Next_arg | No_arg

text \<open>The sign of a parameter is the boolean. The last two are the commands left to their functions.\<close>

definition cmds :: "(string \<times> if_cmd) list" where
  "cmds =
    [(''up'', Setifflags IFF_UP True), (''down'', Setifflags IFF_UP False), (''arp'', Setifflags IFF_NOARP False),
     (''-arp'', Setifflags IFF_NOARP True), (''debug'', Setifflags IFF_DEBUG True), (''-debug'', Setifflags IFF_DEBUG False),
     (''add'', Notealias True), (''alias'', Notealias True), (''-alias'', Notealias False), (''delete'', Notealias False),
     (''remove'', Notealias False), (''netmask'', Setifnetmask), (''prefixlen'', Next_arg), (''anycast'', No_arg),
     (''tentative'', No_arg), (''-tentative'', No_arg), (''range'', Next_arg), (''phase'', Next_arg),
     (''metric'', Setifmetric), (''broadcast'', Setifbroadaddr), (''ipdst'', Next_arg),
     (''link0'', Setifflags IFF_LINK0 True), (''-link0'', Setifflags IFF_LINK0 False),
     (''link1'', Setifflags IFF_LINK1 True), (''-link1'', Setifflags IFF_LINK1 False),
     (''link2'', Setifflags IFF_LINK2 True), (''-link2'', Setifflags IFF_LINK2 False),
     (''media'', Next_arg), (''mediaopt'', Next_arg), (''-mediaopt'', Next_arg), (''vlan'', Next_arg),
     (''vlandev'', Next_arg), (''-vlandev'', Next_arg), (''normal'', Setifflags IFF_LINK0 False),
     (''compress'', Setifflags IFF_LINK0 True), (''noicmp'', Setifflags IFF_LINK1 True), (''mtu'', Setifmtu)]"

definition in_getaddr :: "if_env \<Rightarrow> string \<Rightarrow> 32 word outcome" where
  "in_getaddr env s =
     (case lookup_host (if_db env) s of
        Some a \<Rightarrow> Ok a
      | None \<Rightarrow> (case netbyname env s of Some a \<Rightarrow> Ok a | None \<Rightarrow> Fail (EXIT_1 s)))"

text \<open>\<open>sintab\<close>: the address goes to \<open>ridreq\<close> when an alias is taken away.\<close>

definition setifaddr :: "if_env \<Rightarrow> string \<Rightarrow> if_st \<Rightarrow> if_st outcome" where
  "setifaddr env s st =
     (let st = st\<lparr>setaddr := True, clearaddr := (if doalias st = 0 then True else clearaddr st)\<rparr>
      in bind_o (in_getaddr env s) (\<lambda>a.
           Ok (if 0 \<le> doalias st then st\<lparr>ifra_addr := Some a\<rparr> else st\<lparr>ridreq := Some a\<rparr>)))"

definition setifdstaddr :: "if_env \<Rightarrow> string \<Rightarrow> if_st \<Rightarrow> if_st outcome" where
  "setifdstaddr env s st = bind_o (in_getaddr env s) (\<lambda>a. Ok (st\<lparr>ifra_broadaddr := Some a\<rparr>))"

definition setifflags :: "if_env \<Rightarrow> string \<Rightarrow> if_flag \<Rightarrow> bool \<Rightarrow> if_st \<Rightarrow> if_st outcome" where
  "setifflags env vname f on st =
     (let fs = (if on then insert f (if_flags st) else if_flags st - {f});
          r = SIOCSIFFLAGS fs
      in if answer env r = Done then Ok (if_ioctl r (st\<lparr>if_flags := fs\<rparr>)) else Fail (EXIT_1 vname))"

definition notealias :: "bool \<Rightarrow> if_st \<Rightarrow> if_st" where
  "notealias on st =
     (let st = (if setaddr st \<and> doalias st = 0 \<and> \<not> on then st\<lparr>ridreq := ifra_addr st\<rparr> else st);
          st = st\<lparr>doalias := (if on then 1 else - 1)\<rparr>
      in if on then st\<lparr>clearaddr := False\<rparr> else st\<lparr>clearaddr := True, newaddr := False\<rparr>)"

definition takes_arg :: "if_cmd \<Rightarrow> bool" where
  "takes_arg c \<longleftrightarrow> c \<in> {Setifnetmask, Setifmetric, Setifbroadaddr, Setifmtu, Next_arg}"

text \<open>One command with its argument, the word itself for one that takes none; \<open>None\<close> is left to its function.\<close>

definition run_cmd :: "if_env \<Rightarrow> if_cmd \<Rightarrow> string \<Rightarrow> if_st \<Rightarrow> if_st outcome option" where
  "run_cmd env c a st =
     (case c of
        Setifflags f on \<Rightarrow> Some (setifflags env a f on st)
      | Notealias on \<Rightarrow> Some (Ok (notealias on st))
      | Setifnetmask \<Rightarrow> Some (bind_o (in_getaddr env a) (\<lambda>m. Ok (st\<lparr>ifra_mask := Some m\<rparr>)))
      | Setifbroadaddr \<Rightarrow> Some (setifdstaddr env a st)
      | Setifmetric \<Rightarrow> Some (Ok (if_ioctl (SIOCSIFMETRIC (atoi a)) st))
      | Setifmtu \<Rightarrow> Some (Ok (if_ioctl (SIOCSIFMTU (atoi a)) st))
      | _ \<Rightarrow> None)"

subsection \<open>The program\<close>

text \<open>The result of the loop: the state, or the rest of the arguments for a command that is not modelled.\<close>

datatype if_loop = Finished if_st | Left if_st "string list"

fun if_args :: "if_env \<Rightarrow> string list \<Rightarrow> if_st \<Rightarrow> if_loop outcome" where
  "if_args env [] st = Ok (Finished st)"
| "if_args env (a # av) st =
     (case map_of cmds a of
        None \<Rightarrow> bind_o (if setaddr st then setifdstaddr env a st else setifaddr env a st) (if_args env av)
      | Some c \<Rightarrow>
          if takes_arg c then
            (case av of
               [] \<Rightarrow> Fail (EXIT_1 ''requires argument'')
             | b # av \<Rightarrow> (case run_cmd env c b st of
                 None \<Rightarrow> Ok (Left st (a # b # av)) | Some m \<Rightarrow> bind_o m (if_args env av)))
          else (case run_cmd env c a st of
                  None \<Rightarrow> Ok (Left st (a # av)) | Some m \<Rightarrow> bind_o m (if_args env av)))"

text \<open>The two requests at the end.\<close>

definition if_finish :: "if_env \<Rightarrow> if_st \<Rightarrow> if_st outcome" where
  "if_finish env st =
     bind_o (if clearaddr st then
               let r = SIOCDIFADDR (ridreq st)
               in if answer env r = Done \<or> answer env r = No_address \<and> 0 \<le> doalias st then Ok (if_ioctl r st)
                  else Fail (EXIT_1 ''ioctl (SIOCDIFADDR)'')
             else Ok st) (\<lambda>st.
     if newaddr st then
       let r = SIOCAIFADDR (ifra_addr st) (ifra_mask st) (ifra_broadaddr st)
       in if answer env r = Done then Ok (if_ioctl r st) else Fail (EXIT_1 ''ioctl (SIOCAIFADDR)'')
     else Ok st)"

definition afs :: "string list" where "afs = [''inet'', ''inet6'', ''ipx'', ''atalk'', ''ns'', ''ether'']"

text \<open>
  \<open>ifmaybeload\<close> asks for the module of the interface; then the interface must be there. Without
  arguments, or with options, the program lists or shows interfaces; a family but the first and the
  commands that are not modelled are the last two results.
\<close>

datatype if_run = Configured if_st | Lists "string list" | Status string | Family string "string list" | Not_modelled "string list"

definition ifmaybeload :: "if_env \<Rightarrow> string \<Rightarrow> if_request list" where
  "ifmaybeload env n =
     (let kind = ''if_'' @ takeWhile (\<lambda>c. \<not> isdigit c) n
      in if kind \<in> set (modules env) then [] else [Kldload kind])"

definition ifconfig :: "if_env \<Rightarrow> if_st \<Rightarrow> string list \<Rightarrow> if_run outcome" where
  "ifconfig env st av =
     bind_o (if_args env av st) (\<lambda>l.
     case l of Left st av \<Rightarrow> Ok (Not_modelled av) | Finished st \<Rightarrow> bind_o (if_finish env st) (\<lambda>st. Ok (Configured st)))"

definition ifconfig_main :: "if_env \<Rightarrow> string list \<Rightarrow> if_run outcome" where
  "ifconfig_main env argv =
     (case tl argv of
        [] \<Rightarrow> Ok (Lists [])
      | n # av \<Rightarrow>
          if take 1 n = ''-'' then Ok (Lists (n # av))
          else if 32 \<le> length n then Undefined
          else
            (case map_of (interfaces env) n of
               None \<Rightarrow> Fail (EXIT_1 ''interface does not exist'')
             | Some fs \<Rightarrow>
                 let st = (if_start fs)\<lparr>if_requests := ifmaybeload env n\<rparr>
                 in (case av of
                       [] \<Rightarrow> Ok (Status n)
                     | a # rest \<Rightarrow>
                         if a \<in> set afs then
                           if rest = [] then Ok (Status n)
                           else if a = ''inet'' then ifconfig env st rest else Ok (Family a rest)
                         else ifconfig env st av)))"

end
