(* ===== verification/IfconfigProps.thy ===== *)
theory IfconfigProps
  imports Ifconfig Devices BootInit IpfwProps
begin

text \<open>
  What the commands of a device do. The boot and the insertion into the device database run
  \<open>ifconfig\<close> with the same address and netmask; only the boot sets the netmask.
\<close>

lemma cmds_letters: "map_of cmds s = None" "s \<notin> set afs" if "isdigit (hd s)"
proof -
  have "\<forall>(n, c) \<in> set cmds. \<not> isdigit (hd n)" "\<forall>n \<in> set afs. \<not> isdigit (hd n)" by code_simp+
  then show "map_of cmds s = None" "s \<notin> set afs" using that by (auto simp: map_of_eq_None_iff)
qed

lemma cmds_dotted: "map_of cmds (dotted a b c d) = None" "dotted a b c d \<notin> set afs"
  using cmds_letters hd_dotted(2) [of a b c d "[]"] by simp_all

lemma cmds_netmask: "map_of cmds ''netmask'' = Some Setifnetmask"
  by code_simp

lemma in_getaddr_dotted: "endpoint_ok (Host a b c d) \<Longrightarrow> in_getaddr env (dotted a b c d) = Ok (ip_word a b c d)"
  using inet_aton_dotted [of a b c d] by (simp add: in_getaddr_def lookup_host_def)

text \<open>An interface by its plain name, and what is asked of the kernel for it.\<close>

definition plain_name :: "string \<Rightarrow> bool" where
  "plain_name s \<longleftrightarrow> s \<noteq> [] \<and> blank_free s \<and> nl \<notin> set s \<and> hd s \<noteq> CHR ''-'' \<and> length s < 32"

definition requests_of :: "if_env \<Rightarrow> string list \<Rightarrow> if_request list outcome" where
  "requests_of env argv = bind_o (ifconfig_main env argv) (\<lambda>r.
     case r of Configured st \<Rightarrow> Ok (if_requests st) | _ \<Rightarrow> Ok [])"

text \<open>The device has an address and a netmask of its own, in numbers.\<close>

definition static_device :: "device \<Rightarrow> nat \<times> nat \<times> nat \<times> nat \<Rightarrow> nat \<times> nat \<times> nat \<times> nat \<Rightarrow> bool" where
  "static_device d ip msk \<longleftrightarrow> device_wf d \<and> plain_name (d_device d) \<and> d_dhcp d = DHCP_DISABLED \<and>
     (case ip of (a, b, c, e) \<Rightarrow> d_ip d = dotted a b c e \<and> endpoint_ok (Host a b c e)) \<and>
     (case msk of (a, b, c, e) \<Rightarrow> d_netmask d = dotted a b c e \<and> endpoint_ok (Host a b c e))"

lemma static_words:
  assumes "static_device d ip msk"
  shows "command_words (hd (device_commands d)) = [''/sbin/ifconfig'', d_device d, d_ip d, d_netmask d]"
    "command_words (boot_ifconfig d) = [''/sbin/ifconfig'', d_device d, d_ip d, ''netmask'', d_netmask d]"
proof -
  have f: "blank_free (d_device d)" "d_device d \<noteq> []" "nl \<notin> set (d_device d)"
    "blank_free (d_ip d)" "d_ip d \<noteq> []" "nl \<notin> set (d_ip d)"
    "blank_free (d_netmask d)" "d_netmask d \<noteq> []" "nl \<notin> set (d_netmask d)" "d_dhcp d = DHCP_DISABLED" "device_wf d"
    using assms text_words(1,3) hd_dotted(1) [of _ _ _ _ "[]"]
    by (auto simp: static_device_def plain_name_def split: prod.splits)
  have h: "hd (device_commands d) = ''/sbin/ifconfig '' @ d_device d @ '' '' @ d_ip d @ '' '' @ d_netmask d"
    using f(10) by (simp add: device_commands_def)
  have b: "boot_ifconfig d = ''/sbin/ifconfig '' @ d_device d @ '' '' @ d_ip d @ '' netmask '' @ d_netmask d"
    using f(11) by (simp add: boot_ifconfig_def device_wf_def snprintf_fits)
  show "command_words (hd (device_commands d)) = [''/sbin/ifconfig'', d_device d, d_ip d, d_netmask d]"
    "command_words (boot_ifconfig d) = [''/sbin/ifconfig'', d_device d, d_ip d, ''netmask'', d_netmask d]"
    unfolding h b
    by (subst command_words_line(2);
        use f words_last words_field in \<open>simp\<close>)+
qed

lemma ifconfig_started:
  assumes "plain_name s" "map_of (interfaces env) s = Some fs" "a \<notin> set afs"
  shows "ifconfig_main env (''/sbin/ifconfig'' # s # a # av) =
    ifconfig env ((if_start fs)\<lparr>if_requests := ifmaybeload env s\<rparr>) (a # av)"
  using assms by (cases s) (auto simp: ifconfig_main_def plain_name_def)

text \<open>
  At boot a device gets its address and its netmask: \<open>ifconfig\<close> reads the command that
  \<open>config_devices\<close> runs as a request for exactly the address and the mask of the record.
\<close>

theorem boot_sets_netmask:
  assumes "static_device d (a, b, c, e) (m, n, k, l)" and "map_of (interfaces env) (d_device d) = Some fs"
    and "\<And>r. answer env r = Done"
  shows "requests_of env (command_words (boot_ifconfig d)) = Ok (ifmaybeload env (d_device d) @
    [SIOCDIFADDR None, SIOCAIFADDR (Some (ip_word a b c e)) (Some (ip_word m n k l)) None])"
  using assms static_words(2) [OF assms(1)] ifconfig_started [OF _ assms(2) cmds_dotted(2)]
  by (simp add: static_device_def requests_of_def ifconfig_def cmds_dotted cmds_netmask takes_arg_def run_cmd_def
      setifaddr_def in_getaddr_dotted if_start_def if_finish_def if_ioctl_def Let_def)

text \<open>
  C34. When it is inserted it does not. The first command that \<open>insert_device\<close> runs for such a device has no key
  word before the netmask, and \<open>ifconfig\<close> takes it for the broadcast address: the kernel is asked for the
  address with no mask, and with the netmask of the record as broadcast address. No later command
  makes up for it: there are at most the two of the default route.
\<close>

theorem insert_loses_netmask:
  assumes "static_device d (a, b, c, e) (m, n, k, l)" and "map_of (interfaces ie) (d_device d) = Some fs"
    and "\<And>r. answer ie r = Done" and "insert_device env d w = Some (r, w')"
  shows "\<exists>cmd cmds. commands (trace w') = commands (trace w) @ cmd # cmds \<and>
    requests_of ie (command_words cmd) = Ok (ifmaybeload ie (d_device d) @
      [SIOCDIFADDR None, SIOCAIFADDR (Some (ip_word a b c e)) None (Some (ip_word m n k l))]) \<and>
    cmds = (if d_ext d = 1 then [''/sbin/route delete default >>/dev/null'',
      ''/sbin/route add default '' @ d_gateway d @ '' >>/dev/null''] else [])"
proof -
  have wf: "device_wf d" "d_dhcp d = DHCP_DISABLED" using assms(1) by (auto simp: static_device_def)
  have "commands (trace w') = commands (trace w) @ device_commands d"
    using assms(4) configure_device_commands [OF wf(1), of env] by (auto simp: insert_device_def Let_def split: if_splits)
  moreover have "device_commands d = hd (device_commands d) # (if d_ext d = 1 then [''/sbin/route delete default >>/dev/null'',
      ''/sbin/route add default '' @ d_gateway d @ '' >>/dev/null''] else [])"
    using wf(2) by (simp add: device_commands_def)
  moreover have "requests_of ie (command_words (hd (device_commands d))) = Ok (ifmaybeload ie (d_device d) @
      [SIOCDIFADDR None, SIOCAIFADDR (Some (ip_word a b c e)) None (Some (ip_word m n k l))])"
    using assms(1-3) static_words(1) [OF assms(1)] ifconfig_started [OF _ assms(2) cmds_dotted(2)]
    by (simp add: static_device_def requests_of_def ifconfig_def cmds_dotted setifaddr_def setifdstaddr_def
        in_getaddr_dotted if_start_def if_finish_def if_ioctl_def Let_def)
  ultimately show ?thesis by (intro exI [of _ "hd (device_commands d)"] exI) auto
qed

definition dc0_env :: if_env where
  "dc0_env = \<lparr>if_db = plain_db, netbyname = (\<lambda>_. None), modules = [''if_dc''], interfaces = [(''lo0'', {}), (''dc0'', {IFF_UP})],
     answer = (\<lambda>_. Done)\<rparr>"

lemma dc0_static: "static_device (eth 2 ''dc0'' 0) (10, 0, 0, 1) (255, 0, 0, 0)"
proof -
  have "dec 255 = ''255''" by (simp add: dec.simps digit_def char_of_def bit_Suc_0_iff)
  moreover have "dec (Suc 0) = ''1''" using dec_examples(2) by simp
  moreover have "device_wf (eth 2 ''dc0'' 0)" by code_simp
  ultimately show ?thesis
    by (simp add: static_device_def eth_def plain_name_def blank_free_def dotted_def dec_examples)
qed

theorem boot_sets_netmask_witness:
  "requests_of dc0_env (command_words (boot_ifconfig (eth 2 ''dc0'' 0))) =
    Ok [SIOCDIFADDR None, SIOCAIFADDR (Some (ip_word 10 0 0 1)) (Some (ip_word 255 0 0 0)) None]"
  using boot_sets_netmask [OF dc0_static, of dc0_env "{IFF_UP}"]
  by (simp add: dc0_env_def eth_def ifmaybeload_def isdigit_def)

theorem insert_loses_netmask_witness:
  "\<exists>w' cmd. insert_device calm (eth 2 ''dc0'' 0) two_cards_world = Some (0, w') \<and> commands (trace w') = [cmd] \<and>
    requests_of dc0_env (command_words cmd) =
      Ok [SIOCDIFADDR None, SIOCAIFADDR (Some (ip_word 10 0 0 1)) None (Some (ip_word 255 0 0 0))]"
proof -
  obtain w' where w: "insert_device calm (eth 2 ''dc0'' 0) two_cards_world = Some (0, w')"
    using insert_device_eq [OF two_cards_world_db(1), of calm "eth 2 ''dc0'' 0"] by auto
  have "commands (trace two_cards_world) = []" by code_simp
  then show ?thesis
    using insert_loses_netmask [OF dc0_static _ _ w, of dc0_env "{IFF_UP}"] w
    by (auto simp: dc0_env_def eth_def ifmaybeload_def isdigit_def)
qed

end
