(* ===== verification/Route.thy ===== *)
theory Route
  imports IpfwMain
begin

text \<open>
  \<open>sbin/route/route.c\<close>: the command that \<open>db.c\<close> and the boot run for the default gateway. Modelled are
  \<open>main\<close>, \<open>newroute\<close> with the requests it writes to the routing socket, and \<open>flushroutes\<close>, for the
  internet family. Other families, and a gateway that is an interface, are left to their functions, as
  are \<open>monitor\<close> and the texts of \<open>-v\<close>. A socket address is the record of its length, its family and its
  address in host order; \<open>sin_bytes\<close> are its sixteen bytes. The metrics and the flags of a route are
  constructors, a bit set a set; \<open>u_long\<close> has 32 bits.
\<close>

subsection \<open>Data\<close>

datatype rta = RTA_DST | RTA_GATEWAY | RTA_NETMASK | RTA_GENMASK | RTA_IFP | RTA_IFA
datatype rt_flag = RTF_UP | RTF_GATEWAY | RTF_HOST | RTF_REJECT | RTF_STATIC | RTF_LLINFO | RTF_BLACKHOLE
  | RTF_PROTO1 | RTF_PROTO2 | RTF_CLONING | RTF_XRESOLVE
datatype metric = Mtu | Hopcount | Expire | Recvpipe | Sendpipe | Ssthresh | Rtt | Rttvar
datatype rtm_type = RTM_ADD | RTM_DELETE | RTM_CHANGE | RTM_GET
datatype errno = ENETUNREACH | ESRCH | EBUSY | ENOBUFS | Errno string

definition AF_INET :: nat where "AF_INET = 2"
definition AF_LINK :: nat where "AF_LINK = 18"

record sockaddr_in =
  sin_len :: nat
  sin_family :: nat
  sin_addr :: "32 word"

definition no_sin :: sockaddr_in where
  "no_sin = \<lparr>sin_len = 0, sin_family = 0, sin_addr = 0\<rparr>"

definition addr_bytes :: "32 word \<Rightarrow> 8 word list" where
  "addr_bytes a = [ucast (drop_bit 24 a), ucast (drop_bit 16 a), ucast (drop_bit 8 a), ucast a]"

definition sin_bytes :: "sockaddr_in \<Rightarrow> 8 word list" where
  "sin_bytes s = [word_of_nat (sin_len s), word_of_nat (sin_family s), 0, 0] @ addr_bytes (sin_addr s) @ replicate 8 0"

text \<open>The length of the bytes without the zeros at their end.\<close>

definition used_length :: "8 word list \<Rightarrow> nat" where
  "used_length bs = length (dropWhile (\<lambda>b. b = 0) (rev bs))"

text \<open>A message to the routing socket: its header, and the bytes of the addresses behind it.\<close>

record rt_message =
  rtm_type :: rtm_type
  rtm_flags :: "rt_flag set"
  rtm_seq :: nat
  rtm_addrs :: "rta set"
  rtm_metrics :: "metric \<Rightarrow> 32 word"
  rtm_inits :: "metric set"
  rtm_locks :: "metric set"
  rtm_space :: "8 word list"

text \<open>
  The global variables of the program; the six socket addresses are one function. \<open>messages\<close> are those
  written so far, so that their number is \<open>seq\<close>.
\<close>

record rt_st =
  af :: nat
  forcehost :: nat
  forcenet :: nat
  iflag :: nat
  locking :: bool
  lockrest :: bool
  addrs :: "rta set"
  so :: "rta \<Rightarrow> sockaddr_in"
  rt_metrics :: "metric \<Rightarrow> 32 word"
  rt_inits :: "metric set"
  rt_locks :: "metric set"
  seq :: nat
  messages :: "rt_message list"

definition rt_start :: rt_st where
  "rt_start = \<lparr>af = 0, forcehost = 0, forcenet = 0, iflag = 0, locking = False, lockrest = False, addrs = {},
     so = (\<lambda>_. no_sin), rt_metrics = (\<lambda>_. 0), rt_inits = {}, rt_locks = {}, seq = 0, messages = []\<rparr>"

text \<open>The local variables of \<open>newroute\<close>.\<close>

record rt_locals =
  ishost :: bool
  dest :: string
  gateway :: string
  hp :: "32 word list option"
  rt_flags :: "rt_flag set"

text \<open>
  The options; the data bases, where a host has at least one address; the user; the name of this host;
  and what the kernel answers to a message.
\<close>

record rt_env =
  nflag :: bool
  qflag :: bool
  tflag :: bool
  debugonly :: bool
  rt_hosts :: "string \<Rightarrow> (32 word \<times> 32 word list) option"
  rt_nets :: "string \<Rightarrow> 32 word option"
  host_of :: "32 word \<Rightarrow> string option"
  net_of :: "32 word \<Rightarrow> string option"
  hostname :: string
  uid :: nat
  rt_answer :: "rt_message \<Rightarrow> errno option"

subsection \<open>Key words\<close>

datatype rt_key = K_ADD | K_CHANGE | K_DELETE | K_GET | K_FLUSH | K_MONITOR | K_INET | K_FAMILY | K_IFACE | K_NOSTATIC
  | K_LOCK | K_LOCKREST | K_HOST | K_NET | K_FLAG rt_flag | K_ADDR rta | K_DST | K_NETMASK | K_PREFIXLEN
  | K_METRIC metric | K_UNUSED

text \<open>
  The table made from the file \<open>keywords\<close>. Key words with one meaning share a constructor: \<open>K_FAMILY\<close>
  are the families but the first, \<open>K_UNUSED\<close> those that no function looks for.
\<close>

definition keytab :: "(string \<times> rt_key) list" where
  "keytab =
    [(''add'', K_ADD), (''atalk'', K_FAMILY), (''blackhole'', K_FLAG RTF_BLACKHOLE), (''change'', K_CHANGE),
     (''cloning'', K_FLAG RTF_CLONING), (''delete'', K_DELETE), (''dst'', K_DST), (''expire'', K_METRIC Expire),
     (''flush'', K_FLUSH), (''gateway'', K_ADDR RTA_GATEWAY), (''genmask'', K_ADDR RTA_GENMASK), (''get'', K_GET),
     (''host'', K_HOST), (''hopcount'', K_METRIC Hopcount), (''iface'', K_IFACE), (''interface'', K_IFACE),
     (''ifa'', K_ADDR RTA_IFA), (''ifp'', K_ADDR RTA_IFP), (''inet'', K_INET), (''inet6'', K_FAMILY),
     (''iso'', K_UNUSED), (''link'', K_FAMILY), (''llinfo'', K_FLAG RTF_LLINFO), (''lock'', K_LOCK),
     (''lockrest'', K_LOCKREST), (''mask'', K_UNUSED), (''monitor'', K_MONITOR), (''mtu'', K_METRIC Mtu),
     (''net'', K_NET), (''netmask'', K_NETMASK), (''nostatic'', K_NOSTATIC), (''osi'', K_UNUSED),
     (''prefixlen'', K_PREFIXLEN), (''proto1'', K_FLAG RTF_PROTO1), (''proto2'', K_FLAG RTF_PROTO2),
     (''recvpipe'', K_METRIC Recvpipe), (''reject'', K_FLAG RTF_REJECT), (''rtt'', K_METRIC Rtt),
     (''rttvar'', K_METRIC Rttvar), (''sa'', K_FAMILY), (''sendpipe'', K_METRIC Sendpipe),
     (''ssthresh'', K_METRIC Ssthresh), (''static'', K_FLAG RTF_STATIC), (''x25'', K_UNUSED), (''xns'', K_FAMILY),
     (''xresolve'', K_FLAG RTF_XRESOLVE)]"

definition keyword :: "string \<Rightarrow> rt_key option" where
  "keyword cp = map_of keytab cp"

subsection \<open>Addresses\<close>

text \<open>
  \<open>inet_addr\<close>, \<open>inet_network\<close> and \<open>inet_lnaof\<close> of the C library; \<open>None\<close> is \<open>INADDR_NONE\<close>.
  \<open>gethostbyname\<close> reads an address by itself.
\<close>

definition inet_addr :: "string \<Rightarrow> 32 word option" where
  "inet_addr s = (case inet_aton s of None \<Rightarrow> None | Some a \<Rightarrow> if a = - 1 then None else Some a)"

definition network_word :: "nat list \<Rightarrow> 32 word" where
  "network_word vs = foldl (\<lambda>v p. push_bit 8 v OR (word_of_nat p AND 0xff)) 0 vs"

definition inet_network :: "string \<Rightarrow> 32 word option" where
  "inet_network s =
     (case aton_parts 3 s of
        None \<Rightarrow> None
      | Some (vs, t) \<Rightarrow>
          if t \<noteq> [] \<and> \<not> isspace (hd t) \<or> network_word vs = - 1 then None else Some (network_word vs))"

definition in_classa :: "32 word \<Rightarrow> bool" where "in_classa i \<longleftrightarrow> i AND 0x80000000 = 0"
definition in_classb :: "32 word \<Rightarrow> bool" where "in_classb i \<longleftrightarrow> i AND 0xc0000000 = 0x80000000"

definition inet_lnaof :: "32 word \<Rightarrow> 32 word" where
  "inet_lnaof i = i AND (if in_classa i then 0x00ffffff else if in_classb i then 0x0000ffff else 0x000000ff)"

definition gethostbyname :: "rt_env \<Rightarrow> string \<Rightarrow> (32 word \<times> 32 word list) option" where
  "gethostbyname env s = (case inet_aton s of Some a \<Rightarrow> Some (a, []) | None \<Rightarrow> rt_hosts env s)"

text \<open>A shift by 32 and more has no defined behaviour.\<close>

definition class_net :: "32 word \<Rightarrow> 32 word \<times> 32 word" where
  "class_net net =
     (if net = 0 then (0, 0)
      else if net < 128 then (push_bit 24 net, 0xff000000)
      else if net < 65536 then (push_bit 16 net, 0xffff0000)
      else if net < 16777216 then (push_bit 8 net, 0xffffff00)
      else if net AND 0x00ffffff = 0 then (net, 0xff000000)
      else if net AND 0x0000ffff = 0 then (net, 0xffff0000)
      else if net AND 0x000000ff = 0 then (net, 0xffffff00)
      else (net, - 1))"

definition inet_makenetandmask :: "32 word \<Rightarrow> nat \<Rightarrow> rt_st \<Rightarrow> rt_st outcome" where
  "inet_makenetandmask net bits st =
     (let st = st\<lparr>addrs := insert RTA_NETMASK (addrs st)\<rparr>;
          fill = (\<lambda>(addr, m).
            let sin = \<lparr>sin_len = 0, sin_family = 0, sin_addr = m\<rparr>;
                sin = sin\<lparr>sin_len := max 1 (used_length (take 8 (sin_bytes sin)))\<rparr>
            in Ok (st\<lparr>so := (so st)(RTA_DST := (so st RTA_DST)\<lparr>sin_addr := addr\<rparr>, RTA_NETMASK := sin)\<rparr>))
      in if net = 0 then fill (0, 0)
         else if bits \<noteq> 0 then if 32 < bits then Undefined else fill (net, push_bit (32 - bits) 0xffffffff)
         else fill (class_net net))"

text \<open>
  \<open>getaddr\<close> for the internet family; the caller has looked at the others. \<open>hpp\<close> tells whether it is
  given a place for the host entry. The result is whether the address is that of a host.
\<close>

definition set_sin :: "rta \<Rightarrow> rt_st \<Rightarrow> rt_st" where
  "set_sin which st = st\<lparr>addrs := insert which (addrs st),
     so := (so st)(which := (so st which)\<lparr>sin_len := 16, sin_family := AF_INET\<rparr>)\<rparr>"

definition set_addr :: "rta \<Rightarrow> 32 word \<Rightarrow> rt_st \<Rightarrow> rt_st" where
  "set_addr which a st = st\<lparr>so := (so st)(which := (so st which)\<lparr>sin_addr := a\<rparr>)\<rparr>"

definition slash :: "string \<Rightarrow> (string \<times> string) option" where
  "slash s = (if CHR ''/'' \<in> set s
     then Some (takeWhile (\<lambda>c. c \<noteq> CHR ''/'') s, tl (dropWhile (\<lambda>c. c \<noteq> CHR ''/'') s)) else None)"

definition getaddr_name :: "rt_env \<Rightarrow> rta \<Rightarrow> string \<Rightarrow> bool \<Rightarrow> rt_locals \<Rightarrow> rt_st \<Rightarrow> (bool \<times> rt_locals \<times> rt_st) outcome" where
  "getaddr_name env which s hpp l st =
     (let netdone = (\<lambda>val st. bind_o (if which = RTA_DST then inet_makenetandmask val 0 st else Ok st)
            (\<lambda>st. Ok (False, l, st)))
      in case (if which \<noteq> RTA_DST \<or> forcenet st = 0 then inet_addr s else None) of
           Some val \<Rightarrow>
             let st = set_addr which val st
             in if inet_lnaof val \<noteq> 0 then Ok (True, l, st) else netdone val st
         | None \<Rightarrow>
             (case (case inet_network s of
                      Some val \<Rightarrow> Some val
                    | None \<Rightarrow> if forcehost st = 0 \<and> rt_nets env s \<noteq> Some 0 then rt_nets env s else None) of
                Some val \<Rightarrow> netdone val st
              | None \<Rightarrow>
                  (case gethostbyname env s of
                     None \<Rightarrow> Fail (EX_NOHOST s)
                   | Some (a, others) \<Rightarrow>
                       Ok (True, if hpp then l\<lparr>hp := Some (a # others)\<rparr> else l, set_addr which a st))))"

definition getaddr :: "rt_env \<Rightarrow> rta \<Rightarrow> string \<Rightarrow> bool \<Rightarrow> rt_locals \<Rightarrow> rt_st \<Rightarrow> (bool \<times> rt_locals \<times> rt_st) outcome" where
  "getaddr env which s hpp l st =
     (let st = set_sin which (st\<lparr>af := AF_INET\<rparr>)
      in if s = ''default'' then
           Ok (False, l, if which = RTA_DST then set_sin RTA_NETMASK (st\<lparr>forcenet := forcenet st + 1\<rparr>) else st)
         else
           let l = (if hpp then l\<lparr>hp := None\<rparr> else l)
           in case (if which = RTA_DST then slash s else None) of
                None \<Rightarrow> getaddr_name env which s hpp l st
              | Some (p, q) \<Rightarrow>
                  (case inet_addr p of
                     None \<Rightarrow> getaddr_name env which s hpp l st
                   | Some val \<Rightarrow> bind_o (inet_makenetandmask val (fst (strtoul 0 q)) st) (\<lambda>st. Ok (False, l, st))))"

text \<open>\<open>None\<close> is the result -1, that of all bits.\<close>

definition prefix_bytes :: "nat \<Rightarrow> 8 word list" where
  "prefix_bytes len =
     (let q = len div 8; r = len mod 8
      in take 4 (replicate q 0xff @ (if r > 0 then [ucast (drop_bit r (0xff00 :: 16 word) AND 0xff)] else []) @ replicate 4 0))"

definition bytes_addr :: "8 word list \<Rightarrow> 32 word" where
  "bytes_addr bs = foldl (\<lambda>v b. push_bit 8 v OR ucast b) 0 bs"

definition prefixlen :: "string \<Rightarrow> rt_st \<Rightarrow> (nat option \<times> rt_st) outcome" where
  "prefixlen s st =
     (let len = atoi s; st = st\<lparr>addrs := insert RTA_NETMASK (addrs st)\<rparr>
      in if af st \<noteq> AF_INET then Fail (EXIT_1 ''prefixlen not supported in this af'')
         else if len < 0 \<or> 32 < len then Fail (EXIT_1 s)
         else Ok (if len = 32 then None else Some (nat len),
                  st\<lparr>so := (so st)(RTA_NETMASK := \<lparr>sin_len = 16, sin_family = AF_INET,
                       sin_addr = bytes_addr (prefix_bytes (nat len))\<rparr>)\<rparr>))"

definition set_metric :: "string \<Rightarrow> metric \<Rightarrow> rt_st \<Rightarrow> rt_st" where
  "set_metric value key st =
     st\<lparr>rt_inits := insert key (rt_inits st),
       rt_locks := (if lockrest st \<or> locking st then insert key (rt_locks st) else rt_locks st),
       locking := False, rt_metrics := (rt_metrics st)(key := word_of_int (atoi value))\<rparr>"

subsection \<open>Messages\<close>

definition mask_addr :: "rt_st \<Rightarrow> rt_st" where
  "mask_addr st =
     (let m = so st RTA_NETMASK; olen = sin_len m
      in st\<lparr>so := (so st)(RTA_NETMASK := m\<lparr>sin_len := used_length (take olen (sin_bytes (m\<lparr>sin_len := 0\<rparr>)))\<rparr>)\<rparr>)"

definition roundup :: "nat \<Rightarrow> nat" where
  "roundup a = (if a > 0 then 1 + (a - 1 OR 3) else 4)"

definition next_addr :: "rt_st \<Rightarrow> rta \<Rightarrow> 8 word list" where
  "next_addr st w =
     (if w \<in> addrs st then take (roundup (sin_len (so st w))) (sin_bytes (so st w) @ replicate 4 0) else [])"

definition rtmsg :: "rt_env \<Rightarrow> char \<Rightarrow> rt_flag set \<Rightarrow> rt_st \<Rightarrow> errno option \<times> rt_st" where
  "rtmsg env cmd flags st =
     (let cmd = (if cmd = CHR ''a'' then RTM_ADD else if cmd = CHR ''c'' then RTM_CHANGE
                 else if cmd = CHR ''g'' then RTM_GET else RTM_DELETE);
          st = (if cmd = RTM_GET \<and> sin_family (so st RTA_IFP) = 0
                then st\<lparr>so := (so st)(RTA_IFP := (so st RTA_IFP)\<lparr>sin_len := 20, sin_family := AF_LINK\<rparr>),
                  addrs := insert RTA_IFP (addrs st)\<rparr> else st);
          st = st\<lparr>seq := seq st + 1\<rparr>;
          header = \<lparr>rtm_type = cmd, rtm_flags = flags, rtm_seq = seq st, rtm_addrs = addrs st, rtm_metrics = rt_metrics st,
            rtm_inits = rt_inits st, rtm_locks = rt_locks st, rtm_space = []\<rparr>;
          st = (if RTA_NETMASK \<in> addrs st then mask_addr st else st);
          m = header\<lparr>rtm_space := concat (map (next_addr st)
            [RTA_DST, RTA_GATEWAY, RTA_NETMASK, RTA_GENMASK, RTA_IFP, RTA_IFA])\<rparr>
      in if debugonly env then (None, st)
         else (if tflag env then None else rt_answer env m, st\<lparr>messages := messages st @ [m]\<rparr>))"

subsection \<open>newroute\<close>

text \<open>A word that begins with a hyphen. \<open>None\<close> of \<open>plain_key\<close> is the branch to \<open>usage\<close>.\<close>

definition plain_key :: "rt_key \<Rightarrow> rt_locals \<Rightarrow> rt_st \<Rightarrow> (rt_locals \<times> rt_st) option" where
  "plain_key k l st =
     (case k of
        K_INET \<Rightarrow> Some (l, st\<lparr>af := AF_INET\<rparr>)
      | K_IFACE \<Rightarrow> Some (l, st\<lparr>iflag := iflag st + 1\<rparr>)
      | K_NOSTATIC \<Rightarrow> Some (l\<lparr>rt_flags := rt_flags l - {RTF_STATIC}\<rparr>, st)
      | K_LOCK \<Rightarrow> Some (l, st\<lparr>locking := True\<rparr>)
      | K_LOCKREST \<Rightarrow> Some (l, st\<lparr>lockrest := True\<rparr>)
      | K_HOST \<Rightarrow> Some (l, st\<lparr>forcehost := forcehost st + 1\<rparr>)
      | K_NET \<Rightarrow> Some (l, st\<lparr>forcenet := forcenet st + 1\<rparr>)
      | K_FLAG f \<Rightarrow> Some (l\<lparr>rt_flags := insert f (rt_flags l)\<rparr>, st)
      | _ \<Rightarrow> None)"

definition key_takes_arg :: "rt_key \<Rightarrow> bool" where
  "key_takes_arg k = (case k of K_ADDR _ \<Rightarrow> True | K_DST \<Rightarrow> True | K_NETMASK \<Rightarrow> True | K_PREFIXLEN \<Rightarrow> True
     | K_METRIC _ \<Rightarrow> True | _ \<Rightarrow> False)"

definition arg_key :: "rt_env \<Rightarrow> rt_key \<Rightarrow> string \<Rightarrow> rt_locals \<Rightarrow> rt_st \<Rightarrow> (rt_locals \<times> rt_st) outcome" where
  "arg_key env k b l st =
     (case k of
        K_ADDR w \<Rightarrow> bind_o (getaddr env w b False l st) (\<lambda>(_, l, st). Ok (l, st))
      | K_DST \<Rightarrow> bind_o (getaddr env RTA_DST b True l st) (\<lambda>(h, l, st). Ok (l\<lparr>ishost := h, dest := b\<rparr>, st))
      | K_NETMASK \<Rightarrow> bind_o (getaddr env RTA_NETMASK b False l st)
          (\<lambda>(_, l, st). Ok (l, st\<lparr>forcenet := forcenet st + 1\<rparr>))
      | K_PREFIXLEN \<Rightarrow> bind_o (prefixlen b st) (\<lambda>(r, st).
          Ok (if r = None then (l\<lparr>ishost := True\<rparr>, st\<lparr>forcenet := 0\<rparr>)
              else (l\<lparr>ishost := False\<rparr>, st\<lparr>forcenet := 1\<rparr>)))
      | K_METRIC m \<Rightarrow> Ok (l, set_metric b m st)
      | _ \<Rightarrow> Ok (l, st))"

text \<open>The next plain word: the destination, then the gateway, then the mask.\<close>

definition next_word :: "rt_env \<Rightarrow> string \<Rightarrow> rt_locals \<Rightarrow> rt_st \<Rightarrow> (rt_locals \<times> rt_st) outcome" where
  "next_word env a l st =
     (if RTA_DST \<notin> addrs st then
        bind_o (getaddr env RTA_DST a True (l\<lparr>dest := a\<rparr>) st) (\<lambda>(h, l, st). Ok (l\<lparr>ishost := h\<rparr>, st))
      else if RTA_GATEWAY \<notin> addrs st then
        bind_o (getaddr env RTA_GATEWAY a True (l\<lparr>gateway := a\<rparr>) st) (\<lambda>(_, l, st). Ok (l, st))
      else bind_o (getaddr env RTA_NETMASK a False l st) (\<lambda>(_, l, st). Ok (l, st)))"

text \<open>What is left to other functions: an interface as a gateway, and the address of a link.\<close>

definition elsewhere :: "rt_key option \<Rightarrow> rt_st \<Rightarrow> bool" where
  "elsewhere k st \<longleftrightarrow> k = Some K_FAMILY \<or> k = Some (K_ADDR RTA_IFP) \<or> k = Some (K_ADDR RTA_GATEWAY) \<and> 0 < iflag st \<or>
     k = None \<and> RTA_DST \<in> addrs st \<and> RTA_GATEWAY \<notin> addrs st \<and> 0 < iflag st"

datatype rt_loop = Read rt_locals rt_st | Elsewhere "string list"

fun newroute_args :: "rt_env \<Rightarrow> string list \<Rightarrow> rt_locals \<Rightarrow> rt_st \<Rightarrow> rt_loop outcome" where
  "newroute_args env [] l st = Ok (Read l st)"
| "newroute_args env (a # av) l st =
     (if take 1 a = ''-'' then
        (case keyword (tl a) of
           None \<Rightarrow> Fail (EX_USAGE (tl a))
         | Some k \<Rightarrow>
             if key_takes_arg k then
               (case av of
                  [] \<Rightarrow> Fail (EX_USAGE [])
                | b # av \<Rightarrow>
                    if elsewhere (Some k) st then Ok (Elsewhere (a # b # av))
                    else bind_o (arg_key env k b l st) (\<lambda>(l, st). newroute_args env av l st))
             else if elsewhere (Some k) st then Ok (Elsewhere (a # av))
             else (case plain_key k l st of
                     None \<Rightarrow> Fail (EX_USAGE (tl a)) | Some (l, st) \<Rightarrow> newroute_args env av l st))
      else if elsewhere None st then Ok (Elsewhere (a # av))
      else bind_o (next_word env a l st) (\<lambda>(l, st). newroute_args env av l st))"

text \<open>The loop over the addresses of the gateway: the answer to the last message, and the attempts made.\<close>

function attempt :: "rt_env \<Rightarrow> char \<Rightarrow> rt_flag set \<Rightarrow> nat \<Rightarrow> rt_locals \<Rightarrow> rt_st \<Rightarrow> errno option \<times> nat \<times> rt_st" where
  "attempt env cmd flags attempts l st =
     (case rtmsg env cmd flags st of
        (None, st) \<Rightarrow> (None, attempts, st)
      | (Some e, st) \<Rightarrow>
          if e \<noteq> ENETUNREACH \<and> e \<noteq> ESRCH then (Some e, attempts, st)
          else if af st = AF_INET \<and> gateway l \<noteq> [] then
            (case hp l of
               Some (_ # a # others) \<Rightarrow>
                 attempt env cmd flags (attempts + 1) (l\<lparr>hp := Some (a # others)\<rparr>) (set_addr RTA_GATEWAY a st)
             | _ \<Rightarrow> (Some e, attempts, st))
          else (Some e, attempts, st))"
  by pat_completeness auto
termination
  by (relation "measure (\<lambda>(env, cmd, flags, n, l, st). length (the (hp l)))") auto

declare attempt.simps [simp del]

fun errno_text :: "errno \<Rightarrow> string" where
  "errno_text ESRCH = ''not in table''"
| "errno_text EBUSY = ''entry in use''"
| "errno_text ENOBUFS = ''routing table overflow''"
| "errno_text ENETUNREACH = ''Network is unreachable''"
| "errno_text (Errno s) = s"

text \<open>
  An entry of the table that the kernel hands out. Its destination and gateway are internet addresses, or
  addresses that another function prints; its message has \<open>re_msglen\<close> bytes, of which the kernel takes
  \<open>re_rlen\<close>.
\<close>

datatype rt_addr = Inet nat "32 word" | Printed string

record rt_entry =
  re_flags :: "rt_flag set"
  re_family :: nat
  re_dst :: rt_addr
  re_gateway :: rt_addr
  re_msglen :: nat
  re_rlen :: int

text \<open>
  The result: the state with the messages that were written, and the line that is printed; the address
  printed after a second attempt is that of a variable which is never assigned.
\<close>

datatype rt_run = Routed rt_st string | Flushed "(nat \<times> rt_entry) list" string | Monitor | Other_family "string list"

definition newroute_text :: "string \<Rightarrow> rt_locals \<Rightarrow> rt_st \<Rightarrow> errno option \<Rightarrow> nat \<Rightarrow> string" where
  "newroute_text cmd l st err attempts =
     cmd @ '' '' @ (if ishost l then ''host'' else ''net'') @ '' '' @ dest l @
     (if gateway l \<noteq> [] then '': gateway '' @ gateway l @
        (if 1 < attempts \<and> err = None \<and> af st = AF_INET then '' (0.0.0.0)'' else []) else []) @
     (case err of None \<Rightarrow> [] | Some e \<Rightarrow> '': '' @ errno_text e) @ [nl]"

definition newroute :: "rt_env \<Rightarrow> nat \<Rightarrow> string list \<Rightarrow> rt_run outcome" where
  "newroute env u argv =
     (if u \<noteq> 0 then Fail (EX_NOPERM ''must be root to alter routing table'')
      else
        let cmd = hd argv; l = \<lparr>ishost = False, dest = [], gateway = [], hp = None, rt_flags = {RTF_STATIC}\<rparr>
        in bind_o (newroute_args env (tl argv) l rt_start) (\<lambda>r.
        case r of
          Elsewhere av \<Rightarrow> Ok (Other_family av)
        | Read l st \<Rightarrow>
            let l = (if forcehost st > 0 then l\<lparr>ishost := True\<rparr> else l);
                l = (if forcenet st > 0 then l\<lparr>ishost := False\<rparr> else l);
                flags = insert RTF_UP (rt_flags l) \<union> (if ishost l then {RTF_HOST} else {}) \<union>
                  (if iflag st = 0 then {RTF_GATEWAY} else {})
            in case attempt env (hd cmd) flags 1 l st of
                 (err, attempts, st) \<Rightarrow>
                   Ok (Routed st (if hd cmd = CHR ''g'' then [] else newroute_text cmd l st err attempts))))"

subsection \<open>flushroutes\<close>

definition dotted_text :: "32 word \<Rightarrow> nat \<Rightarrow> string" where
  "dotted_text i n = concat (map (\<lambda>k. (if k = 0 then [] else ''.'') @ dec (unat ((drop_bit (24 - 8 * k) i) AND 0xff))) [0..<n])"

text \<open>The domain of this host is cut off a host name.\<close>

definition cut_domain :: "string \<Rightarrow> string \<Rightarrow> string" where
  "cut_domain me h =
     (let after = (\<lambda>s. tl (dropWhile (\<lambda>c. c \<noteq> CHR ''.'') s)); domain = (if CHR ''.'' \<in> set me then after me else [])
      in if CHR ''.'' \<in> set h \<and> after h = domain then takeWhile (\<lambda>c. c \<noteq> CHR ''.'') h else h)"

definition routename :: "rt_env \<Rightarrow> rt_addr \<Rightarrow> string" where
  "routename env a =
     (case a of
        Printed s \<Rightarrow> s
      | Inet len i \<Rightarrow>
          if len = 0 then ''default''
          else snprintf 257
            (if i = 0 \<or> len < 4 then ''default''
             else case (if nflag env then None else host_of env i) of
               Some h \<Rightarrow> cut_domain (hostname env) h
             | None \<Rightarrow> dotted_text i 4))"

text \<open>
  The two loops of \<open>netname\<close>: the mask is widened until it covers the address, then it and the address
  are shifted down until its last bit is set. \<open>None\<close> is a loop that does not end.
\<close>

partial_function (option) widen :: "32 word \<Rightarrow> nat \<Rightarrow> 32 word \<Rightarrow> 32 word option" where
  "widen i subnetshift m =
     (if i AND NOT m = 0 then Some m else widen i subnetshift (signed_drop_bit subnetshift m))"

partial_function (option) narrow :: "32 word \<Rightarrow> 32 word \<Rightarrow> 32 word option" where
  "narrow m net = (if m AND 1 \<noteq> 0 then Some net else narrow (drop_bit 1 m) (drop_bit 1 net))"

definition network_number :: "32 word \<Rightarrow> 32 word option" where
  "network_number i =
     (let (m, subnetshift) =
        (if in_classa i then (0xff000000, 8) else if in_classb i then (0xffff0000, 8) else (0xffffff00, 4))
      in Option.bind (widen i subnetshift m) (\<lambda>m. narrow m (i AND m)))"

definition net_text :: "32 word \<Rightarrow> string" where
  "net_text i =
     (if i AND 0xffffff = 0 then dotted_text i 1 else if i AND 0xffff = 0 then dotted_text i 2
      else if i AND 0xff = 0 then dotted_text i 3 else dotted_text i 4)"

definition netname :: "rt_env \<Rightarrow> rt_addr \<Rightarrow> string option" where
  "netname env a =
     (case a of
        Printed s \<Rightarrow> Some s
      | Inet len i \<Rightarrow>
          if i = 0 then Some ''default''
          else if nflag env then Some (net_text i)
          else Option.bind (network_number i) (\<lambda>net.
            Some (case net_of env net of Some n \<Rightarrow> n | None \<Rightarrow> net_text i)))"

definition column :: "string \<Rightarrow> string" where
  "column s = take 20 s @ replicate (20 - length s) CHR '' ''"

text \<open>The entries that are deleted, with the number of the message, and the lines that are printed.\<close>

fun flush_loop :: "rt_env \<Rightarrow> nat \<Rightarrow> nat \<Rightarrow> rt_entry list \<Rightarrow> ((nat \<times> rt_entry) list \<times> string) option" where
  "flush_loop env fam seqno [] = Some ([], [])"
| "flush_loop env fam seqno (e # es) =
     (if RTF_GATEWAY \<notin> re_flags e \<or> fam \<noteq> 0 \<and> re_family e \<noteq> fam \<or> debugonly env then flush_loop env fam seqno es
      else if re_rlen e < int (re_msglen e) then
        Some ([(seqno, e)], ''got only '' @ dec_int (re_rlen e) @ '' for rlen'' @ [nl])
      else
        Option.bind (if qflag env then Some []
                     else Option.bind (if RTF_HOST \<in> re_flags e then Some (routename env (re_dst e)) else netname env (re_dst e))
                       (\<lambda>d. Some (column d @ '' '' @ column (routename env (re_gateway e)) @ '' done'' @ [nl]))) (\<lambda>line.
        Option.bind (flush_loop env fam (seqno + 1) es) (\<lambda>(del, t). Some ((seqno, e) # del, line @ t))))"

text \<open>The families that \<open>flush\<close> knows, with the numbers of the system's header.\<close>

definition flush_family :: "string \<Rightarrow> nat option" where
  "flush_family s = map_of [(''inet'', AF_INET), (''inet6'', 28), (''atalk'', 16), (''xns'', 6), (''link'', AF_LINK)] s"

definition flushroutes :: "rt_env \<Rightarrow> rt_entry list \<Rightarrow> string list \<Rightarrow> rt_run outcome" where
  "flushroutes env table argv =
     (if uid env \<noteq> 0 then Fail (EX_NOPERM ''must be root to alter routing table'')
      else
        let run = (\<lambda>fam. case flush_loop env fam 0 table of None \<Rightarrow> Undefined | Some (del, t) \<Rightarrow> Ok (Flushed del t))
        in case tl argv of
             [] \<Rightarrow> run 0
           | a # others \<Rightarrow>
               (case (if others = [] \<and> take 1 a = ''-'' then flush_family (tl a) else None) of
                  None \<Rightarrow> Fail (EX_USAGE a) | Some fam \<Rightarrow> run fam))"

subsection \<open>main\<close>

definition rt_letter :: "char \<Rightarrow> rt_env \<Rightarrow> rt_env option" where
  "rt_letter c env =
     (if c = CHR ''n'' then Some (env\<lparr>nflag := True\<rparr>) else if c = CHR ''q'' then Some (env\<lparr>qflag := True\<rparr>)
      else if c = CHR ''v'' then Some env else if c = CHR ''t'' then Some (env\<lparr>tflag := True\<rparr>)
      else if c = CHR ''d'' then Some (env\<lparr>debugonly := True\<rparr>) else None)"

fun rt_letters :: "string \<Rightarrow> rt_env \<Rightarrow> rt_env option" where
  "rt_letters [] env = Some env"
| "rt_letters (c # cs) env = Option.bind (rt_letter c env) (rt_letters cs)"

fun rt_options :: "string list \<Rightarrow> rt_env \<Rightarrow> (rt_env \<times> string list) option" where
  "rt_options [] env = Some (env, [])"
| "rt_options (a # av) env =
     (if take 2 a = ''--'' then Some (env, av)
      else if take 1 a = ''-'' \<and> a \<noteq> ''-'' then Option.bind (rt_letters (tl a) env) (rt_options av)
      else Some (env, a # av))"

definition route_main :: "rt_env \<Rightarrow> rt_entry list \<Rightarrow> string list \<Rightarrow> rt_run outcome" where
  "route_main env table argv =
     (case rt_options (tl argv) env of
        None \<Rightarrow> Fail (EX_USAGE [])
      | Some (env, av) \<Rightarrow>
          (case av of
             [] \<Rightarrow> Fail (EX_USAGE [])
           | a # _ \<Rightarrow>
               (case keyword a of
                  Some K_GET \<Rightarrow> newroute env 0 av
                | Some K_CHANGE \<Rightarrow> newroute env (uid env) av
                | Some K_ADD \<Rightarrow> newroute env (uid env) av
                | Some K_DELETE \<Rightarrow> newroute env (uid env) av
                | Some K_MONITOR \<Rightarrow> Ok Monitor
                | Some K_FLUSH \<Rightarrow> flushroutes env table av
                | _ \<Rightarrow> Fail (EX_USAGE a))))"

end
