(* ===== verification/RouteProps.thy ===== *)
theory RouteProps
  imports Route IpfwList "HOL-Library.Sublist"
begin

text \<open>
  What the commands of \<open>route\<close> do: the default gateway of a device, the text of a network read back, the
  table that is flushed, and the addresses that are tried.
\<close>

subsection \<open>Requests\<close>

lemma addr_bytes_ip_word:
  assumes "a < 256" "b < 256" "c < 256" "d < 256"
  shows "addr_bytes (ip_word a b c d) = map word_of_nat [a, b, c, d]"
proof -
  have "x AND 0xff = take_bit 8 x" for x :: "32 word" by (simp add: take_bit_eq_mask mask_eq_exp_minus_1)
  moreover have "(ucast x :: 8 word) = word_of_nat (unat (take_bit 8 x))" for x :: "32 word"
    by (intro bit_word_eqI) (simp add: bit_simps)
  ultimately have u: "(ucast x :: 8 word) = word_of_nat (unat (x AND 0xff))" for x :: "32 word" by simp
  have "octets (ip_word a b c d) = (a, b, c, d)" using assms by (rule octets_ip_word)
  then show ?thesis by (simp only: addr_bytes_def u octets_def prod.inject list.map)
qed

lemma dotted_word: "take 1 (dotted a b c d) \<noteq> ''-''" "dotted a b c d \<noteq> ''default''" "dotted a b c d \<noteq> []"
  using dec_no_sign(1) [of a "''.'' @ dec b @ ''.'' @ dec c @ ''.'' @ dec d"] isdigit_hd_dec [of a]
  by (auto simp: dotted_def isdigit_def hd_append dest: arg_cong [where f = hd])

lemma ip_word_all:
  assumes "a < 256" "b < 256" "c < 256" "d < 256"
  shows "ip_word a b c d = - 1 \<longleftrightarrow> (a, b, c, d) = (255, 255, 255, 255)"
proof
  assume "ip_word a b c d = - 1"
  then have "octets (- 1) = (a, b, c, d)" using octets_ip_word [OF assms] by simp
  moreover have "octets (- 1) = (255, 255, 255, 255)" by code_simp
  ultimately show "(a, b, c, d) = (255, 255, 255, 255)" by simp
qed (simp add: ip_word_def)

lemma addrs_set_sin [simp]: "addrs (set_sin w st) = insert w (addrs st)" "iflag (set_sin w st) = iflag st"
  by (simp_all add: set_sin_def set_addr_def)

lemma getaddr_default: "getaddr env w ''default'' h l st = Ok (False, l,
    let st = set_sin w (st\<lparr>af := AF_INET\<rparr>)
    in if w = RTA_DST then set_sin RTA_NETMASK (st\<lparr>forcenet := forcenet st + 1\<rparr>) else st)"
  by (simp add: getaddr_def Let_def)

text \<open>A gateway in numbers is its address, and no host entry is left.\<close>

lemma getaddr_gateway:
  assumes "endpoint_ok (Host a b c d)" and "(a, b, c, d) \<noteq> (255, 255, 255, 255)"
  shows "getaddr env RTA_GATEWAY (dotted a b c d) True l st = Ok (inet_lnaof (ip_word a b c d) \<noteq> 0, l\<lparr>hp := None\<rparr>,
    set_addr RTA_GATEWAY (ip_word a b c d) (set_sin RTA_GATEWAY (st\<lparr>af := AF_INET\<rparr>)))"
proof -
  have "inet_addr (dotted a b c d) = Some (ip_word a b c d)"
    using assms inet_aton_dotted [of a b c d] ip_word_all [of a b c d] by (simp add: inet_addr_def)
  then show ?thesis
    using dotted_word(2) by (simp add: getaddr_def getaddr_name_def Let_def)
qed

text \<open>The message for a default route: the whole of the destination, the gateway, and an empty mask.\<close>

definition default_msg :: "nat \<Rightarrow> nat \<Rightarrow> nat \<Rightarrow> nat \<Rightarrow> rt_message" where
  "default_msg a b c d = \<lparr>rtm_type = RTM_ADD, rtm_flags = {RTF_UP, RTF_GATEWAY, RTF_STATIC}, rtm_seq = 1,
     rtm_addrs = {RTA_DST, RTA_GATEWAY, RTA_NETMASK}, rtm_metrics = (\<lambda>_. 0), rtm_inits = {}, rtm_locks = {},
     rtm_space = [16, 2, 0, 0, 0, 0, 0, 0, 0, 0, 0, 0, 0, 0, 0, 0] @
       [16, 2, 0, 0, word_of_nat a, word_of_nat b, word_of_nat c, word_of_nat d, 0, 0, 0, 0, 0, 0, 0, 0] @ [2, 2, 0, 0]\<rparr>"

definition routed :: "rt_run outcome \<Rightarrow> (rt_message list \<times> string) option" where
  "routed r = (case r of Ok (Routed st t) \<Rightarrow> Some (messages st, t) | _ \<Rightarrow> None)"

lemma key_add: "keyword ''add'' = Some K_ADD"
  by code_simp

text \<open>
  C0. The default gateway: \<open>route add default\<close> with an address in numbers writes one message, which asks for
  the route to any destination through exactly this address, and prints what the kernel has answered.
\<close>

theorem default_route_requested:
  assumes "endpoint_ok (Host a b c d)" and "(a, b, c, d) \<noteq> (255, 255, 255, 255)"
    and "uid env = 0" and "\<not> debugonly env" and "\<not> tflag env"
  shows "routed (route_main env table [''/sbin/route'', ''add'', ''default'', dotted a b c d]) =
    Some ([default_msg a b c d], ''add net default: gateway '' @ dotted a b c d @
      (case rt_answer env (default_msg a b c d) of None \<Rightarrow> [] | Some e \<Rightarrow> '': '' @ errno_text e) @ [nl])"
proof -
  let ?l = "\<lparr>ishost = False, dest = [], gateway = [], hp = None, rt_flags = {RTF_STATIC}\<rparr>"
  let ?l' = "\<lparr>ishost = False, dest = ''default'', gateway = dotted a b c d, hp = None, rt_flags = {RTF_STATIC}\<rparr>"
  let ?st = "set_addr RTA_GATEWAY (ip_word a b c d) (set_sin RTA_GATEWAY (set_sin RTA_NETMASK (set_sin RTA_DST
    (rt_start\<lparr>af := AF_INET\<rparr>)\<lparr>forcenet := 1\<rparr>)))"
  have args: "newroute_args env [''default'', dotted a b c d] ?l rt_start = Ok (Read ?l' ?st)"
    using getaddr_gateway [OF assms(1,2)] dotted_word(1)
    by (simp add: elsewhere_def next_word_def getaddr_default rt_start_def set_sin_def set_addr_def Let_def)
  have z: "addr_bytes 0 = [0, 0, 0, 0]" "replicate 8 (0 :: 8 word) = [0, 0, 0, 0, 0, 0, 0, 0]"
    "replicate 4 (0 :: 8 word) = [0, 0, 0, 0]"
    by code_simp+
  moreover have "{RTA_GATEWAY, RTA_NETMASK, RTA_DST} = {RTA_DST, RTA_GATEWAY, RTA_NETMASK}" by blast
  moreover from z this have "rtmsg env CHR ''a'' {RTF_UP, RTF_GATEWAY, RTF_STATIC} ?st =
      (rt_answer env (default_msg a b c d), (mask_addr (?st\<lparr>seq := 1\<rparr>))\<lparr>messages := [default_msg a b c d]\<rparr>)"
    using assms(1,4,5)
    by (simp add: rtmsg_def rt_start_def set_sin_def set_addr_def Let_def default_msg_def mask_addr_def next_addr_def
        sin_bytes_def no_sin_def AF_INET_def used_length_def roundup_def addr_bytes_ip_word)
  ultimately have "attempt env CHR ''a'' {RTF_UP, RTF_GATEWAY, RTF_STATIC} 1 ?l' ?st =
      (rt_answer env (default_msg a b c d), 1, (mask_addr (?st\<lparr>seq := 1\<rparr>))\<lparr>messages := [default_msg a b c d]\<rparr>)"
    by (simp add: attempt.simps split: option.split)
  moreover have "forcehost ?st = 0" "forcenet ?st = 1" "iflag ?st = 0" by (simp_all add: set_addr_def set_sin_def rt_start_def)
  ultimately show ?thesis
    using args assms(3) dotted_word(3) [of a b c d]
    by (simp add: route_main_def key_add newroute_def newroute_text_def routed_def del: newroute_args.simps split: option.split)
qed

subsection \<open>The table\<close>

lemma not_signed_drop_bit:
  fixes m :: "32 word"
  assumes "bit m 31"
  shows "NOT (signed_drop_bit k m) = drop_bit k (NOT m)" "bit (signed_drop_bit k m) 31"
proof -
  show "NOT (signed_drop_bit k m) = drop_bit k (NOT m)"
  proof (rule bit_word_eqI)
    fix n assume "n < LENGTH(32)"
    moreover have "k + n = 31" if "31 - k \<le> n" "k + n < 32" using that by simp
    ultimately show "bit (NOT (signed_drop_bit k m)) n = bit (drop_bit k (NOT m)) n"
      using assms by (auto simp: bit_simps)
  qed
  show "bit (signed_drop_bit k m) 31" using assms by (cases k) (simp_all add: bit_simps)
qed

lemma widen_returns: "bit m 31 \<Longrightarrow> 0 < k \<Longrightarrow> \<exists>m'. widen i k m = Some m' \<and> bit m' 31"
proof (induction "unat (NOT m)" arbitrary: m rule: less_induct)
  case less
  show ?case
  proof (cases "i AND NOT m = 0")
    case False
    then have "0 < unat (NOT m)" by (auto simp: unat_gt_0)
    moreover have "1 < (2 :: nat) ^ k" using less(3) by (intro one_less_power) simp_all
    ultimately have "unat (NOT m) div 2 ^ k < unat (NOT m)" by (intro div_less_dividend)
    moreover have "unat (NOT (signed_drop_bit k m)) = drop_bit k (unat (NOT m))"
      by (simp only: not_signed_drop_bit(1) [OF less(2)] unat_drop_bit_eq)
    ultimately have "unat (NOT (signed_drop_bit k m)) < unat (NOT m)"
      using drop_bit_eq_div [of k "unat (NOT m)"] by simp
    then show ?thesis
      using less(1) [OF _ not_signed_drop_bit(2) [OF less(2)] less(3)] False by (simp add: widen.simps [of i k m])
  qed (use less in \<open>simp add: widen.simps [of i k m]\<close>)
qed

lemma narrow_returns: "m \<noteq> 0 \<Longrightarrow> \<exists>n. narrow m net = Some n"
proof (induction "unat m" arbitrary: m net rule: less_induct)
  case less
  show ?case
  proof (cases "m AND 1 = 0")
    case True
    have "unat (drop_bit 1 m) < unat m" using less(2) by (simp add: drop_bit_eq_div unat_div_distrib unat_gt_0)
    moreover have "take_bit 1 m = 0" using True by (simp add: take_bit_eq_mask mask_eq_exp_minus_1)
    then have "drop_bit 1 m \<noteq> 0" using less(2) bits_ident [of 1 m] by auto
    ultimately show ?thesis using less(1) True by (simp add: narrow.simps [of m])
  qed (simp add: narrow.simps [of m])
qed

lemma netname_returns: "\<exists>s. netname env a = Some s"
proof (cases a)
  case (Inet len i)
  have "\<exists>n. Option.bind (widen i k m) (\<lambda>m. narrow m (i AND m)) = Some n" if "bit m 31" "0 < k" for k m
  proof -
    obtain m' where m': "widen i k m = Some m'" "bit m' 31" using widen_returns [OF \<open>bit m 31\<close> \<open>0 < k\<close>, of i] by blast
    then have "m' \<noteq> 0" by auto
    then show ?thesis using narrow_returns [of m'] m'(1) by auto
  qed
  moreover have "bit (0xff000000 :: 32 word) 31" "bit (0xffff0000 :: 32 word) 31" "bit (0xffffff00 :: 32 word) 31" by simp_all
  ultimately have "\<exists>n. network_number i = Some n" by (simp add: network_number_def)
  then show ?thesis using Inet by (auto simp: netname_def)
qed (simp add: netname_def)

text \<open>What \<open>flush\<close> is to delete.\<close>

definition flush_wants :: "rt_env \<Rightarrow> nat \<Rightarrow> rt_entry \<Rightarrow> bool" where
  "flush_wants env fam e \<longleftrightarrow> RTF_GATEWAY \<in> re_flags e \<and> (fam = 0 \<or> re_family e = fam) \<and> \<not> debugonly env"

definition all_written :: "rt_entry list \<Rightarrow> bool" where
  "all_written es \<longleftrightarrow> (\<forall>e \<in> set es. int (re_msglen e) \<le> re_rlen e)"

lemma flush_loop_deletes:
  "\<exists>del t. flush_loop env fam n table = Some (del, t) \<and> map fst del = [n..<n + length del] \<and>
     prefix (map snd del) (filter (flush_wants env fam) table) \<and>
     (all_written (filter (flush_wants env fam) table) \<longrightarrow> map snd del = filter (flush_wants env fam) table)"
proof (induction table arbitrary: n)
  case (Cons e es)
  obtain del t where del: "flush_loop env fam (Suc n) es = Some (del, t)" "map fst del = [Suc n..<Suc n + length del]"
    "prefix (map snd del) (filter (flush_wants env fam) es)"
    "all_written (filter (flush_wants env fam) es) \<longrightarrow> map snd del = filter (flush_wants env fam) es"
    using Cons.IH [of "Suc n"] by blast
  obtain d where d: "netname env (re_dst e) = Some d" using netname_returns by blast
  show ?case
  proof (cases "flush_wants env fam e")
    case False
    then show ?thesis using Cons.IH [of n] by (auto simp: flush_wants_def)
  next
    case True
    show ?thesis
    proof (cases "re_rlen e < int (re_msglen e)")
      case short: True
      then show ?thesis using True by (auto simp: flush_wants_def all_written_def)
    next
      case False
      then obtain t' where t': "flush_loop env fam n (e # es) = Some ((n, e) # del, t')"
        using True del(1) d by (cases "qflag env"; cases "RTF_HOST \<in> re_flags e") (auto simp: flush_wants_def)
      have "n # [Suc n..<Suc n + length del] = [n..<n + length ((n, e) # del)]" by (simp add: upt_conv_Cons del: upt_Suc)
      then show ?thesis using True del(2-4) by (simp add: t' all_written_def del: flush_loop.simps upt_Suc)
    qed
  qed
qed simp

text \<open>
  C20. Flushing the table is safe and complete: only routes through a gateway, of the family that was asked
  for, are deleted, in the order of the table and each once; unless the kernel refuses one, all of them.
  It ends, as the loops that look for the number of a network do.
\<close>

theorem flush_deletes:
  assumes "uid env = 0" and "args = [] \<and> fam = 0 \<or> (\<exists>f. args = [CHR ''-'' # f] \<and> flush_family f = Some fam)"
  shows "\<exists>del t. flushroutes env table (''flush'' # args) = Ok (Flushed del t) \<and> map fst del = [0..<length del] \<and>
    prefix (map snd del) (filter (flush_wants env fam) table) \<and>
    (all_written (filter (flush_wants env fam) table) \<longrightarrow> map snd del = filter (flush_wants env fam) table)"
  using flush_loop_deletes [of env fam 0 table] assms by (auto simp: flushroutes_def)

subsection \<open>Attempts\<close>

definition unreached :: "errno option \<Rightarrow> bool" where
  "unreached r \<longleftrightarrow> r = Some ENETUNREACH \<or> r = Some ESRCH"

lemma rtmsg_sends:
  assumes "\<not> debugonly env" and "\<not> tflag env" and "rtmsg env cmd flags st = (r, st')"
  shows "\<exists>m. messages st' = messages st @ [m] \<and> r = rt_answer env m" "so st' RTA_GATEWAY = so st RTA_GATEWAY" "af st' = af st"
  using assms by (auto simp: rtmsg_def Let_def mask_addr_def split: if_splits)

text \<open>
  The addresses of the gateway are tried one after the other: a message is sent for each until one is
  answered otherwise than by an unreachable network, the last answer is the result, and giving up with that
  error means that every address has been tried.
\<close>

theorem gateway_attempts:
  assumes "\<not> debugonly env" and "\<not> tflag env" and "af st = AF_INET" and "gateway l \<noteq> []" and "hp l = Some (a # others)"
    and "sin_addr (so st RTA_GATEWAY) = a" and "attempt env cmd flags k l st = (r, n, st')"
  shows "\<exists>ms. messages st' = messages st @ ms \<and> ms \<noteq> [] \<and> n + 1 = k + length ms \<and> r = rt_answer env (last ms) \<and>
    (\<forall>m \<in> set (butlast ms). unreached (rt_answer env m)) \<and> length ms \<le> length (a # others) \<and>
    (unreached r \<longrightarrow> length ms = length (a # others)) \<and>
    sin_addr (so st' RTA_GATEWAY) = (a # others) ! (length ms - 1)"
  using assms(3-7)
proof (induction others arbitrary: a k l st)
  case Nil
  obtain r1 st1 where r1: "rtmsg env cmd flags st = (r1, st1)" by force
  from Nil(5) show ?case
    using Nil(3,4) rtmsg_sends [OF assms(1,2) r1] 
    by (auto simp: attempt.simps [of env cmd flags k l st] r1 unreached_def split: option.splits if_splits)
next
  case (Cons b others)
  obtain r1 st1 where r1: "rtmsg env cmd flags st = (r1, st1)" by force
  obtain m where m: "messages st1 = messages st @ [m]" "r1 = rt_answer env m" using rtmsg_sends(1) [OF assms(1,2) r1] by blast
  note rest = rtmsg_sends(2,3) [OF assms(1,2) r1]
  show ?case
  proof (cases "unreached r1")
    case False
    then show ?thesis
      using Cons.prems m rest
      by (intro exI [of _ "[m]"]) (auto simp: attempt.simps [of env cmd flags k l st] r1 unreached_def split: option.splits if_splits)
  next
    case True
    let ?l = "l\<lparr>hp := Some (b # others)\<rparr>" and ?st = "set_addr RTA_GATEWAY b st1"
    have "attempt env cmd flags (k + 1) ?l ?st = (r, n, st')"
      using Cons.prems True rest by (auto simp: attempt.simps [of env cmd flags k l st] r1 unreached_def split: option.splits if_splits)
    from Cons.IH [OF _ _ _ _ this] obtain ms where ms: "messages st' = messages ?st @ ms" "ms \<noteq> []" "n + 1 = k + 1 + length ms"
      "r = rt_answer env (last ms)" "\<forall>m \<in> set (butlast ms). unreached (rt_answer env m)" "length ms \<le> length (b # others)"
      "unreached r \<longrightarrow> length ms = length (b # others)" "sin_addr (so st' RTA_GATEWAY) = (b # others) ! (length ms - 1)"
      using Cons.prems rest by (auto simp: set_addr_def)
    then show ?thesis
      using True m by (intro exI [of _ "m # ms"]) (auto simp: set_addr_def nth_Cons split: nat.split)
  qed
qed

subsection \<open>Networks\<close>

lemma network_word_step:
  assumes "p < 256"
  shows "push_bit 8 v OR (word_of_nat p AND 0xff) = v * 256 + (word_of_nat p :: 32 word)"
proof -
  have "word_of_nat p AND (0xff :: 32 word) = take_bit 8 (word_of_nat p)"
    by (simp add: take_bit_eq_mask mask_eq_exp_minus_1)
  also have "\<dots> = word_of_nat p" using assms by (simp flip: of_nat_take_bit add: take_bit_nat_eq_self)
  finally have p: "word_of_nat p AND (0xff :: 32 word) = word_of_nat p" "take_bit 8 (word_of_nat p :: 32 word) = word_of_nat p"
    using \<open>take_bit 8 (word_of_nat p) = word_of_nat p\<close> by simp_all
  have "push_bit 8 v + (word_of_nat p :: 32 word) = push_bit 8 v OR word_of_nat p"
    by (rule disjunctive_add) (metis bit_push_bit_iff bit_take_bit_iff not_le p(2))
  then show ?thesis by (simp add: p(1) push_bit_eq_mult mult.commute)
qed

lemma network_word_bytes:
  assumes "a < 256" "b < 256" "c < 256" "d < 256"
  shows "network_word [a] = word_of_nat a" "network_word [a, b] = word_of_nat (a * 2 ^ 8 + b)"
    "network_word [a, b, c] = word_of_nat (a * 2 ^ 16 + b * 2 ^ 8 + c)" "network_word [a, b, c, d] = ip_word a b c d"
proof -
  note step = network_word_step [OF assms(1)] network_word_step [OF assms(2)] network_word_step [OF assms(3)]
    network_word_step [OF assms(4)]
  show "network_word [a] = word_of_nat a" "network_word [a, b] = word_of_nat (a * 2 ^ 8 + b)"
    "network_word [a, b, c] = word_of_nat (a * 2 ^ 16 + b * 2 ^ 8 + c)" "network_word [a, b, c, d] = ip_word a b c d"
    unfolding network_word_def foldl.simps step by (simp_all add: ip_word_def)
qed

lemma aton_parts_decs:
  assumes "a < 256" "b < 256" "c < 256" "d < 256"
  shows "aton_parts 3 (dec a) = Some ([a], [])" "aton_parts 3 (dec a @ ''.'' @ dec b) = Some ([a, b], [])"
    "aton_parts 3 (dec a @ ''.'' @ dec b @ ''.'' @ dec c) = Some ([a, b, c], [])"
    "aton_parts 3 (dotted a b c d) = Some ([a, b, c, d], [])"
proof -
  have lt: "a < 2 ^ 32" "b < 2 ^ 32" "c < 2 ^ 32" "d < 2 ^ 32" using assms by simp_all
  note n = aton_number_dec [OF lt(1)] aton_number_dec [OF lt(2)] aton_number_dec [OF lt(3)] aton_number_dec [OF lt(4)]
    aton_number_dec [OF lt(1), of "[]", simplified] aton_number_dec [OF lt(2), of "[]", simplified]
    aton_number_dec [OF lt(3), of "[]", simplified] aton_number_dec [OF lt(4), of "[]", simplified]
  show "aton_parts 3 (dec a) = Some ([a], [])" "aton_parts 3 (dec a @ ''.'' @ dec b) = Some ([a, b], [])"
    "aton_parts 3 (dec a @ ''.'' @ dec b @ ''.'' @ dec c) = Some ([a, b, c], [])"
    "aton_parts 3 (dotted a b c d) = Some ([a, b, c, d], [])"
    by (simp_all add: dotted_def eval_nat_numeral n)
qed

lemma block_mod: "y < n \<Longrightarrow> (x * n + y) mod n = (y :: nat)"
  by simp

lemma low_bits:
  assumes "octets i = (a, b, c, d)"
  shows "i AND 0xff = 0 \<longleftrightarrow> d = 0" "i AND 0xffff = 0 \<longleftrightarrow> c = 0 \<and> d = 0"
    "i AND 0xffffff = 0 \<longleftrightarrow> b = 0 \<and> c = 0 \<and> d = 0"
proof -
  note o = octets_word [OF assms]
  have i: "unat i = a * 2 ^ 24 + b * 2 ^ 16 + c * 2 ^ 8 + d" using unat_ip_word [OF o(1-4)] o(5) by simp
  have u: "take_bit k i = 0 \<longleftrightarrow> unat i mod 2 ^ k = 0" for k
  proof -
    have "unat (take_bit k i) = take_bit k (unat i)" by (simp only: unsigned_take_bit_eq)
    then show ?thesis using unat_eq_0 [of "take_bit k i"] by (simp add: take_bit_eq_mod)
  qed
  have e: "unat i = (a * 2 ^ 16 + b * 2 ^ 8 + c) * 2 ^ 8 + d" "unat i = (a * 2 ^ 8 + b) * 2 ^ 16 + (c * 2 ^ 8 + d)"
    "unat i = a * 2 ^ 24 + (b * 2 ^ 16 + c * 2 ^ 8 + d)"
    by (simp_all add: i)
  have m: "unat i mod 2 ^ 8 = d" "unat i mod 2 ^ 16 = c * 2 ^ 8 + d" "unat i mod 2 ^ 24 = b * 2 ^ 16 + c * 2 ^ 8 + d"
    subgoal unfolding e(1) using o(4) by (intro block_mod) simp
    subgoal unfolding e(2) using o(3,4) by (intro block_mod) simp
    subgoal unfolding e(3) using o(2-4) by (intro block_mod) simp
    done
  have "i AND 0xff = take_bit 8 i" "i AND 0xffff = take_bit 16 i" "i AND 0xffffff = take_bit 24 i"
    by (simp_all add: take_bit_eq_mask mask_eq_exp_minus_1)
  then show "i AND 0xff = 0 \<longleftrightarrow> d = 0" "i AND 0xffff = 0 \<longleftrightarrow> c = 0 \<and> d = 0"
    "i AND 0xffffff = 0 \<longleftrightarrow> b = 0 \<and> c = 0 \<and> d = 0"
    using m u o(2-4) by simp_all
qed

lemma dotted_text_octets:
  assumes "octets i = (a, b, c, d)"
  shows "dotted_text i 1 = dec a" "dotted_text i 2 = dec a @ ''.'' @ dec b"
    "dotted_text i 3 = dec a @ ''.'' @ dec b @ ''.'' @ dec c" "dotted_text i 4 = dotted a b c d"
  using assms by (simp_all add: dotted_text_def octets_def dotted_def upt_rec)

lemma word_below: "n < 2 ^ 32 \<Longrightarrow> word_of_nat n < (k :: 32 word) \<longleftrightarrow> n < unat k"
  by (simp add: word_less_nat_alt unat_of_nat)

lemma class_net_nat:
  assumes "0 < n" "n < 2 ^ 24"
  shows "class_net (word_of_nat n) = (if n < 128 then (word_of_nat (n * 2 ^ 24), 0xff000000)
    else if n < 65536 then (word_of_nat (n * 2 ^ 16), 0xffff0000) else (word_of_nat (n * 2 ^ 8), 0xffffff00))"
proof -
  have lt: "n < 2 ^ 32" using assms(2) by simp
  have "word_of_nat n < (128 :: 32 word) \<longleftrightarrow> n < 128" "word_of_nat n < (65536 :: 32 word) \<longleftrightarrow> n < 65536"
    "word_of_nat n < (16777216 :: 32 word)"
    using assms(2) by (simp_all add: word_below [OF lt])
  moreover have "word_of_nat n \<noteq> (0 :: 32 word)"
    using assms(1) lt by (auto simp: word_of_nat_eq_0_iff dest: dvd_imp_le)
  ultimately show ?thesis
    unfolding class_net_def by (simp add: push_bit_eq_mult mult.commute)
qed

lemma class_net_word:
  assumes "0 < a" "a < 256" "b < 256" "c < 256" "d < 256"
  shows "a < 128 \<Longrightarrow> class_net (word_of_nat a) = (ip_word a 0 0 0, 0xff000000)"
    "class_net (word_of_nat (a * 2 ^ 8 + b)) = (ip_word a b 0 0, 0xffff0000)"
    "class_net (word_of_nat (a * 2 ^ 16 + b * 2 ^ 8 + c)) = (ip_word a b c 0, 0xffffff00)"
    "d \<noteq> 0 \<Longrightarrow> class_net (ip_word a b c d) = (ip_word a b c d, - 1)"
proof -
  show "a < 128 \<Longrightarrow> class_net (word_of_nat a) = (ip_word a 0 0 0, 0xff000000)"
    using assms class_net_nat [of a] by (simp add: ip_word_def)
  have "128 \<le> a * 2 ^ 8 + b" "a * 2 ^ 8 + b < 65536" using assms by simp_all
  then show "class_net (word_of_nat (a * 2 ^ 8 + b)) = (ip_word a b 0 0, 0xffff0000)"
    using assms(1) class_net_nat [of "a * 2 ^ 8 + b"] by (simp add: ip_word_def algebra_simps)
  have "65536 \<le> a * 2 ^ 16 + b * 2 ^ 8 + c" "a * 2 ^ 16 + b * 2 ^ 8 + c < 2 ^ 24" using assms by simp_all
  then show "class_net (word_of_nat (a * 2 ^ 16 + b * 2 ^ 8 + c)) = (ip_word a b c 0, 0xffffff00)"
    using assms(1) class_net_nat [of "a * 2 ^ 16 + b * 2 ^ 8 + c"] by (simp add: ip_word_def algebra_simps)
  define n where "n = a * 2 ^ 24 + b * 2 ^ 16 + c * 2 ^ 8 + d"
  have n: "n < 2 ^ 32" "16777216 \<le> n" "word_of_nat n = ip_word a b c d" using assms by (simp_all add: n_def ip_word_def)
  have k: "ip_word a b c d < k \<longleftrightarrow> n < unat k" for k
    using word_below [OF n(1), of k] unfolding n(3) .
  have "\<not> ip_word a b c d < 16777216" "\<not> ip_word a b c d < 65536" "\<not> ip_word a b c d < 128"
    using n(2) by (simp_all add: k)
  moreover from this(3) have "ip_word a b c d \<noteq> 0" by auto
  ultimately show "class_net (ip_word a b c d) = (ip_word a b c d, - 1)" if "d \<noteq> 0"
    using that by (simp only: class_net_def low_bits [OF octets_ip_word [OF assms(2-5)]] simp_thms if_False)
qed

text \<open>A network in numbers is completed by its class.\<close>

lemma getaddr_network:
  assumes "aton_parts 3 t = Some (vs, [])" and "CHR ''/'' \<notin> set t" and "t \<noteq> ''default''" and "network_word vs \<noteq> - 1"
    and "network_word vs \<noteq> 0" and "0 < forcenet st" and "class_net (network_word vs) = (i, m)"
  shows "\<exists>l' st'. getaddr env RTA_DST t h l st = Ok (False, l', st') \<and> sin_addr (so st' RTA_DST) = i \<and>
    sin_addr (so st' RTA_NETMASK) = m"
proof -
  have "inet_network t = Some (network_word vs)" using assms(1,4) by (simp add: inet_network_def)
  moreover have "slash t = None" using assms(2) by (simp add: slash_def)
  ultimately show ?thesis
    using assms(3,5-7) by (simp add: getaddr_def getaddr_name_def inet_makenetandmask_def set_sin_def Let_def)
qed

lemma digits_dots:
  assumes "t \<in> {dec a, dec a @ ''.'' @ dec b, dec a @ ''.'' @ dec b @ ''.'' @ dec c, dotted a b c d}"
  shows "CHR ''/'' \<notin> set t" "t \<noteq> ''default''"
proof -
  have "\<forall>c \<in> set t. isdigit c \<or> c = CHR ''.''" using assms by (auto simp: dotted_def dest: dec_digits)
  then show "CHR ''/'' \<notin> set t" "t \<noteq> ''default''" by (auto simp: isdigit_def)
qed

lemma small_word: "0 < n \<Longrightarrow> n < 2 ^ 24 \<Longrightarrow> word_of_nat n \<noteq> (0 :: 32 word) \<and> word_of_nat n \<noteq> (- 1 :: 32 word)"
proof -
  assume n: "0 < n" "n < 2 ^ 24"
  then have "unat (word_of_nat n :: 32 word) = n" by (simp add: unat_of_nat)
  moreover have "unat (0 :: 32 word) = 0" "unat (- 1 :: 32 word) = 2 ^ 32 - 1" by (simp_all add: unsigned_minus_1_eq_mask mask_eq_exp_minus_1)
  ultimately show ?thesis using n by auto
qed

definition class_mask :: "32 word \<Rightarrow> 32 word" where
  "class_mask i = (if i AND 0xffffff = 0 then 0xff000000 else if i AND 0xffff = 0 then 0xffff0000
     else if i AND 0xff = 0 then 0xffffff00 else - 1)"

text \<open>
  C35. What \<open>netname\<close> prints is read back: the text of a network, cut behind its last byte that is not zero,
  is read by \<open>route add -net\<close> as this network, with the mask of as many bytes. (A network of one byte from
  128 on is not: its number is taken for one of two bytes.)
\<close>

theorem network_read_back:
  assumes "0x01000000 \<le> i" and "i \<noteq> - 1" and "i AND 0xffffff = 0 \<Longrightarrow> i < 0x80000000" and "0 < forcenet st"
  shows "\<exists>l' st'. getaddr env RTA_DST (net_text i) h l st = Ok (False, l', st') \<and> sin_addr (so st' RTA_DST) = i \<and>
    sin_addr (so st' RTA_NETMASK) = class_mask i"
proof -
  obtain a b c d where o: "octets i = (a, b, c, d)" by (cases "octets i")
  note lt = octets_word [OF o]
  note w = network_word_bytes [OF lt(1-4)] and parts = aton_parts_decs [OF lt(1-4)] and low = low_bits [OF o]
  note dt = dotted_text_octets [OF o]
  have u: "unat i = a * 2 ^ 24 + b * 2 ^ 16 + c * 2 ^ 8 + d" using unat_ip_word [OF lt(1-4)] lt(5) by simp
  have a: "0 < a" using assms(1) lt(2-4) u by (cases a) (simp_all add: word_le_nat_alt)
  note cn = class_net_word [OF a lt(1-4)]
  have fin: ?thesis if "aton_parts 3 t = Some (vs, [])" "t \<in> {dec a, dec a @ ''.'' @ dec b, dec a @ ''.'' @ dec b @ ''.'' @ dec c, dotted a b c d}"
    "net_text i = t" "network_word vs \<noteq> 0 \<and> network_word vs \<noteq> - 1" "class_net (network_word vs) = (i, class_mask i)" for t vs
    using getaddr_network [OF that(1) digits_dots [OF that(2)] _ _ assms(4) that(5)] that(3,4) by simp
  consider "b = 0" "c = 0" "d = 0" | "b \<noteq> 0" "c = 0" "d = 0" | "c \<noteq> 0" "d = 0" | "d \<noteq> 0" by auto
  then show ?thesis
  proof cases
    case 1
    have "a < 128" using assms(3) 1 low(3) u by (simp add: word_less_nat_alt)
    moreover have "net_text i = dec a" "class_mask i = 0xff000000" unfolding net_text_def class_mask_def low dt using 1 by simp_all
    ultimately show ?thesis using fin [OF parts(1)] small_word [of a] a cn(1) w(1) 1 lt(1,5) by simp
  next
    case 2
    have "net_text i = dec a @ ''.'' @ dec b" "class_mask i = 0xffff0000" unfolding net_text_def class_mask_def low dt using 2 by simp_all
    moreover have "a * 2 ^ 8 + b < 2 ^ 24" using lt(1,2) by simp
    ultimately show ?thesis using fin [OF parts(2)] small_word [of "a * 2 ^ 8 + b"] a cn(2) 2 lt(5) unfolding w by simp
  next
    case 3
    have "net_text i = dec a @ ''.'' @ dec b @ ''.'' @ dec c" "class_mask i = 0xffffff00" unfolding net_text_def class_mask_def low dt using 3 by simp_all
    moreover have "a * 2 ^ 16 + b * 2 ^ 8 + c < 2 ^ 24" using lt(1-3) by simp
    ultimately show ?thesis using fin [OF parts(3)] small_word [of "a * 2 ^ 16 + b * 2 ^ 8 + c"] a cn(3) 3 lt(5) unfolding w by simp
  next
    case 4
    have "net_text i = dotted a b c d" "class_mask i = - 1" unfolding net_text_def class_mask_def low dt using 4 by simp_all
    moreover have "i \<noteq> 0" using assms(1) by auto
    ultimately show ?thesis using fin [OF parts(4)] cn(4) 4 lt(5) assms(2) unfolding w by simp
  qed
qed

subsection \<open>Trying it\<close>

definition rt_calm :: rt_env where
  "rt_calm = \<lparr>nflag = False, qflag = True, tflag = False, debugonly = False, rt_hosts = (\<lambda>_. None), rt_nets = (\<lambda>_. None),
     host_of = (\<lambda>_. None), net_of = (\<lambda>_. None), hostname = ''closed'', uid = 0, rt_answer = (\<lambda>_. None)\<rparr>"

theorem default_route_requested_witness:
  "routed (route_main rt_calm [] [''/sbin/route'', ''add'', ''default'', dotted 10 0 0 254]) =
    Some ([default_msg 10 0 0 254], ''add net default: gateway '' @ dotted 10 0 0 254 @ [nl])"
  using default_route_requested [of 10 0 0 254 rt_calm "[]"] by (simp add: rt_calm_def)

definition gw_entry :: "rt_flag set \<Rightarrow> rt_entry" where
  "gw_entry fs = \<lparr>re_flags = fs, re_family = AF_INET, re_dst = Inet 16 0x0A000000, re_gateway = Inet 16 0x0A000001,
     re_msglen = 100, re_rlen = 100\<rparr>"

theorem flush_deletes_witness:
  "\<exists>del t. flushroutes rt_calm [gw_entry {RTF_UP}, gw_entry {RTF_UP, RTF_GATEWAY}] [''flush'', ''-inet''] = Ok (Flushed del t) \<and>
    map snd del = [gw_entry {RTF_UP, RTF_GATEWAY}]"
proof -
  have w: "filter (flush_wants rt_calm AF_INET) [gw_entry {RTF_UP}, gw_entry {RTF_UP, RTF_GATEWAY}] = [gw_entry {RTF_UP, RTF_GATEWAY}]"
    by (simp add: flush_wants_def gw_entry_def rt_calm_def)
  have "uid rt_calm = 0" "flush_family ''inet'' = Some AF_INET" "all_written [gw_entry {RTF_UP, RTF_GATEWAY}]"
    by (simp_all add: rt_calm_def flush_family_def all_written_def gw_entry_def)
  then show ?thesis
    using flush_deletes [of rt_calm "[''-inet'']" AF_INET "[gw_entry {RTF_UP}, gw_entry {RTF_UP, RTF_GATEWAY}]"] unfolding w by auto
qed

text \<open>A kernel that reaches no network: both addresses of the gateway are tried.\<close>

definition far_away :: rt_env where
  "far_away = rt_calm\<lparr>rt_answer := (\<lambda>_. Some ENETUNREACH)\<rparr>"

definition two_gateways :: rt_locals where
  "two_gateways = \<lparr>ishost = False, dest = ''default'', gateway = ''gw'', hp = Some [1, 2], rt_flags = {RTF_UP}\<rparr>"

theorem gateway_attempts_witness:
  "\<exists>n st'. attempt far_away CHR ''a'' {RTF_UP} 1 two_gateways (set_addr RTA_GATEWAY 1 (rt_start\<lparr>af := AF_INET\<rparr>)) = (Some ENETUNREACH, n, st') \<and>
    n = 2 \<and> length (messages st') = 2"
proof -
  obtain r n st' where a: "attempt far_away CHR ''a'' {RTF_UP} 1 two_gateways (set_addr RTA_GATEWAY 1 (rt_start\<lparr>af := AF_INET\<rparr>)) = (r, n, st')"
    by (rule prod_cases3)
  have e: "\<not> debugonly far_away" "\<not> tflag far_away" "rt_answer far_away m = Some ENETUNREACH" for m
    by (simp_all add: far_away_def rt_calm_def)
  have "af (set_addr RTA_GATEWAY 1 (rt_start\<lparr>af := AF_INET\<rparr>)) = AF_INET"
    "sin_addr (so (set_addr RTA_GATEWAY 1 (rt_start\<lparr>af := AF_INET\<rparr>)) RTA_GATEWAY) = 1"
    "messages (set_addr RTA_GATEWAY 1 (rt_start\<lparr>af := AF_INET\<rparr>)) = []"
    by (simp_all add: set_addr_def rt_start_def)
  then show ?thesis
    using gateway_attempts [OF e(1,2) _ _ _ _ a, of 1 "[2]"] a by (auto simp: two_gateways_def e(3) unreached_def)
qed

theorem network_read_back_witness:
  "\<exists>l' st'. getaddr rt_calm RTA_DST (net_text 0x0A010000) True two_gateways (rt_start\<lparr>forcenet := 1\<rparr>) = Ok (False, l', st') \<and>
    sin_addr (so st' RTA_DST) = 0x0A010000 \<and> sin_addr (so st' RTA_NETMASK) = 0xffff0000"
  using network_read_back [where i = "0x0A010000" and st = "rt_start\<lparr>forcenet := 1\<rparr>" and env = rt_calm and h = True and l = two_gateways]
  by (simp add: class_mask_def)

end
