(* ===== verification/BootEffects.thy ===== *)
theory BootEffects
  imports FilterRuns IfconfigProps RouteProps NatdProps
begin

text \<open>
  The program as a whole: what the commands of the boot do, when \<open>ifconfig\<close>, \<open>route\<close>, \<open>ipfw\<close> and \<open>natd\<close>
  run them. A device that was stored and a rule that was entered come back as the requests to the kernel
  that were written.
\<close>

subsection \<open>The effect of a command\<close>

text \<open>
  The shell takes a word that begins with \<open>>\<close> for a redirection. An effect is a request that one of the
  four programs makes; the other commands are left as their words.
\<close>

definition shell_args :: "string \<Rightarrow> string list" where
  "shell_args cmd = filter (\<lambda>a. take 1 a \<noteq> ''>'') (command_words cmd)"

datatype effect = Interface if_request | Route rt_message | Filter fw_request | Translate divert_ports "string option"
  | Other_command "string list"

text \<open>The machine the commands run on, as the four models see it.\<close>

record machine =
  m_if :: if_env
  m_rt :: rt_env
  m_fw :: netdb
  m_natd :: natd_env
  m_denies :: "alias_call list \<Rightarrow> bool"
  m_links :: "rt_msg list"

definition effects :: "machine \<Rightarrow> string \<Rightarrow> effect list" where
  "effects m cmd =
     (case shell_args cmd of
        [] \<Rightarrow> []
      | prog # args \<Rightarrow>
          if prog = ''/sbin/ifconfig'' then
            (case requests_of (m_if m) (prog # args) of Ok qs \<Rightarrow> map Interface qs | _ \<Rightarrow> [])
          else if prog = ''/sbin/route'' then
            (case routed (route_main (m_rt m) [] (prog # args)) of Some (ms, _) \<Rightarrow> map Route ms | None \<Rightarrow> [])
          else if prog = ''/sbin/ipfw'' then map Filter (line_requests (m_fw m) cmd)
          else if prog = ''/sbin/natd'' then
            (case natd_main (m_natd m) (m_denies m) 1 (m_links m) (prog # args) of
               Ok d \<Rightarrow> [Translate (divert_ports d) (ifName (nd_st d))] | _ \<Rightarrow> [])
          else [Other_command (prog # args)])"

subsection \<open>Devices\<close>

definition gateway_msg :: "32 word \<Rightarrow> rt_message" where
  "gateway_msg w = (case octets w of (a, b, c, d) \<Rightarrow> default_msg a b c d)"

text \<open>What the record of a device asks for: an address and a mask, and a default route; or DHCP.\<close>

definition static_effects :: "machine \<Rightarrow> device \<Rightarrow> effect list" where
  "static_effects m u =
     map Interface (ifmaybeload (m_if m) (d_device u) @
       [SIOCDIFADDR None, SIOCAIFADDR (inet_aton (d_ip u)) (inet_aton (d_netmask u)) None]) @
     (if d_gateway u \<noteq> [] \<and> d_ext u = 1 then [Route (gateway_msg (the (inet_aton (d_gateway u))))] else [])"

definition device_effects :: "machine \<Rightarrow> bool \<Rightarrow> device \<Rightarrow> effect list" where
  "device_effects m conf u =
     (if d_dhcp u = DHCP_ENABLED
      then [Other_command (''/sbin/dhclient'' # (if conf then [''-cf'', ''/etc/dhclient.conf''] else [d_device u]))]
      else static_effects m u)"

definition static_bootable :: "machine \<Rightarrow> device \<Rightarrow> bool" where
  "static_bootable m u \<longleftrightarrow> (\<exists>ip msk. static_device u ip msk) \<and> take 1 (d_device u) \<noteq> ''>'' \<and>
     map_of (interfaces (m_if m)) (d_device u) \<noteq> None \<and>
     (d_gateway u \<noteq> [] \<and> d_ext u = 1 \<longrightarrow>
        (\<exists>a b c d. d_gateway u = dotted a b c d \<and> endpoint_ok (Host a b c d) \<and> (a, b, c, d) \<noteq> (255, 255, 255, 255)))"

definition dhcp_device_ok :: "device \<Rightarrow> bool" where
  "dhcp_device_ok u \<longleftrightarrow> d_id u \<noteq> 0 \<and> d_dhcp u = DHCP_ENABLED \<and> plain_name (d_device u) \<and> take 1 (d_device u) \<noteq> ''>''"

definition bootable :: "machine \<Rightarrow> device \<Rightarrow> bool" where
  "bootable m u \<longleftrightarrow> static_bootable m u \<or> dhcp_device_ok u"

text \<open>A kernel that does what it is asked, for a root user.\<close>

definition obliging :: "machine \<Rightarrow> bool" where
  "obliging m \<longleftrightarrow> (\<forall>r. answer (m_if m) r = Done) \<and> uid (m_rt m) = 0 \<and> \<not> debugonly (m_rt m) \<and> \<not> tflag (m_rt m) \<and>
     std_tables (m_fw m)"

lemma dotted_shell: "take 1 (dotted a b c d) \<noteq> ''>''"
  using isdigit_hd_dec [of a] by (cases "dec a") (auto simp: dotted_def isdigit_def)

lemma route_words:
  assumes "device_wf u" "d_gateway u = dotted a b c d"
  shows "shell_args (boot_route u) = [''/sbin/route'', ''add'', ''default'', dotted a b c d]"
proof -
  have "boot_route u = ''/sbin/route add default '' @ dotted a b c d @ '' >>/dev/null''"
    using assms by (simp add: boot_route_def device_wf_def snprintf_fits)
  moreover have "command_words (''/sbin/route add default '' @ dotted a b c d @ '' >>/dev/null'') =
      [''/sbin/route'', ''add'', ''default'', dotted a b c d, ''>>/dev/null'']"
    by (subst command_words_line(2); use text_words(1,3) hd_dotted(1) [of _ _ _ _ "[]"] words_field in \<open>simp\<close>)+
  ultimately show ?thesis using dotted_shell by (simp add: shell_args_def)
qed

lemma boot_static_effects:
  assumes "static_bootable m u" "obliging m"
  shows "concat (map (effects m) (boot_commands conf u)) = static_effects m u"
proof -
  obtain a b c e p q k l where s: "static_device u (a, b, c, e) (p, q, k, l)"
    using assms(1) unfolding static_bootable_def by (metis prod_cases4)
  obtain fs where fs: "map_of (interfaces (m_if m)) (d_device u) = Some fs" using assms(1) by (auto simp: static_bootable_def)
  have st: "d_ip u = dotted a b c e" "d_netmask u = dotted p q k l" "d_dhcp u = DHCP_DISABLED" "device_wf u"
    "inet_aton (d_ip u) = Some (ip_word a b c e)" "inet_aton (d_netmask u) = Some (ip_word p q k l)"
    using s inet_aton_dotted by (simp_all add: static_device_def)
  have "shell_args (boot_ifconfig u) = command_words (boot_ifconfig u)"
    using static_words(2) [OF s] st(1,2) dotted_shell assms(1) by (simp add: shell_args_def static_bootable_def)
  moreover have "requests_of (m_if m) (command_words (boot_ifconfig u)) = Ok (ifmaybeload (m_if m) (d_device u) @
      [SIOCDIFADDR None, SIOCAIFADDR (Some (ip_word a b c e)) (Some (ip_word p q k l)) None])"
    using boot_sets_netmask [OF s fs] assms(2) by (simp add: obliging_def)
  ultimately have "effects m (boot_ifconfig u) = map Interface (ifmaybeload (m_if m) (d_device u) @
      [SIOCDIFADDR None, SIOCAIFADDR (Some (ip_word a b c e)) (Some (ip_word p q k l)) None])"
    using static_words(2) [OF s] by (simp add: effects_def)
  moreover have "concat (map (effects m) (route_commands u)) =
      (if d_gateway u \<noteq> [] \<and> d_ext u = 1 then [Route (gateway_msg (the (inet_aton (d_gateway u))))] else [])"
  proof (cases "d_gateway u \<noteq> [] \<and> d_ext u = 1")
    case True
    then obtain g h i j where g: "d_gateway u = dotted g h i j" "endpoint_ok (Host g h i j)" "(g, h, i, j) \<noteq> (255, 255, 255, 255)"
      using assms(1) by (auto simp: static_bootable_def)
    have "effects m (boot_route u) = [Route (default_msg g h i j)]"
      using route_words [OF st(4) g(1)] default_route_requested [OF g(2,3), of "m_rt m" "[]"] assms(2)
      by (simp add: effects_def obliging_def)
    moreover have "gateway_msg (the (inet_aton (d_gateway u))) = default_msg g h i j"
      using g(1,2) by (simp add: gateway_msg_def inet_aton_dotted octets_ip_word)
    ultimately show ?thesis using True by (simp add: route_commands_def)
  qed (auto simp: route_commands_def)
  ultimately show ?thesis using st by (simp add: boot_commands_def static_effects_def)
qed

lemma boot_dhcp_effects:
  assumes "dhcp_device_ok u"
  shows "concat (map (effects m) (boot_commands conf u)) = [Other_command (''/sbin/dhclient'' #
    (if conf then [''-cf'', ''/etc/dhclient.conf''] else [d_device u]))]"
proof -
  have c: "command_words ''/sbin/dhclient -cf /etc/dhclient.conf'' = [''/sbin/dhclient'', ''-cf'', ''/etc/dhclient.conf'']"
    by code_simp
  have u: "d_id u \<noteq> 0" "d_dhcp u = DHCP_ENABLED" "length (d_device u) < 100" "nl \<notin> set (d_device u)" "blank_free (d_device u)"
    "d_device u \<noteq> []" "take 1 (d_device u) \<noteq> ''>''"
    using assms by (simp_all add: dhcp_device_ok_def plain_name_def)
  have "command_words (''/sbin/dhclient '' @ d_device u) = [''/sbin/dhclient'', d_device u]"
    using u by (subst command_words_line(2)) (use words_last in \<open>simp_all\<close>)
  then show ?thesis
    using u by (simp add: boot_commands_def effects_def shell_args_def c snprintf_fits)
qed

lemma boot_device_effects:
  "bootable m u \<Longrightarrow> obliging m \<Longrightarrow> concat (map (effects m) (boot_commands conf u)) = device_effects m conf u"
proof -
  assume b: "bootable m u" "obliging m"
  have d: "static_bootable m u \<Longrightarrow> d_dhcp u = DHCP_DISABLED" "dhcp_device_ok u \<Longrightarrow> d_dhcp u = DHCP_ENABLED"
    by (auto simp: static_bootable_def static_device_def dhcp_device_ok_def)
  show ?thesis
    using b(1) unfolding bootable_def
  proof
    assume "static_bootable m u"
    then show ?thesis using d(1) boot_static_effects [OF _ b(2)] by (simp add: device_effects_def)
  next
    assume "dhcp_device_ok u"
    then show ?thesis using d(2) boot_dhcp_effects by (simp add: device_effects_def)
  qed
qed

subsection \<open>Rules and translation\<close>

lemma rule_line_effects:
  assumes "rule_body t"
  shows "effects m (rule_line t) = map Filter (line_requests (m_fw m) (rule_line t))"
proof -
  have "command_words (rule_line t) = words (''/sbin/ipfw'' @ '' -q'' @ t)"
    using assms command_words_line(1) [of "IPFW_Q @ t" "[]"] by (simp add: rule_line_def rule_body_def IPFW_Q_def)
  also have "\<dots> = ''/sbin/ipfw'' # words ('' -q'' @ t)"
    by (rule words_field) (simp_all add: blank_free_def)
  finally show ?thesis by (simp add: effects_def shell_args_def)
qed

lemma table_effects:
  "\<forall>t \<in> set ts. rule_body t \<Longrightarrow> concat (map (effects m) (map rule_line ts)) = map Filter (requests (m_fw m) (map rule_line ts))"
  by (induction ts) (simp_all add: rule_line_effects requests_def)

text \<open>The card in \<open>/etc/nat\<close>, when it is such that natd can serve it.\<close>

definition nat_card :: "machine \<Rightarrow> world \<Rightarrow> (string \<times> nat) option \<Rightarrow> bool" where
  "nat_card m w nic \<longleftrightarrow>
     (case nic of
        None \<Rightarrow> files w NATSCRIPT = None
      | Some (s, n) \<Rightarrow> files w NATSCRIPT = Some (card_name s n @ [nl]) \<and> letters s \<and> length (card_name s n) < 6 \<and>
          hd s \<noteq> CHR ''-'' \<and> hd s \<noteq> CHR ''>'' \<and> servbyname (natd_db (m_natd m)) ''natd'' (Some ''divert'') = Some 8668 \<and>
          (\<exists>x. interface_address (card_name s n) (m_links m) = Ok x))"

definition divert_effects :: "(string \<times> nat) option \<Rightarrow> effect list" where
  "divert_effects nic = (case nic of None \<Rightarrow> [] | Some (s, n) \<Rightarrow> [Filter (FW_ADD (divert_rule s n))])"

definition natd_effects :: "(string \<times> nat) option \<Rightarrow> effect list" where
  "natd_effects nic = (case nic of None \<Rightarrow> [] | Some (s, n) \<Rightarrow> [Translate (One_socket (htons 8668)) (Some (card_name s n))])"

lemma nat_card_lines:
  assumes "letters s" "length (card_name s n) < 6" "hd s \<noteq> CHR ''-''"
  shows "fgets_all 255 (card_name s n @ [nl]) = [card_name s n @ [nl]]" "3 \<le> length (card_name s n @ [nl])"
proof -
  show "fgets_all 255 (card_name s n @ [nl]) = [card_name s n @ [nl]]"
    using fgets_all_lines [of "[card_name s n @ [nl]]" 255] assms card_name_plain(4) [OF assms(1,3)] by (simp add: is_line_def)
  have "s \<noteq> []" "dec n \<noteq> []" using assms(1) by (simp_all add: letters_def)
  then show "3 \<le> length (card_name s n @ [nl])" by (cases s; cases "dec n") (simp_all add: card_name_def)
qed

lemma divert_line_effects:
  assumes "letters s" "length (card_name s n) < 6" "std_tables (m_fw m)"
  shows "effects m (nat_rule (card_name s n @ [nl])) = [Filter (FW_ADD (divert_rule s n))]"
proof -
  have r: "line_requests (m_fw m) (nat_rule (card_name s n @ [nl])) = [FW_ADD (divert_rule s n)]"
    using requests_divert [OF assms] .
  have c: "\<exists>ws. command_words (nat_rule (card_name s n @ [nl])) = ''/sbin/ipfw'' # ws"
    using r by (auto simp: line_requests_def split: list.splits if_splits)
  then show ?thesis using r by (auto simp: effects_def shell_args_def)
qed

lemma natd_line_effects:
  assumes "nat_card m w (Some (s, n))"
  shows "effects m (''/sbin/natd -n '' @ card_name s n @ [nl] @ [nl]) = natd_effects (Some (s, n))"
proof -
  obtain x where x: "letters s" "hd s \<noteq> CHR ''-''" "hd s \<noteq> CHR ''>''" "length (card_name s n) < 6"
    "servbyname (natd_db (m_natd m)) ''natd'' (Some ''divert'') = Some 8668" "interface_address (card_name s n) (m_links m) = Ok x"
    using assms by (auto simp: nat_card_def)
  note c = card_name_plain [OF x(1,2), of n]
  have "nl \<notin> set (''/sbin/natd -n '' @ card_name s n)" using c(4) by simp
  from command_words_line(1) [OF this, of "[nl]"]
  have "command_words (''/sbin/natd -n '' @ card_name s n @ [nl] @ [nl]) = [''/sbin/natd'', ''-n'', card_name s n]"
    using words_last [OF c(3,1)] by simp
  moreover have "take 1 (card_name s n) \<noteq> ''>''" using x(1,3) by (cases s) (auto simp: card_name_def letters_def)
  ultimately have "shell_args (''/sbin/natd -n '' @ card_name s n @ [nl] @ [nl]) = [''/sbin/natd'', ''-n'', card_name s n]"
    by (simp add: shell_args_def)
  moreover have "length (card_name s n) \<le> 255" "htons 8668 \<noteq> 0" using x(4) by (simp_all add: htons_def)
  from natd_main_interface [OF c(1,2) this(1) x(5) this(2) x(6), of "m_denies m" 1]
  have "natd_main (m_natd m) (m_denies m) 1 (m_links m) [''/sbin/natd'', ''-n'', card_name s n] =
    Ok (interface_run (natd_init\<lparr>ifName := Some (card_name s n), inOutPort := htons 8668\<rparr>) (m_denies m) (htons 8668) x)" .
  ultimately show ?thesis
    by (cases x) (simp add: effects_def natd_effects_def interface_run_def)
qed

subsection \<open>The boot\<close>



subsection \<open>Trying it\<close>

definition two_card_machine :: machine where
  "two_card_machine = \<lparr>m_if = dc0_env\<lparr>modules := [''if_fxp'', ''if_xl''], interfaces := [(''fxp0'', {}), (''xl0'', {})]\<rparr>,
     m_rt = rt_calm, m_fw = plain_db, m_natd = plain_natd, m_denies = (\<lambda>_. False), m_links = xl0_messages\<rparr>"

lemma eth_static: "static_device (eth 0 ''fxp0'' 0) (10, 0, 0, 1) (255, 0, 0, 0)" "static_device (eth 1 ''xl0'' 1) (10, 0, 0, 1) (255, 0, 0, 0)"
proof -
  have "device_wf (eth 0 ''fxp0'' 0)" "device_wf (eth 1 ''xl0'' 1)" by code_simp+
  moreover have "d_ip (eth 2 ''dc0'' 0) = dotted 10 0 0 1" "d_netmask (eth 2 ''dc0'' 0) = dotted 255 0 0 0"
    using dc0_static by (simp_all add: static_device_def)
  ultimately show "static_device (eth 0 ''fxp0'' 0) (10, 0, 0, 1) (255, 0, 0, 0)" "static_device (eth 1 ''xl0'' 1) (10, 0, 0, 1) (255, 0, 0, 0)"
    by (simp_all add: static_device_def eth_def plain_name_def blank_free_def)
qed

lemma eth_gateway: "d_gateway (eth i n x) = dotted 10 0 0 254"
proof -
  have "dec 254 = ''254''" by (simp add: dec.simps digit_def char_of_def bit_Suc_0_iff)
  then show ?thesis by (simp add: eth_def dotted_def dec_examples)
qed

lemma two_cards_bootable: "\<forall>u \<in> set (btseq two_cards). bootable two_card_machine u"
proof -
  have "static_bootable two_card_machine u" if "u = eth 0 ''fxp0'' 0 \<or> u = eth 1 ''xl0'' 1" for u
  proof -
    have "\<exists>ip msk. static_device u ip msk" using that eth_static by blast
    moreover have "d_gateway u = dotted 10 0 0 254" using that eth_gateway by auto
    moreover have "take 1 (d_device u) \<noteq> ''>''" "map_of (interfaces (m_if two_card_machine)) (d_device u) \<noteq> None"
      using that by (auto simp: eth_def two_card_machine_def)
    ultimately show ?thesis unfolding static_bootable_def by fastforce
  qed
  then show ?thesis by (auto simp: two_cards_eq btseq_def bootable_def)
qed

lemma eth_effects:
  "device_effects two_card_machine False (eth 0 ''fxp0'' 0) =
     [Interface (SIOCDIFADDR None), Interface (SIOCAIFADDR (Some (ip_word 10 0 0 1)) (Some (ip_word 255 0 0 0)) None)]"
  "device_effects two_card_machine False (eth 1 ''xl0'' 1) = 
     [Interface (SIOCDIFADDR None), Interface (SIOCAIFADDR (Some (ip_word 10 0 0 1)) (Some (ip_word 255 0 0 0)) None),
      Route (default_msg 10 0 0 254)]"
proof -
  have a: "inet_aton (d_ip (eth i n x)) = Some (ip_word 10 0 0 1)" "inet_aton (d_netmask (eth i n x)) = Some (ip_word 255 0 0 0)"
    "gateway_msg (the (inet_aton (d_gateway (eth i n x)))) = default_msg 10 0 0 254" "d_gateway (eth i n x) \<noteq> []"
    "d_dhcp (eth i n x) = DHCP_DISABLED" "d_ext (eth i n x) = x" "d_device (eth i n x) = n" for i n x
    using eth_static(1) inet_aton_dotted [of 10 0 0 1] inet_aton_dotted [of 255 0 0 0] inet_aton_dotted [of 10 0 0 254]
      octets_ip_word [of 10 0 0 254]
    by (simp_all add: static_device_def gateway_msg_def eth_gateway dotted_word(3)) (simp_all add: eth_def)
  show "device_effects two_card_machine False (eth 0 ''fxp0'' 0) =
     [Interface (SIOCDIFADDR None), Interface (SIOCAIFADDR (Some (ip_word 10 0 0 1)) (Some (ip_word 255 0 0 0)) None)]"
    "device_effects two_card_machine False (eth 1 ''xl0'' 1) = 
     [Interface (SIOCDIFADDR None), Interface (SIOCAIFADDR (Some (ip_word 10 0 0 1)) (Some (ip_word 255 0 0 0)) None),
      Route (default_msg 10 0 0 254)]"
    by (simp_all add: device_effects_def static_effects_def a) (simp_all add: two_card_machine_def ifmaybeload_def isdigit_def)
qed

definition saved_world :: world where
  "saved_world = two_cards_world\<lparr>files := [RULESCRIPT \<mapsto> rule_line (filter_body web_rule), NATSCRIPT \<mapsto> ''xl0'' @ [nl]]\<rparr>"


lemma example_rule:
  "rule_on_screen calm zero_rule blank_world (down_keys @ [Key ENTER]) (trace (f_world (filter_example (down_keys @ [Key ENTER])))) =
     zero_rule\<lparr>r_action := ALLOW, r_proto := TCP, r_ifs := ANY, r_src := ''me'', r_dst := ''any'', r_dst_port := ''80''\<rparr>"
  by code_simp


end
