(* ===== verification/PwdMkdb.thy ===== *)
theory PwdMkdb
  imports Passwd Ipfw
begin

text \<open>
  \<open>usr.sbin/pwd_mkdb\<close>: the databases of users are made from the text of a password file.
  \<open>pw_scan\<close> reads one line, \<open>scan\<close> the lines of the file, and \<open>main\<close> stores every entry under its name,
  its number and its user id in two databases, one without the passwords, which are put in place when
  all went well. \<open>dbopen\<close> is the C library's: a database is a map from keys to data. \<open>uid_t\<close>, \<open>gid_t\<close> and
  \<open>time_t\<close> are words of 32 bits. Which calls of the system fail is the record \<open>mkdb_env\<close>, and so is whether
  \<open>errno\<close>, which the program tests and never clears, is still \<open>ERANGE\<close> when the next line is read.
\<close>

subsection \<open>Entries\<close>

datatype pwf = PWF_NAME | PWF_PASSWD | PWF_UID | PWF_GID | PWF_CHANGE | PWF_CLASS | PWF_EXPIRE | PWF_GECOS | PWF_DIR | PWF_SHELL

record pwent =
  pe_name :: string
  pe_passwd :: string
  pe_uid :: "32 word"
  pe_gid :: "32 word"
  pe_change :: "32 word"
  pe_class :: string
  pe_gecos :: string
  pe_dir :: string
  pe_shell :: string
  pe_expire :: "32 word"
  pe_fields :: "pwf set"

text \<open>
  \<open>strsep(&bp, ":")\<close>, where running out of fields is a corrupted entry. \<open>strtoul\<close> in base 10 and the test of
  \<open>errno\<close> behind it: \<open>erange\<close> says that it was \<open>ERANGE\<close> before the call already, which the call leaves as it is
  unless the value overflows. \<open>atol\<close> stops at the bounds of \<open>long\<close> and then sets \<open>ERANGE\<close> too.
\<close>

definition next_field :: "string option \<Rightarrow> (string \<times> string option) outcome" where
  "next_field bp =
     (case bp of
        None \<Rightarrow> Fail (EXIT_1 ''corrupted entry'')
      | Some s \<Rightarrow>
          Ok (takeWhile (\<lambda>c. c \<noteq> CHR '':'') s,
              if CHR '':'' \<in> set s then Some (tl (dropWhile (\<lambda>c. c \<noteq> CHR '':'') s)) else None))"

definition id_value :: "bool \<Rightarrow> string \<Rightarrow> 32 word outcome" where
  "id_value erange p =
     (if erange \<or> 2 ^ 32 \<le> \<bar>number_value p\<bar> then Fail (EXIT_1 ''max value'') else Ok (word_of_int (number_value p)))"

definition atol :: "string \<Rightarrow> 32 word" where
  "atol p = word_of_int (atoi p)"

definition out_of_long :: "string \<Rightarrow> bool" where
  "out_of_long p \<longleftrightarrow> number_value p < - (2 ^ 31) \<or> 2 ^ 31 \<le> number_value p"

definition plus_minus :: "string \<Rightarrow> bool" where
  "plus_minus name \<longleftrightarrow> take 1 name = ''+'' \<or> take 1 name = ''-''"

definition set_flag :: "pwf \<Rightarrow> string \<Rightarrow> pwf set" where
  "set_flag f s = (if s = [] then {} else {f})"

text \<open>
  \<open>pw_scan\<close>. The class is looked at before it is known to be there; all other fields that are missing
  are reported. The warnings about big numbers and unknown shells change nothing. The second part of the result
  is whether \<open>errno\<close> is \<open>ERANGE\<close> at the end: behind the test of the group only the two times can make it so.
\<close>

definition pw_scan :: "bool \<Rightarrow> string \<Rightarrow> (pwent \<times> bool) outcome" where
  "pw_scan erange line =
     bind_o (next_field (Some line)) (\<lambda>(name, bp).
     bind_o (next_field bp) (\<lambda>(pass, bp).
     bind_o (next_field bp) (\<lambda>(u, bp).
     bind_o (if u = [] \<and> \<not> plus_minus name then Fail (EXIT_1 ''no uid'') else id_value erange u) (\<lambda>uid.
     bind_o (if name = ''root'' \<and> uid \<noteq> 0 then Fail (EXIT_1 ''root uid should be 0'') else Ok ()) (\<lambda>_.
     bind_o (next_field bp) (\<lambda>(g, bp).
     bind_o (id_value erange g) (\<lambda>gid.
     bind_o (case bp of None \<Rightarrow> Undefined | Some _ \<Rightarrow> next_field bp) (\<lambda>(cl, bp).
     bind_o (next_field bp) (\<lambda>(change, bp).
     bind_o (next_field bp) (\<lambda>(expire, bp).
     bind_o (next_field bp) (\<lambda>(gecos, bp).
     bind_o (next_field bp) (\<lambda>(dir, bp).
     bind_o (next_field bp) (\<lambda>(sh, bp).
     case bp of
       Some _ \<Rightarrow> Fail (EXIT_1 ''corrupted entry'')
     | None \<Rightarrow>
         Ok (\<lparr>pe_name = name, pe_passwd = pass, pe_uid = uid, pe_gid = gid, pe_change = atol change, pe_class = cl,
             pe_gecos = gecos, pe_dir = dir, pe_shell = sh, pe_expire = atol expire,
             pe_fields = (if name \<noteq> [] \<and> (hd name \<noteq> CHR ''+'' \<or> tl name = []) then {PWF_NAME} else {}) \<union>
               set_flag PWF_PASSWD pass \<union> set_flag PWF_UID u \<union> set_flag PWF_GID g \<union> set_flag PWF_CLASS cl \<union>
               set_flag PWF_CHANGE change \<union> set_flag PWF_EXPIRE expire \<union> set_flag PWF_GECOS gecos \<union>
               set_flag PWF_DIR dir \<union> set_flag PWF_SHELL sh\<rparr>,
             out_of_long change \<or> out_of_long expire))))))))))))))"

text \<open>
  \<open>scan\<close> on one line of the file, as \<open>fgets\<close> has stored it: a comment is the value \<open>None\<close>. The buffer
  has \<open>LINE_MAX\<close> bytes.
\<close>

definition LINE_MAX :: nat where "LINE_MAX = 2048"

definition scan_line :: "bool \<Rightarrow> string \<Rightarrow> (pwent option \<times> bool) outcome" where
  "scan_line erange line =
     (if nl \<notin> set line then Fail (EXIT_1 ''line too long'')
      else
        let line = takeWhile (\<lambda>c. c \<noteq> nl) line; p = dropWhile (\<lambda>c. c = CHR '' '' \<or> c = CHR 0x09) line
        in if p = [] \<or> hd p = CHR ''#'' then Ok (None, erange)
           else bind_o (pw_scan erange line) (\<lambda>(e, erange). Ok (Some e, erange)))"

subsection \<open>Databases and the state\<close>

datatype db_key = KEYBYNAME string | KEYBYNUM nat | KEYBYUID "32 word" | KEYYPBYNUM nat | KEYYPENABLED
datatype db_data = Entry pwent | Flag nat

type_synonym db = "db_key \<Rightarrow> db_data option"

text \<open>\<open>put\<close>, with and without \<open>R_NOOVERWRITE\<close>.\<close>

definition db_put :: "bool \<Rightarrow> db_key \<Rightarrow> db_data \<Rightarrow> db \<Rightarrow> db" where
  "db_put overwrite k d b = (if \<not> overwrite \<and> b k \<noteq> None then b else b(k \<mapsto> d))"

text \<open>
  The calls that may fail: \<open>can_open\<close> for \<open>fopen\<close>, \<open>open\<close> and \<open>dbopen\<close>, \<open>can_lock\<close> for \<open>flock\<close> and \<open>fstat\<close>, \<open>can_copy\<close>
  for the reads and writes of \<open>cp\<close> into a file and its \<open>dbopen\<close> afterwards, \<open>can_fdopen\<close>; for the line with a
  number \<open>can_put\<close> all the \<open>put\<close> of its entry and \<open>can_write\<close> its \<open>fprintf\<close>; \<open>can_finish\<close> for the \<open>put\<close> of the flag and
  the \<open>close\<close> of the three files, \<open>can_rename\<close> for \<open>rename\<close> onto a file, and \<open>can_close\<close> for the last \<open>fclose\<close>.
  \<open>begins_erange\<close> says whether \<open>errno\<close> is \<open>ERANGE\<close> before the first line (\<open>-s\<close> calls \<open>atoi\<close>), and \<open>keeps_errno\<close> whether the
  calls behind the scan of a line leave it so.
\<close>

record mkdb_env =
  can_open :: "string \<Rightarrow> bool"
  can_lock :: bool
  can_copy :: "string \<Rightarrow> bool"
  can_fdopen :: bool
  can_put :: "nat \<Rightarrow> bool"
  can_write :: "nat \<Rightarrow> bool"
  can_finish :: bool
  can_rename :: "string \<Rightarrow> bool"
  can_close :: bool
  begins_erange :: bool
  keeps_errno :: "nat \<Rightarrow> bool"

datatype clean = FILE_INSECURE | FILE_SECURE | FILE_ORIG

record mkdb =
  texts :: "string \<Rightarrow> string option"
  dbs :: "string \<Rightarrow> db option"
  clean :: clean

record mkdb_opts =
  o_C :: bool
  o_dir :: string
  o_makeold :: bool
  o_user :: "string option"
  o_pname :: string

datatype 'a mkdb_result = Go 'a mkdb | Exited int mkdb | Crash

fun and_then :: "'a mkdb_result \<Rightarrow> ('a \<Rightarrow> mkdb \<Rightarrow> 'b mkdb_result) \<Rightarrow> 'b mkdb_result" where
  "and_then (Go a st) k = k a st"
| "and_then (Exited n st) k = Exited n st"
| "and_then Crash k = Crash"

definition insecure_db :: "string \<Rightarrow> string" where "insecure_db dir = dir @ ''/pwd.db''"
definition secure_db :: "string \<Rightarrow> string" where "secure_db dir = dir @ ''/spwd.db''"
definition tmp_name :: "string \<Rightarrow> string" where "tmp_name p = p @ ''.tmp''"
definition orig_name :: "string \<Rightarrow> string" where "orig_name p = p @ ''.orig''"

text \<open>\<open>cleanup\<close>, whose \<open>unlink\<close> is taken to succeed where there is a file.\<close>

definition cleanup :: "mkdb_opts \<Rightarrow> mkdb \<Rightarrow> mkdb" where
  "cleanup opt st =
     (let st = (if clean st = FILE_ORIG then st\<lparr>texts := (texts st)(orig_name (o_pname opt) := None)\<rparr> else st);
          st = (if clean st = FILE_ORIG \<or> clean st = FILE_SECURE
                then st\<lparr>dbs := (dbs st)(tmp_name (secure_db (o_dir opt)) := None)\<rparr> else st)
      in st\<lparr>dbs := (dbs st)(tmp_name (insecure_db (o_dir opt)) := None)\<rparr>)"

definition error :: "mkdb_opts \<Rightarrow> mkdb \<Rightarrow> 'a mkdb_result" where
  "error opt st = Exited 1 (cleanup opt st)"


subsection \<open>Opening\<close>

definition open_new :: "mkdb_env \<Rightarrow> mkdb_opts \<Rightarrow> mkdb \<Rightarrow> (db \<times> db \<times> bool \<times> bool) mkdb_result" where
  "open_new env opt st =
     (let a = tmp_name (insecure_db (o_dir opt)); b = tmp_name (secure_db (o_dir opt))
      in if dbs st a \<noteq> None \<or> \<not> can_open env a then error opt st
         else
           let st = st\<lparr>dbs := (dbs st)(a \<mapsto> Map.empty), clean := FILE_INSECURE\<rparr>
           in if dbs st b \<noteq> None \<or> \<not> can_open env b then error opt st
              else Go (Map.empty, Map.empty, False, False) (st\<lparr>dbs := (dbs st)(b \<mapsto> Map.empty), clean := FILE_SECURE\<rparr>))"

text \<open>
  With \<open>-u\<close> the databases are copied, and the entry of the user replaces what is there; the entry of
  his user id only if that is his already. This is looked up in \<open>/etc/pwd.db\<close>, also when \<open>-d\<close> names
  another directory.
\<close>

definition uid_method :: "db \<Rightarrow> string \<Rightarrow> bool" where
  "uid_method pw_db user =
     (case pw_db (KEYBYNAME user) of
        Some (Entry e) \<Rightarrow> (case pw_db (KEYBYUID (pe_uid e)) of Some (Entry e') \<Rightarrow> pe_name e' = user | _ \<Rightarrow> False)
      | _ \<Rightarrow> False)"

definition copy_db :: "mkdb_env \<Rightarrow> mkdb_opts \<Rightarrow> string \<Rightarrow> mkdb \<Rightarrow> db mkdb_result" where
  "copy_db env opt p st =
     (case (if can_open env p then dbs st p else None) of
        None \<Rightarrow> error opt st
      | Some b \<Rightarrow>
          if dbs st (tmp_name p) \<noteq> None \<or> \<not> can_open env (tmp_name p) then error opt st
          else
            let st = st\<lparr>dbs := (dbs st)(tmp_name p \<mapsto> b)\<rparr>
            in if can_copy env p then Go b st else error opt st)"

definition open_user :: "mkdb_env \<Rightarrow> mkdb_opts \<Rightarrow> string \<Rightarrow> mkdb \<Rightarrow> (db \<times> db \<times> bool \<times> bool) mkdb_result" where
  "open_user env opt user st =
     and_then (copy_db env opt (insecure_db (o_dir opt)) (st\<lparr>clean := FILE_INSECURE\<rparr>)) (\<lambda>dp st.
     and_then (copy_db env opt (secure_db (o_dir opt)) (st\<lparr>clean := FILE_SECURE\<rparr>)) (\<lambda>sdp st.
       case (if can_open env (insecure_db ''/etc'') then dbs st (insecure_db ''/etc'') else None) of
         None \<Rightarrow> error opt st
       | Some pw_db \<Rightarrow> Go (dp, sdp, True, uid_method pw_db user) st))"

definition open_old :: "mkdb_env \<Rightarrow> mkdb_opts \<Rightarrow> mkdb \<Rightarrow> unit mkdb_result" where
  "open_old env opt st =
     (let old = orig_name (o_pname opt)
      in if \<not> o_makeold opt then Go () st
         else if texts st old \<noteq> None \<or> \<not> can_open env old then error opt st
         else
           let st = st\<lparr>texts := (texts st)(old \<mapsto> [])\<rparr>
           in if can_fdopen env then Go () (st\<lparr>clean := FILE_ORIG\<rparr>) else error opt st)"

subsection \<open>The loop over the lines\<close>

definition store_entry :: "bool \<Rightarrow> bool \<Rightarrow> nat \<Rightarrow> nat \<Rightarrow> pwent \<Rightarrow> db \<Rightarrow> db" where
  "store_entry method methoduid cnt ypcnt e b =
     (let b = db_put method (KEYBYNAME (pe_name e)) (Entry e) b;
          b = db_put method (KEYBYNUM cnt) (Entry e) b;
          b = db_put methoduid (KEYBYUID (pe_uid e)) (Entry e) b
      in if plus_minus (pe_name e) then db_put method (KEYYPBYNUM ypcnt) (Entry e) b else b)"

definition insecure :: "pwent \<Rightarrow> pwent" where
  "insecure e = e\<lparr>pe_passwd := ''*''\<rparr>"

definition old_line :: "pwent \<Rightarrow> string" where
  "old_line e = pe_name e @ '':*:'' @ (if PWF_UID \<in> pe_fields e then dec (unat (pe_uid e)) else []) @ '':'' @
     (if PWF_GID \<in> pe_fields e then dec (unat (pe_gid e)) else []) @ '':'' @
     pe_gecos e @ '':'' @ pe_dir e @ '':'' @ pe_shell e @ [nl]"

record mkdb_loop =
  l_dp :: db
  l_sdp :: db
  l_cnt :: nat
  l_ypcnt :: nat
  l_yp :: bool
  l_old :: string

text \<open>
  One entry of the line \<open>n\<close>. The key of its name is built in a buffer of 1024 bytes, whatever the length of the
  name. The old file is written with \<open>-p\<close> only.
\<close>

definition write_old :: "mkdb_env \<Rightarrow> mkdb_opts \<Rightarrow> nat \<Rightarrow> string \<Rightarrow> mkdb_loop \<Rightarrow> mkdb_loop outcome" where
  "write_old env opt n t s =
     (if \<not> o_makeold opt then Ok s
      else if can_write env n then Ok (s\<lparr>l_old := l_old s @ t\<rparr>) else Fail (EXIT_1 ''write old''))"

definition loop_entry :: "mkdb_env \<Rightarrow> mkdb_opts \<Rightarrow> bool \<Rightarrow> bool \<Rightarrow> nat \<Rightarrow> pwent \<Rightarrow> mkdb_loop \<Rightarrow> mkdb_loop outcome" where
  "loop_entry env opt method methoduid n e s =
     (let s = s\<lparr>l_yp := l_yp s \<or> plus_minus (pe_name e)\<rparr>;
          chosen = (case o_user opt of None \<Rightarrow> True | Some u \<Rightarrow> u = pe_name e);
          step = (\<lambda>s. bind_o (write_old env opt n (old_line e) s) (\<lambda>s. Ok (s\<lparr>l_cnt := l_cnt s + 1\<rparr>)))
      in if \<not> chosen then step s
         else if 1024 \<le> length (pe_name e) then Undefined
         else if \<not> can_put env n then Fail (EXIT_1 ''put'')
         else step (s\<lparr>l_dp := store_entry method methoduid (l_cnt s) (l_ypcnt s) (insecure e) (l_dp s),
                l_sdp := store_entry method methoduid (l_cnt s) (l_ypcnt s) e (l_sdp s),
                l_ypcnt := (if plus_minus (pe_name e) then l_ypcnt s + 1 else l_ypcnt s)\<rparr>))"

text \<open>The lines from number \<open>n\<close> on.\<close>

fun loop_lines :: "mkdb_env \<Rightarrow> mkdb_opts \<Rightarrow> bool \<Rightarrow> bool \<Rightarrow> nat \<Rightarrow> bool \<Rightarrow> string list \<Rightarrow> mkdb_loop \<Rightarrow> mkdb_loop outcome" where
  "loop_lines env opt m mu n erange [] s = Ok s"
| "loop_lines env opt m mu n erange (line # ls) s =
     bind_o (scan_line erange line) (\<lambda>(r, erange).
     bind_o (case r of
          None \<Rightarrow> write_old env opt n (takeWhile (\<lambda>c. c \<noteq> nl) line @ [nl]) s
        | Some e \<Rightarrow> loop_entry env opt m mu n e s)
       (loop_lines env opt m mu (n + 1) (erange \<and> keeps_errno env n) ls))"

definition zero_loop :: "db \<Rightarrow> db \<Rightarrow> mkdb_loop" where
  "zero_loop dp sdp = \<lparr>l_dp = dp, l_sdp = sdp, l_cnt = 1, l_ypcnt = 1, l_yp = False, l_old = []\<rparr>"

definition yp_flag :: "bool \<Rightarrow> mkdb_loop \<Rightarrow> mkdb_loop" where
  "yp_flag m s =
     (if l_yp s
      then s\<lparr>l_dp := db_put m KEYYPENABLED (Flag 3) (l_dp s), l_sdp := db_put m KEYYPENABLED (Flag 3) (l_sdp s)\<rparr>
      else s)"

subsection \<open>The whole program\<close>

text \<open>
  \<open>mv\<close>: \<open>rename\<close>, after whose failure the program ends. What was put in place before stays there. The master
  file comes last.
\<close>

definition renamed :: "string \<Rightarrow> string \<Rightarrow> (string \<Rightarrow> 'a option) \<Rightarrow> string \<Rightarrow> 'a option" where
  "renamed a b m = (if a = b then m else m(b := m a, a := None))"

definition mv_db :: "mkdb_env \<Rightarrow> mkdb_opts \<Rightarrow> string \<Rightarrow> string \<Rightarrow> mkdb \<Rightarrow> unit mkdb_result" where
  "mv_db env opt a b st = (if can_rename env b then Go () (st\<lparr>dbs := renamed a b (dbs st)\<rparr>) else error opt st)"

definition mv_text :: "mkdb_env \<Rightarrow> mkdb_opts \<Rightarrow> string \<Rightarrow> string \<Rightarrow> mkdb \<Rightarrow> unit mkdb_result" where
  "mv_text env opt a b st = (if can_rename env b then Go () (st\<lparr>texts := renamed a b (texts st)\<rparr>) else error opt st)"

text \<open>What has been written into the new files.\<close>

definition written :: "mkdb_opts \<Rightarrow> mkdb_loop \<Rightarrow> mkdb \<Rightarrow> mkdb" where
  "written opt s st =
     st\<lparr>dbs := (dbs st)(tmp_name (insecure_db (o_dir opt)) \<mapsto> l_dp s, tmp_name (secure_db (o_dir opt)) \<mapsto> l_sdp s),
        texts := (if o_makeold opt then (texts st)(orig_name (o_pname opt) \<mapsto> l_old s) else texts st)\<rparr>"

definition install :: "mkdb_env \<Rightarrow> mkdb_opts \<Rightarrow> mkdb \<Rightarrow> unit mkdb_result" where
  "install env opt st =
     (let a = insecure_db (o_dir opt); b = secure_db (o_dir opt)
      in and_then (mv_db env opt (tmp_name a) a st) (\<lambda>_ st.
         and_then (mv_db env opt (tmp_name b) b st) (\<lambda>_ st.
         and_then (if o_makeold opt then mv_text env opt (orig_name (o_pname opt)) (o_dir opt @ ''/passwd'') st else Go () st) (\<lambda>_ st.
         and_then (mv_text env opt (o_pname opt) (o_dir opt @ ''/master.passwd'') st) (\<lambda>_ st.
           if can_close env then Exited 0 st else error opt st)))))"

fun check_lines :: "mkdb_env \<Rightarrow> nat \<Rightarrow> bool \<Rightarrow> string list \<Rightarrow> unit outcome" where
  "check_lines env n erange [] = Ok ()"
| "check_lines env n erange (line # ls) =
     bind_o (scan_line erange line) (\<lambda>(_, erange). check_lines env (n + 1) (erange \<and> keeps_errno env n) ls)"

definition pwd_mkdb :: "mkdb_env \<Rightarrow> mkdb_opts \<Rightarrow> mkdb \<Rightarrow> unit mkdb_result" where
  "pwd_mkdb env opt st =
     (if (case o_user opt of None \<Rightarrow> False | Some u \<Rightarrow> plus_minus u) then Exited 1 st
      else
        case (if can_open env (o_pname opt) then texts st (o_pname opt) else None) of
          None \<Rightarrow> error opt st
        | Some lines \<Rightarrow>
            let ls = fgets_all (LINE_MAX - 1) lines in
            if \<not> can_lock env then error opt st
            else if o_C opt then
              (case check_lines env 1 (begins_erange env) ls of Undefined \<Rightarrow> Crash | Fail e \<Rightarrow> error opt st | Ok _ \<Rightarrow> Exited 0 st)
            else
              and_then (case o_user opt of None \<Rightarrow> open_new env opt st | Some u \<Rightarrow> open_user env opt u st) (\<lambda>(dp, sdp, m, mu) st.
              and_then (open_old env opt st) (\<lambda>_ st.
                case loop_lines env opt m mu 1 (begins_erange env) ls (zero_loop dp sdp) of
                  Undefined \<Rightarrow> Crash
                | Fail e \<Rightarrow> error opt st
                | Ok s \<Rightarrow>
                    if can_finish env then install env opt (written opt (yp_flag m s) st) else error opt st)))"

end
