(* ===== verification/PwdProps.thy ===== *)
theory PwdProps
  imports PwdMkdb BootInit IpfwProps
begin

text \<open>
  Properties of \<open>pwd_mkdb\<close>: what the databases hold, what a failure leaves, and the way of a new
  password from the password command through the databases to the login.
\<close>

subsection \<open>What a password file says\<close>

definition scanned :: "string \<Rightarrow> pwent option" where
  "scanned l = (case scan_line False l of Ok (r, _) \<Rightarrow> r | _ \<Rightarrow> None)"

definition entries :: "string list \<Rightarrow> pwent list" where
  "entries ls = List.map_filter scanned ls"

text \<open>
  The database a list of entries stands for: the first entry of a name and of a user id counts.
\<close>

definition nth_entry :: "pwent list \<Rightarrow> nat \<Rightarrow> db_data option" where
  "nth_entry es i = (if 1 \<le> i \<and> i \<le> length es then Some (Entry (es ! (i - 1))) else None)"

definition db_of :: "bool \<Rightarrow> pwent list \<Rightarrow> db" where
  "db_of yp es k =
     (case k of
        KEYBYNAME n \<Rightarrow> map_option Entry (List.find (\<lambda>e. pe_name e = n) es)
      | KEYBYNUM i \<Rightarrow> nth_entry es i
      | KEYBYUID u \<Rightarrow> map_option Entry (List.find (\<lambda>e. pe_uid e = u) es)
      | KEYYPBYNUM i \<Rightarrow> nth_entry (filter (\<lambda>e. plus_minus (pe_name e)) es) i
      | KEYYPENABLED \<Rightarrow> if yp \<and> (\<exists>e \<in> set es. plus_minus (pe_name e)) then Some (Flag 3) else None)"

definition spec_db :: "pwent list \<Rightarrow> db" where
  "spec_db es = db_of True es"

lemma find_snoc: "List.find P (xs @ [x]) = (case List.find P xs of None \<Rightarrow> if P x then Some x else None | Some y \<Rightarrow> Some y)"
  by (induction xs) auto

lemma nth_entry_snoc: "nth_entry (es @ [e]) i = (if i = length es + 1 then Some (Entry e) else nth_entry es i)"
  by (auto simp: nth_entry_def nth_append)

lemma nth_entry_None: "nth_entry es (Suc (length es)) = None"
  by (simp add: nth_entry_def)

lemma store_entry_db_of:
  "store_entry False False (length es + 1) (length (filter (\<lambda>e. plus_minus (pe_name e)) es) + 1) e (db_of False es) =
   db_of False (es @ [e])"
proof
  fix k
  show "store_entry False False (length es + 1) (length (filter (\<lambda>e. plus_minus (pe_name e)) es) + 1) e (db_of False es) k =
    db_of False (es @ [e]) k"
    by (cases k) (auto simp: store_entry_def db_put_def Let_def db_of_def find_snoc nth_entry_snoc nth_entry_None split: option.splits if_splits)
qed


subsection \<open>The loop\<close>

definition plain :: "mkdb_opts" where
  "plain = \<lparr>o_C = False, o_dir = ''/etc'', o_makeold = False, o_user = None, o_pname = MPW_TMP\<rparr>"

text \<open>
  A comment, or a line that is scanned without an error, whose times fit a \<open>long\<close>, so that \<open>errno\<close> is not set,
  and whose name fits the buffer of the key.
\<close>

definition good_line :: "string \<Rightarrow> bool" where
  "good_line l \<longleftrightarrow> (\<exists>r. scan_line False l = Ok (r, False) \<and> (\<forall>e. r = Some e \<longrightarrow> length (pe_name e) < 1024))"

text \<open>A system on which every call succeeds. What the calls make of \<open>errno\<close> is left open.\<close>

definition works :: "mkdb_env \<Rightarrow> bool" where
  "works me \<longleftrightarrow> (\<forall>p. can_open me p \<and> can_copy me p \<and> can_rename me p) \<and> (\<forall>n. can_put me n \<and> can_write me n) \<and>
     can_lock me \<and> can_fdopen me \<and> can_finish me \<and> can_close me \<and> \<not> begins_erange me"

lemma worksD [simp]:
  assumes "works me"
  shows "can_open me p" "can_copy me p" "can_rename me p" "can_put me n" "can_write me n" "can_lock me" "can_fdopen me"
    "can_finish me" "can_close me" "\<not> begins_erange me"
  using assms by (simp_all add: works_def)

lemma plain_sel [simp]:
  "o_C plain = False" "o_dir plain = ''/etc''" "o_makeold plain = False" "o_user plain = None" "o_pname plain = MPW_TMP"
  by (simp_all add: plain_def)

text \<open>The state of the loop after the entries \<open>es\<close>.\<close>

definition loop_at :: "pwent list \<Rightarrow> mkdb_loop \<Rightarrow> bool" where
  "loop_at es s \<longleftrightarrow>
     l_sdp s = db_of False es \<and> l_dp s = db_of False (map insecure es) \<and> l_cnt s = length es + 1 \<and>
     l_ypcnt s = length (filter (\<lambda>e. plus_minus (pe_name e)) es) + 1 \<and>
     l_yp s = (\<exists>e \<in> set es. plus_minus (pe_name e))"

lemma insecure_sel [simp]:
  "pe_name (insecure e) = pe_name e" "pe_uid (insecure e) = pe_uid e" "pe_passwd (insecure e) = ''*''"
  by (simp_all add: insecure_def)

lemma comp_insecure: "(\<lambda>e. plus_minus (pe_name e)) \<circ> insecure = (\<lambda>e. plus_minus (pe_name e))"
  by (simp add: fun_eq_iff)

lemma write_old_at: "loop_at es s \<Longrightarrow> works me \<Longrightarrow> \<exists>s'. write_old me opt n t s = Ok s' \<and> loop_at es s'"
  by (simp add: write_old_def loop_at_def)

lemma loop_entry_at:
  assumes "loop_at es s" and "o_user opt = None" and "length (pe_name e) < 1024" and "works me"
  shows "\<exists>s'. loop_entry me opt False False n e s = Ok s' \<and> loop_at (es @ [e]) s'"
  using assms store_entry_db_of [of es e] store_entry_db_of [of "map insecure es" "insecure e"]
  by (auto simp: loop_entry_def write_old_def loop_at_def Let_def filter_map comp_insecure)

lemma entries_simps [simp]:
  "entries [] = []"
  "entries (l # ls) = (case scanned l of None \<Rightarrow> entries ls | Some e \<Rightarrow> e # entries ls)"
  by (simp_all add: entries_def List.map_filter_simps split: option.split)

lemma loop_lines_at:
  assumes "loop_at es s" and "o_user opt = None" and "\<forall>l \<in> set ls. good_line l" and "works me"
  shows "\<exists>s'. loop_lines me opt False False n False ls s = Ok s' \<and> loop_at (es @ entries ls) s'"
  using assms(1,3)
proof (induction ls arbitrary: es s n)
  case Nil
  then show ?case by simp
next
  case (Cons l ls)
  obtain r where r: "scan_line False l = Ok (r, False)" "\<forall>e. r = Some e \<longrightarrow> length (pe_name e) < 1024"
    using Cons.prems(2) by (auto simp: good_line_def)
  show ?case
  proof (cases r)
    case None
    obtain s1 where s1: "write_old me opt n (takeWhile (\<lambda>c. c \<noteq> nl) l @ [nl]) s = Ok s1" "loop_at es s1"
      using write_old_at [OF Cons.prems(1) assms(4)] by blast
    then show ?thesis
      using Cons.IH [OF s1(2)] Cons.prems(2) r None by (auto simp: scanned_def)
  next
    case (Some e)
    then obtain s1 where s1: "loop_entry me opt False False n e s = Ok s1" "loop_at (es @ [e]) s1"
      using loop_entry_at [OF Cons.prems(1) assms(2)] r(2) assms(4) by blast
    then show ?thesis
      using Cons.IH [OF s1(2)] Cons.prems(2) r(1) Some by (auto simp: scanned_def)
  qed
qed

lemma db_of_flag:
  "(if \<exists>e \<in> set es. plus_minus (pe_name e) then db_put False KEYYPENABLED (Flag 3) (db_of False es) else db_of False es) =
   spec_db es"
  by (rule ext) (auto simp: db_put_def spec_db_def db_of_def split: db_key.split)

lemma yp_flag_at:
  "loop_at es s \<Longrightarrow> l_sdp (yp_flag False s) = spec_db es \<and> l_dp (yp_flag False s) = spec_db (map insecure es)"
  using db_of_flag [of es] db_of_flag [of "map insecure es"]
  by (auto simp: yp_flag_def loop_at_def split: if_splits)


subsection \<open>What the program makes\<close>

lemma tmp_names [simp]:
  "tmp_name (insecure_db d) \<noteq> tmp_name (secure_db d)" "tmp_name (secure_db d) \<noteq> tmp_name (insecure_db d)"
  "tmp_name (insecure_db d) \<noteq> insecure_db d" "tmp_name (secure_db d) \<noteq> secure_db d"
  "insecure_db d \<noteq> secure_db d" "secure_db d \<noteq> insecure_db d"
  "tmp_name (insecure_db d) \<noteq> secure_db d" "tmp_name (secure_db d) \<noteq> insecure_db d"
  by (simp_all add: tmp_name_def insecure_db_def secure_db_def)

text \<open>The same system, but for the renames and the last \<open>fclose\<close>, which succeed.\<close>

definition renaming :: "mkdb_env \<Rightarrow> mkdb_env" where
  "renaming me = me\<lparr>can_rename := \<lambda>_. True, can_close := True\<rparr>"

lemma renaming_sel [simp]:
  "can_open (renaming me) = can_open me" "can_lock (renaming me) = can_lock me" "can_copy (renaming me) = can_copy me"
  "can_fdopen (renaming me) = can_fdopen me" "can_put (renaming me) = can_put me" "can_write (renaming me) = can_write me"
  "can_finish (renaming me) = can_finish me" "begins_erange (renaming me) = begins_erange me" "keeps_errno (renaming me) = keeps_errno me"
  "can_rename (renaming me) p" "can_close (renaming me)"
  by (simp_all add: renaming_def)

lemma renaming_same [simp]:
  "open_new (renaming me) opt st = open_new me opt st" "open_user (renaming me) opt user st = open_user me opt user st"
  "open_old (renaming me) opt st = open_old me opt st" "write_old (renaming me) opt n t s = write_old me opt n t s"
  unfolding open_new_def open_user_def open_old_def copy_db_def write_old_def renaming_sel by (rule refl)+

lemma check_lines_renaming [simp]: "check_lines (renaming me) n b ls = check_lines me n b ls"
  by (induction ls arbitrary: n b) (simp_all add: case_prod_beta)

lemma loop_lines_renaming [simp]: "loop_lines (renaming me) opt m mu n b ls = loop_lines me opt m mu n b ls"
proof (induction ls arbitrary: n b)
  case (Cons l ls)
  have "loop_entry (renaming me) opt m mu n e s = loop_entry me opt m mu n e s" for e s
    unfolding loop_entry_def renaming_same renaming_sel by (rule refl)
  then show ?case using Cons by (intro ext) (simp add: case_prod_beta cong: option.case_cong)
qed (simp add: fun_eq_iff)

lemma works_renaming: "works me \<Longrightarrow> works (renaming me)"
  by (simp add: works_def del: worksD)

lemma pwd_mkdb_plain:
  assumes "texts st MPW_TMP = Some (concat ls)" and "\<forall>l \<in> set ls. is_line l \<and> length l < LINE_MAX \<and> good_line l"
    and "dbs st (tmp_name (insecure_db ''/etc'')) = None" and "dbs st (tmp_name (secure_db ''/etc'')) = None" and "works (renaming me)"
  shows "\<exists>s st'. loop_at (entries ls) s \<and> texts st' = texts st \<and>
     dbs st' = (dbs st)(tmp_name (insecure_db ''/etc'') \<mapsto> Map.empty, tmp_name (secure_db ''/etc'') \<mapsto> Map.empty) \<and>
     pwd_mkdb me plain st = install me plain (written plain (yp_flag False s) st')"
proof -
  have l: "fgets_all (LINE_MAX - 1) (concat ls) = ls"
    using assms(2) by (intro fgets_all_lines) (auto simp: LINE_MAX_def)
  have z: "loop_at [] (zero_loop Map.empty Map.empty)"
    by (auto simp: loop_at_def zero_loop_def db_of_def nth_entry_def fun_eq_iff split: db_key.split)
  obtain s where s: "loop_lines me plain False False 1 False ls (zero_loop Map.empty Map.empty) = Ok s" "loop_at (entries ls) s"
    using loop_lines_at [OF z, of plain ls "renaming me" 1] assms(2,5) by auto
  have wk: "can_open me p" "can_lock me" "can_finish me" "begins_erange me = False" for p
    using worksD [OF assms(5)] by simp_all
  let ?a = "tmp_name (insecure_db ''/etc'')" and ?b = "tmp_name (secure_db ''/etc'')"
  show ?thesis
    using s assms(1,3,4) wk l
    by (intro exI [of _ s] exI [of _ "st\<lparr>dbs := (dbs st)(?a \<mapsto> Map.empty, ?b \<mapsto> Map.empty), clean := FILE_SECURE\<rparr>"])
      (simp add: pwd_mkdb_def open_new_def open_old_def Let_def)
qed

lemma renamed_sel: "a \<noteq> b \<Longrightarrow> renamed a b m p = (if p = a then None else if p = b then m a else m p)"
  by (simp add: renamed_def)

lemma mv_works: "works me \<Longrightarrow> mv_db me opt a b st = Go () (st\<lparr>dbs := renamed a b (dbs st)\<rparr>)"
  "works me \<Longrightarrow> mv_text me opt a b st = Go () (st\<lparr>texts := renamed a b (texts st)\<rparr>)"
  by (simp_all add: mv_db_def mv_text_def)

lemma pwd_mkdb_installs:
  assumes "texts st MPW_TMP = Some (concat ls)" and "\<forall>l \<in> set ls. is_line l \<and> length l < LINE_MAX \<and> good_line l"
    and "dbs st (tmp_name (insecure_db ''/etc'')) = None" and "dbs st (tmp_name (secure_db ''/etc'')) = None" and "works me"
  obtains st' where "pwd_mkdb me plain st = Exited 0 st'"
    and "dbs st' = (dbs st)(''/etc/pwd.db'' \<mapsto> spec_db (map insecure (entries ls)), ''/etc/spwd.db'' \<mapsto> spec_db (entries ls))"
    and "texts st' = (texts st)(MASTER \<mapsto> concat ls, MPW_TMP := None)"
proof -
  obtain s st' where s: "loop_at (entries ls) s" "texts st' = texts st"
    "dbs st' = (dbs st)(tmp_name (insecure_db ''/etc'') \<mapsto> Map.empty, tmp_name (secure_db ''/etc'') \<mapsto> Map.empty)"
    "pwd_mkdb me plain st = install me plain (written plain (yp_flag False s) st')"
    using pwd_mkdb_plain [OF assms(1-4) works_renaming [OF assms(5)]] by blast
  have n: "insecure_db ''/etc'' = ''/etc/pwd.db''" "secure_db ''/etc'' = ''/etc/spwd.db''"
    by (simp_all add: insecure_db_def secure_db_def)
  let ?st = "written plain (yp_flag False s) st'"
  let ?a = "insecure_db ''/etc''" and ?b = "secure_db ''/etc''"
  let ?d = "renamed (tmp_name ?b) ?b (renamed (tmp_name ?a) ?a (dbs ?st))" and ?t = "renamed MPW_TMP MASTER (texts ?st)"
  have i: "install me plain ?st = Exited 0 (?st\<lparr>dbs := ?d, texts := ?t\<rparr>)"
    using assms(5) by (simp add: install_def Let_def mv_works MASTER_def)
  have "?d = (dbs st)(''/etc/pwd.db'' \<mapsto> l_dp (yp_flag False s), ''/etc/spwd.db'' \<mapsto> l_sdp (yp_flag False s))"
    using assms(3,4) s(3) tmp_names [of "''/etc''"]
    by (auto simp: written_def renamed_sel n fun_eq_iff)
  moreover have "?t = (texts st)(MASTER \<mapsto> concat ls, MPW_TMP := None)"
    using assms(1) s(2) by (simp add: written_def renamed_def MASTER_def MPW_TMP_def)
  ultimately show ?thesis
    using s(4) i yp_flag_at [OF s(1)] that [of "?st\<lparr>dbs := ?d, texts := ?t\<rparr>"] by simp
qed

text \<open>
  C38. From a file of comments and good entries \<open>pwd_mkdb\<close> makes the two databases of its entries, in which
  the first entry of a name and of a user id counts; the one everybody can read has no passwords. The
  file becomes the master file. Every call of the system succeeds, and what it makes of \<open>errno\<close> does not matter,
  since the times of good entries fit a \<open>long\<close>.
\<close>

theorem databases_made:
  assumes "texts st MPW_TMP = Some (concat ls)" and "\<forall>l \<in> set ls. is_line l \<and> length l < LINE_MAX \<and> good_line l"
    and "dbs st (tmp_name (insecure_db ''/etc'')) = None" and "dbs st (tmp_name (secure_db ''/etc'')) = None" and "works me"
  shows "\<exists>st'. pwd_mkdb me plain st = Exited 0 st' \<and>
    dbs st' ''/etc/spwd.db'' = Some (spec_db (entries ls)) \<and>
    dbs st' ''/etc/pwd.db'' = Some (spec_db (map insecure (entries ls))) \<and>
    texts st' = (texts st)(MASTER \<mapsto> concat ls, MPW_TMP := None) \<and>
    (\<forall>p. p \<noteq> ''/etc/pwd.db'' \<and> p \<noteq> ''/etc/spwd.db'' \<longrightarrow> dbs st' p = dbs st p)"
  by (rule pwd_mkdb_installs [OF assms]) auto

text \<open>
  Why the times matter: a time that is too big makes the next line fail if no call in between has changed
  \<open>errno\<close>, however good that line is.
\<close>

lemma pw_scan_stale: "pw_scan True t \<noteq> Ok x"
  by (cases x) (auto simp: pw_scan_def bind_o_eq_Ok id_value_def)

lemma stale_errno_refuses:
  assumes "scan_line False l = Ok (r, True)" and "keeps_errno me n" and "scan_line False l' = Ok (Some e, b)"
  shows "loop_lines me opt m mu n False (l # l' # ls) s \<noteq> Ok s'"
proof
  assume "loop_lines me opt m mu n False (l # l' # ls) s = Ok s'"
  then obtain x where "scan_line True l' = Ok x" using assms(1,2) by (auto simp: bind_o_eq_Ok)
  then show False using assms(3) pw_scan_stale by (auto simp: scan_line_def Let_def bind_o_eq_Ok split: if_splits)
qed

subsection \<open>Failures\<close>

text \<open>
  What a failure of the program keeps: every text and every database but the temporary ones, of which
  nothing is said.
\<close>

definition kept :: "mkdb_opts \<Rightarrow> mkdb \<Rightarrow> mkdb \<Rightarrow> bool" where
  "kept opt st st' \<longleftrightarrow>
     (\<forall>p. p \<noteq> orig_name (o_pname opt) \<longrightarrow> texts st' p = texts st p) \<and>
     (\<forall>p. p \<noteq> tmp_name (insecure_db (o_dir opt)) \<and> p \<noteq> tmp_name (secure_db (o_dir opt)) \<longrightarrow> dbs st' p = dbs st p)"

lemma kept_refl [intro]: "kept opt st st"
  by (simp add: kept_def)

lemma kept_clean [intro]: "kept opt st st' \<Longrightarrow> kept opt st (st'\<lparr>clean := c\<rparr>)"
  by (simp add: kept_def)

lemma kept_cleanup [intro]: "kept opt st st' \<Longrightarrow> kept opt st (cleanup opt st')"
  by (auto simp: kept_def cleanup_def Let_def)

fun keeps :: "mkdb_opts \<Rightarrow> mkdb \<Rightarrow> 'a mkdb_result \<Rightarrow> bool" where
  "keeps opt st (Go a u) \<longleftrightarrow> kept opt st u"
| "keeps opt st (Exited n u) \<longleftrightarrow> n = 1 \<and> kept opt st u"
| "keeps opt st Crash \<longleftrightarrow> True"

lemma keeps_error [intro]: "kept opt st u \<Longrightarrow> keeps opt st (error opt u)"
  by (auto simp: error_def)

lemma keeps_and_then:
  "keeps opt st m \<Longrightarrow> (\<And>a u. m = Go a u \<Longrightarrow> kept opt st u \<Longrightarrow> keeps opt st (k a u)) \<Longrightarrow> keeps opt st (and_then m k)"
  by (cases m) auto

lemma open_new_keeps: "keeps opt st (open_new me opt st)"
  by (auto simp: open_new_def Let_def error_def) (auto simp: kept_def cleanup_def Let_def)

lemma copy_db_keeps:
  "kept opt st u \<Longrightarrow> p = insecure_db (o_dir opt) \<or> p = secure_db (o_dir opt) \<Longrightarrow> keeps opt st (copy_db me opt p u)"
  by (auto simp: copy_db_def Let_def split: option.split intro!: keeps_error) (auto simp: kept_def)

lemma open_user_keeps: "keeps opt st (open_user me opt user st)"
  by (auto simp: open_user_def split: option.split intro!: keeps_and_then copy_db_keeps)

lemma open_old_keeps: "kept opt st u \<Longrightarrow> keeps opt st (open_old me opt u)"
  by (auto simp: open_old_def Let_def intro!: keeps_error) (auto simp: kept_def)

lemma written_kept: "kept opt st u \<Longrightarrow> kept opt st (written opt s u)"
  by (auto simp: kept_def written_def)

text \<open>The renames of a run in their order, and those that are done: all before the first that fails.\<close>

definition renames :: "mkdb_opts \<Rightarrow> string list" where
  "renames opt = [insecure_db (o_dir opt), secure_db (o_dir opt)] @
     (if o_makeold opt then [o_dir opt @ ''/passwd''] else []) @ [o_dir opt @ ''/master.passwd'']"

definition replaced :: "mkdb_env \<Rightarrow> mkdb_opts \<Rightarrow> string set" where
  "replaced me opt = set (takeWhile (can_rename me) (renames opt))"

text \<open>
  What is left when the files in \<open>R\<close> have been replaced as in the state \<open>full\<close> and nothing else has. Of the temporary
  files, and of the password file once it may have been renamed, nothing is said.
\<close>

definition half :: "mkdb_opts \<Rightarrow> string set \<Rightarrow> mkdb \<Rightarrow> mkdb \<Rightarrow> mkdb \<Rightarrow> bool" where
  "half opt R full st st' \<longleftrightarrow>
     (\<forall>p. p \<noteq> tmp_name (insecure_db (o_dir opt)) \<and> p \<noteq> tmp_name (secure_db (o_dir opt)) \<longrightarrow>
        dbs st' p = (if p \<in> R then dbs full p else dbs st p)) \<and>
     (\<forall>p. p \<noteq> orig_name (o_pname opt) \<and> (p = o_pname opt \<longrightarrow> p \<notin> R \<and> o_dir opt @ ''/master.passwd'' \<notin> R) \<longrightarrow>
        texts st' p = (if p \<in> R then texts full p else texts st p))"

lemma installed_names [simp]:
  "d @ ''/passwd'' \<noteq> d @ ''/master.passwd''" "insecure_db d \<noteq> d @ ''/passwd''" "insecure_db d \<noteq> d @ ''/master.passwd''"
  "secure_db d \<noteq> d @ ''/passwd''" "secure_db d \<noteq> d @ ''/master.passwd''"
  by (simp_all add: insecure_db_def secure_db_def)

lemma cleanup_sel:
  "p \<noteq> orig_name (o_pname opt) \<Longrightarrow> texts (cleanup opt u) p = texts u p"
  "p \<noteq> tmp_name (insecure_db (o_dir opt)) \<Longrightarrow> p \<noteq> tmp_name (secure_db (o_dir opt)) \<Longrightarrow> dbs (cleanup opt u) p = dbs u p"
  by (simp_all add: cleanup_def Let_def)

lemma install_half:
  assumes "kept opt st w"
  shows "\<exists>full. install (renaming me) opt w = Exited 0 full \<and>
    (install me opt w = Exited 0 full \<or>
     (\<exists>u. install me opt w = Exited 1 u \<and> \<not> (list_all (can_rename me) (renames opt) \<and> can_close me) \<and>
        half opt (replaced me opt) full st u))"
proof -
  define A B where n: "A = insecure_db (o_dir opt)" "B = secure_db (o_dir opt)"
  define P M where m: "P = o_dir opt @ ''/passwd''" "M = o_dir opt @ ''/master.passwd''"
  have k: "p \<noteq> orig_name (o_pname opt) \<Longrightarrow> texts w p = texts st p"
    "p \<noteq> tmp_name A \<Longrightarrow> p \<noteq> tmp_name B \<Longrightarrow> dbs w p = dbs st p" for p
    using assms by (simp_all add: kept_def n)
  have d: "tmp_name A \<noteq> A" "tmp_name B \<noteq> B" "tmp_name A \<noteq> B" "tmp_name B \<noteq> A" "A \<noteq> B" "P \<noteq> M" "A \<noteq> P" "A \<noteq> M" "B \<noteq> P" "B \<noteq> M"
    by (simp_all add: n m)
  show ?thesis
    by (cases "can_rename me A"; cases "can_rename me B"; cases "o_makeold opt"; cases "can_rename me P"; cases "can_rename me M";
        cases "can_close me";
        simp add: install_def Let_def mv_db_def mv_text_def error_def renames_def replaced_def renaming_def half_def cleanup_sel
          flip: n m; (intro conjI allI impI)?;
        (use d k in \<open>auto simp: renamed_def k\<close>)?)
qed

text \<open>
  How a run fails, beside the run \<open>r'\<close> in which the renames succeed.
\<close>

definition fails_well :: "mkdb_env \<Rightarrow> mkdb_opts \<Rightarrow> mkdb \<Rightarrow> 'a mkdb_result \<Rightarrow> 'a mkdb_result \<Rightarrow> bool" where
  "fails_well me opt st r r' \<longleftrightarrow> (\<forall>n u. r = Exited n u \<longrightarrow> n = 0 \<or> n = 1 \<and> (kept opt st u \<or>
     \<not> (list_all (can_rename me) (renames opt) \<and> can_close me) \<and> (\<exists>full. r' = Exited 0 full \<and> half opt (replaced me opt) full st u)))"

lemma fails_well_simps [simp]: "fails_well me opt st (Exited 0 u) r" "fails_well me opt st Crash r"
  "fails_well me opt st (Exited 1 st) r"
  by (auto simp: fails_well_def)

lemma fails_well_error [intro]: "kept opt st u \<Longrightarrow> fails_well me opt st (error opt u) r"
  by (auto simp: fails_well_def error_def)

lemma fails_well_and_then:
  "keeps opt st m \<Longrightarrow> (\<And>a u. kept opt st u \<Longrightarrow> fails_well me opt st (k a u) (k' a u)) \<Longrightarrow>
   fails_well me opt st (and_then m k) (and_then m k')"
  by (cases m) (auto simp: fails_well_def)

lemma fails_well_install:
  assumes "kept opt st u"
  shows "fails_well me opt st (install me opt (written opt s u)) (install (renaming me) opt (written opt s u))"
  using install_half [OF written_kept [OF assms], of me s] by (auto simp: fails_well_def)

lemma pwd_mkdb_fails_well: "fails_well me opt st (pwd_mkdb me opt st) (pwd_mkdb (renaming me) opt st)"
  unfolding pwd_mkdb_def Let_def renaming_sel renaming_same loop_lines_renaming check_lines_renaming
  by (auto split: option.split outcome.split prod.split
      intro!: fails_well_and_then open_new_keeps open_user_keeps open_old_keeps fails_well_install)

text \<open>
  C39. A failure exits with 1 and leaves the installed databases and every text as they were, so that the old
  passwords stay valid, unless it is a \<open>rename\<close> or the last \<open>fclose\<close> that failed: then the files before the first
  failing \<open>rename\<close>, in the order \<open>pwd.db\<close>, \<open>spwd.db\<close>, \<open>passwd\<close>, \<open>master.passwd\<close>, are those that the complete run would have
  made, and the others are the old ones. If the first one fails nothing has changed either; if a later one
  does, \<open>pwd.db\<close> no longer belongs to the master file.
\<close>

theorem failure_keeps:
  assumes "pwd_mkdb me opt st = Exited n st'" and "n \<noteq> 0"
  shows "n = 1 \<and> (kept opt st st' \<or>
    \<not> (list_all (can_rename me) (renames opt) \<and> can_close me) \<and>
    (\<exists>full. pwd_mkdb (renaming me) opt st = Exited 0 full \<and> half opt (replaced me opt) full st st'))"
  using pwd_mkdb_fails_well [of me opt st] assms by (auto simp: fails_well_def)

subsection \<open>Reading an entry\<close>

lemma next_field_simps:
  "CHR '':'' \<notin> set a \<Longrightarrow> next_field (Some (a @ CHR '':'' # s)) = Ok (a, Some s)"
  "CHR '':'' \<notin> set a \<Longrightarrow> next_field (Some a) = Ok (a, None)"
  by (auto simp: next_field_def takeWhile_append dropWhile_append)

text \<open>The entry that the line of root stands for.\<close>

definition root_entry_of :: "passwd \<Rightarrow> pwent" where
  "root_entry_of pw =
     \<lparr>pe_name = pw_name pw, pe_passwd = pw_passwd pw, pe_uid = word_of_int (pw_uid pw), pe_gid = word_of_int (pw_gid pw),
      pe_change = 0, pe_class = [], pe_gecos = pw_gecos pw, pe_dir = pw_dir pw, pe_shell = pw_shell pw, pe_expire = 0,
      pe_fields = {PWF_NAME, PWF_UID, PWF_GID, PWF_CHANGE, PWF_EXPIRE} \<union> set_flag PWF_PASSWD (pw_passwd pw) \<union>
        set_flag PWF_GECOS (pw_gecos pw) \<union> set_flag PWF_DIR (pw_dir pw) \<union> set_flag PWF_SHELL (pw_shell pw)\<rparr>"

definition clean_field :: "string \<Rightarrow> bool" where
  "clean_field s \<longleftrightarrow> CHR '':'' \<notin> set s \<and> nl \<notin> set s"

definition root_ok :: "passwd \<Rightarrow> bool" where
  "root_ok pw \<longleftrightarrow> pw_name pw = ''root'' \<and> pw_uid pw = 0 \<and> 0 \<le> pw_gid pw \<and> pw_gid pw < 2 ^ 32 \<and>
     clean_field (pw_passwd pw) \<and> clean_field (pw_gecos pw) \<and> clean_field (pw_dir pw) \<and> clean_field (pw_shell pw) \<and>
     length (pw_passwd pw) + length (pw_gecos pw) + length (pw_dir pw) + length (pw_shell pw) \<le> 900"

definition root_text :: "passwd \<Rightarrow> string" where
  "root_text pw = ''root:'' @ pw_passwd pw @ '':0:'' @ dec (nat (pw_gid pw)) @ ''::0:0:'' @ pw_gecos pw @ '':'' @
     pw_dir pw @ '':'' @ pw_shell pw"

lemma digits_clean: "\<forall>c \<in> set s. isdigit c \<Longrightarrow> clean_field s"
  by (auto simp: clean_field_def isdigit_def)

lemma dec_clean: "clean_field (dec n)"
  by (rule digits_clean) (auto dest: dec_digits)

lemma id_value_dec: "n < 2 ^ 32 \<Longrightarrow> id_value False (dec n) = Ok (word_of_nat n)"
  by (simp add: id_value_def)


definition ten_fields :: "string \<Rightarrow> string \<Rightarrow> string \<Rightarrow> string \<Rightarrow> string \<Rightarrow> string \<Rightarrow> string \<Rightarrow> string \<Rightarrow> string \<Rightarrow> string \<Rightarrow> string" where
  "ten_fields n p u g cl ch ex ge d sh = n @ CHR '':'' # p @ CHR '':'' # u @ CHR '':'' # g @ CHR '':'' # cl @ CHR '':'' #
     ch @ CHR '':'' # ex @ CHR '':'' # ge @ CHR '':'' # d @ CHR '':'' # sh"

lemma pw_scan_fields:
  assumes "\<forall>f \<in> {n, p, u, g, cl, ch, ex, ge, d, sh}. CHR '':'' \<notin> set f" and "u \<noteq> []"
    and "id_value False u = Ok uid" and "id_value False g = Ok gid" and "n = ''root'' \<longrightarrow> uid = 0"
  shows "pw_scan False (ten_fields n p u g cl ch ex ge d sh) =
    Ok (\<lparr>pe_name = n, pe_passwd = p, pe_uid = uid, pe_gid = gid, pe_change = atol ch, pe_class = cl, pe_gecos = ge,
       pe_dir = d, pe_shell = sh, pe_expire = atol ex,
       pe_fields = (if n \<noteq> [] \<and> (hd n \<noteq> CHR ''+'' \<or> tl n = []) then {PWF_NAME} else {}) \<union>
         set_flag PWF_PASSWD p \<union> set_flag PWF_UID u \<union> set_flag PWF_GID g \<union> set_flag PWF_CLASS cl \<union>
         set_flag PWF_CHANGE ch \<union> set_flag PWF_EXPIRE ex \<union> set_flag PWF_GECOS ge \<union> set_flag PWF_DIR d \<union>
         set_flag PWF_SHELL sh\<rparr>, out_of_long ch \<or> out_of_long ex)"
  using assms by (simp add: pw_scan_def ten_fields_def next_field_simps)

lemma root_text_fields:
  "root_text pw = ten_fields ''root'' (pw_passwd pw) ''0'' (dec (nat (pw_gid pw))) [] ''0'' ''0'' (pw_gecos pw) (pw_dir pw) (pw_shell pw)"
  by (simp add: root_text_def ten_fields_def)

lemma atol_0: "atol ''0'' = 0" "\<not> out_of_long ''0''" and id_value_0: "id_value False ''0'' = Ok 0"
  by code_simp+

lemma root_text_scanned:
  assumes "root_ok pw"
  shows "pw_scan False (root_text pw) = Ok (root_entry_of pw, False)"
proof -
  have "id_value False (dec (nat (pw_gid pw))) = Ok (word_of_int (pw_gid pw))"
    using assms id_value_dec [of "nat (pw_gid pw)"] by (simp add: root_ok_def nat_less_iff)
  moreover have "CHR '':'' \<notin> set (dec (nat (pw_gid pw)))"
    using dec_clean by (simp add: clean_field_def)
  ultimately show ?thesis
    using assms unfolding root_text_fields
    by (subst pw_scan_fields [where uid = 0 and gid = "word_of_int (pw_gid pw)"])
      (auto simp: root_ok_def clean_field_def id_value_0 atol_0 root_entry_of_def set_flag_def)
qed

lemma root_text_line:
  assumes "root_ok pw"
  shows "mod_line pw = root_text pw @ [nl]" and "nl \<notin> set (root_text pw)" and "length (root_text pw) < 1000"
proof -
  have d: "length (dec (nat (pw_gid pw))) \<le> 10"
    using assms by (intro length_dec_le) (simp_all add: root_ok_def nat_less_iff)
  show "length (root_text pw) < 1000"
    using assms d by (simp add: root_ok_def root_text_def)
  then show "mod_line pw = root_text pw @ [nl]"
    using assms by (simp add: mod_line_def root_ok_def dec_int_def root_text_def snprintf_fits dec.simps [of 0] digit_0)
  show "nl \<notin> set (root_text pw)"
    using assms dec_clean by (simp add: root_ok_def root_text_def clean_field_def)
qed

lemma mod_line_scanned:
  assumes "root_ok pw"
  shows "scan_line False (mod_line pw) = Ok (Some (root_entry_of pw), False)" and "is_line (mod_line pw)" and "length (mod_line pw) < LINE_MAX"
proof -
  have t: "takeWhile (\<lambda>c. c \<noteq> nl) (root_text pw @ [nl]) = root_text pw"
    using root_text_line(2) [OF assms] by (subst takeWhile_append2) auto
  have "dropWhile (\<lambda>c. c = CHR '' '' \<or> c = CHR 0x09) (root_text pw) = root_text pw" "hd (root_text pw) = CHR ''r''" "root_text pw \<noteq> []"
    by (simp_all add: root_text_def)
  then show "scan_line False (mod_line pw) = Ok (Some (root_entry_of pw), False)"
    using root_text_line [OF assms] root_text_scanned [OF assms] t
    by (simp add: scan_line_def Let_def del: dropWhile_eq_Nil_conv)
  show "is_line (mod_line pw)" "length (mod_line pw) < LINE_MAX"
    using root_text_line [OF assms] by (simp_all add: is_line_body LINE_MAX_def)
qed


subsection \<open>The entries of the copy\<close>

lemma next_field_eq_Ok:
  "next_field (Some s) = Ok (a, r) \<longleftrightarrow> a = takeWhile (\<lambda>c. c \<noteq> CHR '':'') s \<and>
     r = (if CHR '':'' \<in> set s then Some (tl (dropWhile (\<lambda>c. c \<noteq> CHR '':'') s)) else None)"
  "next_field None = Ok x \<longleftrightarrow> False"
  by (auto simp: next_field_def)

lemma bind_o_OkE: "bind_o m f = Ok y \<Longrightarrow> (\<And>x. m = Ok x \<Longrightarrow> f x = Ok y \<Longrightarrow> P) \<Longrightarrow> P"
  by (auto simp: bind_o_eq_Ok)

lemma pw_scan_name:
  assumes "pw_scan False s = Ok (e, b)"
  shows "pe_name e = takeWhile (\<lambda>c. c \<noteq> CHR '':'') s \<and> CHR '':'' \<in> set s"
proof -
  have "\<exists>a r x. next_field (Some s) = Ok (a, r) \<and> next_field r = Ok x \<and> pe_name e = a"
    using assms unfolding pw_scan_def
    by (elim bind_o_OkE; clarsimp; elim bind_o_OkE; clarsimp) (auto elim!: bind_o_OkE split: option.split_asm)
  then show ?thesis by (auto simp: next_field_eq_Ok split: if_splits)
qed

lemma scanned_field:
  assumes "scan_line False l = Ok (Some e, b)" and "is_line l"
  shows "pe_name e = pw_field l"
proof -
  obtain t where t: "l = t @ [nl]" "nl \<notin> set t" using assms(2) by (rule is_lineE)
  then have "takeWhile (\<lambda>c. c \<noteq> nl) l = t" by (auto simp: takeWhile_append)
  then have "pw_scan False t = Ok (e, b)"
    using assms(1) t by (simp add: scan_line_def Let_def bind_o_eq_Ok split: if_splits)
  then show ?thesis
    using pw_scan_name [of t e b] t(1) by (auto simp: pw_field_def takeWhile_append)
qed

lemma comment_field:
  assumes "scan_line False l = Ok (None, b)" and "is_line l"
  shows "pw_field l \<noteq> ''root''"
proof
  assume f: "pw_field l = ''root''"
  obtain t where t: "l = t @ [nl]" "nl \<notin> set t" using assms(2) by (rule is_lineE)
  have tw: "takeWhile (\<lambda>c. c \<noteq> nl) l = t" using t by (auto simp: takeWhile_append)
  obtain r where "l = ''root'' @ r"
    using f by (metis pw_field_def takeWhile_dropWhile_id)
  then obtain r' where r: "t = ''root'' @ r'"
    using t by (cases r rule: rev_cases) auto
  then have "dropWhile (\<lambda>c. c = CHR '' '' \<or> c = CHR 0x09) t = t" "hd t = CHR ''r''" "t \<noteq> []" by simp_all
  then show False
    using assms(1) t tw by (simp add: scan_line_def Let_def bind_o_eq_Ok del: dropWhile_eq_Nil_conv split: if_splits)
qed

lemma entries_replaced:
  assumes "scan_line False m = Ok (Some new, b)" and "\<forall>l \<in> set ls. is_line l \<and> good_line l"
  shows "entries (map (replace_line ''root'' m) ls) = map (\<lambda>e. if pe_name e = ''root'' then new else e) (entries ls)"
  using assms(2)
proof (induction ls)
  case Nil
  then show ?case by simp
next
  case (Cons l ls)
  obtain r where r: "scan_line False l = Ok (r, False)" using Cons.prems by (auto simp: good_line_def)
  show ?case
    using Cons assms(1) r scanned_field [of l _ False] comment_field [of l False]
    by (cases r) (auto simp: replace_line_def scanned_def)
qed

lemma find_replaced:
  assumes "pe_name new = ''root''"
  shows "List.find (\<lambda>e. pe_name e = n) (map (\<lambda>e. if pe_name e = ''root'' then new else e) es) =
    (case List.find (\<lambda>e. pe_name e = n) es of None \<Rightarrow> None | Some e \<Rightarrow> Some (if n = ''root'' then new else e))"
  using assms by (induction es) auto

subsection \<open>From the password command to the login\<close>

text \<open>The stored passwords of a database, as \<open>getpwnam\<close> finds them by name.\<close>

definition stored :: "db \<Rightarrow> string \<Rightarrow> string option" where
  "stored b n = (case b (KEYBYNAME n) of Some (Entry e) \<Rightarrow> Some (pe_passwd e) | _ \<Rightarrow> None)"

lemma stored_spec: "stored (spec_db es) n = map_option pe_passwd (List.find (\<lambda>e. pe_name e = n) es)"
  by (simp add: stored_def spec_db_def db_of_def split: option.split)


lemma login_result:
  assumes "pwdb ''root'' = Some k"
  shows "\<exists>w'. login pwdb crypt env ''root'' p w = Some (if k = [] \<or> crypt p k = k then Exec_shell else Exit 10, w')"
  using assms by (auto simp: login_def Let_def strcpy_Some)

lemma scanned_good: "root_ok pw \<Longrightarrow> good_line (mod_line pw)"
  by (simp add: good_line_def mod_line_scanned root_entry_of_def root_ok_def)

lemma entries_root:
  assumes "l \<in> set ls" and "pw_field l = ''root''" and "\<forall>l \<in> set ls. is_line l \<and> good_line l"
  shows "List.find (\<lambda>e. pe_name e = ''root'') (entries ls) \<noteq> None"
  using assms(1,3)
proof (induction ls)
  case (Cons a ls)
  obtain r where r: "scan_line False a = Ok (r, False)" using Cons.prems(2) by (auto simp: good_line_def)
  then show ?case
    using Cons scanned_field [of a _ False] comment_field [of a False] assms(2) by (cases r) (auto simp: scanned_def)
qed simp

lemma new_lines_good:
  assumes "root_ok pw" and "\<forall>l \<in> set ls. pw_line l \<and> good_line l"
  shows "\<forall>l \<in> set (map (replace_line ''root'' (mod_line pw)) ls). is_line l \<and> length l < LINE_MAX \<and> good_line l"
  using assms mod_line_scanned [OF assms(1)] scanned_good [OF assms(1)]
  by (auto simp: replace_line_def pw_line_def LINE_MAX_def)

text \<open>
  C5. A new password is the one that counts. The copy the password command makes is one from which
  \<open>pwd_mkdb\<close> makes the databases; in the one \<open>getpwnam\<close> reads, root has the new password and every
  other user the one he had, the copy has become \<open>/etc/master.passwd\<close>, and at the next login the shell is
  given for the new password, and for another one only if it has the same crypt. The calls that \<open>pwd_mkdb\<close>
  makes of the system are taken to succeed.
\<close>

theorem new_password_logs_in:
  fixes rnd usec sec :: "32 word"
  defines "salt \<equiv> passwd_salt rnd usec sec"
  assumes "getpwnam ''root'' = Some pw" and "files w MASTER = Some (concat ls)"
    and "\<forall>l \<in> set ls. pw_line l \<and> good_line l" and "l \<in> set ls" and "pw_field l = ''root''"
    and "writable env MASTER" and "writable env MPW_TMP" and "files w MPW_TMP = None"
    and "root_ok (pw\<lparr>pw_passwd := crypt pass salt\<rparr>)" and "crypt pass (crypt pass salt) = crypt pass salt"
    and "crypt pass salt \<noteq> []" and "d ''/etc/pwd.db.tmp'' = None" and "d ''/etc/spwd.db.tmp'' = None" and "works me"
  shows "\<exists>u st b. passwd_main getpwnam crypt env rnd usec sec pass key w = Some (passwd_finish env key u) \<and>
    pwd_mkdb me plain \<lparr>texts = files u, dbs = d, clean = FILE_INSECURE\<rparr> = Exited 0 st \<and>
    dbs st ''/etc/spwd.db'' = Some b \<and> texts st MASTER = files u MPW_TMP \<and> texts st MPW_TMP = None \<and>
    (\<forall>p v. \<exists>v'. login (stored b) crypt env ''root'' p v =
       Some (if crypt p (crypt pass salt) = crypt pass salt then Exec_shell else Exit 10, v')) \<and>
    (\<forall>v. \<exists>v'. login (stored b) crypt env ''root'' pass v = Some (Exec_shell, v')) \<and>
    (\<forall>n. n \<noteq> ''root'' \<longrightarrow> stored b n = stored (spec_db (entries ls)) n)"
proof -
  let ?pw = "pw\<lparr>pw_passwd := crypt pass salt\<rparr>"
  let ?ls = "map (replace_line ''root'' (mod_line ?pw)) ls"
  have n: "pw_name pw = ''root''" using assms(10) by (simp add: root_ok_def)
  have pl: "\<forall>l \<in> set ls. pw_line l" using assms(4) by simp
  obtain u where u: "files u MPW_TMP = Some (concat ?ls)"
    "passwd_main getpwnam crypt env rnd usec sec pass key w = Some (passwd_finish env key u)"
    using passwd_main_copies [where getpwnam = getpwnam and ls = ls and w = w and crypt = crypt and pass = pass and rnd = rnd and
        usec = usec and sec = sec and key = key, OF assms(2,3) pl assms(7,8)] assms(9)
    by (auto simp: n new_root_def salt_def contents_def)
  let ?st = "\<lparr>texts = files u, dbs = d, clean = FILE_INSECURE\<rparr>"
  have g: "\<forall>l \<in> set ls. is_line l \<and> good_line l" using assms(4) by (simp add: pw_line_def)
  have h: "texts ?st MPW_TMP = Some (concat ?ls)" "dbs ?st (tmp_name (insecure_db ''/etc'')) = None"
    "dbs ?st (tmp_name (secure_db ''/etc'')) = None"
    using u(1) assms(13,14) by (simp_all add: tmp_name_def insecure_db_def secure_db_def)
  obtain st where st: "pwd_mkdb me plain ?st = Exited 0 st" "dbs st ''/etc/spwd.db'' = Some (spec_db (entries ?ls))"
    "texts st = (files u)(MASTER \<mapsto> concat ?ls, MPW_TMP := None)"
    by (rule pwd_mkdb_installs [OF h(1) new_lines_good [OF assms(10,4)] h(2,3) assms(15)]) (rule that, assumption, simp_all)
  have e: "stored (spec_db (entries ?ls)) m = (case List.find (\<lambda>e. pe_name e = m) (entries ls) of None \<Rightarrow> None
      | Some e \<Rightarrow> Some (pe_passwd (if m = ''root'' then root_entry_of ?pw else e)))" for m
    unfolding entries_replaced [OF mod_line_scanned(1) [OF assms(10)] g] stored_spec
    using n by (subst find_replaced) (auto simp: root_entry_of_def split: option.split)
  have r: "stored (spec_db (entries ?ls)) ''root'' = Some (crypt pass salt)"
    using e [of "''root''"] entries_root [OF assms(5,6) g] by (auto simp: root_entry_of_def)
  have o: "stored (spec_db (entries ?ls)) m = stored (spec_db (entries ls)) m" if "m \<noteq> ''root''" for m
    using that e [of m] by (simp add: stored_spec split: option.split)
  have "MASTER \<noteq> MPW_TMP" by (simp add: MASTER_def MPW_TMP_def)
  then have t: "texts st MASTER = files u MPW_TMP" "texts st MPW_TMP = None" using st(3) u(1) by simp_all
  have a: "\<exists>v'. login (stored (spec_db (entries ?ls))) crypt env ''root'' p v =
      Some (if crypt p (crypt pass salt) = crypt pass salt then Exec_shell else Exit 10, v')" for p v
    using login_result [where pwdb = "stored (spec_db (entries ?ls))", where k = "crypt pass salt", where crypt = crypt,
        where env = env, where p = p, where w = v] r assms(12) by simp
  have b: "\<exists>v'. login (stored (spec_db (entries ?ls))) crypt env ''root'' pass v = Some (Exec_shell, v')" for v
    using a [of pass v] assms(11) by simp
  show ?thesis
    using u(2) st(1,2) t o a b
    by (intro exI [of _ u] exI [of _ st] exI [of _ "spec_db (entries ?ls)"]) blast
qed


text \<open>A line of four fields is not reported: the class, which is not there, is read.\<close>

theorem four_fields_undefined:
  assumes "\<forall>f \<in> {n, p, u, g}. CHR '':'' \<notin> set f" and "u \<noteq> []" and "n \<noteq> ''root''"
    and "id_value False u = Ok uid" and "id_value False g = Ok gid"
  shows "pw_scan False (n @ CHR '':'' # p @ CHR '':'' # u @ CHR '':'' # g) = Undefined"
  using assms by (simp add: pw_scan_def next_field_simps)

subsection \<open>Trying it\<close>

lemma passwd_lines_scanned:
  "\<forall>l \<in> set passwd_lines. good_line l"
proof -
  have "map (\<lambda>l. case scan_line False l of Ok (Some e, False) \<Rightarrow> pe_name e | _ \<Rightarrow> ''#'') passwd_lines = [''toor'', ''root'']"
    by code_simp
  then show ?thesis
    by (auto simp: passwd_lines_def good_line_def split: outcome.splits option.splits bool.splits)
qed

definition mkdb_files :: "(string \<Rightarrow> string option) \<Rightarrow> mkdb" where
  "mkdb_files t = \<lparr>texts = t, dbs = (\<lambda>_. None), clean = FILE_INSECURE\<rparr>"

lemma passwd_lines_good: "\<forall>l \<in> set passwd_lines. is_line l \<and> length l < LINE_MAX \<and> good_line l"
  using passwd_lines_ok passwd_lines_scanned by (auto simp: pw_line_def LINE_MAX_def)

text \<open>A system that always works, and one on which nothing can be renamed to \<open>/etc/spwd.db\<close>.\<close>

definition good_env :: mkdb_env where
  "good_env = \<lparr>can_open = \<lambda>_. True, can_lock = True, can_copy = \<lambda>_. True, can_fdopen = True, can_put = \<lambda>_. True,
     can_write = \<lambda>_. True, can_finish = True, can_rename = \<lambda>_. True, can_close = True, begins_erange = False, keeps_errno = \<lambda>_. True\<rparr>"

definition no_spwd :: mkdb_env where
  "no_spwd = good_env\<lparr>can_rename := \<lambda>p. p \<noteq> ''/etc/spwd.db''\<rparr>"

lemma good_env_works: "works good_env"
  by (simp add: works_def good_env_def del: worksD)

theorem databases_made_witness:
  "\<exists>st b. pwd_mkdb good_env plain (mkdb_files [MPW_TMP \<mapsto> concat passwd_lines]) = Exited 0 st \<and>
     dbs st ''/etc/spwd.db'' = Some b \<and> stored b ''root'' = Some [] \<and> stored b ''toor'' = Some ''*''"
proof -
  have "stored (spec_db (entries passwd_lines)) ''root'' = Some []" "stored (spec_db (entries passwd_lines)) ''toor'' = Some ''*''"
    unfolding stored_spec by code_simp+
  then show ?thesis
    using databases_made [of "mkdb_files [MPW_TMP \<mapsto> concat passwd_lines]" passwd_lines good_env] passwd_lines_good good_env_works
    by (auto simp: mkdb_files_def)
qed

text \<open>
  With the second system the run ends with 1, the database everybody reads is new and the other one is still the
  old one; the password file is where it was.
\<close>

theorem failure_keeps_witness:
  "\<exists>st'. pwd_mkdb no_spwd plain (mkdb_files [MPW_TMP \<mapsto> concat passwd_lines]) = Exited 1 st' \<and>
     dbs st' ''/etc/pwd.db'' = Some (spec_db (map insecure (entries passwd_lines))) \<and> dbs st' ''/etc/spwd.db'' = None \<and>
     texts st' MPW_TMP = Some (concat passwd_lines)"
proof -
  let ?st = "mkdb_files [MPW_TMP \<mapsto> concat passwd_lines]"
  have p: "texts ?st MPW_TMP = Some (concat passwd_lines)" "dbs ?st p = None" for p
    by (simp_all add: mkdb_files_def)
  have g: "renaming no_spwd = good_env" by (simp add: renaming_def no_spwd_def good_env_def)
  obtain full where full: "pwd_mkdb good_env plain ?st = Exited 0 full"
    "dbs full = (dbs ?st)(''/etc/pwd.db'' \<mapsto> spec_db (map insecure (entries passwd_lines)), ''/etc/spwd.db'' \<mapsto> spec_db (entries passwd_lines))"
    by (rule pwd_mkdb_installs [OF p(1) passwd_lines_good p(2) p(2) good_env_works]) blast
  have r: "replaced no_spwd plain = {''/etc/pwd.db''}"
    by (simp add: replaced_def renames_def no_spwd_def insecure_db_def secure_db_def)
  obtain s u where u: "pwd_mkdb no_spwd plain ?st = install no_spwd plain (written plain s u)" "dbs u ''/etc/pwd.db'' = None"
    using pwd_mkdb_plain [OF p(1) passwd_lines_good p(2) p(2), of no_spwd] good_env_works p(2)
    by (auto simp: g tmp_name_def insecure_db_def secure_db_def)
  have n: "insecure_db ''/etc'' = ''/etc/pwd.db''" "secure_db ''/etc'' = ''/etc/spwd.db''"
    by (simp_all add: insecure_db_def secure_db_def)
  obtain st' where st': "install no_spwd plain (written plain s u) = Exited 1 st'" "dbs st' ''/etc/pwd.db'' = Some (l_dp s)"
    by (simp add: install_def Let_def mv_db_def no_spwd_def error_def n cleanup_sel renamed_sel tmp_name_def written_def)
  have k: "\<not> kept plain ?st st'"
  proof
    assume "kept plain ?st st'"
    then have "dbs st' ''/etc/pwd.db'' = dbs ?st ''/etc/pwd.db''" by (simp add: kept_def n tmp_name_def)
    then show False using st'(2) p(2) by simp
  qed
  have "half plain {''/etc/pwd.db''} full ?st st'"
    using failure_keeps [OF u(1) [unfolded st'(1)]] k full(1) by (simp add: g r)
  then show ?thesis
    using u(1) st'(1) p full(2) by (auto simp: half_def tmp_name_def insecure_db_def secure_db_def orig_name_def MPW_TMP_def)
qed

theorem new_password_logs_in_witness:
  "\<exists>u st b. passwd_main [''root'' \<mapsto> root_entry] (\<lambda>p s. p) calm 0 0 0 ''secret'' 0 passwd_world = Some (passwd_finish calm 0 u) \<and>
     pwd_mkdb good_env plain (mkdb_files (files u)) = Exited 0 st \<and> dbs st ''/etc/spwd.db'' = Some b \<and>
     (\<forall>v. \<exists>v'. login (stored b) (\<lambda>p s. p) calm ''root'' ''secret'' v = Some (Exec_shell, v')) \<and>
     (\<forall>v. \<exists>v'. login (stored b) (\<lambda>p s. p) calm ''root'' ''wrong'' v = Some (Exit 10, v'))"
proof -
  have g: "[''root'' \<mapsto> root_entry] ''root'' = Some root_entry" by simp
  have r: "root_ok (root_entry\<lparr>pw_passwd := ''secret''\<rparr>)"
    by (simp add: root_ok_def root_entry_def clean_field_def)
  have l: "\<forall>l \<in> set passwd_lines. pw_line l \<and> good_line l"
    using passwd_lines_ok passwd_lines_scanned by auto
  have m: "''root::0:0::0:0:Charlie:/root:/bin/sh'' @ [nl] \<in> set passwd_lines"
    "pw_field (''root::0:0::0:0:Charlie:/root:/bin/sh'' @ [nl]) = ''root''"
    by (simp_all add: passwd_lines_def pw_field_def)
  have w: "\<exists>v'. login (stored b) (\<lambda>p s. p) calm ''root'' ''wrong'' v = Some (Exit 10, v')"
    if "\<forall>p v. \<exists>v'. login (stored b) (\<lambda>p s. p) calm ''root'' p v = Some (if p = ''secret'' then Exec_shell else Exit 10, v')" for b v
    using that [rule_format, of "''wrong''" v] by simp
  obtain u st b where "passwd_main [''root'' \<mapsto> root_entry] (\<lambda>p s. p) calm 0 0 0 ''secret'' 0 passwd_world = Some (passwd_finish calm 0 u)"
    "pwd_mkdb good_env plain \<lparr>texts = files u, dbs = (\<lambda>_. None), clean = FILE_INSECURE\<rparr> = Exited 0 st" "dbs st ''/etc/spwd.db'' = Some b"
    "\<forall>p v. \<exists>v'. login (stored b) (\<lambda>p s. p) calm ''root'' p v = Some (if p = ''secret'' then Exec_shell else Exit 10, v')"
    "\<forall>v. \<exists>v'. login (stored b) (\<lambda>p s. p) calm ''root'' ''secret'' v = Some (Exec_shell, v')"
    using new_password_logs_in [where me = good_env and getpwnam = "[''root'' \<mapsto> root_entry]" and crypt = "\<lambda>p s. p" and env = calm and rnd = 0 and
        usec = 0 and sec = 0 and pass = "''secret''" and key = 0 and d = "\<lambda>_. None", OF g passwd_world_sel(1) l m _ _
        passwd_world_sel(2)] r good_env_works
    by auto
  then show ?thesis
    using w by (intro exI [of _ u] exI [of _ st] exI [of _ b]) (simp add: mkdb_files_def)
qed

theorem four_fields_undefined_witness: "pw_scan False ''joe:*:9:9'' = Undefined"
  using four_fields_undefined [of "''joe''" "''*''" "''9''" "''9''" 9 9] by (simp add: id_value_def number_value_def isspace_def isdigit_def digits_value_def)

end
