(* ===== verification/Tar.thy ===== *)
theory Tar
  imports CLib "HOL-Library.Word"
begin

unbundle bit_operations_syntax

text \<open>
  \<open>usr.bin/tar\<close> as the scripts that save and restore \<open>/etc\<close> run it, \<open>tar cfz\<close> and \<open>tar xfz\<close>: the header
  (\<open>tar.h\<close>, \<open>create.c\<close>, \<open>list.c\<close>) and the writing of an archive (\<open>create.c\<close>). All other options have their
  default, and \<open>gzip\<close> is another program. An archive is a list of records of 512 bytes; \<open>room\<close> is what
  \<open>endofrecs\<close> leaves of the block of 20 records that is being filled. \<open>int\<close> and \<open>long\<close> have 32 bits.
\<close>

subsection \<open>Headers\<close>

abbreviation NUL :: char where "NUL \<equiv> CHR 0x00"
abbreviation sp :: char where "sp \<equiv> CHR '' ''"

definition RECORDSIZE :: nat where "RECORDSIZE = 512"
definition NAMSIZ :: nat where "NAMSIZ = 100"
definition TUNMLEN :: nat where "TUNMLEN = 32"

record header =
  arch_name :: string
  h_mode :: string
  h_uid :: string
  h_gid :: string
  h_size :: string
  h_mtime :: string
  chksum :: string
  linkflag :: char
  arch_linkname :: string
  magic :: string
  h_uname :: string
  h_gname :: string
  devmajor :: string
  devminor :: string
  h_rest :: string

definition bytes :: "header \<Rightarrow> string" where
  "bytes h = arch_name h @ h_mode h @ h_uid h @ h_gid h @ h_size h @ h_mtime h @ chksum h @ [linkflag h] @
     arch_linkname h @ magic h @ h_uname h @ h_gname h @ devmajor h @ devminor h @ h_rest h"

definition zeros :: "nat \<Rightarrow> string" where
  "zeros n = replicate n NUL"

definition part :: "nat \<Rightarrow> nat \<Rightarrow> string \<Rightarrow> string" where
  "part i n r = take n (drop i r)"

definition header_of :: "string \<Rightarrow> header" where
  "header_of r =
     \<lparr>arch_name = part 0 100 r, h_mode = part 100 8 r, h_uid = part 108 8 r, h_gid = part 116 8 r, h_size = part 124 12 r,
      h_mtime = part 136 12 r, chksum = part 148 8 r, linkflag = r ! 156, arch_linkname = part 157 100 r,
      magic = part 257 8 r, h_uname = part 265 32 r, h_gname = part 297 32 r, devmajor = part 329 8 r, devminor = part 337 8 r,
      h_rest = part 345 167 r\<rparr>"

definition zero_header :: header where
  "zero_header = header_of (zeros RECORDSIZE)"

text \<open>A C string in a field, \<open>strncpy\<close> into one, and the names, which are always terminated.\<close>

definition cstr :: "string \<Rightarrow> string" where
  "cstr f = takeWhile (\<lambda>c. c \<noteq> NUL) f"

definition strncpy :: "nat \<Rightarrow> string \<Rightarrow> string" where
  "strncpy n s = take n (s @ zeros n)"

definition name_field :: "string \<Rightarrow> string" where
  "name_field s = (strncpy NAMSIZ s)[NAMSIZ - 1 := NUL]"

definition TMAGIC :: string where "TMAGIC = ''ustar  ''"
definition CHKBLANKS :: string where "CHKBLANKS = replicate 8 sp"

definition LF_OLDNORMAL :: char where "LF_OLDNORMAL = NUL"
definition LF_NORMAL :: char where "LF_NORMAL = CHR ''0''"
definition LF_LINK :: char where "LF_LINK = CHR ''1''"
definition LF_SYMLINK :: char where "LF_SYMLINK = CHR ''2''"
definition LF_CHR :: char where "LF_CHR = CHR ''3''"
definition LF_BLK :: char where "LF_BLK = CHR ''4''"
definition LF_DIR :: char where "LF_DIR = CHR ''5''"
definition LF_FIFO :: char where "LF_FIFO = CHR ''6''"
definition LF_CONTIG :: char where "LF_CONTIG = CHR ''7''"
definition LF_LONGLINK :: char where "LF_LONGLINK = CHR ''K''"
definition LF_LONGNAME :: char where "LF_LONGNAME = CHR ''L''"

subsection \<open>Octal numbers\<close>

text \<open>
  \<open>to_oct(value, digs, where)\<close>: \<open>digs - 2\<close> places for digits and blanks, a blank, and what follows is left
  alone. The shift of a negative number never reaches zero. \<open>from_oct\<close> computes in 32 bits.
\<close>

definition octal :: "int \<Rightarrow> char" where
  "octal v = char_of (48 + nat (v mod 8))"

fun oct_digits :: "nat \<Rightarrow> int \<Rightarrow> string" where
  "oct_digits 0 v = []"
| "oct_digits (Suc n) v = (if v div 8 = 0 then replicate n sp else oct_digits n (v div 8)) @ [octal v]"

definition to_oct :: "int \<Rightarrow> nat \<Rightarrow> string \<Rightarrow> string" where
  "to_oct v digs f = oct_digits (digs - 2) v @ [sp] @ drop (digs - 1) f"

definition to_long :: "int \<Rightarrow> int" where
  "to_long v = sint (word_of_int v :: 32 word)"

definition isodigit :: "char \<Rightarrow> bool" where
  "isodigit c \<longleftrightarrow> 48 \<le> (of_char c :: nat) \<and> (of_char c :: nat) \<le> 55"

fun oct_value :: "nat \<Rightarrow> 32 word \<Rightarrow> string \<Rightarrow> 32 word \<times> nat \<times> string" where
  "oct_value digs v s =
     (case s of
        c # cs \<Rightarrow> if 0 < digs \<and> isodigit c then oct_value (digs - 1) (v * 8 + (of_char c - 48)) cs else (v, digs, s)
      | [] \<Rightarrow> (v, digs, []))"

fun skip_spaces :: "nat \<Rightarrow> string \<Rightarrow> (nat \<times> string) option" where
  "skip_spaces digs [] = Some (digs, [])"
| "skip_spaces digs (c # cs) =
     (if isspace c then (if digs \<le> 1 then None else skip_spaces (digs - 1) cs) else Some (digs, c # cs))"

definition from_oct :: "nat \<Rightarrow> string \<Rightarrow> int" where
  "from_oct digs f =
     (case skip_spaces digs f of
        None \<Rightarrow> - 1
      | Some (digs, s) \<Rightarrow>
          (case oct_value digs 0 s of (v, digs, s) \<Rightarrow>
             if 0 < digs \<and> take 1 s \<noteq> [NUL] \<and> \<not> (s \<noteq> [] \<and> isspace (hd s)) then - 1 else sint v))"

subsection \<open>Files\<close>

text \<open>
  What \<open>lstat\<close> says of a file, and the files: what can be read of one, or that it cannot be opened; a
  symbolic link with its target; a directory with its entries in the order of \<open>readdir\<close>; and the rest.
\<close>

record tstat =
  st_dev :: int
  st_ino :: int
  st_nlink :: int
  st_mode :: int
  st_uid :: int
  st_gid :: int
  st_size :: int
  st_mtime :: int

datatype special = Chr int int | Blk int int | Fifo | Sock | Unknown

datatype node =
    File tstat "string option"
  | Slink tstat "string option"
  | Dir tstat "(string \<times> node) list option"
  | Special tstat special
  | Missing

fun stat_of :: "node \<Rightarrow> tstat option" where
  "stat_of (File st _) = Some st"
| "stat_of (Slink st _) = Some st"
| "stat_of (Dir st _) = Some st"
| "stat_of (Special st _) = Some st"
| "stat_of Missing = None"

text \<open>
  The machine: the names of users and groups, the file the archive itself is, what a byte of the
  buffer held before it is filled, and a byte of the stack that is never assigned.
\<close>

record tar_env =
  user_name :: "int \<Rightarrow> string option"
  group_name :: "int \<Rightarrow> string option"
  archive_file :: "(int \<times> int) option"
  stale :: "nat \<Rightarrow> char"
  minor_junk :: char

record wr =
  out :: "string list"
  linklist :: "((int \<times> int) \<times> string) list"
  tar_errors :: nat

definition userec :: "string list \<Rightarrow> wr \<Rightarrow> wr" where
  "userec rs w = w\<lparr>out := out w @ rs\<rparr>"

definition blocking :: nat where "blocking = 20"

definition room :: "nat \<Rightarrow> nat" where
  "room pos = blocking - pos mod blocking"

fun cut :: "nat \<Rightarrow> string \<Rightarrow> string list" where
  "cut 0 s = []"
| "cut (Suc n) s = take RECORDSIZE s # cut n (drop RECORDSIZE s)"

definition padded :: "string \<Rightarrow> string" where
  "padded s = s @ zeros ((RECORDSIZE - length s mod RECORDSIZE) mod RECORDSIZE)"

definition n_records :: "nat \<Rightarrow> nat" where
  "n_records n = (n + (RECORDSIZE - 1)) div RECORDSIZE"

subsection \<open>Writing headers\<close>

definition find_name :: "(int \<Rightarrow> string option) \<Rightarrow> int \<Rightarrow> string" where
  "find_name db i = strncpy TUNMLEN (case db i of None \<Rightarrow> [] | Some n \<Rightarrow> n)"

definition fill_header :: "tar_env \<Rightarrow> string \<Rightarrow> tstat \<Rightarrow> header" where
  "fill_header env name st =
     (let name = dropWhile (\<lambda>c. c = CHR ''/'') name; h = zero_header
      in h\<lparr>arch_name := name_field name,
           h_mode := to_oct (to_long (st_mode st)) 8 (h_mode h),
           h_uid := to_oct (to_long (st_uid st)) 8 (h_uid h),
           h_gid := to_oct (to_long (st_gid st)) 8 (h_gid h),
           h_size := to_oct (to_long (st_size st)) 13 (h_size h),
           h_mtime := to_oct (to_long (st_mtime st)) 13 (h_mtime h),
           linkflag := LF_NORMAL,
           magic := TMAGIC @ [NUL],
           h_uname := find_name (user_name env) (st_uid st),
           h_gname := find_name (group_name env) (st_gid st)\<rparr>)"

definition byte_sum :: "string \<Rightarrow> nat" where
  "byte_sum s = sum_list (map of_char s)"

definition finish_header :: "header \<Rightarrow> wr \<Rightarrow> wr" where
  "finish_header h w =
     (let h = h\<lparr>chksum := CHKBLANKS\<rparr>; sum = byte_sum (bytes h)
      in userec [bytes (h\<lparr>chksum := (to_oct (int sum) 8 (chksum h))[6 := NUL]\<rparr>)] w)"

definition zero_stat :: tstat where
  "zero_stat = \<lparr>st_dev = 0, st_ino = 0, st_nlink = 0, st_mode = 0, st_uid = 0, st_gid = 0, st_size = 0, st_mtime = 0\<rparr>"

text \<open>
  \<open>write_long\<close>: a header of its own and the name with its terminator. The rest of the block is cleared,
  so that the last record ends with zeros.
\<close>

definition write_long :: "tar_env \<Rightarrow> string \<Rightarrow> char \<Rightarrow> wr \<Rightarrow> wr" where
  "write_long env p ty w =
     (let s = p @ [NUL];
          w = finish_header ((fill_header env ''././@LongLink'' (zero_stat\<lparr>st_size := int (length s)\<rparr>))\<lparr>linkflag := ty\<rparr>) w
      in userec (cut (n_records (length s)) (padded s)) w)"

definition start_header :: "tar_env \<Rightarrow> string \<Rightarrow> tstat \<Rightarrow> wr \<Rightarrow> header \<times> wr" where
  "start_header env name st w =
     (fill_header env name st, if NAMSIZ \<le> length name then write_long env name LF_LONGNAME w else w)"

subsection \<open>The body of a file\<close>

text \<open>
  The loop \<open>while (sizeleft > 0)\<close>. A read fills the buffer up to the end of the block or of the file; the
  bytes behind the end of the file are cleared before. When less is read than the header promises, the
  records that were touched are used as they are, at least one, and records of zeros follow. A \<open>read\<close> that
  answers \<open>- 1\<close> is not modelled: it gives the bytes of the file as long as there are any.
\<close>

definition zero_records :: "nat \<Rightarrow> string list" where
  "zero_records n = replicate n (zeros RECORDSIZE)"

definition buffer :: "tar_env \<Rightarrow> nat \<Rightarrow> nat \<Rightarrow> nat \<Rightarrow> string" where
  "buffer env pos rm sizeleft =
     (let old = map (\<lambda>i. stale env (pos * RECORDSIZE + i)) [0..<rm * RECORDSIZE]
      in if sizeleft < rm * RECORDSIZE \<and> sizeleft mod RECORDSIZE \<noteq> 0
         then take sizeleft old @ zeros (RECORDSIZE - sizeleft mod RECORDSIZE) @
           drop (sizeleft + (RECORDSIZE - sizeleft mod RECORDSIZE)) old
         else old)"

lemma room_pos [simp]: "0 < room pos" "room pos \<noteq> 0"
  by (simp_all add: room_def blocking_def)

lemma RECORDSIZE_pos [simp]: "0 < RECORDSIZE" "RECORDSIZE \<noteq> 0"
  by (simp_all add: RECORDSIZE_def)

function dump_data :: "tar_env \<Rightarrow> nat \<Rightarrow> string \<Rightarrow> wr \<Rightarrow> wr" where
  "dump_data env sizeleft rest w =
     (if sizeleft = 0 then w
      else
        let rm = room (length (out w));
            bufsize = min sizeleft (rm * RECORDSIZE);
            count = length (take bufsize rest);
            buf = take bufsize rest @ drop count (buffer env (length (out w)) rm sizeleft);
            w = userec (cut ((count - 1) div RECORDSIZE + 1) buf) w
        in if count = bufsize then dump_data env (sizeleft - bufsize) (drop bufsize rest) w
           else userec (zero_records (n_records (sizeleft - count))) w)"
  by pat_completeness auto
termination
  by (relation "measure (\<lambda>(env, sizeleft, rest, w). sizeleft)") simp_all

declare dump_data.simps [simp del]

subsection \<open>Dumping a file\<close>

definition bad_file :: "wr \<Rightarrow> wr" where
  "bad_file w = w\<lparr>tar_errors := tar_errors w + 1\<rparr>"

definition can_link :: "node \<Rightarrow> bool" where
  "can_link n = (case n of File _ _ \<Rightarrow> True | Special _ (Chr _ _) \<Rightarrow> True | Special _ (Blk _ _) \<Rightarrow> True
     | Special _ Fifo \<Rightarrow> True | _ \<Rightarrow> False)"

definition with_link :: "header \<Rightarrow> char \<Rightarrow> string \<Rightarrow> header" where
  "with_link h ty l = h\<lparr>arch_linkname := name_field l, linkflag := ty\<rparr>"

text \<open>A header with a target, behind the records of long names.\<close>

definition dump_link :: "tar_env \<Rightarrow> string \<Rightarrow> tstat \<Rightarrow> char \<Rightarrow> string \<Rightarrow> wr \<Rightarrow> wr" where
  "dump_link env p st ty l w =
     (let w = (if NAMSIZ \<le> length l then write_long env l LF_LONGLINK w else w)
      in case start_header env p (st\<lparr>st_size := 0\<rparr>) w of (h, w) \<Rightarrow> finish_header (with_link h ty l) w)"

definition dump_regular :: "tar_env \<Rightarrow> string \<Rightarrow> tstat \<Rightarrow> string option \<Rightarrow> wr \<Rightarrow> wr" where
  "dump_regular env p st body w =
     (if (0 < to_long (st_size st) \<or> st_mode st AND 0x124 \<noteq> 0x124) \<and> body = None then bad_file w
      else case start_header env p st w of (h, w) \<Rightarrow>
        dump_data env (nat (to_long (st_size st))) (case body of None \<Rightarrow> [] | Some s \<Rightarrow> s) (finish_header h w))"

definition device_header :: "tar_env \<Rightarrow> header \<Rightarrow> char \<Rightarrow> int \<Rightarrow> int \<Rightarrow> header option" where
  "device_header env h ty major minor =
     (let f = to_oct (to_long major) 8 (devmajor h); b = to_oct (to_long minor) 9 (replicate 9 (minor_junk env))
      in if from_oct 8 f \<noteq> to_long major \<or> from_oct 9 b \<noteq> to_long minor then None
         else Some (h\<lparr>linkflag := ty, devmajor := f, devminor := take 8 (if take 1 b = [sp] then tl b else b)\<rparr>))"

definition dump_special :: "tar_env \<Rightarrow> string \<Rightarrow> tstat \<Rightarrow> special \<Rightarrow> wr \<Rightarrow> wr" where
  "dump_special env p st k w =
     (let dev = (\<lambda>ty major minor. case start_header env p (st\<lparr>st_size := 0\<rparr>) w of (h, w) \<Rightarrow>
            (case device_header env h ty major minor of None \<Rightarrow> bad_file w | Some h \<Rightarrow> finish_header h w));
          fifo = (case start_header env p (st\<lparr>st_size := 0\<rparr>) w of (h, w) \<Rightarrow> finish_header (h\<lparr>linkflag := LF_FIFO\<rparr>) w)
      in case k of Chr a b \<Rightarrow> dev LF_CHR a b | Blk a b \<Rightarrow> dev LF_BLK a b | Fifo \<Rightarrow> fifo | Sock \<Rightarrow> fifo | Unknown \<Rightarrow> w)"

text \<open>The name of a directory with one slash; \<open>"./"\<close> is left out of the names below it.\<close>

definition dir_name :: "string \<Rightarrow> string" where
  "dir_name p = rev (dropWhile (\<lambda>c. c = CHR ''/'') (rev p)) @ ''/''"

definition dir_prefix :: "string \<Rightarrow> string" where
  "dir_prefix p = (if dir_name p = ''./'' then [] else dir_name p)"

definition dump_dir_header :: "tar_env \<Rightarrow> string \<Rightarrow> tstat \<Rightarrow> wr \<Rightarrow> wr" where
  "dump_dir_header env p st w =
     (case start_header env (dir_name p) (st\<lparr>st_size := 0\<rparr>) w of (h, w) \<Rightarrow> finish_header (h\<lparr>linkflag := LF_DIR\<rparr>) w)"

definition is_archive :: "tar_env \<Rightarrow> tstat \<Rightarrow> bool" where
  "is_archive env st \<longleftrightarrow> archive_file env = Some (st_dev st, st_ino st) \<and> st_dev st \<noteq> 0"

fun dump_file :: "tar_env \<Rightarrow> string \<Rightarrow> node \<Rightarrow> wr \<Rightarrow> wr"
  and dump_entries :: "tar_env \<Rightarrow> string \<Rightarrow> (string \<times> node) list \<Rightarrow> wr \<Rightarrow> wr" where
  "dump_file env p n w =
     (case stat_of n of
        None \<Rightarrow> bad_file w
      | Some st \<Rightarrow>
          if is_archive env st then w
          else
            let linked = (if 1 < st_nlink st \<and> can_link n then map_of (linklist w) (st_dev st, st_ino st) else None);
                w = (if 1 < st_nlink st \<and> can_link n \<and> linked = None
                     then w\<lparr>linklist := ((st_dev st, st_ino st), p) # linklist w\<rparr> else w)
            in case linked of
                 Some l \<Rightarrow> dump_link env p st LF_LINK (dropWhile (\<lambda>c. c = CHR ''/'') l) w
               | None \<Rightarrow>
                   (case n of
                      File st body \<Rightarrow> dump_regular env p st body w
                    | Slink st None \<Rightarrow> bad_file w
                    | Slink st (Some l) \<Rightarrow> dump_link env p st LF_SYMLINK (take 1024 l) w
                    | Special st k \<Rightarrow> dump_special env p st k w
                    | Dir st None \<Rightarrow> dump_dir_header env p st w
                    | Dir st (Some es) \<Rightarrow> dump_entries env (dir_prefix p) es (dump_dir_header env p st w)
                    | Missing \<Rightarrow> w))"
| "dump_entries env pre [] w = w"
| "dump_entries env pre ((f, n) # es) w =
     dump_entries env pre es (if f = ''.'' \<or> f = ''..'' then w else dump_file env (pre @ f) n w)"

text \<open>The end: records of zeros to the end of the block, at least one.\<close>

definition write_eot :: "wr \<Rightarrow> wr" where
  "write_eot w = userec (zero_records (room (length (out w)))) w"

definition create_archive :: "tar_env \<Rightarrow> (string \<times> node) list \<Rightarrow> wr" where
  "create_archive env names =
     write_eot (fold (\<lambda>(p, n). dump_file env p n) names \<lparr>out = [], linklist = [], tar_errors = 0\<rparr>)"

end
