(* ===== verification/TarRead.thy ===== *)
theory TarRead
  imports Tar
begin

text \<open>
  \<open>usr.bin/tar\<close>: reading an archive and extracting it (\<open>list.c\<close>, \<open>extract.c\<close>) as \<open>tar xfz\<close> does for root.
  The file system is the kernel's: a parameter that answers requests. Sparse files and mangled
  names, which \<open>tar cfz\<close> does not write, are left out: for them, and where tar ends early, the value is \<open>None\<close>.
\<close>

subsection \<open>Headers\<close>

text \<open>
  The reader: the records that are left and how many were used. \<open>take_data\<close> is one round of the loops
  that copy data out of the archive; \<open>None\<close> is the end of the archive.
\<close>

record rd =
  left :: "string list"
  used :: nat

definition take_data :: "nat \<Rightarrow> rd \<Rightarrow> (string \<times> rd) option" where
  "take_data sz r =
     (if left r = [] then None
      else
        let written = min (min (room (used r)) (length (left r)) * RECORDSIZE) sz;
            n = n_records written
        in Some (take written (concat (take n (left r))), \<lparr>left = drop n (left r), used = used r + n\<rparr>))"

definition skip1 :: "rd \<Rightarrow> rd" where
  "skip1 r = \<lparr>left = tl (left r), used = used r + 1\<rparr>"

function read_data :: "nat \<Rightarrow> rd \<Rightarrow> string \<times> rd" where
  "read_data sz r =
     (if sz = 0 then ([], r)
      else case take_data sz r of
        None \<Rightarrow> ([], r)
      | Some (d, r') \<Rightarrow> if d = [] then ([], r') else (case read_data (sz - length d) r' of (e, r'') \<Rightarrow> (d @ e, r'')))"
  by pat_completeness auto
termination
  by (relation "measure (\<lambda>(sz, r). sz)") auto

declare read_data.simps [simp del]

lemma read_data_left: "read_data sz r = (d, r') \<Longrightarrow> length (left r') \<le> length (left r)"
proof (induction sz r arbitrary: d r' rule: read_data.induct)
  case (1 sz r)
  then show ?case
    by (auto simp: read_data.simps [of sz r] take_data_def Let_def split: if_splits option.splits prod.splits) fastforce
qed

text \<open>The two sums of \<open>read_header\<close>, with the checksum counted as blanks; the second takes bytes as signed.\<close>

definition signed_sum :: "string \<Rightarrow> int" where
  "signed_sum s = sum_list (map (\<lambda>c. sint (word_of_nat (of_char c) :: 8 word)) s)"

definition header_sums :: "string \<Rightarrow> int \<times> int" where
  "header_sums r =
     (let h = header_of r
      in (int (byte_sum r) - int (byte_sum (chksum h)) + 8 * 32, signed_sum r - signed_sum (chksum h) + 8 * 32))"

record tar_member =
  m_head :: header
  m_name :: string
  m_link :: string
  m_size :: int

datatype read_result = End | Bad | Zero | Member tar_member

text \<open>
  \<open>read_header\<close>: the names of records of long names are kept for the header that follows. A name that was
  read is a C string. The size is read from a field of 12 characters as if it had 13.
\<close>

definition header_size :: "header \<Rightarrow> int" where
  "header_size h = (if linkflag h = LF_LINK then 0 else from_oct 13 (h_size h @ h_mtime h))"

type_synonym long_names = "string option \<times> string option"

function read_header :: "long_names \<Rightarrow> rd \<Rightarrow> read_result \<times> long_names \<times> rd" where
  "read_header ln r =
     (case left r of
        [] \<Rightarrow> (End, ln, r)
      | rec # _ \<Rightarrow>
          let h = header_of rec; recsum = from_oct 8 (chksum h); (sum, ssum) = header_sums rec in
          if sum = 8 * 32 then (Zero, ln, r)
          else if sum \<noteq> recsum \<and> ssum \<noteq> recsum then (Bad, ln, r)
          else
            let h = h\<lparr>arch_name := (arch_name h)[NAMSIZ - 1 := NUL]\<rparr>; sz = header_size h in
            if linkflag h = LF_LONGNAME \<or> linkflag h = LF_LONGLINK then
              (case read_data (nat sz) (skip1 r) of (d, r') \<Rightarrow>
                 read_header (if linkflag h = LF_LONGNAME then (Some (cstr d), snd ln) else (fst ln, Some (cstr d))) r')
            else
              (Member \<lparr>m_head = h, m_name = (case fst ln of Some s \<Rightarrow> s | None \<Rightarrow> cstr (arch_name h)),
                 m_link = (case snd ln of Some s \<Rightarrow> s | None \<Rightarrow> cstr (arch_linkname h @ magic h)), m_size = sz\<rparr>,
               (None, None), r))"
  by pat_completeness auto
termination
  by (relation "measure (\<lambda>(n, r). length (left r))") (auto dest!: read_data_left [OF sym] simp: skip1_def)

declare read_header.simps [simp del]

subsection \<open>The requests to the kernel\<close>

datatype request =
    Open string int
  | Write string string
  | Chown string int int
  | Utime string int
  | Chmod string int
  | Mkdir string int
  | Is_dir string
  | Link string string
  | Same_file string string
  | Symlink string string
  | Mknod string int int int
  | Mkfifo string int

datatype reply = Done | Enoent | Eexist | Failed | Wrote nat

type_synonym 'fs kernel = "request \<Rightarrow> 'fs \<Rightarrow> reply \<times> 'fs"

record tar_user =
  user_id :: "string \<Rightarrow> int"
  group_id :: "string \<Rightarrow> int"
  umask :: int

record 'fs ex =
  fs :: 'fs
  saved_dirs :: "(string \<times> int \<times> int) list"

definition ask :: "'fs kernel \<Rightarrow> request \<Rightarrow> 'fs ex \<Rightarrow> reply \<times> 'fs ex" where
  "ask k q e = (case k q (fs e) of (a, f) \<Rightarrow> (a, e\<lparr>fs := f\<rparr>))"

definition tell :: "'fs kernel \<Rightarrow> request \<Rightarrow> 'fs ex \<Rightarrow> 'fs ex" where
  "tell k q e = snd (ask k q e)"

text \<open>\<open>make_dirs\<close>: the directories above a path, but not the empty one nor one that ends in a lone dot.\<close>

definition dirs_above :: "string \<Rightarrow> string list" where
  "dirs_above p = map (\<lambda>i. take i p)
     (filter (\<lambda>i. p ! i = CHR ''/'' \<and> i \<noteq> 0 \<and> p ! (i - 1) \<noteq> CHR ''/'' \<and>
        \<not> (p ! (i - 1) = CHR ''.'' \<and> (i = 1 \<or> p ! (i - 2) = CHR ''/''))) [0..<length p])"

fun make_each :: "'fs kernel \<Rightarrow> int \<Rightarrow> int \<Rightarrow> string list \<Rightarrow> 'fs ex \<Rightarrow> bool \<times> 'fs ex" where
  "make_each k u g [] e = (False, e)"
| "make_each k u g (d # ds) e =
     (case ask k (Mkdir d 0x1FF) e of
        (Done, e) \<Rightarrow> (True, snd (make_each k u g ds (tell k (Chown d u g) e)))
      | (Eexist, e) \<Rightarrow> make_each k u g ds e
      | (_, e) \<Rightarrow> (False, e))"

definition make_dirs :: "'fs kernel \<Rightarrow> reply \<Rightarrow> int \<Rightarrow> int \<Rightarrow> string \<Rightarrow> 'fs ex \<Rightarrow> bool \<times> 'fs ex" where
  "make_dirs k a u g p e = (if a \<noteq> Enoent then (False, e) else make_each k u g (dirs_above p) e)"

text \<open>
  A request that is made again when directories above were made. \<open>n\<close> bounds the repetitions: a kernel
  that makes the same directories for ever gives \<open>None\<close>.
\<close>

fun insist :: "nat \<Rightarrow> 'fs kernel \<Rightarrow> request \<Rightarrow> int \<Rightarrow> int \<Rightarrow> string \<Rightarrow> 'fs ex \<Rightarrow> (reply \<times> 'fs ex) option" where
  "insist 0 k q u g p e = None"
| "insist (Suc n) k q u g p e =
     (case ask k q e of (a, e) \<Rightarrow>
        if a = Done then Some (Done, e)
        else case make_dirs k a u g p e of (made, e) \<Rightarrow> if made then insist n k q u g p e else Some (a, e))"


subsection \<open>Extracting\<close>

definition LF_DUMPDIR :: char where "LF_DUMPDIR = CHR ''D''"
definition LF_MULTIVOL :: char where "LF_MULTIVOL = CHR ''M''"
definition LF_NAMES :: char where "LF_NAMES = CHR ''N''"
definition LF_SPARSE :: char where "LF_SPARSE = CHR ''S''"
definition LF_VOLHDR :: char where "LF_VOLHDR = CHR ''V''"

definition find_id :: "(string \<Rightarrow> int) \<Rightarrow> string \<Rightarrow> string \<Rightarrow> int" where
  "find_id db name f = (if take 1 name = [NUL] \<or> name = [] then from_oct 8 f else db (cstr name))"

definition standard :: "header \<Rightarrow> bool" where
  "standard h \<longleftrightarrow> cstr (magic h @ h_uname h) = TMAGIC"

text \<open>\<open>decode_header\<close>: the mode, the time, and the owner by name where the archive has names.\<close>

definition decode_header :: "tar_user \<Rightarrow> header \<Rightarrow> tstat" where
  "decode_header us h =
     zero_stat\<lparr>st_mode := from_oct 8 (h_mode h) AND 0xFFF,
       st_mtime := from_oct 13 (h_mtime h @ chksum h),
       st_uid := (if standard h then find_id (user_id us) (h_uname h) (h_uid h) else from_oct 8 (h_uid h)),
       st_gid := (if standard h then find_id (group_id us) (h_gname h) (h_gid h) else from_oct 8 (h_gid h))\<rparr>"

definition skip_file :: "int \<Rightarrow> rd \<Rightarrow> rd option" where
  "skip_file sz r =
     (let n = n_records (nat sz)
      in if length (left r) < n then None else Some \<lparr>left = drop n (left r), used = used r + n\<rparr>)"

function write_file :: "'fs kernel \<Rightarrow> string \<Rightarrow> nat \<Rightarrow> rd \<Rightarrow> 'fs ex \<Rightarrow> (rd \<times> 'fs ex) option" where
  "write_file k p sz r e =
     (if sz = 0 then Some (r, e)
      else case take_data sz r of
        None \<Rightarrow> Some (r, e)
      | Some (d, r) \<Rightarrow>
          (case ask k (Write p d) e of (a, e) \<Rightarrow>
             if a = Done then (if d = [] then None else write_file k p (sz - length d) r e)
             else map_option (\<lambda>r. (r, e)) (skip_file (int (sz - length d)) r)))"
  by pat_completeness auto
termination
  by (relation "measure (\<lambda>(k, p, sz, r, e). sz)") auto

declare write_file.simps [simp del]

definition set_filestat :: "'fs kernel \<Rightarrow> tar_user \<Rightarrow> string \<Rightarrow> tstat \<Rightarrow> 'fs ex \<Rightarrow> 'fs ex" where
  "set_filestat k us p st e =
     tell k (Chmod p (NOT (umask us) AND st_mode st)) (tell k (Utime p (st_mtime st)) (tell k (Chown p (st_uid st) (st_gid st)) e))"

definition extract_regular :: "'fs kernel \<Rightarrow> tar_user \<Rightarrow> string \<Rightarrow> tstat \<Rightarrow> int \<Rightarrow> rd \<Rightarrow> 'fs ex \<Rightarrow> (rd \<times> 'fs ex) option" where
  "extract_regular k us p st sz r e =
     Option.bind (insist (length p + 1) k (Open p (st_mode st)) (st_uid st) (st_gid st) p e) (\<lambda>(a, e).
       if a \<noteq> Done then map_option (\<lambda>r. (r, e)) (skip_file sz r)
       else Option.bind (write_file k p (nat sz) r e) (\<lambda>(r, e). Some (r, set_filestat k us p st e)))"

text \<open>
  A directory: what is there already is left as it is, but for the current one; the time and the mode of a
  new one are set when all is done.
\<close>

definition strip_slashes :: "string \<Rightarrow> string" where
  "strip_slashes p = (if p = [] then [] else hd p # rev (dropWhile (\<lambda>c. c = CHR ''/'') (rev (tl p))))"

definition ends_in_dot :: "string \<Rightarrow> bool" where
  "ends_in_dot p \<longleftrightarrow> take 1 (rev p) = ''.'' \<and> (length p = 1 \<or> take 2 (rev p) = ''./'')"

definition extract_dir :: "'fs kernel \<Rightarrow> string \<Rightarrow> tstat \<Rightarrow> 'fs ex \<Rightarrow> 'fs ex option" where
  "extract_dir k p st e =
     (let p = strip_slashes p;
          ready = (\<lambda>e. (tell k (Chown p (st_uid st) (st_gid st)) e)
            \<lparr>saved_dirs := (p, st_mode st, st_mtime st) # saved_dirs e\<rparr>)
      in Option.bind (insist (length p + 1) k (Mkdir p (st_mode st)) (st_uid st) (st_gid st) p e) (\<lambda>(a, e).
           if a = Done \<or> ends_in_dot p then Some (ready e)
           else if a = Eexist then Some (tell k (Is_dir p) e)
           else Some e))"

definition extract_link :: "'fs kernel \<Rightarrow> request \<Rightarrow> tstat \<Rightarrow> string \<Rightarrow> 'fs ex \<Rightarrow> (reply \<times> 'fs ex) option" where
  "extract_link k q st p e = insist (length p + 1) k q (st_uid st) (st_gid st) p e"

definition device_no :: "header \<Rightarrow> int \<times> int" where
  "device_no h = (if standard h then (from_oct 8 (devmajor h), from_oct 8 (devminor h)) else (0, 0))"

definition extract_node :: "'fs kernel \<Rightarrow> tar_user \<Rightarrow> request \<Rightarrow> tstat \<Rightarrow> string \<Rightarrow> 'fs ex \<Rightarrow> 'fs ex option" where
  "extract_node k us q st p e =
     Option.bind (extract_link k q st p e) (\<lambda>(a, e). Some (if a = Done then set_filestat k us p st e else e))"

definition S_IFCHR :: int where "S_IFCHR = 0x2000"
definition S_IFBLK :: int where "S_IFBLK = 0x6000"

definition extract_archive :: "'fs kernel \<Rightarrow> tar_user \<Rightarrow> tar_member \<Rightarrow> rd \<Rightarrow> 'fs ex \<Rightarrow> (rd \<times> 'fs ex) option" where
  "extract_archive k us m r e =
     (let h = m_head m; st = decode_header us h; p = dropWhile (\<lambda>c. c = CHR ''/'') (m_name m); r = skip1 r; c = linkflag h;
          only = map_option (\<lambda>e. (r, e))
      in if c = LF_LINK then
           only (Option.bind (extract_link k (Link (m_link m) p) st p e) (\<lambda>(a, e).
             Some (if a = Done then e else tell k (Same_file (m_link m) p) e)))
         else if c = LF_SYMLINK then only (map_option snd (extract_link k (Symlink (m_link m) p) st p e))
         else if c = LF_CHR \<or> c = LF_BLK then
           (let st = st\<lparr>st_mode := st_mode st OR (if c = LF_CHR then S_IFCHR else S_IFBLK)\<rparr>; d = device_no h
            in only (extract_node k us (Mknod p (st_mode st) (fst d) (snd d)) st p e))
         else if c = LF_FIFO then only (extract_node k us (Mkfifo p (st_mode st)) st p e)
         else if c = LF_DUMPDIR then
           Option.bind (skip_file (m_size m) r) (\<lambda>r. map_option (\<lambda>e. (r, e)) (extract_dir k p st e))
         else if c = LF_DIR \<or> (c \<in> {LF_OLDNORMAL, LF_NORMAL, LF_CONTIG} \<and> take 1 (rev p) = ''/'')
           then only (extract_dir k p st e)
         else if c = LF_VOLHDR then Some (r, e)
         else if c = LF_MULTIVOL then map_option (\<lambda>r. (r, e)) (skip_file (m_size m) r)
         else if c = LF_SPARSE \<or> c = LF_NAMES then None
         else extract_regular k us p st (m_size m) r e)"

text \<open>The directories at the end, the last one made first.\<close>

definition restore_dir :: "'fs kernel \<Rightarrow> tar_user \<Rightarrow> string \<times> int \<times> int \<Rightarrow> 'fs ex \<Rightarrow> 'fs ex" where
  "restore_dir k us d e =
     (case d of (p, mode, mtime) \<Rightarrow> tell k (Chmod p (NOT (umask us) AND mode)) (tell k (Utime p mtime) e))"

definition restore_saved_dir_info :: "'fs kernel \<Rightarrow> tar_user \<Rightarrow> 'fs ex \<Rightarrow> 'fs ex" where
  "restore_saved_dir_info k us e = fold (restore_dir k us) (saved_dirs e) (e\<lparr>saved_dirs := []\<rparr>)"


subsection \<open>The main loop\<close>

lemma take_data_left: "take_data sz r = Some (d, r') \<Longrightarrow> length (left r') \<le> length (left r)"
  by (auto simp: take_data_def Let_def split: if_splits)

lemma skip_file_left: "skip_file sz r = Some r' \<Longrightarrow> length (left r') \<le> length (left r)"
  by (auto simp: skip_file_def Let_def split: if_splits)

lemma write_file_left: "write_file k p sz r e = Some (r', e') \<Longrightarrow> length (left r') \<le> length (left r)"
proof (induction k p sz r e rule: write_file.induct)
  case (1 k p sz r e)
  then show ?case
    by (auto simp: write_file.simps [of k p sz r e] split: if_splits option.splits prod.splits
        dest!: take_data_left skip_file_left) (fastforce dest: take_data_left)+
qed

lemma extract_archive_left:
  assumes "extract_archive k us m r e = Some (r', e')" and "left r \<noteq> []"
  shows "length (left r') < length (left r)"
proof -
  have l: "length (left (skip1 r)) < length (left r)"
    using assms(2) by (simp add: skip1_def)
  have "length (left r') \<le> length (left (skip1 r))"
    using assms(1)
    by (auto simp: extract_archive_def Let_def extract_regular_def split: if_splits bind_splits
        dest!: skip_file_left write_file_left)
  then show ?thesis using l by simp
qed

lemma skip1_less: "left r' \<noteq> [] \<Longrightarrow> length (left r') \<le> n \<Longrightarrow> length (left (skip1 r')) < n"
  by (cases "left r'") (auto simp: skip1_def)

lemma read_header_left:
  "read_header ln r = (a, ln', r') \<Longrightarrow> length (left r') \<le> length (left r) \<and> (a = Bad \<or> (\<exists>m. a = Member m) \<longrightarrow> left r' \<noteq> [])"
proof (induction ln r rule: read_header.induct)
  case (1 ln r)
  show ?case
  proof (cases "left r")
    case Nil
    then show ?thesis using "1.prems" by (simp add: read_header.simps [of ln r])
  next
    case (Cons a rs)
    let ?h = "(header_of a)\<lparr>arch_name := (arch_name (header_of a))[NAMSIZ - 1 := NUL]\<rparr>"
    obtain d s where d: "read_data (nat (header_size ?h)) (skip1 r) = (d, s)" by fastforce
    obtain x y where xy: "header_sums a = (x, y)" by fastforce
    have "length (left s) \<le> length (left r)"
      using read_data_left [OF d] by (simp add: skip1_def)
    then show ?thesis
      using "1.prems" "1.IH" [OF Cons refl refl refl xy [symmetric] _ _ refl refl _ d [symmetric]] Cons d xy
      by (auto simp: read_header.simps [of ln r] Let_def split: if_splits)
  qed
qed

text \<open>\<open>read_and\<close>: bad headers are skipped, and a record of zeros ends the archive.\<close>

function read_and :: "'fs kernel \<Rightarrow> tar_user \<Rightarrow> long_names \<Rightarrow> rd \<Rightarrow> 'fs ex \<Rightarrow> 'fs ex option" where
  "read_and k us ln r e =
     (case read_header ln r of
        (Member m, ln, r) \<Rightarrow> (case extract_archive k us m r e of None \<Rightarrow> None | Some (r, e) \<Rightarrow> read_and k us ln r e)
      | (Bad, ln, r) \<Rightarrow> read_and k us ln (skip1 r) e
      | (_, ln, r) \<Rightarrow> Some (restore_saved_dir_info k us e))"
  by pat_completeness auto
termination
  by (relation "measure (\<lambda>(k, us, ln, r, e). length (left r))")
    (auto dest!: read_header_left [OF sym] extract_archive_left intro: skip1_less dest: less_le_trans)

declare read_and.simps [simp del]

definition tar_extract :: "'fs kernel \<Rightarrow> tar_user \<Rightarrow> string list \<Rightarrow> 'fs \<Rightarrow> 'fs option" where
  "tar_extract k us recs f =
     map_option fs (read_and k us (None, None) \<lparr>left = recs, used = 0\<rparr> \<lparr>fs = f, saved_dirs = []\<rparr>)"

end
