(* ===== verification/TarProps.thy ===== *)
theory TarProps
  imports TarRead
begin

text \<open>
  Properties of \<open>tar\<close>: octal fields and headers are read back as they were written, for names of any
  length, and what is extracted from an archive of a directory is what was put in.
\<close>

subsection \<open>Octal numbers\<close>

lemma isodigit_octal: "isodigit (octal v)" and octal_value: "of_char (octal v) - (48 :: int) = v mod 8"
proof -
  have l: "nat (v mod 8) < 8" by simp
  then have n: "(of_char (octal v) :: nat) = 48 + nat (v mod 8)"
    by (simp add: octal_def)
  then show "isodigit (octal v)" using l by (simp add: isodigit_def)
  have "int (of_char (octal v)) = 48 + v mod 8" unfolding n by simp
  then show "of_char (octal v) - (48 :: int) = v mod 8" by (simp only: of_nat_of_char)
qed

definition oct_read :: "string \<Rightarrow> int" where
  "oct_read ds = foldl (\<lambda>a c. a * 8 + (of_char c - 48)) 0 ds"

lemma oct_digits_form:
  assumes "0 \<le> v" and "v < 8 ^ n" and "0 < n"
  shows "\<exists>k ds. oct_digits n v = replicate k sp @ ds \<and> ds \<noteq> [] \<and> (\<forall>c \<in> set ds. isodigit c) \<and> oct_read ds = v \<and> k + length ds = n"
  using assms
proof (induction n arbitrary: v)
  case (Suc n)
  have o: "isodigit (octal v)" "of_char (octal v) - (48 :: int) = v mod 8" by (rule isodigit_octal octal_value)+
  show ?case
  proof (cases "v div 8 = 0")
    case True
    then have "v mod 8 = v" using Suc.prems(1) by presburger
    then show ?thesis
      using True o by (intro exI [of _ n] exI [of _ "[octal v]"]) (simp add: oct_read_def)
  next
    case False
    then have "0 < n" using Suc.prems by (cases n) auto
    moreover have "0 \<le> v div 8" "v div 8 < 8 ^ n" using Suc.prems by (auto simp: pos_imp_zdiv_nonneg_iff)
    ultimately obtain k ds where "oct_digits n (v div 8) = replicate k sp @ ds" "ds \<noteq> []" "\<forall>c \<in> set ds. isodigit c"
      "oct_read ds = v div 8" "k + length ds = n"
      using Suc.IH by blast
    then show ?thesis
      using False o by (intro exI [of _ k] exI [of _ "ds @ [octal v]"]) (auto simp: oct_read_def)
  qed
qed simp

lemma length_oct_digits [simp]: "length (oct_digits n v) = n"
  by (induction n arbitrary: v) auto

lemma isodigit_not_space: "isodigit c \<Longrightarrow> \<not> isspace c"
  by (auto simp: isodigit_def isspace_def)

lemma skip_spaces_blanks:
  "k < digs \<Longrightarrow> ds \<noteq> [] \<Longrightarrow> \<not> isspace (hd ds) \<Longrightarrow> skip_spaces digs (replicate k sp @ ds @ r) = Some (digs - k, ds @ r)"
proof (induction k arbitrary: digs)
  case 0
  then show ?case by (cases ds) auto
next
  case (Suc k)
  then show ?case by (auto simp: isspace_def)
qed

lemma oct_value_digits:
  assumes "\<forall>c \<in> set ds. isodigit c" and "length ds < digs" and "\<not> isodigit e"
  shows "oct_value digs v (ds @ e # r) =
    (word_of_int (foldl (\<lambda>a c. a * 8 + (of_char c - 48)) (uint v) ds), digs - length ds, e # r)"
  using assms(1,2)
proof (induction ds arbitrary: digs v)
  case Nil
  then show ?case using assms(3) by (simp add: oct_value.simps)
next
  case (Cons c ds)
  have w: "v * 8 + (of_char c - 48) = word_of_int (uint v * 8 + (of_char c - 48))"
  proof -
    have "(of_char c :: 32 word) = word_of_int (of_char c)"
      by (metis of_int_of_nat_eq of_nat_of_char)
    then show ?thesis by simp
  qed
  have f: "word_of_int (foldl (\<lambda>a c. a * 8 + (of_char c - 48)) (uint (word_of_int i :: 32 word)) ds) =
      (word_of_int (foldl (\<lambda>a c. a * 8 + (of_char c - 48)) i ds) :: 32 word)" for i
  proof (induction ds arbitrary: i rule: rev_induct)
    case Nil
    then show ?case by simp
  next
    case (snoc d ds)
    then show ?case by simp
  qed
  show ?case
    using Cons f [of "uint v * 8 + (of_char c - 48)"] by (subst oct_value.simps) (simp add: w del: oct_value.simps)
qed

lemma from_oct_digits:
  assumes "0 \<le> v" and "v < 8 ^ n" and "v < 2 ^ 31" and "0 < n" and "n < digs" and "e = sp \<or> e = NUL"
  shows "from_oct digs (oct_digits n v @ e # r) = v"
proof -
  obtain k ds where d: "oct_digits n v = replicate k sp @ ds" "ds \<noteq> []" "\<forall>c \<in> set ds. isodigit c" "oct_read ds = v" "k + length ds = n"
    using oct_digits_form [OF assms(1,2,4)] by blast
  have "\<not> isodigit e" using assms(6) by (auto simp: isodigit_def)
  then have v: "oct_value (digs - k) 0 (ds @ e # r) = (word_of_int v, digs - k - length ds, e # r)"
    using oct_value_digits [OF d(3), of "digs - k" e 0 r] d(4,5) assms(5) by (simp add: oct_read_def)
  have s: "skip_spaces digs (replicate k sp @ ds @ e # r) = Some (digs - k, ds @ e # r)"
    using d assms(5) isodigit_not_space by (intro skip_spaces_blanks) (cases ds; auto)+
  have "sint (word_of_int v :: 32 word) = v"
    using assms(1,3) by (simp add: signed_of_int signed_take_bit_int_eq_self)
  then show ?thesis
    using s v assms(6) by (auto simp: from_oct_def d(1) isspace_def simp del: oct_value.simps)
qed


subsection \<open>Headers\<close>

definition h_ok :: "header \<Rightarrow> bool" where
  "h_ok h \<longleftrightarrow> length (arch_name h) = 100 \<and> length (h_mode h) = 8 \<and> length (h_uid h) = 8 \<and> length (h_gid h) = 8 \<and>
     length (h_size h) = 12 \<and> length (h_mtime h) = 12 \<and> length (chksum h) = 8 \<and> length (arch_linkname h) = 100 \<and>
     length (magic h) = 8 \<and> length (h_uname h) = 32 \<and> length (h_gname h) = 32 \<and> length (devmajor h) = 8 \<and>
     length (devminor h) = 8 \<and> length (h_rest h) = 167"

lemma length_bytes: "h_ok h \<Longrightarrow> length (bytes h) = RECORDSIZE"
  by (simp add: h_ok_def bytes_def RECORDSIZE_def)

lemma header_of_bytes: "h_ok h \<Longrightarrow> header_of (bytes h) = h"
  by (cases h) (simp add: h_ok_def bytes_def header_of_def part_def nth_append)

lemma lengths [simp]:
  "length (zeros n) = n" "length (strncpy n s) = n" "length (name_field s) = 100" "length TMAGIC = 7" "length CHKBLANKS = 8"
  by (simp_all add: zeros_def strncpy_def name_field_def NAMSIZ_def TMAGIC_def CHKBLANKS_def)

lemma length_find_name [simp]: "length (find_name db i) = 32"
  by (simp add: find_name_def TUNMLEN_def)

lemma zero_header_ok: "h_ok zero_header"
  by (simp add: h_ok_def zero_header_def header_of_def part_def RECORDSIZE_def)

lemma fill_header_ok: "h_ok (fill_header env name st)"
  using zero_header_ok by (simp add: h_ok_def fill_header_def Let_def to_oct_def)

lemma byte_sum_append [simp]: "byte_sum [] = 0" "byte_sum (a @ b) = byte_sum a + byte_sum b" "byte_sum (c # s) = of_char c + byte_sum s"
  by (simp_all add: byte_sum_def)

lemma byte_sum_bound: "byte_sum s \<le> 255 * length s"
proof (induction s)
  case (Cons c s)
  have "(of_char c :: nat) \<le> 255" using nat_of_char_less_256 [of c] by linarith
  then show ?case using Cons by (simp add: byte_sum_def)
qed (simp add: byte_sum_def)

definition head_sum :: "header \<Rightarrow> nat" where
  "head_sum h = byte_sum (bytes (h\<lparr>chksum := CHKBLANKS\<rparr>))"

definition finished :: "header \<Rightarrow> header" where
  "finished h = h\<lparr>chksum := oct_digits 6 (int (head_sum h)) @ [NUL, sp]\<rparr>"

lemma finish_header_eq: "finish_header h w = userec [bytes (finished h)] w"
proof -
  have "drop 7 CHKBLANKS = [sp]" by code_simp
  then have "(to_oct v 8 CHKBLANKS)[6 := NUL] = oct_digits 6 v @ [NUL, sp]" for v
    by (simp add: to_oct_def list_update_append)
  then show ?thesis
    by (simp add: finish_header_def finished_def head_sum_def Let_def)
qed

lemma finished_ok: "h_ok h \<Longrightarrow> h_ok (finished h)"
  by (simp add: finished_def h_ok_def)

lemma head_sum_bound: "h_ok h \<Longrightarrow> head_sum h < 8 ^ 6"
proof -
  assume "h_ok h"
  then have "length (bytes (h\<lparr>chksum := CHKBLANKS\<rparr>)) = 512"
    by (simp add: h_ok_def bytes_def)
  then show ?thesis
    using byte_sum_bound [of "bytes (h\<lparr>chksum := CHKBLANKS\<rparr>)"] by (simp add: head_sum_def)
qed

lemma header_sums_finished:
  assumes "h_ok h"
  shows "fst (header_sums (bytes (finished h))) = int (head_sum h)"
proof -
  have h: "header_of (bytes (finished h)) = finished h"
    using assms by (simp add: header_of_bytes finished_ok)
  have "byte_sum CHKBLANKS = 256" by code_simp
  then show ?thesis
    unfolding header_sums_def h Let_def
    by (simp add: bytes_def head_sum_def finished_def)
qed

lemma read_checksum:
  assumes "h_ok h"
  shows "from_oct 8 (chksum (finished h)) = int (head_sum h)"
  using head_sum_bound [OF assms] from_oct_digits [of "int (head_sum h)" 6 8 NUL "[sp]"]
  by (simp add: finished_def)

lemma head_sum_magic: "magic h = TMAGIC @ [NUL] \<Longrightarrow> head_sum h \<noteq> 256"
  by (simp add: head_sum_def bytes_def byte_sum_def CHKBLANKS_def TMAGIC_def)

lemma fill_header_sel:
  "magic (fill_header env name st) = TMAGIC @ [NUL]" "linkflag (fill_header env name st) = LF_NORMAL"
  by (simp_all add: fill_header_def Let_def)

text \<open>A header that was finished is read as a member, or as the header of a long name.\<close>

lemma read_finished:
  assumes "h_ok h" and "magic h = TMAGIC @ [NUL]" and "left r = bytes (finished h) # rs" and "arch_name h ! 99 = NUL"
  shows "read_header ln r =
    (if linkflag h = LF_LONGNAME \<or> linkflag h = LF_LONGLINK then
       (case read_data (nat (header_size h)) (skip1 r) of (d, r') \<Rightarrow>
          read_header (if linkflag h = LF_LONGNAME then (Some (cstr d), snd ln) else (fst ln, Some (cstr d))) r')
     else (Member \<lparr>m_head = finished h, m_name = (case fst ln of Some s \<Rightarrow> s | None \<Rightarrow> cstr (arch_name h)),
        m_link = (case snd ln of Some s \<Rightarrow> s | None \<Rightarrow> cstr (arch_linkname h @ magic h)), m_size = header_size h\<rparr>, (None, None), r))"
proof -
  have h: "header_of (bytes (finished h)) = finished h"
    using assms(1) by (simp add: header_of_bytes finished_ok)
  obtain y where s: "header_sums (bytes (finished h)) = (int (head_sum h), y)"
    using header_sums_finished [OF assms(1)] by (metis prod.collapse)
  have f: "linkflag (finished h) = linkflag h" "arch_name (finished h) = arch_name h" "arch_linkname (finished h) = arch_linkname h"
    "magic (finished h) = magic h" "header_size (finished h) = header_size h"
    by (simp_all add: finished_def header_size_def)
  have n: "(finished h)\<lparr>arch_name := (arch_name h)[NAMSIZ - Suc 0 := NUL]\<rparr> = finished h"
    using assms(4) f(2) list_update_id [of "arch_name h" 99] by (simp add: NAMSIZ_def)
  have c: "int (head_sum h) \<noteq> 8 * 32" using head_sum_magic [OF assms(2)] by linarith
  show ?thesis
    using c by (subst read_header.simps) (simp add: assms(3) h s Let_def read_checksum [OF assms(1)] f n split: option.split)
qed


subsection \<open>Bodies\<close>

definition body_recs :: "string \<Rightarrow> string list" where
  "body_recs s = cut (n_records (length s)) (padded s)"

lemma length_cut [simp]: "length (cut n s) = n"
  by (induction n arbitrary: s) auto

lemma concat_cut: "n * RECORDSIZE \<le> length s \<Longrightarrow> concat (cut n s) = take (n * RECORDSIZE) s"
proof (induction n arbitrary: s)
  case (Suc n)
  then have "concat (cut n (drop RECORDSIZE s)) = take (n * RECORDSIZE) (drop RECORDSIZE s)" by simp
  then show ?case by (simp add: take_add)
qed simp

lemma take_cut: "m \<le> n \<Longrightarrow> take m (cut n s) = cut m s"
proof (induction m arbitrary: n s)
  case (Suc m)
  then show ?case by (cases n) auto
qed simp

lemma drop_cut: "drop m (cut n s) = cut (n - m) (drop (m * RECORDSIZE) s)"
proof (induction m arbitrary: n s)
  case (Suc m)
  then show ?case by (cases n) (auto simp: add.commute)
qed simp

lemma cut_take: "cut n (take (n * RECORDSIZE) s) = cut n s"
proof (induction n arbitrary: s)
  case (Suc n)
  have "drop RECORDSIZE (take (Suc n * RECORDSIZE) s) = take (n * RECORDSIZE) (drop RECORDSIZE s)"
    by (simp add: drop_take)
  then show ?case using Suc by (simp add: min_def)
qed simp

lemma length_padded: "length (padded s) = n_records (length s) * RECORDSIZE"
proof -
  have "x + (512 - x mod 512) mod 512 = (x + 511) div 512 * 512" for x :: nat
  proof (cases "x mod 512 = 0")
    case True
    then obtain q where "x = 512 * q" by auto
    then show ?thesis by simp
  next
    case False
    define q m where "q = x div 512" and "m = x mod 512"
    then have x: "x = 512 * q + m" "0 < m" "m < 512" using False by auto
    then have "(x + 511) div 512 = q + 1" by (simp add: div_nat_eqI)
    then show ?thesis using x by simp
  qed
  then show ?thesis by (simp add: padded_def n_records_def RECORDSIZE_def)
qed

lemma n_records_le: "n \<le> n_records n * RECORDSIZE" and n_records_pos: "0 < n \<Longrightarrow> 0 < n_records n"
  by (simp_all add: n_records_def RECORDSIZE_def)

lemma n_records_mult: "n_records (m * RECORDSIZE) = m"
  by (simp add: n_records_def RECORDSIZE_def)

lemma n_records_diff: "m * RECORDSIZE \<le> n \<Longrightarrow> n_records (n - m * RECORDSIZE) = n_records n - m"
  by (simp add: n_records_def RECORDSIZE_def)

lemma drop_padded: "m * RECORDSIZE \<le> length s \<Longrightarrow> drop (m * RECORDSIZE) (padded s) = padded (drop (m * RECORDSIZE) s)"
proof -
  assume a: "m * RECORDSIZE \<le> length s"
  then have "(length s - m * RECORDSIZE) mod RECORDSIZE = length s mod RECORDSIZE"
    by (metis le_add_diff_inverse mod_mult_self3)
  then show ?thesis using a by (simp add: padded_def)
qed

lemma body_recs_drop:
  "m * RECORDSIZE \<le> length s \<Longrightarrow> drop m (body_recs s) = body_recs (drop (m * RECORDSIZE) s)"
  by (simp add: body_recs_def drop_cut drop_padded n_records_diff)

lemma body_recs_take:
  "m * RECORDSIZE \<le> length s \<Longrightarrow> take m (body_recs s) = cut m s"
proof -
  assume a: "m * RECORDSIZE \<le> length s"
  then have "m \<le> n_records (length s)"
    using n_records_le [of "length s"] by (metis RECORDSIZE_pos(1) le_trans mult_le_cancel2)
  moreover have "cut m (padded s) = cut m s"
    using a cut_take [of m "padded s"] cut_take [of m s] by (simp add: padded_def)
  ultimately show ?thesis by (simp add: body_recs_def take_cut)
qed

lemma body_recs_Nil [simp]: "body_recs [] = []"
  by (simp add: body_recs_def n_records_def RECORDSIZE_def)

lemma length_body_recs [simp]: "length (body_recs s) = n_records (length s)"
  by (simp add: body_recs_def)

lemma concat_body_recs: "take (length s) (concat (body_recs s)) = s"
  using n_records_le [of "length s"] by (simp add: body_recs_def concat_cut length_padded) (simp add: padded_def)

text \<open>One round of reading takes a part of the body and leaves the records of the rest.\<close>

lemma take_data_body:
  assumes "s \<noteq> []" and "left r = body_recs s @ rs"
  shows "\<exists>m r'. 0 < m \<and> m \<le> length s \<and> take_data (length s) r = Some (take m s, r') \<and> left r' = body_recs (drop m s) @ rs"
proof -
  define k where "k = min (room (used r)) (length (left r))"
  have n: "0 < n_records (length s)" using assms(1) by (simp add: n_records_pos)
  then have k: "0 < k" using assms(2) by (auto simp: k_def)
  have l: "left r \<noteq> []" using n assms(2) by (metis append_is_Nil_conv length_body_recs length_greater_0_conv)
  define w where "w = min (k * RECORDSIZE) (length s)"
  have t: "take_data (length s) r = Some (take w (concat (take (n_records w) (left r))),
      \<lparr>left = drop (n_records w) (left r), used = used r + n_records w\<rparr>)"
    using l by (simp add: take_data_def w_def k_def Let_def)
  show ?thesis
  proof (cases "length s \<le> k * RECORDSIZE")
    case True
    then have "w = length s" by (simp add: w_def)
    then have "take_data (length s) r = Some (s, \<lparr>left = rs, used = used r + n_records (length s)\<rparr>)"
      using assms(2) concat_body_recs [of s] by (simp add: t)
    then show ?thesis using assms(1) by (intro exI [of _ "length s"]) auto
  next
    case False
    then have m: "k * RECORDSIZE \<le> length s" by simp
    then have "k \<le> n_records (length s)"
      using n_records_le [of "length s"] by (metis RECORDSIZE_pos(1) le_trans mult_le_cancel2)
    then have "take k (left r) = cut k s" "drop k (left r) = body_recs (drop (k * RECORDSIZE) s) @ rs"
      using m assms(2) by (simp_all add: body_recs_take body_recs_drop)
    then have "take_data (length s) r = Some (take (k * RECORDSIZE) s, \<lparr>left = body_recs (drop (k * RECORDSIZE) s) @ rs, used = used r + k\<rparr>)"
      using m by (simp add: t w_def min_absorb1 n_records_mult concat_cut)
    then show ?thesis using k m by (intro exI [of _ "k * RECORDSIZE"]) auto
  qed
qed

lemma read_data_body:
  "left r = body_recs s @ rs \<Longrightarrow> \<exists>r'. read_data (length s) r = (s, r') \<and> left r' = rs"
proof (induction "length s" arbitrary: s r rule: less_induct)
  case less
  show ?case
  proof (cases "s = []")
    case True
    then show ?thesis using less.prems by (simp add: read_data.simps)
  next
    case False
    then obtain m r1 where m: "0 < m" "m \<le> length s" "take_data (length s) r = Some (take m s, r1)"
      "left r1 = body_recs (drop m s) @ rs"
      using take_data_body [OF False less.prems] by blast
    then obtain r' where "read_data (length (drop m s)) r1 = (drop m s, r')" "left r' = rs"
      using less.hyps [of "drop m s" r1] False by auto
    then show ?thesis
      using m False by (simp add: read_data.simps [of "length s" r])
  qed
qed

text \<open>A file that has the size its header says is written as its records.\<close>

lemma cut_prefix: "n * RECORDSIZE \<le> length a \<Longrightarrow> cut n (a @ b) = cut n a"
  using cut_take [of n "a @ b"] cut_take [of n a] by simp

lemma n_records_pred: "0 < n \<Longrightarrow> (n - 1) div RECORDSIZE + 1 = n_records n"
  by (simp add: n_records_def RECORDSIZE_def)

lemma last_buffer:
  assumes "length s \<le> rm * RECORDSIZE"
  shows "cut (n_records (length s)) (s @ drop (length s) (buffer env pos rm (length s))) = body_recs s"
proof (cases "length s mod RECORDSIZE = 0")
  case True
  then have "padded s = s" by (simp add: padded_def zeros_def)
  moreover have "n_records (length s) * RECORDSIZE = length s"
    using length_padded [of s] calculation by simp
  ultimately show ?thesis by (simp add: body_recs_def cut_prefix)
next
  case False
  then have l: "length s < rm * RECORDSIZE" using assms by (metis le_neq_implies_less mod_mult_self2_is_0)
  let ?old = "map (\<lambda>i. stale env (pos * RECORDSIZE + i)) [0..<rm * RECORDSIZE]"
  have p: "padded s = s @ zeros (RECORDSIZE - length s mod RECORDSIZE)"
    using False by (simp add: padded_def)
  have "drop (length s) (buffer env pos rm (length s)) = zeros (RECORDSIZE - length s mod RECORDSIZE) @
      drop (length s + (RECORDSIZE - length s mod RECORDSIZE)) ?old"
    using False l by (simp add: buffer_def Let_def)
  then show ?thesis
    using cut_prefix [of "n_records (length s)" "padded s"] length_padded [of s] by (simp add: body_recs_def p)
qed

lemma userec_sel [simp]: "out (userec rs w) = out w @ rs" "linklist (userec rs w) = linklist w" "tar_errors (userec rs w) = tar_errors w"
  by (simp_all add: userec_def)

lemma userec_userec: "userec a (userec b w) = userec (b @ a) w"
  by (simp add: userec_def)

lemma dump_data_body: "dump_data env (length s) s w = userec (body_recs s) w"
proof (induction "length s" arbitrary: s w rule: less_induct)
  case less
  let ?rm = "room (length (out w))"
  show ?case
  proof (cases "s = []")
    case True
    then show ?thesis by (simp add: dump_data.simps userec_def)
  next
    case False
    show ?thesis
    proof (cases "length s \<le> ?rm * RECORDSIZE")
      case True
      then show ?thesis
        using False last_buffer [OF True, of env "length (out w)"] n_records_pred [of "length s"]
        by (subst dump_data.simps) (simp add: Let_def dump_data.simps min_absorb1 del: cut.simps)
    next
      case b: False
      let ?m = "?rm * RECORDSIZE" and ?s = "drop (?rm * RECORDSIZE) s"
      have n: "(?m - 1) div RECORDSIZE + 1 = ?rm"
        using n_records_pred [of ?m] n_records_mult [of ?rm] by simp
      have "cut ?rm (take ?m s @ t) = take ?rm (body_recs s)" for t
        using b cut_prefix [of ?rm "take ?m s" t] cut_take [of ?rm s] by (simp add: body_recs_take)
      then have "dump_data env (length s) s w = dump_data env (length ?s) ?s (userec (take ?rm (body_recs s)) w)"
        using False b n by (subst dump_data.simps) (simp add: Let_def min_absorb2 del: cut.simps)
      also have "\<dots> = userec (body_recs ?s) (userec (take ?rm (body_recs s)) w)"
        using less.hyps [of ?s] False b by simp
      also have "body_recs ?s = drop ?rm (body_recs s)" using b by (simp add: body_recs_drop)
      finally show ?thesis by (simp add: userec_userec)
    qed
  qed
qed


subsection \<open>Names\<close>

definition small :: "int \<Rightarrow> bool" where
  "small v \<longleftrightarrow> 0 \<le> v \<and> v < 2 ^ 31"

lemma to_long_small: "small v \<Longrightarrow> to_long v = v"
  by (simp add: small_def to_long_def signed_of_int signed_take_bit_int_eq_self)

lemma zero_fields [simp]:
  "h_mode zero_header = zeros 8" "h_uid zero_header = zeros 8" "h_gid zero_header = zeros 8" "h_size zero_header = zeros 12"
  "h_mtime zero_header = zeros 12"
  by (simp_all add: zero_header_def header_of_def part_def zeros_def RECORDSIZE_def)

lemma drop_zeros [simp]: "drop n (zeros k) = zeros (k - n)"
  by (simp add: zeros_def)

lemma zeros_simps [simp]: "zeros 0 = []" "zeros (Suc n) = NUL # zeros n"
  by (simp_all add: zeros_def)

lemma fill_header_size:
  assumes "small (st_size st)" and "linkflag h \<noteq> LF_LINK"
    and "h_size h = h_size (fill_header env name st)"
  shows "header_size h = st_size st"
  using assms from_oct_digits [of "st_size st" 11 13 sp "h_mtime h"]
  by (simp add: header_size_def fill_header_def Let_def to_oct_def to_long_small) (simp add: small_def)

definition plain_name :: "string \<Rightarrow> bool" where
  "plain_name p \<longleftrightarrow> p \<noteq> [] \<and> hd p \<noteq> CHR ''/'' \<and> NUL \<notin> set p \<and> length p < 2 ^ 30"

lemma cstr_pad: "NUL \<notin> set p \<Longrightarrow> cstr (p @ NUL # r) = p"
  unfolding cstr_def by (subst takeWhile_append2) auto

lemma name_field_short: "length p < 100 \<Longrightarrow> name_field p = p @ NUL # zeros (99 - length p)"
proof -
  assume l: "length p < 100"
  have "strncpy 100 p = p @ NUL # zeros (99 - length p)"
    using l by (simp add: strncpy_def zeros_def take_replicate Suc_diff_Suc flip: replicate_Suc)
  moreover have "(p @ NUL # zeros (99 - length p))[99 := NUL] = p @ NUL # zeros (99 - length p)"
    using l by (intro list_update_same_conv [THEN iffD2]) (auto simp: nth_append nth_Cons' zeros_def)
  ultimately show ?thesis by (simp add: name_field_def NAMSIZ_def)
qed

lemma name_field_last [simp]: "name_field p ! 99 = NUL"
  by (simp add: name_field_def NAMSIZ_def)

definition long_header :: "tar_env \<Rightarrow> string \<Rightarrow> header" where
  "long_header env p = (fill_header env ''././@LongLink'' (zero_stat\<lparr>st_size := int (length (p @ [NUL]))\<rparr>))\<lparr>linkflag := LF_LONGNAME\<rparr>"

text \<open>The records before the body of a member.\<close>

definition head_recs :: "tar_env \<Rightarrow> string \<Rightarrow> header \<Rightarrow> string list" where
  "head_recs env p h =
     (if NAMSIZ \<le> length p then bytes (finished (long_header env p)) # body_recs (p @ [NUL]) else []) @ [bytes (finished h)]"

lemma start_finish:
  "start_header env p st w = (fill_header env p st, w') \<Longrightarrow>
   finish_header h w' = userec (head_recs env p h) w"
  by (auto simp: start_header_def head_recs_def finish_header_eq write_long_def Let_def long_header_def body_recs_def
      userec_userec simp del: cut.simps split: if_splits)

definition member_header :: "tar_env \<Rightarrow> string \<Rightarrow> tstat \<Rightarrow> header \<Rightarrow> bool" where
  "member_header env p st h \<longleftrightarrow> (\<exists>c. h = (fill_header env p st)\<lparr>linkflag := c\<rparr> \<and> c \<notin> {LF_LINK, LF_LONGNAME, LF_LONGLINK})"

lemma LF_distinct [simp]:
  "LF_LONGNAME \<noteq> LF_LINK" "LF_NORMAL \<noteq> LF_LINK" "LF_NORMAL \<noteq> LF_LONGNAME" "LF_NORMAL \<noteq> LF_LONGLINK"
  "LF_DIR \<noteq> LF_LINK" "LF_DIR \<noteq> LF_LONGNAME" "LF_DIR \<noteq> LF_LONGLINK"
  by (simp_all add: LF_LINK_def LF_LONGNAME_def LF_LONGLINK_def LF_NORMAL_def LF_DIR_def)

lemma arch_name_fill: "plain_name p \<Longrightarrow> arch_name (fill_header env p st) = name_field p"
  by (cases p) (simp_all add: fill_header_def Let_def plain_name_def)

lemma read_long:
  assumes "plain_name p" and "left r = bytes (finished (long_header env p)) # body_recs (p @ [NUL]) @ rs"
  shows "\<exists>r'. read_header ln r = read_header (Some p, snd ln) r' \<and> left r' = rs"
proof -
  let ?h = "long_header env p"
  have n: "plain_name ''././@LongLink''" by (simp add: plain_name_def)
  have ok: "h_ok ?h" "magic ?h = TMAGIC @ [NUL]" "arch_name ?h ! 99 = NUL" "linkflag ?h = LF_LONGNAME"
    using fill_header_ok arch_name_fill [OF n] by (simp_all add: long_header_def h_ok_def fill_header_sel)
  have z: "header_size ?h = int (length (p @ [NUL]))"
    using assms(1) fill_header_size [of "zero_stat\<lparr>st_size := int (length (p @ [NUL]))\<rparr>" ?h]
    by (simp add: long_header_def small_def plain_name_def)
  have "left (skip1 r) = body_recs (p @ [NUL]) @ rs" using assms(2) by (simp add: skip1_def)
  then obtain r' where r': "read_data (length (p @ [NUL])) (skip1 r) = (p @ [NUL], r')" "left r' = rs"
    using read_data_body by blast
  have "cstr (p @ [NUL]) = p" using assms(1) cstr_pad by (simp add: plain_name_def)
  moreover have "nat (header_size ?h) = length (p @ [NUL])" using z by simp
  ultimately show ?thesis
    using read_finished [OF ok(1,2) assms(2) ok(3)] ok(4) r' by (intro exI [of _ r']) (simp del: length_append)
qed

lemma read_member:
  assumes "plain_name p" and "small (st_size st)" and "member_header env p st h" and "left r = head_recs env p h @ rs"
  shows "\<exists>r' l. read_header (None, None) r = (Member \<lparr>m_head = finished h, m_name = p, m_link = l, m_size = st_size st\<rparr>, (None, None), r') \<and>
    left r' = bytes (finished h) # rs"
proof -
  obtain c where h: "h = (fill_header env p st)\<lparr>linkflag := c\<rparr>" and c: "c \<notin> {LF_LINK, LF_LONGNAME, LF_LONGLINK}"
    using assms(3) by (auto simp: member_header_def)
  have ok: "h_ok h" "magic h = TMAGIC @ [NUL]" "arch_name h = name_field p" "linkflag h = c"
    using fill_header_ok [of env p st] arch_name_fill [OF assms(1)] by (simp_all add: h h_ok_def fill_header_sel)
  have z: "header_size h = st_size st"
    using fill_header_size [OF assms(2), of h env p] c by (simp add: h)
  have m: "read_header ln r' = (Member \<lparr>m_head = finished h, m_name = (case fst ln of Some s \<Rightarrow> s | None \<Rightarrow> cstr (arch_name h)),
        m_link = (case snd ln of Some s \<Rightarrow> s | None \<Rightarrow> cstr (arch_linkname h @ magic h)), m_size = st_size st\<rparr>, (None, None), r')"
    if "left r' = bytes (finished h) # rs" for ln r'
    using read_finished [OF ok(1,2) that] ok(3,4) c z by simp
  show ?thesis
  proof (cases "NAMSIZ \<le> length p")
    case True
    then obtain r' where r': "read_header (None, None) r = read_header (Some p, None) r'" "left r' = bytes (finished h) # rs"
      using read_long [OF assms(1), of r env "bytes (finished h) # rs" "(None, None)"] assms(4) by (auto simp: head_recs_def)
    then show ?thesis using m [OF r'(2)] by auto
  next
    case False
    then have "cstr (arch_name h) = p"
      using assms(1) by (simp add: ok(3) NAMSIZ_def name_field_short cstr_pad plain_name_def)
    then show ?thesis using m [of r "(None, None)"] False assms(4) by (auto simp: head_recs_def)
  qed
qed

end
