(* ===== verification/TarTrip.thy ===== *)
theory TarTrip
  imports TarProps
begin

text \<open>
  Saving and restoring: what is extracted from the archive of a directory, in a file system that behaves
  as documented, is what was put in, and no other file is touched.
\<close>

subsection \<open>The file system\<close>

record attrs =
  a_mode :: int
  a_uid :: int
  a_gid :: int
  a_mtime :: int

datatype fnode = F attrs string | D attrs | Other

type_synonym 'fs looking = "'fs \<Rightarrow> string \<Rightarrow> fnode option"

definition is_dir :: "'fs looking \<Rightarrow> 'fs \<Rightarrow> string \<Rightarrow> bool" where
  "is_dir look f p \<longleftrightarrow> (\<exists>a. look f p = Some (D a))"

definition parent :: "string \<Rightarrow> string" where
  "parent p = (let q = dropWhile (\<lambda>c. c \<noteq> CHR ''/'') (rev p) in if q = [] then ''.'' else rev (tl q))"

text \<open>
  What changes outside a set of paths: at most the attributes of directories (the time of the one a file
  is made in); a directory stays a directory.
\<close>

definition changed :: "'fs looking \<Rightarrow> string set \<Rightarrow> 'fs \<Rightarrow> 'fs \<Rightarrow> bool" where
  "changed look S f f' \<longleftrightarrow>
     (\<forall>q. q \<notin> S \<longrightarrow> look f' q = look f q \<or> is_dir look f q \<and> is_dir look f' q) \<and>
     (\<forall>q. is_dir look f q \<longrightarrow> is_dir look f' q)"

fun set_attrs :: "(attrs \<Rightarrow> attrs) \<Rightarrow> fnode \<Rightarrow> fnode" where
  "set_attrs g (F a s) = F (g a) s"
| "set_attrs g (D a) = D (g a)"
| "set_attrs g Other = Other"

text \<open>
  The documented behaviour of the system calls \<open>tar\<close> makes for files and directories: \<open>open\<close> with
  \<open>O_CREAT\<close> and \<open>O_TRUNC\<close>, a \<open>write\<close> that appends, \<open>mkdir\<close>, and the calls that set the owner (the mode may
  lose bits), the time and the mode.
\<close>

definition sets :: "'fs kernel \<Rightarrow> 'fs looking \<Rightarrow> request \<Rightarrow> string \<Rightarrow> (attrs \<Rightarrow> attrs) \<Rightarrow> bool" where
  "sets k look q p g \<longleftrightarrow>
     (\<forall>f n. look f p = Some n \<longrightarrow> (\<exists>f' m. k q f = (Done, f') \<and> look f' = (look f)(p \<mapsto> set_attrs (\<lambda>a. g (a\<lparr>a_mode := m\<rparr>)) n)))"

definition sets_keep :: "'fs kernel \<Rightarrow> 'fs looking \<Rightarrow> request \<Rightarrow> string \<Rightarrow> (attrs \<Rightarrow> attrs) \<Rightarrow> bool" where
  "sets_keep k look q p g \<longleftrightarrow>
     (\<forall>f n. look f p = Some n \<longrightarrow> (\<exists>f'. k q f = (Done, f') \<and> look f' = (look f)(p \<mapsto> set_attrs g n)))"

definition opens :: "'fs kernel \<Rightarrow> 'fs looking \<Rightarrow> bool" where
  "opens k look \<longleftrightarrow> (\<forall>f p m. is_dir look f (parent p) \<and> (look f p = None \<or> (\<exists>a s. look f p = Some (F a s))) \<longrightarrow>
     (\<exists>f' a. k (Open p m) f = (Done, f') \<and> look f' p = Some (F a []) \<and> changed look {p} f f'))"

definition writes :: "'fs kernel \<Rightarrow> 'fs looking \<Rightarrow> bool" where
  "writes k look \<longleftrightarrow> (\<forall>f p d a s. look f p = Some (F a s) \<longrightarrow>
     (\<exists>f' a'. k (Write p d) f = (Done, f') \<and> look f' p = Some (F a' (s @ d)) \<and> changed look {p} f f'))"

definition makes_dirs :: "'fs kernel \<Rightarrow> 'fs looking \<Rightarrow> bool" where
  "makes_dirs k look \<longleftrightarrow>
     (\<forall>f p m. is_dir look f (parent p) \<and> look f p = None \<longrightarrow>
       (\<exists>f'. k (Mkdir p m) f = (Done, f') \<and> is_dir look f' p \<and> changed look {p} f f')) \<and>
     (\<forall>f p m. is_dir look f p \<longrightarrow> k (Mkdir p m) f = (Eexist, f)) \<and>
     (\<forall>f p. is_dir look f p \<longrightarrow> k (Is_dir p) f = (Done, f))"

definition fs_laws :: "'fs kernel \<Rightarrow> 'fs looking \<Rightarrow> bool" where
  "fs_laws k look \<longleftrightarrow> opens k look \<and> writes k look \<and> makes_dirs k look \<and>
     (\<forall>p u g. sets k look (Chown p u g) p (\<lambda>a. a\<lparr>a_uid := u, a_gid := g\<rparr>)) \<and>
     (\<forall>p t. sets_keep k look (Utime p t) p (\<lambda>a. a\<lparr>a_mtime := t\<rparr>)) \<and>
     (\<forall>p m. sets_keep k look (Chmod p m) p (\<lambda>a. a\<lparr>a_mode := m\<rparr>))"

lemma changed_refl [intro]: "changed look S f f"
  by (simp add: changed_def)

lemma changed_trans: "changed look S f g \<Longrightarrow> changed look T g h \<Longrightarrow> S \<union> T \<subseteq> U \<Longrightarrow> changed look U f h"
proof -
  assume a: "changed look S f g" "changed look T g h" "S \<union> T \<subseteq> U"
  have "look h q = look f q \<or> is_dir look f q \<and> is_dir look h q" if "q \<notin> U" for q
  proof -
    have "look g q = look f q \<or> is_dir look f q \<and> is_dir look g q" "look h q = look g q \<or> is_dir look g q \<and> is_dir look h q"
      using a that unfolding changed_def by blast+
    then show ?thesis unfolding is_dir_def by metis
  qed
  then show ?thesis using a(1,2) unfolding changed_def by blast
qed

lemma changed_mono: "changed look S f g \<Longrightarrow> S \<subseteq> T \<Longrightarrow> changed look T f g"
  using changed_trans [OF _ changed_refl, of look S f g "{}" T] by simp

lemma changed_upd: "look f' = (look f)(p \<mapsto> n) \<Longrightarrow> (is_dir look f p \<Longrightarrow> \<exists>a. n = D a) \<Longrightarrow> changed look {p} f f'"
  by (auto simp: changed_def is_dir_def)

subsection \<open>What a tree asks for\<close>

text \<open>Owners that are found again: by name, or by a number that fits the field.\<close>

definition owner_ok :: "(int \<Rightarrow> string option) \<Rightarrow> (string \<Rightarrow> int) \<Rightarrow> int \<Rightarrow> bool" where
  "owner_ok db db' i \<longleftrightarrow>
     (case db i of
        None \<Rightarrow> 0 \<le> i \<and> i < 8 ^ 6
      | Some n \<Rightarrow> n \<noteq> [] \<and> NUL \<notin> set n \<and> length n < 32 \<and> db' n = i)"

definition stat_ok :: "tar_env \<Rightarrow> tar_user \<Rightarrow> tstat \<Rightarrow> bool" where
  "stat_ok env us st \<longleftrightarrow> 0 \<le> st_mode st \<and> st_mode st < 2 ^ 16 \<and> small (st_mtime st) \<and> small (st_uid st) \<and> small (st_gid st) \<and>
     owner_ok (user_name env) (user_id us) (st_uid st) \<and> owner_ok (group_name env) (group_id us) (st_gid st)"

definition dots :: "string \<Rightarrow> bool" where
  "dots f \<longleftrightarrow> f = ''.'' \<or> f = ''..''"

definition path_ok :: "string \<Rightarrow> bool" where
  "path_ok p \<longleftrightarrow> plain_name (p @ ''/'') \<and> last p \<noteq> CHR ''/'' \<and> p \<noteq> [] \<and> p \<noteq> ''.''"

fun good :: "tar_env \<Rightarrow> tar_user \<Rightarrow> string \<Rightarrow> node \<Rightarrow> bool"
  and good_entries :: "tar_env \<Rightarrow> tar_user \<Rightarrow> string \<Rightarrow> (string \<times> node) list \<Rightarrow> bool" where
  "good env us p (File st (Some s)) \<longleftrightarrow> path_ok p \<and> stat_ok env us st \<and> st_nlink st \<le> 1 \<and> st_size st = int (length s) \<and> small (st_size st)"
| "good env us p (Dir st (Some es)) \<longleftrightarrow> path_ok p \<and> stat_ok env us st \<and> good_entries env us (p @ ''/'') es"
| "good env us p _ \<longleftrightarrow> False"
| "good_entries env us pre [] \<longleftrightarrow> True"
| "good_entries env us pre ((f, n) # es) \<longleftrightarrow>
     (dots f \<or> f \<noteq> [] \<and> CHR ''/'' \<notin> set f \<and> f \<notin> fst ` set es \<and> good env us (pre @ f) n) \<and> good_entries env us pre es"

text \<open>What must not be in the way: no directory where a file goes, and the reverse.\<close>

fun fits :: "'fs looking \<Rightarrow> 'fs \<Rightarrow> string \<Rightarrow> node \<Rightarrow> bool"
  and fits_entries :: "'fs looking \<Rightarrow> 'fs \<Rightarrow> string \<Rightarrow> (string \<times> node) list \<Rightarrow> bool" where
  "fits look f p (File st b) \<longleftrightarrow> look f p = None \<or> (\<exists>a s. look f p = Some (F a s))"
| "fits look f p (Dir st (Some es)) \<longleftrightarrow> (look f p = None \<or> is_dir look f p) \<and> fits_entries look f (p @ ''/'') es"
| "fits look f p _ \<longleftrightarrow> False"
| "fits_entries look f pre [] \<longleftrightarrow> True"
| "fits_entries look f pre ((g, n) # es) \<longleftrightarrow> (dots g \<or> fits look f (pre @ g) n) \<and> fits_entries look f pre es"

text \<open>What is there in the end.\<close>

definition attrs_of :: "tar_user \<Rightarrow> tstat \<Rightarrow> attrs" where
  "attrs_of us st = \<lparr>a_mode = NOT (umask us) AND (st_mode st AND 0xFFF), a_uid = st_uid st, a_gid = st_gid st, a_mtime = st_mtime st\<rparr>"

fun holds :: "'fs looking \<Rightarrow> tar_user \<Rightarrow> 'fs \<Rightarrow> string \<Rightarrow> node \<Rightarrow> bool"
  and holds_entries :: "'fs looking \<Rightarrow> tar_user \<Rightarrow> 'fs \<Rightarrow> string \<Rightarrow> (string \<times> node) list \<Rightarrow> bool" where
  "holds look us f p (File st b) \<longleftrightarrow> (\<exists>s. b = Some s \<and> look f p = Some (F (attrs_of us st) s))"
| "holds look us f p (Dir st (Some es)) \<longleftrightarrow> is_dir look f p \<and> holds_entries look us f (p @ ''/'') es"
| "holds look us f p _ \<longleftrightarrow> False"
| "holds_entries look us f pre [] \<longleftrightarrow> True"
| "holds_entries look us f pre ((g, n) # es) \<longleftrightarrow> (dots g \<or> holds look us f (pre @ g) n) \<and> holds_entries look us f pre es"

subsection \<open>The records of a tree\<close>

definition dir_header :: "tar_env \<Rightarrow> string \<Rightarrow> tstat \<Rightarrow> header" where
  "dir_header env p st = (fill_header env (dir_name p) (st\<lparr>st_size := 0\<rparr>))\<lparr>linkflag := LF_DIR\<rparr>"

fun render :: "tar_env \<Rightarrow> string \<Rightarrow> node \<Rightarrow> string list"
  and render_entries :: "tar_env \<Rightarrow> string \<Rightarrow> (string \<times> node) list \<Rightarrow> string list" where
  "render env p (File st (Some s)) = head_recs env p (fill_header env p st) @ body_recs s"
| "render env p (Dir st (Some es)) = head_recs env (dir_name p) (dir_header env p st) @ render_entries env (p @ ''/'') es"
| "render env p _ = []"
| "render_entries env pre [] = []"
| "render_entries env pre ((f, n) # es) = (if dots f then [] else render env (pre @ f) n) @ render_entries env pre es"

lemma dir_name_ok: "path_ok p \<Longrightarrow> dir_name p = p @ ''/'' \<and> dir_prefix p = p @ ''/''"
proof -
  assume p: "path_ok p"
  then have "dropWhile (\<lambda>c. c = CHR ''/'') (rev p) = rev p"
    by (cases p rule: rev_cases) (auto simp: path_ok_def)
  then have "dir_name p = p @ ''/''" by (simp add: dir_name_def)
  moreover have "p @ ''/'' \<noteq> ''./''" using p by (cases p) (auto simp: path_ok_def)
  ultimately show ?thesis by (simp add: dir_prefix_def)
qed

lemma dump_regular_good:
  assumes "st_size st = int (length s)" and "small (st_size st)"
  shows "dump_regular env p st (Some s) w = userec (head_recs env p (fill_header env p st) @ body_recs s) w"
proof -
  obtain w' where w: "start_header env p st w = (fill_header env p st, w')" by (simp add: start_header_def)
  show ?thesis
    using start_finish [OF w] dump_data_body [of env s "userec (head_recs env p (fill_header env p st)) w"] assms
    by (simp add: dump_regular_def w to_long_small userec_userec)
qed

lemma dump_dir_header_good:
  "dump_dir_header env p st w = userec (head_recs env (dir_name p) (dir_header env p st)) w"
proof -
  obtain w' where w: "start_header env (dir_name p) (st\<lparr>st_size := 0\<rparr>) w = (fill_header env (dir_name p) (st\<lparr>st_size := 0\<rparr>), w')"
    by (simp add: start_header_def)
  show ?thesis
    using start_finish [OF w] by (simp add: dump_dir_header_def w dir_header_def)
qed

lemma dump_render:
  assumes "archive_file env = None"
  shows "good env us p n \<Longrightarrow> dump_file env p n w = userec (render env p n) w"
    and "good_entries env us pre es \<Longrightarrow> dump_entries env pre es w = userec (render_entries env pre es) w"
  using assms
proof (induction env us p n and env us pre es arbitrary: w and w rule: good_good_entries.induct)
  case (1 env us p st s)
  then show ?case
    using dump_regular_good [of st s env p w] by (auto simp: is_archive_def)
next
  case (2 env us p st es)
  then show ?case
    using dir_name_ok [of p]
    by (simp add: is_archive_def can_link_def dump_dir_header_good userec_userec)
next
  case (5 env us pre f n es)
  then show ?case
    by (auto simp: dots_def userec_userec)
qed (simp_all add: userec_def)

subsection \<open>Decoding\<close>

lemma find_id_name:
  assumes "owner_ok db db' i" and "small i"
  shows "find_id db' (find_name db i) (oct_digits 6 i @ sp # r) = i"
proof (cases "db i")
  case None
  then show ?thesis
    using assms from_oct_digits [of i 6 8 sp r] by (simp add: find_id_def find_name_def strncpy_def TUNMLEN_def zeros_def owner_ok_def small_def)
next
  case (Some n)
  then have n: "n \<noteq> []" "NUL \<notin> set n" "length n < 32" "db' n = i" using assms(1) by (auto simp: owner_ok_def)
  then obtain k where k: "32 - length n = Suc k" by (cases "32 - length n") auto
  moreover have "k \<le> 31" using k by linarith
  ultimately have "find_name db i = n @ NUL # zeros k"
    using Some n by (simp add: find_name_def strncpy_def TUNMLEN_def zeros_def take_replicate min_def)
  moreover have "take 1 (n @ NUL # zeros k) \<noteq> [NUL]" using n by (cases n) auto
  ultimately show ?thesis using n by (simp add: find_id_def cstr_pad)
qed


lemma to_oct_8: "to_oct v 8 (zeros 8) = oct_digits 6 v @ [sp, NUL]"
  by (simp add: to_oct_def eval_nat_numeral)

lemma to_oct_13: "to_oct v 13 (zeros 12) = oct_digits 11 v @ [sp]"
  by (simp add: to_oct_def)

lemma decode_finished:
  assumes "stat_ok env us st"
  shows "decode_header us (finished ((fill_header env p (st\<lparr>st_size := z\<rparr>))\<lparr>linkflag := c\<rparr>)) =
    zero_stat\<lparr>st_mode := st_mode st AND 0xFFF, st_mtime := st_mtime st, st_uid := st_uid st, st_gid := st_gid st\<rparr>"
proof -
  let ?h = "finished ((fill_header env p (st\<lparr>st_size := z\<rparr>))\<lparr>linkflag := c\<rparr>)"
  have t: "to_long (st_mode st) = st_mode st" "to_long (st_mtime st) = st_mtime st" "to_long (st_uid st) = st_uid st" "to_long (st_gid st) = st_gid st"
    using assms by (auto simp: stat_ok_def intro!: to_long_small) (simp add: small_def)
  have f: "h_mode ?h = oct_digits 6 (st_mode st) @ [sp, NUL]" "h_uid ?h = oct_digits 6 (st_uid st) @ [sp, NUL]"
    "h_gid ?h = oct_digits 6 (st_gid st) @ [sp, NUL]" "h_mtime ?h = oct_digits 11 (st_mtime st) @ [sp]"
    "h_uname ?h = find_name (user_name env) (st_uid st)" "h_gname ?h = find_name (group_name env) (st_gid st)"
    "magic ?h = TMAGIC @ [NUL]"
    by (simp_all add: finished_def fill_header_def Let_def to_oct_8 to_oct_13 t)
  have m: "from_oct 8 (h_mode ?h) = st_mode st"
    using assms from_oct_digits [of "st_mode st" 6 8 sp "[NUL]"] by (simp add: f stat_ok_def)
  have mt: "from_oct 13 (h_mtime ?h @ chksum ?h) = st_mtime st"
    using assms from_oct_digits [of "st_mtime st" 11 13 sp "chksum ?h"] by (simp add: f stat_ok_def small_def)
  have "NUL \<notin> set TMAGIC" by (simp add: TMAGIC_def)
  then have s: "standard ?h" by (simp add: standard_def f cstr_pad)
  have u: "find_id (user_id us) (h_uname ?h) (h_uid ?h) = st_uid st" "find_id (group_id us) (h_gname ?h) (h_gid ?h) = st_gid st"
    using assms by (simp_all add: f find_id_name stat_ok_def)
  show ?thesis
    using m mt s u by (simp add: decode_header_def)
qed

subsection \<open>Requests\<close>

lemma chown_law:
  "fs_laws k look \<Longrightarrow> look f p = Some n \<Longrightarrow> \<exists>f' m. k (Chown p u g) f = (Done, f') \<and>
     look f' = (look f)(p \<mapsto> set_attrs (\<lambda>a. a\<lparr>a_mode := m, a_uid := u, a_gid := g\<rparr>) n)"
  by (simp add: fs_laws_def sets_def)

lemma utime_law:
  "fs_laws k look \<Longrightarrow> look f p = Some n \<Longrightarrow> \<exists>f'. k (Utime p t) f = (Done, f') \<and>
     look f' = (look f)(p \<mapsto> set_attrs (\<lambda>a. a\<lparr>a_mtime := t\<rparr>) n)"
  by (simp add: fs_laws_def sets_keep_def)

lemma chmod_law:
  "fs_laws k look \<Longrightarrow> look f p = Some n \<Longrightarrow> \<exists>f'. k (Chmod p m) f = (Done, f') \<and>
     look f' = (look f)(p \<mapsto> set_attrs (\<lambda>a. a\<lparr>a_mode := m\<rparr>) n)"
  by (simp add: fs_laws_def sets_keep_def)

lemma write_file_body:
  assumes "fs_laws k look"
  shows "left r = body_recs s @ rs \<Longrightarrow> look (fs e) p = Some (F a c) \<Longrightarrow>
    \<exists>r' e' a'. write_file k p (length s) r e = Some (r', e') \<and> left r' = rs \<and> saved_dirs e' = saved_dirs e \<and>
      look (fs e') p = Some (F a' (c @ s)) \<and> changed look {p} (fs e) (fs e')"
proof (induction "length s" arbitrary: s r e a c rule: less_induct)
  case less
  show ?case
  proof (cases "s = []")
    case True
    then show ?thesis using less.prems by (auto simp: write_file.simps)
  next
    case False
    then obtain m r1 where m: "0 < m" "m \<le> length s" "take_data (length s) r = Some (take m s, r1)"
      "left r1 = body_recs (drop m s) @ rs"
      using take_data_body [OF False less.prems(1)] by blast
    obtain f a1 where f: "k (Write p (take m s)) (fs e) = (Done, f)" "look f p = Some (F a1 (c @ take m s))"
      "changed look {p} (fs e) f"
      using assms less.prems(2) unfolding fs_laws_def writes_def by blast
    obtain r' e' a' where r': "write_file k p (length (drop m s)) r1 (e\<lparr>fs := f\<rparr>) = Some (r', e')" "left r' = rs"
      "saved_dirs e' = saved_dirs e" "look (fs e') p = Some (F a' (c @ s))" "changed look {p} f (fs e')"
      using less.hyps [of "drop m s" r1 "e\<lparr>fs := f\<rparr>" a1 "c @ take m s"] False m f(2) by auto
    have "write_file k p (length s) r e = Some (r', e')"
      using False m r'(1) f(1) by (auto simp: write_file.simps [of k p "length s"] ask_def min_def)
    then show ?thesis
      using r' changed_trans [OF f(3) r'(5)] by blast
  qed
qed

lemma set_filestat_holds:
  assumes "fs_laws k look" and "look (fs e) p = Some (F a s)"
    and "st = zero_stat\<lparr>st_mode := st_mode st0 AND 0xFFF, st_mtime := st_mtime st0, st_uid := st_uid st0, st_gid := st_gid st0\<rparr>"
  shows "look (fs (set_filestat k us p st e)) p = Some (F (attrs_of us st0) s) \<and>
    changed look {p} (fs e) (fs (set_filestat k us p st e)) \<and> saved_dirs (set_filestat k us p st e) = saved_dirs e"
proof -
  obtain f1 m where f1: "k (Chown p (st_uid st) (st_gid st)) (fs e) = (Done, f1)"
    "look f1 = (look (fs e))(p \<mapsto> F (a\<lparr>a_mode := m, a_uid := st_uid st, a_gid := st_gid st\<rparr>) s)"
    using chown_law [OF assms(1,2), of "st_uid st" "st_gid st"] by auto
  then have "look f1 p = Some (F (a\<lparr>a_mode := m, a_uid := st_uid st, a_gid := st_gid st\<rparr>) s)" by simp
  from utime_law [OF assms(1) this] obtain f2 where f2: "k (Utime p (st_mtime st)) f1 = (Done, f2)"
    "look f2 = (look f1)(p \<mapsto> F (a\<lparr>a_mode := m, a_uid := st_uid st, a_gid := st_gid st, a_mtime := st_mtime st\<rparr>) s)"
    by auto
  then have "look f2 p = Some (F (a\<lparr>a_mode := m, a_uid := st_uid st, a_gid := st_gid st, a_mtime := st_mtime st\<rparr>) s)" by simp
  from chmod_law [OF assms(1) this, of "NOT (umask us) AND st_mode st"] obtain f3 where f3: "k (Chmod p (NOT (umask us) AND st_mode st)) f2 = (Done, f3)"
    "look f3 = (look f2)(p \<mapsto> F (a\<lparr>a_uid := st_uid st, a_gid := st_gid st, a_mtime := st_mtime st, a_mode := NOT (umask us) AND st_mode st\<rparr>) s)"
    by auto
  have "set_filestat k us p st e = e\<lparr>fs := f3\<rparr>"
    using f1(1) f2(1) f3(1) by (simp add: set_filestat_def tell_def ask_def)
  moreover have "look f3 = (look (fs e))(p \<mapsto> F (attrs_of us st0) s)"
    using f1(2) f2(2) f3(2) assms(3) by (cases a) (simp add: attrs_of_def zero_stat_def)
  ultimately show ?thesis
    using assms(2) changed_upd [of look f3 "fs e" p "F (attrs_of us st0) s"] by (simp add: is_dir_def)
qed


subsection \<open>One file, one directory\<close>

lemma plain_dir: "path_ok p \<Longrightarrow> plain_name (p @ ''/'') \<and> plain_name p"
  by (auto simp: path_ok_def plain_name_def)

lemma extract_file:
  assumes "fs_laws k look" and "good env us p (File st (Some s))" and "is_dir look (fs e) (parent p)"
    and "look (fs e) p = None \<or> (\<exists>a c. look (fs e) p = Some (F a c))"
    and "left r = render env p (File st (Some s)) @ rs"
  shows "\<exists>r' e'. read_and k us (None, None) r e = read_and k us (None, None) r' e' \<and> left r' = rs \<and> saved_dirs e' = saved_dirs e \<and>
    holds look us (fs e') p (File st (Some s)) \<and> changed look {p} (fs e) (fs e')"
proof -
  let ?h = "fill_header env p st"
  have g: "path_ok p" "stat_ok env us st" "st_size st = int (length s)" "small (st_size st)" using assms(2) by auto
  have p: "plain_name p" "p \<noteq> []" "last p \<noteq> CHR ''/''" "hd p \<noteq> CHR ''/''"
    using plain_dir [OF g(1)] g(1) by (auto simp: path_ok_def plain_name_def)
  have h: "?h = (fill_header env p st)\<lparr>linkflag := LF_NORMAL\<rparr>" by (simp add: fill_header_def Let_def)
  have mh: "member_header env p st ?h" unfolding member_header_def using h by (intro exI [of _ LF_NORMAL]) simp
  obtain r1 l where r1: "read_header (None, None) r =
      (Member \<lparr>m_head = finished ?h, m_name = p, m_link = l, m_size = st_size st\<rparr>, (None, None), r1)"
    "left r1 = bytes (finished ?h) # body_recs s @ rs"
    using read_member [OF p(1) g(4) mh, where r = r and rs = "body_recs s @ rs"] assms(5) by auto
  let ?st = "zero_stat\<lparr>st_mode := st_mode st AND 0xFFF, st_mtime := st_mtime st, st_uid := st_uid st, st_gid := st_gid st\<rparr>"
  have d: "decode_header us (finished ?h) = ?st"
    using decode_finished [OF g(2), where p = p and z = "st_size st" and c = LF_NORMAL] h by simp
  obtain f a where f: "k (Open p (st_mode ?st)) (fs e) = (Done, f)" "look f p = Some (F a [])" "changed look {p} (fs e) f"
    using assms(1,3,4) unfolding fs_laws_def opens_def by blast
  have "left (skip1 r1) = body_recs s @ rs" using r1(2) by (simp add: skip1_def)
  from write_file_body [OF assms(1) this, where e = "e\<lparr>fs := f\<rparr>" and p = p and a = a and c = "[]"] f(2)
  obtain r2 e2 a2 where w: "write_file k p (length s) (skip1 r1) (e\<lparr>fs := f\<rparr>) = Some (r2, e2)" "left r2 = rs"
    "saved_dirs e2 = saved_dirs e" "look (fs e2) p = Some (F a2 s)" "changed look {p} f (fs e2)"
    by auto
  have lf: "linkflag (finished ?h) = LF_NORMAL" by (simp add: finished_def fill_header_sel)
  have dw: "dropWhile (\<lambda>c. c = CHR ''/'') p = p" "take 1 (rev p) \<noteq> ''/''"
    using p by (cases p; simp) (cases p rule: rev_cases; use p in auto)
  have "extract_archive k us \<lparr>m_head = finished ?h, m_name = p, m_link = l, m_size = st_size st\<rparr> r1 e =
      Some (r2, set_filestat k us p ?st e2)"
    using f(1) w(1) g(3) dw
    by (simp add: extract_archive_def Let_def d lf LF_NORMAL_def LF_LINK_def LF_SYMLINK_def LF_CHR_def LF_BLK_def LF_FIFO_def
        LF_DUMPDIR_def LF_DIR_def LF_VOLHDR_def LF_MULTIVOL_def LF_SPARSE_def LF_NAMES_def extract_regular_def ask_def)
  moreover note set_filestat_holds [OF assms(1) w(4), of ?st st us]
  ultimately show ?thesis
    using r1(1) w(2,3) changed_trans [OF changed_trans [OF f(3) w(5) order_refl]]
    by (intro exI [of _ r2] exI [of _ "set_filestat k us p ?st e2"]) (auto simp: read_and.simps [of k us _ r])
qed


lemma changed_dir:
  assumes "look f' = (look f)(p \<mapsto> set_attrs g n)" and "look f p = Some n" and "is_dir look f p"
  shows "is_dir look f' p \<and> changed look {p} f f'"
proof -
  obtain a where "n = D a" using assms(2,3) by (auto simp: is_dir_def)
  then show ?thesis
    using assms changed_upd [of look f' f p "D (g a)"] by (simp add: is_dir_def)
qed

lemma chown_dir:
  assumes "fs_laws k look" and "is_dir look (fs e) p"
  shows "is_dir look (fs (tell k (Chown p u g) e)) p \<and> changed look {p} (fs e) (fs (tell k (Chown p u g) e)) \<and>
    saved_dirs (tell k (Chown p u g) e) = saved_dirs e"
proof -
  obtain a where a: "look (fs e) p = Some (D a)" using assms(2) by (auto simp: is_dir_def)
  then obtain f m where f: "k (Chown p u g) (fs e) = (Done, f)"
    "look f = (look (fs e))(p \<mapsto> set_attrs (\<lambda>a. a\<lparr>a_mode := m, a_uid := u, a_gid := g\<rparr>) (D a))"
    using chown_law [OF assms(1) a, of u g] by blast
  then show ?thesis
    using changed_dir [OF f(2) a assms(2)] by (simp add: tell_def ask_def)
qed

lemma extract_dir_ok:
  assumes "fs_laws k look" and "strip_slashes q = p" and "p \<noteq> []"
    and "is_dir look (fs e) p \<or> look (fs e) p = None \<and> is_dir look (fs e) (parent p)"
  shows "\<exists>e'. extract_dir k q st e = Some e' \<and> is_dir look (fs e') p \<and> changed look {p} (fs e) (fs e') \<and>
    (\<forall>d \<in> set (saved_dirs e'). d \<in> set (saved_dirs e) \<or> fst d = p)"
proof -
  let ?ready = "\<lambda>e. (tell k (Chown p (st_uid st) (st_gid st)) e)\<lparr>saved_dirs := (p, st_mode st, st_mtime st) # saved_dirs e\<rparr>"
  have r: "is_dir look (fs (?ready e1)) p \<and> changed look {p} (fs e1) (fs (?ready e1))" if "is_dir look (fs e1) p" for e1
    using chown_dir [OF assms(1) that] by simp
  show ?thesis
  proof (cases "is_dir look (fs e) p")
    case True
    then have m: "k (Mkdir p (st_mode st)) (fs e) = (Eexist, fs e)" "k (Is_dir p) (fs e) = (Done, fs e)"
      using assms(1) unfolding fs_laws_def makes_dirs_def by blast+
    then have "insist (length p + 1) k (Mkdir p (st_mode st)) (st_uid st) (st_gid st) p e = Some (Eexist, e)"
      by (simp add: ask_def make_dirs_def)
    then have "extract_dir k q st e = Some (if ends_in_dot p then ?ready e else e)"
      using m(2) by (simp add: extract_dir_def assms(2) Let_def tell_def ask_def)
    then show ?thesis using r [OF True] True by (auto simp: tell_def ask_def split: prod.splits)
  next
    case False
    then obtain f where f: "k (Mkdir p (st_mode st)) (fs e) = (Done, f)" "is_dir look f p" "changed look {p} (fs e) f"
      using assms(1,4) unfolding fs_laws_def makes_dirs_def by blast
    then have "extract_dir k q st e = Some (?ready (e\<lparr>fs := f\<rparr>))"
      by (simp add: extract_dir_def assms(2) Let_def ask_def)
    then show ?thesis
      using r [of "e\<lparr>fs := f\<rparr>"] f(2,3) changed_trans [OF f(3), of "{p}" _ "{p}"] by auto
  qed
qed

definition dir_ok :: "string \<Rightarrow> bool" where
  "dir_ok p \<longleftrightarrow> plain_name (dir_name p) \<and> strip_slashes (dir_name p) = p \<and> p \<noteq> []"

lemma strip_slash: "p \<noteq> [] \<Longrightarrow> last p \<noteq> CHR ''/'' \<Longrightarrow> strip_slashes (p @ ''/'') = p"
  by (cases p rule: rev_cases; cases "butlast p") (auto simp: strip_slashes_def hd_append split: list.split)

lemma dir_ok_path: "path_ok p \<Longrightarrow> dir_ok p"
  using dir_name_ok [of p] strip_slash [of p] by (auto simp: dir_ok_def path_ok_def)

lemma dir_ok_top: "dir_ok ''.''"
  by (simp add: dir_ok_def dir_name_def plain_name_def strip_slashes_def)

lemma extract_dir_member:
  assumes "fs_laws k look" and "stat_ok env us st" and "dir_ok p"
    and "is_dir look (fs e) p \<or> look (fs e) p = None \<and> is_dir look (fs e) (parent p)"
    and "left r = head_recs env (dir_name p) (dir_header env p st) @ rs"
  shows "\<exists>r' e'. read_and k us (None, None) r e = read_and k us (None, None) r' e' \<and> left r' = rs \<and>
    is_dir look (fs e') p \<and> changed look {p} (fs e) (fs e') \<and> (\<forall>d \<in> set (saved_dirs e'). d \<in> set (saved_dirs e) \<or> fst d = p)"
proof -
  let ?h = "dir_header env p st" and ?q = "dir_name p"
  have q: "plain_name ?q" "strip_slashes ?q = p" "p \<noteq> []" using assms(3) by (simp_all add: dir_ok_def)
  have mh: "member_header env ?q (st\<lparr>st_size := 0\<rparr>) ?h"
    unfolding member_header_def dir_header_def by (intro exI [of _ LF_DIR]) simp
  obtain r1 l where r1: "read_header (None, None) r =
      (Member \<lparr>m_head = finished ?h, m_name = ?q, m_link = l, m_size = 0\<rparr>, (None, None), r1)"
    "left r1 = bytes (finished ?h) # rs"
    using read_member [OF q(1) _ mh, where r = r and rs = rs] assms(5) by (auto simp: small_def)
  obtain e' where e': "extract_dir k ?q (decode_header us (finished ?h)) e = Some e'" "is_dir look (fs e') p" "changed look {p} (fs e) (fs e')"
    "\<forall>d \<in> set (saved_dirs e'). d \<in> set (saved_dirs e) \<or> fst d = p"
    using extract_dir_ok [OF assms(1) q(2,3) assms(4)] by blast
  have dw: "dropWhile (\<lambda>c. c = CHR ''/'') ?q = ?q"
    using q(1) by (cases ?q) (auto simp: plain_name_def)
  have lf: "linkflag (finished ?h) = LF_DIR" by (simp add: finished_def dir_header_def)
  have "extract_archive k us \<lparr>m_head = finished ?h, m_name = ?q, m_link = l, m_size = 0\<rparr> r1 e = Some (skip1 r1, e')"
    using e'(1) dw
    by (simp add: extract_archive_def Let_def lf LF_NORMAL_def LF_LINK_def LF_SYMLINK_def LF_CHR_def LF_BLK_def LF_FIFO_def
        LF_DUMPDIR_def LF_DIR_def)
  then show ?thesis
    using r1 e' by (intro exI [of _ "skip1 r1"] exI [of _ e']) (simp add: read_and.simps [of k us _ r] skip1_def)
qed


subsection \<open>Trees\<close>

definition below :: "string \<Rightarrow> string set" where
  "below p = {q. q = p \<or> (\<exists>t. q = p @ CHR ''/'' # t)}"

definition base :: "string \<Rightarrow> string" where
  "base pre = (if pre = [] then ''.'' else butlast pre)"

definition entry_paths :: "string \<Rightarrow> (string \<times> node) list \<Rightarrow> string set" where
  "entry_paths pre es = (\<Union>g \<in> {g \<in> fst ` set es. \<not> dots g}. below (pre @ g))"

lemma entry_paths_simps [simp]:
  "entry_paths pre [] = {}"
  "entry_paths pre ((g, n) # es) = (if dots g then {} else below (pre @ g)) \<union> entry_paths pre es"
  by (auto simp: entry_paths_def)

lemma parent_entry:
  assumes "pre = [] \<or> last pre = CHR ''/''" and "CHR ''/'' \<notin> set g"
  shows "parent (pre @ g) = base pre"
proof (cases pre rule: rev_cases)
  case Nil
  then show ?thesis using assms(2) by (simp add: parent_def base_def Let_def)
next
  case (snoc d c)
  then have "dropWhile (\<lambda>c. c \<noteq> CHR ''/'') (rev g @ CHR ''/'' # rev d) = CHR ''/'' # rev d"
    using assms(2) by (subst dropWhile_append2) auto
  then show ?thesis using snoc assms(1) by (simp add: parent_def base_def Let_def)
qed

lemma below_entry:
  assumes "q \<in> below (pre @ g)" and "CHR ''/'' \<notin> set g"
  shows "takeWhile (\<lambda>c. c \<noteq> CHR ''/'') (drop (length pre) q) = g"
  using assms by (auto simp: below_def takeWhile_append)

lemma below_disjoint:
  "g \<noteq> h \<Longrightarrow> CHR ''/'' \<notin> set g \<Longrightarrow> CHR ''/'' \<notin> set h \<Longrightarrow> below (pre @ g) \<inter> below (pre @ h) = {}"
  using below_entry by blast

lemma below_sub: "below (p @ CHR ''/'' # g) \<subseteq> below p - {p}"
  by (auto simp: below_def)

lemma entry_paths_below: "entry_paths (p @ ''/'') es \<subseteq> below p - {p}"
  using below_sub by (force simp: entry_paths_def)

lemma entries_disjoint:
  assumes "good_entries env us pre es" and "g \<notin> fst ` set es" and "CHR ''/'' \<notin> set g"
  shows "below (pre @ g) \<inter> entry_paths pre es = {}"
  using assms
proof (induction es)
  case (Cons x es)
  then show ?case using below_disjoint [of g "fst x" pre] by (cases x) auto
qed simp

lemma fits_changed:
  assumes "changed look S f f'"
  shows "fits look f p n \<Longrightarrow> below p \<inter> S = {} \<Longrightarrow> fits look f' p n"
    and "fits_entries look f pre es \<Longrightarrow> entry_paths pre es \<inter> S = {} \<Longrightarrow> fits_entries look f' pre es"
  using assms
proof (induction look f p n and look f pre es rule: fits_fits_entries.induct)
  case (1 look f p st b)
  then have "look f' p = look f p \<or> is_dir look f p"
    by (auto simp: changed_def below_def)
  then show ?case using 1 by (auto simp: is_dir_def)
next
  case (2 look f p st es)
  have "p \<notin> S" using 2 by (auto simp: below_def)
  then have "look f' p = look f p \<or> is_dir look f' p" using 2 by (auto simp: changed_def)
  moreover have "entry_paths (p @ ''/'') es \<inter> S = {}" using 2 entry_paths_below [of p es] by auto
  ultimately show ?case using 2 by (auto simp: is_dir_def)
qed (auto split: if_splits)

lemma holds_changed:
  assumes "changed look S f f'"
  shows "holds look us f p n \<Longrightarrow> below p \<inter> S = {} \<Longrightarrow> holds look us f' p n"
    and "holds_entries look us f pre es \<Longrightarrow> entry_paths pre es \<inter> S = {} \<Longrightarrow> holds_entries look us f' pre es"
  using assms
proof (induction look us f p n and look us f pre es rule: holds_holds_entries.induct)
  case (1 look us f p st b)
  then have "look f' p = look f p \<or> is_dir look f p"
    by (auto simp: changed_def below_def)
  then show ?case using 1 by (auto simp: is_dir_def)
next
  case (2 look us f p st es)
  moreover have "entry_paths (p @ ''/'') es \<inter> S = {}" using 2 entry_paths_below [of p es] by auto
  ultimately show ?case by (auto simp: changed_def)
qed (auto split: if_splits)

definition read_to :: "'fs kernel \<Rightarrow> 'fs looking \<Rightarrow> tar_user \<Rightarrow> string set \<Rightarrow> string list \<Rightarrow> rd \<Rightarrow> 'fs ex \<Rightarrow> ('fs \<Rightarrow> bool) \<Rightarrow> bool" where
  "read_to k look us S rs r e P \<longleftrightarrow>
     (\<exists>r' e'. read_and k us (None, None) r e = read_and k us (None, None) r' e' \<and> left r' = rs \<and> P (fs e') \<and>
        changed look S (fs e) (fs e') \<and> (\<forall>d \<in> set (saved_dirs e'). d \<in> set (saved_dirs e) \<or> is_dir look (fs e') (fst d)))"

lemma extract_tree:
  assumes "fs_laws k look"
  shows "good env us p n \<Longrightarrow> fits look (fs e) p n \<Longrightarrow> is_dir look (fs e) (parent p) \<Longrightarrow> left r = render env p n @ rs \<Longrightarrow>
      read_to k look us (below p) rs r e (\<lambda>f. holds look us f p n)"
    and "good_entries env us pre es \<Longrightarrow> fits_entries look (fs e) pre es \<Longrightarrow> is_dir look (fs e) (base pre) \<Longrightarrow>
      pre = [] \<or> last pre = CHR ''/'' \<Longrightarrow> left r = render_entries env pre es @ rs \<Longrightarrow>
      read_to k look us (entry_paths pre es) rs r e (\<lambda>f. holds_entries look us f pre es)"
proof (induction env us p n and env us pre es arbitrary: r e rs and r e rs rule: good_good_entries.induct)
  case (1 env us p st s)
  then show ?case
    using extract_file [OF assms, where env = env and us = us and p = p and st = st and s = s and e = e and r = r and rs = rs] changed_mono [of look "{p}" _ _ "below p"]
    unfolding read_to_def below_def by fastforce
next
  case (2 env us p st es)
  then have g: "path_ok p" "stat_ok env us st" "good_entries env us (p @ ''/'') es" by auto
  obtain r1 e1 where a: "read_and k us (None, None) r e = read_and k us (None, None) r1 e1"
    "left r1 = render_entries env (p @ ''/'') es @ rs" "is_dir look (fs e1) p" "changed look {p} (fs e) (fs e1)"
    "\<forall>d \<in> set (saved_dirs e1). d \<in> set (saved_dirs e) \<or> fst d = p"
    using extract_dir_member [OF assms g(2) dir_ok_path [OF g(1)], where e = e and r = r and rs = "render_entries env (p @ ''/'') es @ rs"] "2.prems" by auto
  have "entry_paths (p @ ''/'') es \<inter> {p} = {}" using entry_paths_below [of p es] by auto
  then have f: "fits_entries look (fs e1) (p @ ''/'') es"
    using fits_changed(2) [OF a(4)] "2.prems"(2) by simp
  have "read_to k look us (entry_paths (p @ ''/'') es) rs r1 e1 (\<lambda>f. holds_entries look us f (p @ ''/'') es)"
    using "2.IH" [OF g(3) f _ _ a(2)] a(3) by (simp add: base_def)
  then obtain r2 e2 where b: "read_and k us (None, None) r1 e1 = read_and k us (None, None) r2 e2" "left r2 = rs"
    "holds_entries look us (fs e2) (p @ ''/'') es" "changed look (entry_paths (p @ ''/'') es) (fs e1) (fs e2)"
    "\<forall>d \<in> set (saved_dirs e2). d \<in> set (saved_dirs e1) \<or> is_dir look (fs e2) (fst d)"
    unfolding read_to_def by blast
  have d: "is_dir look (fs e2) p" using a(3) b(4) by (simp add: changed_def)
  have "changed look (below p) (fs e) (fs e2)"
  proof (rule changed_trans [OF a(4) b(4)])
    show "{p} \<union> entry_paths (p @ ''/'') es \<subseteq> below p"
      using entry_paths_below [of p es] by (auto simp: below_def)
  qed
  then show ?case
    using a(1,5) b d unfolding read_to_def by (intro exI [of _ r2] exI [of _ e2]) auto
next
  case (5 env us pre g n es)
  show ?case
  proof (cases "dots g")
    case True
    then show ?thesis using 5 by simp
  next
    case False
    then have g: "CHR ''/'' \<notin> set g" "g \<notin> fst ` set es" "good env us (pre @ g) n" "good_entries env us pre es"
      using "5.prems"(1) by auto
    have p: "is_dir look (fs e) (parent (pre @ g))"
      using parent_entry [OF "5.prems"(4) g(1)] "5.prems"(3) by simp
    have "read_to k look us (below (pre @ g)) (render_entries env pre es @ rs) r e (\<lambda>f. holds look us f (pre @ g) n)"
      using "5.IH"(1) [OF g(3) _ p] "5.prems"(2,5) False by simp
    then obtain r1 e1 where a: "read_and k us (None, None) r e = read_and k us (None, None) r1 e1" "left r1 = render_entries env pre es @ rs"
      "holds look us (fs e1) (pre @ g) n" "changed look (below (pre @ g)) (fs e) (fs e1)"
      "\<forall>d \<in> set (saved_dirs e1). d \<in> set (saved_dirs e) \<or> is_dir look (fs e1) (fst d)"
      unfolding read_to_def by blast
    have dj: "below (pre @ g) \<inter> entry_paths pre es = {}" using entries_disjoint [OF g(4,2,1)] .
    have f: "fits_entries look (fs e1) pre es"
      using fits_changed(2) [OF a(4)] "5.prems"(2) dj by auto
    have "is_dir look (fs e1) (base pre)" using a(4) "5.prems"(3) by (simp add: changed_def)
    then have "read_to k look us (entry_paths pre es) rs r1 e1 (\<lambda>f. holds_entries look us f pre es)"
      using "5.IH"(2) [OF g(4) f _ "5.prems"(4) a(2)] by blast
    then obtain r2 e2 where b: "read_and k us (None, None) r1 e1 = read_and k us (None, None) r2 e2" "left r2 = rs"
      "holds_entries look us (fs e2) pre es" "changed look (entry_paths pre es) (fs e1) (fs e2)"
      "\<forall>d \<in> set (saved_dirs e2). d \<in> set (saved_dirs e1) \<or> is_dir look (fs e2) (fst d)"
      unfolding read_to_def by blast
    have "holds look us (fs e2) (pre @ g) n" using holds_changed(1) [OF b(4) a(3) dj] .
    moreover have "changed look (entry_paths pre ((g, n) # es)) (fs e) (fs e2)"
      using changed_trans [OF a(4) b(4)] False by simp
    moreover have "\<forall>d \<in> set (saved_dirs e2). d \<in> set (saved_dirs e) \<or> is_dir look (fs e2) (fst d)"
      using a(5) b(4,5) by (auto simp: changed_def)
    ultimately show ?thesis
      using a(1) b(1-3) unfolding read_to_def by (intro exI [of _ r2] exI [of _ e2]) simp
  qed
next
  case (4 env us pre)
  then show ?case unfolding read_to_def by (intro exI [of _ r] exI [of _ e]) auto
qed auto


subsection \<open>The end of the archive\<close>

lemma changed_same: "changed look {p} f f' \<Longrightarrow> is_dir look f p \<Longrightarrow> changed look {} f f'"
  by (auto simp: changed_def)

lemma restore_dir_changed:
  assumes "fs_laws k look" and "is_dir look (fs e) (fst d)"
  shows "changed look {} (fs e) (fs (restore_dir k us d e))"
proof -
  obtain p mode t where d: "d = (p, mode, t)" by (cases d)
  obtain a where a: "look (fs e) p = Some (D a)" using assms(2) by (auto simp: is_dir_def d)
  obtain f where f: "k (Utime p t) (fs e) = (Done, f)" "look f = (look (fs e))(p \<mapsto> set_attrs (\<lambda>a. a\<lparr>a_mtime := t\<rparr>) (D a))"
    using utime_law [OF assms(1) a, of t] by blast
  then have b: "look f p = Some (D (a\<lparr>a_mtime := t\<rparr>))" by simp
  obtain f' where f': "k (Chmod p (NOT (umask us) AND mode)) f = (Done, f')"
    "look f' = (look f)(p \<mapsto> set_attrs (\<lambda>a. a\<lparr>a_mode := NOT (umask us) AND mode\<rparr>) (D (a\<lparr>a_mtime := t\<rparr>)))"
    using chmod_law [OF assms(1) b, of "NOT (umask us) AND mode"] by blast
  have c: "changed look {p} (fs e) f" "changed look {p} f f'"
    using changed_dir [OF f(2) a] changed_dir [OF f'(2) b] a b by (auto simp: is_dir_def)
  have "restore_dir k us d e = e\<lparr>fs := f'\<rparr>"
    using f(1) f'(1) by (simp add: restore_dir_def d tell_def ask_def)
  then show ?thesis
    using changed_same [OF changed_trans [OF c, of "{p}"]] a by (simp add: is_dir_def)
qed

lemma restore_dirs_changed:
  assumes "fs_laws k look" and "\<forall>d \<in> set ds. is_dir look (fs e) (fst d)"
  shows "changed look {} (fs e) (fs (fold (restore_dir k us) ds e))"
  using assms(2)
proof (induction ds arbitrary: e)
  case (Cons d ds)
  have c: "changed look {} (fs e) (fs (restore_dir k us d e))"
    using Cons.prems by (intro restore_dir_changed [OF assms(1)]) simp
  then have "\<forall>d' \<in> set ds. is_dir look (fs (restore_dir k us d e)) (fst d')"
    using Cons.prems by (simp add: changed_def)
  then show ?case using changed_trans [OF c Cons.IH] by simp
qed auto

lemma read_zero: "left r = zeros RECORDSIZE # rs \<Longrightarrow> read_header ln r = (Zero, ln, r)"
proof -
  assume l: "left r = zeros RECORDSIZE # rs"
  have "byte_sum (zeros n) = 0" for n by (induction n) simp_all
  moreover have "chksum (header_of (zeros RECORDSIZE)) = zeros 8"
    by (simp add: header_of_def part_def zeros_def RECORDSIZE_def)
  ultimately have "fst (header_sums (zeros RECORDSIZE)) = 8 * 32"
    by (simp add: header_sums_def Let_def)
  then show ?thesis
    by (cases "header_sums (zeros RECORDSIZE)") (simp add: read_header.simps [of ln r] l Let_def)
qed

lemma zero_records_Cons: "0 < n \<Longrightarrow> zero_records n = zeros RECORDSIZE # zero_records (n - 1)"
  by (cases n) (simp_all add: zero_records_def)

lemma create_archive_render:
  assumes "archive_file env = None" and "good_entries env us [] es"
  shows "\<exists>n. out (create_archive env [(''.'', Dir st (Some es))]) =
    head_recs env (dir_name ''.'') (dir_header env ''.'' st) @ render_entries env [] es @ zeros RECORDSIZE # zero_records n"
proof -
  have "dir_prefix ''.'' = []" by (simp add: dir_prefix_def dir_name_def)
  then show ?thesis
    using assms dump_render(2) [OF assms]
    by (auto simp: create_archive_def is_archive_def can_link_def dump_dir_header_good write_eot_def zero_records_Cons)
qed

text \<open>
  C4. What was saved is restored: when the archive that \<open>tar c .\<close> makes of a directory is extracted into a
  file system that behaves as documented and where no directory is in the way of a file or the reverse, every
  regular file of the tree, however long its path, is there with its contents, owner, time and mode (but for
  the bits of the umask), every directory is there, and nothing outside the tree has changed but the
  attributes of directories.
\<close>

theorem restore_saved:
  assumes "good_entries env us [] es" and "stat_ok env us st" and "archive_file env = None" and "fs_laws k look"
    and "is_dir look f ''.''" and "fits_entries look f [] es"
  shows "\<exists>f'. tar_extract k us (out (create_archive env [(''.'', Dir st (Some es))])) f = Some f' \<and>
    holds_entries look us f' [] es \<and> changed look (entry_paths [] es) f f'"
proof -
  obtain n where n: "out (create_archive env [(''.'', Dir st (Some es))]) =
      head_recs env (dir_name ''.'') (dir_header env ''.'' st) @ render_entries env [] es @ zeros RECORDSIZE # zero_records n"
    using create_archive_render [OF assms(3,1)] by blast
  let ?z = "zeros RECORDSIZE # zero_records n"
  let ?r = "\<lparr>left = out (create_archive env [(''.'', Dir st (Some es))]), used = 0\<rparr>" and ?e = "\<lparr>fs = f, saved_dirs = []\<rparr>"
  obtain r1 e1 where a: "read_and k us (None, None) ?r ?e = read_and k us (None, None) r1 e1" "left r1 = render_entries env [] es @ ?z"
    "is_dir look (fs e1) ''.''" "changed look {''.''} (fs ?e) (fs e1)" "\<forall>d \<in> set (saved_dirs e1). fst d = ''.''"
    using extract_dir_member [OF assms(4,2) dir_ok_top, where e = ?e and r = ?r and rs = "render_entries env [] es @ ?z"] assms(5) n by auto
  have c: "changed look {} f (fs e1)" using changed_same a(4) assms(5) by fastforce
  have "fits_entries look (fs e1) [] es" using fits_changed(2) [OF c assms(6)] by simp
  then have "read_to k look us (entry_paths [] es) ?z r1 e1 (\<lambda>f. holds_entries look us f [] es)"
    using extract_tree(2) [OF assms(4,1) _ _ _ a(2)] a(3) by (simp add: base_def)
  then obtain r2 e2 where b: "read_and k us (None, None) r1 e1 = read_and k us (None, None) r2 e2" "left r2 = ?z"
    "holds_entries look us (fs e2) [] es" "changed look (entry_paths [] es) (fs e1) (fs e2)"
    "\<forall>d \<in> set (saved_dirs e2). d \<in> set (saved_dirs e1) \<or> is_dir look (fs e2) (fst d)"
    unfolding read_to_def by blast
  have "is_dir look (fs e2) ''.''" using b(4) a(3) by (simp add: changed_def)
  then have "\<forall>d \<in> set (saved_dirs e2). is_dir look (fs e2) (fst d)"
    using b(5) a(5) by metis
  then have d: "changed look {} (fs e2) (fs (restore_saved_dir_info k us e2))"
    unfolding restore_saved_dir_info_def
    using restore_dirs_changed [OF assms(4), of "saved_dirs e2" "e2\<lparr>saved_dirs := []\<rparr>" us] by simp
  have "read_and k us (None, None) r2 e2 = Some (restore_saved_dir_info k us e2)"
    using read_zero [OF b(2)] by (simp add: read_and.simps)
  then have "tar_extract k us (out (create_archive env [(''.'', Dir st (Some es))])) f = Some (fs (restore_saved_dir_info k us e2))"
    using a(1) b(1) by (simp add: tar_extract_def)
  moreover have "changed look (entry_paths [] es) f (fs (restore_saved_dir_info k us e2))"
    using changed_trans [OF c changed_trans [OF b(4) d order_refl]] by simp
  moreover have "holds_entries look us (fs (restore_saved_dir_info k us e2)) [] es"
    using holds_changed(2) [OF d b(3)] by simp
  ultimately show ?thesis by blast
qed


lemma n_records_split: "0 < t \<Longrightarrow> t \<le> RECORDSIZE \<Longrightarrow> n_records (RECORDSIZE * q + t) = q + 1"
  unfolding n_records_def RECORDSIZE_def by (rule div_nat_eqI) simp_all

lemma one_too_many:
  assumes "c < n" and "0 < c mod RECORDSIZE" and "c mod RECORDSIZE < (n - 1) mod RECORDSIZE + 1"
  shows "n_records c + n_records (n - c) = n_records n + 1"
proof -
  define a b q t where "a = c div RECORDSIZE" and "b = c mod RECORDSIZE" and "q = (n - 1) div RECORDSIZE" and "t = (n - 1) mod RECORDSIZE + 1"
  have c: "c = RECORDSIZE * a + b" by (simp add: a_def b_def)
  have "n - 1 = RECORDSIZE * q + (t - 1)" by (simp add: q_def t_def)
  then have n: "n = RECORDSIZE * q + t" using assms(1) by (simp add: t_def)
  have bt: "0 < b" "b < t" "t \<le> RECORDSIZE" "b \<le> RECORDSIZE"
    using assms(2,3) by (simp_all add: b_def t_def less_imp_le Suc_le_eq)
  have "a \<le> q" using assms(1) by (simp add: a_def q_def div_le_mono)
  then have "n - c = RECORDSIZE * (q - a) + (t - b)"
    using bt by (simp add: c n diff_mult_distrib2 mult_le_mono2)
  then show ?thesis
    using bt \<open>a \<le> q\<close> n_records_split [of b a] n_records_split [of t q] n_records_split [of "t - b" "q - a"]
    by (simp add: c [symmetric] n [symmetric])
qed

text \<open>
  C40. A file that got shorter while it is saved: the record that was begun is used and the bytes that are
  missing are counted in records of their own, so that the body is one record too long when nothing was read,
  or when the part that was read ends a record earlier in it than the file should. The last record is zero, and
  \<open>read_header\<close>, behind the records the header promises, takes it for the end of the archive: all that follows is lost.
\<close>

theorem shrunk_file_ends_archive:
  assumes "length s < n" and "n \<le> room (length (out w)) * RECORDSIZE"
    and "s = [] \<or> 0 < length s mod RECORDSIZE \<and> length s mod RECORDSIZE < (n - 1) mod RECORDSIZE + 1"
  shows "\<exists>rs. out (dump_data env n s w) = out w @ rs @ [zeros RECORDSIZE] \<and> length rs = n_records n \<and>
    (\<forall>more ln. read_header ln \<lparr>left = zeros RECORDSIZE # more, used = length (out w @ rs)\<rparr> =
       (Zero, ln, \<lparr>left = zeros RECORDSIZE # more, used = length (out w @ rs)\<rparr>))"
proof -
  let ?c = "length s" and ?b = "s @ drop (length s) (buffer env (length (out w)) (room (length (out w))) n)"
  define m where "m = n_records (n - ?c)"
  have m: "0 < m" using assms(1) by (simp add: m_def n_records_pos)
  let ?k = "(?c - 1) div RECORDSIZE + 1"
  let ?rs = "cut ?k ?b @ zero_records (m - 1)"
  have b: "dump_data env n s w = userec (zero_records m) (userec (cut ?k ?b) w)"
    using assms(1,2) by (subst dump_data.simps) (simp add: Let_def m_def min_absorb1 del: cut.simps)
  have z: "zero_records m = zero_records (m - 1) @ [zeros RECORDSIZE]"
    using m by (cases m) (simp_all add: zero_records_def replicate_append_same)
  have "?k + m = n_records n + 1"
    using assms one_too_many [of ?c n] n_records_pred [of ?c] by (cases "?c = 0") (auto simp: m_def)
  then have "length ?rs = n_records n"
    using m by (simp add: zero_records_def del: cut.simps)
  then show ?thesis
    by (intro exI [of _ ?rs]) (simp add: b z read_zero del: cut.simps)
qed


subsection \<open>Trying it\<close>

text \<open>A kernel with the documented behaviour: the file system is a map from paths.\<close>

type_synonym flat_fs = "string \<Rightarrow> fnode option"

definition new_attrs :: "int \<Rightarrow> attrs" where
  "new_attrs m = \<lparr>a_mode = m, a_uid = 0, a_gid = 0, a_mtime = 0\<rparr>"

definition flat_set :: "string \<Rightarrow> (attrs \<Rightarrow> attrs) \<Rightarrow> flat_fs \<Rightarrow> reply \<times> flat_fs" where
  "flat_set p g f = (case f p of None \<Rightarrow> (Enoent, f) | Some n \<Rightarrow> (Done, f(p \<mapsto> set_attrs g n)))"

fun flat :: "flat_fs kernel" where
  "flat (Open p m) f =
     (case f p of
        None \<Rightarrow> if is_dir id f (parent p) then (Done, f(p \<mapsto> F (new_attrs m) [])) else (Enoent, f)
      | Some (F a s) \<Rightarrow> (Done, f(p \<mapsto> F a []))
      | _ \<Rightarrow> (Failed, f))"
| "flat (Write p d) f = (case f p of Some (F a s) \<Rightarrow> (Done, f(p \<mapsto> F a (s @ d))) | _ \<Rightarrow> (Failed, f))"
| "flat (Chown p u g) f = flat_set p (\<lambda>a. a\<lparr>a_uid := u, a_gid := g\<rparr>) f"
| "flat (Utime p t) f = flat_set p (\<lambda>a. a\<lparr>a_mtime := t\<rparr>) f"
| "flat (Chmod p m) f = flat_set p (\<lambda>a. a\<lparr>a_mode := m\<rparr>) f"
| "flat (Mkdir p m) f =
     (case f p of
        None \<Rightarrow> if is_dir id f (parent p) then (Done, f(p \<mapsto> D (new_attrs m))) else (Enoent, f)
      | Some _ \<Rightarrow> (Eexist, f))"
| "flat (Is_dir p) f = (if is_dir id f p then Done else Enoent, f)"
| "flat _ f = (Failed, f)"

lemma flat_laws: "fs_laws flat id"
proof -
  have "opens flat id"
    by (auto simp: opens_def is_dir_def intro!: changed_upd)
  moreover have "writes flat id"
    by (auto simp: writes_def is_dir_def intro!: changed_upd)
  moreover have "makes_dirs flat id"
    by (auto simp: makes_dirs_def is_dir_def intro!: changed_upd)
  moreover have "set_attrs (\<lambda>a. a\<lparr>a_uid := u, a_gid := g\<rparr>) n = set_attrs (\<lambda>a. a\<lparr>a_mode := m, a_uid := u, a_gid := g\<rparr>) n"
    if "m = (case n of F a _ \<Rightarrow> a_mode a | D a \<Rightarrow> a_mode a | Other \<Rightarrow> 0)" for u g n m
    using that by (cases n) auto
  then have "sets flat id (Chown p u g) p (\<lambda>a. a\<lparr>a_uid := u, a_gid := g\<rparr>)" for p u g
    by (force simp: sets_def flat_set_def)
  moreover have "sets_keep flat id (Utime p t) p (\<lambda>a. a\<lparr>a_mtime := t\<rparr>)" "sets_keep flat id (Chmod p m) p (\<lambda>a. a\<lparr>a_mode := m\<rparr>)" for p t m
    by (simp_all add: sets_keep_def flat_set_def)
  ultimately show ?thesis by (simp add: fs_laws_def)
qed

definition root_stat :: "int \<Rightarrow> nat \<Rightarrow> tstat" where
  "root_stat mode n = zero_stat\<lparr>st_nlink := 1, st_mode := mode, st_size := int n, st_mtime := 1000000000\<rparr>"

definition saved_etc :: "(string \<times> node) list" where
  "saved_etc =
     [(''.'', Missing), (''..'', Missing),
      (''rules'', File (root_stat 0x81E4 4) (Some ''list'')),
      (''ssh'', Dir (root_stat 0x41ED 512) (Some [(''keys'', File (root_stat 0x8180 2) (Some ''ab''))]))]"

definition one_user :: tar_env where
  "one_user = \<lparr>user_name = [0 \<mapsto> ''root''], group_name = [0 \<mapsto> ''wheel''], archive_file = None, stale = (\<lambda>_. NUL), minor_junk = NUL\<rparr>"

definition one_owner :: tar_user where
  "one_owner = \<lparr>user_id = (\<lambda>_. 0), group_id = (\<lambda>_. 0), umask = 0x12\<rparr>"

text \<open>In the file system the rules are other ones and the directory is missing.\<close>

definition fresh_etc :: flat_fs where
  "fresh_etc = [''.'' \<mapsto> D (new_attrs 0x1ED), ''rules'' \<mapsto> F (new_attrs 0) ''old'', ''motd'' \<mapsto> F (new_attrs 0) ''hello'']"

theorem restore_saved_witness:
  "\<exists>f. tar_extract flat one_owner (out (create_archive one_user [(''.'', Dir (root_stat 0x41ED 512) (Some saved_etc))])) fresh_etc = Some f \<and>
     f ''rules'' = Some (F (attrs_of one_owner (root_stat 0x81E4 4)) ''list'') \<and>
     f ''ssh/keys'' = Some (F (attrs_of one_owner (root_stat 0x8180 2)) ''ab'') \<and> f ''motd'' = fresh_etc ''motd''"
proof -
  have s: "stat_ok one_user one_owner (root_stat m n)" if "0 \<le> m" "m < 2 ^ 16" for m n
    using that by (simp add: stat_ok_def root_stat_def zero_stat_def small_def owner_ok_def one_user_def one_owner_def)
  have g: "good_entries one_user one_owner [] saved_etc"
    by (simp add: saved_etc_def dots_def path_ok_def plain_name_def s) (simp add: root_stat_def zero_stat_def small_def)
  have f: "fits_entries id fresh_etc [] saved_etc" "is_dir id fresh_etc ''.''"
    by (simp_all add: saved_etc_def dots_def fresh_etc_def is_dir_def)
  obtain f' where f': "tar_extract flat one_owner (out (create_archive one_user [(''.'', Dir (root_stat 0x41ED 512) (Some saved_etc))])) fresh_etc = Some f'"
    "holds_entries id one_owner f' [] saved_etc" "changed id (entry_paths [] saved_etc) fresh_etc f'"
    using restore_saved [OF g s _ flat_laws f(2,1), of "0x41ED" 512] by (auto simp: one_user_def)
  have "''motd'' \<notin> entry_paths [] saved_etc"
    by (simp add: saved_etc_def dots_def below_def)
  then have "f' ''motd'' = fresh_etc ''motd''"
    using f'(3) by (auto simp: changed_def is_dir_def fresh_etc_def)
  then show ?thesis
    using f'(1,2) by (auto simp: saved_etc_def dots_def)
qed

theorem shrunk_file_ends_archive_witness:
  "\<exists>rs. out (dump_data one_user 600 [] \<lparr>out = [], linklist = [], tar_errors = 0\<rparr>) = rs @ [zeros RECORDSIZE] \<and> length rs = 2"
  using shrunk_file_ends_archive [of "[]" 600 "\<lparr>out = [], linklist = [], tar_errors = 0\<rparr>" one_user]
  by (auto simp: room_def blocking_def RECORDSIZE_def n_records_def)

end
