(* ===== verification/IpfwPipe.thy ===== *)
theory IpfwPipe
  imports IpfwMain
begin

text \<open>
  \<open>sbin/ipfw/ipfw.c\<close>: \<open>config_pipe\<close>, the configuration of a traffic pipe or queue. The members of
  \<open>struct dn_pipe\<close> come from a kernel header: the numbers of pipes and queues have 16 bits, the ports and
  the protocol of a mask 16 and 8, the other integers are words of 32 bits, compared as signed numbers. The
  flags are constructors. Floating point is left to the machine: what becomes of a probability or a weight
  is a parameter, as are the clock and the tables of the kernel.
\<close>

subsection \<open>Data\<close>

datatype dn_flag = DN_QSIZE_IS_BYTES | DN_HAVE_FLOW_MASK | DN_IS_RED | DN_IS_GENTLE_RED

record flow_mask =
  mask_dst_ip :: nat
  mask_src_ip :: nat
  mask_dst_port :: nat
  mask_src_port :: nat
  mask_proto :: nat

definition no_mask :: flow_mask where
  "no_mask = \<lparr>mask_dst_ip = 0, mask_src_ip = 0, mask_dst_port = 0, mask_src_port = 0, mask_proto = 0\<rparr>"

definition full_mask :: flow_mask where
  "full_mask = \<lparr>mask_dst_ip = 2 ^ 32 - 1, mask_src_ip = 2 ^ 32 - 1, mask_dst_port = 2 ^ 16 - 1, mask_src_port = 2 ^ 16 - 1,
     mask_proto = 2 ^ 8 - 1\<rparr>"

record dn_pipe =
  pipe_nr :: nat
  fs_nr :: nat
  parent_nr :: nat
  if_name :: string
  bandwidth :: "32 word"
  delay :: "32 word"
  weight :: "32 word"
  qsize :: "32 word"
  rq_size :: "32 word"
  plr :: nat
  flags_fs :: "dn_flag set"
  flow_mask :: flow_mask
  w_q :: nat
  min_th :: "32 word"
  max_th :: "32 word"
  max_p :: nat
  red_lookup :: "(nat \<times> nat) option"

definition zero_pipe :: dn_pipe where
  "zero_pipe = \<lparr>pipe_nr = 0, fs_nr = 0, parent_nr = 0, if_name = [], bandwidth = 0, delay = 0, weight = 0, qsize = 0,
     rq_size = 0, plr = 0, flags_fs = {}, flow_mask = no_mask, w_q = 0, min_th = 0, max_th = 0, max_p = 0, red_lookup = None\<rparr>"

text \<open>
  Floating point: \<open>fp_plr\<close> is the probability clamped to [0, 1] and scaled to 31 bits; \<open>fp_red\<close> a fraction
  scaled to 16 bits, \<open>None\<close> unless it lies in (0, 1]; \<open>fp_lookup hz size bw w_q depth\<close> the step and the weight
  of the lookup table. \<open>red_depth\<close>, \<open>red_size\<close> and \<open>clock_hz\<close> are the three \<open>sysctl\<close> values, \<open>None\<close> for a
  failure; \<open>takes_pipe\<close> tells whether the kernel takes the pipe.
\<close>

record pipe_env =
  fp_plr :: "string \<Rightarrow> nat"
  fp_red :: "string \<Rightarrow> nat option"
  fp_lookup :: "int \<Rightarrow> int \<Rightarrow> 32 word \<Rightarrow> nat \<Rightarrow> int \<Rightarrow> nat \<times> nat"
  red_depth :: "int option"
  red_size :: "int option"
  clock_hz :: "int option"
  takes_pipe :: "dn_pipe \<Rightarrow> bool"

subsection \<open>Options\<close>

text \<open>\<open>strtoul\<close> stored into an \<open>int\<close>, with the rest of the word.\<close>

definition int_arg :: "string \<Rightarrow> 32 word \<times> string" where
  "int_arg s = (case strtoul 0 s of (v, rest) \<Rightarrow> (word_of_nat v, rest))"

definition is_kilo :: "string \<Rightarrow> bool" where
  "is_kilo e \<longleftrightarrow> take 1 e = ''K'' \<or> take 1 e = ''k''"

definition queue_arg :: "string \<Rightarrow> dn_pipe \<Rightarrow> dn_pipe" where
  "queue_arg b p =
     (case int_arg b of (v, e) \<Rightarrow>
        if is_kilo e then p\<lparr>qsize := v * 1024, flags_fs := insert DN_QSIZE_IS_BYTES (flags_fs p)\<rparr>
        else if take 1 e = ''B'' \<or> take 2 e = ''by''
          then p\<lparr>qsize := v, flags_fs := insert DN_QSIZE_IS_BYTES (flags_fs p)\<rparr>
        else p\<lparr>qsize := v\<rparr>)"

text \<open>
  The value of a mask: a width behind a slash, or the mask itself. A shift by more than 32 bits has no
  defined behaviour.
\<close>

definition mask_value :: "string \<Rightarrow> nat outcome" where
  "mask_value b =
     (if take 1 b = ''/'' then
        let a = fst (strtoul 0 (tl b))
        in if a = 32 then Ok (2 ^ 32 - 1) else if a < 32 then Ok (2 ^ a - 1) else Undefined
      else Ok (fst (strtoul 0 b)))"

datatype mask_field = Dst_ip | Src_ip | Dst_port | Src_port | Proto

definition mask_key :: "string \<Rightarrow> mask_field option" where
  "mask_key a =
     (if kw a ''dst-ip'' then Some Dst_ip else if kw a ''src-ip'' then Some Src_ip
      else if kw a ''dst-port'' then Some Dst_port else if kw a ''src-port'' then Some Src_port
      else if kw a ''proto'' then Some Proto else None)"

definition set_mask :: "string \<Rightarrow> mask_field \<Rightarrow> nat \<Rightarrow> dn_pipe \<Rightarrow> dn_pipe outcome" where
  "set_mask a f v p =
     (let m = flow_mask p; flags = (if v \<noteq> 0 then insert DN_HAVE_FLOW_MASK (flags_fs p) else flags_fs p);
          put = (\<lambda>m. Ok (p\<lparr>flow_mask := m, flags_fs := flags\<rparr>))
      in case f of
           Dst_port \<Rightarrow> if 2 ^ 16 \<le> v then Fail (EX_DATAERR a) else put (m\<lparr>mask_dst_port := v\<rparr>)
         | Src_port \<Rightarrow> if 2 ^ 16 \<le> v then Fail (EX_DATAERR a) else put (m\<lparr>mask_src_port := v\<rparr>)
         | Proto \<Rightarrow> if 2 ^ 8 \<le> v then Fail (EX_DATAERR a) else put (m\<lparr>mask_proto := v\<rparr>)
         | Dst_ip \<Rightarrow> put (m\<lparr>mask_dst_ip := v\<rparr>)
         | Src_ip \<Rightarrow> put (m\<lparr>mask_src_ip := v\<rparr>))"

fun mask_args :: "string list \<Rightarrow> dn_pipe \<Rightarrow> (dn_pipe \<times> string list) outcome" where
  "mask_args [] p = Ok (p, [])"
| "mask_args (a # av) p =
     (case mask_key a of
        None \<Rightarrow> Ok (p, a # av)
      | Some f \<Rightarrow>
          (case av of
             [] \<Rightarrow> Fail (EX_USAGE a)
           | b # av \<Rightarrow> bind_o (mask_value b) (\<lambda>v. bind_o (set_mask a f v p) (mask_args av))))"

text \<open>\<open>strsep\<close> on the slashes of a word, and the four parts of a RED specification.\<close>

fun split_slash :: "string \<Rightarrow> string list" where
  "split_slash [] = [[]]"
| "split_slash (c # cs) =
     (if c = CHR ''/'' then [] # split_slash cs
      else case split_slash cs of t # ts \<Rightarrow> (c # t) # ts | [] \<Rightarrow> [[c]])"

definition threshold :: "string \<Rightarrow> 32 word" where
  "threshold s = (case int_arg s of (v, e) \<Rightarrow> if is_kilo e then v * 1024 else v)"

definition red_args :: "pipe_env \<Rightarrow> string \<Rightarrow> dn_pipe \<Rightarrow> dn_pipe outcome" where
  "red_args env b p =
     (let ps = split_slash b
      in bind_o (case fp_red env (hd ps) of None \<Rightarrow> Fail (EX_DATAERR ''w_q'') | Some w \<Rightarrow> Ok (p\<lparr>w_q := w\<rparr>)) (\<lambda>p.
         let p = (if 1 < length ps then p\<lparr>min_th := threshold (ps ! 1)\<rparr> else p);
             p = (if 2 < length ps then p\<lparr>max_th := threshold (ps ! 2)\<rparr> else p)
         in if 3 < length ps then
              (case fp_red env (ps ! 3) of None \<Rightarrow> Fail (EX_DATAERR ''max_p'') | Some m \<Rightarrow> Ok (p\<lparr>max_p := m\<rparr>))
            else Ok p))"

definition bw_arg :: "string \<Rightarrow> dn_pipe \<Rightarrow> dn_pipe" where
  "bw_arg b p =
     (if b \<noteq> [] \<and> 97 \<le> (of_char (hd b) :: nat) \<and> (of_char (hd b) :: nat) \<le> 122 then p\<lparr>if_name := take 15 b, bandwidth := 0\<rparr>
      else case int_arg b of (v, e) \<Rightarrow>
        let (v, e) = (if is_kilo e then (v * 1000, tl e) else if take 1 e = ''M'' then (v * 1000000, tl e) else (v, e));
            v = (if take 1 e = ''B'' \<or> take 2 e = ''by'' then v * 8 else v)
        in p\<lparr>if_name := [], bandwidth := v\<rparr>)"

text \<open>The options that only a pipe has, and those of a queue; all take an argument.\<close>

definition kind_arg :: "nat \<Rightarrow> string \<Rightarrow> string \<Rightarrow> dn_pipe \<Rightarrow> dn_pipe outcome" where
  "kind_arg do_pipe a b p =
     (if do_pipe = 1 then
        if kw a ''bw'' \<or> kw a ''bandwidth'' then Ok (bw_arg b p)
        else if kw a ''delay'' then Ok (p\<lparr>delay := fst (int_arg b)\<rparr>)
        else Fail (EX_DATAERR a)
      else
        if kw a ''weight'' then Ok (p\<lparr>weight := fst (int_arg b)\<rparr>)
        else if kw a ''pipe'' then Ok (p\<lparr>parent_nr := u_short (int (fst (strtoul 0 b)))\<rparr>)
        else Fail (EX_DATAERR a))"

text \<open>The loop \<open>while (ac > 1)\<close>: a single word that is left is not looked at.\<close>

lemma mask_args_shorter: "mask_args av p = Ok (p', av') \<Longrightarrow> length av' \<le> length av"
proof (induction av p arbitrary: p' av' rule: mask_args.induct)
  case (2 a av p)
  then show ?case
    by (fastforce simp: bind_o_eq_Ok split: option.splits list.splits)
qed simp

function config_args :: "pipe_env \<Rightarrow> nat \<Rightarrow> string list \<Rightarrow> dn_pipe \<Rightarrow> dn_pipe outcome" where
  "config_args env do_pipe [] p = Ok p"
| "config_args env do_pipe [a] p = Ok p"
| "config_args env do_pipe (a # b # av) p =
     (if kw a ''plr'' then config_args env do_pipe av (p\<lparr>plr := fp_plr env b\<rparr>)
      else if kw a ''queue'' then config_args env do_pipe av (queue_arg b p)
      else if kw a ''buckets'' then config_args env do_pipe av (p\<lparr>rq_size := fst (int_arg b)\<rparr>)
      else if kw a ''mask'' then
        if kw b ''all'' then
          config_args env do_pipe av (p\<lparr>flow_mask := full_mask, flags_fs := insert DN_HAVE_FLOW_MASK (flags_fs p)\<rparr>)
        else
          (case mask_args (b # av) (p\<lparr>flow_mask := no_mask\<rparr>) of
             Ok (p, av') \<Rightarrow> config_args env do_pipe av' p | Fail e \<Rightarrow> Fail e | Undefined \<Rightarrow> Undefined)
      else if kw a ''red'' \<or> kw a ''gred'' then
        bind_o (red_args env b (p\<lparr>flags_fs := flags_fs p \<union> {DN_IS_RED} \<union> (if take 1 a = ''g'' then {DN_IS_GENTLE_RED} else {})\<rparr>))
          (config_args env do_pipe av)
      else if kw a ''droptail'' then
        config_args env do_pipe (b # av) (p\<lparr>flags_fs := flags_fs p - {DN_IS_RED, DN_IS_GENTLE_RED}\<rparr>)
      else bind_o (kind_arg do_pipe a b p) (config_args env do_pipe av))"
  by pat_completeness auto
termination
  by (relation "measure (\<lambda>(env, k, av, p). length av)") (auto dest: mask_args_shorter simp del: mask_args.simps)

subsection \<open>The checks at the end\<close>

definition check_kind :: "nat \<Rightarrow> dn_pipe \<Rightarrow> dn_pipe outcome" where
  "check_kind do_pipe p =
     (if do_pipe = 1 then
        if pipe_nr p = 0 then Fail (EX_DATAERR ''pipe_nr must be > 0'')
        else if 10000 < sint (delay p) then Fail (EX_DATAERR ''delay must be < 10000'') else Ok p
      else
        if parent_nr p = 0 then Fail (EX_DATAERR ''pipe must be > 0'')
        else if 100 < sint (weight p) then Fail (EX_DATAERR ''weight must be <= 100'') else Ok p)"

definition check_qsize :: "dn_pipe \<Rightarrow> dn_pipe outcome" where
  "check_qsize p =
     (if (if DN_QSIZE_IS_BYTES \<in> flags_fs p then 1024 * 1024 else 100) < sint (qsize p)
      then Fail (EX_DATAERR ''queue size'') else Ok p)"

definition sysctl_int :: "int option \<Rightarrow> int outcome" where
  "sysctl_int v = (case v of None \<Rightarrow> Fail (EXIT_1 ''sysctlbyname'') | Some i \<Rightarrow> Ok i)"

definition check_red :: "pipe_env \<Rightarrow> dn_pipe \<Rightarrow> dn_pipe outcome" where
  "check_red env p =
     (if DN_IS_RED \<notin> flags_fs p then Ok p
      else if sint (max_th p) \<le> sint (min_th p) then Fail (EX_DATAERR ''min_th must be < than max_th'')
      else if max_th p = 0 then Fail (EX_DATAERR ''max_th must be > 0'')
      else if bandwidth p = 0 then Ok p
      else
        bind_o (sysctl_int (red_depth env)) (\<lambda>depth.
        if depth = 0 then Fail (EX_DATAERR ''red_lookup_depth'')
        else bind_o (sysctl_int (red_size env)) (\<lambda>size.
          if size = 0 then Fail (EX_DATAERR ''red_avg_pkt_size'')
          else bind_o (sysctl_int (clock_hz env)) (\<lambda>hz.
            Ok (p\<lparr>red_lookup := Some (fp_lookup env hz size (bandwidth p) (w_q p) depth)\<rparr>)))))"

text \<open>The whole function; the kernel's refusal is the second part of the result.\<close>

definition config_pipe :: "pipe_env \<Rightarrow> nat \<Rightarrow> string list \<Rightarrow> (dn_pipe \<times> exit_error option) outcome" where
  "config_pipe env do_pipe args =
     (let (p, args) = (case args of
            a # av \<Rightarrow>
              if starts_digit a then
                (if do_pipe = 1 then zero_pipe\<lparr>pipe_nr := u_short (atoi a)\<rparr> else zero_pipe\<lparr>fs_nr := u_short (atoi a)\<rparr>, av)
              else (zero_pipe, args)
          | [] \<Rightarrow> (zero_pipe, args))
      in bind_o (config_args env do_pipe args p) (\<lambda>p.
         bind_o (check_kind do_pipe p) (\<lambda>p. bind_o (check_qsize p) (\<lambda>p. bind_o (check_red env p) (\<lambda>p.
         Ok (p, if takes_pipe env p then None else Some (EXIT_1 ''IP_DUMMYNET_CONFIGURE'')))))))"

end
