(* ===== verification/IpfwPipeProps.thy ===== *)
theory IpfwPipeProps
  imports IpfwPipe IpfwProps
begin

text \<open>
  Properties of \<open>config_pipe\<close>: what every accepted pipe satisfies, and that the words of a list of options
  set exactly what the options say.
\<close>

subsection \<open>Bounds\<close>

text \<open>What the loop over the words keeps: numbers fit their members, and gentle RED is RED.\<close>

definition mask_fits :: "flow_mask \<Rightarrow> bool" where
  "mask_fits m \<longleftrightarrow> mask_dst_ip m < 2 ^ 32 \<and> mask_src_ip m < 2 ^ 32 \<and> mask_dst_port m < 2 ^ 16 \<and> mask_src_port m < 2 ^ 16 \<and>
     mask_proto m < 2 ^ 8"

definition members_fit :: "dn_pipe \<Rightarrow> bool" where
  "members_fit p \<longleftrightarrow> pipe_nr p < 2 ^ 16 \<and> fs_nr p < 2 ^ 16 \<and> parent_nr p < 2 ^ 16 \<and> length (if_name p) \<le> 15 \<and>
     mask_fits (flow_mask p) \<and> (DN_IS_GENTLE_RED \<in> flags_fs p \<longrightarrow> DN_IS_RED \<in> flags_fs p) \<and> red_lookup p = None"

text \<open>The pipes (1) or queues (2) that \<open>config_pipe\<close> hands to the kernel for some words.\<close>

definition handed :: "pipe_env \<Rightarrow> nat \<Rightarrow> dn_pipe set" where
  "handed env k = {p. \<exists>args r. config_pipe env k args = Ok (p, r)}"

text \<open>What the comparisons of signed integers let through for a word: up to a bound, and everything from \<open>2 ^ 31\<close> on.\<close>

definition up_to :: "nat \<Rightarrow> nat set" where
  "up_to b = {..b} \<union> {2 ^ 31..<2 ^ 32}"

text \<open>RED as it has to be: thresholds in order, and with a bandwidth the lookup table.\<close>

definition red_ok :: "dn_pipe \<Rightarrow> bool" where
  "red_ok p \<longleftrightarrow> sint (min_th p) < sint (max_th p) \<and> max_th p \<noteq> 0 \<and> (bandwidth p = 0 \<or> red_lookup p \<noteq> None)"

lemma mask_fits_simps [simp]: "mask_fits no_mask" "mask_fits full_mask"
  by (simp_all add: mask_fits_def no_mask_def full_mask_def)

lemma u_short_less [simp]: "u_short i < 65536"
  by (simp add: u_short_def nat_less_iff)

lemma strtoul_less: "fst (strtoul b s) < 2 ^ 32"
  by (auto simp: strtoul_def Let_def split: prod.split)

lemma members_fit_zero: "members_fit zero_pipe" "members_fit (zero_pipe\<lparr>pipe_nr := u_short i\<rparr>)" "members_fit (zero_pipe\<lparr>fs_nr := u_short i\<rparr>)"
  by (simp_all add: members_fit_def zero_pipe_def)

lemma mask_value_less: "mask_value b = Ok v \<Longrightarrow> v < 2 ^ 32"
  using strtoul_less [of 0 b] power_strict_increasing [of "fst (strtoul 0 (tl b))" 32 "2 :: nat"]
  by (auto simp: mask_value_def Let_def split: if_splits)

lemma set_mask_fit: "members_fit p \<Longrightarrow> v < 2 ^ 32 \<Longrightarrow> set_mask a f v p = Ok p' \<Longrightarrow> members_fit p'"
  by (cases f) (auto simp: set_mask_def members_fit_def mask_fits_def Let_def split: if_splits)

lemma mask_args_fit: "members_fit p \<Longrightarrow> mask_args av p = Ok (p', av') \<Longrightarrow> members_fit p'"
  by (induction av p arbitrary: p' av' rule: mask_args.induct)
    (auto simp: bind_o_eq_Ok split: option.splits list.splits dest: mask_value_less set_mask_fit)

lemma red_args_fit: "members_fit p \<Longrightarrow> red_args env b p = Ok p' \<Longrightarrow> members_fit p'"
  by (auto simp: red_args_def members_fit_def Let_def bind_o_eq_Ok split: if_splits option.splits)

lemma bw_arg_parts: "\<exists>n v. bw_arg b p = p\<lparr>if_name := n, bandwidth := v\<rparr> \<and> length n \<le> 15"
proof (cases "b \<noteq> [] \<and> 97 \<le> (of_char (hd b) :: nat) \<and> (of_char (hd b) :: nat) \<le> 122")
  case True
  then show ?thesis by (intro exI [of _ "take 15 b"] exI [of _ 0]) (simp add: bw_arg_def)
next
  case False
  then show ?thesis
    by (intro exI [of _ "[]"]) (auto simp: bw_arg_def Let_def case_prod_beta)
qed

lemma members_fit_plain:
  "members_fit (p\<lparr>delay := a\<rparr>) = members_fit p" "members_fit (p\<lparr>weight := a\<rparr>) = members_fit p"
  "members_fit (p\<lparr>bandwidth := a\<rparr>) = members_fit p"
  by (simp_all add: members_fit_def)

lemma bw_arg_fit: "members_fit p \<Longrightarrow> members_fit (bw_arg b p)"
proof -
  obtain n v where "bw_arg b p = p\<lparr>if_name := n, bandwidth := v\<rparr>" "length n \<le> 15" using bw_arg_parts by blast
  then show "members_fit p \<Longrightarrow> members_fit (bw_arg b p)" by (simp add: members_fit_def)
qed

lemma kind_arg_fit: "members_fit p \<Longrightarrow> kind_arg k a b p = Ok p' \<Longrightarrow> members_fit p'"
  by (auto simp: kind_arg_def members_fit_plain bw_arg_fit split: if_splits) (auto simp: members_fit_def)

lemma members_fit_upd:
  "members_fit p \<Longrightarrow> members_fit (p\<lparr>plr := x\<rparr>)" "members_fit p \<Longrightarrow> members_fit (queue_arg b p)"
  "members_fit p \<Longrightarrow> members_fit (p\<lparr>rq_size := y\<rparr>)"
  "members_fit p \<Longrightarrow> members_fit (p\<lparr>flow_mask := no_mask\<rparr>)"
  "members_fit p \<Longrightarrow> members_fit (p\<lparr>flow_mask := full_mask, flags_fs := insert DN_HAVE_FLOW_MASK (flags_fs p)\<rparr>)"
  "members_fit p \<Longrightarrow> members_fit (p\<lparr>flags_fs := insert DN_IS_RED (flags_fs p)\<rparr>)"
  "members_fit p \<Longrightarrow> members_fit (p\<lparr>flags_fs := insert DN_IS_RED (insert DN_IS_GENTLE_RED (flags_fs p))\<rparr>)"
  "members_fit p \<Longrightarrow> members_fit (p\<lparr>flags_fs := flags_fs p - {DN_IS_RED, DN_IS_GENTLE_RED}\<rparr>)"
  by (auto simp: members_fit_def queue_arg_def split: prod.split)

text \<open>What holds of every result.\<close>

definition ok_all :: "('a \<Rightarrow> bool) \<Rightarrow> 'a outcome \<Rightarrow> bool" where
  "ok_all P m \<longleftrightarrow> (\<forall>x. m = Ok x \<longrightarrow> P x)"

lemma ok_all_if: "(c \<Longrightarrow> ok_all P x) \<Longrightarrow> (\<not> c \<Longrightarrow> ok_all P y) \<Longrightarrow> ok_all P (if c then x else y)"
  by simp

lemma ok_all_bind: "(\<And>x. m = Ok x \<Longrightarrow> ok_all P (f x)) \<Longrightarrow> ok_all P (bind_o m f)"
  by (cases m) (simp_all add: ok_all_def)

lemma ok_all_pair:
  "(\<And>x y. m = Ok (x, y) \<Longrightarrow> ok_all P (f x y)) \<Longrightarrow>
   ok_all P (case m of Ok (x, y) \<Rightarrow> f x y | Fail e \<Rightarrow> Fail e | Undefined \<Rightarrow> Undefined)"
  by (auto simp: ok_all_def split: outcome.split)

lemma config_args_fit: "members_fit p \<Longrightarrow> ok_all members_fit (config_args env k av p)"
proof (induction env k av p rule: config_args.induct)
  case (3 env k a b av p)
  have r: "members_fit x" if "red_args env b (p\<lparr>flags_fs := flags_fs p \<union> {DN_IS_RED} \<union> (if take 1 a = ''g'' then {DN_IS_GENTLE_RED} else {})\<rparr>) = Ok x" for x
    using that "3.prems" members_fit_upd(6,7) [of p] by (auto intro: red_args_fit split: if_splits)
  have m: "members_fit x" if "mask_args (b # av) (p\<lparr>flow_mask := no_mask\<rparr>) = Ok (x, y)" for x y
    using that "3.prems" members_fit_upd(4) by (blast intro: mask_args_fit)
  note f = members_fit_upd(1) [OF "3.prems"] members_fit_upd(2) [OF "3.prems"] members_fit_upd(3) [OF "3.prems"]
    members_fit_upd(5) [OF "3.prems"] members_fit_upd(8) [OF "3.prems"]
  show ?case
    unfolding config_args.simps
    by (intro ok_all_if ok_all_bind ok_all_pair)
      (rule "3.IH"; (assumption | rule f r m kind_arg_fit [OF "3.prems"] refl; assumption?))+
qed (simp_all add: ok_all_def)

lemma check_kind_Ok: "check_kind k p = Ok p' \<Longrightarrow> p' = p \<and> (if k = 1 then 0 < pipe_nr p \<and> sint (delay p) \<le> 10000 else 0 < parent_nr p \<and> sint (weight p) \<le> 100)"
  by (auto simp: check_kind_def split: if_splits)

lemma check_qsize_Ok: "check_qsize p = Ok p' \<longleftrightarrow> p' = p \<and> sint (qsize p) \<le> (if DN_QSIZE_IS_BYTES \<in> flags_fs p then 2 ^ 20 else 100)"
  by (auto simp: check_qsize_def)

text \<open>The last check changes the lookup table only.\<close>

lemma check_red_Ok:
  assumes "check_red env p = Ok p'"
  shows "p' = p\<lparr>red_lookup := red_lookup p'\<rparr> \<and>
    (DN_IS_RED \<in> flags_fs p \<longrightarrow> sint (min_th p) < sint (max_th p) \<and> max_th p \<noteq> 0 \<and> (bandwidth p \<noteq> 0 \<longrightarrow> red_lookup p' \<noteq> None))"
  using assms by (auto simp: check_red_def bind_o_eq_Ok split: if_splits)

lemma start_pipe_fit:
  "members_fit (fst (case args of a # av \<Rightarrow> if starts_digit a then
     (if k = 1 then zero_pipe\<lparr>pipe_nr := u_short (atoi a)\<rparr> else zero_pipe\<lparr>fs_nr := u_short (atoi a)\<rparr>, av)
     else (zero_pipe, args) | [] \<Rightarrow> (zero_pipe, args)))"
  by (auto simp: members_fit_zero split: list.split)

lemma unat_bound [simp]: "unat (w :: 32 word) < 4294967296"
  using unsigned_less [of w] by simp

lemma sint_cases: "sint w = (if unat w < 2 ^ 31 then int (unat w) else int (unat w) - 2 ^ 32)" for w :: "32 word"
proof -
  have m: "(int x + 2 ^ 31) mod 2 ^ 32 = (if x < 2 ^ 31 then int x + 2 ^ 31 else int x - 2 ^ 31)" if "x < 2 ^ 32" for x
  proof (cases "x < 2 ^ 31")
    case False
    then have "int x + 2 ^ 31 = (int x - 2 ^ 31) + 2 ^ 32" "0 \<le> int x - 2 ^ 31" "int x - 2 ^ 31 < 2 ^ 32" using that by simp_all
    then show ?thesis using False by (metis mod_add_self2 mod_pos_pos_trivial)
  qed simp
  have "sint w = signed_take_bit 31 (int (unat w))" by (simp add: sint_uint)
  also have "\<dots> = (int (unat w) + 2 ^ 31) mod 2 ^ 32 - 2 ^ 31"
    by (simp only: signed_take_bit_eq_take_bit_shift take_bit_eq_mod) simp
  also have "\<dots> = (if unat w < 2 ^ 31 then int (unat w) else int (unat w) - 2 ^ 32)"
    using m [of "unat w"] by simp
  finally show ?thesis .
qed

lemma sint_le_up_to: "b < 2 ^ 31 \<Longrightarrow> sint w \<le> int b \<longleftrightarrow> unat w \<in> up_to b" for w :: "32 word"
proof -
  assume b: "b < 2 ^ 31"
  have "(if x < 2 ^ 31 then int x else int x - 2 ^ 32) \<le> int b \<longleftrightarrow> x \<in> up_to b" if "x < 4294967296" for x
    using that b by (auto simp: up_to_def)
  from this [OF unat_bound [of w]] show ?thesis unfolding sint_cases .
qed

lemma handed_facts:
  assumes "p \<in> handed env k"
  shows "members_fit (p\<lparr>red_lookup := None\<rparr>)"
    "if k = 1 then 0 < pipe_nr p \<and> sint (delay p) \<le> 10000 else 0 < parent_nr p \<and> sint (weight p) \<le> 100"
    "sint (qsize p) \<le> (if DN_QSIZE_IS_BYTES \<in> flags_fs p then 2 ^ 20 else 100)"
    "DN_IS_RED \<in> flags_fs p \<Longrightarrow> red_ok p"
proof -
  obtain args r where "config_pipe env k args = Ok (p, r)" using assms by (auto simp: handed_def)
  then obtain q av p1 p2 p3 where c: "members_fit q" "config_args env k av q = Ok p1" "check_kind k p1 = Ok p2"
    "check_qsize p2 = Ok p3" "check_red env p3 = Ok p"
    using start_pipe_fit [of args k] by (auto simp: config_pipe_def bind_o_eq_Ok split: prod.splits)
  have f: "members_fit p1" using config_args_fit [OF c(1)] c(2) by (simp add: ok_all_def)
  have e: "p2 = p1" "p3 = p1" using c(3,4) check_kind_Ok check_qsize_Ok by blast+
  obtain l where d: "p = p1\<lparr>red_lookup := l\<rparr>" using check_red_Ok [OF c(5)] e(2) by metis
  show "members_fit (p\<lparr>red_lookup := None\<rparr>)"
    using f by (simp add: d members_fit_def)
  show "if k = 1 then 0 < pipe_nr p \<and> sint (delay p) \<le> 10000 else 0 < parent_nr p \<and> sint (weight p) \<le> 100"
    "sint (qsize p) \<le> (if DN_QSIZE_IS_BYTES \<in> flags_fs p then 2 ^ 20 else 100)"
    using check_kind_Ok [OF c(3)] c(4) e by (auto simp: d check_qsize_Ok split: if_splits)
  show "DN_IS_RED \<in> flags_fs p \<Longrightarrow> red_ok p"
    using check_red_Ok [OF c(5)] e by (auto simp: d red_ok_def)
qed

subsection \<open>The words of options\<close>

text \<open>
  Options of a pipe or queue, the words that say them, and what they set. The names of masks are written in
  full and all numbers in decimal.
\<close>

datatype bw_unit = Bit | Kbit | Mbit | Byte | KByte | MByte

fun unit_word :: "bw_unit \<Rightarrow> string" where
  "unit_word Bit = ''bit/s''"
| "unit_word Kbit = ''Kbit/s''"
| "unit_word Mbit = ''Mbit/s''"
| "unit_word Byte = ''Byte/s''"
| "unit_word KByte = ''KByte/s''"
| "unit_word MByte = ''MByte/s''"

fun unit_factor :: "bw_unit \<Rightarrow> nat" where
  "unit_factor Bit = 1"
| "unit_factor Kbit = 1000"
| "unit_factor Mbit = 1000000"
| "unit_factor Byte = 8"
| "unit_factor KByte = 8000"
| "unit_factor MByte = 8000000"

fun field_word :: "mask_field \<Rightarrow> string" where
  "field_word Dst_ip = ''dst-ip''"
| "field_word Src_ip = ''src-ip''"
| "field_word Dst_port = ''dst-port''"
| "field_word Src_port = ''src-port''"
| "field_word Proto = ''proto''"

fun field_bound :: "mask_field \<Rightarrow> nat" where
  "field_bound Dst_port = 2 ^ 16"
| "field_bound Src_port = 2 ^ 16"
| "field_bound Proto = 2 ^ 8"
| "field_bound _ = 2 ^ 32"

fun put_mask :: "mask_field \<times> nat \<Rightarrow> dn_pipe \<Rightarrow> dn_pipe" where
  "put_mask (f, v) p =
     (let m = flow_mask p
      in p\<lparr>flow_mask := (case f of Dst_ip \<Rightarrow> m\<lparr>mask_dst_ip := v\<rparr> | Src_ip \<Rightarrow> m\<lparr>mask_src_ip := v\<rparr>
             | Dst_port \<Rightarrow> m\<lparr>mask_dst_port := v\<rparr> | Src_port \<Rightarrow> m\<lparr>mask_src_port := v\<rparr> | Proto \<Rightarrow> m\<lparr>mask_proto := v\<rparr>),
           flags_fs := (if v = 0 then flags_fs p else insert DN_HAVE_FLOW_MASK (flags_fs p))\<rparr>)"

datatype pipe_opt =
    Plr string
  | Queue nat
  | Queue_K nat
  | Buckets nat
  | Mask_all
  | Mask "(mask_field \<times> nat) list"
  | Red bool string nat nat string
  | Droptail
  | Bw nat bw_unit
  | Bw_if string
  | Delay nat
  | Weight nat
  | Pipe nat

fun opt_words :: "pipe_opt \<Rightarrow> string list" where
  "opt_words (Plr s) = [''plr'', s]"
| "opt_words (Queue n) = [''queue'', dec n]"
| "opt_words (Queue_K n) = [''queue'', dec n @ ''Kbytes'']"
| "opt_words (Buckets n) = [''buckets'', dec n]"
| "opt_words Mask_all = [''mask'', ''all'']"
| "opt_words (Mask fs) = ''mask'' # concat (map (\<lambda>(f, v). [field_word f, dec v]) fs)"
| "opt_words (Red g w lo hi m) = [if g then ''gred'' else ''red'', w @ ''/'' @ dec lo @ ''/'' @ dec hi @ ''/'' @ m]"
| "opt_words Droptail = [''droptail'']"
| "opt_words (Bw n u) = [''bw'', dec n @ unit_word u]"
| "opt_words (Bw_if i) = [''bw'', i]"
| "opt_words (Delay n) = [''delay'', dec n]"
| "opt_words (Weight n) = [''weight'', dec n]"
| "opt_words (Pipe n) = [''pipe'', dec n]"

fun opt_ok :: "pipe_env \<Rightarrow> nat \<Rightarrow> pipe_opt \<Rightarrow> bool" where
  "opt_ok env k (Plr s) = True"
| "opt_ok env k (Queue n) = (n < 2 ^ 32)"
| "opt_ok env k (Queue_K n) = (n < 2 ^ 32)"
| "opt_ok env k (Buckets n) = (n < 2 ^ 32)"
| "opt_ok env k Mask_all = True"
| "opt_ok env k (Mask fs) = (fs \<noteq> [] \<and> (\<forall>(f, v) \<in> set fs. v < field_bound f))"
| "opt_ok env k (Red g w lo hi m) = (CHR ''/'' \<notin> set w \<and> CHR ''/'' \<notin> set m \<and> fp_red env w \<noteq> None \<and> fp_red env m \<noteq> None \<and>
     lo < 2 ^ 32 \<and> hi < 2 ^ 32)"
| "opt_ok env k Droptail = True"
| "opt_ok env k (Bw n u) = (k = 1 \<and> n < 2 ^ 32)"
| "opt_ok env k (Bw_if i) = (k = 1 \<and> i \<noteq> [] \<and> 97 \<le> (of_char (hd i) :: nat) \<and> (of_char (hd i) :: nat) \<le> 122 \<and> length i \<le> 15)"
| "opt_ok env k (Delay n) = (k = 1 \<and> n < 2 ^ 32)"
| "opt_ok env k (Weight n) = (k \<noteq> 1 \<and> n < 2 ^ 32)"
| "opt_ok env k (Pipe n) = (k \<noteq> 1 \<and> n < 2 ^ 16)"

fun apply_opt :: "pipe_env \<Rightarrow> pipe_opt \<Rightarrow> dn_pipe \<Rightarrow> dn_pipe" where
  "apply_opt env (Plr s) p = p\<lparr>plr := fp_plr env s\<rparr>"
| "apply_opt env (Queue n) p = p\<lparr>qsize := word_of_nat n\<rparr>"
| "apply_opt env (Queue_K n) p = p\<lparr>qsize := word_of_nat (1024 * n), flags_fs := insert DN_QSIZE_IS_BYTES (flags_fs p)\<rparr>"
| "apply_opt env (Buckets n) p = p\<lparr>rq_size := word_of_nat n\<rparr>"
| "apply_opt env Mask_all p = p\<lparr>flow_mask := full_mask, flags_fs := insert DN_HAVE_FLOW_MASK (flags_fs p)\<rparr>"
| "apply_opt env (Mask fs) p = fold put_mask fs (p\<lparr>flow_mask := no_mask\<rparr>)"
| "apply_opt env (Red g w lo hi m) p =
     p\<lparr>flags_fs := flags_fs p \<union> (if g then {DN_IS_RED, DN_IS_GENTLE_RED} else {DN_IS_RED}),
       w_q := the (fp_red env w), min_th := word_of_nat lo, max_th := word_of_nat hi, max_p := the (fp_red env m)\<rparr>"
| "apply_opt env Droptail p = p\<lparr>flags_fs := flags_fs p - {DN_IS_RED, DN_IS_GENTLE_RED}\<rparr>"
| "apply_opt env (Bw n u) p = p\<lparr>if_name := [], bandwidth := word_of_nat (unit_factor u * n)\<rparr>"
| "apply_opt env (Bw_if i) p = p\<lparr>if_name := i, bandwidth := 0\<rparr>"
| "apply_opt env (Delay n) p = p\<lparr>delay := word_of_nat n\<rparr>"
| "apply_opt env (Weight n) p = p\<lparr>weight := word_of_nat n\<rparr>"
| "apply_opt env (Pipe n) p = p\<lparr>parent_nr := n\<rparr>"

lemmas kws = kw_def strncmp_eq_def

lemma int_arg_dec:
  assumes "n < 2 ^ 32" and "t = [] \<or> 10 \<le> digit_value (hd t) \<and> hd t \<noteq> CHR ''x'' \<and> hd t \<noteq> CHR ''X''"
  shows "int_arg (dec n @ t) = (word_of_nat n, t)"
  using strtoul_dec_append [OF assms] by (simp add: int_arg_def)

lemma int_arg_dec0 [simp]: "n < 2 ^ 32 \<Longrightarrow> int_arg (dec n) = (word_of_nat n, [])"
  using int_arg_dec [of n "[]"] by simp

lemma unit_word_hd: "unit_word u = [] \<or> 10 \<le> digit_value (hd (unit_word u)) \<and> hd (unit_word u) \<noteq> CHR ''x'' \<and> hd (unit_word u) \<noteq> CHR ''X''"
  by (cases u) (simp_all add: digit_value_def)

lemma bw_arg_dec:
  assumes "n < 2 ^ 32"
  shows "bw_arg (dec n @ unit_word u) p = p\<lparr>if_name := [], bandwidth := word_of_nat (unit_factor u * n)\<rparr>"
proof -
  have "isdigit (hd (dec n @ unit_word u))" using isdigit_hd_dec [of n] by (simp add: hd_append)
  then have "\<not> 97 \<le> (of_char (hd (dec n @ unit_word u)) :: nat)" by (simp add: isdigit_def)
  then show ?thesis
    using int_arg_dec [OF assms unit_word_hd, of u]
    by (cases u) (simp_all add: bw_arg_def Let_def is_kilo_def)
qed

lemma mask_value_dec: "n < 2 ^ 32 \<Longrightarrow> mask_value (dec n) = Ok n"
proof -
  have "take 1 (dec n) \<noteq> ''/''" using isdigit_hd_dec [of n] by (cases "dec n") (auto simp: isdigit_def)
  then show "n < 2 ^ 32 \<Longrightarrow> mask_value (dec n) = Ok n" by (simp add: mask_value_def)
qed

lemma field_bound_le: "v < field_bound f \<Longrightarrow> v < 2 ^ 32"
  by (cases f) simp_all

lemma mask_key_field: "mask_key (field_word f) = Some f"
  by (cases f) (simp_all add: mask_key_def kws)

lemma set_mask_put: "v < field_bound f \<Longrightarrow> set_mask a f v p = Ok (put_mask (f, v) p)"
  by (cases f) (simp_all add: set_mask_def Let_def)

lemma mask_args_words:
  assumes "\<forall>(f, v) \<in> set fs. v < field_bound f" and "rest = [] \<or> mask_key (hd rest) = None"
  shows "mask_args (concat (map (\<lambda>(f, v). [field_word f, dec v]) fs) @ rest) p = Ok (fold put_mask fs p, rest)"
  using assms
proof (induction fs arbitrary: p)
  case Nil
  then show ?case by (cases rest) simp_all
next
  case (Cons x fs)
  obtain f v where x: "x = (f, v)" by (cases x)
  have "v < field_bound f" using Cons.prems(1) x by simp
  note b = mask_value_dec [OF field_bound_le [OF this]] set_mask_put [OF this]
  show ?case
    using Cons x by (simp add: mask_key_field b del: put_mask.simps)
qed

lemma split_slash_plain: "CHR ''/'' \<notin> set s \<Longrightarrow> split_slash (s @ CHR ''/'' # t) = s # split_slash t"
  by (induction s) auto

lemma split_slash_last: "CHR ''/'' \<notin> set s \<Longrightarrow> split_slash s = [s]"
  by (induction s) auto

lemma dec_no_slash: "CHR ''/'' \<notin> set (dec n)"
  using dec_digits [of _ n] by (fastforce simp: isdigit_def)

lemma red_args_words:
  assumes "CHR ''/'' \<notin> set w" and "CHR ''/'' \<notin> set m" and "fp_red env w \<noteq> None" and "fp_red env m \<noteq> None"
    and "lo < 2 ^ 32" and "hi < 2 ^ 32"
  shows "red_args env (w @ ''/'' @ dec lo @ ''/'' @ dec hi @ ''/'' @ m) p =
    Ok (p\<lparr>w_q := the (fp_red env w), min_th := word_of_nat lo, max_th := word_of_nat hi, max_p := the (fp_red env m)\<rparr>)"
  using assms by (auto simp: red_args_def split_slash_plain split_slash_last dec_no_slash threshold_def is_kilo_def Let_def)

text \<open>One option, followed by a word that is not the name of a mask.\<close>

lemma config_args_option:
  assumes "opt_ok env k opt" and "rest = [] \<or> mask_key (hd rest) = None" and "opt = Droptail \<longrightarrow> rest \<noteq> []"
  shows "config_args env k (opt_words opt @ rest) p = config_args env k rest (apply_opt env opt p)"
proof (cases opt)
  case (Mask fs)
  obtain f v gs where fs: "fs = (f, v) # gs" using assms(1) Mask by (cases fs) auto
  have a: "\<not> kw (field_word f) ''all''" by (cases f) (simp_all add: kws)
  have "mask_args (concat (map (\<lambda>(f, v). [field_word f, dec v]) fs) @ rest) (p\<lparr>flow_mask := no_mask\<rparr>) =
      Ok (fold put_mask fs (p\<lparr>flow_mask := no_mask\<rparr>), rest)"
    using assms(1,2) Mask by (intro mask_args_words) auto
  then show ?thesis
    using Mask a by (simp add: fs kws [of "''mask''"] del: mask_args.simps put_mask.simps)
next
  case (Red g w lo hi m)
  then show ?thesis
    using assms(1) red_args_words [of w m env lo hi] by (simp add: kws Un_commute)
next
  case Droptail
  then show ?thesis
    using assms(3) by (cases rest) (simp_all add: kws)
next
  case (Queue_K n)
  have "int_arg (dec n @ ''Kbytes'') = (word_of_nat n, ''Kbytes'')"
    using assms(1) Queue_K by (intro int_arg_dec) (simp_all add: digit_value_def)
  then show ?thesis using Queue_K by (simp add: kws queue_arg_def is_kilo_def mult.commute)
next
  case (Bw_if i)
  then show ?thesis using assms(1) by (simp add: kws kind_arg_def bw_arg_def)
next
  case (Pipe n)
  then show ?thesis using assms(1) by (simp add: kws kind_arg_def u_short_def)
qed (use assms(1) in \<open>simp_all add: kws queue_arg_def is_kilo_def kind_arg_def bw_arg_dec\<close>)

text \<open>
  A list of options. What is left behind them is nothing, unless the last one is \<open>droptail\<close>, or one word,
  which nobody looks at.
\<close>

lemma mask_key_opt: "mask_key (hd (opt_words opt @ rest)) = None"
  by (cases opt) (simp_all add: mask_key_def kws)

lemma opt_words_ne: "opt_words opt \<noteq> []"
  by (cases opt) simp_all

lemma config_args_options:
  assumes "\<forall>opt \<in> set os. opt_ok env k opt" and "t = [] \<and> (os = [] \<or> last os \<noteq> Droptail) \<or> (\<exists>w. t = [w] \<and> mask_key w = None)"
  shows "config_args env k (concat (map opt_words os) @ t) p = Ok (fold (apply_opt env) os p)"
  using assms
proof (induction os arbitrary: p)
  case Nil
  then show ?case by auto
next
  case (Cons opt os)
  have h: "concat (map opt_words os) @ t = [] \<or> mask_key (hd (concat (map opt_words os) @ t)) = None"
    using Cons.prems(2) mask_key_opt by (cases os) auto
  have d: "opt = Droptail \<longrightarrow> concat (map opt_words os) @ t \<noteq> []"
    using Cons.prems(2) by (cases os) (auto simp: opt_words_ne split: if_splits)
  have "config_args env k (concat (map opt_words os) @ t) q = Ok (fold (apply_opt env) os q)" for q
    using Cons.prems by (intro Cons.IH) (auto split: if_splits)
  then show ?case
    using config_args_option [OF _ h d, of env k p] Cons.prems(1) by simp
qed

subsection \<open>From the words to the kernel\<close>

lemma fold_put_mask_nr: "pipe_nr (fold put_mask fs p) = pipe_nr p"
  by (induction fs arbitrary: p) (auto simp: Let_def)

lemma apply_opts_nr: "pipe_nr (fold (apply_opt env) os p) = pipe_nr p"
proof (induction os arbitrary: p)
  case (Cons opt os)
  then show ?case by (cases opt) (simp_all add: fold_put_mask_nr)
qed simp

definition red_table :: "pipe_env \<Rightarrow> dn_pipe \<Rightarrow> (nat \<times> nat) option" where
  "red_table env p =
     (if DN_IS_RED \<in> flags_fs p \<and> bandwidth p \<noteq> 0
      then Some (fp_lookup env (the (clock_hz env)) (the (red_size env)) (bandwidth p) (w_q p) (the (red_depth env))) else None)"

lemma fold_put_mask_lookup: "red_lookup (fold put_mask fs p) = red_lookup p"
  by (induction fs arbitrary: p) (auto simp: Let_def)

lemma apply_opts_lookup: "red_lookup (fold (apply_opt env) os p) = red_lookup p"
proof (induction os arbitrary: p)
  case (Cons opt os)
  then show ?case by (cases opt) (simp_all add: fold_put_mask_lookup)
qed simp

lemma check_red_table:
  assumes "red_lookup q = None" and "DN_IS_RED \<in> flags_fs q \<longrightarrow> sint (min_th q) < sint (max_th q) \<and> max_th q \<noteq> 0"
    and "red_depth env = Some depth" and "depth \<noteq> 0" and "red_size env = Some sz" and "sz \<noteq> 0" and "clock_hz env \<noteq> None"
  shows "check_red env q = Ok (q\<lparr>red_lookup := red_table env q\<rparr>)"
proof (cases "DN_IS_RED \<in> flags_fs q \<and> bandwidth q \<noteq> 0")
  case True
  then show ?thesis using assms by (auto simp: check_red_def red_table_def sysctl_int_def)
next
  case False
  have "q\<lparr>red_lookup := None\<rparr> = q" using assms(1) by (cases q) simp
  then show ?thesis using False assms(2) by (auto simp: check_red_def red_table_def simp del: dn_pipe.update_convs)
qed

text \<open>
  C36. The command \<open>ipfw pipe n config\<close> with the words of a list of options in any order asks the kernel
  for exactly the pipe the options describe, a later one overriding an earlier one, as long as its values are within the
  limits; with RED and a bandwidth the lookup table is added. One word behind the options is ignored
  whatever it says, but for the name of a mask.
\<close>

theorem pipe_configured:
  fixes env :: pipe_env and os :: "pipe_opt list"
  defines "p \<equiv> \<lambda>n. fold (apply_opt env) os (zero_pipe\<lparr>pipe_nr := n\<rparr>)"
  assumes "0 < n" and "n < 2 ^ 16" and "\<forall>opt \<in> set os. opt_ok env 1 opt"
    and "t = [] \<and> (os = [] \<or> last os \<noteq> Droptail) \<or> (\<exists>w. t = [w] \<and> mask_key w = None)"
    and "sint (delay (p n)) \<le> 10000" and "sint (qsize (p n)) \<le> (if DN_QSIZE_IS_BYTES \<in> flags_fs (p n) then 2 ^ 20 else 100)"
    and "DN_IS_RED \<in> flags_fs (p n) \<longrightarrow> sint (min_th (p n)) < sint (max_th (p n)) \<and> max_th (p n) \<noteq> 0"
    and "red_depth env = Some depth" and "depth \<noteq> 0" and "red_size env = Some sz" and "sz \<noteq> 0" and "clock_hz env \<noteq> None"
  shows "\<exists>args q. ipfw_main db (''ipfw'' # ''pipe'' # dec n # ''config'' # concat (map opt_words os) @ t) = Ok (Config_pipe 1 args) \<and>
    q = (p n)\<lparr>red_lookup := red_table env (p n)\<rparr> \<and>
    config_pipe env 1 args = Ok (q, if takes_pipe env q then None else Some (EXIT_1 ''IP_DUMMYNET_CONFIGURE''))"
proof -
  let ?args = "dec n # concat (map opt_words os) @ t"
  have d: "starts_digit (dec n)" using isdigit_hd_dec [of n] by (simp add: starts_digit_def)
  have m: "ipfw_main db (''ipfw'' # ''pipe'' # dec n # ''config'' # concat (map opt_words os) @ t) = Ok (Config_pipe 1 ?args)"
    using d by (simp add: ipfw_main_def ipfw_command_def swap_args_def kws)
  have a: "atoi (dec n) = int n" using assms(3) by simp
  have u: "u_short (int n) = n" using assms(3) by (simp add: u_short_def)
  have c: "config_args env 1 (concat (map opt_words os) @ t) (zero_pipe\<lparr>pipe_nr := n\<rparr>) = Ok (p n)"
    using config_args_options [OF assms(4,5)] by (simp add: p_def)
  have k: "check_kind 1 (p n) = Ok (p n)"
    using assms(2,6) by (simp add: check_kind_def p_def apply_opts_nr)
  have q: "check_qsize (p n) = Ok (p n)" using assms(7) by (simp add: check_qsize_Ok)
  have l: "red_lookup (p n) = None" by (simp add: p_def apply_opts_lookup zero_pipe_def)
  have r: "check_red env (p n) = Ok ((p n)\<lparr>red_lookup := red_table env (p n)\<rparr>)"
    by (rule check_red_table [OF l assms(8-13)])
  show ?thesis
    using m d a u c k q r by (intro exI [of _ ?args]) (simp add: config_pipe_def)
qed

subsection \<open>Trying it\<close>

definition some_env :: pipe_env where
  "some_env = \<lparr>fp_plr = (\<lambda>_. 0), fp_red = (\<lambda>s. if s = ''0.5'' then Some 32768 else None), fp_lookup = (\<lambda>_ _ _ _ _. (1, 0)),
     red_depth = Some 256, red_size = Some 512, clock_hz = Some 100, takes_pipe = (\<lambda>_. True)\<rparr>"

theorem pipe_configured_witness:
  "\<forall>db. \<exists>args p. ipfw_main db [''ipfw'', ''pipe'', ''3'', ''config'', ''bw'', ''512Kbit/s'', ''mask'', ''dst-port'', ''80'', ''gred'', ''0.5/5/20/0.5''] =
       Ok (Config_pipe 1 args) \<and> config_pipe some_env 1 args = Ok (p, None) \<and>
     pipe_nr p = 3 \<and> bandwidth p = 512000 \<and> mask_dst_port (flow_mask p) = 80 \<and> max_th p = 20 \<and> red_lookup p = Some (1, 0)"
proof
  fix db
  have d: "dec 3 = ''3''" "dec 512 = ''512''" "dec 80 = ''80''" "dec 5 = ''5''" "dec 20 = ''20''" by code_simp+
  have z: "of_nat 512000 = (512000 :: 32 word)" by simp
  have h: "\<forall>opt \<in> set [Bw 512 Kbit, Mask [(Dst_port, 80)], Red True ''0.5'' 5 20 ''0.5'']. opt_ok some_env 1 opt"
    by (simp add: some_env_def)
  show "\<exists>args p. ipfw_main db [''ipfw'', ''pipe'', ''3'', ''config'', ''bw'', ''512Kbit/s'', ''mask'', ''dst-port'', ''80'', ''gred'', ''0.5/5/20/0.5''] =
       Ok (Config_pipe 1 args) \<and> config_pipe some_env 1 args = Ok (p, None) \<and>
     pipe_nr p = 3 \<and> bandwidth p = 512000 \<and> mask_dst_port (flow_mask p) = 80 \<and> max_th p = 20 \<and> red_lookup p = Some (1, 0)"
    using pipe_configured [where n = 3 and env = some_env and os = "[Bw 512 Kbit, Mask [(Dst_port, 80)], Red True ''0.5'' 5 20 ''0.5'']"
        and t = "[]" and db = db and depth = 256 and sz = 512, OF _ _ h]
    by (auto simp: d some_env_def zero_pipe_def red_table_def no_mask_def)
qed

subsection \<open>What reaches the kernel\<close>

text \<open>Options within the limits and without RED are handed over as they are.\<close>

lemma handed_pipe:
  assumes "n < 2 ^ 16" and "\<forall>opt \<in> set os. opt_ok env k opt" and "os = [] \<or> last os \<noteq> Droptail"
    and "p = fold (apply_opt env) os (if k = 1 then zero_pipe\<lparr>pipe_nr := n\<rparr> else zero_pipe\<lparr>fs_nr := n\<rparr>)"
    and "check_kind k p = Ok p" and "check_qsize p = Ok p" and "DN_IS_RED \<notin> flags_fs p"
  shows "p \<in> handed env k"
proof -
  have d: "starts_digit (dec n)" using isdigit_hd_dec [of n] by (simp add: starts_digit_def)
  have a: "atoi (dec n) = int n" "u_short (int n) = n" using assms(1) by (simp_all add: u_short_def)
  have c: "config_args env k (concat (map opt_words os)) q = Ok (fold (apply_opt env) os q)" for q
    using config_args_options [OF assms(2), of "[]"] assms(3) by simp
  have "config_pipe env k (dec n # concat (map opt_words os)) =
      Ok (p, if takes_pipe env p then None else Some (EXIT_1 ''IP_DUMMYNET_CONFIGURE''))"
    using d a c assms(4-7) by (cases "k = 1") (simp_all add: config_pipe_def check_red_def)
  then show ?thesis by (auto simp: handed_def)
qed


lemma up_to_word: "v \<in> up_to b \<Longrightarrow> b < 2 ^ 31 \<Longrightarrow> v < 2 ^ 32 \<and> unat (word_of_nat v :: 32 word) = v"
  by (auto simp: up_to_def unat_of_nat)

lemma sint_up_to: "v \<in> up_to b \<Longrightarrow> b < 2 ^ 31 \<Longrightarrow> sint (word_of_nat v :: 32 word) \<le> int b"
  by (simp add: sint_le_up_to up_to_word)

lemma image_eq: "(\<And>p. p \<in> H \<Longrightarrow> g p \<in> A) \<Longrightarrow> (\<And>v. v \<in> A \<Longrightarrow> \<exists>p \<in> H. g p = v) \<Longrightarrow> g ` H = A"
  by force

lemma image_image_eq: "(\<And>p. p \<in> H \<Longrightarrow> f (g p) \<in> A) \<Longrightarrow> (\<And>v. v \<in> A \<Longrightarrow> \<exists>p \<in> H. f (g p) = v) \<Longrightarrow> f ` g ` H = A"
  by force

lemma handed_weight: "v \<in> up_to 100 \<Longrightarrow> \<exists>p \<in> handed env 2. unat (weight p) = v"
  using up_to_word [of v 100] sint_up_to [of v 100]
  by (intro bexI [of _ "zero_pipe\<lparr>fs_nr := 7, parent_nr := 3, weight := word_of_nat v\<rparr>"]
      handed_pipe [where n = 7 and os = "[Pipe 3, Weight v]"])
    (simp_all add: check_kind_def check_qsize_def zero_pipe_def)

lemma handed_delay: "v \<in> up_to 10000 \<Longrightarrow> \<exists>p \<in> handed env 1. unat (delay p) = v"
  using up_to_word [of v 10000] sint_up_to [of v 10000]
  by (intro bexI [of _ "zero_pipe\<lparr>pipe_nr := 7, delay := word_of_nat v\<rparr>"]
      handed_pipe [where n = 7 and os = "[Delay v]"])
    (simp_all add: check_kind_def check_qsize_def zero_pipe_def)

lemma handed_queue:
  assumes "v \<in> up_to 100"
  shows "\<exists>p \<in> handed env 1. DN_QSIZE_IS_BYTES \<notin> flags_fs p \<and> unat (qsize p) = v"
    "\<exists>p \<in> handed env 2. DN_QSIZE_IS_BYTES \<notin> flags_fs p \<and> unat (qsize p) = v"
proof -
  note v = up_to_word [OF assms] sint_up_to [OF assms]
  show "\<exists>p \<in> handed env 1. DN_QSIZE_IS_BYTES \<notin> flags_fs p \<and> unat (qsize p) = v"
    using v by (intro bexI [of _ "zero_pipe\<lparr>pipe_nr := 7, qsize := word_of_nat v\<rparr>"] handed_pipe [where n = 7 and os = "[Queue v]"])
      (simp_all add: check_kind_def check_qsize_def zero_pipe_def)
  show "\<exists>p \<in> handed env 2. DN_QSIZE_IS_BYTES \<notin> flags_fs p \<and> unat (qsize p) = v"
    using v by (intro bexI [of _ "zero_pipe\<lparr>fs_nr := 7, parent_nr := 3, qsize := word_of_nat v\<rparr>"]
        handed_pipe [where n = 7 and os = "[Pipe 3, Queue v]"])
      (simp_all add: check_kind_def check_qsize_def zero_pipe_def)
qed

lemma atoi_7: "atoi ''7'' = 7"
  by code_simp

lemma handed_bytes:
  assumes "v \<in> up_to (2 ^ 20)"
  shows "\<exists>p \<in> handed env 1. DN_QSIZE_IS_BYTES \<in> flags_fs p \<and> unat (qsize p) = v"
    "\<exists>p \<in> handed env 2. DN_QSIZE_IS_BYTES \<in> flags_fs p \<and> unat (qsize p) = v"
proof -
  have v: "v < 2 ^ 32" "unat (word_of_nat v :: 32 word) = v" "sint (word_of_nat v :: 32 word) \<le> 2 ^ 20"
    using up_to_word [OF assms] sint_up_to [OF assms] by simp_all
  have i: "int_arg (dec v @ ''B'') = (word_of_nat v, ''B'')"
    using v(1) by (intro int_arg_dec) (simp_all add: digit_value_def)
  have d: "dec 3 = ''3''" by code_simp
  have q: "config_args env k [''queue'', dec v @ ''B''] p =
      Ok (p\<lparr>qsize := word_of_nat v, flags_fs := insert DN_QSIZE_IS_BYTES (flags_fs p)\<rparr>)" for k p
    using i by (simp add: kws queue_arg_def is_kilo_def)
  have "config_pipe env 1 [''7'', ''queue'', dec v @ ''B''] =
      Ok (zero_pipe\<lparr>pipe_nr := 7, qsize := word_of_nat v, flags_fs := {DN_QSIZE_IS_BYTES}\<rparr>, r)"
    if "r = (if takes_pipe env (zero_pipe\<lparr>pipe_nr := 7, qsize := word_of_nat v, flags_fs := {DN_QSIZE_IS_BYTES}\<rparr>) then None
      else Some (EXIT_1 ''IP_DUMMYNET_CONFIGURE''))" for r
    using that q v(3) atoi_7 by (simp add: config_pipe_def starts_digit_def isdigit_def u_short_def check_kind_def check_qsize_def
        check_red_def zero_pipe_def del: config_args.simps)
  then have "zero_pipe\<lparr>pipe_nr := 7, qsize := word_of_nat v, flags_fs := {DN_QSIZE_IS_BYTES}\<rparr> \<in> handed env 1"
    by (auto simp: handed_def)
  then show "\<exists>p \<in> handed env 1. DN_QSIZE_IS_BYTES \<in> flags_fs p \<and> unat (qsize p) = v"
    using v(2) by (intro bexI [of _ "zero_pipe\<lparr>pipe_nr := 7, qsize := word_of_nat v, flags_fs := {DN_QSIZE_IS_BYTES}\<rparr>"]) simp_all
  have p: "config_args env 2 [''pipe'', ''3'', ''queue'', dec v @ ''B''] p = config_args env 2 [''queue'', dec v @ ''B''] (p\<lparr>parent_nr := 3\<rparr>)" for p
    using config_args_option [of env 2 "Pipe 3" "[''queue'', dec v @ ''B'']" p] by (simp add: d mask_key_def kws del: config_args.simps)
  have "config_pipe env 2 [''7'', ''pipe'', ''3'', ''queue'', dec v @ ''B''] =
      Ok (zero_pipe\<lparr>fs_nr := 7, parent_nr := 3, qsize := word_of_nat v, flags_fs := {DN_QSIZE_IS_BYTES}\<rparr>, r)"
    if "r = (if takes_pipe env (zero_pipe\<lparr>fs_nr := 7, parent_nr := 3, qsize := word_of_nat v, flags_fs := {DN_QSIZE_IS_BYTES}\<rparr>) then None
      else Some (EXIT_1 ''IP_DUMMYNET_CONFIGURE''))" for r
    using that p q v(3) atoi_7 by (simp add: config_pipe_def starts_digit_def isdigit_def u_short_def check_kind_def check_qsize_def
        check_red_def zero_pipe_def del: config_args.simps)
  then have "zero_pipe\<lparr>fs_nr := 7, parent_nr := 3, qsize := word_of_nat v, flags_fs := {DN_QSIZE_IS_BYTES}\<rparr> \<in> handed env 2"
    by (auto simp: handed_def)
  then show "\<exists>p \<in> handed env 2. DN_QSIZE_IS_BYTES \<in> flags_fs p \<and> unat (qsize p) = v"
    using v(2) by (intro bexI [of _ "zero_pipe\<lparr>fs_nr := 7, parent_nr := 3, qsize := word_of_nat v, flags_fs := {DN_QSIZE_IS_BYTES}\<rparr>"]) simp_all
qed

lemma handed_numbers:
  assumes "n < 2 ^ 16"
  shows "0 < n \<Longrightarrow> \<exists>p \<in> handed env 1. pipe_nr p = n"
    "0 < n \<Longrightarrow> \<exists>p \<in> handed env 2. parent_nr p = n"
    "\<exists>p \<in> handed env 2. fs_nr p = n"
proof -
  show "\<exists>p \<in> handed env 1. pipe_nr p = n" if "0 < n"
    using assms that by (intro bexI [of _ "zero_pipe\<lparr>pipe_nr := n\<rparr>"] handed_pipe [where n = n and os = "[]"])
      (simp_all add: check_kind_def check_qsize_def zero_pipe_def)
  show "\<exists>p \<in> handed env 2. parent_nr p = n" if "0 < n"
    using assms that by (intro bexI [of _ "zero_pipe\<lparr>fs_nr := 7, parent_nr := n\<rparr>"] handed_pipe [where n = 7 and os = "[Pipe n]"])
      (simp_all add: check_kind_def check_qsize_def zero_pipe_def)
  show "\<exists>p \<in> handed env 2. fs_nr p = n"
    using assms by (intro bexI [of _ "zero_pipe\<lparr>fs_nr := n, parent_nr := 3\<rparr>"] handed_pipe [where n = n and os = "[Pipe 3]"])
      (simp_all add: check_kind_def check_qsize_def zero_pipe_def)
qed

text \<open>
  C37. The exact limits of \<open>config_pipe\<close>: which values of each number reach the kernel, whatever the words. The
  weight of a queue is at most 100, the delay of a pipe at most 10000, the length of a queue at most 100 slots or
  \<open>2 ^ 20\<close> bytes; but all these are compared as signed integers and never with a lower bound, so that 0 and everything
  from \<open>2 ^ 31\<close> on, which is what \<open>-1\<close> becomes, is let through as well: the manual has weights of 1 to 100, and
  the program's own message queues of 2 to 100 slots. Pipes are numbered from 1 to 65535 and queues hang on
  such a pipe, but a queue may have the number 0. Masks and names fit their members; with RED the thresholds are in
  order, and a bandwidth comes with the lookup table.
\<close>

theorem pipe_in_bounds:
  "unat ` weight ` handed env 2 = {..100} \<union> {2 ^ 31..<2 ^ 32} \<and>
   unat ` delay ` handed env 1 = {..10000} \<union> {2 ^ 31..<2 ^ 32} \<and>
   unat ` qsize ` {p \<in> handed env 1. DN_QSIZE_IS_BYTES \<notin> flags_fs p} = {..100} \<union> {2 ^ 31..<2 ^ 32} \<and>
   unat ` qsize ` {p \<in> handed env 2. DN_QSIZE_IS_BYTES \<notin> flags_fs p} = {..100} \<union> {2 ^ 31..<2 ^ 32} \<and>
   unat ` qsize ` {p \<in> handed env 1. DN_QSIZE_IS_BYTES \<in> flags_fs p} = {..2 ^ 20} \<union> {2 ^ 31..<2 ^ 32} \<and>
   unat ` qsize ` {p \<in> handed env 2. DN_QSIZE_IS_BYTES \<in> flags_fs p} = {..2 ^ 20} \<union> {2 ^ 31..<2 ^ 32} \<and>
   pipe_nr ` handed env 1 = {1..<2 ^ 16} \<and> parent_nr ` handed env 2 = {1..<2 ^ 16} \<and> fs_nr ` handed env 2 = {..<2 ^ 16} \<and>
   handed env k \<subseteq> {p. mask_fits (flow_mask p) \<and> length (if_name p) \<le> 15} \<and>
   {p \<in> handed env k. DN_IS_RED \<in> flags_fs p} \<subseteq> {p. sint (min_th p) < sint (max_th p) \<and> max_th p \<noteq> 0} \<and>
   {p \<in> handed env k. DN_IS_RED \<in> flags_fs p \<and> bandwidth p \<noteq> 0} \<subseteq> {p. red_lookup p \<noteq> None}"
proof (intro conjI)
  note f = handed_facts(2,3) handed_facts(1) [unfolded members_fit_def]
  have w: "sint (x :: 32 word) \<le> 100 \<Longrightarrow> unat x \<in> up_to 100" "sint x \<le> 10000 \<Longrightarrow> unat x \<in> up_to 10000"
    "sint x \<le> 2 ^ 20 \<Longrightarrow> unat x \<in> up_to (2 ^ 20)" for x
    using sint_le_up_to [of 100 x] sint_le_up_to [of 10000 x] sint_le_up_to [of "2 ^ 20" x] by simp_all
  show "unat ` weight ` handed env 2 = {..100} \<union> {2 ^ 31..<2 ^ 32}"
    by (rule image_image_eq; fold up_to_def; use f(1) [of _ env 2] w handed_weight in fastforce)
  show "unat ` delay ` handed env 1 = {..10000} \<union> {2 ^ 31..<2 ^ 32}"
    by (rule image_image_eq; fold up_to_def; use f(1) [of _ env 1] w handed_delay in fastforce)
  show "unat ` qsize ` {p \<in> handed env 1. DN_QSIZE_IS_BYTES \<notin> flags_fs p} = {..100} \<union> {2 ^ 31..<2 ^ 32}"
    by (rule image_image_eq; fold up_to_def; use f(2) [of _ env 1] w handed_queue in fastforce)
  show "unat ` qsize ` {p \<in> handed env 2. DN_QSIZE_IS_BYTES \<notin> flags_fs p} = {..100} \<union> {2 ^ 31..<2 ^ 32}"
    by (rule image_image_eq; fold up_to_def; use f(2) [of _ env 2] w handed_queue in fastforce)
  show "unat ` qsize ` {p \<in> handed env 1. DN_QSIZE_IS_BYTES \<in> flags_fs p} = {..2 ^ 20} \<union> {2 ^ 31..<2 ^ 32}"
    by (rule image_image_eq; fold up_to_def; use f(2) [of _ env 1] w handed_bytes in fastforce)
  show "unat ` qsize ` {p \<in> handed env 2. DN_QSIZE_IS_BYTES \<in> flags_fs p} = {..2 ^ 20} \<union> {2 ^ 31..<2 ^ 32}"
    by (rule image_image_eq; fold up_to_def; use f(2) [of _ env 2] w handed_bytes in fastforce)
  show "pipe_nr ` handed env 1 = {1..<2 ^ 16}"
    by (rule image_eq; use f(1,3) [of _ env 1] handed_numbers(1) in \<open>force simp: Suc_le_eq\<close>)
  show "parent_nr ` handed env 2 = {1..<2 ^ 16}"
    by (rule image_eq; use f(1,3) [of _ env 2] handed_numbers(2) in \<open>force simp: Suc_le_eq\<close>)
  show "fs_nr ` handed env 2 = {..<2 ^ 16}"
    by (rule image_eq; use f(3) [of _ env 2] handed_numbers(3) in force)
  show "handed env k \<subseteq> {p. mask_fits (flow_mask p) \<and> length (if_name p) \<le> 15}"
    using f(3) by auto
  show "{p \<in> handed env k. DN_IS_RED \<in> flags_fs p} \<subseteq> {p. sint (min_th p) < sint (max_th p) \<and> max_th p \<noteq> 0}"
    "{p \<in> handed env k. DN_IS_RED \<in> flags_fs p \<and> bandwidth p \<noteq> 0} \<subseteq> {p. red_lookup p \<noteq> None}"
    using handed_facts(4) [unfolded red_ok_def] by blast+
qed

end
