(* ===== verification/Spec2Isabelle.thy ===== *)
theory Spec2Isabelle
  imports RuleProps FilterRuns Forward Devices IfCfg NatCtl BootInit Menus Passwd Monitor RuleTable IpfwList IpfwLoop NatdProps BootEffects PwdProps TarTrip IpfwPipeProps
begin

text \<open>
  \<^bold>\<open>The program.\<close> ClosedBSD is a firewall that boots from a floppy disk or a CD: a FreeBSD system whose
  console is a configuration shell (\<open>src/closedbsd/config\<close>). Its dialogs write three things below \<open>/etc\<close>: the
  database of devices (\<open>/etc/devices.db\<close>), the packet filter rules (\<open>/etc/rules\<close>, a file of \<open>ipfw\<close> commands) and
  the command that starts the translation daemon (\<open>/etc/nat\<close>). A menu saves \<open>/etc\<close> on a disk as an archive;
  at the next start \<open>src/closedbsd/init\<close> restores it, and sets up devices, rules and translation by running
  \<open>ifconfig\<close>, \<open>route\<close>, \<open>ipfw\<close> and \<open>natd\<close>. The development models the shell and the boot in full detail, and of
  the FreeBSD programs under \<open>sbin\<close>, \<open>usr.sbin\<close> and \<open>usr.bin\<close> those that carry out what the shell and the boot
  ask for, so that the properties reach from a key in a dialog to the request the kernel receives.

  \<^bold>\<open>State and effects.\<close> The state of the shell and of the boot is the record \<open>world\<close> of \<open>World\<close>: the files, the
  device database, and the trace of what was done (drawing calls, notices, shell commands) in order. A
  function of the source is a definition from state to state; a fallible one answers \<open>None\<close> where the C code has no
  defined behaviour (a string that does not fit its buffer, an unchecked \<open>NULL\<close>), and the programs under
  \<open>sbin\<close> and \<open>usr.sbin\<close> answer an \<open>outcome\<close>: \<open>Ok\<close>, \<open>Fail\<close> with the exit of \<open>errx\<close>, or \<open>Undefined\<close>. Machine
  integers have the widths of the i386. A loop over the keyboard is a function of one step, with its runs in a
  locale; other loops are total functions.

  \<^bold>\<open>The theories.\<close>
  \<^item> \<open>CLib\<close>: the prelude. C strings in buffers (\<open>strcpy\<close>, \<open>strcat\<close>, \<open>snprintf\<close>, \<open>strtok\<close>, \<open>fgets\<close>, \<open>atoi\<close>), numbers
    as text, words of a command, and the lemmas on them. \<open>BTree\<close>: the b-tree of the C library behind
    \<open>dbopen\<close>, with the locale \<open>record_store\<close>. \<open>World\<close>: \<open>fw.h\<close>, \<open>db.h\<close> and the state.
  \<^item> \<open>Rules\<close>, \<open>RuleFile\<close>, \<open>RuleProps\<close>, \<open>RuleTable\<close>: \<open>config/rules.c\<close>. \<open>__insert_rule\<close> as it builds the command in a
    buffer of 256 bytes, adding, deleting and listing the lines of \<open>/etc/rules\<close>; that the text is the
    closed form of the rule, that all writers of the file refine one abstract table of lines (the locale
    \<open>simulation\<close>), and that loading it gives the kernel the rules in order.
  \<^item> \<open>Paint\<close>, \<open>Widgets\<close>: \<open>config/misc.c\<close>, every function as the list of its curses calls; a small terminal reads
    them, and the locale \<open>radio_box\<close> says what a box shows. \<open>Dialog\<close>: prompts and inputs, \<open>inputs\<close> and
    \<open>forw_input\<close>, and the locale \<open>dialog\<close> of runs and invariants.
  \<^item> \<open>FilterDlg\<close>, \<open>FilterInv\<close>, \<open>FilterRuns\<close>: \<open>config/filter.c\<close>; \<open>Forward\<close>: \<open>config/forward.c\<close>; \<open>IfCfg\<close>:
    \<open>config/ifcon.c\<close>. The state of each is the record of the variables of its loop; the lemmas give its invariant,
    what the screen shows, that it ends, and that it has recorded the rule of the boxes last drawn and the lines last
    typed when it does.
  \<^item> \<open>Devices\<close>: \<open>config/db.c\<close>, an interpretation of the locale \<open>device_table\<close>. \<open>NatCtl\<close>: \<open>config/nat.c\<close>.
    \<open>Menus\<close>: \<open>fwmenu.c\<close>, \<open>devices.c\<close>, \<open>menu.c\<close> and \<open>sum.c\<close>. \<open>Monitor\<close>: \<open>mon.c\<close>, with the 4096 bytes of its buffer
    and what lies behind a packet as parameters. \<open>Passwd\<close>: \<open>src/closedbsd/passwd\<close>. \<open>BootInit\<close>: \<open>src/closedbsd/init\<close>.
  \<^item> \<open>Ipfw\<close>, \<open>IpfwMain\<close>, \<open>IpfwProps\<close>, \<open>IpfwShow\<close>, \<open>IpfwList\<close>, \<open>IpfwLoop\<close>, \<open>IpfwPipe\<close>, \<open>IpfwPipeProps\<close>: \<open>sbin/ipfw/ipfw.c\<close>.
    Parsing of rules by \<open>add\<close>, all commands and options, the listing by \<open>show_ipfw\<close>, and the configuration of
    pipes; that a rule of the dialog is parsed as this rule, that an accepted rule is well formed, that a
    listed rule is read back, that the loop over the options ends, and the same for the options of a pipe; with the
    places where they differ, as the ICMP type of an echo request and the lower bounds of a pipe.
  \<^item> \<open>Natd\<close>, \<open>NatdRun\<close>, \<open>NatdProps\<close>: \<open>sbin/natd/natd.c\<close>, its options and configuration files, the redirections, and the
    loop over the packets; that it serves the divert rule, and loses no packet.
  \<^item> \<open>Ifconfig\<close>, \<open>IfconfigProps\<close>: \<open>sbin/ifconfig/ifconfig.c\<close>. \<open>Route\<close>, \<open>RouteProps\<close>: \<open>sbin/route/route.c\<close>.
    \<open>BootEffects\<close> composes them with the boot: what the four programs do for the saved settings.
  \<^item> \<open>PwdMkdb\<close>, \<open>PwdProps\<close>: \<open>usr.sbin/pwd_mkdb\<close>, which the password command runs; that it refines an abstract
    table of users, what it keeps when it fails and what a failed \<open>rename\<close> leaves, and that a new password is the one that
    logs in. Which calls of the system fail, and whether they leave \<open>errno\<close> as it is, is a record of parameters.
  \<^item> \<open>Tar\<close>, \<open>TarRead\<close>, \<open>TarProps\<close>, \<open>TarTrip\<close>: \<open>usr.bin/tar\<close>, which saves and restores \<open>/etc\<close>: headers, numbers in octal, long
    names, bodies in records; that what was saved is restored.

  \<^bold>\<open>Parameters.\<close> What is not under \<open>src\<close> is an argument. \<open>env\<close>: what can be written and what a shell command
  does to the files, with \<open>spares\<close> as the hypothesis that a command leaves a file alone. The user: the
  keys and strings of a dialog, where \<open>line_edit\<close> of libdialog leaves at most the characters it was
  told. \<open>junk\<close>, \<open>beyond\<close>, \<open>stale\<close>: what a buffer holds before it is written. \<open>netdb\<close>, \<open>if_env\<close>, \<open>rt_env\<close>, \<open>pipe_env\<close>:
  the names of hosts, services, protocols and networks, the interfaces, the values of \<open>sysctl\<close>, floating
  point and what the kernel accepts. \<open>mkdb_env\<close>: the calls of \<open>pwd_mkdb\<close> that fail. libalias: the calls are recorded, its answers a parameter. \<open>crypt\<close>, \<open>getpwnam\<close>,
  \<open>random\<close> and the time. \<open>kernel\<close>: the file system for \<open>tar\<close>, under \<open>fs_laws\<close>, which say what the manual
  says of \<open>open\<close>, \<open>mkdir\<close> and the others. Each property with such a hypothesis has a witness in which the
  parameter is a concrete function.

  \<^bold>\<open>Bounds.\<close> A port in a dialog has at most four characters and an address 127, the lengths the calls of
  \<open>line_edit\<close> give; commands are built in 256 bytes; the menu of the rules has 32 entries. \<open>ipfw\<close> has 10
  ports to a rule, 128 ICMP types and words of 32 bits. A configuration file of \<open>natd\<close> that includes itself
  never ends in the code: the model reads files to a depth that is an argument. \<open>insist\<close> of \<open>tar\<close> repeats a
  request once for each directory that was made, at most as often as the path has characters, which is
  proved to be enough under \<open>fs_laws\<close>. An archive is written in blocks of 20 records of 512 bytes, its length known
  when it is read. \<open>pwd_mkdb\<close> reads lines of at most 2047 characters.

  \<^bold>\<open>Not modelled.\<close> The gauge, the licence, the reboot and the window of \<open>pipe.c\<close> compute nothing; \<open>ask\<close> shows a
  help text. \<open>src/closedbsd/ipfwconfig\<close> and \<open>init/old\<close> are earlier copies of \<open>config\<close> and \<open>init\<close>. Of \<open>init\<close>: forks, signals and
  terminals. Of \<open>ipfw\<close>: the file of commands with its preprocessor, the listing of pipes and dynamic
  rules, the usage text. Of \<open>natd\<close>: becoming a daemon, the texts of \<open>-v\<close>, \<open>icmp.c\<close>. Of \<open>ifconfig\<close>: the status it
  prints, other families, media and vlans. Of \<open>route\<close>: \<open>monitor\<close>, other families, a gateway that is an
  interface, the texts of \<open>-v\<close>. Of \<open>tar\<close>: the options that the scripts do not use, sparse files, mangled names, volumes and
  incremental archives, a read that fails in the middle of a file; the compression is \<open>gzip\<close>. Of \<open>pwd_mkdb\<close>: the letters of
  its options, which are the fields of a record, the second round of opening, and an \<open>unlink\<close> that fails. The rest of \<open>bin\<close>, \<open>sbin\<close>, \<open>usr.bin\<close> and \<open>usr.sbin\<close> are unchanged
  imports of FreeBSD 4.5 and of GNU programs.
\<close>

end
